(* ===== verification/Prelude.thy ===== *)
theory Prelude
  imports Main "HOL-Library.Word"
begin

text \<open>
  The prelude of the development: the names of the C++ integer types, the collections of
  simplification rules the component theories share, and the generic lemmas on lists,
  folds and maps that do not belong to any one component.  No definition of this theory
  models code of the repository, except \<open>memcpy\<close>, which is the C library's.
\<close>

unbundle bit_operations_syntax

section \<open>Types and collections\<close>

type_synonym u8 = "8 word"
type_synonym u16 = "16 word"
type_synonym u32 = "32 word"
type_synonym u64 = "64 word"

text \<open>A byte buffer, and a buffer of the code's \<open>bool\<close> arrays.\<close>

type_synonym bytes = "u8 list"
type_synonym bits = "bool list"

named_theorems wire_simps "field access and layout of encoded headers and messages"
named_theorems buf_simps "reads of a buffer after writes, lengths of written buffers"
named_theorems frame_simps "record fields an operation leaves alone"

section \<open>Copying into a buffer\<close>

text \<open>
  \<open>memcpy(dst + off, src, length src)\<close>.  The copy is only meaningful where
  \<open>off + length src \<le> length dst\<close>; the lemmas say so.
\<close>

definition memcpy_at :: "'a list \<Rightarrow> nat \<Rightarrow> 'a list \<Rightarrow> 'a list" where
  "memcpy_at dst off src = take off dst @ src @ drop (off + length src) dst"

lemma length_memcpy_at [simp, buf_simps]:
  "off + length src \<le> length dst \<Longrightarrow> length (memcpy_at dst off src) = length dst"
  by (simp add: memcpy_at_def)

lemma memcpy_at_get [buf_simps]:
  "off + length src \<le> length dst \<Longrightarrow> take (length src) (drop off (memcpy_at dst off src)) = src"
  by (simp add: memcpy_at_def)

lemma memcpy_at_take [buf_simps]:
  "off + length src \<le> length dst \<Longrightarrow> n \<le> off \<Longrightarrow> take n (memcpy_at dst off src) = take n dst"
  by (simp add: memcpy_at_def)

lemma memcpy_at_nth:
  "off + length src \<le> length dst \<Longrightarrow> i < length dst \<Longrightarrow>
   memcpy_at dst off src ! i =
     (if off \<le> i \<and> i < off + length src then src ! (i - off) else dst ! i)"
  by (auto simp: memcpy_at_def nth_append not_less)

lemma memcpy_at_all: "length src = length dst \<Longrightarrow> memcpy_at dst 0 src = src"
  by (simp add: memcpy_at_def)

section \<open>Lists\<close>

lemma list_length_SucE:
  assumes "length xs = Suc n"
  obtains y ys where "xs = y # ys" "length ys = n"
  using assms by (cases xs) auto

lemma drop_as_nth: "i < length xs \<Longrightarrow> drop i xs = xs ! i # drop (Suc i) xs"
  by (simp add: Cons_nth_drop_Suc)

lemma take_drop_as_map:
  "off + n \<le> length xs \<Longrightarrow> take n (drop off xs) = map (\<lambda>i. xs ! (off + i)) [0..<n]"
  by (rule nth_equalityI) auto

lemma foldl_upt_invariant:
  assumes "P 0 s" and "\<And>i t. i < n \<Longrightarrow> P i t \<Longrightarrow> P (Suc i) (f t i)"
  shows "P n (foldl f s [0..<n])"
  using assms(2)
proof (induction n)
  case 0
  then show ?case using assms(1) by simp
next
  case (Suc n)
  then have "P n (foldl f s [0..<n])" by simp
  then have "P (Suc n) (f (foldl f s [0..<n]) n)" using Suc.prems by simp
  then show ?case by simp
qed

text \<open>
  A fold whose step is injective in the accumulator, as far as the projection \<open>g\<close> sees,
  keeps different accumulators different.  This is what makes a checksum register remember
  an earlier difference.
\<close>

lemma foldl_inj:
  assumes inj: "\<And>x a b. g (f a x) = g (f b x) \<Longrightarrow> g a = g b"
  shows "g (foldl f a xs) = g (foldl f b xs) \<Longrightarrow> g a = g b"
proof (induction xs arbitrary: a b)
  case Nil
  then show ?case by simp
next
  case (Cons x xs)
  have "g (foldl f (f a x) xs) = g (foldl f (f b x) xs)" using Cons.prems by simp
  then have "g (f a x) = g (f b x)" by (rule Cons.IH)
  then show ?case by (rule inj [where x = x])
qed

lemma foldl_one_differs:
  assumes inj: "\<And>x a b. g (f a x) = g (f b x) \<Longrightarrow> g a = g b"
    and sep: "\<And>a x y. g (f a x) = g (f a y) \<Longrightarrow> x = y"
    and i: "i < length xs" and x: "x \<noteq> xs ! i"
  shows "g (foldl f a (xs[i := x])) \<noteq> g (foldl f a xs)"
proof
  let ?p = "foldl f a (take i xs)"
  assume e: "g (foldl f a (xs[i := x])) = g (foldl f a xs)"
  have u: "xs[i := x] = take i xs @ x # drop (Suc i) xs"
    using i by (rule upd_conv_take_nth_drop)
  have v: "foldl f a xs = foldl f a (take i xs @ xs ! i # drop (Suc i) xs)"
    by (subst id_take_nth_drop [OF i]) (rule refl)
  have "g (foldl f (f ?p x) (drop (Suc i) xs)) = g (foldl f (f ?p (xs ! i)) (drop (Suc i) xs))"
    using e unfolding u v by simp
  then have "g (f ?p x) = g (f ?p (xs ! i))" by (rule foldl_inj [of g f, rotated]) (rule inj)
  then have "x = xs ! i" by (rule sep)
  then show False using x by simp
qed

text \<open>A counting loop that reads \<open>xs\<close> is a fold over a prefix of \<open>xs\<close>.\<close>

lemma foldl_nth_take:
  "n \<le> length xs \<Longrightarrow> foldl (\<lambda>s i. f s (xs ! i)) a [0..<n] = foldl f a (take n xs)"
proof (induction n)
  case 0
  then show ?case by simp
next
  case (Suc n)
  then show ?case by (simp add: take_Suc_conv_app_nth)
qed

section \<open>Walks of an unordered map\<close>

text \<open>
  \<open>std::unordered_map\<close> fixes no order for a range-based loop: a walk visits each key
  once.  An operation that loops over a map takes the walk as an argument, and its
  theorems hold for every list of keys that satisfies \<open>walk_of\<close>.
\<close>

definition walk_of :: "('k \<rightharpoonup> 'v) \<Rightarrow> 'k list \<Rightarrow> bool" where
  "walk_of m ks \<longleftrightarrow> distinct ks \<and> set ks = dom m"

lemma walk_of_distinct: "walk_of m ks \<Longrightarrow> distinct ks"
  by (simp add: walk_of_def)

lemma walk_of_set: "walk_of m ks \<Longrightarrow> set ks = dom m"
  by (simp add: walk_of_def)

lemma walk_of_mem: "walk_of m ks \<Longrightarrow> k \<in> set ks \<longleftrightarrow> (\<exists>v. m k = Some v)"
  by (auto simp: walk_of_def)

lemma walk_of_empty [simp]: "walk_of Map.empty []"
  by (simp add: walk_of_def)

section \<open>Words\<close>

lemma u8_bit_bound: "bit (x :: u8) n \<Longrightarrow> n < 8"
  using bit_imp_le_length [of x n] by simp

lemma less_8_cases:
  "(n :: nat) < 8 \<longleftrightarrow> n = 7 \<or> n = 6 \<or> n = 5 \<or> n = 4 \<or> n = 3 \<or> n = 2 \<or> n = 1 \<or> n = 0"
  by auto

lemma less_8E:
  assumes "(n :: nat) < 8"
  obtains "n = 0" | "n = 1" | "n = 2" | "n = 3" | "n = 4" | "n = 5" | "n = 6" | "n = 7"
  using assms by linarith

lemma u8_eqI:
  fixes x y :: u8
  assumes "bit x 0 = bit y 0" "bit x 1 = bit y 1" "bit x 2 = bit y 2" "bit x 3 = bit y 3"
    "bit x 4 = bit y 4" "bit x 5 = bit y 5" "bit x 6 = bit y 6" "bit x 7 = bit y 7"
  shows "x = y"
proof (rule bit_word_eqI)
  fix n
  assume "n < LENGTH(8)"
  then show "bit x n \<longleftrightarrow> bit y n" using assms by (auto simp: less_8_cases)
qed

end
