(* ===== verification/ByteUtils.thy ===== *)
theory ByteUtils
  imports Prelude
begin

text \<open>
  The bit and byte helpers of \<^verbatim>\<open>src/src/common/Utils.h\<close> and \<^verbatim>\<open>Utils.cpp\<close>: the
  \<open>READ_BIT\<close>/\<open>WRITE_BIT\<close> and \<open>__SET_UINT32\<close>-style macros and the static functions of class
  \<open>Utils\<close>.  A buffer is a list of bytes; the code's pointer arithmetic is an offset.  The
  lemmas relate every byte-level operation to the list of bits of the buffer
  (\<open>bits_of\<close>), which is the abstraction the checksum and codec theories work with.
  A write past the end of the list does nothing here and is undefined behaviour in C++;
  the theorems assume buffers that are long enough.
\<close>

section \<open>Bits of a byte\<close>

definition BIT_MASK_TABLE :: "u8 list" where
  "BIT_MASK_TABLE = [0x80, 0x40, 0x20, 0x10, 0x08, 0x04, 0x02, 0x01]"

definition byteToBitsBE :: "u8 \<Rightarrow> bits" where
  "byteToBitsBE byte =
     [byte AND 0x80 = 0x80, byte AND 0x40 = 0x40, byte AND 0x20 = 0x20, byte AND 0x10 = 0x10,
      byte AND 0x08 = 0x08, byte AND 0x04 = 0x04, byte AND 0x02 = 0x02, byte AND 0x01 = 0x01]"

definition byteToBitsLE :: "u8 \<Rightarrow> bits" where
  "byteToBitsLE byte =
     [byte AND 0x01 = 0x01, byte AND 0x02 = 0x02, byte AND 0x04 = 0x04, byte AND 0x08 = 0x08,
      byte AND 0x10 = 0x10, byte AND 0x20 = 0x20, byte AND 0x40 = 0x40, byte AND 0x80 = 0x80]"

definition bitsToByteBE :: "bits \<Rightarrow> u8" where
  "bitsToByteBE b =
     (if b ! 0 then 0x80 else 0) OR (if b ! 1 then 0x40 else 0) OR
     (if b ! 2 then 0x20 else 0) OR (if b ! 3 then 0x10 else 0) OR
     (if b ! 4 then 0x08 else 0) OR (if b ! 5 then 0x04 else 0) OR
     (if b ! 6 then 0x02 else 0) OR (if b ! 7 then 0x01 else 0)"

definition bitsToByteLE :: "bits \<Rightarrow> u8" where
  "bitsToByteLE b =
     (if b ! 0 then 0x01 else 0) OR (if b ! 1 then 0x02 else 0) OR
     (if b ! 2 then 0x04 else 0) OR (if b ! 3 then 0x08 else 0) OR
     (if b ! 4 then 0x10 else 0) OR (if b ! 5 then 0x20 else 0) OR
     (if b ! 6 then 0x40 else 0) OR (if b ! 7 then 0x80 else 0)"

text \<open>A mask test is a bit test.\<close>

lemma mask_test:
  fixes x :: u8
  shows "(x AND 0x80 = 0x80) = bit x 7" "(x AND 0x40 = 0x40) = bit x 6"
    "(x AND 0x20 = 0x20) = bit x 5" "(x AND 0x10 = 0x10) = bit x 4"
    "(x AND 0x08 = 0x08) = bit x 3" "(x AND 0x04 = 0x04) = bit x 2"
    "(x AND 0x02 = 0x02) = bit x 1" "(x AND 0x01 = 0x01) = bit x 0"
proof -
  have eq: "(x AND 2 ^ n = 2 ^ n) = bit x n" if "n < 8" for n
  proof -
    have "x AND 2 ^ n = (if bit x n then 2 ^ n else 0)"
      by (rule bit_word_eqI) (auto simp: bit_simps)
    moreover have "(2 :: u8) ^ n \<noteq> 0" using that by (auto simp: less_8_cases)
    ultimately show ?thesis by simp
  qed
  show "(x AND 0x80 = 0x80) = bit x 7" "(x AND 0x40 = 0x40) = bit x 6"
    "(x AND 0x20 = 0x20) = bit x 5" "(x AND 0x10 = 0x10) = bit x 4"
    "(x AND 0x08 = 0x08) = bit x 3" "(x AND 0x04 = 0x04) = bit x 2"
    "(x AND 0x02 = 0x02) = bit x 1" "(x AND 0x01 = 0x01) = bit x 0"
    using eq [of 7] eq [of 6] eq [of 5] eq [of 4] eq [of 3] eq [of 2] eq [of 1] eq [of 0]
    by (simp_all only: power_0 power_one_right) (simp_all add: numeral_2_eq_2)
qed

lemma byteToBitsBE_bits:
  "byteToBitsBE x = [bit x 7, bit x 6, bit x 5, bit x 4, bit x 3, bit x 2, bit x 1, bit x 0]"
  by (simp only: byteToBitsBE_def mask_test)

lemma byteToBitsLE_bits:
  "byteToBitsLE x = [bit x 0, bit x 1, bit x 2, bit x 3, bit x 4, bit x 5, bit x 6, bit x 7]"
  by (simp only: byteToBitsLE_def mask_test)

lemma length_byteToBitsBE [simp]: "length (byteToBitsBE x) = 8"
  by (simp add: byteToBitsBE_bits)

lemma byteToBitsBE_nth: "i < 8 \<Longrightarrow> byteToBitsBE x ! i = bit x (7 - i)"
  by (auto simp: byteToBitsBE_bits less_8_cases)

lemma byteToBitsLE_rev: "byteToBitsLE x = rev (byteToBitsBE x)"
  by (simp add: byteToBitsBE_bits byteToBitsLE_bits)

lemma mask_bits:
  "bit (if p then 0x80 else 0 :: u8) n = (p \<and> n = 7)"
  "bit (if p then 0x40 else 0 :: u8) n = (p \<and> n = 6)"
  "bit (if p then 0x20 else 0 :: u8) n = (p \<and> n = 5)"
  "bit (if p then 0x10 else 0 :: u8) n = (p \<and> n = 4)"
  "bit (if p then 0x08 else 0 :: u8) n = (p \<and> n = 3)"
  "bit (if p then 0x04 else 0 :: u8) n = (p \<and> n = 2)"
  "bit (if p then 0x02 else 0 :: u8) n = (p \<and> n = 1)"
  "bit (if p then 0x01 else 0 :: u8) n = (p \<and> n = 0)"
proof -
  have e: "bit (2 ^ k :: u8) n = (n = k \<and> k < 8)" for k by (auto simp: bit_simps)
  show "bit (if p then 0x80 else 0 :: u8) n = (p \<and> n = 7)" using e [of 7] by simp
  show "bit (if p then 0x40 else 0 :: u8) n = (p \<and> n = 6)" using e [of 6] by simp
  show "bit (if p then 0x20 else 0 :: u8) n = (p \<and> n = 5)" using e [of 5] by simp
  show "bit (if p then 0x10 else 0 :: u8) n = (p \<and> n = 4)" using e [of 4] by simp
  show "bit (if p then 0x08 else 0 :: u8) n = (p \<and> n = 3)" using e [of 3] by simp
  show "bit (if p then 0x04 else 0 :: u8) n = (p \<and> n = 2)" using e [of 2] by simp
  show "bit (if p then 0x02 else 0 :: u8) n = (p \<and> n = 1)" using e [of 1] by simp
  show "bit (if p then 0x01 else 0 :: u8) n = (p \<and> n = 0)" using e [of 0] by simp
qed

lemma bit_bitsToByteBE: "n < 8 \<Longrightarrow> bit (bitsToByteBE b) n = b ! (7 - n)"
  unfolding bitsToByteBE_def bit_or_iff mask_bits by (erule less_8E; hypsubst; simp)

lemma bit_bitsToByteLE: "n < 8 \<Longrightarrow> bit (bitsToByteLE b) n = b ! n"
  unfolding bitsToByteLE_def bit_or_iff mask_bits by (erule less_8E; hypsubst; simp)

lemma bits_8_expand:
  "length b = 8 \<Longrightarrow> b = [b ! 0, b ! 1, b ! 2, b ! 3, b ! 4, b ! 5, b ! 6, b ! 7]"
  by (rule nth_equalityI) (auto simp: less_8_cases)

lemma bitsToByteBE_byteToBitsBE [simp]: "bitsToByteBE (byteToBitsBE x) = x"
  by (rule u8_eqI) (simp_all add: bit_bitsToByteBE byteToBitsBE_bits)

lemma bitsToByteLE_byteToBitsLE [simp]: "bitsToByteLE (byteToBitsLE x) = x"
  by (rule u8_eqI) (simp_all add: bit_bitsToByteLE byteToBitsLE_bits)

lemma byteToBitsBE_bitsToByteBE [simp]: "length b = 8 \<Longrightarrow> byteToBitsBE (bitsToByteBE b) = b"
  by (rule nth_equalityI) (simp_all add: byteToBitsBE_nth bit_bitsToByteBE)

lemma bitsToByteBE_append [simp]: "length b = 8 \<Longrightarrow> bitsToByteBE (b @ c) = bitsToByteBE b"
  by (simp add: bitsToByteBE_def nth_append)

lemma byteToBitsBE_inj: "byteToBitsBE x = byteToBitsBE y \<longleftrightarrow> x = y"
  by (metis bitsToByteBE_byteToBitsBE)

section \<open>Bits of a buffer\<close>

text \<open>
  The macros of \<^verbatim>\<open>Utils.h\<close>: \<open>(i) >> 3\<close> is \<open>i div 8\<close> and \<open>(i) & 7\<close> is \<open>i mod 8\<close>.  The
  code only ever uses the value of \<open>READ_BIT\<close> as a truth value.
\<close>

definition READ_BIT :: "bytes \<Rightarrow> nat \<Rightarrow> u8" where
  "READ_BIT p i = (p ! (i div 8)) AND (BIT_MASK_TABLE ! (i mod 8))"

definition WRITE_BIT :: "bytes \<Rightarrow> nat \<Rightarrow> bool \<Rightarrow> bytes" where
  "WRITE_BIT p i b =
     p[i div 8 := (if b then (p ! (i div 8)) OR (BIT_MASK_TABLE ! (i mod 8))
                   else (p ! (i div 8)) AND NOT (BIT_MASK_TABLE ! (i mod 8)))]"

definition bits_of :: "bytes \<Rightarrow> bits" where
  "bits_of p = concat (map byteToBitsBE p)"

lemma length_bits_of [simp]: "length (bits_of p) = 8 * length p"
  by (induction p) (simp_all add: bits_of_def)

lemma bits_of_Nil [simp]: "bits_of [] = []"
  by (simp add: bits_of_def)

lemma bits_of_Cons [simp]: "bits_of (x # p) = byteToBitsBE x @ bits_of p"
  by (simp add: bits_of_def)

lemma bits_of_append [simp]: "bits_of (p @ q) = bits_of p @ bits_of q"
  by (simp add: bits_of_def)

lemma bits_of_nth: "i < 8 * length p \<Longrightarrow> bits_of p ! i = bit (p ! (i div 8)) (7 - i mod 8)"
proof (induction p arbitrary: i)
  case Nil
  then show ?case by simp
next
  case (Cons x p)
  show ?case
  proof (cases "i < 8")
    case True
    then show ?thesis by (simp add: nth_append byteToBitsBE_nth)
  next
    case False
    then obtain j where j: "i = 8 + j" by (metis le_add_diff_inverse not_less)
    with Cons.prems have "j < 8 * length p" by simp
    moreover have "i div 8 = Suc (j div 8)" "i mod 8 = j mod 8" using j by simp_all
    ultimately show ?thesis using Cons.IH [of j] j by (simp add: nth_append)
  qed
qed

lemma bits_of_inj: "bits_of p = bits_of q \<Longrightarrow> length p = length q \<Longrightarrow> p = q"
proof (induction p arbitrary: q)
  case Nil
  then show ?case by simp
next
  case (Cons x p)
  then show ?case by (cases q) (auto simp: byteToBitsBE_inj)
qed

lemma bits_of_take: "bits_of (take n p) = take (8 * n) (bits_of p)"
  by (induction p arbitrary: n) (auto simp: take_Cons split: nat.splits)

lemma bits_of_drop: "bits_of (drop n p) = drop (8 * n) (bits_of p)"
  by (induction p arbitrary: n) (auto simp: drop_Cons split: nat.splits)

lemma mask_table_bit: "i < 8 \<Longrightarrow> bit (BIT_MASK_TABLE ! i) n = (n = 7 - i)"
  using mask_bits [where p = True and n = n]
  unfolding BIT_MASK_TABLE_def by (elim less_8E; hypsubst; simp)

lemma READ_BIT_bit: "READ_BIT p i \<noteq> 0 \<longleftrightarrow> bit (p ! (i div 8)) (7 - i mod 8)"
proof -
  have "bit (READ_BIT p i) n = (bit (p ! (i div 8)) n \<and> n = 7 - i mod 8)" for n
    by (simp add: READ_BIT_def mask_table_bit bit_and_iff)
  then have "bit (READ_BIT p i) = (\<lambda>n. bit (p ! (i div 8)) n \<and> n = 7 - i mod 8)" by blast
  moreover have "READ_BIT p i = 0 \<longleftrightarrow> (\<forall>n. \<not> bit (READ_BIT p i) n)"
    using bit_eq_iff [of "READ_BIT p i" 0] u8_bit_bound by auto
  ultimately show ?thesis by auto
qed

lemma READ_BIT_bits_of: "i < 8 * length p \<Longrightarrow> READ_BIT p i \<noteq> 0 \<longleftrightarrow> bits_of p ! i"
  by (simp add: READ_BIT_bit bits_of_nth)

lemma length_WRITE_BIT [simp, buf_simps]: "length (WRITE_BIT p i b) = length p"
  by (simp add: WRITE_BIT_def)

lemma WRITE_BIT_bits_of:
  assumes "i < 8 * length p"
  shows "bits_of (WRITE_BIT p i b) = (bits_of p)[i := b]"
proof (rule nth_equalityI)
  fix j
  assume "j < length (bits_of (WRITE_BIT p i b))"
  then have j: "j < 8 * length p" by simp
  have i8: "i div 8 < length p" using assms by linarith
  have mod8: "i mod 8 < 8" "j mod 8 < 8" by simp_all
  have same: "i = j \<longleftrightarrow> i div 8 = j div 8 \<and> 7 - i mod 8 = 7 - j mod 8"
  proof
    assume "i div 8 = j div 8 \<and> 7 - i mod 8 = 7 - j mod 8"
    then have "i div 8 = j div 8" "i mod 8 = j mod 8" using mod8 by auto
    then show "i = j" by (metis div_mult_mod_eq)
  qed simp
  have "bits_of (WRITE_BIT p i b) ! j =
        bit (WRITE_BIT p i b ! (j div 8)) (7 - j mod 8)"
    using j by (simp add: bits_of_nth)
  also have "\<dots> = (if i = j then b else bit (p ! (j div 8)) (7 - j mod 8))"
    using i8 same
    by (auto simp: WRITE_BIT_def nth_list_update bit_or_iff bit_and_iff bit_not_iff mask_table_bit)
  also have "\<dots> = (bits_of p)[i := b] ! j"
    using j assms by (simp add: nth_list_update bits_of_nth)
  finally show "bits_of (WRITE_BIT p i b) ! j = (bits_of p)[i := b] ! j" .
qed simp

section \<open>getBits, setBits and the hex-bit helpers\<close>

text \<open>
  \<open>getBits\<close> copies the bits \<open>start..<stop\<close> of \<open>in\<close> to the front of \<open>out\<close>, \<open>setBits\<close> the
  front of \<open>in\<close> to \<open>start..<stop\<close> of \<open>out\<close>; both return the number of bits and the buffer.
\<close>

definition getBits :: "bytes \<Rightarrow> bytes \<Rightarrow> nat \<Rightarrow> nat \<Rightarrow> nat \<times> bytes" where
  "getBits inp out start stop =
     (stop - start,
      foldl (\<lambda>acc n. WRITE_BIT acc n (READ_BIT inp (start + n) \<noteq> 0)) out [0..<stop - start])"

definition getBitRange :: "bytes \<Rightarrow> bytes \<Rightarrow> nat \<Rightarrow> nat \<Rightarrow> nat \<times> bytes" where
  "getBitRange inp out start len = getBits inp out start (start + len)"

definition setBits :: "bytes \<Rightarrow> bytes \<Rightarrow> nat \<Rightarrow> nat \<Rightarrow> nat \<times> bytes" where
  "setBits inp out start stop =
     (stop - start,
      foldl (\<lambda>acc n. WRITE_BIT acc (start + n) (READ_BIT inp n \<noteq> 0)) out [0..<stop - start])"

definition setBitRange :: "bytes \<Rightarrow> bytes \<Rightarrow> nat \<Rightarrow> nat \<Rightarrow> nat \<times> bytes" where
  "setBitRange inp out start len = setBits inp out start (start + len)"

text \<open>Writing a run of bits is one \<open>memcpy_at\<close> on the bit list.\<close>

lemma write_bits_run:
  assumes "start + length bs \<le> 8 * length p"
  shows "bits_of (foldl (\<lambda>acc n. WRITE_BIT acc (start + n) (bs ! n)) p [0..<length bs]) =
         memcpy_at (bits_of p) start bs"
proof -
  let ?f = "\<lambda>acc n. WRITE_BIT acc (start + n) (bs ! n)"
  let ?P = "\<lambda>n acc. length acc = length p \<and>
              bits_of acc = memcpy_at (bits_of p) start (take n bs)"
  have "?P (length bs) (foldl ?f p [0..<length bs])"
  proof (rule foldl_upt_invariant [where P = ?P])
    show "?P 0 p" by (simp add: memcpy_at_def)
  next
    fix n acc
    assume n: "n < length bs" and P: "?P n acc"
    then have "start + n < 8 * length acc" using assms by simp
    then have "bits_of (?f acc n) = (memcpy_at (bits_of p) start (take n bs))[start + n := bs ! n]"
      using P by (simp add: WRITE_BIT_bits_of)
    also have "\<dots> = memcpy_at (bits_of p) start (take (Suc n) bs)"
      using n assms
      by (intro nth_equalityI) (auto simp: nth_list_update memcpy_at_nth take_Suc_conv_app_nth nth_append)
    finally show "?P (Suc n) (?f acc n)" using P by simp
  qed
  then show ?thesis by simp
qed

lemma setBits_count [simp]: "fst (setBits inp out start stop) = stop - start"
  by (simp add: setBits_def)

lemma getBits_count [simp]: "fst (getBits inp out start stop) = stop - start"
  by (simp add: getBits_def)

lemma foldl_cong_upt:
  assumes "\<And>i s. i < n \<Longrightarrow> f s i = g s i"
  shows "foldl f s [0..<n] = foldl g s [0..<n]"
  using assms by (intro foldl_cong) auto

lemma setBits_bits_of:
  assumes "start \<le> stop" "stop \<le> 8 * length out" "stop - start \<le> 8 * length inp"
  shows "bits_of (snd (setBits inp out start stop)) =
         memcpy_at (bits_of out) start (take (stop - start) (bits_of inp))"
proof -
  let ?bs = "take (stop - start) (bits_of inp)"
  have len: "length ?bs = stop - start" using assms by simp
  have "snd (setBits inp out start stop) =
        foldl (\<lambda>acc n. WRITE_BIT acc (start + n) (?bs ! n)) out [0..<length ?bs]"
    unfolding setBits_def len snd_conv
    using assms by (intro foldl_cong_upt) (simp add: READ_BIT_bits_of)
  then show ?thesis using write_bits_run [of start ?bs out] len assms by simp
qed

lemma getBits_bits_of:
  assumes "start \<le> stop" "stop \<le> 8 * length inp" "stop - start \<le> 8 * length out"
  shows "bits_of (snd (getBits inp out start stop)) =
         memcpy_at (bits_of out) 0 (take (stop - start) (drop start (bits_of inp)))"
proof -
  let ?bs = "take (stop - start) (drop start (bits_of inp))"
  have len: "length ?bs = stop - start" using assms by simp
  have "snd (getBits inp out start stop) =
        foldl (\<lambda>acc n. WRITE_BIT acc (0 + n) (?bs ! n)) out [0..<length ?bs]"
    unfolding getBits_def len snd_conv
    using assms by (intro foldl_cong_upt) (simp add: READ_BIT_bits_of)
  then show ?thesis using write_bits_run [of 0 ?bs out] len assms by simp
qed

lemma length_foldl_WRITE_BIT [simp]:
  "length (foldl (\<lambda>acc n. WRITE_BIT acc (g n) (h n)) p ns) = length p"
  by (induction ns arbitrary: p) simp_all

lemma length_setBits [simp]: "length (snd (setBits inp out start stop)) = length out"
  by (simp add: setBits_def)

lemma length_getBits [simp]: "length (snd (getBits inp out start stop)) = length out"
  by (simp add: getBits_def)

definition bin2Hex :: "bytes \<Rightarrow> nat \<Rightarrow> u8" where
  "bin2Hex inp offset =
     (if READ_BIT inp (offset + 0) \<noteq> 0 then 0x20 else 0) OR
     (if READ_BIT inp (offset + 1) \<noteq> 0 then 0x10 else 0) OR
     (if READ_BIT inp (offset + 2) \<noteq> 0 then 0x08 else 0) OR
     (if READ_BIT inp (offset + 3) \<noteq> 0 then 0x04 else 0) OR
     (if READ_BIT inp (offset + 4) \<noteq> 0 then 0x02 else 0) OR
     (if READ_BIT inp (offset + 5) \<noteq> 0 then 0x01 else 0)"

definition hex2Bin :: "u8 \<Rightarrow> bytes \<Rightarrow> nat \<Rightarrow> bytes" where
  "hex2Bin inp out offset =
     (let o0 = WRITE_BIT out (offset + 0) (inp AND 0x20 \<noteq> 0);
          o1 = WRITE_BIT o0 (offset + 1) (inp AND 0x10 \<noteq> 0);
          o2 = WRITE_BIT o1 (offset + 2) (inp AND 0x08 \<noteq> 0);
          o3 = WRITE_BIT o2 (offset + 3) (inp AND 0x04 \<noteq> 0);
          o4 = WRITE_BIT o3 (offset + 4) (inp AND 0x02 \<noteq> 0)
      in WRITE_BIT o4 (offset + 5) (inp AND 0x01 \<noteq> 0))"

lemma bin2Hex_bits:
  assumes "offset + 6 \<le> 8 * length inp"
  shows "byteToBitsBE (bin2Hex inp offset) = [False, False] @ take 6 (drop offset (bits_of inp))"
proof -
  have "take 6 (drop offset (bits_of inp)) = map (\<lambda>i. bits_of inp ! (offset + i)) [0..<6]"
    using assms by (intro take_drop_as_map) simp
  also have "\<dots> = map (\<lambda>i. READ_BIT inp (offset + i) \<noteq> 0) [0..<6]"
    using assms by (simp add: READ_BIT_bits_of)
  also have "\<dots> = map (\<lambda>n. READ_BIT inp (offset + n) \<noteq> 0) [0, 1, 2, 3, 4, 5]"
    by (simp add: upt_conv_Cons flip: One_nat_def)
  finally have "take 6 (drop offset (bits_of inp)) =
    [READ_BIT inp (offset + 0) \<noteq> 0, READ_BIT inp (offset + 1) \<noteq> 0, READ_BIT inp (offset + 2) \<noteq> 0,
     READ_BIT inp (offset + 3) \<noteq> 0, READ_BIT inp (offset + 4) \<noteq> 0, READ_BIT inp (offset + 5) \<noteq> 0]"
    by (simp only: list.map)
  then show ?thesis
    unfolding byteToBitsBE_bits bin2Hex_def bit_or_iff mask_bits by simp
qed

lemma mask_nonzero:
  fixes x :: u8
  shows "(x AND 0x20 \<noteq> 0) = bit x 5" "(x AND 0x10 \<noteq> 0) = bit x 4"
    "(x AND 0x08 \<noteq> 0) = bit x 3" "(x AND 0x04 \<noteq> 0) = bit x 2"
    "(x AND 0x02 \<noteq> 0) = bit x 1" "(x AND 0x01 \<noteq> 0) = bit x 0"
    "(x AND 0x80 \<noteq> 0) = bit x 7" "(x AND 0x40 \<noteq> 0) = bit x 6"
proof -
  have eq: "(x AND 2 ^ n \<noteq> 0) = bit x n" if "n < 8" for n
  proof -
    have "x AND 2 ^ n = (if bit x n then 2 ^ n else 0)"
      by (rule bit_word_eqI) (auto simp: bit_simps)
    moreover have "(2 :: u8) ^ n \<noteq> 0" using that by (auto simp: less_8_cases)
    ultimately show ?thesis by simp
  qed
  show "(x AND 0x20 \<noteq> 0) = bit x 5" using eq [of 5] by simp
  show "(x AND 0x10 \<noteq> 0) = bit x 4" using eq [of 4] by simp
  show "(x AND 0x08 \<noteq> 0) = bit x 3" using eq [of 3] by simp
  show "(x AND 0x04 \<noteq> 0) = bit x 2" using eq [of 2] by simp
  show "(x AND 0x02 \<noteq> 0) = bit x 1" using eq [of 1] by simp
  show "(x AND 0x01 \<noteq> 0) = bit x 0" using eq [of 0] by simp
  show "(x AND 0x80 \<noteq> 0) = bit x 7" using eq [of 7] by simp
  show "(x AND 0x40 \<noteq> 0) = bit x 6" using eq [of 6] by simp
qed

lemma length_hex2Bin [simp]: "length (hex2Bin inp out offset) = length out"
  by (simp add: hex2Bin_def Let_def)

lemma hex2Bin_bits_of:
  assumes "offset + 6 \<le> 8 * length out"
  shows "bits_of (hex2Bin inp out offset) =
         memcpy_at (bits_of out) offset (drop 2 (byteToBitsBE inp))"
proof -
  let ?B = "(bits_of out)[offset := bit inp 5, offset + 1 := bit inp 4, offset + 2 := bit inp 3,
              offset + 3 := bit inp 2, offset + 4 := bit inp 1, offset + 5 := bit inp 0]"
  have "bits_of (hex2Bin inp out offset) = ?B"
    using assms by (simp add: hex2Bin_def Let_def WRITE_BIT_bits_of mask_nonzero)
  also have "\<dots> = memcpy_at (bits_of out) offset (drop 2 (byteToBitsBE inp))"
  proof (rule nth_equalityI)
    fix i assume "i < length ?B"
    then have i: "i < 8 * length out" by simp
    consider "i < offset \<or> offset + 6 \<le> i" | "i = offset" | "i = offset + 1" | "i = offset + 2"
      | "i = offset + 3" | "i = offset + 4" | "i = offset + 5" by linarith
    then show "?B ! i = memcpy_at (bits_of out) offset (drop 2 (byteToBitsBE inp)) ! i"
      using i assms by cases (auto simp: memcpy_at_nth byteToBitsBE_bits)
  qed (use assms in simp)
  finally show ?thesis .
qed

section \<open>Counting bits\<close>

text \<open>\<open>BITS_TABLE\<close> is built by the nested macros \<open>B2\<close>, \<open>B4\<close> and \<open>B6\<close>.\<close>

definition B2 :: "u8 \<Rightarrow> u8 list" where
  "B2 n = [n, n + 1, n + 1, n + 2]"

definition B4 :: "u8 \<Rightarrow> u8 list" where
  "B4 n = B2 n @ B2 (n + 1) @ B2 (n + 1) @ B2 (n + 2)"

definition B6 :: "u8 \<Rightarrow> u8 list" where
  "B6 n = B4 n @ B4 (n + 1) @ B4 (n + 1) @ B4 (n + 2)"

definition BITS_TABLE :: "u8 list" where
  "BITS_TABLE = B6 0 @ B6 1 @ B6 1 @ B6 2"

definition countBits8 :: "u8 \<Rightarrow> u8" where
  "countBits8 b = BITS_TABLE ! unat b"

text \<open>
  \<open>countBits32\<close> and \<open>countBits64\<close> read the value through a byte pointer, on the
  little-endian hosts the program runs on.
\<close>

definition countBits32 :: "u32 \<Rightarrow> u8" where
  "countBits32 b =
     0 + BITS_TABLE ! unat (ucast b :: u8) + BITS_TABLE ! unat (ucast (drop_bit 8 b) :: u8)
       + BITS_TABLE ! unat (ucast (drop_bit 16 b) :: u8)
       + BITS_TABLE ! unat (ucast (drop_bit 24 b) :: u8)"

definition countBits64 :: "u64 \<Rightarrow> u8" where
  "countBits64 b =
     0 + BITS_TABLE ! unat (ucast b :: u8) + BITS_TABLE ! unat (ucast (drop_bit 8 b) :: u8)
       + BITS_TABLE ! unat (ucast (drop_bit 16 b) :: u8)
       + BITS_TABLE ! unat (ucast (drop_bit 24 b) :: u8)
       + BITS_TABLE ! unat (ucast (drop_bit 32 b) :: u8)
       + BITS_TABLE ! unat (ucast (drop_bit 40 b) :: u8)
       + BITS_TABLE ! unat (ucast (drop_bit 48 b) :: u8)
       + BITS_TABLE ! unat (ucast (drop_bit 56 b) :: u8)"

definition reverseEndian16 :: "u16 \<Rightarrow> u16" where
  "reverseEndian16 v = (push_bit 8 v AND 0xFF00) OR drop_bit 8 v"

definition reverseEndian32 :: "u32 \<Rightarrow> u32" where
  "reverseEndian32 v =
     push_bit 24 v OR push_bit 8 (v AND 0xFF00) OR drop_bit 8 (v AND 0xFF0000) OR drop_bit 24 v"

definition reverseEndian64 :: "u64 \<Rightarrow> u64" where
  "reverseEndian64 v =
     push_bit 56 v OR push_bit 40 (v AND 0xFF00) OR push_bit 24 (v AND 0xFF0000) OR
     push_bit 8 (v AND 0xFF000000) OR drop_bit 8 (v AND 0xFF00000000) OR
     drop_bit 24 (v AND 0xFF0000000000) OR drop_bit 40 (v AND 0xFF000000000000) OR drop_bit 56 v"

section \<open>Big-endian integers in a buffer\<close>

text \<open>
  The macros \<open>__SET_UINT32\<close>, \<open>__GET_UINT32\<close>, the three-byte \<open>__SET_UINT16\<close>,
  \<open>__GET_UINT16\<close> (named 16 in the code, 24 bits wide) and the two-byte
  \<open>__SET_UINT16B\<close>, \<open>__GET_UINT16B\<close>.
\<close>

definition SET_UINT32 :: "u32 \<Rightarrow> bytes \<Rightarrow> nat \<Rightarrow> bytes" where
  "SET_UINT32 v buf off =
     buf[0 + off := ucast (drop_bit 24 v AND 0xFF), 1 + off := ucast (drop_bit 16 v AND 0xFF),
         2 + off := ucast (drop_bit 8 v AND 0xFF), 3 + off := ucast (drop_bit 0 v AND 0xFF)]"

definition GET_UINT32 :: "bytes \<Rightarrow> nat \<Rightarrow> u32" where
  "GET_UINT32 buf off =
     push_bit 24 (ucast (buf ! (off + 0))) OR push_bit 16 (ucast (buf ! (off + 1))) OR
     push_bit 8 (ucast (buf ! (off + 2))) OR push_bit 0 (ucast (buf ! (off + 3)))"

definition SET_UINT16 :: "u32 \<Rightarrow> bytes \<Rightarrow> nat \<Rightarrow> bytes" where
  "SET_UINT16 v buf off =
     buf[0 + off := ucast (drop_bit 16 v AND 0xFF), 1 + off := ucast (drop_bit 8 v AND 0xFF),
         2 + off := ucast (drop_bit 0 v AND 0xFF)]"

definition GET_UINT16 :: "bytes \<Rightarrow> nat \<Rightarrow> u32" where
  "GET_UINT16 buf off =
     push_bit 16 (ucast (buf ! (off + 0))) OR push_bit 8 (ucast (buf ! (off + 1))) OR
     push_bit 0 (ucast (buf ! (off + 2)))"

definition SET_UINT16B :: "u16 \<Rightarrow> bytes \<Rightarrow> nat \<Rightarrow> bytes" where
  "SET_UINT16B v buf off =
     buf[0 + off := ucast (drop_bit 8 v AND 0xFF), 1 + off := ucast (drop_bit 0 v AND 0xFF)]"

definition GET_UINT16B :: "bytes \<Rightarrow> nat \<Rightarrow> u16" where
  "GET_UINT16B buf off =
     (push_bit 8 (ucast (buf ! (off + 0))) AND 0xFF00) OR
     (push_bit 0 (ucast (buf ! (off + 1))) AND 0x00FF)"

lemma length_SET_UINT [simp, buf_simps]:
  "length (SET_UINT32 v buf off) = length buf" "length (SET_UINT16 w buf off) = length buf"
  "length (SET_UINT16B x buf off) = length buf"
  by (simp_all add: SET_UINT32_def SET_UINT16_def SET_UINT16B_def)

section \<open>Reading back what was written\<close>

lemma and_FF_32: "(ucast (x AND 0xFF :: u32) :: u8) = ucast x"
proof -
  have "(0xFF :: u32) = mask 8" by (simp add: mask_eq_exp_minus_1)
  then have "x AND 0xFF = take_bit 8 x" by (simp only: take_bit_eq_mask)
  then show ?thesis by (auto intro!: bit_word_eqI simp: bit_simps)
qed

lemma and_FF_16: "(ucast (x AND 0xFF :: u16) :: u8) = ucast x"
proof -
  have "(0xFF :: u16) = mask 8" by (simp add: mask_eq_exp_minus_1)
  then have "x AND 0xFF = take_bit 8 x" by (simp only: take_bit_eq_mask)
  then show ?thesis by (auto intro!: bit_word_eqI simp: bit_simps)
qed

lemma and_FF00_16: "(push_bit 8 (ucast (x :: u8)) :: u16) AND 0xFF00 = push_bit 8 (ucast x)"
proof -
  have m: "(0xFF00 :: u16) = push_bit 8 (mask 8)"
    by (simp add: mask_eq_exp_minus_1 push_bit_eq_mult)
  show ?thesis unfolding m push_bit_and [symmetric] take_bit_eq_mask [symmetric]
    by (rule bit_word_eqI) (auto simp: bit_simps dest: bit_imp_le_length)
qed

lemma and_00FF_16: "(ucast (x :: u8) :: u16) AND 0xFF = ucast x"
proof -
  have m: "(0xFF :: u16) = mask 8" by (simp add: mask_eq_exp_minus_1)
  show ?thesis unfolding m take_bit_eq_mask [symmetric]
    by (rule bit_word_eqI) (auto simp: bit_simps dest: bit_imp_le_length)
qed

lemma join32:
  "push_bit 24 (ucast (ucast (drop_bit 24 v) :: u8)) OR
   push_bit 16 (ucast (ucast (drop_bit 16 v) :: u8)) OR
   push_bit 8 (ucast (ucast (drop_bit 8 v) :: u8)) OR ucast (ucast v :: u8) = (v :: u32)"
  (is "?l = v")
proof (rule bit_word_eqI)
  fix n
  assume "n < LENGTH(32)"
  then consider "n < 8" | "8 \<le> n" "n < 16" | "16 \<le> n" "n < 24" | "24 \<le> n" "n < 32" by force
  then show "bit ?l n = bit v n" by cases (auto simp: bit_simps)
qed

lemma join24:
  "push_bit 16 (ucast (ucast (drop_bit 16 v) :: u8)) OR
   push_bit 8 (ucast (ucast (drop_bit 8 v) :: u8)) OR ucast (ucast v :: u8) =
   take_bit 24 (v :: u32)" (is "?l = ?r")
proof (rule bit_word_eqI)
  fix n
  assume "n < LENGTH(32)"
  then consider "n < 8" | "8 \<le> n" "n < 16" | "16 \<le> n" "n < 24" | "24 \<le> n" "n < 32" by force
  then show "bit ?l n = bit ?r n" by cases (auto simp: bit_simps)
qed

lemma join16:
  "push_bit 8 (ucast (ucast (drop_bit 8 v) :: u8)) OR ucast (ucast v :: u8) = (v :: u16)"
  (is "?l = v")
proof (rule bit_word_eqI)
  fix n
  assume "n < LENGTH(16)"
  then consider "n < 8" | "8 \<le> n" "n < 16" by force
  then show "bit ?l n = bit v n" by cases (auto simp: bit_simps)
qed

lemma GET_SET_UINT32 [buf_simps]:
  "off + 4 \<le> length buf \<Longrightarrow> GET_UINT32 (SET_UINT32 v buf off) off = v"
  by (simp add: GET_UINT32_def SET_UINT32_def and_FF_32 nth_list_update join32)

lemma GET_SET_UINT16 [buf_simps]:
  "off + 3 \<le> length buf \<Longrightarrow> GET_UINT16 (SET_UINT16 v buf off) off = take_bit 24 v"
  by (simp add: GET_UINT16_def SET_UINT16_def and_FF_32 nth_list_update join24)

lemma GET_SET_UINT16B [buf_simps]:
  "off + 2 \<le> length buf \<Longrightarrow> GET_UINT16B (SET_UINT16B v buf off) off = v"
  by (simp add: GET_UINT16B_def SET_UINT16B_def and_FF_16 nth_list_update join16
      and_FF00_16 and_00FF_16)

text \<open>A read of one field is not disturbed by a write of another.\<close>

lemma SET_UINT32_nth [buf_simps]:
  "i < off \<or> off + 4 \<le> i \<Longrightarrow> SET_UINT32 v buf off ! i = buf ! i"
  by (auto simp: SET_UINT32_def)

lemma SET_UINT16_nth [buf_simps]:
  "i < off \<or> off + 3 \<le> i \<Longrightarrow> SET_UINT16 v buf off ! i = buf ! i"
  by (auto simp: SET_UINT16_def)

lemma SET_UINT16B_nth [buf_simps]:
  "i < off \<or> off + 2 \<le> i \<Longrightarrow> SET_UINT16B v buf off ! i = buf ! i"
  by (auto simp: SET_UINT16B_def)

lemma GET_UINT32_cong:
  "(\<And>i. off \<le> i \<Longrightarrow> i < off + 4 \<Longrightarrow> b ! i = c ! i) \<Longrightarrow> GET_UINT32 b off = GET_UINT32 c off"
  by (simp add: GET_UINT32_def)

lemma GET_UINT16_cong:
  "(\<And>i. off \<le> i \<Longrightarrow> i < off + 3 \<Longrightarrow> b ! i = c ! i) \<Longrightarrow> GET_UINT16 b off = GET_UINT16 c off"
  by (simp add: GET_UINT16_def)

lemma GET_UINT16B_cong:
  "(\<And>i. off \<le> i \<Longrightarrow> i < off + 2 \<Longrightarrow> b ! i = c ! i) \<Longrightarrow> GET_UINT16B b off = GET_UINT16B c off"
  by (simp add: GET_UINT16B_def)

section \<open>The population count table\<close>

lemma BITS_TABLE_popcount:
  "list_all (\<lambda>n. BITS_TABLE ! n = of_nat (length (filter id (byteToBitsBE (of_nat n))))) [0..<256]"
  by code_simp

lemma countBits8_popcount: "countBits8 b = of_nat (length (filter id (byteToBitsBE b)))"
proof -
  have "unat b < 256" using unsigned_less [of b, where 'a = nat] by simp
  then show ?thesis using BITS_TABLE_popcount by (auto simp: list_all_iff countBits8_def)
qed

end
