(* ===== verification/Timer.thy ===== *)
theory Timer
  imports Prelude
begin

text \<open>
  The tick timer of \<^verbatim>\<open>src/src/common/Timer.h\<close> and \<^verbatim>\<open>Timer.cpp\<close>, and the arithmetic of
  \<^verbatim>\<open>StopWatch.cpp\<close>.  All fields are 32-bit and wrap as in the code; \<open>m_timer = 0\<close> means
  "not running".  \<open>ticks_run\<close> is the specification: a timer started with timeout
  \<open>t\<close> has expired exactly when the ticks clocked since have reached \<open>t\<close>.
\<close>

section \<open>State and operations\<close>

record timer =
  m_ticksPerSec :: u32
  m_timeout :: u32
  m_timer :: u32
  m_paused :: bool

definition timeout_of :: "u32 \<Rightarrow> u32 \<Rightarrow> u32 \<Rightarrow> u32" where
  "timeout_of ticksPerSec secs msecs =
     (let temp = (ucast secs * 1000 + ucast msecs) * (ucast ticksPerSec :: u64)
      in ucast (temp div 1000 + 1))"

text \<open>The two constructors; the second asserts \<open>ticksPerSec > 0\<close>.\<close>

definition new_timer :: timer where
  "new_timer = \<lparr>m_ticksPerSec = 1000, m_timeout = 0, m_timer = 0, m_paused = False\<rparr>"

definition new_timer_of :: "u32 \<Rightarrow> u32 \<Rightarrow> u32 \<Rightarrow> timer option" where
  "new_timer_of ticksPerSec secs msecs =
     (if ticksPerSec > 0
      then Some \<lparr>m_ticksPerSec = ticksPerSec,
                 m_timeout = (if secs > 0 \<or> msecs > 0 then timeout_of ticksPerSec secs msecs else 0),
                 m_timer = 0, m_paused = False\<rparr>
      else None)"

definition setTimeout :: "u32 \<Rightarrow> u32 \<Rightarrow> timer \<Rightarrow> timer" where
  "setTimeout secs msecs t =
     (if secs > 0 \<or> msecs > 0
      then t\<lparr>m_timeout := timeout_of (m_ticksPerSec t) secs msecs\<rparr>
      else t\<lparr>m_timeout := 0, m_timer := 0\<rparr>)"

definition getTimeout :: "timer \<Rightarrow> u32" where
  "getTimeout t = (if m_timeout t = 0 then 0 else (m_timeout t - 1) div m_ticksPerSec t)"

definition getTimer :: "timer \<Rightarrow> u32" where
  "getTimer t = (if m_timer t = 0 then 0 else (m_timer t - 1) div m_ticksPerSec t)"

definition getRemaining :: "timer \<Rightarrow> u32" where
  "getRemaining t =
     (if m_timeout t = 0 \<or> m_timer t = 0 then 0
      else if m_timer t \<ge> m_timeout t then 0
      else (m_timeout t - m_timer t) div m_ticksPerSec t)"

definition isRunning :: "timer \<Rightarrow> bool" where
  "isRunning t = (m_timer t > 0)"

definition isPaused :: "timer \<Rightarrow> bool" where
  "isPaused t = m_paused t"

definition timerStart :: "timer \<Rightarrow> timer" where
  "timerStart t = (if m_timeout t > 0 then t\<lparr>m_timer := 1\<rparr> else t)\<lparr>m_paused := False\<rparr>"

definition timerStartFor :: "u32 \<Rightarrow> u32 \<Rightarrow> timer \<Rightarrow> timer" where
  "timerStartFor secs msecs t = timerStart (setTimeout secs msecs t)"

definition timerStop :: "timer \<Rightarrow> timer" where
  "timerStop t = t\<lparr>m_timer := 0, m_paused := False\<rparr>"

definition timerPause :: "timer \<Rightarrow> timer" where
  "timerPause t = t\<lparr>m_paused := True\<rparr>"

definition timerResume :: "timer \<Rightarrow> timer" where
  "timerResume t = t\<lparr>m_paused := False\<rparr>"

definition hasExpired :: "timer \<Rightarrow> bool" where
  "hasExpired t =
     (if m_timeout t = 0 \<or> m_timer t = 0 then False
      else if m_timer t \<ge> m_timeout t then True else False)"

definition timerClock :: "u32 \<Rightarrow> timer \<Rightarrow> timer" where
  "timerClock ticks t =
     (if m_paused t then t
      else if m_timer t > 0 \<and> m_timeout t > 0 then t\<lparr>m_timer := m_timer t + ticks\<rparr>
      else t)"

text \<open>The stopwatch: the two readings of the monotonic clock are arguments.\<close>

definition monotonic_ms :: "u64 \<Rightarrow> u64 \<Rightarrow> u64" where
  "monotonic_ms tv_sec tv_nsec = tv_sec * 1000 + tv_nsec div 1000000"

definition stopwatch_elapsed :: "u64 \<Rightarrow> u64 \<Rightarrow> u64 \<Rightarrow> u32" where
  "stopwatch_elapsed m_startMS tv_sec tv_nsec = ucast (monotonic_ms tv_sec tv_nsec - m_startMS)"

section \<open>Basic facts\<close>

lemma clock_simps [simp, frame_simps]:
  "m_timeout (timerClock n t) = m_timeout t" "m_paused (timerClock n t) = m_paused t"
  "m_ticksPerSec (timerClock n t) = m_ticksPerSec t"
  by (simp_all add: timerClock_def)

lemma start_simps [simp, frame_simps]:
  "m_timeout (timerStart t) = m_timeout t" "m_paused (timerStart t) = False"
  "m_ticksPerSec (timerStart t) = m_ticksPerSec t"
  by (simp_all add: timerStart_def)

lemma hasExpired_iff: "hasExpired t \<longleftrightarrow> m_timeout t \<noteq> 0 \<and> m_timer t \<noteq> 0 \<and> m_timeout t \<le> m_timer t"
  by (auto simp: hasExpired_def)

lemma hasExpired_isRunning: "hasExpired t \<Longrightarrow> isRunning t"
  by (auto simp: hasExpired_def isRunning_def word_gt_0)

lemma stop_not_running [simp]: "isRunning (timerStop t) = False"
  by (simp add: timerStop_def isRunning_def)

lemma clock_stopped [simp]: "\<not> isRunning t \<Longrightarrow> timerClock n t = t"
  by (simp add: timerClock_def isRunning_def)

lemma pause_freezes: "timerClock n (timerPause t) = timerPause t"
  by (simp add: timerClock_def timerPause_def)

text \<open>
  The 64-bit intermediate of the timeout never wraps, so the only wrap is in the final
  truncation, which does not happen below \<open>2 ^ 32\<close> ticks.
\<close>

lemma timeout_of_unat:
  assumes "((unat secs * 1000 + unat msecs) * unat tps) div 1000 + 1 < 2 ^ 32"
    and "(unat secs * 1000 + unat msecs) * unat tps < 2 ^ 64"
  shows "unat (timeout_of tps secs msecs) = ((unat secs * 1000 + unat msecs) * unat tps) div 1000 + 1"
proof -
  let ?a = "(ucast secs * 1000 + ucast msecs) :: u64"
  have s: "unat secs < 2 ^ 32" "unat msecs < 2 ^ 32"
    using unsigned_less [of secs, where 'a = nat] unsigned_less [of msecs, where 'a = nat] by simp_all
  have a: "unat ?a = unat secs * 1000 + unat msecs"
    using s by (simp add: unat_word_ariths unsigned_ucast_eq take_bit_nat_eq_self)
  have b: "unat (?a * ucast tps) = (unat secs * 1000 + unat msecs) * unat tps"
    using assms(2) unsigned_less [of tps, where 'a = nat]
    by (subst unat_mult_lem [THEN iffD1]) (simp_all add: a unsigned_ucast_eq take_bit_nat_eq_self)
  have c: "unat (?a * ucast tps div 1000) = ((unat secs * 1000 + unat msecs) * unat tps) div 1000"
    by (simp add: unat_div b)
  have d: "unat (?a * ucast tps div 1000 + 1) =
           ((unat secs * 1000 + unat msecs) * unat tps) div 1000 + 1"
    using assms(1) by (subst unat_add_lem [THEN iffD1]) (simp_all add: c)
  show ?thesis
    unfolding timeout_of_def Let_def unsigned_ucast_eq d
    using assms(1) by (simp add: take_bit_nat_eq_self)
qed

section \<open>The timer specification\<close>

text \<open>The sum of the ticks clocked, as an unbounded number.\<close>

definition ticks_sum :: "u32 list \<Rightarrow> nat" where
  "ticks_sum ns = sum_list (map unat ns)"

lemma clock_running:
  assumes "\<not> m_paused t" "m_timer t > 0" "m_timeout t > 0" "unat (m_timer t) + ticks_sum ns < 2 ^ 32"
  shows "unat (m_timer (foldl (\<lambda>s n. timerClock n s) t ns)) = unat (m_timer t) + ticks_sum ns"
  using assms
proof (induction ns arbitrary: t)
  case Nil
  then show ?case by (simp add: ticks_sum_def)
next
  case (Cons n ns)
  let ?t = "timerClock n t"
  have m: "m_timer ?t = m_timer t + n" using Cons.prems by (simp add: timerClock_def)
  have u: "unat (m_timer ?t) = unat (m_timer t) + unat n"
    using Cons.prems(4) unfolding m by (subst unat_add_lem [THEN iffD1]) (simp_all add: ticks_sum_def)
  moreover have "m_timer ?t > 0"
    using u Cons.prems(2) by (simp add: word_less_nat_alt)
  ultimately show ?case using Cons.IH [of ?t] Cons.prems by (simp add: ticks_sum_def)
qed

lemma clocks_frame [simp, frame_simps]:
  "m_timeout (foldl (\<lambda>s n. timerClock n s) t ns) = m_timeout t"
  "m_paused (foldl (\<lambda>s n. timerClock n s) t ns) = m_paused t"
  by (induction ns arbitrary: t) simp_all

lemma started_expires_iff:
  assumes "m_timeout t > 0" "ticks_sum ns + 1 < 2 ^ 32"
  shows "hasExpired (foldl (\<lambda>s n. timerClock n s) (timerStart t) ns) \<longleftrightarrow> unat (m_timeout t) \<le> ticks_sum ns + 1"
proof -
  let ?s = "foldl (\<lambda>s n. timerClock n s) (timerStart t) ns"
  have one: "m_timer (timerStart t) = 1" using assms(1) by (simp add: timerStart_def)
  have "unat (m_timer ?s) = ticks_sum ns + 1"
    using assms one by (subst clock_running) simp_all
  moreover from this have "m_timer ?s \<noteq> 0" by (metis add_is_0 one_neq_zero unat_0)
  ultimately show ?thesis using assms(1) by (auto simp: hasExpired_iff word_le_nat_alt word_gt_0)
qed

text \<open>
  C34. A timer of \<open>ticksPerSec\<close> ticks a second, started for \<open>secs\<close> and \<open>msecs\<close>, has expired
  exactly when the ticks clocked since amount to the configured time.
\<close>

theorem timer_expires_exactly:
  assumes "secs > 0 \<or> msecs > 0" "\<not> m_paused t"
    and "(unat secs * 1000 + unat msecs) * unat (m_ticksPerSec t) < 2 ^ 41"
    and "ticks_sum ns + 1 < 2 ^ 32"
  shows "hasExpired (foldl (\<lambda>s n. timerClock n s) (timerStartFor secs msecs t) ns) \<longleftrightarrow>
         (unat secs * 1000 + unat msecs) * unat (m_ticksPerSec t) div 1000 \<le> ticks_sum ns"
proof -
  let ?T = "(unat secs * 1000 + unat msecs) * unat (m_ticksPerSec t)"
  have to: "unat (m_timeout (setTimeout secs msecs t)) = ?T div 1000 + 1"
    using assms(1,3) by (simp add: setTimeout_def timeout_of_unat)
  then have "m_timeout (setTimeout secs msecs t) > 0"
    by (simp add: word_less_nat_alt)
  then show ?thesis
    using started_expires_iff [of "setTimeout secs msecs t" ns] assms(4) to
    by (simp add: timerStartFor_def)
qed

theorem timer_expires_exactly_witness:
  "hasExpired (foldl (\<lambda>s n. timerClock n s) (timerStartFor 5 500 new_timer) [3000, 2000, 500]) \<longleftrightarrow>
   (5 * 1000 + 500) * 1000 div 1000 \<le> (5500 :: nat)"
  using timer_expires_exactly [of 5 500 new_timer "[3000, 2000, 500]"]
  by (simp add: new_timer_def ticks_sum_def)

text \<open>
  What happens at the wrap: one clock that carries the counter past \<open>2 ^ 32\<close> exactly
  stops the timer as if \<open>timerStop\<close> had been called, and it never reports expiry.
\<close>

lemma clock_wrap_stops:
  "\<not> m_paused t \<Longrightarrow> m_timer t > 0 \<Longrightarrow> m_timeout t > 0 \<Longrightarrow> n = - m_timer t \<Longrightarrow>
   \<not> isRunning (timerClock n t) \<and> \<not> hasExpired (timerClock n t)"
  by (simp add: timerClock_def isRunning_def hasExpired_def)

end
