(* ===== verification/RingBuffer.thy ===== *)
theory RingBuffer
  imports Prelude
begin

text \<open>
  The circular buffer of \<^verbatim>\<open>src/src/common/RingBuffer.h\<close>.  The pointers and the length are
  \<open>uint32_t\<close> in the code; they are natural numbers here, because the invariant keeps both
  pointers below the length, so that no expression of the class wraps.  The contents of a
  buffer, oldest element first, is the abstraction \<open>contents\<close>; the locale \<open>fifo\<close>
  is the contract the frame queues rely on, and the end of the theory interprets it on
  the ring buffer.  Every law about adding has the side condition \<open>n < freeSpace\<close>:
  the code also accepts \<open>n = freeSpace\<close>, which makes the pointers meet and the whole
  buffer read as empty (\<open>addData_exact_fill\<close>).
\<close>

section \<open>State and operations\<close>

record 'a ring =
  rb_length :: nat
  rb_buffer :: "'a list"
  rb_iPtr :: nat
  rb_oPtr :: nat

definition new_ring :: "nat \<Rightarrow> 'a :: zero ring" where
  "new_ring len = \<lparr>rb_length = len, rb_buffer = replicate len 0, rb_iPtr = 0, rb_oPtr = 0\<rparr>"

definition clear :: "'a :: zero ring \<Rightarrow> 'a ring" where
  "clear r = r\<lparr>rb_iPtr := 0, rb_oPtr := 0, rb_buffer := replicate (rb_length r) 0\<rparr>"

definition resize :: "nat \<Rightarrow> 'a :: zero ring \<Rightarrow> 'a ring" where
  "resize len r = clear ((clear r)\<lparr>rb_length := len, rb_buffer := replicate len 0\<rparr>)"

definition freeSpace :: "'a ring \<Rightarrow> nat" where
  "freeSpace r =
     (let len = (if rb_oPtr r > rb_iPtr r then rb_oPtr r - rb_iPtr r
                 else if rb_iPtr r > rb_oPtr r then rb_length r - (rb_iPtr r - rb_oPtr r)
                 else rb_length r)
      in if len > rb_length r then 0 else len)"

definition dataSize :: "'a ring \<Rightarrow> nat" where
  "dataSize r = rb_length r - freeSpace r"

definition hasSpace :: "nat \<Rightarrow> 'a ring \<Rightarrow> bool" where
  "hasSpace len r = (freeSpace r > len)"

definition hasData :: "'a ring \<Rightarrow> bool" where
  "hasData r = (rb_oPtr r \<noteq> rb_iPtr r)"

definition isEmpty :: "'a ring \<Rightarrow> bool" where
  "isEmpty r = (rb_oPtr r = rb_iPtr r)"

text \<open>\<open>ptr++\<close> followed by the wrap at the length.\<close>

definition bump :: "nat \<Rightarrow> nat \<Rightarrow> nat" where
  "bump len ptr = (if ptr + 1 = len then 0 else ptr + 1)"

definition put1 :: "'a ring \<Rightarrow> 'a \<Rightarrow> 'a ring" where
  "put1 r x = r\<lparr>rb_buffer := (rb_buffer r)[rb_iPtr r := x], rb_iPtr := bump (rb_length r) (rb_iPtr r)\<rparr>"

definition addData :: "'a :: zero list \<Rightarrow> 'a ring \<Rightarrow> bool \<times> 'a ring" where
  "addData buffer r =
     (if length buffer > freeSpace r then (False, clear r) else (True, foldl put1 r buffer))"

text \<open>The read loop shared by \<open>get\<close> and \<open>peek\<close>: the elements and the final pointer.\<close>

fun readLoop :: "'a ring \<Rightarrow> nat \<Rightarrow> nat \<Rightarrow> 'a list \<times> nat" where
  "readLoop r ptr 0 = ([], ptr)"
| "readLoop r ptr (Suc n) =
     (let (xs, p) = readLoop r (bump (rb_length r) ptr) n in (rb_buffer r ! ptr # xs, p))"

text \<open>\<open>None\<close> is the code's \<open>false\<close>: nothing is written to the caller's buffer.\<close>

definition get :: "nat \<Rightarrow> 'a ring \<Rightarrow> 'a list option \<times> 'a ring" where
  "get len r =
     (if dataSize r < len then (None, r)
      else let (xs, p) = readLoop r (rb_oPtr r) len in (Some xs, r\<lparr>rb_oPtr := p\<rparr>))"

definition peek :: "nat \<Rightarrow> 'a ring \<Rightarrow> 'a list option" where
  "peek len r =
     (if dataSize r < len then None else Some (fst (readLoop r (rb_oPtr r) len)))"

section \<open>Invariant and contents\<close>

definition ring_ok :: "'a ring \<Rightarrow> bool" where
  "ring_ok r \<longleftrightarrow> 0 < rb_length r \<and> length (rb_buffer r) = rb_length r \<and>
     rb_iPtr r < rb_length r \<and> rb_oPtr r < rb_length r"

definition contents :: "'a ring \<Rightarrow> 'a list" where
  "contents r = map (\<lambda>i. rb_buffer r ! ((rb_oPtr r + i) mod rb_length r)) [0..<dataSize r]"

lemma ring_okE:
  assumes "ring_ok r"
  obtains "0 < rb_length r" "length (rb_buffer r) = rb_length r"
    "rb_iPtr r < rb_length r" "rb_oPtr r < rb_length r"
  using assms by (simp add: ring_ok_def)

lemma ring_ok_pos: "ring_ok r \<Longrightarrow> 0 < rb_length r"
  by (simp add: ring_ok_def)

lemma bump_mod: "p < n \<Longrightarrow> bump n p = Suc p mod n"
  by (auto simp: bump_def mod_Suc)

lemma bump_less: "p < n \<Longrightarrow> bump n p < n"
  by (auto simp: bump_def)

lemma dataSize_eq:
  "ring_ok r \<Longrightarrow> dataSize r = (if rb_oPtr r \<le> rb_iPtr r then rb_iPtr r - rb_oPtr r
                        else rb_length r - (rb_oPtr r - rb_iPtr r))"
  by (auto simp: dataSize_def freeSpace_def Let_def ring_ok_def)

lemma freeSpace_dataSize: "ring_ok r \<Longrightarrow> freeSpace r + dataSize r = rb_length r"
  by (auto simp: dataSize_def freeSpace_def Let_def ring_ok_def)

lemma freeSpace_positive: "ring_ok r \<Longrightarrow> 0 < freeSpace r"
  by (auto simp: freeSpace_def Let_def ring_ok_def)

lemma dataSize_less: "ring_ok r \<Longrightarrow> dataSize r < rb_length r"
  using freeSpace_dataSize freeSpace_positive by (metis less_add_same_cancel2)

lemma length_contents [simp]: "length (contents r) = dataSize r"
  by (simp add: contents_def)

lemma isEmpty_iff: "ring_ok r \<Longrightarrow> isEmpty r \<longleftrightarrow> contents r = []"
  by (auto simp: isEmpty_def contents_def dataSize_eq ring_ok_def)

lemma hasData_iff: "hasData r \<longleftrightarrow> \<not> isEmpty r"
  by (simp add: hasData_def isEmpty_def)

lemma iPtr_eq: "ring_ok r \<Longrightarrow> rb_iPtr r = (rb_oPtr r + dataSize r) mod rb_length r"
  by (auto simp: dataSize_eq ring_ok_def mod_if)

lemma new_ring_ok [simp]: "0 < n \<Longrightarrow> ring_ok (new_ring n)"
  by (simp add: ring_ok_def new_ring_def)

lemma new_ring_contents [simp]: "contents (new_ring n) = []"
  by (simp add: contents_def new_ring_def dataSize_def freeSpace_def)

lemma clear_ok [simp]: "ring_ok r \<Longrightarrow> ring_ok (clear r)"
  by (simp add: ring_ok_def clear_def)

lemma clear_contents [simp]: "contents (clear r) = []"
  by (simp add: contents_def clear_def dataSize_def freeSpace_def)

lemma clear_length [simp]: "rb_length (clear r) = rb_length r"
  by (simp add: clear_def)

lemma resize_ok [simp]: "0 < n \<Longrightarrow> ring_ok (resize n r)"
  by (simp add: resize_def ring_ok_def clear_def)

lemma resize_contents [simp]: "contents (resize n r) = []"
  by (simp add: resize_def)

lemma resize_length [simp]: "rb_length (resize n r) = n"
  by (simp add: resize_def clear_def)

section \<open>Adding\<close>

lemma put1_frame [simp, frame_simps]:
  "rb_length (put1 r x) = rb_length r" "rb_oPtr (put1 r x) = rb_oPtr r"
  by (simp_all add: put1_def)

lemma put1_ok [simp]: "ring_ok r \<Longrightarrow> ring_ok (put1 r x)"
  by (auto simp: ring_ok_def put1_def bump_def)

lemma puts_frame [simp, frame_simps]:
  "rb_length (foldl put1 r xs) = rb_length r" "rb_oPtr (foldl put1 r xs) = rb_oPtr r"
  by (induction xs arbitrary: r) simp_all

lemma puts_ok [simp]: "ring_ok r \<Longrightarrow> ring_ok (foldl put1 r xs)"
  by (induction xs arbitrary: r) simp_all

lemma puts_iPtr:
  "ring_ok r \<Longrightarrow> rb_iPtr (foldl put1 r xs) = (rb_iPtr r + length xs) mod rb_length r"
proof (induction xs arbitrary: r)
  case Nil
  then show ?case by (simp add: ring_ok_def)
next
  case (Cons x xs)
  then have "rb_iPtr (foldl put1 (put1 r x) xs) = (rb_iPtr (put1 r x) + length xs) mod rb_length r"
    by simp
  also have "rb_iPtr (put1 r x) = Suc (rb_iPtr r) mod rb_length r"
    using Cons.prems by (simp add: put1_def bump_mod ring_ok_def)
  finally show ?case by (simp add: mod_add_left_eq)
qed

lemma put1_dataSize:
  assumes "ring_ok r" "dataSize r + 1 < rb_length r"
  shows "dataSize (put1 r x) = dataSize r + 1"
proof -
  have i: "rb_iPtr (put1 r x) = bump (rb_length r) (rb_iPtr r)" by (simp add: put1_def)
  from assms(1) have b: "rb_iPtr r < rb_length r" "rb_oPtr r < rb_length r" "0 < rb_length r"
    by (simp_all add: ring_ok_def)
  show ?thesis
    using assms(2) b
    unfolding dataSize_eq [OF assms(1)] dataSize_eq [OF put1_ok [OF assms(1)]] i put1_frame bump_def
    by (auto split: if_splits)
qed

lemma put1_contents:
  assumes "ring_ok r" "dataSize r + 1 < rb_length r"
  shows "contents (put1 r x) = contents r @ [x]"
proof (rule nth_equalityI)
  show "length (contents (put1 r x)) = length (contents r @ [x])"
    using put1_dataSize [OF assms] by simp
next
  fix i
  assume "i < length (contents (put1 r x))"
  then have i: "i < dataSize r + 1" using put1_dataSize [OF assms] by simp
  let ?n = "rb_length r" and ?p = "(rb_oPtr r + i) mod rb_length r"
  have "contents (put1 r x) ! i = (rb_buffer r)[rb_iPtr r := x] ! ?p"
    using i unfolding contents_def put1_dataSize [OF assms] by (simp add: put1_def del: upt_Suc)
  also have "\<dots> = (contents r @ [x]) ! i"
  proof (cases "i = dataSize r")
    case True
    then have "?p = rb_iPtr r" using iPtr_eq [OF assms(1)] by simp
    then show ?thesis using True assms(1) by (auto simp: nth_append ring_ok_def)
  next
    case False
    then have lt: "i < dataSize r" using i by simp
    have "?p \<noteq> rb_iPtr r"
      using lt assms(1) dataSize_less [OF assms(1)] unfolding dataSize_eq [OF assms(1)]
      by (auto simp: ring_ok_def mod_if split: if_splits)
    then show ?thesis using lt by (simp add: nth_append contents_def)
  qed
  finally show "contents (put1 r x) ! i = (contents r @ [x]) ! i" .
qed

lemma puts_contents:
  "ring_ok r \<Longrightarrow> dataSize r + length xs < rb_length r \<Longrightarrow>
   contents (foldl put1 r xs) = contents r @ xs"
proof (induction xs arbitrary: r)
  case Nil
  then show ?case by simp
next
  case (Cons x xs)
  then have "dataSize (put1 r x) = dataSize r + 1" by (intro put1_dataSize) simp_all
  then show ?case using Cons by (simp add: put1_contents)
qed

lemma addData_ok [simp]: "ring_ok r \<Longrightarrow> ring_ok (snd (addData xs r))"
  by (simp add: addData_def)

lemma addData_length [simp, frame_simps]: "rb_length (snd (addData xs r)) = rb_length r"
  by (simp add: addData_def)

lemma addData_contents:
  "ring_ok r \<Longrightarrow> length xs < freeSpace r \<Longrightarrow>
   addData xs r = (True, foldl put1 r xs) \<and> contents (foldl put1 r xs) = contents r @ xs"
  using freeSpace_dataSize [of r] by (simp add: addData_def puts_contents)

lemma addData_overflow:
  "freeSpace r < length xs \<Longrightarrow> addData xs r = (False, clear r)"
  by (simp add: addData_def)

text \<open>Adding exactly \<open>freeSpace\<close> elements succeeds and loses everything stored.\<close>

lemma addData_exact_fill:
  assumes "ring_ok r" "length xs = freeSpace r"
  shows "fst (addData xs r) \<and> contents (snd (addData xs r)) = [] \<and>
         freeSpace (snd (addData xs r)) = rb_length r"
proof -
  let ?s = "foldl put1 r xs"
  have "rb_iPtr ?s = (rb_iPtr r + freeSpace r) mod rb_length r"
    using assms puts_iPtr by metis
  also have "\<dots> = (rb_oPtr r + dataSize r + freeSpace r) mod rb_length r"
    using iPtr_eq [OF assms(1)] by (simp add: mod_add_left_eq)
  also have "\<dots> = (rb_oPtr r + rb_length r) mod rb_length r"
    using freeSpace_dataSize [OF assms(1)] by (metis add.assoc add.commute)
  also have "\<dots> = rb_oPtr r" using assms(1) by (simp add: ring_ok_def)
  finally have "isEmpty ?s" by (simp add: isEmpty_def)
  moreover have "ring_ok ?s" using assms(1) by simp
  ultimately have "contents ?s = []" "dataSize ?s = 0"
    using isEmpty_iff length_contents by (metis, metis list.size(3))
  then show ?thesis
    using assms freeSpace_dataSize [OF \<open>ring_ok ?s\<close>] by (simp add: addData_def)
qed

section \<open>Reading\<close>

lemma readLoop_eq:
  "p < rb_length r \<Longrightarrow>
   readLoop r p n = (map (\<lambda>i. rb_buffer r ! ((p + i) mod rb_length r)) [0..<n], (p + n) mod rb_length r)"
proof (induction n arbitrary: p)
  case 0
  then show ?case by simp
next
  case (Suc n)
  let ?L = "rb_length r"
  have b: "bump ?L p = Suc p mod ?L" "bump ?L p < ?L"
    using Suc.prems by (simp_all add: bump_mod bump_less)
  have "map (\<lambda>i. rb_buffer r ! ((p + i) mod ?L)) [0..<Suc n] =
        rb_buffer r ! p # map (\<lambda>i. rb_buffer r ! ((p + Suc i) mod ?L)) [0..<n]"
    using Suc.prems by (simp add: upt_conv_Cons map_Suc_upt [symmetric] del: upt_Suc)
  moreover have "(bump ?L p + i) mod ?L = (p + Suc i) mod ?L" for i
    unfolding b by (simp add: mod_add_left_eq)
  ultimately show ?case using Suc.IH [OF b(2)] by (simp del: upt_Suc)
qed

lemma get_underflow: "dataSize r < n \<Longrightarrow> get n r = (None, r)"
  by (simp add: get_def)

lemma get_contents:
  assumes "ring_ok r" "n \<le> dataSize r"
  shows "\<exists>s. get n r = (Some (take n (contents r)), s) \<and> ring_ok s \<and>
             contents s = drop n (contents r) \<and> rb_length s = rb_length r"
proof -
  let ?L = "rb_length r"
  let ?s = "r\<lparr>rb_oPtr := (rb_oPtr r + n) mod ?L\<rparr>"
  have ok: "ring_ok ?s" using assms(1) by (simp add: ring_ok_def)
  have size: "dataSize ?s = dataSize r - n"
    using assms dataSize_less [OF assms(1)] unfolding dataSize_eq [OF ok] dataSize_eq [OF assms(1)]
    by (auto simp: ring_ok_def mod_if split: if_splits)
  have "get n r = (Some (take n (contents r)), ?s)"
    using assms by (simp add: get_def readLoop_eq ring_ok_def contents_def take_map)
  moreover have "contents ?s = drop n (contents r)"
    by (rule nth_equalityI) (use assms(2) size in \<open>auto simp: contents_def mod_add_left_eq add.assoc\<close>)
  ultimately show ?thesis using ok by simp
qed

lemma peek_contents:
  "ring_ok r \<Longrightarrow> peek n r = (if n \<le> dataSize r then Some (take n (contents r)) else None)"
  by (auto simp: peek_def readLoop_eq ring_ok_def contents_def take_map)

section \<open>The contract\<close>

text \<open>
  A first-in first-out store of elements: what the frame queues of the host need of the
  ring buffer, and nothing about pointers.
\<close>

locale fifo =
  fixes ok :: "'q \<Rightarrow> bool"
    and items :: "'q \<Rightarrow> 'a list"
    and space :: "'q \<Rightarrow> nat"
    and put :: "'a list \<Rightarrow> 'q \<Rightarrow> bool \<times> 'q"
    and take_out :: "nat \<Rightarrow> 'q \<Rightarrow> 'a list option \<times> 'q"
  assumes put_ok: "ok q \<Longrightarrow> ok (snd (put xs q))"
    and put_items: "ok q \<Longrightarrow> length xs < space q \<Longrightarrow>
      fst (put xs q) \<and> items (snd (put xs q)) = items q @ xs"
    and put_space: "ok q \<Longrightarrow> length xs < space q \<Longrightarrow>
      space (snd (put xs q)) = space q - length xs"
    and take_items: "ok q \<Longrightarrow> n \<le> length (items q) \<Longrightarrow>
      \<exists>s. take_out n q = (Some (take n (items q)), s) \<and> ok s \<and> items s = drop n (items q)"
begin

text \<open>Two puts in a row, as every frame is queued: its length, then its bytes.\<close>

lemma put_two:
  assumes "ok q" "length xs + length ys < space q"
  shows "ok (snd (put ys (snd (put xs q)))) \<and>
         items (snd (put ys (snd (put xs q)))) = items q @ xs @ ys \<and>
         space (snd (put ys (snd (put xs q)))) = space q - length xs - length ys"
proof -
  let ?q = "snd (put xs q)"
  have q: "ok ?q" "items ?q = items q @ xs" "space ?q = space q - length xs"
    using assms put_ok put_items put_space by auto
  then show ?thesis using assms put_ok [of ?q ys] put_items [of ?q ys] put_space [of ?q ys] by simp
qed

lemma take_prefix:
  assumes "ok q" "items q = xs @ rest" "length xs = n"
  shows "\<exists>s. take_out n q = (Some xs, s) \<and> ok s \<and> items s = rest"
  using take_items [of q n] assms by auto

text \<open>Two reads in a row: a frame's length, then its bytes.\<close>

lemma take_two:
  assumes "ok q" "items q = xs @ ys @ rest"
  obtains s t where "take_out (length xs) q = (Some xs, s)" "ok s" "items s = ys @ rest"
    "take_out (length ys) s = (Some ys, t)" "ok t" "items t = rest"
proof -
  from take_prefix [OF assms refl] obtain s
    where s: "take_out (length xs) q = (Some xs, s)" "ok s" "items s = ys @ rest" by blast
  from take_prefix [OF s(2,3) refl] obtain t
    where "take_out (length ys) s = (Some ys, t)" "ok t" "items t = rest" by blast
  with s show ?thesis by (rule that)
qed

end

interpretation ring: fifo ring_ok contents freeSpace "addData :: ('a :: zero) list \<Rightarrow> _" get
proof
  fix r :: "'a ring" and xs :: "'a list" and n
  assume ok: "ring_ok r"
  show "ring_ok (snd (addData xs r))" using ok by simp
  show "\<exists>s. get n r = (Some (take n (contents r)), s) \<and> ring_ok s \<and> contents s = drop n (contents r)"
    if "n \<le> length (contents r)"
    using get_contents [OF ok, of n] that by auto
  show "fst (addData xs r) \<and> contents (snd (addData xs r)) = contents r @ xs"
    if "length xs < freeSpace r"
    using addData_contents [OF ok that] by simp
  show "freeSpace (snd (addData xs r)) = freeSpace r - length xs" if "length xs < freeSpace r"
  proof -
    let ?s = "snd (addData xs r)"
    have "length (contents ?s) = dataSize r + length xs"
      using addData_contents [OF ok that] by simp
    then show ?thesis
      using freeSpace_dataSize [OF ok] freeSpace_dataSize [of ?s] ok by simp
  qed
qed

end
