(* ===== verification/FrameRing.thy ===== *)
theory FrameRing
  imports RingBuffer Timer ByteUtils
begin

text \<open>
  The length-prefixed frame queues kept in byte ring buffers: the transmit queues of the
  DMR slot, the P25 control and the NXDN control (\<open>addFrame\<close>, \<open>getFrame\<close> and
  \<open>peekFrameLength\<close> of \<^verbatim>\<open>src/src/host/dmr/Slot.cpp\<close>, \<^verbatim>\<open>host/p25/Control.cpp\<close> and
  \<^verbatim>\<open>host/nxdn/Control.cpp\<close>) and the receive queues of the network classes
  (\<open>readDMR\<close>, \<open>readP25\<close> and \<open>readNXDN\<close> of \<^verbatim>\<open>common/network/BaseNetwork.cpp\<close>).
  Each frame is stored as one length byte and its bytes.  The abstraction is a list of
  frames (\<open>holds\<close>); the refinement theorems say that adding appends a frame and reading
  takes the oldest one, the immediate queue first, whenever the free space is strictly more
  than the frame needs.  At equality the code's own check passes and the queue is lost.
\<close>

section \<open>Queueing and reading one frame\<close>

text \<open>
  \<open>need\<close> is the length the free space is checked against, \<open>len\<close> the byte that is
  stored, \<open>grow\<close> what the queue is lengthened by on overflow.  Resizing empties the queue,
  and the frame that caused it is dropped.
\<close>

definition queue_frame :: "nat \<Rightarrow> u8 \<Rightarrow> nat \<Rightarrow> bytes \<Rightarrow> bool \<Rightarrow> u8 ring \<Rightarrow> u8 ring" where
  "queue_frame need len grow data net q =
     (if freeSpace q < need + 1
      then if \<not> net then resize (rb_length q + grow) q else q
      else snd (addData (take (unat len) data) (snd (addData [len] q))))"

definition next_frame :: "u8 ring \<Rightarrow> u8 \<times> bytes option \<times> u8 ring" where
  "next_frame q =
     (let (l, q1) = get 1 q;
          len = (case l of None \<Rightarrow> 0 | Some xs \<Rightarrow> hd xs);
          (d, q2) = get (unat len) q1
      in (len, d, q2))"

record tx_queues =
  m_txQueue :: "u8 ring"
  m_txImmQueue :: "u8 ring"

datatype RPT_NET_STATE = RS_NET_IDLE | RS_NET_AUDIO | RS_NET_DATA

definition DMR_FRAME_LENGTH_BYTES :: nat where "DMR_FRAME_LENGTH_BYTES = 33"
definition NXDN_FRAME_LENGTH_BYTES :: nat where "NXDN_FRAME_LENGTH_BYTES = 48"
definition P25_LDU_FRAME_LENGTH_BYTES :: nat where "P25_LDU_FRAME_LENGTH_BYTES = 216"

definition slot_addFrame :: "RPT_NET_STATE \<Rightarrow> bytes \<Rightarrow> bool \<Rightarrow> bool \<Rightarrow> tx_queues \<Rightarrow> tx_queues" where
  "slot_addFrame netState data net imm qs =
     (if \<not> net \<and> netState \<noteq> RS_NET_IDLE then qs
      else let n = DMR_FRAME_LENGTH_BYTES + 2; len = of_nat n in
        if imm then qs\<lparr>m_txImmQueue := queue_frame n len n data net (m_txImmQueue qs)\<rparr>
        else qs\<lparr>m_txQueue := queue_frame n len n data net (m_txQueue qs)\<rparr>)"

definition timed_out :: "timer \<Rightarrow> bool" where
  "timed_out t = (isRunning t \<and> hasExpired t)"

text \<open>The P25 frame length is a parameter, and is stored as \<open>uint8_t len = length\<close>.\<close>

definition p25_addFrame ::
  "timer \<Rightarrow> timer \<Rightarrow> bytes \<Rightarrow> nat \<Rightarrow> bool \<Rightarrow> bool \<Rightarrow> tx_queues \<Rightarrow> tx_queues" where
  "p25_addFrame rfTimeout netTimeout data len net imm qs =
     (if \<not> net \<and> timed_out rfTimeout then qs
      else if net \<and> timed_out netTimeout then qs
      else let b = of_nat len; g = P25_LDU_FRAME_LENGTH_BYTES in
        if imm then qs\<lparr>m_txImmQueue := queue_frame len b g data net (m_txImmQueue qs)\<rparr>
        else qs\<lparr>m_txQueue := queue_frame len b g data net (m_txQueue qs)\<rparr>)"

definition nxdn_addFrame ::
  "timer \<Rightarrow> timer \<Rightarrow> bytes \<Rightarrow> bool \<Rightarrow> bool \<Rightarrow> tx_queues \<Rightarrow> tx_queues" where
  "nxdn_addFrame rfTimeout netTimeout data net imm qs =
     (if \<not> net \<and> timed_out rfTimeout then qs
      else if net \<and> timed_out netTimeout then qs
      else let n = NXDN_FRAME_LENGTH_BYTES + 2; len = of_nat n in
        if imm then qs\<lparr>m_txImmQueue := queue_frame n len n data net (m_txImmQueue qs)\<rparr>
        else qs\<lparr>m_txQueue := queue_frame n len n data net (m_txQueue qs)\<rparr>)"

text \<open>
  \<open>getFrame\<close> has the same body in the three classes: the length returned, the bytes
  copied to the caller's buffer (\<open>None\<close>: nothing copied), and the queues after.
\<close>

definition getFrame :: "tx_queues \<Rightarrow> u8 \<times> bytes option \<times> tx_queues" where
  "getFrame qs =
     (if isEmpty (m_txQueue qs) \<and> isEmpty (m_txImmQueue qs) then (0, None, qs)
      else if \<not> isEmpty (m_txImmQueue qs)
      then let (len, d, q) = next_frame (m_txImmQueue qs) in (len, d, qs\<lparr>m_txImmQueue := q\<rparr>)
      else let (len, d, q) = next_frame (m_txQueue qs) in (len, d, qs\<lparr>m_txQueue := q\<rparr>))"

definition peekFrameLength :: "tx_queues \<Rightarrow> u8" where
  "peekFrameLength qs =
     (if isEmpty (m_txQueue qs) \<and> isEmpty (m_txImmQueue qs) then 0
      else case peek 1 (if \<not> isEmpty (m_txImmQueue qs) then m_txImmQueue qs else m_txQueue qs) of
             None \<Rightarrow> 0 | Some xs \<Rightarrow> hd xs)"

text \<open>
  The receive side of the network classes.  \<open>running\<close> is the status guard of the three
  functions; the result is the flag \<open>ret\<close> (unchanged when the guard fails), the frame
  returned, and the buffer.
\<close>

definition readNet :: "bool \<Rightarrow> bool \<Rightarrow> u8 ring \<Rightarrow> bool \<times> bytes option \<times> u8 ring" where
  "readNet running ret q =
     (if \<not> running then (ret, None, q)
      else if isEmpty q then (False, None, q)
      else let (l, q1) = get 1 q;
               len = (case l of None \<Rightarrow> 0 | Some xs \<Rightarrow> hd xs)
           in if len = 0 then (False, None, q1)
              else let (d, q2) = get (unat len) q1
                   in (True, Some (case d of None \<Rightarrow> replicate (unat len) 0 | Some xs \<Rightarrow> xs), q2))"

definition hasNetData :: "u8 ring \<Rightarrow> bool" where
  "hasNetData q = (if isEmpty q then False else True)"

section \<open>The abstraction\<close>

definition frame_bytes :: "bytes \<Rightarrow> bytes" where
  "frame_bytes f = of_nat (length f) # f"

definition holds :: "u8 ring \<Rightarrow> bytes list \<Rightarrow> bool" where
  "holds q fs \<longleftrightarrow> ring_ok q \<and> contents q = concat (map frame_bytes fs) \<and>
     (\<forall>f \<in> set fs. 0 < length f \<and> length f < 256)"

lemma holds_new [simp]: "0 < n \<Longrightarrow> holds (new_ring n) []"
  by (simp add: holds_def)

lemma holds_ok: "holds q fs \<Longrightarrow> ring_ok q"
  by (simp add: holds_def)

lemma holds_isEmpty: "holds q fs \<Longrightarrow> isEmpty q \<longleftrightarrow> fs = []"
  by (cases fs) (auto simp: holds_def isEmpty_iff frame_bytes_def)

lemma unat_of_nat_u8: "n < 256 \<Longrightarrow> unat (of_nat n :: u8) = n"
  by (simp add: unat_of_nat take_bit_nat_eq_self)

lemma queue_frame_appends:
  assumes "holds q fs" "need + 1 < freeSpace q" "unat len = need" "0 < need" "need \<le> length data"
  shows "holds (queue_frame need len grow data net q) (fs @ [take need data])"
proof -
  have "need < 256" using unsigned_less [of len, where 'a = nat] assms(3) by simp
  moreover have "len = of_nat need" using assms(3) by auto
  ultimately show ?thesis
    using assms ring.put_two [of q "[len]" "take need data"]
    by (auto simp: queue_frame_def holds_def frame_bytes_def)
qed

lemma queue_frame_full_net:
  "freeSpace q < need + 1 \<Longrightarrow> queue_frame need len grow data True q = q"
  by (simp add: queue_frame_def)

lemma queue_frame_full_resizes:
  "freeSpace q < need + 1 \<Longrightarrow> ring_ok q \<Longrightarrow> holds (queue_frame need len grow data False q) []"
  by (simp add: queue_frame_def holds_def ring_ok_pos)

lemma queue_frame_ok: "ring_ok q \<Longrightarrow> ring_ok (queue_frame need len grow data net q)"
  by (simp add: queue_frame_def ring_ok_pos)

text \<open>At exactly \<open>need + 1\<close> free bytes the check passes and the pointers meet.\<close>

lemma queue_frame_exact_fill_loses:
  assumes "ring_ok q" "freeSpace q = need + 1" "unat len = need" "need \<le> length data" "0 < need"
  shows "contents (queue_frame need len grow data net q) = []"
proof -
  let ?q = "snd (addData [len] q)"
  have q: "ring_ok ?q" "freeSpace ?q = need"
    using assms ring.put_ok ring.put_space [of q "[len]"] by simp_all
  then show ?thesis
    using assms addData_exact_fill [of ?q "take need data"] by (simp add: queue_frame_def)
qed

lemma next_frame_holds:
  assumes "holds q (f # fs)"
  shows "\<exists>q'. next_frame q = (of_nat (length f), Some f, q') \<and> holds q' fs"
proof -
  have f: "length f < 256" "0 < length f" using assms by (simp_all add: holds_def)
  have "contents q = [of_nat (length f)] @ f @ concat (map frame_bytes fs)"
    using assms by (simp add: holds_def frame_bytes_def)
  with holds_ok [OF assms] show ?thesis
    by (rule ring.take_two)
      (use assms f in \<open>auto simp: next_frame_def unat_of_nat_u8 holds_def\<close>)
qed

section \<open>Refinement of the transmit queues\<close>

text \<open>The abstract state: the frames waiting in the immediate queue and in the queue.\<close>

definition tx_holds :: "tx_queues \<Rightarrow> bytes list \<Rightarrow> bytes list \<Rightarrow> bool" where
  "tx_holds qs imms fs \<longleftrightarrow> holds (m_txImmQueue qs) imms \<and> holds (m_txQueue qs) fs"

lemma tx_holds_empty:
  "tx_holds qs imms fs \<Longrightarrow>
   isEmpty (m_txQueue qs) = (fs = []) \<and> isEmpty (m_txImmQueue qs) = (imms = [])"
  by (auto simp: tx_holds_def holds_isEmpty)

text \<open>Reading takes the oldest immediate frame, and an ordinary one only when there is none.\<close>

lemma getFrame_refines:
  assumes "tx_holds qs imms fs"
  shows "case imms @ fs of
           [] \<Rightarrow> getFrame qs = (0, None, qs)
         | f # _ \<Rightarrow> \<exists>qs'. getFrame qs = (of_nat (length f), Some f, qs') \<and>
             (if imms = [] then tx_holds qs' [] (tl fs) else tx_holds qs' (tl imms) fs)"
proof (cases imms)
  case Nil
  then show ?thesis
    using assms tx_holds_empty [OF assms] next_frame_holds [of "m_txQueue qs"]
    by (cases fs) (fastforce simp: getFrame_def tx_holds_def)+
next
  case (Cons f imms')
  then show ?thesis
    using assms tx_holds_empty [OF assms] next_frame_holds [of "m_txImmQueue qs" f imms']
    by (fastforce simp: getFrame_def tx_holds_def)
qed

lemma peekFrameLength_refines:
  assumes "tx_holds qs imms fs"
  shows "peekFrameLength qs = (case imms @ fs of [] \<Rightarrow> 0 | f # _ \<Rightarrow> of_nat (length f))"
proof -
  have p: "peek (Suc 0) q = Some [of_nat (length f)]" if "holds q (f # gs)" for q f gs
    using that by (auto simp: peek_contents holds_def frame_bytes_def simp flip: length_contents)
  show ?thesis
    using assms tx_holds_empty [OF assms]
    by (cases imms; cases fs) (auto simp: peekFrameLength_def tx_holds_def p)
qed

text \<open>The three \<open>addFrame\<close> operations append to the queue they select.\<close>

lemma slot_addFrame_refines:
  assumes "tx_holds qs imms fs" "net \<or> netState = RS_NET_IDLE" "length data = 35"
    and "36 < freeSpace (if imm then m_txImmQueue qs else m_txQueue qs)"
  shows "tx_holds (slot_addFrame netState data net imm qs)
           (if imm then imms @ [data] else imms) (if imm then fs else fs @ [data])"
  using assms queue_frame_appends [of _ _ 35 35 data 35 net]
  by (auto simp: slot_addFrame_def DMR_FRAME_LENGTH_BYTES_def tx_holds_def Let_def)

lemma nxdn_addFrame_refines:
  assumes "tx_holds qs imms fs" "\<not> timed_out (if net then netT else rfT)" "length data = 50"
    and "51 < freeSpace (if imm then m_txImmQueue qs else m_txQueue qs)"
  shows "tx_holds (nxdn_addFrame rfT netT data net imm qs)
           (if imm then imms @ [data] else imms) (if imm then fs else fs @ [data])"
  using assms queue_frame_appends [of _ _ 50 50 data 50 net]
  by (auto simp: nxdn_addFrame_def NXDN_FRAME_LENGTH_BYTES_def tx_holds_def Let_def)

lemma p25_addFrame_refines:
  assumes "tx_holds qs imms fs" "\<not> timed_out (if net then netT else rfT)"
    and "0 < length data" "length data < 256"
    and "length data + 1 < freeSpace (if imm then m_txImmQueue qs else m_txQueue qs)"
  shows "tx_holds (p25_addFrame rfT netT data (length data) net imm qs)
           (if imm then imms @ [data] else imms) (if imm then fs else fs @ [data])"
  using assms queue_frame_appends [of _ _ "length data" "of_nat (length data)" data _ net]
  by (auto simp: p25_addFrame_def tx_holds_def Let_def unat_of_nat_u8)

section \<open>An exact specification of the DMR slot queue\<close>

text \<open>
  The DMR slot queues frames of one size only, so its queue is a list of frames with a
  capacity in bytes, and every branch of \<open>addFrame\<close> is an operation on that list: a frame
  that does not fit is dropped and, when it came from RF, the queue is emptied and
  lengthened; a frame that fits exactly empties the queue; any other frame is appended.
\<close>

type_synonym slot_queue = "nat \<times> bytes list"

definition slot_spec_add :: "bytes \<Rightarrow> bool \<Rightarrow> slot_queue \<Rightarrow> slot_queue" where
  "slot_spec_add f net q =
     (let (cap, fs) = q; used = 36 * length fs in
      if cap < used + 36 then if net then (cap, fs) else (cap + 35, [])
      else if cap = used + 36 then (cap, [])
      else (cap, fs @ [f]))"

definition slot_queue_is :: "u8 ring \<Rightarrow> slot_queue \<Rightarrow> bool" where
  "slot_queue_is r q \<longleftrightarrow> holds r (snd q) \<and> rb_length r = fst q \<and> (\<forall>f \<in> set (snd q). length f = 35)"

lemma length_frames: "\<forall>f \<in> set fs. length f = n \<Longrightarrow> length (concat (map frame_bytes fs)) = (n + 1) * length fs"
  by (induction fs) (auto simp: frame_bytes_def)

lemma slot_queue_space:
  assumes "slot_queue_is r (cap, fs)"
  shows "freeSpace r = cap - 36 * length fs" "36 * length fs < cap"
proof -
  have ok: "ring_ok r" using assms by (simp add: slot_queue_is_def holds_def)
  have "dataSize r = 36 * length fs"
    using assms length_frames [of fs 35] length_contents [of r]
    by (simp add: slot_queue_is_def holds_def)
  then show "freeSpace r = cap - 36 * length fs" "36 * length fs < cap"
    using freeSpace_dataSize [OF ok] freeSpace_positive [OF ok] assms
    by (auto simp: slot_queue_is_def)
qed

lemma queue_frame_length:
  "rb_length (queue_frame need len grow data net q) =
   (if freeSpace q < need + 1 \<and> \<not> net then rb_length q + grow else rb_length q)"
  by (simp add: queue_frame_def)

lemma queue_frame_spec:
  assumes q: "slot_queue_is r q" and f: "length f = 35"
  shows "slot_queue_is (queue_frame 35 35 35 f net r) (slot_spec_add f net q)"
proof -
  obtain cap fs where c: "q = (cap, fs)" by force
  note sp = slot_queue_space [OF q [unfolded c]]
  have h: "holds r fs" "rb_length r = cap" "\<forall>f \<in> set fs. length f = 35"
    using q c by (simp_all add: slot_queue_is_def)
  consider "cap < 36 * length fs + 36" | "cap = 36 * length fs + 36" | "36 * length fs + 36 < cap"
    by linarith
  then show ?thesis
  proof cases
    case 1
    then show ?thesis
      using c h sp queue_frame_full_resizes [of r 35] queue_frame_full_net [of r 35]
      by (auto simp: slot_spec_add_def slot_queue_is_def queue_frame_length holds_ok)
  next
    case 2
    then have "contents (queue_frame 35 35 35 f net r) = []"
      using queue_frame_exact_fill_loses [of r 35 35 f] h sp f by (simp add: holds_ok)
    then show ?thesis
      using 2 c h sp queue_frame_ok [of r]
      by (auto simp: slot_spec_add_def slot_queue_is_def queue_frame_length holds_def)
  next
    case 3
    then show ?thesis
      using c h sp f queue_frame_appends [of r fs 35 35 f]
      by (auto simp: slot_spec_add_def slot_queue_is_def queue_frame_length)
  qed
qed

text \<open>A history of the slot: frames added and frames fetched by the modem loop.\<close>

datatype slot_op = Add bytes bool bool | Fetch

fun slot_run :: "slot_op list \<Rightarrow> tx_queues \<Rightarrow> (u8 \<times> bytes option) list" where
  "slot_run [] qs = []"
| "slot_run (Add f net imm # ops) qs = slot_run ops (slot_addFrame RS_NET_IDLE f net imm qs)"
| "slot_run (Fetch # ops) qs =
     (let (len, d, qs') = getFrame qs in (len, d) # slot_run ops qs')"

fun slot_spec_run :: "slot_op list \<Rightarrow> slot_queue \<Rightarrow> slot_queue \<Rightarrow> (u8 \<times> bytes option) list" where
  "slot_spec_run [] iq tq = []"
| "slot_spec_run (Add f net imm # ops) iq tq =
     (if imm then slot_spec_run ops (slot_spec_add f net iq) tq
      else slot_spec_run ops iq (slot_spec_add f net tq))"
| "slot_spec_run (Fetch # ops) iq tq =
     (case (snd iq, snd tq) of
        (f # fs, _) \<Rightarrow> (35, Some f) # slot_spec_run ops (fst iq, fs) tq
      | ([], f # fs) \<Rightarrow> (35, Some f) # slot_spec_run ops iq (fst tq, fs)
      | ([], []) \<Rightarrow> (0, None) # slot_spec_run ops iq tq)"

lemma next_frame_spec:
  assumes "slot_queue_is r (cap, f # fs)"
  shows "\<exists>r'. next_frame r = (35, Some f, r') \<and> slot_queue_is r' (cap, fs)"
proof -
  have h: "holds r (f # fs)" "length f = 35" using assms by (simp_all add: slot_queue_is_def)
  then obtain r' where r': "next_frame r = (35, Some f, r')" "holds r' fs"
    using next_frame_holds [of r f fs] by auto
  have "rb_length (snd (get n s)) = rb_length s" for n and s :: "u8 ring"
    by (simp add: get_def split: prod.split)
  then have "rb_length (snd (snd (next_frame r))) = rb_length r"
    by (simp add: next_frame_def split: prod.split) (metis snd_conv)
  then show ?thesis using r' assms by (simp add: slot_queue_is_def)
qed

lemma slot_run_refines_gen:
  assumes "\<forall>f net imm. Add f net imm \<in> set ops \<longrightarrow> length f = 35"
    and "slot_queue_is (m_txImmQueue qs) iq" "slot_queue_is (m_txQueue qs) tq"
  shows "slot_run ops qs = slot_spec_run ops iq tq"
  using assms
proof (induction ops arbitrary: qs iq tq)
  case Nil
  then show ?case by simp
next
  case (Cons c ops)
  have rest: "\<forall>f net imm. Add f net imm \<in> set ops \<longrightarrow> length f = 35"
    using Cons.prems(1) by simp
  show ?case
  proof (cases c)
    case (Add f net imm)
    then have "length f = 35" using Cons.prems(1) by simp
    then show ?thesis
      using Add Cons.IH [OF rest] Cons.prems queue_frame_spec
      by (simp add: slot_addFrame_def DMR_FRAME_LENGTH_BYTES_def Let_def)
  next
    case Fetch
    obtain ic ifs tc tfs where q: "iq = (ic, ifs)" "tq = (tc, tfs)" by force
    have e: "isEmpty (m_txImmQueue qs) = (ifs = [])" "isEmpty (m_txQueue qs) = (tfs = [])"
      using Cons.prems q by (auto simp: slot_queue_is_def holds_isEmpty)
    consider "ifs = []" "tfs = []" | f fs where "ifs = f # fs" | f fs where "ifs = []" "tfs = f # fs"
      by (cases ifs; cases tfs) auto
    then show ?thesis
    proof cases
      case 1
      then show ?thesis
        using Fetch q e Cons.IH [OF rest] Cons.prems by (simp add: getFrame_def)
    next
      case 2
      then obtain r where "next_frame (m_txImmQueue qs) = (35, Some f, r)" "slot_queue_is r (ic, fs)"
        using next_frame_spec Cons.prems q by blast
      then show ?thesis
        using 2 Fetch q e Cons.IH [OF rest] Cons.prems by (simp add: getFrame_def)
    next
      case 3
      then obtain r where "next_frame (m_txQueue qs) = (35, Some f, r)" "slot_queue_is r (tc, fs)"
        using next_frame_spec Cons.prems q by blast
      then show ?thesis
        using 3 Fetch q e Cons.IH [OF rest] Cons.prems by (simp add: getFrame_def)
    qed
  qed
qed

text \<open>
  C6. The slot's transmit queues refine the specification: every history of frames added
  and fetched while the network side of the slot is idle, from empty queues of any capacity, hands the
  modem the same frames.
\<close>

theorem slot_queue_refines_spec:
  assumes "0 < cap" "0 < icap"
    and "\<forall>f net imm. Add f net imm \<in> set ops \<longrightarrow> length f = 35"
  shows "slot_run ops \<lparr>m_txQueue = new_ring cap, m_txImmQueue = new_ring icap\<rparr> =
         slot_spec_run ops (icap, []) (cap, [])"
  using assms by (intro slot_run_refines_gen) (simp_all add: slot_queue_is_def, simp_all add: new_ring_def)

theorem slot_queue_refines_spec_witness:
  "slot_run [Add (replicate 35 1) False False, Add (replicate 35 2) True True, Fetch, Fetch, Fetch]
     \<lparr>m_txQueue = new_ring 100, m_txImmQueue = new_ring 40\<rparr> =
   [(35, Some (replicate 35 2)), (35, Some (replicate 35 1)), (0, None)]"
  using slot_queue_refines_spec
    [of 100 40 "[Add (replicate 35 1) False False, Add (replicate 35 2) True True, Fetch, Fetch, Fetch]"]
  by (simp add: slot_spec_add_def)

text \<open>
  The loss, as a history: two frames fill a queue of 72 bytes exactly; both additions pass
  the code's own check of the free space, and neither frame comes out.
\<close>

theorem slot_exact_fill_loses_frames:
  assumes "length f = 35" "length g = 35" "0 < icap"
  shows "slot_run [Add f False False, Add g False False, Fetch]
           \<lparr>m_txQueue = new_ring 72, m_txImmQueue = new_ring icap\<rparr> = [(0, None)]"
proof -
  have "slot_run [Add f False False, Add g False False, Fetch]
          \<lparr>m_txQueue = new_ring 72, m_txImmQueue = new_ring icap\<rparr> =
        slot_spec_run [Add f False False, Add g False False, Fetch] (icap, []) (72, [])"
    using assms
    by (intro slot_run_refines_gen) (simp_all add: slot_queue_is_def, simp_all add: new_ring_def)
  then show ?thesis by (simp add: slot_spec_add_def)
qed

theorem slot_exact_fill_loses_frames_witness:
  "slot_run [Add (replicate 35 1) False False, Add (replicate 35 2) False False, Fetch]
     \<lparr>m_txQueue = new_ring 72, m_txImmQueue = new_ring 72\<rparr> = [(0, None)]"
  using slot_exact_fill_loses_frames [of "replicate 35 1" "replicate 35 2" 72] by simp

section \<open>The receive queues of the network classes\<close>

text \<open>Frames stored by the network loop come out of \<open>readDMR\<close> and its siblings in order.\<close>

lemma readNet_refines:
  assumes "holds q fs" "running"
  shows "case fs of [] \<Rightarrow> readNet running ret q = (False, None, q)
         | f # gs \<Rightarrow> \<exists>q'. readNet running ret q = (True, Some f, q') \<and> holds q' gs"
proof (cases fs)
  case Nil
  then show ?thesis using assms by (simp add: readNet_def holds_isEmpty)
next
  case (Cons f gs)
  have f: "length f < 256" "0 < length f" using assms(1) Cons by (simp_all add: holds_def)
  have nz: "(of_nat (length f) :: u8) \<noteq> 0"
    using unat_of_nat_u8 [OF f(1)] f(2) by (metis less_irrefl unat_0)
  have "contents q = [of_nat (length f)] @ f @ concat (map frame_bytes gs)"
    using assms(1) Cons by (simp add: holds_def frame_bytes_def)
  with holds_ok [OF assms(1)] have "\<exists>q'. readNet running ret q = (True, Some f, q') \<and> holds q' gs"
    by (rule ring.take_two)
      (use assms f nz Cons in \<open>auto simp: readNet_def unat_of_nat_u8 holds_def isEmpty_iff holds_isEmpty [OF assms(1)]\<close>)
  then show ?thesis using Cons by simp
qed

lemma readNet_not_running: "readNet False ret q = (ret, None, q)"
  by (simp add: readNet_def)

end
