(* ===== verification/CRC.thy ===== *)
theory CRC
  imports ByteUtils
begin

text \<open>
  The checksums of \<^verbatim>\<open>src/src/common/edac/CRC.cpp\<close>: the table-driven CCITT-162, CCITT-161,
  CRC-32 and CRC-8, the bit-serial CRC-6, CRC-12, CRC-15 and CRC-16, the masked sum of
  CRC-9 and the five-bit sum.  The lookup tables are shown to be the polynomial divisions
  they abbreviate (\<open>lfsr\<close>), and two locales state what a checksum is for: the bytes or
  bits \<open>add\<close> writes make \<open>check\<close> succeed, and no error confined to one byte (or, for the
  bit-serial sums, to one bit) passes the check.
\<close>

section \<open>Tables\<close>

definition CRC8_TABLE :: "u8 list" where
  "CRC8_TABLE = [
    0x00, 0x07, 0x0E, 0x09, 0x1C, 0x1B, 0x12, 0x15, 0x38, 0x3F, 0x36, 0x31, 0x24, 0x23,
    0x2A, 0x2D, 0x70, 0x77, 0x7E, 0x79, 0x6C, 0x6B, 0x62, 0x65, 0x48, 0x4F, 0x46, 0x41,
    0x54, 0x53, 0x5A, 0x5D, 0xE0, 0xE7, 0xEE, 0xE9, 0xFC, 0xFB, 0xF2, 0xF5, 0xD8, 0xDF,
    0xD6, 0xD1, 0xC4, 0xC3, 0xCA, 0xCD, 0x90, 0x97, 0x9E, 0x99, 0x8C, 0x8B, 0x82, 0x85,
    0xA8, 0xAF, 0xA6, 0xA1, 0xB4, 0xB3, 0xBA, 0xBD, 0xC7, 0xC0, 0xC9, 0xCE, 0xDB, 0xDC,
    0xD5, 0xD2, 0xFF, 0xF8, 0xF1, 0xF6, 0xE3, 0xE4, 0xED, 0xEA, 0xB7, 0xB0, 0xB9, 0xBE,
    0xAB, 0xAC, 0xA5, 0xA2, 0x8F, 0x88, 0x81, 0x86, 0x93, 0x94, 0x9D, 0x9A, 0x27, 0x20,
    0x29, 0x2E, 0x3B, 0x3C, 0x35, 0x32, 0x1F, 0x18, 0x11, 0x16, 0x03, 0x04, 0x0D, 0x0A,
    0x57, 0x50, 0x59, 0x5E, 0x4B, 0x4C, 0x45, 0x42, 0x6F, 0x68, 0x61, 0x66, 0x73, 0x74,
    0x7D, 0x7A, 0x89, 0x8E, 0x87, 0x80, 0x95, 0x92, 0x9B, 0x9C, 0xB1, 0xB6, 0xBF, 0xB8,
    0xAD, 0xAA, 0xA3, 0xA4, 0xF9, 0xFE, 0xF7, 0xF0, 0xE5, 0xE2, 0xEB, 0xEC, 0xC1, 0xC6,
    0xCF, 0xC8, 0xDD, 0xDA, 0xD3, 0xD4, 0x69, 0x6E, 0x67, 0x60, 0x75, 0x72, 0x7B, 0x7C,
    0x51, 0x56, 0x5F, 0x58, 0x4D, 0x4A, 0x43, 0x44, 0x19, 0x1E, 0x17, 0x10, 0x05, 0x02,
    0x0B, 0x0C, 0x21, 0x26, 0x2F, 0x28, 0x3D, 0x3A, 0x33, 0x34, 0x4E, 0x49, 0x40, 0x47,
    0x52, 0x55, 0x5C, 0x5B, 0x76, 0x71, 0x78, 0x7F, 0x6A, 0x6D, 0x64, 0x63, 0x3E, 0x39,
    0x30, 0x37, 0x22, 0x25, 0x2C, 0x2B, 0x06, 0x01, 0x08, 0x0F, 0x1A, 0x1D, 0x14, 0x13,
    0xAE, 0xA9, 0xA0, 0xA7, 0xB2, 0xB5, 0xBC, 0xBB, 0x96, 0x91, 0x98, 0x9F, 0x8A, 0x8D,
    0x84, 0x83, 0xDE, 0xD9, 0xD0, 0xD7, 0xC2, 0xC5, 0xCC, 0xCB, 0xE6, 0xE1, 0xE8, 0xEF,
    0xFA, 0xFD, 0xF4, 0xF3, 0x01]"

definition CRC9_TABLE :: "u16 list" where
  "CRC9_TABLE = [
    0x1E7, 0x1F3, 0x1F9, 0x1FC, 0x0D2, 0x045, 0x122, 0x0BD, 0x15E, 0x083, 0x141, 0x1A0,
    0x0FC, 0x052, 0x005, 0x102, 0x0AD, 0x156, 0x087, 0x143, 0x1A1, 0x1D0, 0x0C4, 0x04E,
    0x00B, 0x105, 0x182, 0x0ED, 0x176, 0x097, 0x14B, 0x1A5, 0x1D2, 0x0C5, 0x162, 0x09D,
    0x14E, 0x08B, 0x145, 0x1A2, 0x0FD, 0x17E, 0x093, 0x149, 0x1A4, 0x0FE, 0x053, 0x129,
    0x194, 0x0E6, 0x05F, 0x12F, 0x197, 0x1CB, 0x1E5, 0x1F2, 0x0D5, 0x16A, 0x099, 0x14C,
    0x08A, 0x069, 0x134, 0x0B6, 0x077, 0x13B, 0x19D, 0x1CE, 0x0CB, 0x165, 0x1B2, 0x0F5,
    0x17A, 0x091, 0x148, 0x088, 0x068, 0x018, 0x020, 0x03C, 0x032, 0x035, 0x11A, 0x0A1,
    0x150, 0x084, 0x06E, 0x01B, 0x10D, 0x186, 0x0EF, 0x177, 0x1BB, 0x1DD, 0x1EE, 0x0DB,
    0x16D, 0x1B6, 0x0F7, 0x17B, 0x1BD, 0x1DE, 0x0C3, 0x161, 0x1B0, 0x0F4, 0x056, 0x007,
    0x103, 0x181, 0x1C0, 0x0CC, 0x04A, 0x009, 0x104, 0x0AE, 0x07B, 0x13D, 0x19E, 0x0E3,
    0x171, 0x1B8, 0x0F0, 0x054, 0x006, 0x02F, 0x117, 0x18B, 0x1C5, 0x1E2, 0x0DD, 0x16E,
    0x09B, 0x14D, 0x1A6]"

definition CCITT16_TABLE1 :: "u16 list" where
  "CCITT16_TABLE1 = [
    0x0000, 0x1189, 0x2312, 0x329B, 0x4624, 0x57AD, 0x6536, 0x74BF, 0x8C48, 0x9DC1,
    0xAF5A, 0xBED3, 0xCA6C, 0xDBE5, 0xE97E, 0xF8F7, 0x1081, 0x0108, 0x3393, 0x221A,
    0x56A5, 0x472C, 0x75B7, 0x643E, 0x9CC9, 0x8D40, 0xBFDB, 0xAE52, 0xDAED, 0xCB64,
    0xF9FF, 0xE876, 0x2102, 0x308B, 0x0210, 0x1399, 0x6726, 0x76AF, 0x4434, 0x55BD,
    0xAD4A, 0xBCC3, 0x8E58, 0x9FD1, 0xEB6E, 0xFAE7, 0xC87C, 0xD9F5, 0x3183, 0x200A,
    0x1291, 0x0318, 0x77A7, 0x662E, 0x54B5, 0x453C, 0xBDCB, 0xAC42, 0x9ED9, 0x8F50,
    0xFBEF, 0xEA66, 0xD8FD, 0xC974, 0x4204, 0x538D, 0x6116, 0x709F, 0x0420, 0x15A9,
    0x2732, 0x36BB, 0xCE4C, 0xDFC5, 0xED5E, 0xFCD7, 0x8868, 0x99E1, 0xAB7A, 0xBAF3,
    0x5285, 0x430C, 0x7197, 0x601E, 0x14A1, 0x0528, 0x37B3, 0x263A, 0xDECD, 0xCF44,
    0xFDDF, 0xEC56, 0x98E9, 0x8960, 0xBBFB, 0xAA72, 0x6306, 0x728F, 0x4014, 0x519D,
    0x2522, 0x34AB, 0x0630, 0x17B9, 0xEF4E, 0xFEC7, 0xCC5C, 0xDDD5, 0xA96A, 0xB8E3,
    0x8A78, 0x9BF1, 0x7387, 0x620E, 0x5095, 0x411C, 0x35A3, 0x242A, 0x16B1, 0x0738,
    0xFFCF, 0xEE46, 0xDCDD, 0xCD54, 0xB9EB, 0xA862, 0x9AF9, 0x8B70, 0x8408, 0x9581,
    0xA71A, 0xB693, 0xC22C, 0xD3A5, 0xE13E, 0xF0B7, 0x0840, 0x19C9, 0x2B52, 0x3ADB,
    0x4E64, 0x5FED, 0x6D76, 0x7CFF, 0x9489, 0x8500, 0xB79B, 0xA612, 0xD2AD, 0xC324,
    0xF1BF, 0xE036, 0x18C1, 0x0948, 0x3BD3, 0x2A5A, 0x5EE5, 0x4F6C, 0x7DF7, 0x6C7E,
    0xA50A, 0xB483, 0x8618, 0x9791, 0xE32E, 0xF2A7, 0xC03C, 0xD1B5, 0x2942, 0x38CB,
    0x0A50, 0x1BD9, 0x6F66, 0x7EEF, 0x4C74, 0x5DFD, 0xB58B, 0xA402, 0x9699, 0x8710,
    0xF3AF, 0xE226, 0xD0BD, 0xC134, 0x39C3, 0x284A, 0x1AD1, 0x0B58, 0x7FE7, 0x6E6E,
    0x5CF5, 0x4D7C, 0xC60C, 0xD785, 0xE51E, 0xF497, 0x8028, 0x91A1, 0xA33A, 0xB2B3,
    0x4A44, 0x5BCD, 0x6956, 0x78DF, 0x0C60, 0x1DE9, 0x2F72, 0x3EFB, 0xD68D, 0xC704,
    0xF59F, 0xE416, 0x90A9, 0x8120, 0xB3BB, 0xA232, 0x5AC5, 0x4B4C, 0x79D7, 0x685E,
    0x1CE1, 0x0D68, 0x3FF3, 0x2E7A, 0xE70E, 0xF687, 0xC41C, 0xD595, 0xA12A, 0xB0A3,
    0x8238, 0x93B1, 0x6B46, 0x7ACF, 0x4854, 0x59DD, 0x2D62, 0x3CEB, 0x0E70, 0x1FF9,
    0xF78F, 0xE606, 0xD49D, 0xC514, 0xB1AB, 0xA022, 0x92B9, 0x8330, 0x7BC7, 0x6A4E,
    0x58D5, 0x495C, 0x3DE3, 0x2C6A, 0x1EF1, 0x0F78]"

definition CCITT16_TABLE2 :: "u16 list" where
  "CCITT16_TABLE2 = [
    0x0000, 0x1021, 0x2042, 0x3063, 0x4084, 0x50A5, 0x60C6, 0x70E7, 0x8108, 0x9129,
    0xA14A, 0xB16B, 0xC18C, 0xD1AD, 0xE1CE, 0xF1EF, 0x1231, 0x0210, 0x3273, 0x2252,
    0x52B5, 0x4294, 0x72F7, 0x62D6, 0x9339, 0x8318, 0xB37B, 0xA35A, 0xD3BD, 0xC39C,
    0xF3FF, 0xE3DE, 0x2462, 0x3443, 0x0420, 0x1401, 0x64E6, 0x74C7, 0x44A4, 0x5485,
    0xA56A, 0xB54B, 0x8528, 0x9509, 0xE5EE, 0xF5CF, 0xC5AC, 0xD58D, 0x3653, 0x2672,
    0x1611, 0x0630, 0x76D7, 0x66F6, 0x5695, 0x46B4, 0xB75B, 0xA77A, 0x9719, 0x8738,
    0xF7DF, 0xE7FE, 0xD79D, 0xC7BC, 0x48C4, 0x58E5, 0x6886, 0x78A7, 0x0840, 0x1861,
    0x2802, 0x3823, 0xC9CC, 0xD9ED, 0xE98E, 0xF9AF, 0x8948, 0x9969, 0xA90A, 0xB92B,
    0x5AF5, 0x4AD4, 0x7AB7, 0x6A96, 0x1A71, 0x0A50, 0x3A33, 0x2A12, 0xDBFD, 0xCBDC,
    0xFBBF, 0xEB9E, 0x9B79, 0x8B58, 0xBB3B, 0xAB1A, 0x6CA6, 0x7C87, 0x4CE4, 0x5CC5,
    0x2C22, 0x3C03, 0x0C60, 0x1C41, 0xEDAE, 0xFD8F, 0xCDEC, 0xDDCD, 0xAD2A, 0xBD0B,
    0x8D68, 0x9D49, 0x7E97, 0x6EB6, 0x5ED5, 0x4EF4, 0x3E13, 0x2E32, 0x1E51, 0x0E70,
    0xFF9F, 0xEFBE, 0xDFDD, 0xCFFC, 0xBF1B, 0xAF3A, 0x9F59, 0x8F78, 0x9188, 0x81A9,
    0xB1CA, 0xA1EB, 0xD10C, 0xC12D, 0xF14E, 0xE16F, 0x1080, 0x00A1, 0x30C2, 0x20E3,
    0x5004, 0x4025, 0x7046, 0x6067, 0x83B9, 0x9398, 0xA3FB, 0xB3DA, 0xC33D, 0xD31C,
    0xE37F, 0xF35E, 0x02B1, 0x1290, 0x22F3, 0x32D2, 0x4235, 0x5214, 0x6277, 0x7256,
    0xB5EA, 0xA5CB, 0x95A8, 0x8589, 0xF56E, 0xE54F, 0xD52C, 0xC50D, 0x34E2, 0x24C3,
    0x14A0, 0x0481, 0x7466, 0x6447, 0x5424, 0x4405, 0xA7DB, 0xB7FA, 0x8799, 0x97B8,
    0xE75F, 0xF77E, 0xC71D, 0xD73C, 0x26D3, 0x36F2, 0x0691, 0x16B0, 0x6657, 0x7676,
    0x4615, 0x5634, 0xD94C, 0xC96D, 0xF90E, 0xE92F, 0x99C8, 0x89E9, 0xB98A, 0xA9AB,
    0x5844, 0x4865, 0x7806, 0x6827, 0x18C0, 0x08E1, 0x3882, 0x28A3, 0xCB7D, 0xDB5C,
    0xEB3F, 0xFB1E, 0x8BF9, 0x9BD8, 0xABBB, 0xBB9A, 0x4A75, 0x5A54, 0x6A37, 0x7A16,
    0x0AF1, 0x1AD0, 0x2AB3, 0x3A92, 0xFD2E, 0xED0F, 0xDD6C, 0xCD4D, 0xBDAA, 0xAD8B,
    0x9DE8, 0x8DC9, 0x7C26, 0x6C07, 0x5C64, 0x4C45, 0x3CA2, 0x2C83, 0x1CE0, 0x0CC1,
    0xEF1F, 0xFF3E, 0xCF5D, 0xDF7C, 0xAF9B, 0xBFBA, 0x8FD9, 0x9FF8, 0x6E17, 0x7E36,
    0x4E55, 0x5E74, 0x2E93, 0x3EB2, 0x0ED1, 0x1EF0]"

definition CRC32_TABLE :: "u32 list" where
  "CRC32_TABLE = [
    0x00000000, 0x04C11DB7, 0x09823B6E, 0x0D4326D9, 0x130476DC, 0x17C56B6B, 0x1A864DB2,
    0x1E475005, 0x2608EDB8, 0x22C9F00F, 0x2F8AD6D6, 0x2B4BCB61, 0x350C9B64, 0x31CD86D3,
    0x3C8EA00A, 0x384FBDBD, 0x4C11DB70, 0x48D0C6C7, 0x4593E01E, 0x4152FDA9, 0x5F15ADAC,
    0x5BD4B01B, 0x569796C2, 0x52568B75, 0x6A1936C8, 0x6ED82B7F, 0x639B0DA6, 0x675A1011,
    0x791D4014, 0x7DDC5DA3, 0x709F7B7A, 0x745E66CD, 0x9823B6E0, 0x9CE2AB57, 0x91A18D8E,
    0x95609039, 0x8B27C03C, 0x8FE6DD8B, 0x82A5FB52, 0x8664E6E5, 0xBE2B5B58, 0xBAEA46EF,
    0xB7A96036, 0xB3687D81, 0xAD2F2D84, 0xA9EE3033, 0xA4AD16EA, 0xA06C0B5D, 0xD4326D90,
    0xD0F37027, 0xDDB056FE, 0xD9714B49, 0xC7361B4C, 0xC3F706FB, 0xCEB42022, 0xCA753D95,
    0xF23A8028, 0xF6FB9D9F, 0xFBB8BB46, 0xFF79A6F1, 0xE13EF6F4, 0xE5FFEB43, 0xE8BCCD9A,
    0xEC7DD02D, 0x34867077, 0x30476DC0, 0x3D044B19, 0x39C556AE, 0x278206AB, 0x23431B1C,
    0x2E003DC5, 0x2AC12072, 0x128E9DCF, 0x164F8078, 0x1B0CA6A1, 0x1FCDBB16, 0x018AEB13,
    0x054BF6A4, 0x0808D07D, 0x0CC9CDCA, 0x7897AB07, 0x7C56B6B0, 0x71159069, 0x75D48DDE,
    0x6B93DDDB, 0x6F52C06C, 0x6211E6B5, 0x66D0FB02, 0x5E9F46BF, 0x5A5E5B08, 0x571D7DD1,
    0x53DC6066, 0x4D9B3063, 0x495A2DD4, 0x44190B0D, 0x40D816BA, 0xACA5C697, 0xA864DB20,
    0xA527FDF9, 0xA1E6E04E, 0xBFA1B04B, 0xBB60ADFC, 0xB6238B25, 0xB2E29692, 0x8AAD2B2F,
    0x8E6C3698, 0x832F1041, 0x87EE0DF6, 0x99A95DF3, 0x9D684044, 0x902B669D, 0x94EA7B2A,
    0xE0B41DE7, 0xE4750050, 0xE9362689, 0xEDF73B3E, 0xF3B06B3B, 0xF771768C, 0xFA325055,
    0xFEF34DE2, 0xC6BCF05F, 0xC27DEDE8, 0xCF3ECB31, 0xCBFFD686, 0xD5B88683, 0xD1799B34,
    0xDC3ABDED, 0xD8FBA05A, 0x690CE0EE, 0x6DCDFD59, 0x608EDB80, 0x644FC637, 0x7A089632,
    0x7EC98B85, 0x738AAD5C, 0x774BB0EB, 0x4F040D56, 0x4BC510E1, 0x46863638, 0x42472B8F,
    0x5C007B8A, 0x58C1663D, 0x558240E4, 0x51435D53, 0x251D3B9E, 0x21DC2629, 0x2C9F00F0,
    0x285E1D47, 0x36194D42, 0x32D850F5, 0x3F9B762C, 0x3B5A6B9B, 0x0315D626, 0x07D4CB91,
    0x0A97ED48, 0x0E56F0FF, 0x1011A0FA, 0x14D0BD4D, 0x19939B94, 0x1D528623, 0xF12F560E,
    0xF5EE4BB9, 0xF8AD6D60, 0xFC6C70D7, 0xE22B20D2, 0xE6EA3D65, 0xEBA91BBC, 0xEF68060B,
    0xD727BBB6, 0xD3E6A601, 0xDEA580D8, 0xDA649D6F, 0xC423CD6A, 0xC0E2D0DD, 0xCDA1F604,
    0xC960EBB3, 0xBD3E8D7E, 0xB9FF90C9, 0xB4BCB610, 0xB07DABA7, 0xAE3AFBA2, 0xAAFBE615,
    0xA7B8C0CC, 0xA379DD7B, 0x9B3660C6, 0x9FF77D71, 0x92B45BA8, 0x9675461F, 0x8832161A,
    0x8CF30BAD, 0x81B02D74, 0x857130C3, 0x5D8A9099, 0x594B8D2E, 0x5408ABF7, 0x50C9B640,
    0x4E8EE645, 0x4A4FFBF2, 0x470CDD2B, 0x43CDC09C, 0x7B827D21, 0x7F436096, 0x7200464F,
    0x76C15BF8, 0x68860BFD, 0x6C47164A, 0x61043093, 0x65C52D24, 0x119B4BE9, 0x155A565E,
    0x18197087, 0x1CD86D30, 0x029F3D35, 0x065E2082, 0x0B1D065B, 0x0FDC1BEC, 0x3793A651,
    0x3352BBE6, 0x3E119D3F, 0x3AD08088, 0x2497D08D, 0x2056CD3A, 0x2D15EBE3, 0x29D4F654,
    0xC5A92679, 0xC1683BCE, 0xCC2B1D17, 0xC8EA00A0, 0xD6AD50A5, 0xD26C4D12, 0xDF2F6BCB,
    0xDBEE767C, 0xE3A1CBC1, 0xE760D676, 0xEA23F0AF, 0xEEE2ED18, 0xF0A5BD1D, 0xF464A0AA,
    0xF9278673, 0xFDE69BC4, 0x89B8FD09, 0x8D79E0BE, 0x803AC667, 0x84FBDBD0, 0x9ABC8BD5,
    0x9E7D9662, 0x933EB0BB, 0x97FFAD0C, 0xAFB010B1, 0xAB710D06, 0xA6322BDF, 0xA2F33668,
    0xBCB4666D, 0xB8757BDA, 0xB5365D03, 0xB1F740B4]"

section \<open>The operations\<close>

text \<open>The bytes of a register, through the code's \<open>union\<close> on a little-endian host.\<close>

definition crc8_of :: "u16 \<Rightarrow> nat \<Rightarrow> u8" where
  "crc8_of crc16 i = ucast (drop_bit (8 * i) crc16)"

definition crc8_of32 :: "u32 \<Rightarrow> nat \<Rightarrow> u8" where
  "crc8_of32 crc32 i = ucast (drop_bit (8 * i) crc32)"

definition encodeFiveBit :: "bits \<Rightarrow> u32" where
  "encodeFiveBit inp =
     ucast (foldl (\<lambda>total i. total + ucast (bitsToByteBE (drop (8 * i) inp))) (0 :: u16) [0..<9] mod 31)"

definition checkFiveBit :: "bits \<Rightarrow> u32 \<Rightarrow> bool" where
  "checkFiveBit inp tcrc = (encodeFiveBit inp = tcrc)"

definition ccitt162 :: "bytes \<Rightarrow> nat \<Rightarrow> u16" where
  "ccitt162 inp len =
     NOT (foldl (\<lambda>crc i. push_bit 8 (ucast (crc8_of crc 0)) XOR
                  CCITT16_TABLE2 ! unat (crc8_of crc 1 XOR inp ! i)) 0 [0..<len - 2])"

definition checkCCITT162 :: "bytes \<Rightarrow> nat \<Rightarrow> bool" where
  "checkCCITT162 inp len =
     (let crc16 = ccitt162 inp len
      in crc8_of crc16 0 = inp ! (len - 1) \<and> crc8_of crc16 1 = inp ! (len - 2))"

definition addCCITT162 :: "bytes \<Rightarrow> nat \<Rightarrow> bytes" where
  "addCCITT162 inp len =
     (let crc16 = ccitt162 inp len
      in inp[len - 1 := crc8_of crc16 0, len - 2 := crc8_of crc16 1])"

definition ccitt161 :: "bytes \<Rightarrow> nat \<Rightarrow> u16" where
  "ccitt161 inp len =
     NOT (foldl (\<lambda>crc i. ucast (crc8_of crc 1) XOR
                  CCITT16_TABLE1 ! unat (crc8_of crc 0 XOR inp ! i)) 0xFFFF [0..<len - 2])"

definition checkCCITT161 :: "bytes \<Rightarrow> nat \<Rightarrow> bool" where
  "checkCCITT161 inp len =
     (let crc16 = ccitt161 inp len
      in crc8_of crc16 0 = inp ! (len - 2) \<and> crc8_of crc16 1 = inp ! (len - 1))"

definition addCCITT161 :: "bytes \<Rightarrow> nat \<Rightarrow> bytes" where
  "addCCITT161 inp len =
     (let crc16 = ccitt161 inp len
      in inp[len - 2 := crc8_of crc16 0, len - 1 := crc8_of crc16 1])"

definition crc32 :: "bytes \<Rightarrow> nat \<Rightarrow> u32" where
  "crc32 inp len =
     NOT (foldl (\<lambda>crc i. let idx = (drop_bit 24 crc XOR ucast (inp ! i)) AND 0xFF
                        in CRC32_TABLE ! unat idx XOR push_bit 8 crc) 0 [0..<len - 4])"

definition checkCRC32 :: "bytes \<Rightarrow> nat \<Rightarrow> bool" where
  "checkCRC32 inp len =
     (let crc = crc32 inp len
      in crc8_of32 crc 0 = inp ! (len - 1) \<and> crc8_of32 crc 1 = inp ! (len - 2) \<and>
         crc8_of32 crc 2 = inp ! (len - 3) \<and> crc8_of32 crc 3 = inp ! (len - 4))"

definition addCRC32 :: "bytes \<Rightarrow> nat \<Rightarrow> bytes" where
  "addCRC32 inp len =
     (let crc = crc32 inp len
      in inp[len - 1 := crc8_of32 crc 0, len - 2 := crc8_of32 crc 1,
             len - 3 := crc8_of32 crc 2, len - 4 := crc8_of32 crc 3])"

definition crc8 :: "bytes \<Rightarrow> nat \<Rightarrow> u8" where
  "crc8 inp len = foldl (\<lambda>crc i. CRC8_TABLE ! unat (crc XOR inp ! i)) 0 [0..<len]"

definition crc9 :: "bytes \<Rightarrow> nat \<Rightarrow> u16" where
  "crc9 inp bitLength =
     foldl (\<lambda>crc i. if READ_BIT inp i \<noteq> 0
              then if i < 7 then crc XOR CRC9_TABLE ! i
                   else if i > 15 then crc XOR CRC9_TABLE ! (i - 9) else crc
              else crc) 0 [0..<bitLength] AND 0x1FF"

text \<open>The loop body shared by the bit-serial sums; \<open>topbit\<close> is the mask of the top bit.\<close>

definition crcShift :: "('a :: len) word \<Rightarrow> 'a word \<Rightarrow> 'a word \<Rightarrow> bool \<Rightarrow> 'a word" where
  "crcShift topbit poly crc bit1 =
     (let bit2 = (crc AND topbit = topbit); c = push_bit 1 crc
      in if bit1 \<noteq> bit2 then c XOR poly else c)"

definition createCRC6 :: "bytes \<Rightarrow> nat \<Rightarrow> u8" where
  "createCRC6 inp bitLength =
     foldl (\<lambda>crc i. crcShift 0x20 0x27 crc (READ_BIT inp i \<noteq> 0)) 0x3F [0..<bitLength] AND 0x3F"

definition createCRC12 :: "bytes \<Rightarrow> nat \<Rightarrow> u16" where
  "createCRC12 inp bitLength =
     foldl (\<lambda>crc i. crcShift 0x0800 0x080F crc (READ_BIT inp i \<noteq> 0)) 0x0FFF [0..<bitLength] AND 0x0FFF"

definition createCRC15 :: "bytes \<Rightarrow> nat \<Rightarrow> u16" where
  "createCRC15 inp bitLength =
     foldl (\<lambda>crc i. crcShift 0x4000 0x4CC5 crc (READ_BIT inp i \<noteq> 0)) 0x7FFF [0..<bitLength] AND 0x7FFF"

definition createCRC16 :: "bytes \<Rightarrow> nat \<Rightarrow> u16" where
  "createCRC16 inp bitLength =
     foldl (\<lambda>crc i. crcShift 0x8000 0x1021 crc (READ_BIT inp i \<noteq> 0)) 0xFFFF [0..<bitLength] AND 0xFFFF"

text \<open>The loops that move a sum between a buffer and a small temporary.\<close>

definition copyBits :: "bytes \<Rightarrow> nat \<Rightarrow> bytes \<Rightarrow> nat \<Rightarrow> nat \<Rightarrow> bytes" where
  "copyBits src soff dst doff n =
     foldl (\<lambda>d k. WRITE_BIT d (doff + k) (READ_BIT src (soff + k) \<noteq> 0)) dst [0..<n]"

definition crc_temp :: "u16 \<Rightarrow> bytes" where
  "crc_temp crc = [ucast (drop_bit 8 crc AND 0xFF), ucast (drop_bit 0 crc AND 0xFF)]"

definition checkCRC6 :: "bytes \<Rightarrow> nat \<Rightarrow> bool" where
  "checkCRC6 inp bitLength =
     (createCRC6 inp bitLength = copyBits inp bitLength [0] 2 6 ! 0)"

definition addCRC6 :: "bytes \<Rightarrow> nat \<Rightarrow> u8 \<times> bytes" where
  "addCRC6 inp bitLength =
     (let crc = createCRC6 inp bitLength in (crc, copyBits [crc] 2 inp bitLength 6))"

definition checkCRC12 :: "bytes \<Rightarrow> nat \<Rightarrow> bool" where
  "checkCRC12 inp bitLength =
     (crc_temp (createCRC12 inp bitLength) = copyBits inp bitLength [0, 0] 4 12)"

definition addCRC12 :: "bytes \<Rightarrow> nat \<Rightarrow> u16 \<times> bytes" where
  "addCRC12 inp bitLength =
     (let crc = createCRC12 inp bitLength in (crc, copyBits (crc_temp crc) 4 inp bitLength 12))"

definition checkCRC15 :: "bytes \<Rightarrow> nat \<Rightarrow> bool" where
  "checkCRC15 inp bitLength =
     (crc_temp (createCRC15 inp bitLength) = copyBits inp bitLength [0, 0] 1 15)"

definition addCRC15 :: "bytes \<Rightarrow> nat \<Rightarrow> u16 \<times> bytes" where
  "addCRC15 inp bitLength =
     (let crc = createCRC15 inp bitLength in (crc, copyBits (crc_temp crc) 1 inp bitLength 15))"

definition checkCRC16 :: "bytes \<Rightarrow> nat \<Rightarrow> bool" where
  "checkCRC16 inp bitLength =
     (crc_temp (createCRC16 inp bitLength) = copyBits inp bitLength [0, 0] 0 16)"

definition addCRC16 :: "bytes \<Rightarrow> nat \<Rightarrow> u16 \<times> bytes" where
  "addCRC16 inp bitLength =
     (let crc = createCRC16 inp bitLength in (crc, copyBits (crc_temp crc) 0 inp bitLength 16))"

section \<open>The tables are polynomial divisions\<close>

text \<open>
  One step of a left-shifting register with polynomial \<open>poly\<close>, and of the right-shifting
  register of the reflected CCITT-161.  Both are linear for exclusive-or.
\<close>

definition lfsr :: "('a :: len) word \<Rightarrow> 'a word \<Rightarrow> 'a word" where
  "lfsr poly x = push_bit 1 x XOR (if bit x (LENGTH('a) - 1) then poly else 0)"

definition lfsr_right :: "('a :: len) word \<Rightarrow> 'a word \<Rightarrow> 'a word" where
  "lfsr_right poly x = drop_bit 1 x XOR (if bit x 0 then poly else 0)"

definition xor_linear :: "(('a :: len) word \<Rightarrow> 'a word) \<Rightarrow> bool" where
  "xor_linear h \<longleftrightarrow> (\<forall>x y. h (x XOR y) = h x XOR h y)"

named_theorems linear_intros "operations that are linear for exclusive-or"

lemma xor_linearD: "xor_linear h \<Longrightarrow> h (x XOR y) = h x XOR h y"
  by (simp add: xor_linear_def)

lemma xor_linear_zero: "xor_linear h \<Longrightarrow> h 0 = 0"
  by (metis xor_linearD xor_self_eq)

lemma xor_linear_id [linear_intros]: "xor_linear (\<lambda>x. x)"
  by (simp add: xor_linear_def)

lemma xor_linear_push [linear_intros]: "xor_linear h \<Longrightarrow> xor_linear (\<lambda>x. push_bit n (h x))"
  by (simp add: xor_linear_def push_bit_xor)

lemma xor_linear_lfsr: "xor_linear (lfsr p)"
proof -
  have "lfsr p (x XOR y) = lfsr p x XOR lfsr p y" for x y :: "'a word"
    by (cases "bit x (LENGTH('a) - 1)"; cases "bit y (LENGTH('a) - 1)")
      (simp_all add: lfsr_def push_bit_xor bit_xor_iff xor.assoc xor.left_commute xor.commute)
  then show ?thesis by (simp add: xor_linear_def)
qed

lemma xor_linear_lfsr_right: "xor_linear (lfsr_right p)"
proof -
  have "lfsr_right p (x XOR y) = lfsr_right p x XOR lfsr_right p y" for x y :: "'a word"
    by (cases "bit x 0"; cases "bit y 0")
      (simp_all only: lfsr_right_def drop_bit_xor bit_xor_iff, simp_all add: xor.assoc xor.left_commute xor.commute)
  then show ?thesis by (simp add: xor_linear_def)
qed

lemma xor_linear_pow [linear_intros]:
  "xor_linear f \<Longrightarrow> xor_linear h \<Longrightarrow> xor_linear (\<lambda>x. (f ^^ n) (h x))"
  by (induction n) (auto simp: xor_linear_def)

lemma xor_linear_funpow: "xor_linear f \<Longrightarrow> xor_linear (f ^^ n)"
  by (induction n) (auto simp: xor_linear_def)

declare xor_linear_lfsr [linear_intros] xor_linear_lfsr_right [linear_intros]

text \<open>A table of a linear function is spanned by its entries at the powers of two.\<close>

fun xor_grow :: "('a :: len) word list \<Rightarrow> 'a word list \<Rightarrow> 'a word list" where
  "xor_grow acc [] = acc"
| "xor_grow acc (b # bs) = xor_grow (acc @ map (\<lambda>x. b XOR x) acc) bs"

lemma pow_add_xor: "m < 2 ^ k \<Longrightarrow> 2 ^ k + m = (2 ^ k :: nat) XOR m"
proof -
  assume "m < 2 ^ k"
  then have t: "take_bit k m = m" by (simp add: take_bit_nat_eq_self)
  have "(2 ^ k :: nat) AND m = 0"
    by (rule bit_eqI) (use t in \<open>metis bit_and_iff bit_exp_iff bit_take_bit_iff bit_0_eq bot_apply bot_bool_def less_irrefl\<close>)
  then show ?thesis by (simp add: disjunctive_xor_eq_or disjunctive_add_eq_or)
qed

lemma xor_grow_linear:
  assumes "xor_linear h"
  shows "xor_grow (map (\<lambda>n. h (of_nat n)) [0..<2 ^ k]) (map (\<lambda>i. h (2 ^ i)) [k..<k + j]) =
         map (\<lambda>n. h (of_nat n)) [0..<2 ^ (k + j)]"
proof (induction j arbitrary: k)
  case 0
  then show ?case by simp
next
  case (Suc j)
  have "map (\<lambda>x. h (2 ^ k) XOR x) (map (\<lambda>n. h (of_nat n)) [0..<2 ^ k]) =
        map (\<lambda>n. h (of_nat n)) [2 ^ k..<2 ^ Suc k]"
  proof (rule nth_equalityI)
    fix i
    assume "i < length (map (\<lambda>x. h (2 ^ k) XOR x) (map (\<lambda>n. h (of_nat n)) [0..<2 ^ k]))"
    then have i: "i < 2 ^ k" by simp
    have "h (2 ^ k) XOR h (of_nat i) = h (2 ^ k XOR of_nat i)"
      using assms by (simp add: xor_linear_def)
    also have "2 ^ k XOR (of_nat i :: 'a word) = of_nat (2 ^ k + i)"
      unfolding pow_add_xor [OF i] of_nat_xor_eq by simp
    finally show "map (\<lambda>x. h (2 ^ k) XOR x) (map (\<lambda>n. h (of_nat n)) [0..<2 ^ k]) ! i =
        map (\<lambda>n. h (of_nat n)) [2 ^ k..<2 ^ Suc k] ! i" using i by simp
  qed simp
  moreover have "[0..<2 ^ Suc k] = [0..<2 ^ k] @ [2 ^ k..<2 ^ Suc k]"
    by (metis le_add1 mult_2 power_Suc upt_add_eq_append zero_le)
  moreover have "[k..<k + Suc j] = k # [Suc k..<Suc k + j]" by (simp add: upt_conv_Cons)
  ultimately show ?case using Suc.IH [of "Suc k"] by (simp del: upt_Suc)
qed

lemma xor_table:
  assumes "xor_linear h" "T = xor_grow [0] [h 1, h 2, h 4, h 8, h 16, h 32, h 64, h 128]" "n < 256"
  shows "T ! n = h (of_nat n)"
proof -
  have "T = map (\<lambda>n. h (of_nat n)) [0..<2 ^ (0 + 8)]"
    unfolding assms(2) xor_grow_linear [OF assms(1), of 0 8, symmetric]
    by (simp add: upt_conv_Cons xor_linear_zero [OF assms(1)])
  then show ?thesis using assms(3) by simp
qed

lemma funpow_8: "(f ^^ 8) x = f (f (f (f (f (f (f (f x)))))))"
  by (simp add: numeral_eq_Suc)

lemma CRC8_TABLE_lfsr: "n < 256 \<Longrightarrow> take 256 CRC8_TABLE ! n = (lfsr 0x07 ^^ 8) (of_nat n)"
  by (rule xor_table [OF xor_linear_funpow [OF xor_linear_lfsr]])
    (simp add: CRC8_TABLE_def funpow_8 lfsr_def)

lemma CCITT16_TABLE2_lfsr:
  "n < 256 \<Longrightarrow> CCITT16_TABLE2 ! n = (lfsr 0x1021 ^^ 8) (push_bit 8 (of_nat n))"
  by (rule xor_table [where h = "\<lambda>x. (lfsr 0x1021 ^^ 8) (push_bit 8 x)"], intro linear_intros)
    (simp_all add: CCITT16_TABLE2_def funpow_8 lfsr_def)

lemma CCITT16_TABLE1_lfsr: "n < 256 \<Longrightarrow> CCITT16_TABLE1 ! n = (lfsr_right 0x8408 ^^ 8) (of_nat n)"
  by (rule xor_table [OF xor_linear_funpow [OF xor_linear_lfsr_right]])
    (simp add: CCITT16_TABLE1_def funpow_8 lfsr_right_def)

lemma CRC32_TABLE_lfsr:
  "n < 256 \<Longrightarrow> CRC32_TABLE ! n = (lfsr 0x04C11DB7 ^^ 8) (push_bit 24 (of_nat n))"
  by (rule xor_table [where h = "\<lambda>x. (lfsr 0x04C11DB7 ^^ 8) (push_bit 24 x)"], intro linear_intros)
    (simp_all add: CRC32_TABLE_def funpow_8 lfsr_def)

section \<open>Byte steps and bit steps\<close>

text \<open>A register whose low bits only are set is shifted and nothing else.\<close>

lemma lfsr_funpow_shift:
  fixes x :: "('a :: len) word"
  assumes "\<And>i. LENGTH('a) \<le> i + n \<Longrightarrow> \<not> bit x i"
  shows "(lfsr p ^^ n) x = push_bit n x"
  using assms
proof (induction n)
  case 0
  then show ?case by simp
next
  case (Suc n)
  then have e: "(lfsr p ^^ n) x = push_bit n x" by simp
  have "\<not> bit x (LENGTH('a) - 1 - n)" if "n \<le> LENGTH('a) - 1" using Suc.prems that by simp
  then have "\<not> bit (push_bit n x) (LENGTH('a) - 1)" by (auto simp: bit_push_bit_iff)
  then have "lfsr p (push_bit n x) = push_bit 1 (push_bit n x)" by (simp only: lfsr_def) simp
  then show ?case using e by (simp only: funpow.simps o_apply) (simp add: push_bit_push_bit)
qed

text \<open>
  Eight steps on a register with the next byte added at the top: the table entry of the top
  byte, and the rest shifted up.  This is the loop body of every left-shifting table.
\<close>

lemma lfsr_byte_step:
  fixes x :: "('a :: len) word"
  assumes "8 \<le> LENGTH('a)"
  shows "(lfsr p ^^ 8) (x XOR push_bit (LENGTH('a) - 8) (ucast (b :: u8))) =
         (lfsr p ^^ 8) (push_bit (LENGTH('a) - 8)
            (ucast ((ucast (drop_bit (LENGTH('a) - 8) x) :: u8) XOR b))) XOR push_bit 8 x"
proof -
  let ?L = "LENGTH('a)"
  let ?lo = "take_bit (?L - 8) x"
  let ?hi = "push_bit (?L - 8) (ucast ((ucast (drop_bit (?L - 8) x) :: u8) XOR b)) :: 'a word"
  have split: "x XOR push_bit (?L - 8) (ucast b) = ?hi XOR ?lo"
    by (rule bit_word_eqI) (use assms in \<open>auto simp: bit_simps\<close>)
  have "(lfsr p ^^ 8) ?lo = push_bit 8 ?lo"
    by (rule lfsr_funpow_shift) (auto simp: bit_take_bit_iff)
  moreover have "push_bit 8 ?lo = push_bit 8 x"
    by (rule bit_word_eqI) (use assms in \<open>auto simp: bit_simps\<close>)
  ultimately show ?thesis
    unfolding split using xor_linearD [OF xor_linear_funpow [OF xor_linear_lfsr]] by metis
qed

lemma crcShift_lfsr:
  fixes crc :: "('a :: len) word"
  assumes "tb = 2 ^ (LENGTH('a) - 1)"
  shows "crcShift tb poly crc b = lfsr poly (crc XOR (if b then tb else 0))"
proof -
  have t: "bit tb i = (i = LENGTH('a) - 1)" for i
    unfolding assms by (auto simp: bit_simps)
  have m: "(crc AND tb = tb) = bit crc (LENGTH('a) - 1)"
  proof
    assume "crc AND tb = tb"
    then have "bit (crc AND tb) (LENGTH('a) - 1)" using t by simp
    then show "bit crc (LENGTH('a) - 1)" by (simp add: bit_and_iff)
  next
    assume "bit crc (LENGTH('a) - 1)"
    then show "crc AND tb = tb" by (intro bit_word_eqI) (auto simp: bit_and_iff t)
  qed
  have "push_bit 1 (crc XOR tb) = push_bit 1 crc"
    by (rule bit_word_eqI) (simp only: bit_push_bit_iff bit_xor_iff t, auto)
  then show ?thesis
    by (cases b) (simp_all only: crcShift_def lfsr_def m Let_def bit_xor_iff t if_True if_False, simp_all)
qed

text \<open>Feeding one bit later is adding it one place lower before a step.\<close>

lemma lfsr_feed:
  fixes y :: "('a :: len) word"
  assumes "Suc n < LENGTH('a)"
  shows "lfsr p y XOR (if b then 2 ^ Suc n else 0) = lfsr p (y XOR (if b then 2 ^ n else 0))"
proof -
  have "lfsr p (2 ^ n) = (2 ^ Suc n :: 'a word)"
  proof -
    have "\<not> bit (2 ^ n :: 'a word) (LENGTH('a) - 1)" using assms by (auto simp: bit_simps)
    then show ?thesis by (simp only: lfsr_def) (simp add: push_bit_eq_mult)
  qed
  then show ?thesis
    by (simp add: xor_linearD [OF xor_linear_lfsr] xor_linear_zero [OF xor_linear_lfsr])
qed

lemma lfsr_feed_pow:
  fixes y :: "('a :: len) word"
  assumes "n + k < LENGTH('a)"
  shows "(lfsr p ^^ k) y XOR (if b then 2 ^ (n + k) else 0) =
         (lfsr p ^^ k) (y XOR (if b then 2 ^ n else 0))"
  using assms
proof (induction k arbitrary: n)
  case 0
  then show ?case by simp
next
  case (Suc k)
  then have "lfsr p ((lfsr p ^^ k) y) XOR (if b then 2 ^ Suc (n + k) else 0) =
        lfsr p ((lfsr p ^^ k) y XOR (if b then 2 ^ (n + k) else 0))"
    by (intro lfsr_feed) simp
  then show ?case using Suc by (cases b) (simp_all del: power_Suc)
qed

lemma crcShift_bits:
  fixes x :: "('a :: len) word"
  assumes "length bs \<le> LENGTH('a)"
  shows "foldl (crcShift (2 ^ (LENGTH('a) - 1)) p) x bs =
         (lfsr p ^^ length bs)
           (foldl (XOR) x (map (\<lambda>i. if bs ! i then 2 ^ (LENGTH('a) - 1 - i) else 0) [0..<length bs]))"
  using assms
proof (induction bs rule: rev_induct)
  case Nil
  then show ?case by simp
next
  case (snoc b bs)
  let ?t = "2 ^ (LENGTH('a) - 1) :: 'a word" and ?n = "length bs"
  let ?g = "\<lambda>cs. foldl (XOR) x (map (\<lambda>i. if cs ! i then 2 ^ (LENGTH('a) - 1 - i) else 0) [0..<?n])"
  have same: "?g (bs @ [b]) = ?g bs"
    by (rule arg_cong [where f = "foldl (XOR) x"]) (simp add: nth_append)
  have IH: "foldl (crcShift ?t p) x bs = (lfsr p ^^ ?n) (?g bs)" using snoc by simp
  have "foldl (crcShift ?t p) x (bs @ [b]) =
        lfsr p ((lfsr p ^^ ?n) (?g bs) XOR (if b then ?t else 0))"
    by (simp only: foldl_append foldl_Cons foldl_Nil IH crcShift_lfsr [OF refl])
  also have "(lfsr p ^^ ?n) (?g bs) XOR (if b then ?t else 0) =
        (lfsr p ^^ ?n) (?g bs XOR (if b then 2 ^ (LENGTH('a) - 1 - ?n) else 0))"
    using lfsr_feed_pow [of "LENGTH('a) - 1 - ?n" ?n p "?g bs" b] snoc.prems by (cases b) simp_all
  finally show ?case using same by (simp add: nth_append)
qed

lemma crcShift_byte:
  fixes x :: "('a :: len) word"
  assumes "8 \<le> LENGTH('a)"
  shows "foldl (crcShift (2 ^ (LENGTH('a) - 1)) p) x (byteToBitsBE b) =
         (lfsr p ^^ 8) (x XOR push_bit (LENGTH('a) - 8) (ucast b))"
proof -
  let ?L = "LENGTH('a)"
  let ?m = "\<lambda>i. if byteToBitsBE b ! i then 2 ^ (?L - 1 - i) else 0 :: 'a word"
  have bm: "bit (?m i) j = (j = ?L - 1 - i \<and> bit b (7 - i))" if "i < 8" for i j
    using that assms by (auto simp: byteToBitsBE_nth bit_simps)
  have xs: "bit (foldl (XOR) x (map ?m [0..<n])) j =
            (bit x j \<noteq> (?L - n \<le> j \<and> j < ?L \<and> bit b (j + 8 - ?L)))" if "n \<le> 8" for n j
    using that
  proof (induction n)
    case 0
    then show ?case using bit_imp_le_length by fastforce
  next
    case (Suc n)
    have n: "n < 8" using Suc.prems by simp
    have "bit (foldl (XOR) x (map ?m [0..<Suc n])) j =
          (bit (foldl (XOR) x (map ?m [0..<n])) j \<noteq> (j = ?L - 1 - n \<and> bit b (7 - n)))"
      using bm [OF n] by (simp add: bit_xor_iff)
    also have "\<dots> = (bit x j \<noteq> (?L - Suc n \<le> j \<and> j < ?L \<and> bit b (j + 8 - ?L)))"
    proof (cases "j = ?L - 1 - n")
      case True
      then have "j + 8 - ?L = 7 - n" "\<not> ?L - n \<le> j" "?L - Suc n \<le> j" "j < ?L"
        using n assms by auto
      then show ?thesis using True Suc.IH n assms by simp
    next
      case False
      then have "(?L - Suc n \<le> j) = (?L - n \<le> j)" using n assms by auto
      then show ?thesis using False Suc.IH n by auto
    qed
    finally show ?case .
  qed
  have "foldl (XOR) x (map ?m [0..<8]) = x XOR push_bit (?L - 8) (ucast b)"
    by (rule bit_word_eqI)
      (use assms in \<open>auto simp: xs bit_simps Suc_diff_Suc dest: bit_imp_le_length\<close>)
  then show ?thesis using crcShift_bits [of "byteToBitsBE b", where 'a = 'a] assms by simp
qed

section \<open>Registers remember\<close>

lemma bit_lfsr:
  fixes x :: "('a :: len) word"
  assumes "n < LENGTH('a)"
  shows "bit (lfsr p x) n = ((0 < n \<and> bit x (n - 1)) \<noteq> (bit x (LENGTH('a) - 1) \<and> bit p n))"
  using assms by (simp only: lfsr_def bit_xor_iff bit_push_bit_iff) auto

lemma bit_lfsr_right:
  fixes x :: "('a :: len) word"
  shows "bit (lfsr_right p x) n = (bit x (Suc n) \<noteq> (bit x 0 \<and> bit p n))"
  by (simp only: lfsr_right_def bit_xor_iff bit_drop_bit_eq) auto

lemma lfsr_inj:
  fixes x y :: "('a :: len) word"
  assumes "bit p 0" "lfsr p x = lfsr p y"
  shows "x = y"
proof (rule bit_word_eqI)
  have e: "bit (lfsr p x) n = bit (lfsr p y) n" for n using assms(2) by simp
  have msb: "bit x (LENGTH('a) - 1) = bit y (LENGTH('a) - 1)"
    using e [of 0] assms(1) by (simp add: bit_lfsr)
  fix n
  assume "n < LENGTH('a)"
  then consider "n = LENGTH('a) - 1" | "Suc n < LENGTH('a)" by linarith
  then show "bit x n = bit y n"
    by cases (use e [of "Suc n"] msb in \<open>auto simp: bit_lfsr\<close>)
qed

lemma lfsr_right_inj:
  fixes x y :: "('a :: len) word"
  assumes "bit p (LENGTH('a) - 1)" "lfsr_right p x = lfsr_right p y"
  shows "x = y"
proof (rule bit_word_eqI)
  have e: "bit (lfsr_right p x) n = bit (lfsr_right p y) n" for n using assms(2) by simp
  have b: "\<not> bit z (Suc (LENGTH('a) - 1))" for z :: "'a word"
    using bit_imp_le_length [of z "Suc (LENGTH('a) - 1)"] by auto
  have lsb: "bit x 0 = bit y 0"
    using e [of "LENGTH('a) - 1"] assms(1) b by (simp only: bit_lfsr_right) simp
  fix n
  assume "n < LENGTH('a)"
  show "bit x n = bit y n"
  proof (cases n)
    case 0
    then show ?thesis using lsb by simp
  next
    case (Suc m)
    then show ?thesis using e [of m] lsb by (auto simp: bit_lfsr_right)
  qed
qed

lemma funpow_inj:
  fixes f :: "'a \<Rightarrow> 'a"
  assumes inj: "\<And>x y. f x = f y \<Longrightarrow> x = y"
  shows "(f ^^ n) x = (f ^^ n) y \<Longrightarrow> x = y"
proof (induction n)
  case (Suc n)
  then have "f ((f ^^ n) x) = f ((f ^^ n) y)" by simp
  then have "(f ^^ n) x = (f ^^ n) y" by (rule inj)
  then show ?case by (rule Suc.IH)
qed simp

lemma crcShift_inj:
  fixes a b :: "('a :: len) word"
  assumes k: "k < LENGTH('a)" and p: "bit p 0"
    and e: "take_bit (Suc k) (crcShift (2 ^ k) p a x) = take_bit (Suc k) (crcShift (2 ^ k) p b y)"
  shows "(bit a k \<noteq> x) = (bit b k \<noteq> y)" "x = y \<Longrightarrow> take_bit (Suc k) a = take_bit (Suc k) b"
    "take_bit (Suc k) a = take_bit (Suc k) b \<Longrightarrow> x = y"
proof -
  have m: "(c AND 2 ^ k = 2 ^ k) = bit c k" for c :: "'a word"
  proof
    assume "c AND 2 ^ k = 2 ^ k"
    then have "bit (c AND 2 ^ k) k" using k by (simp add: bit_simps)
    then show "bit c k" by (simp add: bit_and_iff)
  qed (auto intro!: bit_word_eqI simp: bit_simps)
  have bits: "bit (crcShift (2 ^ k) p c z) n =
        ((0 < n \<and> bit c (n - 1)) \<noteq> ((z \<noteq> bit c k) \<and> bit p n))" if "n < LENGTH('a)" for c z n
    using that by (simp only: crcShift_def Let_def m) (auto simp: bit_xor_iff bit_push_bit_iff simp del: push_bit_Suc)
  have eb: "bit (crcShift (2 ^ k) p a x) n = bit (crcShift (2 ^ k) p b y) n" if "n \<le> k" for n
    using e that by (metis bit_take_bit_iff le_imp_less_Suc)
  show msb: "(bit a k \<noteq> x) = (bit b k \<noteq> y)"
    using eb [of 0] p by (auto simp: bits)
  show "x = y" if "take_bit (Suc k) a = take_bit (Suc k) b"
    using msb that by (metis bit_take_bit_iff lessI)
  show "take_bit (Suc k) a = take_bit (Suc k) b" if "x = y"
  proof (rule bit_word_eqI)
    fix n
    assume "n < LENGTH('a)"
    show "bit (take_bit (Suc k) a) n = bit (take_bit (Suc k) b) n"
    proof (cases "n < k")
      case True
      then have "bit (crcShift (2 ^ k) p a x) (Suc n) = bit (crcShift (2 ^ k) p b y) (Suc n)"
        by (intro eb) simp
      then have "bit a n = bit b n" using True k msb that by (auto simp: bits)
      then show ?thesis by (simp add: bit_take_bit_iff)
    next
      case False
      then show ?thesis using msb that by (cases "n = k") (auto simp: bit_take_bit_iff)
    qed
  qed
qed

section \<open>The contracts\<close>

text \<open>
  A checksum of whole bytes over the first \<open>len - width\<close> bytes, stored in the last
  \<open>width\<close> of the \<open>len\<close> bytes.
\<close>

locale byte_crc =
  fixes width :: nat
    and sum :: "bytes \<Rightarrow> bytes"
    and check :: "bytes \<Rightarrow> nat \<Rightarrow> bool"
    and add :: "bytes \<Rightarrow> nat \<Rightarrow> bytes"
  assumes sum_length: "length (sum bs) = width"
    and sum_change: "i < length bs \<Longrightarrow> x \<noteq> bs ! i \<Longrightarrow> sum (bs[i := x]) \<noteq> sum bs"
    and check_iff: "width < len \<Longrightarrow> len \<le> length inp \<Longrightarrow>
      check inp len \<longleftrightarrow> take width (drop (len - width) inp) = sum (take (len - width) inp)"
    and add_eq: "width < len \<Longrightarrow> len \<le> length inp \<Longrightarrow>
      add inp len = memcpy_at inp (len - width) (sum (take (len - width) inp))"
begin

lemma add_check:
  assumes "width < len" "len \<le> length inp"
  shows "check (add inp len) len \<and> length (add inp len) = length inp \<and>
         take (len - width) (add inp len) = take (len - width) inp \<and>
         drop len (add inp len) = drop len inp"
proof -
  let ?s = "sum (take (len - width) inp)"
  have l: "len - width + length ?s \<le> length inp" using assms by (simp add: sum_length)
  have t: "take (len - width) (add inp len) = take (len - width) inp"
    using l assms by (simp add: add_eq memcpy_at_take)
  have g: "take width (drop (len - width) (add inp len)) = ?s"
    using memcpy_at_get [OF l] assms by (simp add: add_eq sum_length)
  have d: "drop len (add inp len) = drop len inp"
    using assms by (simp add: add_eq memcpy_at_def sum_length)
  have n: "length (add inp len) = length inp" using l assms by (simp add: add_eq)
  show ?thesis using t g d n assms by (simp add: check_iff)
qed

lemma corrupt_detected:
  assumes "width < len" "len \<le> length inp" "check inp len" "i < len" "x \<noteq> inp ! i"
  shows "\<not> check (inp[i := x]) len"
proof
  assume c: "check (inp[i := x]) len"
  let ?n = "len - width"
  have l: "len \<le> length (inp[i := x])" using assms(2) by simp
  have ok: "take width (drop ?n inp) = sum (take ?n inp)"
    "take width (drop ?n (inp[i := x])) = sum (take ?n (inp[i := x]))"
    using assms(1-3) c check_iff [OF assms(1) l] by (simp_all add: check_iff)
  show False
  proof (cases "i < ?n")
    case True
    then have "drop ?n (inp[i := x]) = drop ?n inp" "take ?n (inp[i := x]) = (take ?n inp)[i := x]"
      by (simp_all add: take_update_swap)
    moreover have "sum ((take ?n inp)[i := x]) \<noteq> sum (take ?n inp)"
      using True assms by (intro sum_change) simp_all
    ultimately show False using ok by simp
  next
    case False
    then have "take ?n (inp[i := x]) = take ?n inp" by simp
    then have "take width (drop ?n (inp[i := x])) = take width (drop ?n inp)" using ok by simp
    then have "take width (drop ?n (inp[i := x])) ! (i - ?n) = take width (drop ?n inp) ! (i - ?n)"
      by simp
    then show False using False assms by simp
  qed
qed

end

text \<open>A checksum of \<open>width\<close> bits over the first \<open>n\<close> bits of a buffer, stored after them.\<close>

locale bit_crc =
  fixes width :: nat
    and sum :: "bits \<Rightarrow> bits"
    and check :: "bytes \<Rightarrow> nat \<Rightarrow> bool"
    and add :: "bytes \<Rightarrow> nat \<Rightarrow> bytes"
  assumes sum_length: "length (sum bs) = width"
    and sum_flip: "i < length bs \<Longrightarrow> sum (bs[i := \<not> bs ! i]) \<noteq> sum bs"
    and check_iff: "n + width \<le> 8 * length inp \<Longrightarrow>
      check inp n \<longleftrightarrow> take width (drop n (bits_of inp)) = sum (take n (bits_of inp))"
    and add_eq: "n + width \<le> 8 * length inp \<Longrightarrow>
      bits_of (add inp n) = memcpy_at (bits_of inp) n (sum (take n (bits_of inp)))"
begin

lemma add_length:
  assumes "n + width \<le> 8 * length inp"
  shows "length (add inp n) = length inp"
proof -
  have "length (bits_of (add inp n)) = length (bits_of inp)"
    using assms by (simp only: add_eq) (simp add: sum_length)
  then show ?thesis by simp
qed

lemma add_check:
  assumes "n + width \<le> 8 * length inp"
  shows "check (add inp n) n \<and> length (add inp n) = length inp \<and>
         take n (bits_of (add inp n)) = take n (bits_of inp) \<and>
         drop (n + width) (bits_of (add inp n)) = drop (n + width) (bits_of inp)"
proof -
  let ?s = "sum (take n (bits_of inp))"
  have l: "n + length ?s \<le> length (bits_of inp)" using assms by (simp add: sum_length)
  have t: "take n (bits_of (add inp n)) = take n (bits_of inp)"
    using l assms by (simp add: add_eq memcpy_at_take)
  have g: "take width (drop n (bits_of (add inp n))) = ?s"
    using memcpy_at_get [OF l] assms by (simp add: add_eq sum_length)
  have d: "drop (n + width) (bits_of (add inp n)) = drop (n + width) (bits_of inp)"
    using assms by (simp add: add_eq memcpy_at_def sum_length)
  show ?thesis using t g d assms add_length [OF assms] by (simp add: check_iff)
qed

lemma flip_detected:
  assumes n: "n + width \<le> 8 * length inp" and "check inp n" and i: "i < n + width"
  shows "\<not> check (WRITE_BIT inp i (READ_BIT inp i = 0)) n"
proof
  let ?inp = "WRITE_BIT inp i (READ_BIT inp i = 0)" and ?b = "bits_of inp"
  assume c: "check ?inp n"
  have i8: "i < 8 * length inp" using n i by simp
  have b: "bits_of ?inp = ?b[i := \<not> ?b ! i]"
    unfolding READ_BIT_bits_of [OF i8, symmetric] by (simp add: WRITE_BIT_bits_of [OF i8])
  have ok: "take width (drop n ?b) = sum (take n ?b)"
    "take width (drop n (bits_of ?inp)) = sum (take n (bits_of ?inp))"
    using assms c check_iff [of n ?inp] by (simp_all add: check_iff)
  show False
  proof (cases "i < n")
    case True
    then have "drop n (bits_of ?inp) = drop n ?b"
      "take n (bits_of ?inp) = (take n ?b)[i := \<not> take n ?b ! i]"
      by (simp_all add: b take_update_swap)
    moreover have "sum ((take n ?b)[i := \<not> take n ?b ! i]) \<noteq> sum (take n ?b)"
      using True n by (intro sum_flip) simp
    ultimately show False using ok by simp
  next
    case False
    then have "take n (bits_of ?inp) = take n ?b" by (simp add: b)
    then have "take width (drop n (bits_of ?inp)) = take width (drop n ?b)" using ok by simp
    then have "take width (drop n (bits_of ?inp)) ! (i - n) = take width (drop n ?b) ! (i - n)"
      by simp
    then show False using False i n by (simp add: b)
  qed
qed

end

section \<open>The byte-table checksums\<close>

lemma crc8_of_bytes:
  "crc8_of x 0 = ucast x" "crc8_of x 1 = ucast (drop_bit 8 x)" "crc8_of x (Suc 0) = ucast (drop_bit 8 x)"
  by (simp_all add: crc8_of_def)

lemma u16_bytes_eqI: "crc8_of x 0 = crc8_of y 0 \<Longrightarrow> crc8_of x 1 = crc8_of y 1 \<Longrightarrow> x = y"
  by (metis join16 crc8_of_bytes)

lemma u32_bytes_eqI:
  assumes "crc8_of32 x 0 = crc8_of32 y 0" "crc8_of32 x 1 = crc8_of32 y 1"
    "crc8_of32 x 2 = crc8_of32 y 2" "crc8_of32 x 3 = crc8_of32 y 3"
  shows "x = y"
proof -
  have j: "v = push_bit 24 (ucast (crc8_of32 v 3)) OR push_bit 16 (ucast (crc8_of32 v 2)) OR
      push_bit 8 (ucast (crc8_of32 v 1)) OR ucast (crc8_of32 v 0)" for v
    using join32 [of v] by (simp add: crc8_of32_def)
  show ?thesis by (subst j, subst (2) j) (simp only: assms)
qed

lemma unat_u8_less: "unat (b :: u8) < 256"
  using unsigned_less [of b, where 'a = nat] by simp

text \<open>The three loop bodies, as eight steps of their registers.\<close>

lemma ccitt162_step:
  "push_bit 8 (ucast (crc8_of crc 0)) XOR CCITT16_TABLE2 ! unat (crc8_of crc 1 XOR b) =
   (lfsr 0x1021 ^^ 8) (crc XOR push_bit 8 (ucast b))"
proof -
  have "push_bit 8 (ucast (crc8_of crc 0)) = push_bit 8 crc"
    by (rule bit_word_eqI) (auto simp: crc8_of_def bit_simps)
  then show ?thesis
    using lfsr_byte_step [of "0x1021" crc b] CCITT16_TABLE2_lfsr [OF unat_u8_less, of "crc8_of crc 1 XOR b"]
    by (simp add: crc8_of_bytes xor.commute)
qed

lemma crc32_step:
  "CRC32_TABLE ! unat ((drop_bit 24 crc XOR ucast (b :: u8)) AND 0xFF) XOR push_bit 8 crc =
   (lfsr 0x04C11DB7 ^^ 8) (crc XOR push_bit 24 (ucast b))"
proof -
  let ?h = "(ucast (drop_bit 24 crc) :: u8) XOR b"
  have m: "(0xFF :: u32) = mask 8" by (simp add: mask_eq_exp_minus_1)
  have "(drop_bit 24 crc XOR ucast b) AND 0xFF = ucast ?h"
    unfolding m take_bit_eq_mask [symmetric]
    by (rule bit_word_eqI) (auto simp: bit_simps dest: bit_imp_le_length)
  then have "unat ((drop_bit 24 crc XOR ucast b) AND 0xFF) = unat ?h"
    using unat_u8_less [of ?h] by (simp add: unsigned_ucast_eq take_bit_nat_eq_self)
  then show ?thesis
    using lfsr_byte_step [of "0x04C11DB7" crc b] CRC32_TABLE_lfsr [OF unat_u8_less, of ?h] by simp
qed

lemma ccitt161_step:
  "ucast (crc8_of crc 1) XOR CCITT16_TABLE1 ! unat (crc8_of crc 0 XOR b) =
   (lfsr_right 0x8408 ^^ 8) (crc XOR ucast b)"
proof -
  let ?f = "lfsr_right 0x8408 :: u16 \<Rightarrow> u16"
  let ?hi = "push_bit 8 (drop_bit 8 crc)"
  have split: "crc XOR ucast b = ucast (crc8_of crc 0 XOR b) XOR ?hi"
    by (rule bit_word_eqI) (auto simp: crc8_of_def bit_simps)
  have low: "?f x = drop_bit 1 x" if "\<not> bit x 0" for x using that by (simp only: lfsr_right_def) simp
  have "(?f ^^ n) ?hi = drop_bit n ?hi" if "n \<le> 8" for n
    using that
  proof (induction n)
    case (Suc n)
    then have "(?f ^^ Suc n) ?hi = ?f (drop_bit n ?hi)" by simp
    also have "\<dots> = drop_bit 1 (drop_bit n ?hi)"
      by (rule low) (use Suc.prems in \<open>auto simp: bit_simps\<close>)
    finally show ?case by (simp only: drop_bit_drop_bit) simp
  qed simp
  from this [of 8] have "(?f ^^ 8) ?hi = drop_bit 8 ?hi" by simp
  also have "\<dots> = ucast (crc8_of crc 1)"
    by (rule bit_word_eqI) (auto simp: crc8_of_def bit_simps dest: bit_imp_le_length)
  finally show ?thesis
    unfolding split using CCITT16_TABLE1_lfsr [OF unat_u8_less, of "crc8_of crc 0 XOR b"]
    by (simp add: xor_linearD [OF xor_linear_funpow [OF xor_linear_lfsr_right]] xor.commute)
qed

text \<open>The registers after a prefix of the buffer.\<close>

definition reg162 :: "bytes \<Rightarrow> u16" where
  "reg162 = foldl (\<lambda>crc b. (lfsr 0x1021 ^^ 8) (crc XOR push_bit 8 (ucast b))) 0"

definition reg161 :: "bytes \<Rightarrow> u16" where
  "reg161 = foldl (\<lambda>crc b. (lfsr_right 0x8408 ^^ 8) (crc XOR ucast b)) 0xFFFF"

definition reg32 :: "bytes \<Rightarrow> u32" where
  "reg32 = foldl (\<lambda>crc b. (lfsr 0x04C11DB7 ^^ 8) (crc XOR push_bit 24 (ucast b))) 0"

lemma ccitt162_reg: "len \<le> length inp \<Longrightarrow> ccitt162 inp len = NOT (reg162 (take (len - 2) inp))"
  unfolding ccitt162_def reg162_def ccitt162_step by (subst foldl_nth_take) simp_all

lemma ccitt161_reg: "len \<le> length inp \<Longrightarrow> ccitt161 inp len = NOT (reg161 (take (len - 2) inp))"
  unfolding ccitt161_def reg161_def ccitt161_step by (subst foldl_nth_take) simp_all

lemma crc32_reg: "len \<le> length inp \<Longrightarrow> crc32 inp len = NOT (reg32 (take (len - 4) inp))"
  unfolding crc32_def reg32_def Let_def crc32_step by (subst foldl_nth_take) simp_all

lemma xor_cancel_right: "(x XOR z = y XOR z) = (x = (y :: ('a :: len) word))"
  by (metis xor.assoc xor.right_neutral xor_self_eq)

lemma xor_cancel_left: "(z XOR x = z XOR y) = (x = (y :: ('a :: len) word))"
  by (metis xor.commute xor_cancel_right)

lemma push_ucast_inj:
  fixes x y :: u8
  assumes "k + 8 \<le> LENGTH('a :: len)" "push_bit k (ucast x) = (push_bit k (ucast y) :: 'a word)"
  shows "x = y"
proof (rule bit_word_eqI)
  fix n
  assume n: "n < LENGTH(8)"
  have "bit (push_bit k (ucast x) :: 'a word) (n + k) = bit (push_bit k (ucast y) :: 'a word) (n + k)"
    using assms(2) by simp
  then show "bit x n = bit y n" using n assms(1) by (simp add: bit_simps)
qed

lemma reg_step_inj:
  "(lfsr 0x1021 ^^ 8) x = (lfsr 0x1021 ^^ 8) (y :: u16) \<Longrightarrow> x = y"
  "(lfsr_right 0x8408 ^^ 8) x = (lfsr_right 0x8408 ^^ 8) (y :: u16) \<Longrightarrow> x = y"
  "(lfsr 0x04C11DB7 ^^ 8) u = (lfsr 0x04C11DB7 ^^ 8) (v :: u32) \<Longrightarrow> u = v"
  by (erule funpow_inj [rotated], rule lfsr_inj [of "0x1021"], simp_all,
      erule funpow_inj [rotated], rule lfsr_right_inj [of "0x8408"], simp_all,
      erule funpow_inj [rotated], rule lfsr_inj [of "0x04C11DB7"], simp_all)

text \<open>A byte-fed register tells two buffers that differ in one byte apart.\<close>

lemma reg_change:
  fixes h :: "('a :: len) word \<Rightarrow> 'a word"
  assumes inj: "\<And>x y. h x = h y \<Longrightarrow> x = y" and k: "k + 8 \<le> LENGTH('a)"
    and i: "i < length bs" "x \<noteq> bs ! i"
  shows "foldl (\<lambda>crc b. h (crc XOR push_bit k (ucast (b :: u8)))) r (bs[i := x]) \<noteq>
         foldl (\<lambda>crc b. h (crc XOR push_bit k (ucast b))) r bs"
proof (rule foldl_one_differs [where g = "\<lambda>x. x", OF _ _ i])
  fix a b :: "'a word" and x y :: u8
  show "a = b" if "h (a XOR push_bit k (ucast x)) = h (b XOR push_bit k (ucast x))"
    using inj [OF that] by (simp add: xor_cancel_right)
  show "x = y" if "h (a XOR push_bit k (ucast x)) = h (a XOR push_bit k (ucast y))"
    using inj [OF that] push_ucast_inj [OF k] by (simp add: xor_cancel_left)
qed

lemma reg162_change: "i < length bs \<Longrightarrow> x \<noteq> bs ! i \<Longrightarrow> reg162 (bs[i := x]) \<noteq> reg162 bs"
  unfolding reg162_def by (rule reg_change [OF reg_step_inj(1)]) simp_all

lemma reg161_change: "i < length bs \<Longrightarrow> x \<noteq> bs ! i \<Longrightarrow> reg161 (bs[i := x]) \<noteq> reg161 bs"
  using reg_change [OF reg_step_inj(2), where k = 0] by (simp add: reg161_def)

lemma reg32_change: "i < length bs \<Longrightarrow> x \<noteq> bs ! i \<Longrightarrow> reg32 (bs[i := x]) \<noteq> reg32 bs"
  unfolding reg32_def by (rule reg_change [OF reg_step_inj(3)]) simp_all

text \<open>The stored order of the bytes: CCITT-162 and CRC-32 high byte first, CCITT-161 low byte first.\<close>

definition sum162 :: "bytes \<Rightarrow> bytes" where
  "sum162 bs = [crc8_of (NOT (reg162 bs)) 1, crc8_of (NOT (reg162 bs)) 0]"

definition sum161 :: "bytes \<Rightarrow> bytes" where
  "sum161 bs = [crc8_of (NOT (reg161 bs)) 0, crc8_of (NOT (reg161 bs)) 1]"

definition sum32 :: "bytes \<Rightarrow> bytes" where
  "sum32 bs = (let c = NOT (reg32 bs) in [crc8_of32 c 3, crc8_of32 c 2, crc8_of32 c 1, crc8_of32 c 0])"

lemma take_drop_2:
  "2 < len \<Longrightarrow> len \<le> length xs \<Longrightarrow> take 2 (drop (len - 2) xs) = [xs ! (len - 2), xs ! (len - 1)]"
  by (rule nth_equalityI) (auto simp: nth_Cons less_2_cases_iff numeral_2_eq_2 split: nat.splits)

lemma take_drop_4:
  "4 < len \<Longrightarrow> len \<le> length xs \<Longrightarrow> take 4 (drop (len - 4) xs) =
     [xs ! (len - 4), xs ! (len - 3), xs ! (len - 2), xs ! (len - 1)]"
  by (rule nth_equalityI) (auto simp: nth_Cons numeral_eq_Suc less_Suc_eq split: nat.splits)

lemma list_update_2:
  "2 < len \<Longrightarrow> len \<le> length xs \<Longrightarrow> xs[len - 2 := a, len - 1 := b] = memcpy_at xs (len - 2) [a, b]"
  by (rule nth_equalityI) (auto simp: memcpy_at_nth nth_list_update nth_Cons split: nat.splits)

lemma list_update_4:
  "4 < len \<Longrightarrow> len \<le> length xs \<Longrightarrow>
   xs[len - 1 := d, len - 2 := c, len - 3 := b, len - 4 := a] = memcpy_at xs (len - 4) [a, b, c, d]"
  by (rule nth_equalityI) (auto simp: memcpy_at_nth nth_list_update nth_Cons split: nat.splits)

interpretation ccitt162: byte_crc 2 sum162 checkCCITT162 addCCITT162
proof
  fix bs inp :: bytes and len i x
  show "length (sum162 bs) = 2" by (simp add: sum162_def)
  show "sum162 (bs[i := x]) \<noteq> sum162 bs" if "i < length bs" "x \<noteq> bs ! i"
    using reg162_change [OF that] by (auto simp: sum162_def simp del: One_nat_def dest: u16_bytes_eqI)
  assume l: "2 < len" "len \<le> length inp"
  show "checkCCITT162 inp len \<longleftrightarrow> take 2 (drop (len - 2) inp) = sum162 (take (len - 2) inp)"
    using l by (auto simp: checkCCITT162_def ccitt162_reg sum162_def take_drop_2 Let_def)
  show "addCCITT162 inp len = memcpy_at inp (len - 2) (sum162 (take (len - 2) inp))"
    using l by (simp add: addCCITT162_def ccitt162_reg sum162_def Let_def list_update_2 [symmetric]
        list_update_swap [of "len - Suc 0" "len - 2"])
qed

interpretation ccitt161: byte_crc 2 sum161 checkCCITT161 addCCITT161
proof
  fix bs inp :: bytes and len i x
  show "length (sum161 bs) = 2" by (simp add: sum161_def)
  show "sum161 (bs[i := x]) \<noteq> sum161 bs" if "i < length bs" "x \<noteq> bs ! i"
    using reg161_change [OF that] by (auto simp: sum161_def simp del: One_nat_def dest: u16_bytes_eqI)
  assume l: "2 < len" "len \<le> length inp"
  show "checkCCITT161 inp len \<longleftrightarrow> take 2 (drop (len - 2) inp) = sum161 (take (len - 2) inp)"
    using l by (auto simp: checkCCITT161_def ccitt161_reg sum161_def take_drop_2 Let_def)
  show "addCCITT161 inp len = memcpy_at inp (len - 2) (sum161 (take (len - 2) inp))"
    using l by (simp add: addCCITT161_def ccitt161_reg sum161_def Let_def list_update_2 [symmetric])
qed

interpretation crc32: byte_crc 4 sum32 checkCRC32 addCRC32
proof
  fix bs inp :: bytes and len i x
  show "length (sum32 bs) = 4" by (simp add: sum32_def Let_def)
  show "sum32 (bs[i := x]) \<noteq> sum32 bs" if "i < length bs" "x \<noteq> bs ! i"
    using reg32_change [OF that] by (auto simp: sum32_def Let_def simp del: One_nat_def dest: u32_bytes_eqI)
  assume l: "4 < len" "len \<le> length inp"
  show "checkCRC32 inp len \<longleftrightarrow> take 4 (drop (len - 4) inp) = sum32 (take (len - 4) inp)"
    using l by (auto simp: checkCRC32_def crc32_reg sum32_def take_drop_4 Let_def)
  show "addCRC32 inp len = memcpy_at inp (len - 4) (sum32 (take (len - 4) inp))"
    using l by (simp add: addCRC32_def crc32_reg sum32_def list_update_4 Let_def del: One_nat_def)
qed

section \<open>The bit-serial checksums\<close>

lemma copyBits_bits:
  assumes "doff + n \<le> 8 * length dst" "soff + n \<le> 8 * length src"
  shows "bits_of (copyBits src soff dst doff n) =
         memcpy_at (bits_of dst) doff (take n (drop soff (bits_of src)))"
proof -
  let ?bs = "take n (drop soff (bits_of src))"
  have l: "length ?bs = n" using assms by simp
  have "copyBits src soff dst doff n =
        foldl (\<lambda>acc k. WRITE_BIT acc (doff + k) (?bs ! k)) dst [0..<length ?bs]"
    unfolding copyBits_def l using assms by (intro foldl_cong_upt) (simp add: READ_BIT_bits_of)
  then show ?thesis using write_bits_run [of doff ?bs dst] assms l by simp
qed

lemma length_copyBits [simp]: "length (copyBits src soff dst doff n) = length dst"
  by (simp add: copyBits_def)

text \<open>The low \<open>w\<close> bits of a register, most significant first.\<close>

definition reg_bits :: "nat \<Rightarrow> ('a :: len) word \<Rightarrow> bits" where
  "reg_bits w c = map (\<lambda>i. bit c (w - 1 - i)) [0..<w]"

lemma length_reg_bits [simp]: "length (reg_bits w c) = w"
  by (simp add: reg_bits_def)

lemma reg_bits_eqD: "reg_bits w c = reg_bits w d \<Longrightarrow> take_bit w c = take_bit w d"
proof (rule bit_eqI)
  fix n
  assume e: "reg_bits w c = reg_bits w d"
  show "bit (take_bit w c) n = bit (take_bit w d) n"
  proof (cases "n < w")
    case True
    then have "reg_bits w c ! (w - 1 - n) = reg_bits w d ! (w - 1 - n)" using e by simp
    then show ?thesis using True by (simp add: reg_bits_def bit_take_bit_iff)
  qed (simp add: bit_take_bit_iff)
qed

lemma bits_of_crc_temp: "bits_of (crc_temp c) = reg_bits 16 c"
  by (simp add: crc_temp_def and_FF_16 byteToBitsBE_bits reg_bits_def bit_simps upt_conv_Cons
      flip: One_nat_def)

lemma reg_bits_mask:
  assumes "w \<le> v"
  shows "reg_bits v (take_bit w c) = replicate (v - w) False @ reg_bits w c"
  by (rule nth_equalityI) (use assms in \<open>auto simp: reg_bits_def nth_append bit_take_bit_iff\<close>)

text \<open>
  A checksum as a function of the bits it covers; \<open>w\<close> is its width, \<open>poly\<close> and \<open>init\<close>
  the constants of the loop.
\<close>

definition bit_sum :: "nat \<Rightarrow> ('a :: len) word \<Rightarrow> 'a word \<Rightarrow> bits \<Rightarrow> bits" where
  "bit_sum w poly init bs = reg_bits w (foldl (crcShift (2 ^ (w - 1)) poly) init bs)"

lemma bit_sum_flip:
  fixes poly :: "('a :: len) word"
  assumes w: "0 < w" "w \<le> LENGTH('a)" and p: "bit poly 0" and i: "i < length bs"
  shows "bit_sum w poly init (bs[i := \<not> bs ! i]) \<noteq> bit_sum w poly init bs"
proof -
  from w obtain k where k: "w = Suc k" "k < LENGTH('a)" by (cases w) auto
  have "take_bit w (foldl (crcShift (2 ^ (w - 1)) poly) init (bs[i := \<not> bs ! i])) \<noteq>
        take_bit w (foldl (crcShift (2 ^ (w - 1)) poly) init bs)"
  proof (rule foldl_one_differs [where g = "take_bit w", OF _ _ i])
    fix a b :: "'a word" and x y
    show "take_bit w a = take_bit w b"
      if "take_bit w (crcShift (2 ^ (w - 1)) poly a x) = take_bit w (crcShift (2 ^ (w - 1)) poly b x)"
      using crcShift_inj(2) [OF k(2) p, of a x b x] that k(1) by simp
    show "x = y"
      if "take_bit w (crcShift (2 ^ (w - 1)) poly a x) = take_bit w (crcShift (2 ^ (w - 1)) poly a y)"
      using crcShift_inj(3) [OF k(2) p, of a x a y] that k(1) by simp
  qed simp
  then show ?thesis unfolding bit_sum_def by (auto dest: reg_bits_eqD)
qed

lemma crc_loop:
  assumes "n \<le> 8 * length inp"
  shows "foldl (\<lambda>crc i. crcShift tb poly crc (READ_BIT inp i \<noteq> 0)) init [0..<n] =
         foldl (crcShift tb poly) init (take n (bits_of inp))"
proof -
  have "foldl (\<lambda>crc i. crcShift tb poly crc (READ_BIT inp i \<noteq> 0)) init [0..<n] =
        foldl (\<lambda>crc i. crcShift tb poly crc (bits_of inp ! i)) init [0..<n]"
    using assms by (intro foldl_cong_upt) (simp add: READ_BIT_bits_of)
  also have "\<dots> = foldl (crcShift tb poly) init (take n (bits_of inp))"
    using assms by (intro foldl_nth_take) simp
  finally show ?thesis .
qed

text \<open>The four registers, as masked folds over the covered bits.\<close>

lemma and_mask_word:
  "(c :: u8) AND 0x3F = take_bit 6 c" "(d :: u16) AND 0x0FFF = take_bit 12 d"
  "d AND 0x7FFF = take_bit 15 d" "d AND 0xFFFF = take_bit 16 d"
  by (simp_all add: take_bit_eq_mask mask_eq_exp_minus_1)

lemma createCRC_bits:
  assumes "n \<le> 8 * length inp"
  shows "createCRC6 inp n = take_bit 6 (foldl (crcShift (2 ^ 5) 0x27) 0x3F (take n (bits_of inp)))"
    "createCRC12 inp n = take_bit 12 (foldl (crcShift (2 ^ 11) 0x080F) 0x0FFF (take n (bits_of inp)))"
    "createCRC15 inp n = take_bit 15 (foldl (crcShift (2 ^ 14) 0x4CC5) 0x7FFF (take n (bits_of inp)))"
    "createCRC16 inp n = take_bit 16 (foldl (crcShift (2 ^ 15) 0x1021) 0xFFFF (take n (bits_of inp)))"
  unfolding createCRC6_def createCRC12_def createCRC15_def createCRC16_def crc_loop [OF assms]
    and_mask_word by simp_all

text \<open>Comparing a masked register with the bits copied out of the buffer, and copying it in.\<close>

lemma check_temp:
  assumes "n + w \<le> 8 * length inp" "w \<le> 16"
  shows "crc_temp (take_bit w c) = copyBits inp n [0, 0] (16 - w) w \<longleftrightarrow>
         take w (drop n (bits_of inp)) = reg_bits w c"
proof -
  let ?x = "take w (drop n (bits_of inp))"
  have z: "bits_of [0, 0] = replicate 16 False"
    by (simp add: byteToBitsBE_bits numeral_eq_Suc)
  have "bits_of (copyBits inp n [0, 0] (16 - w) w) = memcpy_at (replicate 16 False) (16 - w) ?x"
    using assms by (subst copyBits_bits, simp, simp) (simp only: z)
  also have "\<dots> = replicate (16 - w) False @ ?x"
    using assms by (simp add: memcpy_at_def)
  finally have b: "bits_of (copyBits inp n [0, 0] (16 - w) w) = replicate (16 - w) False @ ?x" .
  have "crc_temp (take_bit w c) = copyBits inp n [0, 0] (16 - w) w \<longleftrightarrow>
        bits_of (crc_temp (take_bit w c)) = bits_of (copyBits inp n [0, 0] (16 - w) w)"
    using bits_of_inj by (metis length_copyBits crc_temp_def length_Cons list.size(3))
  then show ?thesis unfolding b bits_of_crc_temp reg_bits_mask [OF assms(2)] by auto
qed

lemma add_temp:
  assumes "n + w \<le> 8 * length inp" "w \<le> 16"
  shows "bits_of (copyBits (crc_temp (take_bit w c)) (16 - w) inp n w) =
         memcpy_at (bits_of inp) n (reg_bits w c)"
  using assms
  by (subst copyBits_bits)
    (simp_all add: bits_of_crc_temp reg_bits_mask, simp add: crc_temp_def)

definition sum_crc6 :: "bits \<Rightarrow> bits" where "sum_crc6 = bit_sum 6 (0x27 :: u8) 0x3F"
definition sum_crc12 :: "bits \<Rightarrow> bits" where "sum_crc12 = bit_sum 12 (0x080F :: u16) 0x0FFF"
definition sum_crc15 :: "bits \<Rightarrow> bits" where "sum_crc15 = bit_sum 15 (0x4CC5 :: u16) 0x7FFF"
definition sum_crc16 :: "bits \<Rightarrow> bits" where "sum_crc16 = bit_sum 16 (0x1021 :: u16) 0xFFFF"

lemma length_bit_sum [simp]: "length (bit_sum w p r bs) = w"
  by (simp add: bit_sum_def)

lemma sum_crc_eq:
  "sum_crc6 bs = reg_bits 6 (foldl (crcShift (2 ^ 5) (0x27 :: u8)) 0x3F bs)"
  "sum_crc12 bs = reg_bits 12 (foldl (crcShift (2 ^ 11) (0x080F :: u16)) 0x0FFF bs)"
  "sum_crc15 bs = reg_bits 15 (foldl (crcShift (2 ^ 14) (0x4CC5 :: u16)) 0x7FFF bs)"
  "sum_crc16 bs = reg_bits 16 (foldl (crcShift (2 ^ 15) (0x1021 :: u16)) 0xFFFF bs)"
  by (simp_all add: sum_crc6_def sum_crc12_def sum_crc15_def sum_crc16_def bit_sum_def)

interpretation crc12: bit_crc 12 sum_crc12 checkCRC12 "\<lambda>inp n. snd (addCRC12 inp n)"
proof
  fix bs and inp :: bytes and i n :: nat
  show "length (sum_crc12 bs) = 12" by (simp add: sum_crc12_def)
  show "sum_crc12 (bs[i := \<not> bs ! i]) \<noteq> sum_crc12 bs"
    if "i < length bs" by (unfold sum_crc12_def, rule bit_sum_flip [OF _ _ _ that]) simp_all
  assume n: "n + 12 \<le> 8 * length inp"
  then have n': "n \<le> 8 * length inp" by simp
  show "checkCRC12 inp n \<longleftrightarrow> take 12 (drop n (bits_of inp)) =
          sum_crc12 (take n (bits_of inp))"
    using check_temp [OF n] by (simp add: checkCRC12_def createCRC_bits [OF n'] sum_crc_eq)
  show "bits_of (snd (addCRC12 inp n)) =
        memcpy_at (bits_of inp) n (sum_crc12 (take n (bits_of inp)))"
    using add_temp [OF n] by (simp add: addCRC12_def createCRC_bits [OF n'] sum_crc_eq Let_def)
qed

interpretation crc15: bit_crc 15 sum_crc15 checkCRC15 "\<lambda>inp n. snd (addCRC15 inp n)"
proof
  fix bs and inp :: bytes and i n :: nat
  show "length (sum_crc15 bs) = 15" by (simp add: sum_crc15_def)
  show "sum_crc15 (bs[i := \<not> bs ! i]) \<noteq> sum_crc15 bs"
    if "i < length bs" by (unfold sum_crc15_def, rule bit_sum_flip [OF _ _ _ that]) simp_all
  assume n: "n + 15 \<le> 8 * length inp"
  then have n': "n \<le> 8 * length inp" by simp
  show "checkCRC15 inp n \<longleftrightarrow> take 15 (drop n (bits_of inp)) =
          sum_crc15 (take n (bits_of inp))"
    using check_temp [OF n] by (simp add: checkCRC15_def createCRC_bits [OF n'] sum_crc_eq)
  show "bits_of (snd (addCRC15 inp n)) =
        memcpy_at (bits_of inp) n (sum_crc15 (take n (bits_of inp)))"
    using add_temp [OF n] by (simp add: addCRC15_def createCRC_bits [OF n'] sum_crc_eq Let_def)
qed

interpretation crc16: bit_crc 16 sum_crc16 checkCRC16 "\<lambda>inp n. snd (addCRC16 inp n)"
proof
  fix bs and inp :: bytes and i n :: nat
  show "length (sum_crc16 bs) = 16" by (simp add: sum_crc16_def)
  show "sum_crc16 (bs[i := \<not> bs ! i]) \<noteq> sum_crc16 bs"
    if "i < length bs" by (unfold sum_crc16_def, rule bit_sum_flip [OF _ _ _ that]) simp_all
  assume n: "n + 16 \<le> 8 * length inp"
  then have n': "n \<le> 8 * length inp" by simp
  show "checkCRC16 inp n \<longleftrightarrow> take 16 (drop n (bits_of inp)) =
          sum_crc16 (take n (bits_of inp))"
    using check_temp [OF n] by (simp add: checkCRC16_def createCRC_bits [OF n'] sum_crc_eq)
  show "bits_of (snd (addCRC16 inp n)) =
        memcpy_at (bits_of inp) n (sum_crc16 (take n (bits_of inp)))"
    using add_temp [OF n] by (simp add: addCRC16_def createCRC_bits [OF n'] sum_crc_eq Let_def)
qed

lemma bits_of_crc6: "bits_of [take_bit 6 c] = [False, False] @ reg_bits 6 c"
  by (simp add: byteToBitsBE_bits reg_bits_def bit_take_bit_iff upt_conv_Cons flip: One_nat_def)

lemma byte_eq_bits: "length ts = 1 \<Longrightarrow> x = ts ! 0 \<longleftrightarrow> bits_of [x] = bits_of ts"
  by (cases ts) (auto simp: byteToBitsBE_inj)

interpretation crc6: bit_crc 6 sum_crc6 checkCRC6 "\<lambda>inp n. snd (addCRC6 inp n)"
proof
  fix bs and inp :: bytes and i n :: nat
  show "length (sum_crc6 bs) = 6" by (simp add: sum_crc6_def)
  show "sum_crc6 (bs[i := \<not> bs ! i]) \<noteq> sum_crc6 bs"
    if "i < length bs" by (unfold sum_crc6_def, rule bit_sum_flip [OF _ _ _ that]) simp_all
  assume n: "n + 6 \<le> 8 * length inp"
  then have n': "n \<le> 8 * length inp" by simp
  let ?c = "foldl (crcShift (2 ^ 5) (0x27 :: u8)) 0x3F (take n (bits_of inp))"
  let ?t = "copyBits inp n [0] 2 6"
  have t: "bits_of ?t = [False, False] @ take 6 (drop n (bits_of inp))"
    using n by (subst copyBits_bits) (simp_all add: memcpy_at_def byteToBitsBE_bits)
  have "take_bit 6 ?c = ?t ! 0 \<longleftrightarrow> bits_of [take_bit 6 ?c] = bits_of ?t"
    by (rule byte_eq_bits) simp
  then show "checkCRC6 inp n \<longleftrightarrow> take 6 (drop n (bits_of inp)) =
          sum_crc6 (take n (bits_of inp))"
    unfolding t bits_of_crc6 by (auto simp: checkCRC6_def createCRC_bits [OF n'] sum_crc_eq)
  show "bits_of (snd (addCRC6 inp n)) =
        memcpy_at (bits_of inp) n (sum_crc6 (take n (bits_of inp)))"
    using n unfolding addCRC6_def Let_def createCRC_bits [OF n'] snd_conv
    by (subst copyBits_bits) (simp_all only: bits_of_crc6, simp_all add: sum_crc_eq)
qed

section \<open>Table-driven and bit-serial sums agree\<close>

lemma foldl_bytes_bits:
  assumes "\<And>r b. f r b = foldl g r (byteToBitsBE b)"
  shows "foldl f r bs = foldl g r (bits_of bs)"
  by (induction bs arbitrary: r) (simp_all add: assms)

lemma reg162_bits: "reg162 bs = foldl (crcShift 0x8000 0x1021) 0 (bits_of bs)"
  unfolding reg162_def by (rule foldl_bytes_bits) (simp add: crcShift_byte [where 'a = 16, simplified])

lemma reg32_bits: "reg32 bs = foldl (crcShift 0x80000000 0x04C11DB7) 0 (bits_of bs)"
  unfolding reg32_def by (rule foldl_bytes_bits) (simp add: crcShift_byte [where 'a = 32, simplified])

lemma crc8_step: "CRC8_TABLE ! unat (crc XOR b) = (lfsr 0x07 ^^ 8) (crc XOR b)"
  using CRC8_TABLE_lfsr [OF unat_u8_less, of "crc XOR b"] unat_u8_less [of "crc XOR b"] by simp

lemma crc8_bits:
  assumes "len \<le> length inp"
  shows "crc8 inp len = foldl (crcShift 0x80 0x07) 0 (bits_of (take len inp))"
proof -
  have "crc8 inp len = foldl (\<lambda>crc b. (lfsr 0x07 ^^ 8) (crc XOR b)) 0 (take len inp)"
    unfolding crc8_def crc8_step using assms by (rule foldl_nth_take)
  also have "\<dots> = foldl (crcShift 0x80 0x07) 0 (bits_of (take len inp))"
    by (rule foldl_bytes_bits) (simp add: crcShift_byte [where 'a = 8, simplified])
  finally show ?thesis .
qed

text \<open>
  C37. The table-driven CCITT-162 of a message is the complement of the bit-serial division by
  the polynomial \<open>0x1021\<close> that \<open>createCRC16\<close> computes bit by bit, started from 0.
\<close>

theorem ccitt162_is_bit_serial:
  assumes "len \<le> length inp"
  shows "ccitt162 inp len = NOT (foldl (crcShift 0x8000 0x1021) 0 (bits_of (take (len - 2) inp)))"
  using assms by (simp add: ccitt162_reg reg162_bits)

theorem ccitt162_is_bit_serial_witness:
  "ccitt162 [0x12, 0x34, 0, 0] 4 = NOT (foldl (crcShift 0x8000 0x1021) 0 (bits_of [0x12, 0x34]))"
  using ccitt162_is_bit_serial [of 4 "[0x12, 0x34, 0, 0]"] by simp

theorem crc32_is_bit_serial:
  assumes "len \<le> length inp"
  shows "crc32 inp len = NOT (foldl (crcShift 0x80000000 0x04C11DB7) 0 (bits_of (take (len - 4) inp)))"
  using assms by (simp add: crc32_reg reg32_bits)

section \<open>CRC-9 and the five-bit sum\<close>

text \<open>
  CRC-9 sums the table entries of the covered bits; bits 7 to 15 (the CRC's own place in a
  confirmed data block) are skipped.  The entries are non-zero and pairwise different, so
  that no single or double bit error goes unseen.
\<close>

definition crc9_entry :: "nat \<Rightarrow> u16" where
  "crc9_entry i = (if i < 7 then CRC9_TABLE ! i else if i > 15 then CRC9_TABLE ! (i - 9) else 0)"

lemma crc9_eq:
  assumes "n \<le> 8 * length inp"
  shows "crc9 inp n = foldl (\<lambda>crc i. if bits_of inp ! i then crc XOR crc9_entry i else crc) 0 [0..<n] AND 0x1FF"
proof -
  have "foldl (\<lambda>crc i. if READ_BIT inp i \<noteq> 0
              then if i < 7 then crc XOR CRC9_TABLE ! i
                   else if i > 15 then crc XOR CRC9_TABLE ! (i - 9) else crc
              else crc) 0 [0..<n] =
        foldl (\<lambda>crc i. if bits_of inp ! i then crc XOR crc9_entry i else crc) 0 [0..<n]"
    using assms by (intro foldl_cong_upt) (simp add: READ_BIT_bits_of crc9_entry_def)
  then show ?thesis by (simp only: crc9_def)
qed

lemma bitsToByteBE_upt: "encodeFiveBit inp =
  ucast ((\<Sum>i\<leftarrow>[0..<9]. ucast (bitsToByteBE (drop (8 * i) inp)) :: u16) mod 31)"
proof -
  have "foldl (\<lambda>total i. total + g i) (a :: u16) ns = a + (\<Sum>i\<leftarrow>ns. g i)" for g :: "nat \<Rightarrow> u16" and a ns
    by (induction ns arbitrary: a) (simp_all add: add.assoc)
  then show ?thesis by (simp only: encodeFiveBit_def) simp
qed


lemma foldl_flip:
  fixes e :: "nat \<Rightarrow> ('a :: len) word"
  assumes "i < length b" "n \<le> length b"
  shows "foldl (\<lambda>c k. if (b[i := \<not> b ! i]) ! k then c XOR e k else c) r [0..<n] =
         foldl (\<lambda>c k. if b ! k then c XOR e k else c) r [0..<n] XOR (if i < n then e i else 0)"
  using assms(2)
proof (induction n)
  case 0
  then show ?case by simp
next
  case (Suc n)
  then show ?case
    using assms(1)
    by (cases "i = n"; cases "b ! n"; cases "i < n")
      (simp_all add: xor.assoc xor.left_commute xor.commute nth_list_update)
qed

lemma crc9_flip:
  assumes "i < n" "n \<le> 8 * length inp"
  shows "crc9 (WRITE_BIT inp i (READ_BIT inp i = 0)) n = crc9 inp n XOR (crc9_entry i AND 0x1FF)"
proof -
  have i8: "i < 8 * length inp" using assms by simp
  have b: "bits_of (WRITE_BIT inp i (READ_BIT inp i = 0)) = (bits_of inp)[i := \<not> bits_of inp ! i]"
    unfolding READ_BIT_bits_of [OF i8, symmetric] by (simp add: WRITE_BIT_bits_of [OF i8])
  have d: "(x XOR y) AND m = (x AND m) XOR (y AND m)" for x y m :: u16
    by (rule bit_word_eqI) (auto simp: bit_simps)
  show ?thesis
    using assms by (simp add: crc9_eq b foldl_flip d)
qed

lemma CRC9_TABLE_distinct: "distinct (0 # CRC9_TABLE)"
proof -
  have "distinct (map unat (0 # CRC9_TABLE))" by (simp add: CRC9_TABLE_def)
  then show ?thesis by (simp only: distinct_map)
qed

lemma CRC9_TABLE_mask: "list_all (\<lambda>x. x AND 0x1FF = x) CRC9_TABLE"
  by (simp add: CRC9_TABLE_def)

definition crc9_covers :: "nat \<Rightarrow> bool" where
  "crc9_covers i \<longleftrightarrow> i < 7 \<or> 15 < i \<and> i < 144"

lemma crc9_entry_table:
  assumes "crc9_covers i"
  obtains k where "crc9_entry i AND 0x1FF = CRC9_TABLE ! k" "k < 135" "k = (if i < 7 then i else i - 9)"
proof -
  define k where "k = (if i < 7 then i else i - 9)"
  have k: "k < 135" "crc9_entry i = CRC9_TABLE ! k"
    using assms by (auto simp: crc9_entry_def crc9_covers_def k_def)
  moreover have "length CRC9_TABLE = 135" by (simp add: CRC9_TABLE_def)
  ultimately have "crc9_entry i AND 0x1FF = CRC9_TABLE ! k"
    using CRC9_TABLE_mask by (auto simp: list_all_length)
  then show ?thesis using that k k_def by blast
qed

lemma CRC9_TABLE_differ: "k < 135 \<Longrightarrow> CRC9_TABLE ! k \<noteq> 0"
  "k < 135 \<Longrightarrow> j < 135 \<Longrightarrow> k \<noteq> j \<Longrightarrow> CRC9_TABLE ! k \<noteq> CRC9_TABLE ! j"
proof -
  have l: "length CRC9_TABLE = 135" by (simp add: CRC9_TABLE_def)
  have d: "0 \<notin> set CRC9_TABLE" "distinct CRC9_TABLE" using CRC9_TABLE_distinct by simp_all
  show "CRC9_TABLE ! k \<noteq> 0" if "k < 135" using d(1) l that by (metis nth_mem)
  show "CRC9_TABLE ! k \<noteq> CRC9_TABLE ! j" if "k < 135" "j < 135" "k \<noteq> j"
    using d(2) l that by (simp add: nth_eq_iff_index_eq)
qed

text \<open>
  One or two flipped bits among the covered ones change the sum.
\<close>

theorem crc9_detects_double_errors:
  assumes "n \<le> 144" "n \<le> 8 * length inp" "i < n" "j < n" "crc9_covers i" "crc9_covers j" "i \<noteq> j"
  defines "one \<equiv> WRITE_BIT inp i (READ_BIT inp i = 0)"
  shows "crc9 one n \<noteq> crc9 inp n \<and> crc9 (WRITE_BIT one j (READ_BIT one j = 0)) n \<noteq> crc9 inp n"
proof -
  obtain k where k: "crc9_entry i AND 0x1FF = CRC9_TABLE ! k" "k < 135" "k = (if i < 7 then i else i - 9)"
    using crc9_entry_table assms(5) by blast
  obtain l where l: "crc9_entry j AND 0x1FF = CRC9_TABLE ! l" "l < 135" "l = (if j < 7 then j else j - 9)"
    using crc9_entry_table assms(6) by blast
  have kl: "k \<noteq> l" using k(3) l(3) assms(5-7) by (auto simp: crc9_covers_def)
  have one: "crc9 one n = crc9 inp n XOR CRC9_TABLE ! k"
    unfolding one_def using crc9_flip assms k by simp
  have "crc9 (WRITE_BIT one j (READ_BIT one j = 0)) n = crc9 one n XOR CRC9_TABLE ! l"
    using crc9_flip [of j n one] assms l by (simp add: one_def)
  then have two: "crc9 (WRITE_BIT one j (READ_BIT one j = 0)) n =
      crc9 inp n XOR (CRC9_TABLE ! k XOR CRC9_TABLE ! l)"
    using one by (simp add: xor.assoc)
  have z: "(c XOR x = c) = (x = 0)" for c x :: u16
    by (metis xor.right_neutral xor_cancel_left)
  have "CRC9_TABLE ! k XOR CRC9_TABLE ! l \<noteq> 0"
    using CRC9_TABLE_differ(2) [OF k(2) l(2) kl] by (metis xor_self_eq xor_cancel_right)
  then show ?thesis unfolding one two z using CRC9_TABLE_differ(1) [OF k(2)] by simp
qed

theorem crc9_detects_double_errors_witness:
  "crc9 (WRITE_BIT (replicate 18 0) 3 (READ_BIT (replicate 18 0) 3 = 0)) 144 \<noteq> crc9 (replicate 18 0) 144"
proof -
  have "(144 :: nat) \<le> 144" "144 \<le> 8 * length (replicate 18 (0 :: u8))" "(3 :: nat) < 144" "(100 :: nat) < 144"
    "crc9_covers 3" "crc9_covers 100" "(3 :: nat) \<noteq> 100"
    by (simp_all add: crc9_covers_def)
  from crc9_detects_double_errors [OF this] show ?thesis by (rule conjunct1)
qed

subsection \<open>The five-bit sum\<close>

lemma unat_bitsToByteBE:
  assumes "8 \<le> length b"
  shows "unat (bitsToByteBE b) = (\<Sum>k\<leftarrow>[0..<8]. if b ! k then 2 ^ (7 - k) else 0)"
proof -
  have "(\<Sum>k\<leftarrow>[0..<8]. if b ! k then 2 ^ (7 - k) else 0 :: nat) =
    (if b ! 0 then 128 else 0) + (if b ! 1 then 64 else 0) + (if b ! 2 then 32 else 0) +
    (if b ! 3 then 16 else 0) + (if b ! 4 then 8 else 0) + (if b ! 5 then 4 else 0) +
    (if b ! 6 then 2 else 0) + (if b ! 7 then 1 else 0)"
    by (simp add: upt_conv_Cons flip: One_nat_def)
  then show ?thesis
    unfolding bitsToByteBE_def
    by (cases "b ! 0"; cases "b ! 1"; cases "b ! 2"; cases "b ! 3"; cases "b ! 4"; cases "b ! 5";
        cases "b ! 6"; cases "b ! 7"; simp)
qed

definition five_weight :: "bits \<Rightarrow> nat" where
  "five_weight inp = (\<Sum>i\<leftarrow>[0..<72]. if inp ! i then 2 ^ (7 - i mod 8) else 0)"

lemma sum_upt_blocks:
  "(\<Sum>i\<leftarrow>[0..<8 * n]. g i) = (\<Sum>j\<leftarrow>[0..<n]. \<Sum>k\<leftarrow>[0..<8]. g (8 * j + k) :: nat)"
proof (induction n)
  case 0
  then show ?case by simp
next
  case (Suc n)
  have "map (\<lambda>k. 8 * n + k) [0..<8] = [8 * n..<8 * n + 8]"
    using map_add_upt [of "8 * n" 8] by (simp add: add.commute)
  then have "[0..<8 * Suc n] = [0..<8 * n] @ map (\<lambda>k. 8 * n + k) [0..<8]"
    using upt_add_eq_append [of 0 "8 * n" 8] by (simp add: add.commute)
  then show ?case using Suc by (simp add: comp_def)
qed

lemma unat_sum_u16:
  "(\<And>x. x \<in> set xs \<Longrightarrow> unat (h x :: u16) < 256) \<Longrightarrow> length xs < 256 \<Longrightarrow>
   unat (\<Sum>x\<leftarrow>xs. h x) = (\<Sum>x\<leftarrow>xs. unat (h x)) \<and> (\<Sum>x\<leftarrow>xs. unat (h x)) \<le> 255 * length xs"
proof (induction xs)
  case Nil
  then show ?case by simp
next
  case (Cons x xs)
  then have x: "unat (h x) < 256" and IH: "unat (\<Sum>x\<leftarrow>xs. h x) = (\<Sum>x\<leftarrow>xs. unat (h x))"
    "(\<Sum>x\<leftarrow>xs. unat (h x)) \<le> 255 * length xs" "length xs < 255"
    by simp_all
  then have "unat (h x) + unat (\<Sum>x\<leftarrow>xs. h x) < 2 ^ 16" by simp
  then have "unat (h x + (\<Sum>x\<leftarrow>xs. h x)) = unat (h x) + unat (\<Sum>x\<leftarrow>xs. h x)"
    by (subst unat_add_lem [THEN iffD1]) simp_all
  then show ?case using x IH by simp
qed

lemma encodeFiveBit_weight:
  assumes "length inp = 72"
  shows "unat (encodeFiveBit inp) = five_weight inp mod 31"
proof -
  let ?h = "\<lambda>i. ucast (bitsToByteBE (drop (8 * i) inp)) :: u16"
  have h: "unat (?h i) = unat (bitsToByteBE (drop (8 * i) inp))" for i
    using unat_u8_less [of "bitsToByteBE (drop (8 * i) inp)"]
    by (simp add: unsigned_ucast_eq take_bit_nat_eq_self)
  have byte: "unat (?h i) = (\<Sum>k\<leftarrow>[0..<8]. if inp ! (8 * i + k) then 2 ^ (7 - (8 * i + k) mod 8) else 0)"
    if "i < 9" for i
    unfolding h using that assms
    by (subst unat_bitsToByteBE) (auto intro!: arg_cong [where f = sum_list] simp: algebra_simps)
  have "unat (\<Sum>i\<leftarrow>[0..<9]. ?h i) = (\<Sum>i\<leftarrow>[0..<9]. unat (?h i))"
    using unat_sum_u16 [of "[0..<9]" ?h] unat_u8_less by (simp add: h del: upt_Suc)
  also have "\<dots> = five_weight inp"
    unfolding five_weight_def
    using sum_upt_blocks [of "\<lambda>i. if inp ! i then 2 ^ (7 - i mod 8) else 0" 9]
    by (auto intro!: arg_cong [where f = sum_list] simp: byte simp del: upt_Suc)
  finally have w: "unat (\<Sum>i\<leftarrow>[0..<9]. ?h i) = five_weight inp" .
  have "five_weight inp mod 31 < 31" by simp
  then show ?thesis
    unfolding bitsToByteBE_upt by (simp add: unsigned_ucast_eq unat_mod w take_bit_nat_eq_self del: upt_Suc)
qed

text \<open>
  Any single flipped bit is seen by the five-bit sum: no power of two is a multiple of 31.
\<close>

theorem fiveBit_detects_flip:
  assumes "length inp = 72" "i < 72" "checkFiveBit inp crc"
  shows "\<not> checkFiveBit (inp[i := \<not> inp ! i]) crc"
proof -
  let ?w = "2 ^ (7 - i mod 8) :: nat"
  let ?f = "\<lambda>b k. if b ! k then 2 ^ (7 - k mod 8) else 0 :: nat"
  have s: "five_weight b = (\<Sum>k < 72. ?f b k)" for b :: bits
    unfolding five_weight_def
    by (simp add: sum_list_distinct_conv_sum_set atLeast_upt del: upt_Suc)
  let ?R = "\<Sum>k \<in> {..<72} - {i}. ?f inp k"
  have a: "five_weight inp = ?f inp i + ?R"
    unfolding s using assms(2) by (intro sum.remove) simp_all
  have b: "five_weight (inp[i := \<not> inp ! i]) = ?f (inp[i := \<not> inp ! i]) i + ?R"
    unfolding s using assms(2)
    by (subst sum.remove [of _ i]) (auto intro!: sum.cong simp: nth_list_update)
  have nw: "(?w + r) mod 31 \<noteq> r mod 31" for r
  proof
    assume "(?w + r) mod 31 = r mod 31"
    then have "31 dvd ?w" by (metis add_diff_cancel_right' le_add2 mod_eq_dvd_iff_nat)
    moreover have "i mod 8 < 8" by simp
    ultimately show False by (elim less_8E) simp_all
  qed
  have "five_weight (inp[i := \<not> inp ! i]) mod 31 \<noteq> five_weight inp mod 31"
    unfolding a b using assms(1,2) nw [of ?R] by (cases "inp ! i") simp_all
  then show ?thesis
    using assms encodeFiveBit_weight [of inp] encodeFiveBit_weight [of "inp[i := \<not> inp ! i]"]
    by (auto simp: checkFiveBit_def)
qed

theorem fiveBit_detects_flip_witness:
  "\<not> checkFiveBit ((replicate 72 False)[5 := \<not> replicate 72 False ! 5]) (encodeFiveBit (replicate 72 False))"
  using fiveBit_detects_flip [of "replicate 72 False" 5 "encodeFiveBit (replicate 72 False)"]
  by (simp add: checkFiveBit_def)

section \<open>What the checksums are for\<close>

text \<open>
  C35. The byte sums: what \<open>add\<close> writes passes \<open>check\<close>, and no corruption confined to one byte
  of the protected message, sum included, passes it.
\<close>

theorem byte_crcs_protect:
  assumes "4 < len" "len \<le> length inp" "i < len"
  shows "checkCCITT162 (addCCITT162 inp len) len \<and>
         (x \<noteq> addCCITT162 inp len ! i \<longrightarrow> \<not> checkCCITT162 ((addCCITT162 inp len)[i := x]) len) \<and>
         checkCCITT161 (addCCITT161 inp len) len \<and>
         (x \<noteq> addCCITT161 inp len ! i \<longrightarrow> \<not> checkCCITT161 ((addCCITT161 inp len)[i := x]) len) \<and>
         checkCRC32 (addCRC32 inp len) len \<and>
         (x \<noteq> addCRC32 inp len ! i \<longrightarrow> \<not> checkCRC32 ((addCRC32 inp len)[i := x]) len)"
proof -
  have l: "2 < len" using assms by simp
  show ?thesis
    using assms l ccitt162.add_check [OF l assms(2)] ccitt161.add_check [OF l assms(2)]
      crc32.add_check [OF assms(1,2)] ccitt162.corrupt_detected [OF l, of "addCCITT162 inp len"]
      ccitt161.corrupt_detected [OF l, of "addCCITT161 inp len"]
      crc32.corrupt_detected [OF assms(1), of "addCRC32 inp len"]
    by simp
qed

theorem byte_crcs_protect_witness:
  "checkCRC32 (addCRC32 [1, 2, 3, 0, 0, 0, 0] 7) 7 \<and>
   \<not> checkCRC32 ((addCRC32 [1, 2, 3, 0, 0, 0, 0] 7)[1 := 9]) 7"
proof -
  have "9 \<noteq> addCRC32 [1, 2, 3, 0, 0, 0, 0] 7 ! 1" by (simp add: addCRC32_def Let_def)
  then show ?thesis using byte_crcs_protect [of 7 "[1, 2, 3, 0, 0, 0, 0]" 1 9] by simp
qed

text \<open>
  C36. The bit sums: what \<open>add\<close> writes after the first \<open>n\<close> bits passes \<open>check\<close> and touches no
  other bit, and no single flipped bit of message or sum passes it.
\<close>

theorem bit_crcs_protect:
  assumes "n + 16 \<le> 8 * length inp"
  shows "(let out = snd (addCRC6 inp n) in checkCRC6 out n \<and>
           (\<forall>i < n + 6. \<not> checkCRC6 (WRITE_BIT out i (READ_BIT out i = 0)) n)) \<and>
         (let out = snd (addCRC12 inp n) in checkCRC12 out n \<and>
           (\<forall>i < n + 12. \<not> checkCRC12 (WRITE_BIT out i (READ_BIT out i = 0)) n)) \<and>
         (let out = snd (addCRC15 inp n) in checkCRC15 out n \<and>
           (\<forall>i < n + 15. \<not> checkCRC15 (WRITE_BIT out i (READ_BIT out i = 0)) n)) \<and>
         (let out = snd (addCRC16 inp n) in checkCRC16 out n \<and>
           (\<forall>i < n + 16. \<not> checkCRC16 (WRITE_BIT out i (READ_BIT out i = 0)) n))"
  unfolding Let_def
  using assms crc6.add_check [of n inp] crc12.add_check [of n inp] crc15.add_check [of n inp]
    crc16.add_check [of n inp] crc6.flip_detected [of n "snd (addCRC6 inp n)"]
    crc12.flip_detected [of n "snd (addCRC12 inp n)"] crc15.flip_detected [of n "snd (addCRC15 inp n)"]
    crc16.flip_detected [of n "snd (addCRC16 inp n)"]
  by (intro conjI allI impI) simp_all

theorem bit_crcs_protect_witness:
  "checkCRC6 (snd (addCRC6 [0xA5, 0x5A, 0, 0] 16)) 16 \<and> checkCRC16 (snd (addCRC16 [0xA5, 0x5A, 0, 0] 16)) 16"
  using bit_crcs_protect [of 16 "[0xA5, 0x5A, 0, 0]"] by (simp add: Let_def)

end
