(* ===== verification/AffiliationLookup.thy ===== *)
theory AffiliationLookup
  imports Timer
begin

text \<open>
  The trunking tables of \<^verbatim>\<open>src/src/common/lookups/AffiliationLookup.h\<close> and
  \<^verbatim>\<open>AffiliationLookup.cpp\<close>: unit registrations, group affiliations, and the voice channel
  grants with their timers.  A \<open>std::unordered_map\<close> is a partial function and a
  \<open>std::vector\<close> a list; operations that loop over a map take the order of the walk as an
  argument.  The calls of the \<open>m_releaseGrant\<close> callback are appended to \<open>m_released\<close>.
  The locale \<open>grant_table\<close> is the contract of a channel allocator; its interpretation says
  that the operations never share a channel between two grants and never lose one.
\<close>

section \<open>State\<close>

record VoiceChData =
  m_chId :: u8
  m_chNo :: u32
  m_address :: string
  m_port :: u16
  m_password :: string

definition no_VoiceChData :: VoiceChData where
  "no_VoiceChData = \<lparr>m_chId = 0, m_chNo = 0, m_address = [], m_port = 0, m_password = []\<rparr>"

record affil =
  m_rfChTable :: "u32 list"
  m_rfChDataTable :: "u32 \<rightharpoonup> VoiceChData"
  m_rfGrantChCnt :: u8
  m_unitRegTable :: "u32 list"
  m_grpAffTable :: "u32 \<rightharpoonup> u32"
  m_grantChTable :: "u32 \<rightharpoonup> u32"
  m_grantSrcIdTable :: "u32 \<rightharpoonup> u32"
  m_uuGrantedTable :: "u32 \<rightharpoonup> bool"
  m_netGrantedTable :: "u32 \<rightharpoonup> bool"
  m_grantTimers :: "u32 \<rightharpoonup> timer"
  m_released :: "(u32 \<times> u32 \<times> u8) list"

definition new_affil :: affil where
  "new_affil = \<lparr>m_rfChTable = [], m_rfChDataTable = Map.empty, m_rfGrantChCnt = 0,
     m_unitRegTable = [], m_grpAffTable = Map.empty, m_grantChTable = Map.empty,
     m_grantSrcIdTable = Map.empty, m_uuGrantedTable = Map.empty, m_netGrantedTable = Map.empty,
     m_grantTimers = Map.empty, m_released = []\<rparr>"

text \<open>\<open>operator[]\<close> of an unordered map of timers inserts a default timer where there is none.\<close>

definition timer_at :: "(u32 \<rightharpoonup> timer) \<Rightarrow> u32 \<Rightarrow> timer" where
  "timer_at m k = (case m k of None \<Rightarrow> new_timer | Some t \<Rightarrow> t)"

section \<open>Unit registration and group affiliation\<close>

definition isUnitReg :: "u32 \<Rightarrow> affil \<Rightarrow> bool" where
  "isUnitReg srcId s = (if srcId \<in> set (m_unitRegTable s) then True else False)"

definition unitReg :: "u32 \<Rightarrow> affil \<Rightarrow> affil" where
  "unitReg srcId s =
     (if isUnitReg srcId s then s else s\<lparr>m_unitRegTable := m_unitRegTable s @ [srcId]\<rparr>)"

definition isGroupAff :: "u32 \<Rightarrow> u32 \<Rightarrow> affil \<Rightarrow> bool" where
  "isGroupAff srcId dstId s =
     (case m_grpAffTable s srcId of
        Some tblDstId \<Rightarrow> if tblDstId = dstId then True else False
      | None \<Rightarrow> False)"

definition groupAff :: "u32 \<Rightarrow> u32 \<Rightarrow> affil \<Rightarrow> affil" where
  "groupAff srcId dstId s =
     (if \<not> isGroupAff srcId dstId s
      then s\<lparr>m_grpAffTable := (m_grpAffTable s)(srcId \<mapsto> dstId)\<rparr> else s)"

definition groupUnaff :: "u32 \<Rightarrow> affil \<Rightarrow> bool \<times> affil" where
  "groupUnaff srcId s =
     (case m_grpAffTable s srcId of
        None \<Rightarrow> (False, s)
      | Some tblDstId \<Rightarrow> (True, s\<lparr>m_grpAffTable := (m_grpAffTable s)(srcId := None)\<rparr>))"

definition unitDereg :: "u32 \<Rightarrow> affil \<Rightarrow> bool \<times> affil" where
  "unitDereg srcId s =
     (if \<not> isUnitReg srcId s then (False, s)
      else let s1 = snd (groupUnaff srcId s) in
        if srcId \<in> set (m_unitRegTable s1)
        then (True, s1\<lparr>m_unitRegTable := remove1 srcId (m_unitRegTable s1)\<rparr>) else (False, s1))"

text \<open>\<open>walk\<close> is the order in which the loop meets the keys of \<open>m_grpAffTable\<close>.\<close>

definition clearGroupAff :: "u32 list \<Rightarrow> u32 \<Rightarrow> bool \<Rightarrow> affil \<Rightarrow> u32 list" where
  "clearGroupAff walk dstId releaseAll s =
     (if dstId = 0 \<and> \<not> releaseAll then []
      else if dstId = 0 \<and> releaseAll then walk
      else filter (\<lambda>srcId. m_grpAffTable s srcId = Some dstId) walk)"

section \<open>Channel grants\<close>

definition addRFCh :: "u32 \<Rightarrow> affil \<Rightarrow> affil" where
  "addRFCh chNo s = s\<lparr>m_rfChTable := m_rfChTable s @ [chNo]\<rparr>"

definition removeRFCh :: "u32 \<Rightarrow> affil \<Rightarrow> affil" where
  "removeRFCh chNo s = s\<lparr>m_rfChTable := m_rfChTable s @ [chNo]\<rparr>"

definition setRFChData :: "(u32 \<rightharpoonup> VoiceChData) \<Rightarrow> affil \<Rightarrow> affil" where
  "setRFChData chData s = s\<lparr>m_rfChDataTable := chData\<rparr>"

definition getRFChData :: "u32 \<Rightarrow> affil \<Rightarrow> VoiceChData" where
  "getRFChData chNo s =
     (if chNo = 0 then no_VoiceChData
      else case m_rfChDataTable s chNo of Some d \<Rightarrow> d | None \<Rightarrow> no_VoiceChData)"

text \<open>The counts are returned as \<open>uint8_t\<close>.\<close>

definition getRFChCnt :: "affil \<Rightarrow> u8" where
  "getRFChCnt s = of_nat (length (m_rfChTable s))"

definition getGrantedRFChCnt :: "affil \<Rightarrow> u8" where
  "getGrantedRFChCnt s = m_rfGrantChCnt s"

definition isRFChAvailable :: "affil \<Rightarrow> bool" where
  "isRFChAvailable s = (m_rfChTable s \<noteq> [])"

definition isGranted :: "u32 \<Rightarrow> affil \<Rightarrow> bool" where
  "isGranted dstId s =
     (if dstId = 0 then False
      else case m_grantChTable s dstId of
             Some chNo \<Rightarrow> if chNo \<noteq> 0 then True else False
           | None \<Rightarrow> False)"

definition grantTimer :: "u32 \<Rightarrow> timer" where
  "grantTimer grantTimeout = timerStart (the (new_timer_of 1000 grantTimeout 0))"

definition grantCh :: "u32 \<Rightarrow> u32 \<Rightarrow> u32 \<Rightarrow> bool \<Rightarrow> bool \<Rightarrow> affil \<Rightarrow> bool \<times> affil" where
  "grantCh dstId srcId grantTimeout grp netGranted s =
     (if dstId = 0 then (False, s)
      else if \<not> isRFChAvailable s then (False, s)
      else let chNo = hd (m_rfChTable s) in
        (True, s\<lparr>m_rfChTable := remove1 chNo (m_rfChTable s),
                 m_grantChTable := (m_grantChTable s)(dstId \<mapsto> chNo),
                 m_grantSrcIdTable := (m_grantSrcIdTable s)(dstId \<mapsto> srcId),
                 m_rfGrantChCnt := m_rfGrantChCnt s + 1,
                 m_uuGrantedTable := (m_uuGrantedTable s)(dstId \<mapsto> \<not> grp),
                 m_netGrantedTable := (m_netGrantedTable s)(dstId \<mapsto> netGranted),
                 m_grantTimers := (m_grantTimers s)(dstId \<mapsto> grantTimer grantTimeout)\<rparr>))"

definition touchGrant :: "u32 \<Rightarrow> affil \<Rightarrow> affil" where
  "touchGrant dstId s =
     (if dstId = 0 then s
      else if isGranted dstId s
      then s\<lparr>m_grantTimers := (m_grantTimers s)(dstId \<mapsto> timerStart (timer_at (m_grantTimers s) dstId))\<rparr>
      else s)"

text \<open>The part of \<open>releaseGrant\<close> after the release-all branch.\<close>

definition releaseOne :: "u32 \<Rightarrow> affil \<Rightarrow> bool \<times> affil" where
  "releaseOne dstId s =
     (if isGranted dstId s
      then let chNo = the (m_grantChTable s dstId) in
        (True, s\<lparr>m_released := m_released s @ [(chNo, dstId, 0)],
                 m_grantChTable := (m_grantChTable s)(dstId := None),
                 m_grantSrcIdTable := (m_grantSrcIdTable s)(dstId := None),
                 m_uuGrantedTable := (m_uuGrantedTable s)(dstId := None),
                 m_netGrantedTable := (m_netGrantedTable s)(dstId := None),
                 m_rfChTable := m_rfChTable s @ [chNo],
                 m_rfGrantChCnt := (if m_rfGrantChCnt s > 0 then m_rfGrantChCnt s - 1 else 0),
                 m_grantTimers := (m_grantTimers s)(dstId \<mapsto> timerStop (timer_at (m_grantTimers s) dstId))\<rparr>)
      else (False, s))"

definition releaseMany :: "u32 list \<Rightarrow> affil \<Rightarrow> affil" where
  "releaseMany ds s = foldl (\<lambda>t d. snd (releaseOne d t)) s ds"

definition releaseGrant :: "u32 list \<Rightarrow> u32 \<Rightarrow> bool \<Rightarrow> affil \<Rightarrow> bool \<times> affil" where
  "releaseGrant walk dstId releaseAll s =
     (if dstId = 0 \<and> \<not> releaseAll then (False, s)
      else if dstId = 0 \<and> releaseAll then (True, releaseMany walk s)
      else releaseOne dstId s)"

definition isChBusy :: "u32 list \<Rightarrow> u32 \<Rightarrow> affil \<Rightarrow> bool" where
  "isChBusy walk chNo s =
     (if chNo = 0 then False else list_ex (\<lambda>d. m_grantChTable s d = Some chNo) walk)"

definition isGroup :: "u32 \<Rightarrow> affil \<Rightarrow> bool" where
  "isGroup dstId s =
     (if dstId = 0 then True
      else case m_uuGrantedTable s dstId of Some uu \<Rightarrow> \<not> uu | None \<Rightarrow> True)"

definition isNetGranted :: "u32 \<Rightarrow> affil \<Rightarrow> bool" where
  "isNetGranted dstId s =
     (if dstId = 0 then False
      else case m_netGrantedTable s dstId of Some net \<Rightarrow> net | None \<Rightarrow> False)"

definition getGrantedCh :: "u32 \<Rightarrow> affil \<Rightarrow> u32" where
  "getGrantedCh dstId s =
     (if dstId = 0 then 0
      else if isGranted dstId s then the (m_grantChTable s dstId) else 0)"

definition getGrantedBySrcId :: "u32 list \<Rightarrow> u32 \<Rightarrow> affil \<Rightarrow> u32" where
  "getGrantedBySrcId walk srcId s =
     (if srcId = 0 then 0
      else case find (\<lambda>d. m_grantSrcIdTable s d = Some srcId) walk of Some d \<Rightarrow> d | None \<Rightarrow> 0)"

text \<open>\<open>m_grantSrcIdTable[dstId]\<close> reads 0 where there is no entry.\<close>

definition getGrantedSrcId :: "u32 \<Rightarrow> affil \<Rightarrow> u32" where
  "getGrantedSrcId dstId s =
     (if dstId = 0 then 0
      else if isGranted dstId s
      then case m_grantSrcIdTable s dstId of Some x \<Rightarrow> x | None \<Rightarrow> 0 else 0)"

definition clockTimer :: "u32 \<Rightarrow> u32 \<Rightarrow> affil \<Rightarrow> affil" where
  "clockTimer ms dstId s =
     s\<lparr>m_grantTimers := (m_grantTimers s)(dstId \<mapsto> timerClock ms (timer_at (m_grantTimers s) dstId))\<rparr>"

definition grantExpired :: "u32 \<Rightarrow> affil \<Rightarrow> bool" where
  "grantExpired dstId s =
     (isRunning (timer_at (m_grantTimers s) dstId) \<and> hasExpired (timer_at (m_grantTimers s) dstId))"

text \<open>The loop of \<open>clock\<close>: the grants to release, and the state with the timers clocked.\<close>

definition clockLoop :: "u32 \<Rightarrow> u32 list \<Rightarrow> affil \<Rightarrow> u32 list \<times> affil" where
  "clockLoop ms walk s =
     foldl (\<lambda>(rel, t) d. let t' = clockTimer ms d t
                         in (if grantExpired d t' then rel @ [d] else rel, t')) ([], s) walk"

definition affilClock :: "u32 \<Rightarrow> u32 list \<Rightarrow> affil \<Rightarrow> affil" where
  "affilClock ms walk s = (let (rel, t) = clockLoop ms walk s in releaseMany rel t)"

section \<open>Invariant\<close>

text \<open>
  No channel is granted twice or both granted and free, the four grant tables have the same
  keys, every grant has a timer, and the count is the number of grants.  The size bound is
  the range of the \<open>uint8_t\<close> counter.
\<close>

definition grants_exclusive :: "(u32 \<rightharpoonup> u32) \<Rightarrow> bool" where
  "grants_exclusive m \<longleftrightarrow> (\<forall>d e c. m d = Some c \<longrightarrow> m e = Some c \<longrightarrow> d = e)"

definition aff_ok :: "affil \<Rightarrow> bool" where
  "aff_ok s \<longleftrightarrow>
     distinct (m_rfChTable s) \<and> 0 \<notin> set (m_rfChTable s) \<and>
     grants_exclusive (m_grantChTable s) \<and> ran (m_grantChTable s) \<inter> set (m_rfChTable s) = {} \<and>
     0 \<notin> ran (m_grantChTable s) \<and> 0 \<notin> dom (m_grantChTable s) \<and> finite (dom (m_grantChTable s)) \<and>
     dom (m_grantSrcIdTable s) = dom (m_grantChTable s) \<and>
     dom (m_uuGrantedTable s) = dom (m_grantChTable s) \<and>
     dom (m_netGrantedTable s) = dom (m_grantChTable s) \<and>
     dom (m_grantChTable s) \<subseteq> dom (m_grantTimers s) \<and>
     length (m_rfChTable s) + card (dom (m_grantChTable s)) < 256 \<and>
     unat (m_rfGrantChCnt s) = card (dom (m_grantChTable s)) \<and>
     distinct (m_unitRegTable s)"

definition pool :: "affil \<Rightarrow> u32 set" where
  "pool s = set (m_rfChTable s) \<union> ran (m_grantChTable s)"

lemma isGranted_iff: "aff_ok s \<Longrightarrow> isGranted d s \<longleftrightarrow> d \<in> dom (m_grantChTable s)"
  by (auto simp: isGranted_def aff_ok_def ran_def dom_def split: option.splits)

lemma ran_delete_exclusive:
  assumes "grants_exclusive m" "m d = Some c"
  shows "ran (m(d := None)) = ran m - {c}"
  using assms by (auto simp: ran_def grants_exclusive_def) (metis option.inject)

lemma grants_exclusive_delete: "grants_exclusive m \<Longrightarrow> grants_exclusive (m(d := None))"
  by (auto simp: grants_exclusive_def)

lemma grants_exclusive_add: "grants_exclusive m \<Longrightarrow> c \<notin> ran m \<Longrightarrow> grants_exclusive (m(d \<mapsto> c))"
  by (auto simp: grants_exclusive_def ran_def)

text \<open>The operations on the two registration tables leave the grants alone.\<close>

lemma registration_ok:
  assumes "aff_ok s"
  shows "aff_ok (unitReg x s)" "aff_ok (snd (unitDereg x s))" "aff_ok (groupAff x y s)"
    "aff_ok (snd (groupUnaff x s))"
  using assms
  by (auto simp: aff_ok_def unitReg_def isUnitReg_def unitDereg_def groupAff_def groupUnaff_def
      Let_def split: option.splits)

lemma registration_pool [simp]:
  "pool (unitReg x s) = pool s" "pool (snd (unitDereg x s)) = pool s" "pool (groupAff x y s) = pool s"
  "pool (snd (groupUnaff x s)) = pool s"
  by (auto simp: pool_def unitReg_def unitDereg_def groupAff_def groupUnaff_def Let_def split: option.splits)

lemma grantCh_cases:
  assumes "aff_ok s" "dstId \<noteq> 0" "m_rfChTable s = c # cs"
  shows "grantCh dstId srcId t grp net s =
    (True, s\<lparr>m_rfChTable := cs, m_grantChTable := (m_grantChTable s)(dstId \<mapsto> c),
             m_grantSrcIdTable := (m_grantSrcIdTable s)(dstId \<mapsto> srcId),
             m_rfGrantChCnt := m_rfGrantChCnt s + 1,
             m_uuGrantedTable := (m_uuGrantedTable s)(dstId \<mapsto> \<not> grp),
             m_netGrantedTable := (m_netGrantedTable s)(dstId \<mapsto> net),
             m_grantTimers := (m_grantTimers s)(dstId \<mapsto> grantTimer t)\<rparr>)"
  using assms by (simp add: grantCh_def isRFChAvailable_def)

lemma unat_u8_add1: "unat (x :: u8) < 255 \<Longrightarrow> unat (x + 1) = unat x + 1"
  by (subst unat_add_lem [THEN iffD1]) simp_all

lemma unat_u8_sub1: "0 < (x :: u8) \<Longrightarrow> unat (x - 1) = unat x - 1"
  by (metis One_nat_def unat_minus_one less_irrefl)

lemma grantCh_ok:
  assumes ok: "aff_ok s" and d: "\<not> isGranted dstId s"
  shows "aff_ok (snd (grantCh dstId srcId t grp net s)) \<and>
         pool (snd (grantCh dstId srcId t grp net s)) = pool s"
proof (cases "dstId = 0 \<or> m_rfChTable s = []")
  case True
  then show ?thesis using ok by (auto simp: grantCh_def isRFChAvailable_def)
next
  case False
  then obtain c cs where c: "m_rfChTable s = c # cs" and d0: "dstId \<noteq> 0" by (cases "m_rfChTable s") auto
  have nd: "m_grantChTable s dstId = None" using d isGranted_iff [OF ok] by auto
  have card: "card (insert dstId (dom (m_grantChTable s))) = card (dom (m_grantChTable s)) + 1"
    using ok nd by (subst card_insert_disjoint) (simp_all add: aff_ok_def domIff)
  have cnt: "unat (m_rfGrantChCnt s + 1) = unat (m_rfGrantChCnt s) + 1"
    using ok c by (intro unat_u8_add1) (auto simp: aff_ok_def)
  show ?thesis
    using ok c d0 nd card cnt grants_exclusive_add [of "m_grantChTable s" c dstId]
    unfolding grantCh_cases [OF ok d0 c] by (auto simp: aff_ok_def pool_def)
qed

lemma releaseOne_cases:
  assumes "aff_ok s" "m_grantChTable s dstId = Some c"
  shows "releaseOne dstId s =
    (True, s\<lparr>m_released := m_released s @ [(c, dstId, 0)],
             m_grantChTable := (m_grantChTable s)(dstId := None),
             m_grantSrcIdTable := (m_grantSrcIdTable s)(dstId := None),
             m_uuGrantedTable := (m_uuGrantedTable s)(dstId := None),
             m_netGrantedTable := (m_netGrantedTable s)(dstId := None),
             m_rfChTable := m_rfChTable s @ [c],
             m_rfGrantChCnt := m_rfGrantChCnt s - 1,
             m_grantTimers := (m_grantTimers s)(dstId \<mapsto> timerStop (timer_at (m_grantTimers s) dstId))\<rparr>)"
proof -
  have "0 < card (dom (m_grantChTable s))"
    using assms by (auto simp: aff_ok_def card_gt_0_iff)
  then have "0 < m_rfGrantChCnt s"
    using assms(1) by (auto simp: aff_ok_def word_less_nat_alt)
  then show ?thesis using assms isGranted_iff [OF assms(1), of dstId] by (auto simp: releaseOne_def)
qed

lemma releaseOne_none: "aff_ok s \<Longrightarrow> m_grantChTable s d = None \<Longrightarrow> releaseOne d s = (False, s)"
  by (auto simp: releaseOne_def isGranted_iff)

lemma releaseOne_ok:
  assumes ok: "aff_ok s"
  shows "aff_ok (snd (releaseOne d s)) \<and> pool (snd (releaseOne d s)) = pool s \<and>
         m_grantChTable (snd (releaseOne d s)) = (m_grantChTable s)(d := None)"
proof (cases "m_grantChTable s d")
  case None
  then show ?thesis using ok by (auto simp: releaseOne_none fun_upd_idem)
next
  case (Some c)
  have g: "grants_exclusive (m_grantChTable s)" using ok by (simp add: aff_ok_def)
  have c: "c \<in> ran (m_grantChTable s)" using Some by (auto simp: ran_def)
  have pos: "0 < card (dom (m_grantChTable s))" using ok Some by (auto simp: aff_ok_def card_gt_0_iff)
  then have "0 < m_rfGrantChCnt s" using ok by (auto simp: aff_ok_def word_less_nat_alt)
  then have cnt: "unat (m_rfGrantChCnt s - 1) = unat (m_rfGrantChCnt s) - 1" by (rule unat_u8_sub1)
  have card: "card (dom (m_grantChTable s) - {d}) = card (dom (m_grantChTable s)) - 1"
    using ok Some by (subst card_Diff_singleton) (simp_all add: aff_ok_def domI)
  show ?thesis
    using ok Some c pos cnt card
    unfolding releaseOne_cases [OF ok Some]
    by (auto simp: aff_ok_def pool_def ran_delete_exclusive [OF g Some] grants_exclusive_delete)
qed

lemma releaseMany_ok:
  assumes "aff_ok s"
  shows "aff_ok (releaseMany ds s) \<and> pool (releaseMany ds s) = pool s \<and>
         m_grantChTable (releaseMany ds s) = (\<lambda>d. if d \<in> set ds then None else m_grantChTable s d)"
  using assms
proof (induction ds arbitrary: s)
  case Nil
  then show ?case by (simp add: releaseMany_def)
next
  case (Cons d ds)
  have "aff_ok (snd (releaseOne d s))" using releaseOne_ok [OF Cons.prems] by simp
  from Cons.IH [OF this] show ?case
    using releaseOne_ok [OF Cons.prems, of d] by (auto simp: releaseMany_def fun_eq_iff)
qed

lemma releaseGrant_ok:
  "aff_ok s \<Longrightarrow> aff_ok (snd (releaseGrant walk d all s)) \<and> pool (snd (releaseGrant walk d all s)) = pool s"
  using releaseMany_ok releaseOne_ok by (auto simp: releaseGrant_def)

lemma touchGrant_ok:
  "aff_ok s \<Longrightarrow> aff_ok (touchGrant d s) \<and> pool (touchGrant d s) = pool s"
  by (auto simp: touchGrant_def aff_ok_def pool_def)

section \<open>The clock\<close>

text \<open>Over a walk without repetition, the loop clocks each timer once.\<close>

lemma clockLoop_eq:
  assumes "distinct walk"
  shows "clockLoop ms walk s =
    (filter (\<lambda>d. let t = timerClock ms (timer_at (m_grantTimers s) d) in isRunning t \<and> hasExpired t) walk,
     s\<lparr>m_grantTimers := (\<lambda>d. if d \<in> set walk then Some (timerClock ms (timer_at (m_grantTimers s) d))
                             else m_grantTimers s d)\<rparr>)"
  using assms
proof (induction walk rule: rev_induct)
  case Nil
  then show ?case by (simp add: clockLoop_def)
next
  case (snoc d walk)
  then have d: "d \<notin> set walk" "distinct walk" by simp_all
  show ?case
    using snoc.IH [OF d(2)] d(1)
    unfolding clockLoop_def by (auto simp: Let_def clockTimer_def grantExpired_def timer_at_def fun_eq_iff)
qed

definition expires :: "u32 \<Rightarrow> affil \<Rightarrow> u32 \<Rightarrow> bool" where
  "expires ms s d \<longleftrightarrow> hasExpired (timerClock ms (timer_at (m_grantTimers s) d))"

lemma expires_running: "(isRunning t \<and> hasExpired t) = hasExpired t"
  using hasExpired_isRunning by blast

lemma affilClock_eq:
  assumes "walk_of (m_grantChTable s) walk"
  shows "affilClock ms walk s =
    releaseMany (filter (expires ms s) walk)
      (s\<lparr>m_grantTimers := (\<lambda>d. if d \<in> set walk then Some (timerClock ms (timer_at (m_grantTimers s) d))
                             else m_grantTimers s d)\<rparr>)"
  using assms
  by (simp add: affilClock_def clockLoop_eq walk_of_distinct expires_def Let_def expires_running
      cong: filter_cong)

lemma affilClock_ok:
  assumes "aff_ok s" "walk_of (m_grantChTable s) walk"
  shows "aff_ok (affilClock ms walk s) \<and> pool (affilClock ms walk s) = pool s \<and>
         m_grantChTable (affilClock ms walk s) =
           (\<lambda>d. if expires ms s d then None else m_grantChTable s d)"
proof -
  let ?t = "s\<lparr>m_grantTimers := (\<lambda>d. if d \<in> set walk then Some (timerClock ms (timer_at (m_grantTimers s) d))
                             else m_grantTimers s d)\<rparr>"
  have "dom (m_grantChTable s) \<subseteq> dom (m_grantTimers ?t)"
    using assms(2) by (auto simp: walk_of_set)
  then have "aff_ok ?t" using assms by (simp add: aff_ok_def)
  then show ?thesis
    using releaseMany_ok [of ?t] assms(2)
    unfolding affilClock_eq [OF assms(2)]
    by (auto simp: pool_def fun_eq_iff walk_of_set)
qed

section \<open>The contract of a channel allocator\<close>

text \<open>A history of operations; \<open>None\<close> when one of them was not allowed.\<close>

fun run_ops :: "('op \<Rightarrow> 's \<Rightarrow> bool) \<Rightarrow> ('op \<Rightarrow> 's \<Rightarrow> 's) \<Rightarrow> 'op list \<Rightarrow> 's \<Rightarrow> 's option" where
  "run_ops allowed step [] s = Some s"
| "run_ops allowed step (p # ps) s =
     (if allowed p s then run_ops allowed step ps (step p s) else None)"

locale grant_table =
  fixes ok :: "'s \<Rightarrow> bool"
    and free :: "'s \<Rightarrow> 'c set"
    and held :: "'s \<Rightarrow> ('d \<rightharpoonup> 'c)"
    and allowed :: "'op \<Rightarrow> 's \<Rightarrow> bool"
    and step :: "'op \<Rightarrow> 's \<Rightarrow> 's"
  assumes step_ok: "ok s \<Longrightarrow> allowed p s \<Longrightarrow> ok (step p s)"
    and exclusive: "ok s \<Longrightarrow> held s d = Some c \<Longrightarrow> held s e = Some c \<Longrightarrow> d = e"
    and apart: "ok s \<Longrightarrow> ran (held s) \<inter> free s = {}"
    and conserve: "ok s \<Longrightarrow> allowed p s \<Longrightarrow> free (step p s) \<union> ran (held (step p s)) = free s \<union> ran (held s)"
begin

lemma run_ok:
  "ok s \<Longrightarrow> run_ops allowed step ps s = Some t \<Longrightarrow>
   ok t \<and> free t \<union> ran (held t) = free s \<union> ran (held s)"
proof (induction ps arbitrary: s)
  case Nil
  then show ?case by simp
next
  case (Cons p ps)
  then have p: "allowed p s" "run_ops allowed step ps (step p s) = Some t" by (auto split: if_splits)
  then show ?case
    using Cons.IH [OF step_ok [OF Cons.prems(1) p(1)] p(2)] conserve [OF Cons.prems(1) p(1)] by simp
qed

lemma run_exclusive:
  assumes "ok s" "run_ops allowed step ps s = Some t" "held t d = Some c"
  shows "c \<notin> free t \<and> c \<in> free s \<union> ran (held s) \<and> (\<forall>e. held t e = Some c \<longrightarrow> e = d)"
proof -
  have t: "ok t" "free t \<union> ran (held t) = free s \<union> ran (held s)" using run_ok assms(1,2) by auto
  have "c \<in> ran (held t)" using assms(3) by (auto simp: ran_def)
  then show ?thesis using t apart [OF t(1)] exclusive [OF t(1) assms(3)] by auto
qed

end

text \<open>The operations of the class, with the order of each loop.\<close>

datatype affil_op =
    UnitReg u32
  | UnitDereg u32
  | GroupAff u32 u32
  | GroupUnaff u32
  | GrantCh u32 u32 u32 bool bool
  | TouchGrant u32
  | ReleaseGrant "u32 list" u32 bool
  | Clock u32 "u32 list"

fun affil_step :: "affil_op \<Rightarrow> affil \<Rightarrow> affil" where
  "affil_step (UnitReg x) s = unitReg x s"
| "affil_step (UnitDereg x) s = snd (unitDereg x s)"
| "affil_step (GroupAff x y) s = groupAff x y s"
| "affil_step (GroupUnaff x) s = snd (groupUnaff x s)"
| "affil_step (GrantCh d x t grp net) s = snd (grantCh d x t grp net s)"
| "affil_step (TouchGrant d) s = touchGrant d s"
| "affil_step (ReleaseGrant walk d all) s = snd (releaseGrant walk d all s)"
| "affil_step (Clock ms walk) s = affilClock ms walk s"

text \<open>
  What a caller may do: the control code grants only to a destination without a grant, and
  the walks are walks of the grant table.
\<close>

fun affil_allowed :: "affil_op \<Rightarrow> affil \<Rightarrow> bool" where
  "affil_allowed (GrantCh d x t grp net) s = (\<not> isGranted d s)"
| "affil_allowed (ReleaseGrant walk d all) s = walk_of (m_grantChTable s) walk"
| "affil_allowed (Clock ms walk) s = walk_of (m_grantChTable s) walk"
| "affil_allowed _ s = True"

lemma affil_step_ok:
  "aff_ok s \<Longrightarrow> affil_allowed p s \<Longrightarrow> aff_ok (affil_step p s) \<and> pool (affil_step p s) = pool s"
  by (cases p) (simp_all add: registration_ok grantCh_ok touchGrant_ok releaseGrant_ok affilClock_ok)

interpretation affil: grant_table aff_ok "\<lambda>s. set (m_rfChTable s)" m_grantChTable affil_allowed affil_step
proof
  fix s p d c e
  assume ok: "aff_ok s"
  show "aff_ok (affil_step p s)" if "affil_allowed p s"
    using affil_step_ok [OF ok that] by simp
  show "d = e" if "m_grantChTable s d = Some c" "m_grantChTable s e = Some c"
    using ok that unfolding aff_ok_def grants_exclusive_def by blast
  show "ran (m_grantChTable s) \<inter> set (m_rfChTable s) = {}" using ok by (simp add: aff_ok_def)
  show "set (m_rfChTable (affil_step p s)) \<union> ran (m_grantChTable (affil_step p s)) =
        set (m_rfChTable s) \<union> ran (m_grantChTable s)" if "affil_allowed p s"
    using affil_step_ok [OF ok that] by (simp add: pool_def)
qed

section \<open>Properties\<close>

text \<open>The state after the host has added its channels.\<close>

definition with_channels :: "u32 list \<Rightarrow> affil" where
  "with_channels chs = foldl (\<lambda>s c. addRFCh c s) new_affil chs"

lemma with_channels_eq: "with_channels chs = new_affil\<lparr>m_rfChTable := chs\<rparr>"
proof (induction chs rule: rev_induct)
  case Nil
  then show ?case by (simp add: with_channels_def new_affil_def)
next
  case (snoc c chs)
  then show ?case by (simp add: with_channels_def addRFCh_def)
qed

lemma with_channels_ok:
  "distinct chs \<Longrightarrow> 0 \<notin> set chs \<Longrightarrow> length chs < 256 \<Longrightarrow>
   aff_ok (with_channels chs) \<and> pool (with_channels chs) = set chs"
  by (simp add: with_channels_eq new_affil_def aff_ok_def pool_def grants_exclusive_def)

text \<open>
  C5. No double allocation: whatever sequence of registrations, grants, touches, releases and
  clock ticks is run from a fresh table, with a destination granted a channel only while it holds none
  (\<open>affil_allowed\<close>, as the callers of \<open>grantCh\<close> make sure), a granted channel is one of the configured ones,
  it is not in the free list, and no other destination holds it.
\<close>

theorem grants_never_shared:
  assumes "distinct chs" "0 \<notin> set chs" "length chs < 256"
    and "run_ops affil_allowed affil_step ops (with_channels chs) = Some s"
    and "isGranted dstId s"
  shows "getGrantedCh dstId s \<in> set chs \<and> getGrantedCh dstId s \<notin> set (m_rfChTable s) \<and>
         (\<forall>other. isGranted other s \<and> getGrantedCh other s = getGrantedCh dstId s \<longrightarrow> other = dstId)"
proof -
  note w = with_channels_ok [OF assms(1-3)]
  have ok: "aff_ok s" using affil.run_ok [OF _ assms(4)] w by simp
  have g: "m_grantChTable s d = Some (getGrantedCh d s)" if "isGranted d s" for d
    using that isGranted_iff [OF ok, of d] by (auto simp: getGrantedCh_def isGranted_def)
  have "getGrantedCh dstId s \<notin> set (m_rfChTable s) \<and> getGrantedCh dstId s \<in> pool (with_channels chs) \<and>
        (\<forall>e. m_grantChTable s e = Some (getGrantedCh dstId s) \<longrightarrow> e = dstId)"
    using affil.run_exclusive [OF _ assms(4) g [OF assms(5)], folded pool_def] w by simp
  then show ?thesis using w g by auto
qed

theorem grants_never_shared_witness:
  "getGrantedCh 9 (affil_step (GrantCh 9 1 15 True False) (with_channels [1, 2])) \<in> {1, 2 :: u32}"
proof -
  let ?s = "affil_step (GrantCh 9 1 15 True False) (with_channels [1, 2])"
  have "run_ops affil_allowed affil_step [GrantCh 9 1 15 True False] (with_channels [1, 2]) = Some ?s"
    by (simp add: with_channels_eq new_affil_def isGranted_def)
  moreover have "isGranted 9 ?s"
    by (simp add: with_channels_eq new_affil_def grantCh_def isRFChAvailable_def isGranted_def)
  ultimately show ?thesis using grants_never_shared [of "[1, 2]" "[GrantCh 9 1 15 True False]" ?s 9] by simp
qed

text \<open>
  C33. Every channel stays accounted for, free or granted, never lost and never invented, and the grant counter is
  the number of granted channels, over every history in which a destination is granted a channel
  only while it holds none (\<open>affil_allowed\<close>): the callers test \<open>isGranted\<close> first, \<open>grantCh\<close> itself does not, and a second grant
  to a destination loses its first channel (\<open>regrant_loses_channel\<close>).
\<close>

theorem channels_conserved:
  assumes "distinct chs" "0 \<notin> set chs" "length chs < 256"
    and "run_ops affil_allowed affil_step ops (with_channels chs) = Some s"
  shows "set (m_rfChTable s) \<union> ran (m_grantChTable s) = set chs \<and> distinct (m_rfChTable s) \<and>
         length (m_rfChTable s) + unat (getGrantedRFChCnt s) = length chs"
proof -
  note w = with_channels_ok [OF assms(1-3)]
  have r: "aff_ok s" "set (m_rfChTable s) \<union> ran (m_grantChTable s) = set chs"
    using affil.run_ok [OF _ assms(4)] w by (simp_all add: pool_def)
  have inj: "inj_on (m_grantChTable s) (dom (m_grantChTable s))"
    using r(1) by (auto simp: aff_ok_def grants_exclusive_def inj_on_def)
  have "card (ran (m_grantChTable s)) = card (Some ` ran (m_grantChTable s))"
    by (simp add: card_image)
  also have "Some ` ran (m_grantChTable s) = m_grantChTable s ` dom (m_grantChTable s)"
    by (auto simp: ran_def dom_def image_def)
  also have "card \<dots> = card (dom (m_grantChTable s))" by (rule card_image [OF inj])
  finally have c: "card (ran (m_grantChTable s)) = unat (m_rfGrantChCnt s)"
    using r(1) by (simp add: aff_ok_def)
  have "card (set (m_rfChTable s) \<union> ran (m_grantChTable s)) =
        card (set (m_rfChTable s)) + card (ran (m_grantChTable s))"
    by (rule card_Un_disjoint) (use r(1) in \<open>auto simp: aff_ok_def finite_ran\<close>)
  then have "length (m_rfChTable s) + unat (m_rfGrantChCnt s) = length chs"
    using r c assms(1) by (simp add: distinct_card aff_ok_def)
  then show ?thesis using r by (simp add: aff_ok_def getGrantedRFChCnt_def)
qed

theorem channels_conserved_witness:
  "(let s = affil_step (GrantCh 9 1 15 True False) (with_channels [1, 2])
    in length (m_rfChTable s) + unat (getGrantedRFChCnt s) = 2)"
proof -
  have "run_ops affil_allowed affil_step [GrantCh 9 1 15 True False] (with_channels [1, 2]) =
        Some (affil_step (GrantCh 9 1 15 True False) (with_channels [1, 2]))"
    by (simp add: with_channels_eq new_affil_def isGranted_def)
  from channels_conserved [OF _ _ _ this] show ?thesis by (simp add: Let_def)
qed

text \<open>
  A tick releases exactly the grants whose timer it brings to expiry: the channel of an
  expired grant is free again, and every other grant is untouched.
\<close>

theorem clock_releases_expired:
  assumes "aff_ok s" "walk_of (m_grantChTable s) walk" "isGranted dstId s"
    and s': "s' = affilClock ms walk s"
  shows "aff_ok s' \<and>
         (if hasExpired (timerClock ms (timer_at (m_grantTimers s) dstId))
          then \<not> isGranted dstId s' \<and> getGrantedCh dstId s \<in> set (m_rfChTable s')
          else isGranted dstId s' \<and> getGrantedCh dstId s' = getGrantedCh dstId s)"
proof -
  note c = affilClock_ok [OF assms(1,2), of ms, folded s']
  then have ok: "aff_ok s'" by simp
  obtain ch where ch: "m_grantChTable s dstId = Some ch"
    using assms(1,3) by (auto simp: isGranted_iff)
  have d0: "dstId \<noteq> 0" using assms(3) by (auto simp: isGranted_def)
  then have e: "getGrantedCh dstId s = ch" using ch assms(3) by (simp add: getGrantedCh_def)
  have ex: "ch \<in> set (m_rfChTable s')" if "expires ms s dstId"
  proof -
    have "ch \<in> ran (m_grantChTable s)" using ch by (auto simp: ran_def)
    moreover have "pool s' = pool s" using c by simp
    ultimately have "ch \<in> pool s'" by (simp add: pool_def [of s])
    moreover have "ch \<notin> ran (m_grantChTable s')"
    proof
      assume "ch \<in> ran (m_grantChTable s')"
      then obtain d' where d': "m_grantChTable s d' = Some ch" "\<not> expires ms s d'"
        using c by (auto simp: ran_def split: if_splits)
      then have "d' = dstId"
        using ch assms(1) unfolding aff_ok_def grants_exclusive_def by blast
      then show False using d'(2) that by simp
    qed
    ultimately show ?thesis by (simp add: pool_def)
  qed
  have g: "isGranted dstId s' \<longleftrightarrow> \<not> expires ms s dstId"
    using c ch by (auto simp: isGranted_iff [OF ok] domIff)
  then have k: "getGrantedCh dstId s' = ch" if "\<not> expires ms s dstId"
    using that c ch d0 by (simp add: getGrantedCh_def)
  show ?thesis using ok g k e ex by (simp add: expires_def)
qed

theorem clock_releases_expired_witness:
  "(let s = affil_step (GrantCh 9 1 15 True False) (with_channels [1, 2]) in
    \<not> isGranted 9 (affilClock 15000 [9] s) \<and> isGranted 9 (affilClock 14999 [9] s))"
proof -
  let ?s = "affil_step (GrantCh 9 1 15 True False) (with_channels [1, 2])"
  have g: "\<not> isGranted 9 (with_channels [1, 2])"
    by (simp add: with_channels_eq new_affil_def isGranted_def)
  have ok: "aff_ok ?s" using grantCh_ok [OF _ g] with_channels_ok [of "[1, 2]"] by simp
  have w: "walk_of (m_grantChTable ?s) [9]"
    by (simp add: walk_of_def with_channels_eq new_affil_def grantCh_def isRFChAvailable_def)
  have i: "isGranted 9 ?s"
    by (simp add: with_channels_eq new_affil_def grantCh_def isRFChAvailable_def isGranted_def)
  have t: "hasExpired (timerClock 15000 (timer_at (m_grantTimers ?s) 9))"
    "\<not> hasExpired (timerClock 14999 (timer_at (m_grantTimers ?s) 9))"
    by (simp_all add: with_channels_eq new_affil_def grantCh_def isRFChAvailable_def timer_at_def
        grantTimer_def new_timer_of_def timerStart_def timeout_of_def timerClock_def hasExpired_def Let_def)
  show ?thesis
    using clock_releases_expired [OF ok w i refl, of 15000] clock_releases_expired [OF ok w i refl, of 14999] t
    by (simp add: Let_def)
qed

text \<open>
  Granting again to a destination that already holds a channel loses the first channel: it is
  neither free nor granted afterwards.  The control code always asks \<open>isGranted\<close> first.
\<close>

theorem regrant_loses_channel:
  assumes "aff_ok s" "isGranted dstId s" "isRFChAvailable s"
  shows "getGrantedCh dstId s \<notin> pool (snd (grantCh dstId srcId t grp net s))"
proof -
  obtain c cs where c: "m_rfChTable s = c # cs"
    using assms(3) by (cases "m_rfChTable s") (auto simp: isRFChAvailable_def)
  have d0: "dstId \<noteq> 0" using assms(2) by (auto simp: isGranted_def)
  obtain ch where ch: "m_grantChTable s dstId = Some ch" using assms(1,2) by (auto simp: isGranted_iff)
  have e: "getGrantedCh dstId s = ch" using ch assms(2) d0 by (simp add: getGrantedCh_def)
  have "ch \<in> ran (m_grantChTable s)" using ch by (auto simp: ran_def)
  then have "ch \<notin> set (c # cs)" using assms(1) c by (auto simp: aff_ok_def)
  moreover have "\<forall>d. d \<noteq> dstId \<longrightarrow> m_grantChTable s d \<noteq> Some ch"
    using ch assms(1) unfolding aff_ok_def grants_exclusive_def by blast
  ultimately show ?thesis
    unfolding grantCh_cases [OF assms(1) d0 c] e by (auto simp: pool_def ran_def)
qed

theorem regrant_loses_channel_witness:
  "(1 :: u32) \<notin> pool (snd (grantCh 9 1 15 True False (snd (grantCh 9 1 15 True False (with_channels [1, 2])))))"
proof -
  let ?s = "snd (grantCh 9 1 15 True False (with_channels [1, 2]))"
  have g: "\<not> isGranted 9 (with_channels [1, 2])"
    by (simp add: with_channels_eq new_affil_def isGranted_def)
  have ok: "aff_ok ?s" using grantCh_ok [OF _ g] with_channels_ok [of "[1, 2]"] by simp
  have i: "isGranted 9 ?s" "isRFChAvailable ?s" "getGrantedCh 9 ?s = 1"
    by (simp_all add: with_channels_eq new_affil_def grantCh_def isRFChAvailable_def isGranted_def getGrantedCh_def)
  show ?thesis using regrant_loses_channel [OF ok i(1,2), of 1 15 True False] i(3) by simp
qed

text \<open>\<open>removeRFCh\<close> appends the channel it is asked to remove.\<close>

lemma removeRFCh_adds: "m_rfChTable (removeRFCh c s) = m_rfChTable s @ [c]"
  by (simp add: removeRFCh_def)

text \<open>
  After deregistration a unit is neither registered nor affiliated with any group.
\<close>

theorem unitDereg_forgets:
  assumes "aff_ok s" "isUnitReg srcId s"
  shows "fst (unitDereg srcId s) \<and> \<not> isUnitReg srcId (snd (unitDereg srcId s)) \<and>
         (\<forall>dstId. \<not> isGroupAff srcId dstId (snd (unitDereg srcId s)))"
  using assms
  by (auto simp: unitDereg_def isUnitReg_def groupUnaff_def isGroupAff_def Let_def aff_ok_def
      split: option.splits if_splits)

theorem unitDereg_forgets_witness:
  "\<not> isUnitReg 7 (snd (unitDereg 7 (unitReg 7 (with_channels [1]))))"
  using unitDereg_forgets [of "unitReg 7 (with_channels [1])" 7] registration_ok(1) [of "with_channels [1]" 7]
    with_channels_ok [of "[1]"]
  by (simp add: isUnitReg_def unitReg_def)

end
