(* ===== verification/DMRAffiliation.thy ===== *)
theory DMRAffiliation
  imports AffiliationLookup
begin

text \<open>
  The DMR channel allocator of \<^verbatim>\<open>src/src/host/dmr/lookups/DMRAffiliationLookup.cpp\<close>, which
  grants one of the two timeslots of a channel.  The inherited tables are the field
  \<open>m_base\<close>.  \<open>getAvailableSlotForChannel\<close> depends on the order in which it meets the
  slot table, which \<open>std::unordered_map\<close> does not fix: the order is an argument, and
  the properties show where the result depends on it.
\<close>

section \<open>State and operations\<close>

record dmr_affil =
  m_base :: affil
  m_grantChSlotTable :: "u32 \<rightharpoonup> u32 \<times> u8"
  m_tsccChNo :: u32
  m_tsccSlot :: u8

definition new_dmr_affil :: dmr_affil where
  "new_dmr_affil = \<lparr>m_base = new_affil, m_grantChSlotTable = Map.empty, m_tsccChNo = 0, m_tsccSlot = 0\<rparr>"

definition setSlotForChannelTSCC :: "u32 \<Rightarrow> u8 \<Rightarrow> dmr_affil \<Rightarrow> dmr_affil" where
  "setSlotForChannelTSCC chNo slot s =
     (if slot = 0 \<or> slot > 2 then s else s\<lparr>m_tsccChNo := chNo, m_tsccSlot := slot\<rparr>)"

text \<open>One entry of the slot table in the loop: the candidate slot, the flag and the count.\<close>

definition slotStep ::
  "(u32 \<rightharpoonup> u32 \<times> u8) \<Rightarrow> u32 \<Rightarrow> u8 \<times> bool \<times> nat \<Rightarrow> u32 \<Rightarrow> u8 \<times> bool \<times> nat" where
  "slotStep m chNo st d =
     (let (slot, grantedSlot, slotCount) = st in
      case m d of
        None \<Rightarrow> st
      | Some (foundChNo, foundSlot) \<Rightarrow>
          if foundChNo = chNo then
            if slot = foundSlot
            then ((if foundSlot = 1 then 2 else if foundSlot = 2 then 1 else slot), True, slotCount + 1)
            else st
          else st)"

definition getAvailableSlotForChannel :: "u32 list \<Rightarrow> u32 \<Rightarrow> dmr_affil \<Rightarrow> u8" where
  "getAvailableSlotForChannel walk chNo s =
     (if chNo = 0 then 0
      else let (slot, grantedSlot, slotCount) =
             foldl (slotStep (m_grantChSlotTable s) chNo) (1, False, 0) walk in
        if slotCount = 2 then 0
        else if chNo = m_tsccChNo s \<and> slot = m_tsccSlot s
        then if \<not> grantedSlot
             then (if m_tsccSlot s = 1 then 2 else if m_tsccSlot s = 2 then 1 else slot)
             else 0
        else slot)"

definition grantChSlot ::
  "u32 list \<Rightarrow> u32 \<Rightarrow> u32 \<Rightarrow> u8 \<Rightarrow> u32 \<Rightarrow> bool \<Rightarrow> bool \<Rightarrow> dmr_affil \<Rightarrow> bool \<times> dmr_affil" where
  "grantChSlot walk dstId srcId slot grantTimeout grp netGranted s =
     (let b = m_base s in
      if dstId = 0 then (False, s)
      else if \<not> isRFChAvailable b then (False, s)
      else let chNo = hd (m_rfChTable b) in
        if chNo = m_tsccChNo s \<and> slot = m_tsccSlot s then (False, s)
        else (True, s\<lparr>m_base := b\<lparr>
                 m_rfChTable := (if getAvailableSlotForChannel walk chNo s = 0 \<or> chNo = m_tsccChNo s
                                 then remove1 chNo (m_rfChTable b) else m_rfChTable b),
                 m_grantChTable := (m_grantChTable b)(dstId \<mapsto> chNo),
                 m_grantSrcIdTable := (m_grantSrcIdTable b)(dstId \<mapsto> srcId),
                 m_rfGrantChCnt := m_rfGrantChCnt b + 1,
                 m_uuGrantedTable := (m_uuGrantedTable b)(dstId \<mapsto> \<not> grp),
                 m_netGrantedTable := (m_netGrantedTable b)(dstId \<mapsto> netGranted),
                 m_grantTimers := (m_grantTimers b)(dstId \<mapsto> grantTimer grantTimeout)\<rparr>,
               m_grantChSlotTable := (m_grantChSlotTable s)(dstId \<mapsto> (chNo, slot))\<rparr>))"

text \<open>\<open>None\<close> is the \<open>std::out_of_range\<close> of \<open>m_rfChTable.at(0)\<close> on an empty table.\<close>

definition dmr_grantCh ::
  "u32 list \<Rightarrow> u32 \<Rightarrow> u32 \<Rightarrow> u32 \<Rightarrow> bool \<Rightarrow> bool \<Rightarrow> dmr_affil \<Rightarrow> (bool \<times> dmr_affil) option" where
  "dmr_grantCh walk dstId srcId grantTimeout grp netGranted s =
     (case m_rfChTable (m_base s) of
        [] \<Rightarrow> None
      | chNo # _ \<Rightarrow>
          let slot = getAvailableSlotForChannel walk chNo s in
          if slot = 0 then Some (False, s)
          else Some (grantChSlot walk dstId srcId slot grantTimeout grp netGranted s))"

text \<open>
  The part of \<open>releaseGrant\<close> after the release-all branch.  \<open>m_grantChSlotTable.at\<close>
  throws where there is no entry; the tables have the same keys, so it does not.
\<close>

definition dmr_releaseOne :: "u32 \<Rightarrow> dmr_affil \<Rightarrow> bool \<times> dmr_affil" where
  "dmr_releaseOne dstId s =
     (let b = m_base s in
      if isGranted dstId b
      then let chNo = the (m_grantChTable b dstId); slot = snd (the (m_grantChSlotTable s dstId)) in
        (True, s\<lparr>m_base := b\<lparr>
                 m_released := m_released b @ [(chNo, dstId, slot)],
                 m_grantChTable := (m_grantChTable b)(dstId := None),
                 m_grantSrcIdTable := (m_grantSrcIdTable b)(dstId := None),
                 m_netGrantedTable := (m_netGrantedTable b)(dstId := None),
                 m_rfChTable := (if chNo \<in> set (m_rfChTable b) then m_rfChTable b
                                 else m_rfChTable b @ [chNo]),
                 m_rfGrantChCnt := (if m_rfGrantChCnt b > 0 then m_rfGrantChCnt b - 1 else 0),
                 m_grantTimers := (m_grantTimers b)(dstId \<mapsto> timerStop (timer_at (m_grantTimers b) dstId))\<rparr>,
               m_grantChSlotTable := (m_grantChSlotTable s)(dstId := None)\<rparr>)
      else (False, s))"

definition dmr_releaseGrant :: "u32 list \<Rightarrow> u32 \<Rightarrow> bool \<Rightarrow> dmr_affil \<Rightarrow> bool \<times> dmr_affil" where
  "dmr_releaseGrant walk dstId releaseAll s =
     (if dstId = 0 \<and> \<not> releaseAll then (False, s)
      else if dstId = 0 \<and> releaseAll then (True, foldl (\<lambda>t d. snd (dmr_releaseOne d t)) s walk)
      else dmr_releaseOne dstId s)"

definition dmr_isChBusy :: "u32 list \<Rightarrow> u32 list \<Rightarrow> u32 \<Rightarrow> dmr_affil \<Rightarrow> bool" where
  "dmr_isChBusy walk slotWalk chNo s =
     (if chNo = 0 then False
      else if list_ex (\<lambda>d. m_grantChTable (m_base s) d = Some chNo) walk
      then (if chNo = m_tsccChNo s then 1 else 0) +
           length (filter (\<lambda>d. map_option fst (m_grantChSlotTable s d) = Some chNo) slotWalk) = 2
      else False)"

definition getGrantedSlot :: "u32 \<Rightarrow> dmr_affil \<Rightarrow> u8" where
  "getGrantedSlot dstId s =
     (if dstId = 0 then 0
      else case m_grantChSlotTable s dstId of Some (_, slot) \<Rightarrow> slot | None \<Rightarrow> 0)"

section \<open>The available slot\<close>

text \<open>What the search should return: a slot that no destination holds on the channel.\<close>

definition slot_taken :: "u32 \<Rightarrow> u8 \<Rightarrow> dmr_affil \<Rightarrow> bool" where
  "slot_taken chNo slot s \<longleftrightarrow> (\<exists>d. m_grantChSlotTable s d = Some (chNo, slot))"

definition slots_valid :: "dmr_affil \<Rightarrow> bool" where
  "slots_valid s \<longleftrightarrow> (\<forall>d c k. m_grantChSlotTable s d = Some (c, k) \<longrightarrow> k = 1 \<or> k = 2)"

lemma slotStep_skip:
  "\<forall>d \<in> set walk. \<forall>k. m d \<noteq> Some (chNo, k) \<Longrightarrow> foldl (slotStep m chNo) st walk = st"
  by (induction walk) (auto simp: slotStep_def split: option.splits prod.splits)

lemma slotStep_one:
  assumes "distinct walk" "d \<in> set walk" "m d = Some (chNo, k)" "k = 1 \<or> k = 2"
    and "\<forall>e \<in> set walk. \<forall>j. m e = Some (chNo, j) \<longrightarrow> e = d"
  shows "foldl (slotStep m chNo) (1, False, 0) walk = (if k = 1 then (2, True, 1) else (1, False, 0))"
proof -
  obtain xs ys where w: "walk = xs @ d # ys" using assms(2) by (auto simp: in_set_conv_decomp)
  have x: "\<forall>e \<in> set xs. \<forall>j. m e \<noteq> Some (chNo, j)" and y: "\<forall>e \<in> set ys. \<forall>j. m e \<noteq> Some (chNo, j)"
    using assms(1,5) unfolding w by auto
  show ?thesis
    unfolding w using assms(3,4) slotStep_skip [OF x] slotStep_skip [OF y] by (auto simp: slotStep_def)
qed

text \<open>
  With at most one slot of the channel taken, the search is right in every order.
\<close>

theorem available_slot_is_free:
  assumes "walk_of (m_grantChSlotTable s) walk" "slots_valid s" "chNo \<noteq> 0" "chNo \<noteq> m_tsccChNo s"
    and one: "\<forall>d e j k. m_grantChSlotTable s d = Some (chNo, j) \<longrightarrow>
               m_grantChSlotTable s e = Some (chNo, k) \<longrightarrow> d = e"
  shows "(let slot = getAvailableSlotForChannel walk chNo s in
          (slot = 1 \<or> slot = 2) \<and> \<not> slot_taken chNo slot s)"
proof (cases "\<exists>d k. m_grantChSlotTable s d = Some (chNo, k)")
  case False
  then have "foldl (slotStep (m_grantChSlotTable s) chNo) (1, False, 0) walk = (1, False, 0)"
    by (intro slotStep_skip) auto
  then show ?thesis using False assms(3,4)
    by (simp add: getAvailableSlotForChannel_def slot_taken_def)
next
  case True
  then obtain d k where d: "m_grantChSlotTable s d = Some (chNo, k)" by auto
  then have k: "k = 1 \<or> k = 2" using assms(2) by (auto simp: slots_valid_def)
  have m: "d \<in> set walk" using assms(1) d by (auto simp: walk_of_def)
  have f: "foldl (slotStep (m_grantChSlotTable s) chNo) (1, False, 0) walk =
      (if k = 1 then (2, True, 1) else (1, False, 0))"
    using slotStep_one [of walk d "m_grantChSlotTable s" chNo k] walk_of_distinct [OF assms(1)] m d k one by blast
  have u: "\<And>e j. m_grantChSlotTable s e = Some (chNo, j) \<Longrightarrow> j = k"
    using one d by (metis option.inject prod.inject)
  show ?thesis
    using assms(3,4) k f by (auto simp: getAvailableSlotForChannel_def slot_taken_def dest!: u split: if_splits)
qed

text \<open>A channel with both slots taken, by two different destinations.\<close>

definition both_taken :: "u32 \<Rightarrow> u32 \<Rightarrow> u32 \<Rightarrow> dmr_affil \<Rightarrow> bool" where
  "both_taken chNo d1 d2 s \<longleftrightarrow> d1 \<noteq> d2 \<and>
     m_grantChSlotTable s = [d1 \<mapsto> (chNo, 1), d2 \<mapsto> (chNo, 2)]"

text \<open>
  With both slots taken the answer depends on the order: meeting the slot-1 grant first it is
  0, meeting the slot-2 grant first it is 2, which is taken.
\<close>

theorem available_slot_depends_on_order:
  assumes "both_taken chNo d1 d2 s" "chNo \<noteq> 0" "chNo \<noteq> m_tsccChNo s"
  shows "walk_of (m_grantChSlotTable s) [d1, d2] \<and> getAvailableSlotForChannel [d1, d2] chNo s = 0 \<and>
         walk_of (m_grantChSlotTable s) [d2, d1] \<and> getAvailableSlotForChannel [d2, d1] chNo s = 2 \<and>
         slot_taken chNo 2 s"
  using assms
  by (auto simp: both_taken_def walk_of_def getAvailableSlotForChannel_def slotStep_def slot_taken_def)

text \<open>
  Hence a third grant on the channel can put two calls on one timeslot.
\<close>

theorem third_grant_shares_slot:
  assumes "both_taken chNo d1 d2 s" "chNo \<noteq> 0" "chNo \<noteq> m_tsccChNo s"
    and "m_rfChTable (m_base s) = chNo # chs" "d3 \<noteq> 0" "d3 \<noteq> d1" "d3 \<noteq> d2"
  shows "\<exists>s'. dmr_grantCh [d2, d1] d3 srcId t grp net s = Some (True, s') \<and>
           m_grantChSlotTable s' d2 = Some (chNo, 2) \<and> m_grantChSlotTable s' d3 = Some (chNo, 2)"
  using assms available_slot_depends_on_order [OF assms(1-3)]
  by (simp add: dmr_grantCh_def grantChSlot_def isRFChAvailable_def both_taken_def Let_def)

section \<open>Sequences of grants\<close>

definition dmr_with_channels :: "u32 list \<Rightarrow> dmr_affil" where
  "dmr_with_channels chs = new_dmr_affil\<lparr>m_base := with_channels chs\<rparr>"

definition grant_all :: "(u32 list \<times> u32) list \<Rightarrow> dmr_affil \<Rightarrow> dmr_affil" where
  "grant_all gs s =
     foldl (\<lambda>t (walk, d). case dmr_grantCh walk d 1 15 True False t of
                            None \<Rightarrow> t | Some (_, t') \<Rightarrow> t') s gs"

text \<open>From a fresh table: three calls to three groups, in the order the table is met.\<close>

theorem third_grant_shares_slot_witness:
  "\<exists>s'. dmr_grantCh [20, 10] 30 1 15 True False (grant_all [([], 10), ([10], 20)] (dmr_with_channels [5, 6])) =
          Some (True, s') \<and>
        m_grantChSlotTable s' 20 = Some (5, 2) \<and> m_grantChSlotTable s' 30 = Some (5, 2)"
proof -
  let ?s = "grant_all [([], 10), ([10], 20)] (dmr_with_channels [5, 6])"
  have "both_taken 5 10 20 ?s" "m_tsccChNo ?s = 0" "m_rfChTable (m_base ?s) = 5 # [6]"
    by (simp_all add: grant_all_def dmr_with_channels_def with_channels_eq new_affil_def new_dmr_affil_def
        dmr_grantCh_def grantChSlot_def isRFChAvailable_def getAvailableSlotForChannel_def slotStep_def
        both_taken_def Let_def)
  then show ?thesis using third_grant_shares_slot [of 5 10 20 ?s "[6]" 30 1 15 True False] by simp
qed

theorem available_slot_depends_on_order_witness:
  "(let s = grant_all [([], 10), ([10], 20)] (dmr_with_channels [5, 6])
    in getAvailableSlotForChannel [10, 20] 5 s = 0 \<and> getAvailableSlotForChannel [20, 10] 5 s = 2)"
proof -
  let ?s = "grant_all [([], 10), ([10], 20)] (dmr_with_channels [5, 6])"
  have "both_taken 5 10 20 ?s" "m_tsccChNo ?s = 0"
    by (simp_all add: grant_all_def dmr_with_channels_def with_channels_eq new_affil_def new_dmr_affil_def
        dmr_grantCh_def grantChSlot_def isRFChAvailable_def getAvailableSlotForChannel_def slotStep_def
        both_taken_def Let_def)
  then show ?thesis using available_slot_depends_on_order [of 5 10 20 ?s] by (simp add: Let_def)
qed

theorem available_slot_is_free_witness:
  "(let s = grant_all [([], 10)] (dmr_with_channels [5, 6]); slot = getAvailableSlotForChannel [10] 5 s
    in (slot = 1 \<or> slot = 2) \<and> \<not> slot_taken 5 slot s)"
proof -
  let ?s = "grant_all [([], 10)] (dmr_with_channels [5, 6])"
  have m: "m_grantChSlotTable ?s = [10 \<mapsto> (5, 1)]" "m_tsccChNo ?s = 0"
    by (simp_all add: grant_all_def dmr_with_channels_def with_channels_eq new_affil_def new_dmr_affil_def
        dmr_grantCh_def grantChSlot_def isRFChAvailable_def getAvailableSlotForChannel_def slotStep_def Let_def)
  have w: "walk_of (m_grantChSlotTable ?s) [10]" unfolding m(1) by (simp add: walk_of_def)
  have v: "slots_valid ?s" unfolding slots_valid_def m(1) by (simp split: if_splits)
  have one: "\<forall>d e j k. m_grantChSlotTable ?s d = Some (5, j) \<longrightarrow>
      m_grantChSlotTable ?s e = Some (5, k) \<longrightarrow> d = e"
    unfolding m(1) by (simp split: if_splits)
  show ?thesis using available_slot_is_free [OF w v _ _ one] unfolding m(2) by (simp only: Let_def) simp
qed

text \<open>
  A channel other than the control channel is never taken off the free list by a grant: the
  slot the caller passes is not 0, and the test that would remove the channel asks the same
  question of the same tables.  So as long as such a channel heads the list, every grant is
  on it, and the channels behind it are not used.
\<close>

theorem grant_keeps_channel:
  assumes "dmr_grantCh walk dstId srcId t grp net s = Some (True, s')"
    and "m_rfChTable (m_base s) = chNo # chs" "chNo \<noteq> m_tsccChNo s"
  shows "m_rfChTable (m_base s') = chNo # chs \<and> m_grantChTable (m_base s') dstId = Some chNo"
  using assms
  by (auto simp: dmr_grantCh_def grantChSlot_def isRFChAvailable_def Let_def split: if_splits)

theorem grant_keeps_channel_witness:
  "m_rfChTable (m_base (grant_all [([], 10)] (dmr_with_channels [5, 6]))) = [5, 6]"
proof -
  let ?s' = "grant_all [([], 10)] (dmr_with_channels [5, 6])"
  have "dmr_grantCh [] 10 1 15 True False (dmr_with_channels [5, 6]) = Some (True, ?s')"
    "m_rfChTable (m_base (dmr_with_channels [5, 6])) = 5 # [6]" "5 \<noteq> m_tsccChNo (dmr_with_channels [5, 6])"
    by (simp_all add: grant_all_def dmr_with_channels_def with_channels_eq new_affil_def new_dmr_affil_def
        dmr_grantCh_def grantChSlot_def isRFChAvailable_def getAvailableSlotForChannel_def Let_def)
  from grant_keeps_channel [OF this] show ?thesis by simp
qed

text \<open>Over a whole history of grants: only the head channel is ever granted.\<close>

lemma grant_all_head_only:
  assumes "m_rfChTable (m_base s) = chNo # chs" "chNo \<noteq> m_tsccChNo s"
    and "ran (m_grantChTable (m_base s)) \<subseteq> {chNo}"
  shows "ran (m_grantChTable (m_base (grant_all gs s))) \<subseteq> {chNo} \<and>
         m_rfChTable (m_base (grant_all gs s)) = chNo # chs"
  using assms
proof (induction gs arbitrary: s)
  case Nil
  then show ?case by (simp add: grant_all_def)
next
  case (Cons g gs)
  obtain walk d where g: "g = (walk, d)" by force
  let ?t = "case dmr_grantCh walk d 1 15 True False s of None \<Rightarrow> s | Some (_, t') \<Rightarrow> t'"
  have t: "m_rfChTable (m_base ?t) = chNo # chs" "m_tsccChNo ?t = m_tsccChNo s"
    "ran (m_grantChTable (m_base ?t)) \<subseteq> {chNo}"
    using Cons.prems
    by (auto simp: dmr_grantCh_def grantChSlot_def isRFChAvailable_def Let_def ran_def split: if_splits)
  have "grant_all (g # gs) s = grant_all gs ?t" by (simp add: grant_all_def g)
  then show ?case using Cons.IH [OF t(1) _ t(3)] t(2) Cons.prems(2) by simp
qed

end
