(* ===== verification/Lookups.thy ===== *)
theory Lookups
  imports Prelude "HOL-Library.Char_ord"
begin

text \<open>
  The radio ID and talkgroup rule tables of \<^verbatim>\<open>src/src/common/lookups\<close>
  (\<^verbatim>\<open>LookupTable.h\<close>, \<^verbatim>\<open>RadioIdLookup\<close>, \<^verbatim>\<open>TalkgroupRulesLookup\<close>) and the access control
  classes over them (\<^verbatim>\<open>src/src/common/dmr/acl\<close>, \<^verbatim>\<open>p25/acl\<close> and \<^verbatim>\<open>nxdn/acl\<close>).  The body
  of each critical section is a function on the table; the mutex is a flag of the
  talkgroup table's state, and an operation that would wait for a mutex nobody will
  unlock is \<open>None\<close>.  The YAML parser is third-party: the rules arrive as decoded nodes.
\<close>

section \<open>Radio IDs\<close>

record RadioId =
  m_radioEnabled :: bool
  m_radioDefault :: bool

definition RadioId_of :: "bool \<Rightarrow> bool \<Rightarrow> RadioId" where
  "RadioId_of radioEnabled radioDefault = \<lparr>m_radioEnabled = radioEnabled, m_radioDefault = radioDefault\<rparr>"

definition P25_WUID_FNE :: u32 where "P25_WUID_FNE = 0xFFFFFC"
definition P25_WUID_ALL :: u32 where "P25_WUID_ALL = 0xFFFFFF"

type_synonym rid_table = "u32 \<rightharpoonup> RadioId"

definition rid_addEntry :: "u32 \<Rightarrow> bool \<Rightarrow> rid_table \<Rightarrow> rid_table" where
  "rid_addEntry rid enabled m =
     (if rid = P25_WUID_ALL \<or> rid = P25_WUID_FNE then m
      else case m rid of
             Some e \<Rightarrow> if m_radioEnabled e \<noteq> enabled then m(rid \<mapsto> RadioId_of enabled False) else m
           | None \<Rightarrow> m(rid \<mapsto> RadioId_of enabled False))"

definition rid_find :: "u32 \<Rightarrow> rid_table \<Rightarrow> RadioId" where
  "rid_find rid m =
     (if rid = P25_WUID_ALL \<or> rid = P25_WUID_FNE then RadioId_of True False
      else case m rid of Some e \<Rightarrow> e | None \<Rightarrow> RadioId_of False True)"

definition rid_toggleEntry :: "u32 \<Rightarrow> bool \<Rightarrow> rid_table \<Rightarrow> rid_table" where
  "rid_toggleEntry rid enabled m = rid_addEntry rid enabled m"

subsection \<open>Loading the file\<close>

text \<open>The tokenizer of \<open>load\<close>: empty fields vanish.\<close>

fun tokenize :: "char \<Rightarrow> string \<Rightarrow> string \<Rightarrow> string list" where
  "tokenize delim nxt [] = (if nxt \<noteq> [] then [nxt] else [])"
| "tokenize delim nxt (c # cs) =
     (if c = delim then (if nxt \<noteq> [] then nxt # tokenize delim [] cs else tokenize delim [] cs)
      else tokenize delim (nxt @ [c]) cs)"

text \<open>\<open>atoi\<close> of the C library: white space, an optional sign, then digits.\<close>

definition is_digit :: "char \<Rightarrow> bool" where
  "is_digit c = (CHR ''0'' \<le> c \<and> c \<le> CHR ''9'')"

definition digit_val :: "char \<Rightarrow> int" where
  "digit_val c = int (of_char c :: nat) - 48"

fun atoi_digits :: "int \<Rightarrow> string \<Rightarrow> int" where
  "atoi_digits acc [] = acc"
| "atoi_digits acc (c # cs) = (if is_digit c then atoi_digits (10 * acc + digit_val c) cs else acc)"

definition is_space :: "char \<Rightarrow> bool" where
  "is_space c = (c \<in> set [CHR '' '', CHR 0x09, CHR 0x0A, CHR 0x0B, CHR 0x0C, CHR 0x0D])"

definition atoi :: "string \<Rightarrow> int" where
  "atoi s =
     (case dropWhile is_space s of
        [] \<Rightarrow> 0
      | c # cs \<Rightarrow> if c = CHR ''-'' then - atoi_digits 0 cs
                 else if c = CHR ''+'' then atoi_digits 0 cs else atoi_digits 0 (c # cs))"

text \<open>
  One line of the file.  \<open>None\<close> is the access past the end of the token vector, which is
  undefined in C++: a non-comment line with fewer than two tokens.
\<close>

definition rid_line :: "string \<Rightarrow> rid_table \<Rightarrow> rid_table option" where
  "rid_line line m =
     (if line = [] then Some m
      else if hd line = CHR ''#'' then Some m
      else case tokenize (CHR '','') [] line of
             p0 # p1 # _ \<Rightarrow> Some (m(of_int (atoi p0) \<mapsto> RadioId_of (atoi p1 = 1) False))
           | _ \<Rightarrow> None)"

text \<open>
  \<open>load\<close> over the lines \<open>std::getline\<close> returns; the file that does not open is \<open>None\<close> in
  the argument.  The result is the flag and the table.
\<close>

definition rid_load :: "string \<Rightarrow> string list option \<Rightarrow> rid_table \<Rightarrow> (bool \<times> rid_table) option" where
  "rid_load filename file m =
     (if filename = [] then Some (False, m)
      else case file of
        None \<Rightarrow> Some (False, m)
      | Some lns \<Rightarrow>
          (case fold (\<lambda>line r. Option.bind r (rid_line line)) lns (Some Map.empty) of
             None \<Rightarrow> None
           | Some t \<Rightarrow> Some (t \<noteq> Map.empty, t)))"

section \<open>Talkgroup rules\<close>

record tg_source =
  m_tgId :: u32
  m_tgSlot :: u8

record tg_rewrite =
  rw_peerId :: u32
  rw_tgId :: u32
  rw_tgSlot :: u8

record tg_config =
  m_active :: bool
  m_parrot :: bool
  m_inclusion :: "u32 list"
  m_exclusion :: "u32 list"
  m_rewrite :: "tg_rewrite list"

record tg_rule =
  m_name :: string
  m_config :: tg_config
  m_source :: tg_source

definition new_tg_config :: tg_config where
  "new_tg_config = \<lparr>m_active = False, m_parrot = False, m_inclusion = [], m_exclusion = [], m_rewrite = []\<rparr>"

definition new_tg_source :: tg_source where
  "new_tg_source = \<lparr>m_tgId = 0, m_tgSlot = 0\<rparr>"

definition new_tg_rule :: tg_rule where
  "new_tg_rule = \<lparr>m_name = [], m_config = new_tg_config, m_source = new_tg_source\<rparr>"

text \<open>\<open>TalkgroupRuleConfig::operator=\<close> copies four of the five members.\<close>

definition config_assign :: "tg_config \<Rightarrow> tg_config \<Rightarrow> tg_config" where
  "config_assign dst src =
     dst\<lparr>m_active := m_active src, m_parrot := m_parrot src, m_inclusion := m_inclusion src,
         m_exclusion := m_exclusion src\<rparr>"

definition source_assign :: "tg_source \<Rightarrow> tg_source \<Rightarrow> tg_source" where
  "source_assign dst src = dst\<lparr>m_tgId := m_tgId src, m_tgSlot := m_tgSlot src\<rparr>"

definition rule_assign :: "tg_rule \<Rightarrow> tg_rule \<Rightarrow> tg_rule" where
  "rule_assign dst src =
     dst\<lparr>m_name := m_name src, m_config := config_assign (m_config dst) (m_config src),
         m_source := source_assign (m_source dst) (m_source src)\<rparr>"

definition isInvalid :: "tg_rule \<Rightarrow> bool" where
  "isInvalid r = (if m_tgId (m_source r) = 0 then True else False)"

text \<open>
  The constructors from a node, whose decoded values are the argument: each member object
  is built and then assigned.
\<close>

definition config_of_node :: "tg_config \<Rightarrow> tg_config" where
  "config_of_node node =
     new_tg_config\<lparr>m_active := m_active node, m_parrot := m_parrot node,
       m_inclusion := m_inclusion new_tg_config @ m_inclusion node,
       m_exclusion := m_exclusion new_tg_config @ m_exclusion node,
       m_rewrite := m_rewrite new_tg_config @ m_rewrite node\<rparr>"

definition rule_of_node :: "tg_rule \<Rightarrow> tg_rule" where
  "rule_of_node node =
     (let r = new_tg_rule\<lparr>m_name := m_name node\<rparr>;
          r = r\<lparr>m_config := config_assign (m_config r) (config_of_node (m_config node))\<rparr>
      in r\<lparr>m_source := source_assign (m_source r) (m_source node)\<rparr>)"

type_synonym tg_rules = "tg_rule list"

text \<open>The predicate of the \<open>find_if\<close> calls, and the index it finds.\<close>

definition tg_matches :: "u32 \<Rightarrow> u8 \<Rightarrow> tg_rule \<Rightarrow> bool" where
  "tg_matches tgid slot x =
     (if slot \<noteq> 0 then m_tgId (m_source x) = tgid \<and> m_tgSlot (m_source x) = slot
      else m_tgId (m_source x) = tgid)"

fun find_index :: "('a \<Rightarrow> bool) \<Rightarrow> 'a list \<Rightarrow> nat option" where
  "find_index P [] = None"
| "find_index P (x # xs) = (if P x then Some 0 else map_option Suc (find_index P xs))"

definition tg_find :: "u32 \<Rightarrow> u8 \<Rightarrow> tg_rules \<Rightarrow> tg_rule" where
  "tg_find tgid slot rules =
     (case find_index (tg_matches tgid slot) rules of
        Some i \<Rightarrow> rule_assign new_tg_rule (rules ! i)
      | None \<Rightarrow> rule_assign new_tg_rule new_tg_rule)"

text \<open>
  \<open>findByRewrite\<close>.  The getters return copies, so the inner search compares iterators of
  two different vectors, which C++ leaves undefined when the list is not empty: \<open>None\<close>.
\<close>

definition tg_findByRewrite :: "u32 \<Rightarrow> u32 \<Rightarrow> u8 \<Rightarrow> tg_rules \<Rightarrow> tg_rule option" where
  "tg_findByRewrite peerId tgid slot rules =
     (if list_all (\<lambda>x. m_rewrite (m_config x) = []) rules
      then Some (rule_assign new_tg_rule new_tg_rule) else None)"

definition tg_addEntry :: "u32 \<Rightarrow> u8 \<Rightarrow> bool \<Rightarrow> tg_rules \<Rightarrow> tg_rules" where
  "tg_addEntry tgid slot enabled rules =
     (case find_index (tg_matches tgid slot) rules of
        Some i \<Rightarrow>
          let it = rules ! i;
              source = (source_assign \<lparr>m_tgId = tgid, m_tgSlot = slot\<rparr> (m_source it))\<lparr>m_tgId := tgid, m_tgSlot := slot\<rparr>;
              config = (config_assign (new_tg_config\<lparr>m_active := enabled\<rparr>) (m_config it))\<lparr>m_active := enabled\<rparr>;
              entry = it\<lparr>m_config := config_assign (m_config it) config,
                         m_source := source_assign (m_source it) source\<rparr>
          in rules[i := rule_assign it entry]
      | None \<Rightarrow>
          rules @ [new_tg_rule\<lparr>m_config := config_assign new_tg_config (new_tg_config\<lparr>m_active := enabled\<rparr>),
                               m_source := source_assign new_tg_source \<lparr>m_tgId = tgid, m_tgSlot = slot\<rparr>\<rparr>])"

definition tg_addRule :: "tg_rule \<Rightarrow> tg_rules \<Rightarrow> tg_rules" where
  "tg_addRule groupVoice rules =
     (if isInvalid groupVoice then rules
      else case find_index (tg_matches (m_tgId (m_source groupVoice)) (m_tgSlot (m_source groupVoice))) rules of
             Some i \<Rightarrow> rules[i := rule_assign (rules ! i) groupVoice]
           | None \<Rightarrow> rules @ [groupVoice])"

definition tg_eraseEntry :: "u32 \<Rightarrow> u8 \<Rightarrow> tg_rules \<Rightarrow> tg_rules" where
  "tg_eraseEntry tgid slot rules =
     (case find_index (\<lambda>x. m_tgId (m_source x) = tgid \<and> m_tgSlot (m_source x) = slot) rules of
        Some i \<Rightarrow> take i rules @ drop (Suc i) rules
      | None \<Rightarrow> rules)"

subsection \<open>The mutex and loading\<close>

record tg_lookup =
  m_groupVoice :: tg_rules
  m_locked :: bool

text \<open>A critical section: it waits forever on a mutex that is never unlocked.\<close>

definition locked_section :: "(tg_rules \<Rightarrow> 'a \<times> tg_rules) \<Rightarrow> tg_lookup \<Rightarrow> ('a \<times> tg_lookup) option" where
  "locked_section f s =
     (if m_locked s then None
      else let (r, rules) = f (m_groupVoice s) in Some (r, s\<lparr>m_groupVoice := rules\<rparr>))"

definition tg_clear :: "tg_lookup \<Rightarrow> (unit \<times> tg_lookup) option" where
  "tg_clear = locked_section (\<lambda>_. ((), []))"

definition tg_lookup_find :: "u32 \<Rightarrow> u8 \<Rightarrow> tg_lookup \<Rightarrow> (tg_rule \<times> tg_lookup) option" where
  "tg_lookup_find tgid slot = locked_section (\<lambda>rules. (tg_find tgid slot rules, rules))"

text \<open>
  \<open>load\<close> after the parse: \<open>None\<close> for the parsed nodes is a parse failure.  An empty list
  returns between \<open>lock\<close> and \<open>unlock\<close>.
\<close>

definition tg_load :: "string \<Rightarrow> tg_rule list option \<Rightarrow> tg_lookup \<Rightarrow> (bool \<times> tg_lookup) option" where
  "tg_load rulesFile nodes s =
     (if rulesFile = [] then Some (False, s)
      else case nodes of
        None \<Rightarrow> Some (False, s)
      | Some ns \<Rightarrow>
          (case tg_clear s of
             None \<Rightarrow> None
           | Some (_, s) \<Rightarrow>
               if ns = [] then Some (False, s\<lparr>m_locked := True\<rparr>)
               else let s = s\<lparr>m_groupVoice := m_groupVoice s @ map rule_of_node ns\<rparr>
                    in if m_groupVoice s = [] then Some (False, s) else Some (True, s)))"

section \<open>Access control\<close>

text \<open>
  \<open>ridAcl\<close> and \<open>tgAcl\<close> are the \<open>getACL\<close> flags of the two tables.  The source check is the
  same in the three protocols; DMR's talkgroup check also takes the slot.
\<close>

definition validateSrcId :: "bool \<Rightarrow> rid_table \<Rightarrow> u32 \<Rightarrow> bool" where
  "validateSrcId ridAcl m srcId =
     (if ridAcl = False
      then let rid = rid_find srcId m in
        if \<not> m_radioDefault rid \<and> \<not> m_radioEnabled rid then False else True
      else let rid = rid_find srcId m in
        if \<not> m_radioEnabled rid then False else True)"

definition dmr_validateTGId :: "bool \<Rightarrow> tg_rules \<Rightarrow> u32 \<Rightarrow> u32 \<Rightarrow> bool" where
  "dmr_validateTGId tgAcl rules slotNo tgid =
     (if tgid = 0 then False
      else if tgAcl = False then True
      else let tid = tg_find tgid 0 rules in
        if isInvalid tid then False
        else if \<not> m_active (m_config tid) then False
        else if slotNo \<noteq> 0 then (if ucast (m_tgSlot (m_source tid)) \<noteq> slotNo then False else True)
        else True)"

definition validateTGId :: "bool \<Rightarrow> tg_rules \<Rightarrow> u32 \<Rightarrow> bool" where
  "validateTGId tgAcl rules tgid =
     (if tgid = 0 then False
      else if tgAcl = False then True
      else let tid = tg_find tgid 0 rules in
        if isInvalid tid then False
        else if \<not> m_active (m_config tid) then False
        else True)"

section \<open>The radio ID table as a map of permissions\<close>

text \<open>
  The contract the protocol code and the network list messages rely on: putting a key
  decides what a later lookup of that key says, and nothing else.
\<close>

locale permission_table =
  fixes lookup :: "'k \<Rightarrow> 't \<Rightarrow> bool"
    and put :: "'k \<Rightarrow> bool \<Rightarrow> 't \<Rightarrow> 't"
    and fixed :: "'k \<Rightarrow> bool"
  assumes lookup_put: "lookup k (put k v t) = (if fixed k then lookup k t else v)"
    and lookup_put_other: "k \<noteq> j \<Longrightarrow> lookup k (put j v t) = lookup k t"
begin

text \<open>After a list of updates a key has the value of its last update.\<close>

lemma lookup_puts:
  "\<not> fixed k \<Longrightarrow> lookup k (fold (\<lambda>j. put j v) ks t) = (if k \<in> set ks then v else lookup k t)"
proof (induction ks arbitrary: t)
  case Nil
  then show ?case by simp
next
  case (Cons j ks)
  then show ?case by (cases "k = j") (simp_all add: lookup_put lookup_put_other)
qed

end

definition wuid :: "u32 \<Rightarrow> bool" where
  "wuid rid \<longleftrightarrow> rid = P25_WUID_ALL \<or> rid = P25_WUID_FNE"

interpretation rids: permission_table "\<lambda>rid m. m_radioEnabled (rid_find rid m)" rid_toggleEntry wuid
  by unfold_locales
    (auto simp: rid_find_def rid_toggleEntry_def rid_addEntry_def RadioId_of_def wuid_def split: option.splits)

text \<open>No entry of the table carries the default flag: it marks the answer for absent IDs.\<close>

definition rid_ok :: "rid_table \<Rightarrow> bool" where
  "rid_ok m \<longleftrightarrow> (\<forall>k e. m k = Some e \<longrightarrow> \<not> m_radioDefault e)"

lemma rid_okD: "rid_ok m \<Longrightarrow> m rid = Some e \<Longrightarrow> m_radioDefault e = False"
  by (auto simp: rid_ok_def)

lemma rid_ok_toggle: "rid_ok m \<Longrightarrow> rid_ok (rid_toggleEntry rid enabled m)"
  by (auto simp: rid_ok_def rid_toggleEntry_def rid_addEntry_def RadioId_of_def split: option.splits)

lemma rid_line_ok: "rid_ok m \<Longrightarrow> rid_line line m = Some m' \<Longrightarrow> rid_ok m'"
  by (auto simp: rid_line_def rid_ok_def RadioId_of_def split: if_splits list.splits)

lemma rid_lines_ok:
  assumes "rid_ok m" "fold (\<lambda>line r. Option.bind r (rid_line line)) lns (Some m) = Some m'"
  shows "rid_ok m'"
  using assms
proof (induction lns arbitrary: m)
  case Nil
  then show ?case by simp
next
  case (Cons l lns)
  have none: "fold (\<lambda>line r. Option.bind r (rid_line line)) xs None = None" for xs by (induction xs) auto
  show ?case
  proof (cases "rid_line l m")
    case None
    then show ?thesis using Cons.prems none by simp
  next
    case (Some k)
    then have "rid_ok k" using Cons.prems(1) by (rule rid_line_ok [rotated])
    then show ?thesis using Cons.IH Cons.prems(2) Some by simp
  qed
qed

lemma rid_load_ok:
  assumes "rid_ok m" "rid_load f file m = Some (ret, m')"
  shows "rid_ok m'"
proof -
  have "rid_ok Map.empty" by (simp add: rid_ok_def)
  then show ?thesis
    using assms rid_lines_ok [of Map.empty] by (auto simp: rid_load_def split: if_splits option.splits)
qed

text \<open>
  The access decision for a source radio, on every branch: the two well-known IDs always
  pass; a listed radio passes when it is enabled; an unlisted radio passes exactly when the
  access control list is off.
\<close>

theorem validateSrcId_decision:
  assumes "rid_ok m"
  shows "validateSrcId acl m rid \<longleftrightarrow>
         wuid rid \<or> (case m rid of Some e \<Rightarrow> m_radioEnabled e | None \<Rightarrow> \<not> acl)"
  using rid_okD [OF assms, of rid]
  by (auto simp: validateSrcId_def rid_find_def RadioId_of_def wuid_def Let_def split: option.splits)

theorem validateSrcId_decision_witness:
  "validateSrcId True (rid_toggleEntry 7 True Map.empty) 7 \<and> \<not> validateSrcId True (rid_toggleEntry 7 True Map.empty) 8"
  using validateSrcId_decision [of "rid_toggleEntry 7 True Map.empty" True 7]
    validateSrcId_decision [of "rid_toggleEntry 7 True Map.empty" True 8]
    rid_ok_toggle [of Map.empty 7 True]
  by (simp add: rid_ok_def rid_toggleEntry_def rid_addEntry_def RadioId_of_def wuid_def
      P25_WUID_ALL_def P25_WUID_FNE_def)

text \<open>
  Enabling a list of radios and then disabling another, as the white and black list messages
  do: the second list wins, radios in neither keep their entry, well-known IDs are immune.
\<close>

theorem lists_applied:
  assumes "\<not> wuid rid"
  shows "m_radioEnabled (rid_find rid (fold (\<lambda>i. rid_toggleEntry i False) black
            (fold (\<lambda>i. rid_toggleEntry i True) white m))) =
         (if rid \<in> set black then False else if rid \<in> set white then True
          else m_radioEnabled (rid_find rid m))"
  using rids.lookup_puts [OF assms] by simp

theorem lists_applied_witness:
  "m_radioEnabled (rid_find 5 (fold (\<lambda>i. rid_toggleEntry i False) [6]
     (fold (\<lambda>i. rid_toggleEntry i True) [5, 6] Map.empty)))"
  using lists_applied [of 5 "[6]" "[5, 6]" Map.empty]
  by (simp add: wuid_def P25_WUID_ALL_def P25_WUID_FNE_def)

subsection \<open>Parsing\<close>

text \<open>The tokenizer inverts joining with the delimiter.\<close>

fun join :: "char \<Rightarrow> string list \<Rightarrow> string" where
  "join d [] = []"
| "join d [t] = t"
| "join d (t # ts) = t @ d # join d ts"

lemma tokenize_word: "d \<notin> set w \<Longrightarrow> tokenize d acc (w @ d # cs) =
    (if acc @ w = [] then tokenize d [] cs else (acc @ w) # tokenize d [] cs)"
  by (induction w arbitrary: acc) auto

lemma tokenize_end: "d \<notin> set w \<Longrightarrow> tokenize d acc w = (if acc @ w = [] then [] else [acc @ w])"
  by (induction w arbitrary: acc) auto

lemma tokenize_join:
  "\<forall>t \<in> set ts. t \<noteq> [] \<and> d \<notin> set t \<Longrightarrow> tokenize d [] (join d ts) = ts"
  by (induction d ts rule: join.induct) (simp_all add: tokenize_word tokenize_end)

text \<open>Decimal printing, to state what \<open>atoi\<close> reads.\<close>

lemma atoi_digits_append:
  "list_all is_digit ds \<Longrightarrow> atoi_digits acc (ds @ cs) = atoi_digits (atoi_digits acc ds) cs"
  by (induction ds arbitrary: acc) auto

section \<open>The talkgroup rules\<close>

lemma find_index_Some: "find_index P xs = Some i \<Longrightarrow> i < length xs \<and> P (xs ! i) \<and> (\<forall>j < i. \<not> P (xs ! j))"
proof (induction xs arbitrary: i)
  case Nil
  then show ?case by simp
next
  case (Cons x xs)
  show ?case
  proof (cases "P x")
    case True
    then show ?thesis using Cons.prems by simp
  next
    case False
    then obtain k where k: "find_index P xs = Some k" "i = Suc k" using Cons.prems by auto
    then show ?thesis using Cons.IH [OF k(1)] False by (auto simp: less_Suc_eq_0_disj)
  qed
qed

lemma find_index_None: "find_index P xs = None \<longleftrightarrow> (\<forall>x \<in> set xs. \<not> P x)"
  by (induction xs) auto

lemma find_index_first:
  assumes "i < length xs" "P (xs ! i)" "\<And>j. j < i \<Longrightarrow> \<not> P (xs ! j)"
  shows "find_index P xs = Some i"
  using assms
proof (induction xs arbitrary: i)
  case Nil
  then show ?case by simp
next
  case (Cons x xs)
  show ?case
  proof (cases i)
    case 0
    then show ?thesis using Cons.prems by simp
  next
    case (Suc k)
    have "find_index P xs = Some k"
    proof (rule Cons.IH)
      show "k < length xs" "P (xs ! k)" using Suc Cons.prems by simp_all
      show "\<not> P (xs ! j)" if "j < k" for j using Cons.prems(3) [of "Suc j"] Suc that by simp
    qed
    moreover have "\<not> P x" using Cons.prems(3) [of 0] Suc by simp
    ultimately show ?thesis using Suc by simp
  qed
qed

lemma find_index_append_None: "find_index P xs = None \<Longrightarrow> find_index P (xs @ [y]) = (if P y then Some (length xs) else None)"
  by (induction xs) auto

lemma assign_simps [simp]:
  "m_source (rule_assign d r) = m_source r" "m_name (rule_assign d r) = m_name r"
  "m_active (m_config (rule_assign d r)) = m_active (m_config r)"
  "m_parrot (m_config (rule_assign d r)) = m_parrot (m_config r)"
  "m_inclusion (m_config (rule_assign d r)) = m_inclusion (m_config r)"
  "m_exclusion (m_config (rule_assign d r)) = m_exclusion (m_config r)"
  "m_rewrite (m_config (rule_assign d r)) = m_rewrite (m_config d)"
  by (simp_all add: rule_assign_def config_assign_def source_assign_def)

text \<open>
  Adding an entry decides the next lookup of the same talkgroup and slot.
\<close>

theorem tg_find_after_add:
  "(let r = tg_find tgid slot (tg_addEntry tgid slot enabled rules) in
    m_tgId (m_source r) = tgid \<and> m_tgSlot (m_source r) = slot \<and> m_active (m_config r) = enabled)"
proof (cases "find_index (tg_matches tgid slot) rules")
  case None
  then have "find_index (tg_matches tgid slot) (tg_addEntry tgid slot enabled rules) = Some (length rules)"
    by (simp add: tg_addEntry_def find_index_append_None tg_matches_def source_assign_def new_tg_source_def)
  then show ?thesis
    using None by (simp add: tg_find_def tg_addEntry_def Let_def source_assign_def new_tg_source_def config_assign_def)
next
  case (Some i)
  note i = find_index_Some [OF Some]
  let ?rules = "tg_addEntry tgid slot enabled rules"
  have r: "length ?rules = length rules" "\<And>j. j < i \<Longrightarrow> ?rules ! j = rules ! j"
    "m_source (?rules ! i) = \<lparr>m_tgId = tgid, m_tgSlot = slot\<rparr>" "m_active (m_config (?rules ! i)) = enabled"
    using Some i by (simp_all add: tg_addEntry_def Let_def source_assign_def config_assign_def)
  have "find_index (tg_matches tgid slot) ?rules = Some i"
  proof (rule find_index_first)
    show "i < length ?rules" using i r by simp
    show "tg_matches tgid slot (?rules ! i)" unfolding tg_matches_def r(3) by simp
    show "\<not> tg_matches tgid slot (?rules ! j)" if "j < i" for j using i r(2) that by simp
  qed
  then show ?thesis using r by (simp add: tg_find_def Let_def)
qed

text \<open>
  A talkgroup rule's rewrites never reach the table: the constructor that reads them is
  followed by an assignment that leaves them out, so after a successful load every
  lookup by rewrite answers with the invalid rule.
\<close>

theorem loaded_rewrites_lost:
  assumes "tg_load f (Some ns) \<lparr>m_groupVoice = old, m_locked = False\<rparr> = Some (True, s)"
  shows "m_groupVoice s = map rule_of_node ns \<and>
         (\<forall>r \<in> set (m_groupVoice s). m_rewrite (m_config r) = []) \<and>
         (\<exists>r. tg_findByRewrite peerId tgid slot (m_groupVoice s) = Some r \<and> isInvalid r)"
proof -
  have e: "m_rewrite (m_config (rule_of_node n)) = []" for n
    by (simp add: rule_of_node_def config_assign_def new_tg_rule_def new_tg_config_def Let_def)
  have "m_groupVoice s = map rule_of_node ns"
    using assms by (auto simp: tg_load_def tg_clear_def locked_section_def Let_def split: if_splits)
  then show ?thesis
    using e by (auto simp: tg_findByRewrite_def list_all_iff isInvalid_def new_tg_rule_def new_tg_source_def)
qed

theorem loaded_rewrites_lost_witness:
  "(let n = new_tg_rule\<lparr>m_source := \<lparr>m_tgId = 9, m_tgSlot = 1\<rparr>,
              m_config := new_tg_config\<lparr>m_rewrite := [\<lparr>rw_peerId = 1, rw_tgId = 5, rw_tgSlot = 1\<rparr>]\<rparr>\<rparr> in
    \<exists>r. tg_findByRewrite 1 5 1 [rule_of_node n] = Some r \<and> isInvalid r)"
proof -
  let ?n = "new_tg_rule\<lparr>m_source := \<lparr>m_tgId = 9, m_tgSlot = 1\<rparr>,
              m_config := new_tg_config\<lparr>m_rewrite := [\<lparr>rw_peerId = 1, rw_tgId = 5, rw_tgSlot = 1\<rparr>]\<rparr>\<rparr>"
  have "tg_load ''r'' (Some [?n]) \<lparr>m_groupVoice = [], m_locked = False\<rparr> =
        Some (True, \<lparr>m_groupVoice = [rule_of_node ?n], m_locked = False\<rparr>)"
    by (simp add: tg_load_def tg_clear_def locked_section_def)
  from loaded_rewrites_lost [OF this] show ?thesis by (simp add: Let_def)
qed

text \<open>
  Loading a file without talkgroup rules returns with the mutex locked: the next lookup, and
  the next reload, wait forever.
\<close>

theorem empty_rules_deadlock:
  assumes "f \<noteq> []" "\<not> m_locked s"
  shows "\<exists>s'. tg_load f (Some []) s = Some (False, s') \<and> tg_lookup_find tgid slot s' = None \<and>
              tg_load f (Some ns) s' = None"
  using assms by (simp add: tg_load_def tg_clear_def tg_lookup_find_def locked_section_def)

theorem empty_rules_deadlock_witness:
  "\<exists>s'. tg_load ''r'' (Some []) \<lparr>m_groupVoice = [], m_locked = False\<rparr> = Some (False, s') \<and>
        tg_lookup_find 1 1 s' = None"
  using empty_rules_deadlock [of "''r''" "\<lparr>m_groupVoice = [], m_locked = False\<rparr>" 1 1 "[]"] by auto

text \<open>
  DMR's check looks the talkgroup up without the slot and then compares the slot of the
  first rule found: a talkgroup active on both slots is accepted on the slot of its first
  rule only.
\<close>

theorem dmr_validate_first_rule_only:
  assumes "rules = r1 # rest" "m_tgId (m_source r1) = tgid" "m_tgSlot (m_source r1) = 1"
    and "tg_find tgid 2 rules = r2" "m_active (m_config r2)" "m_tgSlot (m_source r2) = 2"
    and "tgid \<noteq> 0"
  shows "m_active (m_config (tg_find tgid 2 rules)) \<and> \<not> dmr_validateTGId True rules 2 tgid"
proof -
  have "find_index (tg_matches tgid 0) rules = Some 0" using assms(1,2) by (simp add: tg_matches_def)
  then have "m_source (tg_find tgid 0 rules) = m_source r1" using assms(1) by (simp add: tg_find_def)
  then show ?thesis
    using assms(3-7) by (simp add: dmr_validateTGId_def Let_def)
qed

theorem dmr_validate_first_rule_only_witness:
  "(let mk = (\<lambda>k. new_tg_rule\<lparr>m_source := \<lparr>m_tgId = 9, m_tgSlot = k\<rparr>,
                                m_config := new_tg_config\<lparr>m_active := True\<rparr>\<rparr>)
    in \<not> dmr_validateTGId True [mk 1, mk 2] 2 9)"
proof -
  let ?mk = "\<lambda>k. new_tg_rule\<lparr>m_source := \<lparr>m_tgId = 9, m_tgSlot = k\<rparr>,
                                m_config := new_tg_config\<lparr>m_active := True\<rparr>\<rparr>"
  have f: "tg_find 9 2 [?mk 1, ?mk 2] = rule_assign new_tg_rule (?mk 2)"
    by (simp add: tg_find_def tg_matches_def)
  show ?thesis
    using dmr_validate_first_rule_only [OF refl _ _ f] by (simp add: Let_def)
qed

end
