(* ===== verification/RTP.thy ===== *)
theory RTP
  imports CRC
begin

text \<open>
  The wire format of the network: the RTP header, its extension and the FNE header of
  \<^verbatim>\<open>src/src/common/network/RTPHeader.cpp\<close>, \<^verbatim>\<open>RTPExtensionHeader.cpp\<close> and
  \<^verbatim>\<open>RTPFNEHeader.cpp\<close>, and the datagrams of \<^verbatim>\<open>FrameQueue.cpp\<close> and \<^verbatim>\<open>RawFrameQueue.cpp\<close>.
  The socket is an argument: \<open>read\<close> takes the datagram it delivered, and the queue of
  datagrams to send is a list.  The clock of \<open>RTPHeader::encode\<close> is an argument.
\<close>

section \<open>Constants\<close>

definition RTP_HEADER_LENGTH_BYTES :: nat where "RTP_HEADER_LENGTH_BYTES = 12"
definition RTP_EXTENSION_HEADER_LENGTH_BYTES :: nat where "RTP_EXTENSION_HEADER_LENGTH_BYTES = 4"
definition RTP_FNE_HEADER_LENGTH_BYTES :: nat where "RTP_FNE_HEADER_LENGTH_BYTES = 16"
definition RTP_FNE_HEADER_LENGTH_EXT_LEN :: u16 where "RTP_FNE_HEADER_LENGTH_EXT_LEN = 4"
definition DVM_FRAME_START :: u16 where "DVM_FRAME_START = 0xFE"
definition RTP_END_OF_CALL_SEQ :: u16 where "RTP_END_OF_CALL_SEQ = 65535"
definition RTP_GENERIC_CLOCK_RATE :: u64 where "RTP_GENERIC_CLOCK_RATE = 8000"
definition INVALID_TS :: u32 where "INVALID_TS = 0xFFFFFFFF"
definition DVM_RTP_PAYLOAD_TYPE :: u8 where "DVM_RTP_PAYLOAD_TYPE = 0x56"
definition DVM_CTRL_RTP_PAYLOAD_TYPE :: u8 where "DVM_CTRL_RTP_PAYLOAD_TYPE = 0x57"
definition DATA_PACKET_LENGTH :: nat where "DATA_PACKET_LENGTH = 8192"
definition NET_FUNC_GRANT_REQ :: u8 where "NET_FUNC_GRANT_REQ = 0x7A"
definition NET_FUNC_TRANSFER :: u8 where "NET_FUNC_TRANSFER = 0x90"

lemmas wire_consts =
  RTP_HEADER_LENGTH_BYTES_def RTP_EXTENSION_HEADER_LENGTH_BYTES_def RTP_FNE_HEADER_LENGTH_BYTES_def
  RTP_FNE_HEADER_LENGTH_EXT_LEN_def DVM_FRAME_START_def DATA_PACKET_LENGTH_def

section \<open>The RTP header\<close>

record rtp_hdr =
  m_version :: u8
  m_padding :: bool
  m_extension :: bool
  m_cc :: u8
  m_marker :: bool
  m_payloadType :: u8
  m_seq :: u16
  m_timestamp :: u32
  m_ssrc :: u32

definition new_rtp_hdr :: rtp_hdr where
  "new_rtp_hdr = \<lparr>m_version = 2, m_padding = False, m_extension = False, m_cc = 0, m_marker = False,
     m_payloadType = 0, m_seq = 0, m_timestamp = INVALID_TS, m_ssrc = 0\<rparr>"

text \<open>A 16-bit field, as \<open>(data[i] << 8) | (data[i + 1] << 0)\<close>.\<close>

definition be16 :: "bytes \<Rightarrow> nat \<Rightarrow> u16" where
  "be16 data i = push_bit 8 (ucast (data ! i)) OR push_bit 0 (ucast (data ! (i + 1)))"

definition rtp_decode :: "bytes \<Rightarrow> rtp_hdr option" where
  "rtp_decode data =
     (if (drop_bit 6 (data ! 0)) AND 0x03 \<noteq> 0x02 then None
      else Some \<lparr>m_version = (drop_bit 6 (data ! 0)) AND 0x03,
                 m_padding = (data ! 0 AND 0x20 = 0x20),
                 m_extension = (data ! 0 AND 0x10 = 0x10),
                 m_cc = data ! 0 AND 0x0F,
                 m_marker = (data ! 1 AND 0x80 = 0x80),
                 m_payloadType = data ! 1 AND 0x7F,
                 m_seq = be16 data 2,
                 m_timestamp = GET_UINT32 data 4,
                 m_ssrc = GET_UINT32 data 8\<rparr>)"

text \<open>
  \<open>encode\<close> also fills in the timestamp when there is none: \<open>sinceStart\<close> is the
  \<open>hrc::diffNow\<close> reading.  It returns the header and the buffer.
\<close>

definition rtp_encode :: "u64 \<Rightarrow> rtp_hdr \<Rightarrow> bytes \<Rightarrow> rtp_hdr \<times> bytes" where
  "rtp_encode sinceStart h data =
     (let ts = (if m_timestamp h = INVALID_TS
                then ucast (sinceStart * RTP_GENERIC_CLOCK_RATE div 1000000) else m_timestamp h);
          data = data[0 := push_bit 6 (m_version h) + (if m_padding h then 0x20 else 0) +
                            (if m_extension h then 0x10 else 0) + (m_cc h AND 0x0F),
                      1 := (if m_marker h then 0x80 else 0) + (m_payloadType h AND 0x7F),
                      2 := ucast (drop_bit 8 (m_seq h) AND 0xFF),
                      3 := ucast (drop_bit 0 (m_seq h) AND 0xFF)]
      in (h\<lparr>m_timestamp := ts\<rparr>, SET_UINT32 (m_ssrc h) (SET_UINT32 ts data 4) 8))"

section \<open>The extension and FNE headers\<close>

record fne_hdr =
  m_extType :: u16
  m_extLength :: u16
  m_crc16 :: u16
  m_func :: u8
  m_subFunc :: u8
  m_streamId :: u32
  m_hdrPeerId :: u32
  m_messageLength :: u32

definition new_fne_hdr :: fne_hdr where
  "new_fne_hdr = \<lparr>m_extType = 0, m_extLength = 0, m_crc16 = 0, m_func = 0, m_subFunc = 0,
     m_streamId = 0, m_hdrPeerId = 0, m_messageLength = 0\<rparr>"

definition ext_decode :: "bytes \<Rightarrow> fne_hdr \<Rightarrow> fne_hdr" where
  "ext_decode data h = h\<lparr>m_extType := be16 data 0, m_extLength := be16 data 2\<rparr>"

definition ext_encode :: "fne_hdr \<Rightarrow> bytes \<Rightarrow> bytes" where
  "ext_encode h data =
     data[0 := ucast (drop_bit 8 (m_extType h) AND 0xFF), 1 := ucast (drop_bit 0 (m_extType h) AND 0xFF),
          2 := ucast (drop_bit 8 (m_extLength h) AND 0xFF), 3 := ucast (drop_bit 0 (m_extLength h) AND 0xFF)]"

definition fne_decode :: "bytes \<Rightarrow> fne_hdr option" where
  "fne_decode data =
     (let h = ext_decode data new_fne_hdr in
      if m_extLength h \<noteq> RTP_FNE_HEADER_LENGTH_EXT_LEN then None
      else if m_extType h \<noteq> DVM_FRAME_START then None
      else Some (h\<lparr>m_crc16 := be16 data 4, m_func := data ! 6, m_subFunc := data ! 7,
                   m_streamId := GET_UINT32 data 8, m_hdrPeerId := GET_UINT32 data 12,
                   m_messageLength := GET_UINT32 data 16\<rparr>))"

definition fne_encode :: "fne_hdr \<Rightarrow> bytes \<Rightarrow> bytes" where
  "fne_encode h data =
     (let h = h\<lparr>m_extType := DVM_FRAME_START, m_extLength := RTP_FNE_HEADER_LENGTH_EXT_LEN\<rparr>;
          data = (ext_encode h data)
                   [4 := ucast (drop_bit 8 (m_crc16 h) AND 0xFF), 5 := ucast (drop_bit 0 (m_crc16 h) AND 0xFF),
                    6 := m_func h, 7 := m_subFunc h]
      in SET_UINT32 (m_messageLength h)
           (SET_UINT32 (m_hdrPeerId h) (SET_UINT32 (m_streamId h) data 8) 12) 16)"

section \<open>The frame queue\<close>

text \<open>
  What \<open>read\<close> makes of the datagram the socket returned.  \<open>Overread\<close> is the copy of
  more bytes than the receive buffer holds, which is undefined in C++ (a length beyond
  \<open>INT_MAX\<close>, negative as the code's \<open>int\<close>, makes the allocation throw instead); \<open>Rejected\<close> is
  \<open>nullptr\<close>.
\<close>

datatype read_result = Rejected | Overread | Received rtp_hdr fne_hdr bytes

definition read_frame :: "bytes \<Rightarrow> read_result" where
  "read_frame dgram =
     (let len = length dgram;
          buffer = memcpy_at (replicate DATA_PACKET_LENGTH 0) 0 dgram;
          off = RTP_HEADER_LENGTH_BYTES + RTP_EXTENSION_HEADER_LENGTH_BYTES + RTP_FNE_HEADER_LENGTH_BYTES
      in if len = 0 then Rejected
         else if len < RTP_HEADER_LENGTH_BYTES + RTP_EXTENSION_HEADER_LENGTH_BYTES then Rejected
         else case rtp_decode buffer of
           None \<Rightarrow> Rejected
         | Some rtp \<Rightarrow>
             if \<not> m_extension rtp then Rejected
             else if m_payloadType rtp \<noteq> DVM_RTP_PAYLOAD_TYPE \<and> m_payloadType rtp \<noteq> DVM_CTRL_RTP_PAYLOAD_TYPE
             then Rejected
             else case fne_decode (drop RTP_HEADER_LENGTH_BYTES buffer) of
               None \<Rightarrow> Rejected
             | Some fne \<Rightarrow>
                 let n = unat (m_messageLength fne) in
                 if off + n > DATA_PACKET_LENGTH then Overread
                 else let message = take n (drop off buffer) in
                   if createCRC16 message (n * 8) \<noteq> m_crc16 fne then Rejected
                   else Received rtp fne message)"

text \<open>
  A socket address is what \<open>UDPSocket::address\<close> and \<open>UDPSocket::port\<close> read from it.
\<close>

record sockaddr =
  sa_ip :: string
  sa_port :: u16

record udp_datagram =
  dg_buffer :: bytes
  dg_address :: sockaddr

record frame_queue =
  m_buffers :: "udp_datagram list"
  m_streamTimestamps :: "u32 \<rightharpoonup> u32"

definition clearTimestamps :: "frame_queue \<Rightarrow> frame_queue" where
  "clearTimestamps q = q\<lparr>m_streamTimestamps := Map.empty\<rparr>"

definition raw_enqueueMessage :: "bytes \<Rightarrow> sockaddr \<Rightarrow> frame_queue \<Rightarrow> frame_queue" where
  "raw_enqueueMessage message addr q =
     q\<lparr>m_buffers := m_buffers q @ [\<lparr>dg_buffer = message, dg_address = addr\<rparr>]\<rparr>"

text \<open>The datagram of a message with its two headers.\<close>

definition build_frame ::
  "u64 \<Rightarrow> bytes \<Rightarrow> u32 \<Rightarrow> u32 \<Rightarrow> u32 \<Rightarrow> u8 \<times> u8 \<Rightarrow> u16 \<Rightarrow> u32 \<Rightarrow> rtp_hdr \<times> bytes" where
  "build_frame sinceStart message streamId peerId ssrc opcode rtpSeq timestamp =
     (let off = RTP_HEADER_LENGTH_BYTES + RTP_EXTENSION_HEADER_LENGTH_BYTES + RTP_FNE_HEADER_LENGTH_BYTES;
          buffer = replicate (off + length message) 0;
          header = new_rtp_hdr\<lparr>m_extension := True, m_payloadType := DVM_RTP_PAYLOAD_TYPE,
                     m_timestamp := timestamp, m_seq := rtpSeq, m_ssrc := ssrc\<rparr>;
          header = (if fst opcode = NET_FUNC_TRANSFER \<or> fst opcode = NET_FUNC_GRANT_REQ
                    then header\<lparr>m_payloadType := DVM_CTRL_RTP_PAYLOAD_TYPE, m_seq := 0\<rparr> else header);
          (header, buffer) = rtp_encode sinceStart header buffer;
          fne = new_fne_hdr\<lparr>m_crc16 := createCRC16 message (length message * 8), m_streamId := streamId,
                  m_hdrPeerId := peerId, m_messageLength := of_nat (length message),
                  m_func := fst opcode, m_subFunc := snd opcode\<rparr>;
          buffer = memcpy_at buffer RTP_HEADER_LENGTH_BYTES
                     (fne_encode fne (drop RTP_HEADER_LENGTH_BYTES buffer))
      in (header, memcpy_at buffer off message))"

definition enqueueMessage ::
  "u64 \<Rightarrow> bytes \<Rightarrow> u32 \<Rightarrow> u32 \<Rightarrow> u32 \<Rightarrow> u8 \<times> u8 \<Rightarrow> u16 \<Rightarrow> sockaddr \<Rightarrow> frame_queue \<Rightarrow> frame_queue" where
  "enqueueMessage sinceStart message streamId peerId ssrc opcode rtpSeq addr q =
     (let prev = (if streamId \<noteq> 0 then case m_streamTimestamps q streamId of None \<Rightarrow> INVALID_TS | Some t \<Rightarrow> t
                  else INVALID_TS);
          known = (streamId \<noteq> 0 \<and> prev \<noteq> INVALID_TS);
          timestamp = (if known then prev + 8000 div 133 else prev);
          stamps = (if known then (m_streamTimestamps q)(streamId \<mapsto> timestamp) else m_streamTimestamps q);
          (header, buffer) = build_frame sinceStart message streamId peerId ssrc opcode rtpSeq timestamp;
          stamps = (if streamId \<noteq> 0 \<and> timestamp = INVALID_TS \<and> rtpSeq \<noteq> RTP_END_OF_CALL_SEQ
                    then stamps(streamId \<mapsto> m_timestamp header) else stamps);
          stamps = (if streamId \<noteq> 0 \<and> rtpSeq = RTP_END_OF_CALL_SEQ then stamps(streamId := None) else stamps)
      in q\<lparr>m_buffers := m_buffers q @ [\<lparr>dg_buffer = buffer, dg_address = addr\<rparr>],
           m_streamTimestamps := stamps\<rparr>)"

text \<open>\<open>flushQueue\<close>: the result of the socket write, what was handed to it, the emptied queue.\<close>

definition flushQueue :: "bool \<Rightarrow> frame_queue \<Rightarrow> bool \<times> udp_datagram list \<times> frame_queue" where
  "flushQueue written q =
     (if m_buffers q = [] then (False, [], q)
      else (written, m_buffers q, q\<lparr>m_buffers := []\<rparr>))"

section \<open>Round trips\<close>

lemma be16_cong: "b ! i = c ! i \<Longrightarrow> b ! (i + 1) = c ! (i + 1) \<Longrightarrow> be16 b i = be16 c i"
  by (simp add: be16_def)

lemma be16_bytes:
  "b ! i = ucast (drop_bit 8 v AND 0xFF) \<Longrightarrow> b ! (i + 1) = ucast (drop_bit 0 v AND 0xFF) \<Longrightarrow> be16 b i = v"
  by (simp add: be16_def and_FF_16 join16)

lemma GET_SET_UINT32_other [buf_simps]:
  "j + 4 \<le> i \<or> i + 4 \<le> j \<Longrightarrow> GET_UINT32 (SET_UINT32 v b i) j = GET_UINT32 b j"
  by (rule GET_UINT32_cong) (auto simp: SET_UINT32_nth)

lemma add_as_or: "x AND y = 0 \<Longrightarrow> x + y = (x OR y :: ('a :: len) word)"
  by (metis disjunctive_add_eq_or)

text \<open>The first byte of the header: the fields do not overlap, checked for every count.\<close>

lemma small_count:
  assumes "(c :: u8) < 16"
  shows "c \<in> set (map of_nat [0..<16])"
proof -
  have "c = of_nat (unat c)" "unat c < 16" using assms by (simp_all add: word_less_nat_alt)
  then show ?thesis by (metis atLeastLessThan_iff image_eqI le0 set_map set_upt)
qed

definition rtp_first_byte :: "bool \<Rightarrow> bool \<Rightarrow> u8 \<Rightarrow> u8" where
  "rtp_first_byte p e c = push_bit 6 2 + (if p then 0x20 else 0) + (if e then 0x10 else 0) + (c AND 0x0F)"

lemma rtp_byte0_all:
  "list_all (\<lambda>c. drop_bit 6 (rtp_first_byte p e c) AND 3 = 2 \<and>
       (rtp_first_byte p e c AND 0x20 = 0x20) = p \<and> (rtp_first_byte p e c AND 0x10 = 0x10) = e \<and>
       rtp_first_byte p e c AND 0x0F = c) (map of_nat [0..<16])"
proof -
  have v: "push_bit 6 2 = (0x80 :: u8)" by simp
  have l: "map of_nat [0..<16] = [0, 1, 2, 3, 4, 5, 6, 7, 8, 9, 10, 11, 12, 13, 14, 15 :: u8]"
    by (simp add: upt_conv_Cons flip: One_nat_def)
  show ?thesis unfolding rtp_first_byte_def v l by (cases p; cases e; simp)
qed

lemma rtp_byte0:
  assumes "c < 16"
  shows "drop_bit 6 (rtp_first_byte p e c) AND 3 = 2"
    "rtp_first_byte p e c AND 0x20 = 0x20 \<longleftrightarrow> p" "rtp_first_byte p e c AND 0x10 = 0x10 \<longleftrightarrow> e"
    "rtp_first_byte p e c AND 0x0F = c"
  using rtp_byte0_all [of p e] small_count [OF assms] unfolding list_all_iff by blast+

lemma and_7F: "(t :: u8) AND 0x7F = take_bit 7 t"
  by (simp add: take_bit_eq_mask mask_eq_exp_minus_1)

lemma rtp_byte1:
  fixes t :: u8
  assumes "t < 128"
  shows "((if m then 0x80 else 0) + (t AND 0x7F)) AND 0x80 = 0x80 \<longleftrightarrow> m"
    "((if m then 0x80 else 0) + (t AND 0x7F)) AND 0x7F = t"
proof -
  have "take_bit 7 (unat t) = unat t"
    using assms by (simp add: take_bit_nat_eq_self_iff word_less_nat_alt)
  then have t: "take_bit 7 t = t" by (simp add: word_unat_eq_iff unsigned_take_bit_eq)
  have b: "bit (0x80 :: u8) n = (n = 7)" for n using mask_bits(1) [of True n] by simp
  have n7: "\<not> bit t 7" by (subst t [symmetric]) (simp add: bit_take_bit_iff)
  have z: "(0x80 :: u8) AND t = 0" by (rule bit_word_eqI) (unfold bit_and_iff b, use n7 in auto)
  have e: "(if m then 0x80 else 0) + t = (if m then 0x80 OR t else t)" using z by (simp add: add_as_or)
  show "((if m then 0x80 else 0) + (t AND 0x7F)) AND 0x80 = 0x80 \<longleftrightarrow> m"
    unfolding and_7F t e mask_test using n7 b [of 7] by (simp add: bit_or_iff)
  show "((if m then 0x80 else 0) + (t AND 0x7F)) AND 0x7F = t"
    unfolding and_7F t e
  proof (rule bit_word_eqI)
    fix n
    assume n: "n < LENGTH(8)"
    have "bit t n \<longleftrightarrow> bit t n \<and> n < 7" using n7 n by (cases "n = 7") auto
    then show "bit (take_bit 7 (if m then 0x80 OR t else t)) n = bit t n"
      using b [of n] by (auto simp: bit_take_bit_iff bit_or_iff split: if_splits)
  qed
qed

lemma length_rtp_encode [simp]: "length (snd (rtp_encode t h data)) = length data"
  by (simp add: rtp_encode_def Let_def)

lemma rtp_encode_nth: "12 \<le> i \<Longrightarrow> snd (rtp_encode t h data) ! i = data ! i"
  by (simp add: rtp_encode_def Let_def SET_UINT32_nth)

lemma length_fne_encode [simp]: "length (fne_encode h data) = length data"
  by (simp add: fne_encode_def ext_encode_def Let_def)

lemma fne_encode_nth: "20 \<le> i \<Longrightarrow> fne_encode h data ! i = data ! i"
  by (simp add: fne_encode_def ext_encode_def Let_def SET_UINT32_nth)

text \<open>Decoding reads the first bytes only.\<close>

lemma rtp_decode_cong:
  assumes "\<And>i. i < 12 \<Longrightarrow> b ! i = c ! i"
  shows "rtp_decode b = rtp_decode c"
  using assms GET_UINT32_cong [of 4 b c] GET_UINT32_cong [of 8 b c]
  by (simp add: rtp_decode_def be16_def)

lemma fne_decode_cong:
  assumes "\<And>i. i < 20 \<Longrightarrow> b ! i = c ! i"
  shows "fne_decode b = fne_decode c"
  using assms GET_UINT32_cong [of 8 b c] GET_UINT32_cong [of 12 b c] GET_UINT32_cong [of 16 b c]
  by (simp add: fne_decode_def ext_decode_def be16_def Let_def)

definition rtp_ok :: "rtp_hdr \<Rightarrow> bool" where
  "rtp_ok h \<longleftrightarrow> m_version h = 2 \<and> m_cc h < 16 \<and> m_payloadType h < 128"

lemma rtp_decode_encode:
  assumes "rtp_ok h" "12 \<le> length data"
  shows "rtp_decode (snd (rtp_encode t h data)) = Some (fst (rtp_encode t h data))"
proof -
  have v: "m_version h = 2" "m_cc h < 16" "m_payloadType h < 128" using assms(1) by (simp_all add: rtp_ok_def)
  let ?d = "snd (rtp_encode t h data)"
  have ne: "data \<noteq> []" using assms(2) by auto
  have b0: "?d ! 0 = rtp_first_byte (m_padding h) (m_extension h) (m_cc h)"
    using assms(2) v ne by (simp add: rtp_encode_def rtp_first_byte_def Let_def SET_UINT32_nth)
  have b1: "?d ! 1 = (if m_marker h then 0x80 else 0) + (m_payloadType h AND 0x7F)"
    using assms(2) by (simp add: rtp_encode_def Let_def SET_UINT32_nth)
  have s: "be16 ?d 2 = m_seq h"
    by (rule be16_bytes) (use assms(2) in \<open>simp_all add: rtp_encode_def Let_def SET_UINT32_nth\<close>)
  have t: "GET_UINT32 ?d 4 = m_timestamp (fst (rtp_encode t h data))" "GET_UINT32 ?d 8 = m_ssrc h"
    using assms(2) by (simp_all add: rtp_encode_def Let_def buf_simps)
  show ?thesis
    unfolding rtp_decode_def b0 b1 s t rtp_byte0 [OF v(2)] rtp_byte1 [OF v(3)]
    using v by (simp add: rtp_encode_def Let_def)
qed

lemma fne_decode_encode:
  assumes "20 \<le> length data"
  shows "fne_decode (fne_encode h data) =
         Some (h\<lparr>m_extType := DVM_FRAME_START, m_extLength := RTP_FNE_HEADER_LENGTH_EXT_LEN\<rparr>)"
proof -
  let ?d = "fne_encode h data"
  have ne: "data \<noteq> []" using assms by auto
  have s: "be16 ?d 0 = DVM_FRAME_START" "be16 ?d 2 = RTP_FNE_HEADER_LENGTH_EXT_LEN" "be16 ?d 4 = m_crc16 h"
    by (rule be16_bytes; use assms ne in \<open>simp add: fne_encode_def ext_encode_def Let_def SET_UINT32_nth\<close>)+
  have b: "?d ! 6 = m_func h" "?d ! 7 = m_subFunc h"
    using assms by (simp_all add: fne_encode_def ext_encode_def Let_def SET_UINT32_nth)
  have g: "GET_UINT32 ?d 8 = m_streamId h" "GET_UINT32 ?d 12 = m_hdrPeerId h"
    "GET_UINT32 ?d 16 = m_messageLength h"
    using assms by (simp_all add: fne_encode_def ext_encode_def Let_def buf_simps)
  show ?thesis
    unfolding fne_decode_def ext_decode_def s b g Let_def by (simp add: s b g new_fne_hdr_def)
qed

text \<open>The header a message leaves with.\<close>

definition frame_rtp :: "u32 \<Rightarrow> u8 \<times> u8 \<Rightarrow> u16 \<Rightarrow> u32 \<Rightarrow> rtp_hdr" where
  "frame_rtp ssrc opcode rtpSeq timestamp =
     (let ctrl = fst opcode = NET_FUNC_TRANSFER \<or> fst opcode = NET_FUNC_GRANT_REQ
      in new_rtp_hdr\<lparr>m_extension := True, m_timestamp := timestamp, m_ssrc := ssrc,
           m_payloadType := (if ctrl then DVM_CTRL_RTP_PAYLOAD_TYPE else DVM_RTP_PAYLOAD_TYPE),
           m_seq := (if ctrl then 0 else rtpSeq)\<rparr>)"

definition frame_fne :: "bytes \<Rightarrow> u32 \<Rightarrow> u32 \<Rightarrow> u8 \<times> u8 \<Rightarrow> fne_hdr" where
  "frame_fne message streamId peerId opcode =
     \<lparr>m_extType = DVM_FRAME_START, m_extLength = RTP_FNE_HEADER_LENGTH_EXT_LEN,
      m_crc16 = createCRC16 message (length message * 8), m_func = fst opcode, m_subFunc = snd opcode,
      m_streamId = streamId, m_hdrPeerId = peerId, m_messageLength = of_nat (length message)\<rparr>"

lemma build_frame_layout:
  fixes t :: u64
  assumes "build_frame t message streamId peerId ssrc opcode rtpSeq timestamp = (header, buffer)"
  shows "length buffer = 32 + length message" "drop 32 buffer = message"
    "rtp_decode buffer = Some header" "fne_decode (drop 12 buffer) = Some (frame_fne message streamId peerId opcode)"
    "header = fst (rtp_encode t (frame_rtp ssrc opcode rtpSeq timestamp) (replicate (32 + length message) 0))"
proof -
  let ?h = "frame_rtp ssrc opcode rtpSeq timestamp"
  let ?b1 = "snd (rtp_encode t ?h (replicate (32 + length message) 0))"
  let ?f = "fne_encode (frame_fne message streamId peerId opcode) (drop 12 ?b1)"
  have fe: "fne_encode (new_fne_hdr\<lparr>m_crc16 := createCRC16 message (length message * 8), m_streamId := streamId,
                  m_hdrPeerId := peerId, m_messageLength := of_nat (length message),
                  m_func := fst opcode, m_subFunc := snd opcode\<rparr>) d =
        fne_encode (frame_fne message streamId peerId opcode) d" for d
    by (simp add: fne_encode_def ext_encode_def frame_fne_def new_fne_hdr_def Let_def)
  have hdr: "new_rtp_hdr\<lparr>m_extension := True, m_payloadType := DVM_RTP_PAYLOAD_TYPE,
                     m_timestamp := timestamp, m_seq := rtpSeq, m_ssrc := ssrc,
                     m_payloadType := DVM_CTRL_RTP_PAYLOAD_TYPE, m_seq := 0\<rparr> = ?h"
    if "fst opcode = NET_FUNC_TRANSFER \<or> fst opcode = NET_FUNC_GRANT_REQ"
    using that by (simp add: frame_rtp_def new_rtp_hdr_def Let_def)
  have hdr': "new_rtp_hdr\<lparr>m_extension := True, m_payloadType := DVM_RTP_PAYLOAD_TYPE,
                     m_timestamp := timestamp, m_seq := rtpSeq, m_ssrc := ssrc\<rparr> = ?h"
    if "\<not> (fst opcode = NET_FUNC_TRANSFER \<or> fst opcode = NET_FUNC_GRANT_REQ)"
    using that by (simp add: frame_rtp_def new_rtp_hdr_def Let_def)
  have bf: "header = fst (rtp_encode t ?h (replicate (32 + length message) 0))"
    "buffer = memcpy_at (memcpy_at ?b1 12 ?f) 32 message"
    using assms hdr hdr'
    by (auto simp: build_frame_def wire_consts fe Let_def split: prod.splits if_splits)
  show "header = fst (rtp_encode t ?h (replicate (32 + length message) 0))" by (rule bf(1))
  show len: "length buffer = 32 + length message" by (simp add: bf(2))
  show "drop 32 buffer = message" by (simp add: bf(2) memcpy_at_def)
  have ok: "rtp_ok ?h"
    by (simp add: rtp_ok_def frame_rtp_def new_rtp_hdr_def DVM_RTP_PAYLOAD_TYPE_def
        DVM_CTRL_RTP_PAYLOAD_TYPE_def Let_def)
  have "rtp_decode buffer = rtp_decode ?b1"
    by (rule rtp_decode_cong) (simp add: bf(2) memcpy_at_nth)
  then show "rtp_decode buffer = Some header"
    using rtp_decode_encode [OF ok, of "replicate (32 + length message) 0" t] bf(1) by simp
  have "fne_decode (drop 12 buffer) = fne_decode ?f"
    by (rule fne_decode_cong) (simp add: bf(2) memcpy_at_nth)
  also have "\<dots> = Some (frame_fne message streamId peerId opcode)"
    by (subst fne_decode_encode) (simp_all add: frame_fne_def)
  finally show "fne_decode (drop 12 buffer) = Some (frame_fne message streamId peerId opcode)" .
qed

section \<open>Sending and receiving\<close>

lemma frame_rtp_encode:
  "fst (rtp_encode t (frame_rtp ssrc opcode rtpSeq timestamp) d) =
     (frame_rtp ssrc opcode rtpSeq timestamp)
       \<lparr>m_timestamp := if timestamp = INVALID_TS then ucast (t * RTP_GENERIC_CLOCK_RATE div 1000000) else timestamp\<rparr>"
  by (simp add: rtp_encode_def frame_rtp_def Let_def)

text \<open>What \<open>read\<close> does once the two headers are known.\<close>

lemma read_frame_headers:
  assumes "length dgram \<le> DATA_PACKET_LENGTH" "32 \<le> length dgram"
    and "rtp_decode dgram = Some rtp" "m_extension rtp"
    and "m_payloadType rtp = DVM_RTP_PAYLOAD_TYPE \<or> m_payloadType rtp = DVM_CTRL_RTP_PAYLOAD_TYPE"
    and "fne_decode (drop 12 dgram) = Some fne"
  shows "read_frame dgram =
     (let n = unat (m_messageLength fne);
          message = take n (drop 32 dgram @ replicate (DATA_PACKET_LENGTH - length dgram) 0)
      in if 32 + n > DATA_PACKET_LENGTH then Overread
         else if createCRC16 message (n * 8) \<noteq> m_crc16 fne then Rejected
         else Received rtp fne message)"
proof -
  let ?b = "memcpy_at (replicate DATA_PACKET_LENGTH 0) 0 dgram"
  have b: "?b = dgram @ replicate (DATA_PACKET_LENGTH - length dgram) 0"
    by (simp add: memcpy_at_def)
  have r: "rtp_decode ?b = rtp_decode dgram"
    unfolding b using assms(2) by (intro rtp_decode_cong) (simp add: nth_append)
  have f: "fne_decode (drop 12 ?b) = fne_decode (drop 12 dgram)"
  proof (rule fne_decode_cong)
    fix i :: nat
    assume "i < 20"
    then have "i < length (drop 12 dgram)" using assms(2) by simp
    then show "drop 12 ?b ! i = drop 12 dgram ! i"
      unfolding b drop_append by (simp only: nth_append if_True)
  qed
  have d: "drop 32 ?b = drop 32 dgram @ replicate (DATA_PACKET_LENGTH - length dgram) 0"
    unfolding b using assms(2) by simp
  have c: "dgram \<noteq> []" "\<not> length dgram < 16" using assms(2) by auto
  show ?thesis
    unfolding read_frame_def Let_def RTP_HEADER_LENGTH_BYTES_def RTP_EXTENSION_HEADER_LENGTH_BYTES_def
      RTP_FNE_HEADER_LENGTH_BYTES_def
    using c r f d assms(3-6) by auto
qed

lemma frame_rtp_ok:
  "m_extension (frame_rtp ssrc opcode rtpSeq timestamp)"
  "m_payloadType (frame_rtp ssrc opcode rtpSeq timestamp) = DVM_RTP_PAYLOAD_TYPE \<or>
   m_payloadType (frame_rtp ssrc opcode rtpSeq timestamp) = DVM_CTRL_RTP_PAYLOAD_TYPE"
  by (simp_all add: frame_rtp_def Let_def)

lemma unat_len_u32: "n \<le> 8160 \<Longrightarrow> unat (of_nat n :: u32) = n"
  by (simp add: unat_of_nat take_bit_nat_eq_self)

text \<open>Reading any datagram with the headers of \<open>build_frame\<close>, whatever follows them.\<close>

lemma read_built:
  assumes bf: "build_frame t message streamId peerId ssrc opcode rtpSeq timestamp = (header, buffer)"
    and m: "length message \<le> 8160" and d: "length message' = length message"
  shows "read_frame (take 32 buffer @ message') =
     (if createCRC16 message' (length message * 8) = createCRC16 message (length message * 8)
      then Received header (frame_fne message streamId peerId opcode) message' else Rejected)"
proof -
  note l = build_frame_layout [OF bf]
  let ?g = "take 32 buffer @ message'"
  have h: "m_extension header"
    "m_payloadType header = DVM_RTP_PAYLOAD_TYPE \<or> m_payloadType header = DVM_CTRL_RTP_PAYLOAD_TYPE"
    unfolding l(5) frame_rtp_encode using frame_rtp_ok by simp_all
  have r: "rtp_decode ?g = Some header"
    unfolding l(3) [symmetric] by (rule rtp_decode_cong) (simp add: nth_append l(1))
  have f: "fne_decode (drop 12 ?g) = Some (frame_fne message streamId peerId opcode)"
    unfolding l(4) [symmetric] by (rule fne_decode_cong) (simp add: nth_append l(1))
  have n: "unat (m_messageLength (frame_fne message streamId peerId opcode)) = length message"
    "m_crc16 (frame_fne message streamId peerId opcode) = createCRC16 message (length message * 8)"
    using m by (simp_all add: frame_fne_def unat_len_u32)
  have k: "length ?g \<le> DATA_PACKET_LENGTH" "32 \<le> length ?g" "\<not> 32 + length message > DATA_PACKET_LENGTH"
    using m d l(1) by (simp_all add: DATA_PACKET_LENGTH_def)
  have p: "take (length message) (drop 32 ?g @ zs) = message'" for zs using d l(1) by simp
  show ?thesis
    unfolding read_frame_headers [OF k(1,2) r h f] Let_def n p using k(3) by simp
qed

lemma createCRC16_flip:
  assumes "i < 8 * length bs"
  shows "createCRC16 (WRITE_BIT bs i (READ_BIT bs i = 0)) (length bs * 8) \<noteq> createCRC16 bs (length bs * 8)"
proof -
  let ?c = "WRITE_BIT bs i (READ_BIT bs i = 0)"
  let ?f = "foldl (crcShift (2 ^ 15) 0x1021) (0xFFFF :: u16)"
  have b: "bits_of ?c = (bits_of bs)[i := \<not> bits_of bs ! i]"
    unfolding READ_BIT_bits_of [OF assms, symmetric] by (simp add: WRITE_BIT_bits_of [OF assms])
  have k: "bit_sum 16 (0x1021 :: u16) 0xFFFF (bits_of ?c) \<noteq> bit_sum 16 (0x1021 :: u16) 0xFFFF (bits_of bs)"
    unfolding b by (rule bit_sum_flip) (use assms in simp_all)
  have n: "length bs * 8 \<le> 8 * length ?c" "length bs * 8 \<le> 8 * length bs" by simp_all
  have "take_bit 16 (?f (bits_of ?c)) \<noteq> take_bit 16 (?f (bits_of bs))"
  proof
    assume e: "take_bit 16 (?f (bits_of ?c)) = take_bit 16 (?f (bits_of bs))"
    have "reg_bits 16 (take_bit 16 x) = reg_bits 16 x" for x :: u16
      by (auto simp: reg_bits_def bit_take_bit_iff)
    then have "reg_bits 16 (?f (bits_of ?c)) = reg_bits 16 (?f (bits_of bs))" using e by metis
    then show False using k by (simp add: bit_sum_def)
  qed
  then show ?thesis unfolding createCRC_bits(4) [OF n(1)] createCRC_bits(4) [OF n(2)] by (simp add: mult.commute)
qed

lemma enqueue_received:
  assumes "length message \<le> 8160"
  shows "\<exists>dgram header. m_buffers (enqueueMessage t message streamId peerId ssrc opcode rtpSeq addr q) =
            m_buffers q @ [\<lparr>dg_buffer = dgram, dg_address = addr\<rparr>] \<and>
          read_frame dgram = Received header (frame_fne message streamId peerId opcode) message \<and>
          m_ssrc header = ssrc \<and>
          m_seq header = (if fst opcode = NET_FUNC_TRANSFER \<or> fst opcode = NET_FUNC_GRANT_REQ then 0 else rtpSeq)"
proof -
  define prev where "prev = (if streamId \<noteq> 0 then case m_streamTimestamps q streamId of None \<Rightarrow> INVALID_TS | Some t \<Rightarrow> t
                  else INVALID_TS)"
  define ts where "ts = (if streamId \<noteq> 0 \<and> prev \<noteq> INVALID_TS then prev + 8000 div 133 else prev)"
  obtain header buffer where bf: "build_frame t message streamId peerId ssrc opcode rtpSeq ts = (header, buffer)"
    by (cases "build_frame t message streamId peerId ssrc opcode rtpSeq ts")
  have e: "m_buffers (enqueueMessage t message streamId peerId ssrc opcode rtpSeq addr q) =
            m_buffers q @ [\<lparr>dg_buffer = buffer, dg_address = addr\<rparr>]"
    using bf unfolding enqueueMessage_def Let_def prev_def [symmetric] ts_def [symmetric] by simp
  have "take 32 buffer @ message = buffer"
    using build_frame_layout(2) [OF bf] by (metis append_take_drop_id)
  then have r: "read_frame buffer = Received header (frame_fne message streamId peerId opcode) message"
    using read_built [OF bf assms refl] by simp
  have "m_ssrc header = ssrc"
    "m_seq header = (if fst opcode = NET_FUNC_TRANSFER \<or> fst opcode = NET_FUNC_GRANT_REQ then 0 else rtpSeq)"
    unfolding build_frame_layout(5) [OF bf] frame_rtp_encode by (simp_all add: frame_rtp_def Let_def)
  then show ?thesis using e r by blast
qed

text \<open>
  C15. A message sent is the message received: the datagram that \<open>enqueueMessage\<close> queues is one
  \<open>read\<close> accepts, with the peer, stream and opcode it was sent with and the sequence number
  (0 for the two control opcodes), for messages up to the 8160 bytes a datagram holds.
\<close>

theorem datagram_roundtrip:
  assumes "length message \<le> 8160"
  shows "\<exists>dgram header. m_buffers (enqueueMessage t message streamId peerId ssrc opcode rtpSeq addr q) =
            m_buffers q @ [\<lparr>dg_buffer = dgram, dg_address = addr\<rparr>] \<and>
          read_frame dgram = Received header (frame_fne message streamId peerId opcode) message \<and>
          m_ssrc header = ssrc \<and>
          m_seq header = (if fst opcode = NET_FUNC_TRANSFER \<or> fst opcode = NET_FUNC_GRANT_REQ then 0 else rtpSeq)"
  by (rule enqueue_received [OF assms])

theorem datagram_roundtrip_witness:
  "\<exists>dgram header. m_buffers (enqueueMessage 7 [1, 2, 3] 5 9 9 (0x7A, 0) 4 \<lparr>sa_ip = ''::1'', sa_port = 1\<rparr>
        \<lparr>m_buffers = [], m_streamTimestamps = Map.empty\<rparr>) = [\<lparr>dg_buffer = dgram, dg_address = \<lparr>sa_ip = ''::1'', sa_port = 1\<rparr>\<rparr>] \<and>
      read_frame dgram = Received header (frame_fne [1, 2, 3] 5 9 (0x7A, 0)) [1, 2, 3] \<and> m_seq header = 0"
  using datagram_roundtrip [of "[1, 2, 3]" 7 5 9 9 "(0x7A, 0)" 4 "\<lparr>sa_ip = ''::1'', sa_port = 1\<rparr>" "\<lparr>m_buffers = [], m_streamTimestamps = Map.empty\<rparr>"]
  by (auto simp: NET_FUNC_TRANSFER_def NET_FUNC_GRANT_REQ_def)

text \<open>
  A datagram whose message part differs from the sent one in a single bit is rejected by the
  checksum of the FNE header.
\<close>

theorem corrupted_message_rejected:
  assumes "build_frame t message streamId peerId ssrc opcode rtpSeq timestamp = (header, buffer)"
    and "length message \<le> 8160" "i < 8 * length message"
  shows "read_frame (take 32 buffer @ WRITE_BIT message i (READ_BIT message i = 0)) = Rejected"
  using read_built [OF assms(1,2)] createCRC16_flip [OF assms(3)] by simp

theorem corrupted_message_rejected_witness:
  "read_frame (take 32 (snd (build_frame 7 [1, 2, 3] 5 9 9 (0x7A, 0) 4 INVALID_TS)) @ [1, 2, 2]) = Rejected"
  using corrupted_message_rejected [OF surjective_pairing, of "[1, 2, 3]" 23 7 5 9 9 "(0x7A, 0)" 4 INVALID_TS]
  by (simp add: WRITE_BIT_def READ_BIT_def BIT_MASK_TABLE_def)

text \<open>
  The length in the FNE header is not compared with the length of the datagram: a bare
  pair of headers that announces \<open>n\<close> bytes is answered with a copy beyond the receive buffer
  when \<open>n\<close> exceeds 8160, and with \<open>n\<close> zero bytes that were never sent when the checksum
  field is right for them.
\<close>

theorem announced_length_trusted:
  assumes "m_extension h" "m_payloadType h = DVM_RTP_PAYLOAD_TYPE" "rtp_ok h"
    and n: "n = unat (m_messageLength f)"
    and d: "dgram = snd (rtp_encode t h (replicate 12 0)) @ fne_encode f (replicate 20 0)"
  shows "length dgram = 32 \<and> (8160 < n \<longrightarrow> read_frame dgram = Overread) \<and>
         (n \<le> 8160 \<and> m_crc16 f = createCRC16 (replicate n 0) (n * 8) \<longrightarrow>
            (\<exists>rtp fne. read_frame dgram = Received rtp fne (replicate n 0)))"
proof -
  have l: "length dgram = 32" by (simp add: d)
  have r: "rtp_decode dgram = Some (fst (rtp_encode t h (replicate 12 0)))"
    unfolding rtp_decode_encode [OF assms(3), of "replicate 12 0" t, simplified, symmetric] d
    by (rule rtp_decode_cong) (simp add: nth_append)
  have f: "fne_decode (drop 12 dgram) =
      Some (f\<lparr>m_extType := DVM_FRAME_START, m_extLength := RTP_FNE_HEADER_LENGTH_EXT_LEN\<rparr>)"
    by (simp add: d fne_decode_encode)
  have h: "m_extension (fst (rtp_encode t h (replicate 12 0)))"
    "m_payloadType (fst (rtp_encode t h (replicate 12 0))) = DVM_RTP_PAYLOAD_TYPE \<or>
     m_payloadType (fst (rtp_encode t h (replicate 12 0))) = DVM_CTRL_RTP_PAYLOAD_TYPE"
    using assms(1,2) by (simp_all add: rtp_encode_def Let_def)
  have k: "length dgram \<le> DATA_PACKET_LENGTH" "32 \<le> length dgram" by (simp_all add: l DATA_PACKET_LENGTH_def)
  show ?thesis
    unfolding read_frame_headers [OF k r h f] using n
    by (simp add: l Let_def DATA_PACKET_LENGTH_def min_absorb1)
qed

theorem announced_length_trusted_witness:
  "read_frame (snd (rtp_encode 0 (new_rtp_hdr\<lparr>m_extension := True, m_payloadType := DVM_RTP_PAYLOAD_TYPE\<rparr>)
      (replicate 12 0)) @ fne_encode (new_fne_hdr\<lparr>m_messageLength := 100000\<rparr>) (replicate 20 0)) = Overread"
  using announced_length_trusted [of "new_rtp_hdr\<lparr>m_extension := True, m_payloadType := DVM_RTP_PAYLOAD_TYPE\<rparr>"
      100000 "new_fne_hdr\<lparr>m_messageLength := 100000\<rparr>", OF _ _ _ _ refl]
  by (simp add: rtp_ok_def new_rtp_hdr_def DVM_RTP_PAYLOAD_TYPE_def)

section \<open>Timestamps\<close>

definition sent_timestamp :: "udp_datagram \<Rightarrow> u32 option" where
  "sent_timestamp d = map_option m_timestamp (rtp_decode (dg_buffer d))"

lemma enqueue_known:
  assumes "streamId \<noteq> 0" "m_streamTimestamps q streamId = Some ts" "ts \<noteq> INVALID_TS" "ts + 60 \<noteq> INVALID_TS"
    and q'_def: "q' = enqueueMessage t message streamId peerId ssrc opcode rtpSeq addr q"
  shows "m_streamTimestamps q' streamId = (if rtpSeq = RTP_END_OF_CALL_SEQ then None else Some (ts + 60))"
    "\<exists>d. m_buffers q' = m_buffers q @ [d] \<and> sent_timestamp d = Some (ts + 60)"
proof -
  obtain header buffer where bf: "build_frame t message streamId peerId ssrc opcode rtpSeq (ts + 60) = (header, buffer)"
    by (cases "build_frame t message streamId peerId ssrc opcode rtpSeq (ts + 60)")
  have "rtp_decode buffer = Some header" "m_timestamp header = ts + 60"
    using build_frame_layout(3,5) [OF bf] assms(4) by (simp_all add: frame_rtp_encode)
  then show "m_streamTimestamps q' streamId = (if rtpSeq = RTP_END_OF_CALL_SEQ then None else Some (ts + 60))"
    "\<exists>d. m_buffers q' = m_buffers q @ [d] \<and> sent_timestamp d = Some (ts + 60)"
    using bf assms(1-4) by (auto simp: q'_def enqueueMessage_def sent_timestamp_def Let_def)
qed

text \<open>
  Within a call the RTP timestamp advances by 60 (8000 over 133) for each message, from
  the one the stream started with, as long as it does not reach the reserved value.
\<close>

theorem call_timestamps_advance:
  assumes "streamId \<noteq> 0" "m_streamTimestamps q streamId = Some ts" "m_buffers q = []"
    and "\<forall>k \<le> length msgs. ts + 60 * of_nat k \<noteq> INVALID_TS"
    and "\<forall>m \<in> set msgs. snd m \<noteq> RTP_END_OF_CALL_SEQ"
  shows "map sent_timestamp (m_buffers (foldl (\<lambda>q (message, rtpSeq).
            enqueueMessage t message streamId peerId ssrc opcode rtpSeq addr q) q msgs)) =
         map (\<lambda>k. Some (ts + 60 * of_nat (Suc k))) [0..<length msgs]"
proof -
  let ?step = "\<lambda>q (message, rtpSeq). enqueueMessage t message streamId peerId ssrc opcode rtpSeq addr q"
  have "m_streamTimestamps (foldl ?step q msgs) streamId = Some (ts + 60 * of_nat (length msgs)) \<and>
      map sent_timestamp (m_buffers (foldl ?step q msgs)) =
      map (\<lambda>k. Some (ts + 60 * of_nat (Suc k))) [0..<length msgs]"
    using assms(4,5)
  proof (induction msgs rule: rev_induct)
    case Nil
    then show ?case using assms(2,3) by simp
  next
    case (snoc m msgs)
    obtain message rtpSeq where m: "m = (message, rtpSeq)" by (cases m)
    have a: "ts + 60 * of_nat (length msgs) \<noteq> INVALID_TS" using snoc.prems(1) by simp
    have "ts + 60 * of_nat (Suc (length msgs)) \<noteq> INVALID_TS" using snoc.prems(1) by (metis le_refl length_append_singleton)
    then have b: "ts + 60 * of_nat (length msgs) + 60 \<noteq> INVALID_TS" by (simp add: algebra_simps)
    have ih: "m_streamTimestamps (foldl ?step q msgs) streamId = Some (ts + 60 * of_nat (length msgs))"
      "map sent_timestamp (m_buffers (foldl ?step q msgs)) =
       map (\<lambda>k. Some (ts + 60 * of_nat (Suc k))) [0..<length msgs]"
      using snoc.IH snoc.prems by simp_all
    have s: "rtpSeq \<noteq> RTP_END_OF_CALL_SEQ" using snoc.prems(2) m by simp
    show ?case
      using enqueue_known [OF assms(1) ih(1) a b refl, of t message peerId ssrc opcode rtpSeq addr] ih(2) s
      by (auto simp: m algebra_simps)
  qed
  then show ?thesis by simp
qed

theorem call_timestamps_advance_witness:
  "map sent_timestamp (m_buffers (foldl (\<lambda>q (message, rtpSeq). enqueueMessage 0 message 5 9 9 (1, 0) rtpSeq \<lparr>sa_ip = ''::1'', sa_port = 1\<rparr> q)
      \<lparr>m_buffers = [], m_streamTimestamps = [5 \<mapsto> 100]\<rparr> [([1], 0), ([2], 1)])) = [Some 160, Some 220]"
proof -
  have "(100 :: u32) + 60 * of_nat k \<noteq> INVALID_TS" if "k \<le> 2" for k
  proof -
    have "k = 0 \<or> k = 1 \<or> k = 2" using that by linarith
    then show ?thesis by (auto simp: INVALID_TS_def)
  qed
  then show ?thesis
    using call_timestamps_advance [of 5 "\<lparr>m_buffers = [], m_streamTimestamps = [5 \<mapsto> 100]\<rparr>" 100
        "[([1], 0), ([2], 1)]" 0 9 9 "(1, 0)" "\<lparr>sa_ip = ''::1'', sa_port = 1\<rparr>"]
    by (simp add: RTP_END_OF_CALL_SEQ_def upt_conv_Cons)
qed

end
