(* ===== verification/SHA256.thy ===== *)
theory SHA256
  imports ByteUtils
begin

text \<open>
  The SHA-256 hash of \<^verbatim>\<open>src/src/common/edac/SHA256.cpp\<close>, with which the network
  authenticates its peers.  The code keeps a 128-byte buffer between calls, rotates the names
  of eight working variables through sixty-four unrolled rounds, and keeps the message
  schedule in sixteen words that it overwrites.  The theorems relate it to the standard's
  textbook description: a padded message, a schedule of sixty-four words, and eight
  registers that shift.  The host is little-endian (\<open>WORDS_BIGENDIAN\<close> is not defined);
  a length is a natural number below \<open>2 ^ 32\<close>.
\<close>

section \<open>Macros and constants\<close>

text \<open>A \<open>uint32_t\<close> in memory, and the byte swap.\<close>

definition le32_load :: "bytes \<Rightarrow> nat \<Rightarrow> u32" where
  "le32_load b i = ucast (b ! i) OR push_bit 8 (ucast (b ! (i + 1))) OR
     push_bit 16 (ucast (b ! (i + 2))) OR push_bit 24 (ucast (b ! (i + 3)))"

definition set_uint32 :: "u32 \<Rightarrow> bytes" where
  "set_uint32 v = [ucast v, ucast (drop_bit 8 v), ucast (drop_bit 16 v), ucast (drop_bit 24 v)]"

definition SWAP :: "u32 \<Rightarrow> u32" where
  "SWAP n = push_bit 24 n OR push_bit 8 (n AND 0xff00) OR (drop_bit 8 n AND 0xff00) OR drop_bit 24 n"

definition rol :: "u32 \<Rightarrow> nat \<Rightarrow> u32" where
  "rol x n = push_bit n x OR drop_bit (32 - n) x"

definition F2 :: "u32 \<Rightarrow> u32 \<Rightarrow> u32 \<Rightarrow> u32" where "F2 A B C = (A AND B) OR (C AND (A OR B))"
definition F1 :: "u32 \<Rightarrow> u32 \<Rightarrow> u32 \<Rightarrow> u32" where "F1 E F G = G XOR (E AND (F XOR G))"
definition S0 :: "u32 \<Rightarrow> u32" where "S0 x = rol x 25 XOR rol x 14 XOR drop_bit 3 x"
definition S1 :: "u32 \<Rightarrow> u32" where "S1 x = rol x 15 XOR rol x 13 XOR drop_bit 10 x"
definition SS0 :: "u32 \<Rightarrow> u32" where "SS0 x = rol x 30 XOR rol x 19 XOR rol x 10"
definition SS1 :: "u32 \<Rightarrow> u32" where "SS1 x = rol x 26 XOR rol x 21 XOR rol x 7"

definition roundConstants :: "u32 list" where
  "roundConstants = concat
    [[0x428a2f98, 0x71374491, 0xb5c0fbcf, 0xe9b5dba5],
     [0x3956c25b, 0x59f111f1, 0x923f82a4, 0xab1c5ed5],
     [0xd807aa98, 0x12835b01, 0x243185be, 0x550c7dc3],
     [0x72be5d74, 0x80deb1fe, 0x9bdc06a7, 0xc19bf174],
     [0xe49b69c1, 0xefbe4786, 0x0fc19dc6, 0x240ca1cc],
     [0x2de92c6f, 0x4a7484aa, 0x5cb0a9dc, 0x76f988da],
     [0x983e5152, 0xa831c66d, 0xb00327c8, 0xbf597fc7],
     [0xc6e00bf3, 0xd5a79147, 0x06ca6351, 0x14292967],
     [0x27b70a85, 0x2e1b2138, 0x4d2c6dfc, 0x53380d13],
     [0x650a7354, 0x766a0abb, 0x81c2c92e, 0x92722c85],
     [0xa2bfe8a1, 0xa81a664b, 0xc24b8b70, 0xc76c51a3],
     [0xd192e819, 0xd6990624, 0xf40e3585, 0x106aa070],
     [0x19a4c116, 0x1e376c08, 0x2748774c, 0x34b0bcb5],
     [0x391c0cb3, 0x4ed8aa4a, 0x5b9cca4f, 0x682e6ff3],
     [0x748f82ee, 0x78a5636f, 0x84c87814, 0x8cc70208],
     [0x90befffa, 0xa4506ceb, 0xbef9a3f7, 0xc67178f2]]"

definition fillbuf :: bytes where "fillbuf = 0x80 # replicate 63 0"

section \<open>Processing blocks\<close>

text \<open>
  The round macro \<open>R\<close>: the variables \<open>a\<close> to \<open>h\<close> are a list of eight words, and its
  first eight arguments are positions in it.
\<close>

definition R_round ::
  "nat \<Rightarrow> nat \<Rightarrow> nat \<Rightarrow> nat \<Rightarrow> nat \<Rightarrow> nat \<Rightarrow> nat \<Rightarrow> nat \<Rightarrow> u32 \<Rightarrow> u32 \<Rightarrow> u32 list \<Rightarrow> u32 list" where
  "R_round A B C D E F G H k m v =
     (let t0 = SS0 (v ! A) + F2 (v ! A) (v ! B) (v ! C);
          t1 = v ! H + SS1 (v ! E) + F1 (v ! E) (v ! F) (v ! G) + k + m;
          v = v[D := v ! D + t1]
      in v[H := t0 + t1])"

text \<open>The schedule macro \<open>M\<close>: the new word and the overwritten table.\<close>

definition M_word :: "nat \<Rightarrow> u32 list \<Rightarrow> u32 \<times> u32 list" where
  "M_word I x =
     (let tm = S1 (x ! ((I - 2) mod 16)) + x ! ((I - 7) mod 16) + S0 (x ! ((I - 15) mod 16)) + x ! (I mod 16)
      in (tm, x[I mod 16 := tm]))"

text \<open>
  The sixty-four unrolled lines.  Line \<open>t\<close> names the variables \<open>t\<close> places further round: the
  position its argument \<open>i\<close> has in \<open>a\<close> to \<open>h\<close> is \<open>place t i\<close>.
\<close>

definition place :: "nat \<Rightarrow> nat \<Rightarrow> nat" where
  "place t i = (i + 8 - t mod 8) mod 8"

definition roundLine :: "u32 list \<times> u32 list \<Rightarrow> nat \<Rightarrow> u32 list \<times> u32 list" where
  "roundLine vx t =
     (let (v, x) = vx;
          (m, x) = (if t < 16 then (x ! t, x) else M_word t x)
      in (R_round (place t 0) (place t 1) (place t 2) (place t 3) (place t 4) (place t 5) (place t 6)
            (place t 7) (roundConstants ! t) m v, x))"

definition block64 :: "u32 list \<Rightarrow> bytes \<Rightarrow> u32 list" where
  "block64 state b =
     (let x = map (\<lambda>t. SWAP (le32_load b (4 * t))) [0..<16];
          (v, _) = foldl roundLine (state, x) [0..<64]
      in map2 (+) state v)"

function processLoop :: "u32 list \<Rightarrow> bytes \<Rightarrow> u32 list" where
  "processLoop state b = (if b = [] then state else processLoop (block64 state (take 64 b)) (drop 64 b))"
  by pat_completeness auto
termination by (relation "measure (\<lambda>(_, b). length b)") auto

declare processLoop.simps [simp del]

record sha256 =
  m_state :: "u32 list"
  m_total0 :: u32
  m_total1 :: u32
  m_buflen :: nat
  m_buffer :: bytes

definition processBlock :: "bytes \<Rightarrow> sha256 \<Rightarrow> sha256" where
  "processBlock buffer s =
     (let len = of_nat (length buffer);
          t0 = m_total0 s + len
      in s\<lparr>m_total0 := t0, m_total1 := (if t0 < len then m_total1 s + 1 else m_total1 s),
           m_state := processLoop (m_state s) buffer\<rparr>)"

section \<open>The buffered interface\<close>

definition sha_init :: "sha256 \<Rightarrow> sha256" where
  "sha_init s = s\<lparr>m_state := [0x6a09e667, 0xbb67ae85, 0x3c6ef372, 0xa54ff53a,
                             0x510e527f, 0x9b05688c, 0x1f83d9ab, 0x5be0cd19],
                 m_total0 := 0, m_total1 := 0, m_buflen := 0\<rparr>"

text \<open>The constructor; the memory of \<open>m_buffer\<close> is not initialised.\<close>

definition new_sha256 :: "bytes \<Rightarrow> sha256" where
  "new_sha256 mem = sha_init \<lparr>m_state = [], m_total0 = 0, m_total1 = 0, m_buflen = 0, m_buffer = mem\<rparr>"

text \<open>The three parts of \<open>processBytes\<close>; the first returns what is left of the input.\<close>

definition joinBuffered :: "bytes \<Rightarrow> sha256 \<Rightarrow> bytes \<times> sha256" where
  "joinBuffered buffer s =
     (if m_buflen s \<noteq> 0
      then let left_over = m_buflen s;
               add = (if 128 - left_over > length buffer then length buffer else 128 - left_over);
               s = s\<lparr>m_buffer := memcpy_at (m_buffer s) left_over (take add buffer), m_buflen := left_over + add\<rparr>;
               s = (if m_buflen s > 64
                    then let n = 64 * (m_buflen s div 64);
                             s = processBlock (take n (m_buffer s)) s;
                             s = s\<lparr>m_buflen := m_buflen s mod 64\<rparr>
                         in s\<lparr>m_buffer := memcpy_at (m_buffer s) 0
                                (take (m_buflen s) (drop (64 * ((left_over + add) div 64)) (m_buffer s)))\<rparr>
                    else s)
           in (drop add buffer, s)
      else (buffer, s))"

definition completeBlocks :: "bytes \<Rightarrow> sha256 \<Rightarrow> bytes \<times> sha256" where
  "completeBlocks buffer s =
     (if length buffer \<ge> 64
      then let n = 64 * (length buffer div 64) in (drop n buffer, processBlock (take n buffer) s)
      else (buffer, s))"

definition keepRemaining :: "bytes \<Rightarrow> sha256 \<Rightarrow> sha256" where
  "keepRemaining buffer s =
     (if length buffer > 0
      then let left_over = m_buflen s;
               s = s\<lparr>m_buffer := memcpy_at (m_buffer s) left_over buffer\<rparr>;
               left_over = left_over + length buffer
           in if left_over \<ge> 64
              then let s = processBlock (take 64 (m_buffer s)) s
                   in s\<lparr>m_buffer := memcpy_at (m_buffer s) 0 (take (left_over - 64) (drop 64 (m_buffer s))),
                        m_buflen := left_over - 64\<rparr>
              else s\<lparr>m_buflen := left_over\<rparr>
      else s)"

definition processBytes :: "bytes \<Rightarrow> sha256 \<Rightarrow> sha256" where
  "processBytes buffer s =
     (let (buffer, s) = joinBuffered buffer s;
          (buffer, s) = completeBlocks buffer s
      in keepRemaining buffer s)"

definition conclude :: "sha256 \<Rightarrow> sha256" where
  "conclude s =
     (let bytes = m_buflen s;
          size = (if bytes < 56 then 64 div 4 else 64 * 2 div 4);
          t0 = m_total0 s + of_nat bytes;
          t1 = (if t0 < of_nat bytes then m_total1 s + 1 else m_total1 s);
          b = memcpy_at (m_buffer s) (4 * (size - 2)) (set_uint32 (SWAP (push_bit 3 t1 OR drop_bit 29 t0)));
          b = memcpy_at b (4 * (size - 1)) (set_uint32 (SWAP (push_bit 3 t0)));
          b = memcpy_at b bytes (take ((size - 2) * 4 - bytes) fillbuf)
      in processBlock (take (size * 4) b) (s\<lparr>m_total0 := t0, m_total1 := t1, m_buffer := b\<rparr>))"

definition sha_read :: "sha256 \<Rightarrow> bytes" where
  "sha_read s = concat (map (\<lambda>i. set_uint32 (SWAP (m_state s ! i))) [0..<8])"

definition finish :: "sha256 \<Rightarrow> bytes" where
  "finish s = sha_read (conclude s)"

definition sha_buffer :: "bytes \<Rightarrow> sha256 \<Rightarrow> bytes" where
  "sha_buffer buffer s = finish (processBytes buffer (sha_init s))"

section \<open>The standard's description\<close>

definition Ch :: "u32 \<Rightarrow> u32 \<Rightarrow> u32 \<Rightarrow> u32" where "Ch x y z = (x AND y) XOR (NOT x AND z)"
definition Maj :: "u32 \<Rightarrow> u32 \<Rightarrow> u32 \<Rightarrow> u32" where "Maj x y z = (x AND y) XOR (x AND z) XOR (y AND z)"
definition ROTR :: "nat \<Rightarrow> u32 \<Rightarrow> u32" where "ROTR n x = word_rotr n x"
definition bsig0 :: "u32 \<Rightarrow> u32" where "bsig0 x = ROTR 2 x XOR ROTR 13 x XOR ROTR 22 x"
definition bsig1 :: "u32 \<Rightarrow> u32" where "bsig1 x = ROTR 6 x XOR ROTR 11 x XOR ROTR 25 x"
definition ssig0 :: "u32 \<Rightarrow> u32" where "ssig0 x = ROTR 7 x XOR ROTR 18 x XOR drop_bit 3 x"
definition ssig1 :: "u32 \<Rightarrow> u32" where "ssig1 x = ROTR 17 x XOR ROTR 19 x XOR drop_bit 10 x"

fun sched :: "bytes \<Rightarrow> nat \<Rightarrow> u32" where
  "sched b t = (if t < 16 then GET_UINT32 b (4 * t)
                else ssig1 (sched b (t - 2)) + sched b (t - 7) + ssig0 (sched b (t - 15)) + sched b (t - 16))"

declare sched.simps [simp del]

fun std_round :: "u32 list \<Rightarrow> u32 \<Rightarrow> u32 list" where
  "std_round [a, b, c, d, e, f, g, h] kw =
     (let t1 = h + bsig1 e + Ch e f g + kw; t2 = bsig0 a + Maj a b c
      in [t1 + t2, a, b, c, d + t1, e, f, g])"
| "std_round _ _ = []"

definition compress :: "u32 list \<Rightarrow> bytes \<Rightarrow> u32 list" where
  "compress H b = map2 (+) H (foldl (\<lambda>v t. std_round v (roundConstants ! t + sched b t)) H [0..<64])"

function hash_blocks :: "u32 list \<Rightarrow> bytes \<Rightarrow> u32 list" where
  "hash_blocks H b = (if b = [] then H else hash_blocks (compress H (take 64 b)) (drop 64 b))"
  by pat_completeness auto
termination by (relation "measure (\<lambda>(_, b). length b)") auto

declare hash_blocks.simps [simp del]

definition be32 :: "u32 \<Rightarrow> bytes" where
  "be32 v = [ucast (drop_bit 24 v), ucast (drop_bit 16 v), ucast (drop_bit 8 v), ucast v]"

definition padding :: "nat \<Rightarrow> bytes" where
  "padding n = 0x80 # replicate ((119 - n mod 64) mod 64) 0 @
     be32 (of_nat (8 * n div 2 ^ 32)) @ be32 (of_nat (8 * n))"

definition sha256_spec :: "bytes \<Rightarrow> bytes" where
  "sha256_spec m = concat (map be32 (hash_blocks
     [0x6a09e667, 0xbb67ae85, 0x3c6ef372, 0xa54ff53a, 0x510e527f, 0x9b05688c, 0x1f83d9ab, 0x5be0cd19]
     (m @ padding (length m))))"

section \<open>The round functions\<close>

lemma rol_rotr:
  assumes "0 < n" "n < 32"
  shows "rol x n = ROTR (32 - n) x"
proof (rule bit_word_eqI)
  fix i
  assume i: "i < LENGTH(32)"
  have "(i + (32 - n)) mod 32 = (if i < n then i + (32 - n) else i - n)"
  proof (cases "i < n")
    case False
    then have "i + (32 - n) = (i - n) + 32" using assms by simp
    then show ?thesis using False i by (simp only: mod_add_self2) simp
  qed (use assms in simp)
  then show "bit (rol x n) i = bit (ROTR (32 - n) x) i"
    using i assms by (auto simp: rol_def ROTR_def bit_word_rotr_iff bit_or_iff bit_push_bit_iff bit_drop_bit_eq
        add.commute dest: bit_imp_le_length)
qed

lemma sigmas: "SS0 x = bsig0 x" "SS1 x = bsig1 x" "S0 x = ssig0 x" "S1 x = ssig1 x"
  by (simp_all add: SS0_def SS1_def S0_def S1_def bsig0_def bsig1_def ssig0_def ssig1_def rol_rotr)

lemma choices: "F1 e f g = Ch e f g" "F2 a b c = Maj a b c"
  by (rule bit_word_eqI; auto simp: F1_def F2_def Ch_def Maj_def bit_simps)+

lemma SWAP_load: "SWAP (le32_load b i) = GET_UINT32 b i"
proof (rule bit_word_eqI)
  fix n
  assume "n < LENGTH(32)"
  then have n: "n < 32" by simp
  have u: "8 \<le> k \<Longrightarrow> \<not> bit (b ! j) k" for j k using u8_bit_bound [of "b ! j" k] by auto
  have m: "bit (0xff00 :: u32) k \<longleftrightarrow> 8 \<le> k \<and> k < 16" for k
  proof -
    have "(0xff00 :: u32) = push_bit 8 (mask 8)" by (simp add: mask_eq_exp_minus_1)
    then show ?thesis by (simp only: bit_push_bit_iff bit_mask_iff) auto
  qed
  show "bit (SWAP (le32_load b i)) n = bit (GET_UINT32 b i) n"
    unfolding SWAP_def le32_load_def GET_UINT32_def bit_or_iff bit_and_iff bit_push_bit_iff bit_drop_bit_eq
      bit_ucast_iff o_def m
    using n by (cases "n < 8"; cases "n < 16"; cases "n < 24") (simp_all add: u, linarith+)
qed

lemma set_SWAP: "set_uint32 (SWAP v) = be32 v"
proof -
  have m: "bit (0xff00 :: u32) k \<longleftrightarrow> 8 \<le> k \<and> k < 16" for k
  proof -
    have "(0xff00 :: u32) = push_bit 8 (mask 8)" by (simp add: mask_eq_exp_minus_1)
    then show ?thesis by (simp only: bit_push_bit_iff bit_mask_iff) auto
  qed
  have b: "bit v k \<Longrightarrow> k < 32" for k using bit_imp_le_length [of v k] by simp
  show ?thesis
    unfolding set_uint32_def be32_def list.inject
    by (intro conjI refl; rule bit_word_eqI;
        simp only: SWAP_def bit_or_iff bit_and_iff bit_push_bit_iff bit_drop_bit_eq bit_ucast_iff o_def m;
        auto dest: b)
qed

section \<open>One block\<close>

text \<open>The registers of the standard, read from the rotating variables.\<close>

definition regs :: "nat \<Rightarrow> u32 list \<Rightarrow> u32 list" where
  "regs t v = map (\<lambda>i. v ! place t i) [0..<8]"

lemma regs_ends: "length v = 8 \<Longrightarrow> regs 0 v = v" "length v = 8 \<Longrightarrow> regs 64 v = v"
  by (rule nth_equalityI; simp add: regs_def place_def)+

lemma round_regs:
  assumes "length v = 8"
  shows "regs (Suc t) (R_round (place t 0) (place t 1) (place t 2) (place t 3) (place t 4) (place t 5)
           (place t 6) (place t 7) k m v) = std_round (regs t v) (k + m)"
proof -
  obtain a b c d e f g h where v: "v = [a, b, c, d, e, f, g, h]"
    using assms by (auto simp: numeral_eq_Suc length_Suc_conv)
  have "t mod 8 < 8" by simp
  moreover have "[0..<8] = [0, 1, 2, 3, 4, 5, 6, 7 :: nat]" by (simp add: upt_conv_Cons flip: One_nat_def)
  ultimately show ?thesis
    unfolding v regs_def
    by (elim less_8E; simp add: place_def mod_Suc R_round_def Let_def sigmas choices ac_simps)
qed

lemma length_R_round [simp]: "length (R_round A B C D E F G H k m v) = length v"
  by (simp add: R_round_def Let_def)

text \<open>The sixteen schedule words hold the last sixteen words of the standard's schedule.\<close>

definition window :: "bytes \<Rightarrow> nat \<Rightarrow> u32 list \<Rightarrow> bool" where
  "window b t x \<longleftrightarrow> length x = 16 \<and> (\<forall>j. max t 16 - 16 \<le> j \<and> j < max t 16 \<longrightarrow> x ! (j mod 16) = sched b j)"

lemma windowD: "window b t x \<Longrightarrow> max t 16 - 16 \<le> j \<Longrightarrow> j < max t 16 \<Longrightarrow> x ! (j mod 16) = sched b j"
  by (simp add: window_def)

lemma M_word_sched:
  assumes w: "window b t x" and t: "16 \<le> t"
  shows "fst (M_word t x) = sched b t" "window b (Suc t) (snd (M_word t x))"
proof -
  have m: "max t 16 = t" "max (Suc t) 16 = Suc t" using t by simp_all
  have "x ! (t mod 16) = sched b (t - 16)"
    using windowD [OF w, of "t - 16"] t m by (simp add: le_mod_geq)
  then have s: "fst (M_word t x) = sched b t"
    using windowD [OF w, of "t - 2"] windowD [OF w, of "t - 7"] windowD [OF w, of "t - 15"] t m
    by (simp add: M_word_def Let_def sched.simps [of b t] sigmas ac_simps)
  then show "fst (M_word t x) = sched b t" .
  have "x[t mod 16 := sched b t] ! (j mod 16) = sched b j" if j: "Suc t - 16 \<le> j" "j < Suc t" for j
  proof (cases "j = t")
    case True
    then show ?thesis using w by (simp add: window_def)
  next
    case False
    have "j mod 16 \<noteq> t mod 16"
    proof
      assume "j mod 16 = t mod 16"
      then have "16 dvd t - j" using j by (metis less_Suc_eq_le mod_eq_dvd_iff_nat)
      then show False using False j t by (auto dest: dvd_imp_le)
    qed
    then show ?thesis using windowD [OF w, of j] False j m by simp
  qed
  moreover have "snd (M_word t x) = x[t mod 16 := fst (M_word t x)]" by (simp add: M_word_def Let_def)
  ultimately show "window b (Suc t) (snd (M_word t x))" using s m w by (simp add: window_def)
qed

lemma lines_follow_standard:
  fixes b :: bytes
  assumes "length H = 8" "n \<le> 64"
  defines "x0 \<equiv> map (\<lambda>t. SWAP (le32_load b (4 * t))) [0..<16]"
  shows "length (fst (foldl roundLine (H, x0) [0..<n])) = 8 \<and> window b n (snd (foldl roundLine (H, x0) [0..<n])) \<and>
         regs n (fst (foldl roundLine (H, x0) [0..<n])) =
         foldl (\<lambda>v t. std_round v (roundConstants ! t + sched b t)) H [0..<n]"
  using assms(2)
proof (induction n)
  case 0
  have "x0 ! j = sched b j" if "j < 16" for j
    using that by (simp add: x0_def SWAP_load sched.simps [of b j])
  then show ?case using assms(1) by (simp add: window_def regs_ends) (simp add: x0_def)
next
  case (Suc n)
  obtain v x where vx: "foldl roundLine (H, x0) [0..<n] = (v, x)" by fastforce
  have ih: "length v = 8" "window b n x"
    "regs n v = foldl (\<lambda>v t. std_round v (roundConstants ! t + sched b t)) H [0..<n]"
    using Suc vx by simp_all
  obtain m x' where mx: "(if n < 16 then (x ! n, x) else M_word n x) = (m, x')" by fastforce
  have m: "m = sched b n \<and> window b (Suc n) x'"
  proof (cases "n < 16")
    case True
    then have "x ! n = sched b n" "max n 16 = 16" "max (Suc n) 16 = 16"
      using windowD [OF ih(2), of n] by simp_all
    then show ?thesis using True mx ih(2) by (auto simp: window_def)
  next
    case False
    then show ?thesis using mx M_word_sched [OF ih(2)] by auto
  qed
  have "foldl roundLine (H, x0) [0..<Suc n] =
      (R_round (place n 0) (place n 1) (place n 2) (place n 3) (place n 4) (place n 5) (place n 6) (place n 7)
         (roundConstants ! n) m v, x')"
    using vx mx by (simp add: roundLine_def Let_def)
  then show ?case using round_regs [OF ih(1)] ih m by simp
qed

lemma block64_compress:
  assumes "length H = 8"
  shows "block64 H b = compress H b"
proof -
  let ?r = "foldl roundLine (H, map (\<lambda>t. SWAP (le32_load b (4 * t))) [0..<16]) [0..<64]"
  have "length (fst ?r) = 8" "regs 64 (fst ?r) =
      foldl (\<lambda>v t. std_round v (roundConstants ! t + sched b t)) H [0..<64]"
    using lines_follow_standard [OF assms, of 64 b] by simp_all
  then show ?thesis
    by (simp add: block64_def compress_def regs_ends Let_def case_prod_unfold)
qed

lemma length_compress:
  assumes "length H = 8"
  shows "length (compress H b) = 8"
proof -
  let ?r = "foldl roundLine (H, map (\<lambda>t. SWAP (le32_load b (4 * t))) [0..<16]) [0..<64]"
  have "regs 64 (fst ?r) = foldl (\<lambda>v t. std_round v (roundConstants ! t + sched b t)) H [0..<64]"
    using lines_follow_standard [OF assms, of 64 b] by blast
  moreover have "length (regs 64 (fst ?r)) = 8" by (simp add: regs_def)
  ultimately have "length (foldl (\<lambda>v t. std_round v (roundConstants ! t + sched b t)) H [0..<64]) = 8"
    by simp
  then show ?thesis using assms by (simp only: compress_def length_map length_zip min.idem)
qed

lemma processLoop_hash:
  "length H = 8 \<Longrightarrow> processLoop H b = hash_blocks H b"
proof (induction H b rule: processLoop.induct)
  case (1 H b)
  then show ?case
    by (simp add: processLoop.simps [of H b] hash_blocks.simps [of H b] block64_compress length_compress)
qed

lemma length_hash_blocks: "length H = 8 \<Longrightarrow> length (hash_blocks H b) = 8"
proof (induction H b rule: hash_blocks.induct)
  case (1 H b)
  then show ?case by (simp add: hash_blocks.simps [of H b] length_compress)
qed

section \<open>The buffered interface follows the message\<close>

abbreviation H0 :: "u32 list" where
  "H0 \<equiv> [0x6a09e667, 0xbb67ae85, 0x3c6ef372, 0xa54ff53a, 0x510e527f, 0x9b05688c, 0x1f83d9ab, 0x5be0cd19]"

lemma hash_blocks_append:
  "64 dvd length p \<Longrightarrow> hash_blocks H (p @ q) = hash_blocks (hash_blocks H p) q"
proof (induction H p rule: hash_blocks.induct)
  case (1 H p)
  show ?case
  proof (cases "p = []")
    case False
    then have "64 \<le> length p" using 1(2) by (simp add: dvd_imp_le)
    then have td: "take 64 (p @ q) = take 64 p" "drop 64 (p @ q) = drop 64 p @ q" by simp_all
    have ih: "hash_blocks (compress H (take 64 p)) (drop 64 p @ q) =
        hash_blocks (hash_blocks (compress H (take 64 p)) (drop 64 p)) q"
      using 1(1) [OF False] 1(2) by simp
    show ?thesis
      unfolding hash_blocks.simps [of H "p @ q"] hash_blocks.simps [of H p] td ih using False by simp
  qed (simp add: hash_blocks.simps [of H "[]"])
qed

text \<open>The whole blocks \<open>p\<close> have been processed and counted.\<close>

definition fed :: "sha256 \<Rightarrow> bytes \<Rightarrow> bool" where
  "fed s p \<longleftrightarrow> 64 dvd length p \<and> m_state s = hash_blocks H0 p \<and> m_total0 s = of_nat (length p) \<and> m_total1 s = 0"

text \<open>The message so far: what was processed and what is in the buffer.\<close>

definition holds_msg :: "sha256 \<Rightarrow> bytes \<Rightarrow> bool" where
  "holds_msg s m \<longleftrightarrow> (\<exists>p. fed s p \<and> m = p @ take (m_buflen s) (m_buffer s)) \<and> m_buflen s \<le> 64 \<and>
     length (m_buffer s) = 128"

lemma of_nat_no_wrap:
  "n + k < 2 ^ 32 \<Longrightarrow> \<not> (of_nat n + of_nat k :: u32) < of_nat k"
  by (simp add: word_less_nat_alt unat_of_nat take_bit_nat_eq_self unat_word_ariths
      flip: of_nat_add)

lemma processBlock_fed:
  assumes "fed s p" "64 dvd length b" "length p + length b < 2 ^ 32"
  shows "fed (processBlock b s) (p @ b)"
  using assms of_nat_no_wrap [OF assms(3)] length_hash_blocks [of H0 p]
  by (simp add: fed_def processBlock_def Let_def hash_blocks_append processLoop_hash)

lemma processBlock_frame [simp]:
  "m_buflen (processBlock b s) = m_buflen s" "m_buffer (processBlock b s) = m_buffer s"
  by (simp_all add: processBlock_def Let_def)

lemma fed_frame [simp]:
  "fed (s\<lparr>m_buflen := n\<rparr>) p = fed s p" "fed (s\<lparr>m_buffer := b\<rparr>) p = fed s p"
  by (simp_all add: fed_def)

lemma joinBuffered_holds:
  assumes "holds_msg s m" "length m + length b < 2 ^ 32"
  shows "\<exists>c. b = c @ fst (joinBuffered b s) \<and> holds_msg (snd (joinBuffered b s)) (m @ c) \<and>
    (fst (joinBuffered b s) \<noteq> [] \<longrightarrow> m_buflen (snd (joinBuffered b s)) = 0)"
proof (cases "m_buflen s = 0")
  case True
  then show ?thesis using assms(1) by (simp add: joinBuffered_def)
next
  case False
  define l where "l = m_buflen s"
  define add where "add = (if 128 - l > length b then length b else 128 - l)"
  obtain p where p: "fed s p" "m = p @ take l (m_buffer s)" and l: "l \<le> 64" "length (m_buffer s) = 128"
    using assms(1) by (auto simp: holds_msg_def l_def)
  have a: "add \<le> length b" "l + add \<le> 128" "add < length b \<Longrightarrow> l + add = 128"
    using l(1) by (auto simp: add_def)
  define buf where "buf = memcpy_at (m_buffer s) l (take add b)"
  have buf: "length buf = 128" "take (l + add) buf = take l (m_buffer s) @ take add b"
    using a l by (simp_all add: buf_def memcpy_at_def)
  define s1 where "s1 = s\<lparr>m_buffer := buf, m_buflen := l + add\<rparr>"
  have s1: "fed s1 p" using p(1) by (simp add: s1_def)
  have j: "joinBuffered b s = (drop add b,
      if 64 < l + add
      then let s2 = processBlock (take (64 * ((l + add) div 64)) buf) s1;
               s3 = s2\<lparr>m_buflen := (l + add) mod 64\<rparr>
           in s3\<lparr>m_buffer := memcpy_at buf 0 (take ((l + add) mod 64) (drop (64 * ((l + add) div 64)) buf))\<rparr>
      else s1)"
    using False by (simp add: joinBuffered_def Let_def s1_def buf_def l_def [symmetric] add_def [symmetric])
  show ?thesis
  proof (cases "64 < l + add")
    case False
    then have "\<not> add < length b" using a(3) by auto
    then have t: "take add b = b" "drop add b = []" by simp_all
    have "m @ b = p @ take (m_buflen s1) (m_buffer s1)" using p(2) buf(2) t(1) by (simp add: s1_def)
    then have "holds_msg s1 (m @ b)" using s1 False buf(1) by (auto simp: holds_msg_def) (simp_all add: s1_def)
    then show ?thesis using False t(2) by (intro exI [of _ b]) (simp add: j)
  next
    case True
    define n where "n = 64 * ((l + add) div 64)"
    define r where "r = (l + add) mod 64"
    have nr: "n + r = l + add" "r < 64" by (simp_all add: n_def r_def)
    have tn: "take (l + add) buf = take n buf @ take r (drop n buf)"
      unfolding nr(1) [symmetric] by (rule take_add)
    have len: "length p + length (take n buf) < 2 ^ 32"
      using assms(2) p(2) a nr buf l by simp
    have d: "64 dvd length (take n buf)" using nr a buf by (simp add: n_def)
    define s3 where "s3 = (processBlock (take n buf) s1)\<lparr>m_buflen := r,
        m_buffer := memcpy_at buf 0 (take r (drop n buf))\<rparr>"
    have f: "fed s3 (p @ take n buf)" using processBlock_fed [OF s1 d len] by (simp add: s3_def)
    have k: "m_buflen s3 = r" "length (m_buffer s3) = 128" "take r (m_buffer s3) = take r (drop n buf)"
      using nr a buf by (simp_all add: s3_def memcpy_at_def)
    have e: "m @ take add b = (p @ take n buf) @ take r (m_buffer s3)"
      using p(2) buf(2) tn k(3) by simp
    have z: "add < length b \<Longrightarrow> r = 0" using a(3) by (simp add: r_def)
    have "joinBuffered b s = (drop add b, s3)"
      using True by (simp add: j s3_def Let_def n_def r_def)
    then show ?thesis
      using f k e nr(2) z by (intro exI [of _ "take add b"]) (auto simp: holds_msg_def)
  qed
qed

lemma completeBlocks_holds:
  assumes "holds_msg s m" "length m + length b < 2 ^ 32" "b \<noteq> [] \<Longrightarrow> m_buflen s = 0"
  shows "\<exists>c. b = c @ fst (completeBlocks b s) \<and> holds_msg (snd (completeBlocks b s)) (m @ c) \<and>
    (fst (completeBlocks b s) \<noteq> [] \<longrightarrow> m_buflen (snd (completeBlocks b s)) = 0) \<and>
    length (fst (completeBlocks b s)) < 64"
proof (cases "64 \<le> length b")
  case False
  then show ?thesis using assms by (simp add: completeBlocks_def)
next
  case True
  define n where "n = 64 * (length b div 64)"
  have z: "m_buflen s = 0" using True assms(3) by fastforce
  have n: "n \<le> length b" "length b - n < 64" by (simp_all add: n_def)
  have p: "fed s m" "length (m_buffer s) = 128" using assms(1) z by (auto simp: holds_msg_def)
  have "fed (processBlock (take n b) s) (m @ take n b)"
    by (rule processBlock_fed [OF p(1)]) (use n assms(2) in \<open>simp_all add: n_def\<close>)
  then have "holds_msg (processBlock (take n b) s) (m @ take n b)"
    using z p(2) by (simp add: holds_msg_def)
  then show ?thesis
    using True z n by (intro exI [of _ "take n b"]) (simp add: completeBlocks_def Let_def n_def)
qed

text \<open>Hashing in any number of pieces is hashing the concatenation.\<close>

lemma processBytes_holds:
  assumes "holds_msg s m" "length m + length b < 2 ^ 32"
  shows "holds_msg (processBytes b s) (m @ b)"
proof -
  let ?b1 = "fst (joinBuffered b s)" and ?s1 = "snd (joinBuffered b s)"
  let ?b2 = "fst (completeBlocks ?b1 ?s1)" and ?s2 = "snd (completeBlocks ?b1 ?s1)"
  obtain c where c: "b = c @ ?b1" "holds_msg ?s1 (m @ c)" "?b1 \<noteq> [] \<Longrightarrow> m_buflen ?s1 = 0"
    using joinBuffered_holds [OF assms] by blast
  have "length (m @ c) + length ?b1 < 2 ^ 32" using assms(2) c(1) by (metis add.assoc length_append)
  from completeBlocks_holds [OF c(2) this c(3)]
  obtain d where d: "?b1 = d @ ?b2" "holds_msg ?s2 (m @ c @ d)" "?b2 \<noteq> [] \<Longrightarrow> m_buflen ?s2 = 0" "length ?b2 < 64"
    by auto
  have p: "processBytes b s = keepRemaining ?b2 ?s2" by (simp add: processBytes_def Let_def case_prod_unfold)
  have b: "m @ b = (m @ c @ d) @ ?b2" by (subst c(1), subst d(1)) simp
  show ?thesis
  proof (cases "?b2 = []")
    case True
    then show ?thesis using d(2) p b by (simp add: keepRemaining_def)
  next
    case False
    then have z: "m_buflen ?s2 = 0" using d(3) by blast
    then have f: "fed ?s2 (m @ c @ d)" "length (m_buffer ?s2) = 128" using d(2) by (auto simp: holds_msg_def)
    have "keepRemaining ?b2 ?s2 = ?s2\<lparr>m_buffer := memcpy_at (m_buffer ?s2) 0 ?b2, m_buflen := length ?b2\<rparr>"
      using False z d(4) by (simp add: keepRemaining_def Let_def)
    then show ?thesis
      unfolding p b holds_msg_def using f d(4) by (auto simp: memcpy_at_def)
  qed
qed

section \<open>The digest\<close>

lemma length_be32 [simp]: "length (be32 v) = 4"
  by (simp add: be32_def)

lemma memcpy_prefix:
  assumes "off + length src = e" "e + n \<le> length dst"
  shows "take (e + n) (memcpy_at dst off src) = take off dst @ src @ take n (drop e dst)"
proof -
  have "length (take off dst) = off" using assms by simp
  then show ?thesis unfolding memcpy_at_def assms(1) [symmetric] by (simp add: add.assoc)
qed

lemma padded_buffer:
  assumes "bytes \<le> 64" "length buf = 128" "n mod 64 = bytes mod 64"
    and sz: "sz = (if bytes < 56 then 64 div 4 else 64 * 2 div 4)"
    and x: "be32 x = be32 (of_nat (8 * n div 2 ^ 32))" "be32 y = be32 (of_nat (8 * n))"
  shows "take (sz * 4) (memcpy_at (memcpy_at (memcpy_at buf (4 * (sz - 2)) (be32 x)) (4 * (sz - 1)) (be32 y))
           bytes (take ((sz - 2) * 4 - bytes) fillbuf)) = take bytes buf @ padding n"
proof -
  define k where "k = (sz - 2) * 4 - bytes"
  have k: "bytes + k = 4 * (sz - 2)" "k \<le> 64" "k = Suc ((119 - n mod 64) mod 64)" "2 < sz" "4 * sz \<le> 128"
  proof -
    have "bytes = 64 \<or> bytes mod 64 = bytes" using assms(1) by (cases "bytes = 64") simp_all
    moreover have "(119 - b) mod 64 = 55 - b" if "b < 56" for b :: nat
    proof -
      have "119 - b = (55 - b) + 64" using that by simp
      then show ?thesis by (simp only: mod_add_self2) (use that in simp)
    qed
    moreover have "(119 - b) mod 64 = 119 - b" if "56 \<le> b" for b :: nat using that by simp
    ultimately show "bytes + k = 4 * (sz - 2)" "k \<le> 64" "k = Suc ((119 - n mod 64) mod 64)" "2 < sz" "4 * sz \<le> 128"
      using assms(1,3) unfolding k_def sz by (auto split: if_splits)
  qed
  have fill: "take k fillbuf = 0x80 # replicate ((119 - n mod 64) mod 64) 0"
    using k(2,3) by (simp add: fillbuf_def take_replicate)
  let ?b2 = "memcpy_at (memcpy_at buf (4 * (sz - 2)) (be32 x)) (4 * (sz - 1)) (be32 y)"
  have s: "4 * (sz - 1) = 4 * (sz - 2) + 4" "sz * 4 = 4 * (sz - 2) + 8" using k(4) by simp_all
  have b2: "length ?b2 = 128" using assms(2) k(4,5) by simp
  have t: "take bytes ?b2 = take bytes buf" using k(1) assms(2) k(4,5) by (simp add: memcpy_at_take s)
  have d: "take 8 (drop (4 * (sz - 2)) ?b2) = be32 x @ be32 y"
    using assms(2) k(4,5) unfolding s(1) by (simp add: memcpy_at_def)
  have "length (take k fillbuf) = k" using k(2) by (simp add: fillbuf_def)
  then have "take (sz * 4) (memcpy_at ?b2 bytes (take k fillbuf)) =
      take bytes ?b2 @ take k fillbuf @ take 8 (drop (4 * (sz - 2)) ?b2)"
    using memcpy_prefix [of bytes "take k fillbuf" "4 * (sz - 2)" 8 ?b2] b2 k(1,4,5) s(2) by simp
  then show ?thesis unfolding k_def [symmetric] t d unfolding fill padding_def x by simp
qed

lemma bit_count_words:
  assumes "n < 2 ^ 32"
  shows "push_bit 3 0 OR drop_bit 29 (of_nat n :: u32) = of_nat (8 * n div 2 ^ 32)"
    "push_bit 3 (of_nat n :: u32) = of_nat (8 * n)"
proof -
  have "8 * n div (8 * 2 ^ 29) = n div 2 ^ 29" by (rule div_mult_mult1) simp
  moreover have "(8 * 2 ^ 29 :: nat) = 2 ^ 32" by simp
  ultimately have q: "8 * n div 2 ^ 32 = n div 2 ^ 29" by (simp only:)
  have "n div 2 ^ 29 < 2 ^ 32" using assms by (meson div_le_dividend le_less_trans)
  then have "unat (drop_bit 29 (of_nat n :: u32)) = unat (of_nat (n div 2 ^ 29) :: u32)"
    unfolding unat_drop_bit_eq unat_of_nat
    using assms by (simp only: take_bit_nat_eq_self drop_bit_eq_div) (simp add: take_bit_nat_eq_self)
  then show "push_bit 3 0 OR drop_bit 29 (of_nat n :: u32) = of_nat (8 * n div 2 ^ 32)"
    unfolding q by (simp only: word_unat_eq_iff push_bit_of_0 or.left_neutral)
  show "push_bit 3 (of_nat n :: u32) = of_nat (8 * n)" by (simp add: push_bit_eq_mult)
qed

lemma finish_holds:
  assumes "holds_msg s m" "length m < 2 ^ 32"
  shows "finish s = sha256_spec m"
proof -
  define k where "k = m_buflen s"
  define n where "n = length m"
  obtain p where p: "fed s p" "m = p @ take k (m_buffer s)" and l: "k \<le> 64" "length (m_buffer s) = 128"
    using assms(1) by (auto simp: holds_msg_def k_def)
  define sz where "sz = (if k < 56 then 64 div 4 else 64 * 2 div 4 :: nat)"
  have n: "n = length p + k" "n mod 64 = k mod 64"
    using p l by (auto simp: n_def fed_def mod_eq_dvd_iff_nat)
  have t0: "m_total0 s + of_nat k = of_nat n" "\<not> m_total0 s + of_nat k < of_nat k" "m_total1 s = 0"
    using p(1) n(1) of_nat_no_wrap [of "length p" k] assms(2) by (simp_all add: fed_def n_def)
  define b where "b = memcpy_at (memcpy_at (memcpy_at (m_buffer s) (4 * (sz - 2))
      (be32 (push_bit 3 0 OR drop_bit 29 (of_nat n)))) (4 * (sz - 1)) (be32 (push_bit 3 (of_nat n))))
      k (take ((sz - 2) * 4 - k) fillbuf)"
  have pad: "take (sz * 4) b = take k (m_buffer s) @ padding n"
    unfolding b_def
    by (rule padded_buffer [OF l n(2) sz_def]) (use bit_count_words [of n] assms(2) in \<open>simp_all add: n_def\<close>)
  have c: "conclude s = processBlock (take (sz * 4) b) (s\<lparr>m_total0 := of_nat n, m_total1 := 0, m_buffer := b\<rparr>)"
    unfolding conclude_def Let_def k_def [symmetric] sz_def [symmetric] t0(1)
    using t0 by (simp add: set_SWAP b_def)
  have "m_state (conclude s) = hash_blocks (hash_blocks H0 p) (take k (m_buffer s) @ padding n)"
    using p(1) length_hash_blocks [of H0 p] unfolding c pad processBlock_def
    by (simp add: Let_def fed_def processLoop_hash)
  also have "\<dots> = hash_blocks H0 (m @ padding n)"
    using p by (simp add: fed_def hash_blocks_append)
  finally have st: "m_state (conclude s) = hash_blocks H0 (m @ padding n)" .
  have "map (\<lambda>i. be32 (hash_blocks H0 (m @ padding n) ! i)) [0..<8] = map be32 (hash_blocks H0 (m @ padding n))"
    by (rule nth_equalityI) (simp_all add: length_hash_blocks)
  then show ?thesis by (simp add: finish_def sha_read_def st set_SWAP sha256_spec_def n_def)
qed

lemma sha_init_holds: "length (m_buffer s) = 128 \<Longrightarrow> holds_msg (sha_init s) []"
  by (simp add: holds_msg_def sha_init_def fed_def hash_blocks.simps [of H0 "[]"])

text \<open>
  C7. The class computes SHA-256: whatever was in its memory, and in however many pieces the
  message is given to \<open>processBytes\<close>, the digest is the standard's.
\<close>

theorem sha256_is_standard:
  assumes "length (m_buffer s) = 128" "length (concat pieces) < 2 ^ 32"
  shows "finish (foldl (\<lambda>s b. processBytes b s) (sha_init s) pieces) = sha256_spec (concat pieces)"
proof -
  have "holds_msg (foldl (\<lambda>s b. processBytes b s) (sha_init s) pieces) (concat pieces)"
    using assms(2)
  proof (induction pieces rule: rev_induct)
    case Nil
    then show ?case using sha_init_holds [OF assms(1)] by simp
  next
    case (snoc b bs)
    then show ?case using processBytes_holds [of "foldl (\<lambda>s b. processBytes b s) (sha_init s) bs" "concat bs" b] by simp
  qed
  then show ?thesis using finish_holds assms(2) by blast
qed

theorem sha256_is_standard_witness:
  "finish (processBytes [0x62, 0x63] (processBytes [0x61] (sha_init (new_sha256 (replicate 128 0))))) =
   sha256_spec [0x61, 0x62, 0x63]"
  using sha256_is_standard [of "new_sha256 (replicate 128 0)" "[[0x61], [0x62, 0x63]]"]
  by (simp add: new_sha256_def sha_init_def)

text \<open>The one-call interface, for its users.\<close>

lemma sha_buffer_spec:
  "length (m_buffer s) = 128 \<Longrightarrow> length m < 2 ^ 32 \<Longrightarrow> sha_buffer m s = sha256_spec m"
  unfolding sha_buffer_def using finish_holds processBytes_holds [OF sha_init_holds] by fastforce

lemma length_sha256_spec [simp]: "length (sha256_spec m) = 32"
  by (simp add: sha256_spec_def length_concat o_def length_hash_blocks comp_def sum_list_triv)

end
