(* ===== verification/BaseNetwork.thy ===== *)
theory BaseNetwork
  imports RTP FrameRing
begin

text \<open>
  The part common to the FNE and to its peers: \<^verbatim>\<open>src/src/common/network/BaseNetwork.cpp\<close>,
  its function codes and connection states, packet sequence numbers, stream IDs, writes to
  the master and the DMR message.  The derived classes extend the state record.  What the
  code draws from the clock and the random generator is the environment record; the two
  counters \<open>m_encoded\<close> and \<open>m_drawn\<close> say how many readings have been used.  The result of
  the socket write is also the environment's.
\<close>

section \<open>Constants\<close>

definition NET_SUBFUNC_NOP :: u8 where "NET_SUBFUNC_NOP = 0xFF"
definition NET_FUNC_PROTOCOL :: u8 where "NET_FUNC_PROTOCOL = 0x00"
definition NET_PROTOCOL_SUBFUNC_DMR :: u8 where "NET_PROTOCOL_SUBFUNC_DMR = 0x00"
definition NET_PROTOCOL_SUBFUNC_P25 :: u8 where "NET_PROTOCOL_SUBFUNC_P25 = 0x01"
definition NET_PROTOCOL_SUBFUNC_NXDN :: u8 where "NET_PROTOCOL_SUBFUNC_NXDN = 0x02"
definition NET_FUNC_MASTER :: u8 where "NET_FUNC_MASTER = 0x01"
definition NET_MASTER_SUBFUNC_WL_RID :: u8 where "NET_MASTER_SUBFUNC_WL_RID = 0x00"
definition NET_MASTER_SUBFUNC_BL_RID :: u8 where "NET_MASTER_SUBFUNC_BL_RID = 0x01"
definition NET_MASTER_SUBFUNC_ACTIVE_TGS :: u8 where "NET_MASTER_SUBFUNC_ACTIVE_TGS = 0x02"
definition NET_MASTER_SUBFUNC_DEACTIVE_TGS :: u8 where "NET_MASTER_SUBFUNC_DEACTIVE_TGS = 0x03"
definition NET_FUNC_RPTL :: u8 where "NET_FUNC_RPTL = 0x60"
definition NET_FUNC_RPTK :: u8 where "NET_FUNC_RPTK = 0x61"
definition NET_FUNC_RPTC :: u8 where "NET_FUNC_RPTC = 0x62"
definition NET_FUNC_RPT_CLOSING :: u8 where "NET_FUNC_RPT_CLOSING = 0x70"
definition NET_FUNC_MST_CLOSING :: u8 where "NET_FUNC_MST_CLOSING = 0x71"
definition NET_FUNC_PING :: u8 where "NET_FUNC_PING = 0x74"
definition NET_FUNC_PONG :: u8 where "NET_FUNC_PONG = 0x75"
definition NET_FUNC_ACK :: u8 where "NET_FUNC_ACK = 0x7E"
definition NET_FUNC_NAK :: u8 where "NET_FUNC_NAK = 0x7F"
definition NET_TRANSFER_SUBFUNC_ACTIVITY :: u8 where "NET_TRANSFER_SUBFUNC_ACTIVITY = 0x01"
definition NET_TRANSFER_SUBFUNC_DIAG :: u8 where "NET_TRANSFER_SUBFUNC_DIAG = 0x02"
definition PACKET_PAD :: nat where "PACKET_PAD = 8"
definition MSG_HDR_SIZE :: nat where "MSG_HDR_SIZE = 24"
definition DMR_PACKET_LENGTH :: nat where "DMR_PACKET_LENGTH = 55"

lemmas net_funcs =
  NET_FUNC_PROTOCOL_def NET_FUNC_MASTER_def NET_FUNC_RPTL_def NET_FUNC_RPTK_def NET_FUNC_RPTC_def
  NET_FUNC_RPT_CLOSING_def NET_FUNC_MST_CLOSING_def NET_FUNC_PING_def NET_FUNC_PONG_def
  NET_FUNC_ACK_def NET_FUNC_NAK_def NET_FUNC_GRANT_REQ_def NET_FUNC_TRANSFER_def

datatype NET_CONN_STATUS =
  NET_STAT_WAITING_CONNECT | NET_STAT_WAITING_LOGIN | NET_STAT_WAITING_AUTHORISATION
| NET_STAT_WAITING_CONFIG | NET_STAT_RUNNING | NET_STAT_RPTL_RECEIVED | NET_STAT_CHALLENGE_SENT
| NET_STAT_MST_RUNNING | NET_STAT_INVALID

section \<open>State\<close>

record net_env =
  env_now :: u64
  env_since :: "nat \<Rightarrow> u64"
  env_random :: "nat \<Rightarrow> u32"
  env_written :: bool

record base_net =
  m_peerId :: u32
  m_status :: NET_CONN_STATUS
  m_addr :: sockaddr
  m_slot1 :: bool
  m_slot2 :: bool
  m_allowActivityTransfer :: bool
  m_allowDiagnosticTransfer :: bool
  m_frameQueue :: frame_queue
  m_rxDMRData :: "u8 ring"
  m_rxP25Data :: "u8 ring"
  m_rxNXDNData :: "u8 ring"
  m_dmrStreamId :: "u32 list"
  m_p25StreamId :: u32
  m_nxdnStreamId :: u32
  m_pktSeq :: u16
  m_encoded :: nat
  m_drawn :: nat
  m_sent :: "udp_datagram list"

definition net_running :: "'a base_net_scheme \<Rightarrow> bool" where
  "net_running s = (m_status s = NET_STAT_RUNNING \<or> m_status s = NET_STAT_MST_RUNNING)"

text \<open>
  The constructor: two DMR stream IDs and one each for P25 and NXDN are drawn.  \<open>None\<close> is the
  failing assertion on the peer ID.
\<close>

definition new_base_net :: "'e net_env_scheme \<Rightarrow> u32 \<Rightarrow> bool \<Rightarrow> bool \<Rightarrow> bool \<Rightarrow> bool \<Rightarrow> base_net option" where
  "new_base_net e peerId slot1 slot2 allowActivityTransfer allowDiagnosticTransfer =
     (if \<not> peerId < 999999999 then None
      else Some \<lparr>m_peerId = peerId, m_status = NET_STAT_INVALID, m_addr = \<lparr>sa_ip = [], sa_port = 0\<rparr>,
                 m_slot1 = slot1, m_slot2 = slot2,
                 m_allowActivityTransfer = allowActivityTransfer,
                 m_allowDiagnosticTransfer = allowDiagnosticTransfer,
                 m_frameQueue = \<lparr>m_buffers = [], m_streamTimestamps = Map.empty\<rparr>,
                 m_rxDMRData = new_ring 4000, m_rxP25Data = new_ring 4000, m_rxNXDNData = new_ring 4000,
                 m_dmrStreamId = [env_random e 0, env_random e 1], m_p25StreamId = env_random e 2,
                 m_nxdnStreamId = env_random e 3, m_pktSeq = 0, m_encoded = 0, m_drawn = 4, m_sent = []\<rparr>)"

section \<open>Operations\<close>

definition createStreamId :: "'e net_env_scheme \<Rightarrow> 'a base_net_scheme \<Rightarrow> u32 \<times> 'a base_net_scheme" where
  "createStreamId e s = (env_random e (m_drawn s), s\<lparr>m_drawn := m_drawn s + 1\<rparr>)"

definition net_enqueue ::
  "'e net_env_scheme \<Rightarrow> bytes \<Rightarrow> u32 \<Rightarrow> u32 \<Rightarrow> u32 \<Rightarrow> u8 \<times> u8 \<Rightarrow> u16 \<Rightarrow> sockaddr \<Rightarrow> 'a base_net_scheme \<Rightarrow> 'a base_net_scheme" where
  "net_enqueue e message streamId peerId ssrc opcode seq addr s =
     s\<lparr>m_frameQueue := enqueueMessage (env_since e (m_encoded s)) message streamId peerId ssrc opcode seq addr
                         (m_frameQueue s),
       m_encoded := m_encoded s + 1\<rparr>"

definition net_flush :: "'e net_env_scheme \<Rightarrow> 'a base_net_scheme \<Rightarrow> bool \<times> 'a base_net_scheme" where
  "net_flush e s =
     (let (ret, out, q) = flushQueue (env_written e) (m_frameQueue s)
      in (ret, s\<lparr>m_frameQueue := q, m_sent := m_sent s @ out\<rparr>))"

definition writeMaster ::
  "'e net_env_scheme \<Rightarrow> u8 \<times> u8 \<Rightarrow> bytes \<Rightarrow> u16 \<Rightarrow> u32 \<Rightarrow> bool \<Rightarrow> 'a base_net_scheme \<Rightarrow> bool \<times> 'a base_net_scheme" where
  "writeMaster e opcode data seq streamId queueOnly s =
     (let s = net_enqueue e data streamId (m_peerId s) (m_peerId s) opcode seq (m_addr s) s
      in if queueOnly then (True, s) else net_flush e s)"

definition pktSeq :: "bool \<Rightarrow> 'a base_net_scheme \<Rightarrow> u16 \<times> 'a base_net_scheme" where
  "pktSeq reset s =
     (let s = (if reset then s\<lparr>m_pktSeq := 0\<rparr> else s);
          curr = m_pktSeq s;
          s = s\<lparr>m_pktSeq := m_pktSeq s + 1\<rparr>;
          s = (if m_pktSeq s \<ge> RTP_END_OF_CALL_SEQ - 1 then s\<lparr>m_pktSeq := 0\<rparr> else s)
      in (curr, s))"

definition writeGrantReq ::
  "'e net_env_scheme \<Rightarrow> u8 \<Rightarrow> u32 \<Rightarrow> u32 \<Rightarrow> u8 \<Rightarrow> bool \<Rightarrow> 'a base_net_scheme \<Rightarrow> bool \<times> 'a base_net_scheme" where
  "writeGrantReq e mode srcId dstId slot unitToUnit s =
     (if \<not> net_running s then (False, s)
      else let buffer = replicate MSG_HDR_SIZE 0;
               buffer = SET_UINT32 srcId buffer 11;
               buffer = SET_UINT32 dstId buffer 15;
               buffer = buffer[19 := slot];
               buffer = (if unitToUnit then buffer[19 := buffer ! 19 OR 0x80] else buffer);
               buffer = buffer[20 := mode]
           in writeMaster e (NET_FUNC_GRANT_REQ, NET_SUBFUNC_NOP) buffer 0 0 False s)"

text \<open>
  The two log transfers.  The buffer is uninitialised memory (\<open>mem\<close>), \<open>message\<close> is the C
  string without its terminator; \<open>None\<close> is the copy past the end of the buffer.
\<close>

definition writeLog ::
  "'e net_env_scheme \<Rightarrow> u8 \<Rightarrow> bytes \<Rightarrow> bytes \<Rightarrow> 'a base_net_scheme \<Rightarrow> (bool \<times> 'a base_net_scheme) option" where
  "writeLog e subFunc mem message s =
     (if 11 + length message + 1 > DATA_PACKET_LENGTH then None
      else let buffer = memcpy_at mem 11 (message @ [0])
           in Some (writeMaster e (NET_FUNC_TRANSFER, subFunc) (take (length message + 12) buffer) 0 0 False s))"

definition writeActLog ::
  "'e net_env_scheme \<Rightarrow> bytes \<Rightarrow> bytes \<Rightarrow> 'a base_net_scheme \<Rightarrow> (bool \<times> 'a base_net_scheme) option" where
  "writeActLog e mem message s =
     (if \<not> net_running s then Some (False, s)
      else if \<not> m_allowActivityTransfer s then Some (False, s)
      else writeLog e NET_TRANSFER_SUBFUNC_ACTIVITY mem message s)"

definition writeDiagLog ::
  "'e net_env_scheme \<Rightarrow> bytes \<Rightarrow> bytes \<Rightarrow> 'a base_net_scheme \<Rightarrow> (bool \<times> 'a base_net_scheme) option" where
  "writeDiagLog e mem message s =
     (if \<not> net_running s then Some (False, s)
      else if \<not> m_allowDiagnosticTransfer s then Some (False, s)
      else writeLog e NET_TRANSFER_SUBFUNC_DIAG mem message s)"

text \<open>\<open>None\<close> is the failing assertion on the slot number.\<close>

definition base_resetDMR :: "'e net_env_scheme \<Rightarrow> u32 \<Rightarrow> 'a base_net_scheme \<Rightarrow> 'a base_net_scheme option" where
  "base_resetDMR e slotNo s =
     (if \<not> (slotNo = 1 \<or> slotNo = 2) then None
      else let (newId, s) = createStreamId e s;
               s = (if slotNo = 1 then s\<lparr>m_dmrStreamId := (m_dmrStreamId s)[0 := newId]\<rparr>
                    else s\<lparr>m_dmrStreamId := (m_dmrStreamId s)[1 := newId]\<rparr>)
           in Some (s\<lparr>m_pktSeq := 0, m_rxDMRData := clear (m_rxDMRData s)\<rparr>))"

definition base_resetP25 :: "'e net_env_scheme \<Rightarrow> 'a base_net_scheme \<Rightarrow> 'a base_net_scheme" where
  "base_resetP25 e s =
     (let (newId, s) = createStreamId e s
      in s\<lparr>m_p25StreamId := newId, m_pktSeq := 0, m_rxP25Data := clear (m_rxP25Data s)\<rparr>)"

definition base_resetNXDN :: "'e net_env_scheme \<Rightarrow> 'a base_net_scheme \<Rightarrow> 'a base_net_scheme" where
  "base_resetNXDN e s =
     (let (newId, s) = createStreamId e s
      in s\<lparr>m_nxdnStreamId := newId, m_pktSeq := 0, m_rxNXDNData := clear (m_rxNXDNData s)\<rparr>)"

definition getDMRStreamId :: "u32 \<Rightarrow> 'a base_net_scheme \<Rightarrow> u32 option" where
  "getDMRStreamId slotNo s =
     (if \<not> (slotNo = 1 \<or> slotNo = 2) then None
      else if slotNo = 1 then Some (m_dmrStreamId s ! 0) else Some (m_dmrStreamId s ! 1))"

section \<open>The DMR message\<close>

definition DT_VOICE_PI_HEADER :: u8 where "DT_VOICE_PI_HEADER = 0x00"
definition DT_VOICE_LC_HEADER :: u8 where "DT_VOICE_LC_HEADER = 0x01"
definition DT_TERMINATOR_WITH_LC :: u8 where "DT_TERMINATOR_WITH_LC = 0x02"
definition DT_CSBK :: u8 where "DT_CSBK = 0x03"
definition DT_DATA_HEADER :: u8 where "DT_DATA_HEADER = 0x06"
definition DT_VOICE_SYNC :: u8 where "DT_VOICE_SYNC = 0xF0"
definition DT_VOICE :: u8 where "DT_VOICE = 0xF1"
definition FLCO_GROUP :: u8 where "FLCO_GROUP = 0x00"
definition FLCO_PRIVATE :: u8 where "FLCO_PRIVATE = 0x03"

record dmr_data =
  d_slotNo :: u32
  d_srcId :: u32
  d_dstId :: u32
  d_flco :: u8
  d_n :: u8
  d_seqNo :: u8
  d_dataType :: u8
  d_ber :: u8
  d_rssi :: u8
  d_data :: bytes

definition new_dmr_data :: "bytes \<Rightarrow> dmr_data" where
  "new_dmr_data mem = \<lparr>d_slotNo = 1, d_srcId = 0, d_dstId = 0, d_flco = FLCO_GROUP, d_n = 0, d_seqNo = 0,
     d_dataType = 0, d_ber = 0, d_rssi = 0, d_data = mem\<rparr>"

definition dmr_setData :: "bytes \<Rightarrow> dmr_data \<Rightarrow> dmr_data" where
  "dmr_setData buffer d = d\<lparr>d_data := memcpy_at (d_data d) 0 (take DMR_FRAME_LENGTH_BYTES buffer)\<rparr>"

definition dmr_getData :: "dmr_data \<Rightarrow> bytes" where
  "dmr_getData d = take DMR_FRAME_LENGTH_BYTES (d_data d)"

text \<open>\<open>None\<close> is the null pointer returned for a slot that is switched off.\<close>

definition createDMR_Message :: "dmr_data \<Rightarrow> 'a base_net_scheme \<Rightarrow> bytes option" where
  "createDMR_Message d s =
     (let buffer = replicate (DMR_PACKET_LENGTH + PACKET_PAD) 0;
          buffer = memcpy_at buffer 0 [0x44, 0x4D, 0x52, 0x44];
          buffer = SET_UINT16 (d_srcId d) buffer 5;
          buffer = SET_UINT16 (d_dstId d) buffer 8;
          buffer = buffer[14 := 0]
      in if d_slotNo d = 1 \<and> \<not> m_slot1 s then None
         else if d_slotNo d = 2 \<and> \<not> m_slot2 s then None
         else let buffer = buffer[15 := if d_slotNo d = 1 then 0x00 else 0x80];
                  buffer = buffer[15 := buffer ! 15 OR (if d_flco d = FLCO_GROUP then 0x00 else 0x40)];
                  buffer = (if d_dataType d = DT_VOICE_SYNC then buffer[15 := buffer ! 15 OR 0x10]
                            else if d_dataType d = DT_VOICE then buffer[15 := buffer ! 15 OR d_n d]
                            else buffer[15 := buffer ! 15 OR (0x20 OR d_dataType d)]);
                  buffer = buffer[4 := d_seqNo d];
                  buffer = buffer[53 := d_ber d, 54 := d_rssi d]
              in Some (memcpy_at buffer 20 (dmr_getData d)))"

text \<open>\<open>None\<close> is the write past the two stream IDs, for a slot number other than 1 and 2.\<close>

definition writeDMR ::
  "'e net_env_scheme \<Rightarrow> dmr_data \<Rightarrow> bool \<Rightarrow> 'a base_net_scheme \<Rightarrow> (bool \<times> 'a base_net_scheme) option" where
  "writeDMR e d noSequence s =
     (if \<not> net_running s then Some (False, s)
      else if d_slotNo d = 1 \<and> \<not> m_slot1 s then Some (False, s)
      else if d_slotNo d = 2 \<and> \<not> m_slot2 s then Some (False, s)
      else if \<not> (d_slotNo d = 1 \<or> d_slotNo d = 2) then None
      else let slotIndex = unat (d_slotNo d - 1);
               fresh = (\<lambda>s. let (newId, s) = createStreamId e s
                            in s\<lparr>m_dmrStreamId := (m_dmrStreamId s)[slotIndex := newId]\<rparr>);
               (resetSeq, s) = (if d_dataType d = DT_VOICE_LC_HEADER then (True, fresh s) else (False, s));
               (resetSeq, s) = (if d_dataType d = DT_CSBK \<or> d_dataType d = DT_DATA_HEADER then (True, fresh s)
                                else (resetSeq, s))
           in case createDMR_Message d s of
                None \<Rightarrow> Some (False, s)
              | Some message \<Rightarrow>
                  let (seq, s) = pktSeq resetSeq s;
                      seq = (if d_dataType d = DT_TERMINATOR_WITH_LC then RTP_END_OF_CALL_SEQ else seq);
                      seq = (if noSequence then RTP_END_OF_CALL_SEQ else seq)
                  in Some (writeMaster e (NET_FUNC_PROTOCOL, NET_PROTOCOL_SUBFUNC_DMR) message seq
                             (m_dmrStreamId s ! slotIndex) False s))"

section \<open>Sequence numbers\<close>

text \<open>The counter never reaches the two reserved values.\<close>

lemma pktSeq_bound:
  assumes "m_pktSeq s < 65534"
  shows "fst (pktSeq reset s) < 65534 \<and> m_pktSeq (snd (pktSeq reset s)) < 65534"
proof -
  have "x + 1 < (65534 :: u16)" if "x < 65534" "\<not> 65534 \<le> x + 1" for x :: u16 using that by simp
  then show ?thesis
    using assms by (auto simp: pktSeq_def Let_def RTP_END_OF_CALL_SEQ_def not_le)
qed

fun seqs :: "nat \<Rightarrow> 'a base_net_scheme \<Rightarrow> u16 list" where
  "seqs 0 s = []"
| "seqs (Suc n) s = fst (pktSeq False s) # seqs n (snd (pktSeq False s))"

lemma pktSeq_step:
  assumes "m_pktSeq s = of_nat k" "k < 65534"
  shows "fst (pktSeq False s) = of_nat k" "m_pktSeq (snd (pktSeq False s)) = of_nat (Suc k mod 65534)"
proof -
  show "fst (pktSeq False s) = of_nat k" using assms(1) by (simp add: pktSeq_def Let_def)
  show "m_pktSeq (snd (pktSeq False s)) = of_nat (Suc k mod 65534)"
  proof (cases "Suc k = 65534")
    case True
    then have k: "k = 65533" by simp
    show ?thesis using assms(1) unfolding k by (simp add: pktSeq_def Let_def RTP_END_OF_CALL_SEQ_def)
  next
    case False
    then have "Suc k < 65534" using assms(2) by simp
    then have "unat (of_nat (Suc k) :: u16) = Suc k" by (simp only: unat_of_nat) (simp add: take_bit_nat_eq_self)
    then have "unat (of_nat k + 1 :: u16) = Suc k" by (simp add: add.commute)
    then have "\<not> (65534 :: u16) \<le> of_nat k + 1" using \<open>Suc k < 65534\<close> by (simp add: word_le_nat_alt)
    then show ?thesis
      using assms(1) \<open>Suc k < 65534\<close> by (simp add: pktSeq_def Let_def RTP_END_OF_CALL_SEQ_def add.commute)
  qed
qed

text \<open>
  C38. The sequence numbers of a call count up by one and wrap from 65533 to 0, so the values the
  protocol reserves for the end of a call are never used for a packet within it.
\<close>

theorem sequence_numbers:
  assumes "m_pktSeq s = of_nat k" "k < 65534"
  shows "seqs n s = map (\<lambda>i. of_nat ((k + i) mod 65534)) [0..<n] \<and> RTP_END_OF_CALL_SEQ \<notin> set (seqs n s)"
proof -
  have e: "seqs n s = map (\<lambda>i. of_nat ((k + i) mod 65534)) [0..<n]"
    using assms
  proof (induction n arbitrary: s k)
    case 0
    then show ?case by simp
  next
    case (Suc n)
    note p = pktSeq_step [OF Suc.prems]
    have "seqs n (snd (pktSeq False s)) = map (\<lambda>i. of_nat ((Suc k mod 65534 + i) mod 65534)) [0..<n]"
      by (rule Suc.IH [OF p(2)]) simp
    also have "\<dots> = map (\<lambda>i. of_nat ((k + Suc i) mod 65534)) [0..<n]"
      by (simp add: mod_add_left_eq)
    finally show ?case
      using p(1) Suc.prems(2) by (simp add: map_upt_Suc del: upt_Suc)
  qed
  have "RTP_END_OF_CALL_SEQ \<noteq> of_nat (j mod 65534)" for j :: nat
  proof
    assume "RTP_END_OF_CALL_SEQ = of_nat (j mod 65534)"
    then have "unat (65535 :: u16) = unat (of_nat (j mod 65534) :: u16)" by (simp add: RTP_END_OF_CALL_SEQ_def)
    moreover have "j mod 65534 < 65534" by simp
    ultimately show False by (simp add: unat_of_nat take_bit_nat_eq_self)
  qed
  then show ?thesis unfolding e by auto
qed

theorem sequence_numbers_witness:
  "\<forall>e. \<exists>s. new_base_net e 1 True True False False = Some s \<and> RTP_END_OF_CALL_SEQ \<notin> set (seqs 70000 s)"
proof
  fix e
  obtain s where s: "new_base_net e 1 True True False False = Some s" "m_pktSeq s = of_nat 0"
    by (simp add: new_base_net_def)
  have "RTP_END_OF_CALL_SEQ \<notin> set (seqs 70000 s)"
    by (rule conjunct2 [OF sequence_numbers [OF s(2)]]) simp
  with s(1) show "\<exists>s. new_base_net e 1 True True False False = Some s \<and> RTP_END_OF_CALL_SEQ \<notin> set (seqs 70000 s)"
    by (intro exI conjI)
qed

end
