(* ===== verification/FNEState.thy ===== *)
theory FNEState
  imports BaseNetwork Lookups "HOL-Library.Monad_Syntax"
begin

text \<open>
  The state of the FNE (\<^verbatim>\<open>src/src/fne/network/FNENetwork.h\<close>) and its writes to peers
  (\<^verbatim>\<open>FNENetwork.cpp\<close>, from \<open>writeWhitelistRIDs\<close> on): the lists of radios and talkgroups,
  data messages, commands, acknowledgements and refusals.  A connection is a value of the
  table \<open>m_peers\<close>: the code keeps pointers, but each connection is reached through its own
  entry only, and no entry is null.  \<open>None\<close> is a failing assertion or a copy
  past the end of a buffer.  A walk over an unordered map takes the order of the keys from the
  environment.  The boolean results of the writes, which no caller reads, are left out where
  they would only be threaded through.
\<close>

section \<open>State\<close>

record peer_conn =
  p_id :: u32
  currStreamId :: u32
  p_addr :: sockaddr
  p_salt :: u32
  connected :: bool
  connectionState :: NET_CONN_STATUS
  pingsReceived :: u32
  lastPing :: u64
  p_config :: bytes
  pktLastSeq :: u16
  pktNextSeq :: u16

text \<open>\<open>None\<close> is a failing assertion of the constructor.\<close>

definition new_peer_conn :: "u32 \<Rightarrow> sockaddr \<Rightarrow> peer_conn option" where
  "new_peer_conn peerId addr =
     (if \<not> peerId > 0 \<or> sa_ip addr = [] \<or> \<not> sa_port addr > 0 then None
      else Some \<lparr>p_id = peerId, currStreamId = 0, p_addr = addr, p_salt = 0, connected = False,
                 connectionState = NET_STAT_INVALID, pingsReceived = 0, lastPing = 0, p_config = [],
                 pktLastSeq = 0, pktNextSeq = 1\<rparr>)"

text \<open>
  The FNE extends the base state.  \<open>fne_status\<close> is its own \<open>m_status\<close>, which hides the base
  class's; \<open>m_tags\<close> is the state of the three traffic handlers.
\<close>

record 'h fne = base_net +
  fne_status :: NET_CONN_STATUS
  m_password :: bytes
  m_dmrEnabled :: bool
  m_p25Enabled :: bool
  m_nxdnEnabled :: bool
  m_pingTime :: u32
  m_maxMissedPings :: u32
  m_ridLookup :: rid_table
  m_tidLookup :: tg_rules
  m_sendTalkgroups :: bool
  m_peers :: "u32 \<rightharpoonup> peer_conn"
  m_maintainenceTimer :: timer
  m_updateLookupTimer :: timer
  m_forceListUpdate :: bool
  m_callInProgress :: bool
  m_tags :: 'h

text \<open>What the JSON parser makes of a text: an error, a value that is not an object, an object.\<close>

datatype json_result = Json_error | Json_value | Json_object

record fne_env = net_env +
  env_peers :: "u32 list"
  env_rids :: "u32 list"
  env_json :: "bytes \<Rightarrow> json_result"

definition put_peer :: "u32 \<Rightarrow> peer_conn \<Rightarrow> 'h fne \<Rightarrow> 'h fne" where
  "put_peer peerId c s = s\<lparr>m_peers := (m_peers s)(peerId \<mapsto> c)\<rparr>"

definition erase_peer :: "u32 \<Rightarrow> 'h fne \<Rightarrow> 'h fne" where
  "erase_peer peerId s = s\<lparr>m_peers := (m_peers s)(peerId := None)\<rparr>"

section \<open>Writing to a peer\<close>

text \<open>
  The two overloads of \<open>writePeer\<close>: with a sequence number, and with the sequence number of the
  connection.
\<close>

definition writePeerSeq ::
  "'e net_env_scheme \<Rightarrow> u32 \<Rightarrow> u8 \<times> u8 \<Rightarrow> bytes \<Rightarrow> u16 \<Rightarrow> u32 \<Rightarrow> bool \<Rightarrow> 'h fne \<Rightarrow> bool \<times> 'h fne" where
  "writePeerSeq e peerId opcode data seq streamId queueOnly s =
     (case m_peers s peerId of
        None \<Rightarrow> (False, s)
      | Some c \<Rightarrow>
          let streamId = (if streamId = 0 then currStreamId c else streamId);
              s = net_enqueue e data streamId peerId (m_peerId s) opcode seq (p_addr c) s
          in if queueOnly then (True, s) else net_flush e s)"

definition writePeer ::
  "'e net_env_scheme \<Rightarrow> u32 \<Rightarrow> u8 \<times> u8 \<Rightarrow> bytes \<Rightarrow> u32 \<Rightarrow> bool \<Rightarrow> bool \<Rightarrow> 'h fne \<Rightarrow> bool \<times> 'h fne" where
  "writePeer e peerId opcode data streamId queueOnly incPktSeq s =
     (case m_peers s peerId of
        None \<Rightarrow> (False, s)
      | Some c \<Rightarrow>
          let c = (if incPktSeq then c\<lparr>pktLastSeq := pktLastSeq c + 1\<rparr> else c)
          in writePeerSeq e peerId opcode data (pktLastSeq c) streamId queueOnly (put_peer peerId c s))"

text \<open>The packet buffer with \<open>data\<close> after its six-byte header.\<close>

definition command_buffer :: "bytes \<Rightarrow> bytes" where
  "command_buffer data = memcpy_at (replicate DATA_PACKET_LENGTH 0) 6 data"

definition writePeerCommand ::
  "'e net_env_scheme \<Rightarrow> u32 \<Rightarrow> u8 \<times> u8 \<Rightarrow> bytes \<Rightarrow> bool \<Rightarrow> bool \<Rightarrow> 'h fne \<Rightarrow> 'h fne option" where
  "writePeerCommand e peerId opcode data queueOnly incPktSeq s =
     (if \<not> peerId > 0 then None
      else if 6 + length data > DATA_PACKET_LENGTH then None
      else Some (snd (writePeer e peerId opcode (take (length data + 6) (command_buffer data)) 0 queueOnly incPktSeq s)))"

text \<open>
  The acknowledgement and the refusal pass \<open>RTP_END_OF_CALL_SEQ\<close> as the fifth argument.  The
  overload that fits has the stream ID there, so the reserved sequence number is sent as the
  stream ID.
\<close>

definition writePeerACK :: "'e net_env_scheme \<Rightarrow> u32 \<Rightarrow> bytes \<Rightarrow> 'h fne \<Rightarrow> 'h fne option" where
  "writePeerACK e peerId data s =
     (if 10 + length data > DATA_PACKET_LENGTH then None
      else Some (snd (writePeer e peerId (NET_FUNC_ACK, NET_SUBFUNC_NOP) (take (length data + 10) (command_buffer data))
             (ucast RTP_END_OF_CALL_SEQ) False True s)))"

definition nak_message :: "u32 \<Rightarrow> bytes" where
  "nak_message peerId = take 10 (SET_UINT32 peerId (replicate DATA_PACKET_LENGTH 0) 6)"

definition writePeerNAK :: "'e net_env_scheme \<Rightarrow> u32 \<Rightarrow> 'h fne \<Rightarrow> 'h fne option" where
  "writePeerNAK e peerId s =
     (if \<not> peerId > 0 then None
      else Some (snd (writePeer e peerId (NET_FUNC_NAK, NET_SUBFUNC_NOP) (nak_message peerId)
             (ucast RTP_END_OF_CALL_SEQ) False True s)))"

definition writeAddrNAK :: "'e net_env_scheme \<Rightarrow> u32 \<Rightarrow> sockaddr \<Rightarrow> 'h fne \<Rightarrow> 'h fne option" where
  "writeAddrNAK e peerId addr s =
     (if \<not> peerId > 0 then None
      else let (newId, s) = createStreamId e s;
               s = net_enqueue e (nak_message peerId) newId peerId (m_peerId s) (NET_FUNC_NAK, NET_SUBFUNC_NOP) 0 addr s
           in Some (snd (net_flush e s)))"

section \<open>The lists sent to peers\<close>

fun put_ids :: "u32 list \<Rightarrow> nat \<Rightarrow> bytes \<Rightarrow> bytes" where
  "put_ids [] offs payload = payload"
| "put_ids (i # ids) offs payload = put_ids ids (offs + 4) (SET_UINT32 i payload offs)"

definition rid_payload :: "u32 list \<Rightarrow> bytes" where
  "rid_payload ids =
     put_ids ids 4 (SET_UINT32 (of_nat (length ids)) (replicate (4 + length ids * 4) 0) 0)"

definition enabled_rids :: "bool \<Rightarrow> u32 list \<Rightarrow> rid_table \<Rightarrow> u32 list" where
  "enabled_rids flag walk m =
     filter (\<lambda>i. case m i of None \<Rightarrow> False | Some r \<Rightarrow> m_radioEnabled r = flag) walk"

definition writeWhitelistRIDs :: "'e fne_env_scheme \<Rightarrow> u32 \<Rightarrow> bool \<Rightarrow> 'h fne \<Rightarrow> 'h fne option" where
  "writeWhitelistRIDs e peerId queueOnly s =
     (let ridWhitelist = enabled_rids True (env_rids e) (m_ridLookup s)
      in if length ridWhitelist = 0 then Some s
         else writePeerCommand e peerId (NET_FUNC_MASTER, NET_MASTER_SUBFUNC_WL_RID)
                (rid_payload ridWhitelist) queueOnly True s)"

definition writeBlacklistRIDs :: "'e fne_env_scheme \<Rightarrow> u32 \<Rightarrow> bool \<Rightarrow> 'h fne \<Rightarrow> 'h fne option" where
  "writeBlacklistRIDs e peerId queueOnly s =
     (let ridBlacklist = enabled_rids False (env_rids e) (m_ridLookup s)
      in if length ridBlacklist = 0 then Some s
         else writePeerCommand e peerId (NET_FUNC_MASTER, NET_MASTER_SUBFUNC_BL_RID)
                (rid_payload ridBlacklist) queueOnly True s)"

text \<open>Whether a rule's inclusion and exclusion lists let the peer have the talkgroup.\<close>

definition tg_for_peer :: "u32 \<Rightarrow> tg_rule \<Rightarrow> bool" where
  "tg_for_peer peerId entry =
     (let inclusion = m_inclusion (m_config entry); exclusion = m_exclusion (m_config entry)
      in if length inclusion > 0 then peerId \<in> set inclusion
         else if length exclusion > 0 then peerId \<notin> set exclusion
         else True)"

definition tgid_list :: "u32 \<Rightarrow> bool \<Rightarrow> tg_rules \<Rightarrow> (u32 \<times> u8) list" where
  "tgid_list peerId flag rules =
     map (\<lambda>entry. (m_tgId (m_source entry), m_tgSlot (m_source entry)))
       (filter (\<lambda>entry. tg_for_peer peerId entry \<and> m_active (m_config entry) = flag) rules)"

fun put_tgs :: "(u32 \<times> u8) list \<Rightarrow> nat \<Rightarrow> bytes \<Rightarrow> bytes" where
  "put_tgs [] offs payload = payload"
| "put_tgs ((tg, slot) # tgs) offs payload =
     put_tgs tgs (offs + 5) ((SET_UINT32 tg payload offs)[offs + 4 := slot])"

definition tg_payload :: "(u32 \<times> u8) list \<Rightarrow> bytes" where
  "tg_payload tgs = put_tgs tgs 4 (SET_UINT32 (of_nat (length tgs)) (replicate (4 + length tgs * 5) 0) 0)"

definition writeTGIDs :: "'e fne_env_scheme \<Rightarrow> u32 \<Rightarrow> bool \<Rightarrow> 'h fne \<Rightarrow> 'h fne option" where
  "writeTGIDs e peerId queueOnly s =
     (if \<not> m_sendTalkgroups s then Some s
      else writePeerCommand e peerId (NET_FUNC_MASTER, NET_MASTER_SUBFUNC_ACTIVE_TGS)
             (tg_payload (tgid_list peerId True (m_tidLookup s))) queueOnly True s)"

definition writeDeactiveTGIDs :: "'e fne_env_scheme \<Rightarrow> u32 \<Rightarrow> bool \<Rightarrow> 'h fne \<Rightarrow> 'h fne option" where
  "writeDeactiveTGIDs e peerId queueOnly s =
     (if \<not> m_sendTalkgroups s then Some s
      else writePeerCommand e peerId (NET_FUNC_MASTER, NET_MASTER_SUBFUNC_DEACTIVE_TGS)
             (tg_payload (tgid_list peerId False (m_tidLookup s))) queueOnly True s)"

text \<open>The loops over all peers; peers erased in the same call have left the walk.\<close>

fun for_peers :: "(u32 \<Rightarrow> 'h fne \<Rightarrow> 'h fne option) \<Rightarrow> u32 list \<Rightarrow> 'h fne \<Rightarrow> 'h fne option" where
  "for_peers f [] s = Some s"
| "for_peers f (p # ps) s = Option.bind (f p s) (for_peers f ps)"

definition peer_walk :: "'e fne_env_scheme \<Rightarrow> 'h fne \<Rightarrow> u32 list" where
  "peer_walk e s = filter (\<lambda>p. m_peers s p \<noteq> None) (env_peers e)"

definition writeAllWhitelistRIDs :: "'e fne_env_scheme \<Rightarrow> 'h fne \<Rightarrow> 'h fne option" where
  "writeAllWhitelistRIDs e s =
     (if m_ridLookup s = Map.empty then Some s
      else for_peers (\<lambda>p. writeWhitelistRIDs e p True) (peer_walk e s) s)"

definition writeAllBlacklistRIDs :: "'e fne_env_scheme \<Rightarrow> 'h fne \<Rightarrow> 'h fne option" where
  "writeAllBlacklistRIDs e s =
     (if m_ridLookup s = Map.empty then Some s
      else for_peers (\<lambda>p. writeBlacklistRIDs e p True) (peer_walk e s) s)"

definition writeAllTGIDs :: "'e fne_env_scheme \<Rightarrow> 'h fne \<Rightarrow> 'h fne option" where
  "writeAllTGIDs e s = for_peers (\<lambda>p. writeTGIDs e p True) (peer_walk e s) s"

definition writeAllDeactiveTGIDs :: "'e fne_env_scheme \<Rightarrow> 'h fne \<Rightarrow> 'h fne option" where
  "writeAllDeactiveTGIDs e s = for_peers (\<lambda>p. writeDeactiveTGIDs e p True) (peer_walk e s) s"

end
