(* ===== verification/FNENetwork.thy ===== *)
theory FNENetwork
  imports FNEState SHA256
begin

text \<open>
  The message handlers and the clock of the FNE, \<^verbatim>\<open>src/src/fne/network/FNENetwork.cpp\<close>: the
  login in three messages (\<open>RPTL\<close>, \<open>RPTK\<close>, \<open>RPTC\<close>), closing, ping, grant request, log
  transfer, call data, the maintenance of quiet peers and the periodic lists.  The traffic
  handlers of the three protocols are an argument (\<open>traffic\<close>); the theory \<open>TagDMR\<close> models DMR's.
  The datagram the socket delivered, if any, is an argument of \<open>fneClock\<close>.
\<close>

section \<open>The login\<close>

definition handleRPTL :: "'e fne_env_scheme \<Rightarrow> sockaddr \<Rightarrow> u32 \<Rightarrow> u32 \<Rightarrow> 'h fne \<Rightarrow> 'h fne option" where
  "handleRPTL e addr peerId streamId s =
     (if peerId > 0 \<and> m_peers s peerId = None
      then do {
        c \<leftarrow> new_peer_conn peerId addr;
        let (salt, s) = createStreamId e s;
        let c = c\<lparr>lastPing := env_now e, currStreamId := streamId, p_salt := salt,
                 connectionState := NET_STAT_WAITING_AUTHORISATION\<rparr>;
        writePeerACK e peerId (SET_UINT32 salt (replicate 4 0) 0) (put_peer peerId c s)
      }
      else do {
        s \<leftarrow> writeAddrNAK e peerId addr s;
        Some (case (if peerId > 0 then m_peers s peerId else None) of
                None \<Rightarrow> s
              | Some c \<Rightarrow>
                  let c = c\<lparr>lastPing := env_now e\<rparr>; s = put_peer peerId c s
                  in if connectionState c \<noteq> NET_STAT_RUNNING then erase_peer peerId s else s)
      })"

text \<open>
  The hash both sides compute, of the salt and the password.  What the hash object's memory
  held before does not matter (\<open>sha256_is_standard\<close>).
\<close>

definition auth_hash :: "bytes \<Rightarrow> bytes \<Rightarrow> bytes" where
  "auth_hash salt password = sha_buffer (salt @ password) (new_sha256 (replicate 128 0))"

definition salt_bytes :: "u32 \<Rightarrow> bytes" where
  "salt_bytes salt = SET_UINT32 salt (replicate 4 0) 0"

definition hash_valid :: "bytes \<Rightarrow> bytes \<Rightarrow> bool" where
  "hash_valid hash out = (length hash = 32 \<and> list_all (\<lambda>i. hash ! i = out ! i) [0..<32])"

text \<open>
  After a failed hash the entry is erased and then written back.  A message of fewer than
  eight bytes makes the length of the hash negative.
\<close>

definition handleRPTK :: "'e fne_env_scheme \<Rightarrow> sockaddr \<Rightarrow> u32 \<Rightarrow> bytes \<Rightarrow> 'h fne \<Rightarrow> 'h fne option" where
  "handleRPTK e addr peerId message s =
     (case (if peerId > 0 then m_peers s peerId else None) of
        None \<Rightarrow> writeAddrNAK e peerId addr s
      | Some c \<Rightarrow>
          let c = c\<lparr>lastPing := env_now e\<rparr>; s = put_peer peerId c s
          in if connectionState c = NET_STAT_WAITING_AUTHORISATION
             then if length message < 8 then None
                  else if hash_valid (drop 8 message) (auth_hash (salt_bytes (p_salt c)) (m_password s))
                  then writePeerACK e peerId [] (put_peer peerId (c\<lparr>connectionState := NET_STAT_WAITING_CONFIG\<rparr>) s)
                  else do {
                    s \<leftarrow> writePeerNAK e peerId s;
                    let connection = m_peers s peerId;
                    let s = erase_peer peerId s;
                    Some (s\<lparr>m_peers := (m_peers s)(peerId := connection)\<rparr>)
                  }
             else do {
               s \<leftarrow> writePeerNAK e peerId s;
               Some (erase_peer peerId s)
             })"

definition sendLists :: "'e fne_env_scheme \<Rightarrow> u32 \<Rightarrow> 'h fne \<Rightarrow> 'h fne option" where
  "sendLists e peerId s =
     do {
       s \<leftarrow> writeWhitelistRIDs e peerId True s;
       s \<leftarrow> writeBlacklistRIDs e peerId True s;
       let s = snd (net_flush e s);
       s \<leftarrow> writeTGIDs e peerId True s;
       s \<leftarrow> writeDeactiveTGIDs e peerId True s;
       Some (snd (net_flush e s))
     }"

definition handleRPTC :: "'e fne_env_scheme \<Rightarrow> sockaddr \<Rightarrow> u32 \<Rightarrow> bytes \<Rightarrow> 'h fne \<Rightarrow> 'h fne option" where
  "handleRPTC e addr peerId message s =
     (case (if peerId > 0 then m_peers s peerId else None) of
        None \<Rightarrow> writeAddrNAK e peerId addr s
      | Some c \<Rightarrow>
          let c = c\<lparr>lastPing := env_now e\<rparr>; s = put_peer peerId c s
          in if connectionState c = NET_STAT_WAITING_CONFIG
             then if length message < 8 then None
                  else if env_json e (drop 8 message) \<noteq> Json_object
                  then do {
                    s \<leftarrow> writePeerNAK e peerId s;
                    Some (erase_peer peerId s)
                  }
                  else do {
                    let c = c\<lparr>p_config := drop 8 message, connectionState := NET_STAT_RUNNING, connected := True,
                             pingsReceived := 0, lastPing := env_now e\<rparr>;
                    s \<leftarrow> writePeerACK e peerId [] (put_peer peerId c s);
                    sendLists e peerId s
                  }
             else do {
               s \<leftarrow> writePeerNAK e peerId s;
               Some (erase_peer peerId s)
             })"

section \<open>The other messages\<close>

text \<open>The check the code calls simple validation: connected, and from the same address.\<close>

definition valid_peer :: "sockaddr \<Rightarrow> peer_conn \<Rightarrow> bool" where
  "valid_peer addr c = (connected c \<and> sa_ip (p_addr c) = sa_ip addr)"

definition handleClosing :: "sockaddr \<Rightarrow> u32 \<Rightarrow> 'h fne \<Rightarrow> 'h fne" where
  "handleClosing addr peerId s =
     (case (if peerId > 0 then m_peers s peerId else None) of
        None \<Rightarrow> s
      | Some c \<Rightarrow> if valid_peer addr c then erase_peer peerId s else s)"

definition handlePing :: "'e fne_env_scheme \<Rightarrow> sockaddr \<Rightarrow> u32 \<Rightarrow> 'h fne \<Rightarrow> 'h fne option" where
  "handlePing e addr peerId s =
     (case (if peerId > 0 then m_peers s peerId else None) of
        None \<Rightarrow> Some s
      | Some c \<Rightarrow>
          if valid_peer addr c
          then let c = c\<lparr>pingsReceived := pingsReceived c + 1, lastPing := env_now e, pktLastSeq := pktLastSeq c + 1\<rparr>
               in writePeerCommand e peerId (NET_FUNC_PONG, NET_SUBFUNC_NOP) [] False False (put_peer peerId c s)
          else writePeerNAK e peerId s)"

definition handleGrantReq :: "'e fne_env_scheme \<Rightarrow> sockaddr \<Rightarrow> u32 \<Rightarrow> 'h fne \<Rightarrow> 'h fne option" where
  "handleGrantReq e addr peerId s =
     (case (if peerId > 0 then m_peers s peerId else None) of
        None \<Rightarrow> Some s
      | Some c \<Rightarrow> if valid_peer addr c then Some s else writePeerNAK e peerId s)"

text \<open>The transfers write the payload to a log; a message of fewer than eleven bytes has none.\<close>

definition handleTransfer ::
  "'e fne_env_scheme \<Rightarrow> sockaddr \<Rightarrow> u32 \<Rightarrow> u8 \<Rightarrow> bytes \<Rightarrow> 'h fne \<Rightarrow> 'h fne option" where
  "handleTransfer e addr peerId subFunc message s =
     (if (subFunc = NET_TRANSFER_SUBFUNC_ACTIVITY \<and> m_allowActivityTransfer s) \<or>
         (subFunc = NET_TRANSFER_SUBFUNC_DIAG \<and> m_allowDiagnosticTransfer s)
      then case (if peerId > 0 then m_peers s peerId else None) of
             None \<Rightarrow> Some s
           | Some c \<Rightarrow>
               if valid_peer addr c then if length message < 11 then None else Some s
               else writePeerNAK e peerId s
      else Some s)"

record ('e, 'h) traffic =
  on_dmr :: "'e fne_env_scheme \<Rightarrow> bytes \<Rightarrow> u32 \<Rightarrow> u16 \<Rightarrow> u32 \<Rightarrow> 'h fne \<Rightarrow> 'h fne option"
  on_p25 :: "'e fne_env_scheme \<Rightarrow> bytes \<Rightarrow> u32 \<Rightarrow> u16 \<Rightarrow> u32 \<Rightarrow> 'h fne \<Rightarrow> 'h fne option"
  on_nxdn :: "'e fne_env_scheme \<Rightarrow> bytes \<Rightarrow> u32 \<Rightarrow> u16 \<Rightarrow> u32 \<Rightarrow> 'h fne \<Rightarrow> 'h fne option"
  on_idle :: "'e fne_env_scheme \<Rightarrow> 'h fne \<Rightarrow> 'h fne option"

definition handleProtocol ::
  "('e, 'h) traffic \<Rightarrow> 'e fne_env_scheme \<Rightarrow> sockaddr \<Rightarrow> u32 \<Rightarrow> u8 \<Rightarrow> u16 \<Rightarrow> u32 \<Rightarrow> bytes \<Rightarrow> 'h fne \<Rightarrow> 'h fne option" where
  "handleProtocol h e addr peerId subFunc seq streamId message s =
     (let process = (if subFunc = NET_PROTOCOL_SUBFUNC_DMR then Some (m_dmrEnabled s, on_dmr h)
                     else if subFunc = NET_PROTOCOL_SUBFUNC_P25 then Some (m_p25Enabled s, on_p25 h)
                     else if subFunc = NET_PROTOCOL_SUBFUNC_NXDN then Some (m_nxdnEnabled s, on_nxdn h)
                     else None)
      in case process of
           None \<Rightarrow> Some s
         | Some (enabled, f) \<Rightarrow>
             (case (if peerId > 0 then m_peers s peerId else None) of
                None \<Rightarrow> Some s
              | Some c \<Rightarrow> if valid_peer addr c \<and> enabled then f e message peerId seq streamId s else Some s))"

section \<open>The clock\<close>

definition updateSequence :: "u32 \<Rightarrow> u32 \<Rightarrow> u16 \<Rightarrow> 'h fne \<Rightarrow> 'h fne" where
  "updateSequence peerId streamId seq s =
     (case (if peerId > 0 \<and> streamId \<noteq> 0 then m_peers s peerId else None) of
        None \<Rightarrow> s
      | Some c \<Rightarrow>
          put_peer peerId
            (if seq = RTP_END_OF_CALL_SEQ then c\<lparr>pktLastSeq := seq, pktNextSeq := 0\<rparr>
             else c\<lparr>currStreamId := streamId, pktLastSeq := seq, pktNextSeq := seq + 1\<rparr>) s)"

definition handleMessage ::
  "('e, 'h) traffic \<Rightarrow> 'e fne_env_scheme \<Rightarrow> sockaddr \<Rightarrow> rtp_hdr \<Rightarrow> fne_hdr \<Rightarrow> bytes \<Rightarrow> 'h fne \<Rightarrow> 'h fne option" where
  "handleMessage h e addr rtp fne message s =
     (let peerId = m_hdrPeerId fne; streamId = m_streamId fne; func = m_func fne;
          s = updateSequence peerId streamId (m_seq rtp) s
      in if streamId = 0 \<and> func = NET_FUNC_PROTOCOL then Some s
         else if func = NET_FUNC_PROTOCOL
         then handleProtocol h e addr peerId (m_subFunc fne) (m_seq rtp) streamId message s
         else if func = NET_FUNC_RPTL then handleRPTL e addr peerId streamId s
         else if func = NET_FUNC_RPTK then handleRPTK e addr peerId message s
         else if func = NET_FUNC_RPTC then handleRPTC e addr peerId message s
         else if func = NET_FUNC_RPT_CLOSING then Some (handleClosing addr peerId s)
         else if func = NET_FUNC_PING then handlePing e addr peerId s
         else if func = NET_FUNC_GRANT_REQ then handleGrantReq e addr peerId s
         else if func = NET_FUNC_TRANSFER then handleTransfer e addr peerId (m_subFunc fne) message s
         else Some s)"

text \<open>A connected peer that has been quiet longer than the allowed pings.\<close>

definition quiet :: "'e fne_env_scheme \<Rightarrow> 'h fne \<Rightarrow> u32 \<Rightarrow> bool" where
  "quiet e s peerId =
     (case m_peers s peerId of
        None \<Rightarrow> False
      | Some c \<Rightarrow> connected c \<and> lastPing c + ucast (m_pingTime s * m_maxMissedPings s) < env_now e)"

definition maintain :: "'e fne_env_scheme \<Rightarrow> u32 \<Rightarrow> 'h fne \<Rightarrow> 'h fne" where
  "maintain e ms s =
     (let s = s\<lparr>m_maintainenceTimer := timerClock ms (m_maintainenceTimer s)\<rparr>
      in if isRunning (m_maintainenceTimer s) \<and> hasExpired (m_maintainenceTimer s)
         then let peersToRemove = filter (quiet e s) (peer_walk e s);
                  s = fold erase_peer peersToRemove s;
                  s = (if \<not> m_callInProgress s then s\<lparr>m_frameQueue := clearTimestamps (m_frameQueue s)\<rparr> else s)
              in s\<lparr>m_maintainenceTimer := timerStart (m_maintainenceTimer s)\<rparr>
         else s)"

definition updateLists :: "'e fne_env_scheme \<Rightarrow> u32 \<Rightarrow> 'h fne \<Rightarrow> 'h fne option" where
  "updateLists e ms s =
     (let s = s\<lparr>m_updateLookupTimer := timerClock ms (m_updateLookupTimer s)\<rparr>
      in if (isRunning (m_updateLookupTimer s) \<and> hasExpired (m_updateLookupTimer s)) \<or> m_forceListUpdate s
         then do {
           s \<leftarrow> writeAllWhitelistRIDs e s;
           s \<leftarrow> writeAllBlacklistRIDs e s;
           let s = snd (net_flush e s);
           s \<leftarrow> writeAllTGIDs e s;
           s \<leftarrow> writeAllDeactiveTGIDs e s;
           let s = snd (net_flush e s);
           Some (s\<lparr>m_updateLookupTimer := timerStart (m_updateLookupTimer s), m_forceListUpdate := False\<rparr>)
         }
         else Some s)"

definition receive ::
  "('e, 'h) traffic \<Rightarrow> 'e fne_env_scheme \<Rightarrow> (bytes \<times> sockaddr) option \<Rightarrow> 'h fne \<Rightarrow> 'h fne option" where
  "receive h e rx s =
     (case rx of
        None \<Rightarrow> on_idle h e s
      | Some (dgram, addr) \<Rightarrow>
          (case read_frame dgram of
             Overread \<Rightarrow> None
           | Rejected \<Rightarrow> on_idle h e s
           | Received rtp fne message \<Rightarrow>
               if length message > 0 then handleMessage h e addr rtp fne message s else on_idle h e s))"

definition fneClock ::
  "('e, 'h) traffic \<Rightarrow> 'e fne_env_scheme \<Rightarrow> u32 \<Rightarrow> (bytes \<times> sockaddr) option \<Rightarrow> 'h fne \<Rightarrow> 'h fne option" where
  "fneClock h e ms rx s =
     (if fne_status s \<noteq> NET_STAT_MST_RUNNING then Some s
      else do {
        s \<leftarrow> updateLists e ms (maintain e ms s);
        receive h e rx s
      })"

text \<open>
  The constructor (for a lookup update interval in minutes), opening and closing.  Timers whose
  assertion fails make the constructor fail.
\<close>

definition new_fne ::
  "'e fne_env_scheme \<Rightarrow> u32 \<Rightarrow> bytes \<Rightarrow> bool \<Rightarrow> bool \<Rightarrow> bool \<Rightarrow> bool \<Rightarrow> bool \<Rightarrow> u32 \<Rightarrow> u32 \<Rightarrow> u32 \<Rightarrow>
   rid_table \<Rightarrow> tg_rules \<Rightarrow> bool \<Rightarrow> 'h \<Rightarrow> 'h fne option" where
  "new_fne e peerId password dmr p25 nxdn allowActivity allowDiagnostic pingTime maxMissedPings updateLookupTime
     ridLookup tidLookup sendTalkgroups tags =
     (if password = [] then None
      else do {
        b \<leftarrow> new_base_net e peerId True True allowActivity allowDiagnostic;
        t1 \<leftarrow> new_timer_of 1000 pingTime 0;
        t2 \<leftarrow> new_timer_of 1000 (updateLookupTime * 60) 0;
        Some (base_net.extend b (fne.fields NET_STAT_INVALID password dmr p25 nxdn pingTime maxMissedPings
                ridLookup tidLookup sendTalkgroups Map.empty t1 t2 False False tags))
      })"

definition fneOpen :: "bool \<Rightarrow> 'h fne \<Rightarrow> bool \<times> 'h fne" where
  "fneOpen opened s =
     (let s = s\<lparr>fne_status := NET_STAT_MST_RUNNING, m_maintainenceTimer := timerStart (m_maintainenceTimer s),
               m_frameQueue := \<lparr>m_buffers = [], m_streamTimestamps = Map.empty\<rparr>\<rparr>
      in if \<not> opened then (opened, s\<lparr>fne_status := NET_STAT_INVALID\<rparr>) else (opened, s))"

definition fneClose :: "'e fne_env_scheme \<Rightarrow> 'h fne \<Rightarrow> 'h fne" where
  "fneClose e s =
     (let s = (if fne_status s = NET_STAT_MST_RUNNING
               then fold (\<lambda>p s. snd (writePeerSeq e p (NET_FUNC_MST_CLOSING, NET_SUBFUNC_NOP) [0] 0 0 False s))
                      (peer_walk e s) s
               else s)
      in s\<lparr>m_maintainenceTimer := timerStop (m_maintainenceTimer s),
           m_updateLookupTimer := timerStop (m_updateLookupTimer s), fne_status := NET_STAT_INVALID\<rparr>)"

end
