(* ===== verification/FNELogin.thy ===== *)
theory FNELogin
  imports FNENetwork "HOL-Library.Sublist"
begin

text \<open>
  What the FNE lets a peer do: the frame properties of its writes, the login as an abstract
  protocol that the message handlers refine, the gate in front of the traffic handlers and the
  removal of quiet peers (\<^verbatim>\<open>src/src/fne/network/FNENetwork.cpp\<close>).
\<close>

section \<open>What a write changes\<close>

text \<open>
  A write queues and sends datagrams, draws stream IDs and counts the packets of a connection.
  \<open>core\<close> is everything else.
\<close>

definition conn_view :: "peer_conn \<Rightarrow> peer_conn" where
  "conn_view c = c\<lparr>pktLastSeq := 0\<rparr>"

definition peers_view :: "'h fne \<Rightarrow> u32 \<rightharpoonup> peer_conn" where
  "peers_view s p = map_option conn_view (m_peers s p)"

definition core :: "'h fne \<Rightarrow> (u32 \<rightharpoonup> peer_conn) \<times> 'h fne" where
  "core s = (peers_view s,
     s\<lparr>m_frameQueue := \<lparr>m_buffers = [], m_streamTimestamps = Map.empty\<rparr>, m_encoded := 0, m_drawn := 0,
       m_sent := [], m_peers := Map.empty\<rparr>)"

named_theorems core_simps

lemma core_basic [core_simps]:
  "core (net_enqueue e data streamId peerId ssrc opcode seq addr s) = core s"
  "core (snd (net_flush e s)) = core s"
  "core (snd (createStreamId e s)) = core s"
  by (simp_all add: core_def peers_view_def fun_eq_iff net_enqueue_def net_flush_def createStreamId_def
      Let_def case_prod_unfold)

lemma core_writePeerSeq [core_simps]:
  "core (snd (writePeerSeq e p opcode data seq streamId queueOnly s)) = core s"
  by (simp add: writePeerSeq_def Let_def core_simps split: option.split)

lemma core_put_peer_seq:
  "m_peers s p = Some c \<Longrightarrow> conn_view c' = conn_view c \<Longrightarrow> core (put_peer p c' s) = core s"
  by (auto simp: core_def put_peer_def peers_view_def fun_eq_iff)

lemma core_writePeer [core_simps]:
  "core (snd (writePeer e p opcode data streamId queueOnly inc s)) = core s"
proof (cases "m_peers s p")
  case None
  then show ?thesis by (simp add: writePeer_def)
next
  case (Some c)
  show ?thesis
    unfolding writePeer_def Some
    by (simp add: Let_def core_simps) (simp add: core_put_peer_seq [OF Some] conn_view_def)
qed

text \<open>The partial writes: whatever they return has the same core.\<close>

definition keeps_core :: "('h fne \<Rightarrow> 'h fne option) \<Rightarrow> bool" where
  "keeps_core f = (\<forall>s s'. f s = Some s' \<longrightarrow> core s' = core s)"

lemma keeps_coreD: "keeps_core f \<Longrightarrow> f s = Some s' \<Longrightarrow> core s' = core s"
  by (simp add: keeps_core_def)

lemma keeps_core_bind:
  assumes "keeps_core f" "keeps_core g"
  shows "keeps_core (\<lambda>s. Option.bind (f s) g)"
  using assms unfolding keeps_core_def by (metis bind_eq_Some_conv)

lemma keeps_core_flush:
  assumes "keeps_core f"
  shows "keeps_core (\<lambda>s. f (snd (net_flush e s)))"
  using assms by (auto simp: keeps_core_def core_simps)

lemma keeps_core_Some: "keeps_core Some" "keeps_core (\<lambda>s. Some (snd (net_flush e s)))"
  by (simp_all add: keeps_core_def core_simps)

lemma keeps_core_writes:
  "keeps_core (writePeerCommand e p opcode data queueOnly inc)"
  "keeps_core (writePeerACK e p data)"
  "keeps_core (writePeerNAK e p)"
  "keeps_core (writeAddrNAK e p addr)"
proof -
  show "keeps_core (writePeerCommand e p opcode data queueOnly inc)"
    unfolding keeps_core_def writePeerCommand_def by (simp add: core_writePeer split: if_split) blast?
  show "keeps_core (writePeerACK e p data)"
    unfolding keeps_core_def writePeerACK_def by (simp add: core_writePeer split: if_split) blast?
  show "keeps_core (writePeerNAK e p)"
    unfolding keeps_core_def writePeerNAK_def by (simp add: core_writePeer split: if_split) blast?
  show "keeps_core (writeAddrNAK e p addr)"
    unfolding keeps_core_def writeAddrNAK_def by (simp add: Let_def case_prod_unfold core_simps split: if_split)
qed

lemma keeps_core_lists:
  "keeps_core (writeWhitelistRIDs e p queueOnly)"
  "keeps_core (writeBlacklistRIDs e p queueOnly)"
  "keeps_core (writeTGIDs e p queueOnly)"
  "keeps_core (writeDeactiveTGIDs e p queueOnly)"
  unfolding keeps_core_def writeWhitelistRIDs_def writeBlacklistRIDs_def writeTGIDs_def writeDeactiveTGIDs_def Let_def
  by (auto split: if_splits dest: keeps_coreD [OF keeps_core_writes(1)])

lemma keeps_core_for_peers: "(\<And>p. keeps_core (f p)) \<Longrightarrow> keeps_core (for_peers f ps)"
proof (induction ps)
  case Nil
  then show ?case by (simp add: keeps_core_def)
next
  case (Cons p ps)
  have "for_peers f (p # ps) = (\<lambda>s. Option.bind (f p s) (for_peers f ps))" by (simp add: fun_eq_iff)
  then show ?case using keeps_core_bind Cons by metis
qed

lemma keeps_core_all_lists:
  "keeps_core (writeAllWhitelistRIDs e)" "keeps_core (writeAllBlacklistRIDs e)"
  "keeps_core (writeAllTGIDs e)" "keeps_core (writeAllDeactiveTGIDs e)"
  unfolding keeps_core_def writeAllWhitelistRIDs_def writeAllBlacklistRIDs_def writeAllTGIDs_def writeAllDeactiveTGIDs_def
  by (auto split: if_splits dest: keeps_coreD [OF keeps_core_for_peers [OF keeps_core_lists(1)]]
      keeps_coreD [OF keeps_core_for_peers [OF keeps_core_lists(2)]]
      keeps_coreD [OF keeps_core_for_peers [OF keeps_core_lists(3)]]
      keeps_coreD [OF keeps_core_for_peers [OF keeps_core_lists(4)]])

lemma keeps_core_sendLists: "keeps_core (sendLists e p)"
  unfolding keeps_core_def sendLists_def
  by (auto simp: Let_def core_simps bind_eq_Some_conv dest!: keeps_coreD [OF keeps_core_lists(1)] keeps_coreD [OF keeps_core_lists(2)]
      keeps_coreD [OF keeps_core_lists(3)] keeps_coreD [OF keeps_core_lists(4)])

lemmas write_core =
  keeps_coreD [OF keeps_core_writes(1)] keeps_coreD [OF keeps_core_writes(2)]
  keeps_coreD [OF keeps_core_writes(3)] keeps_coreD [OF keeps_core_writes(4)]
  keeps_coreD [OF keeps_core_sendLists]

lemma core_peers: "core s' = core s \<Longrightarrow> peers_view s' = peers_view s"
  by (simp add: core_def)

lemma core_password: "core s' = core s \<Longrightarrow> m_password s' = m_password s"
  by (drule arg_cong [where f = "\<lambda>x. m_password (snd x)"]) (simp add: core_def)


lemma peers_view_put [simp]: "peers_view (put_peer p c s) = (peers_view s)(p \<mapsto> conn_view c)"
  by (simp add: peers_view_def put_peer_def fun_eq_iff)

lemma peers_view_erase [simp]: "peers_view (erase_peer p s) = (peers_view s)(p := None)"
  by (simp add: peers_view_def erase_peer_def fun_eq_iff)

lemma password_put [simp]: "m_password (put_peer p c s) = m_password s" "m_password (erase_peer p s) = m_password s"
  by (simp_all add: put_peer_def erase_peer_def)

lemmas write_view = core_peers [OF write_core(1)] core_peers [OF write_core(2)] core_peers [OF write_core(3)]
  core_peers [OF write_core(4)] core_peers [OF write_core(5)]

lemmas write_password = core_password [OF write_core(1)] core_password [OF write_core(2)]
  core_password [OF write_core(3)] core_password [OF write_core(4)] core_password [OF write_core(5)]

section \<open>The login as an abstract protocol\<close>

datatype phase = Out | Challenged u32 sockaddr | Authorised sockaddr | Up sockaddr

text \<open>A login comes with the random numbers the salt is drawn from.\<close>

datatype login_event = Login sockaddr "nat \<Rightarrow> u32" | Answer bytes | Config json_result | Other

inductive auth_step :: "bytes \<Rightarrow> login_event \<Rightarrow> phase \<Rightarrow> phase \<Rightarrow> bool" for password where
  stay: "auth_step password l x x"
| drop_peer: "auth_step password l x Out"
| challenge: "auth_step password (Login addr rnd) Out (Challenged (rnd n) addr)"
| answer: "auth_step password (Answer (sha256_spec (salt_bytes salt @ password))) (Challenged salt addr) (Authorised addr)"
| configure: "auth_step password (Config Json_object) (Authorised addr) (Up addr)"

inductive_cases auth_upE: "auth_step password l x (Up addr)"
inductive_cases auth_authorisedE: "auth_step password l x (Authorised addr)"
inductive_cases auth_challengedE: "auth_step password l x (Challenged salt addr)"

definition phase_of :: "peer_conn \<Rightarrow> phase" where
  "phase_of c =
     (if connected c then Up (p_addr c)
      else case connectionState c of
             NET_STAT_WAITING_AUTHORISATION \<Rightarrow> Challenged (p_salt c) (p_addr c)
           | NET_STAT_WAITING_CONFIG \<Rightarrow> Authorised (p_addr c)
           | _ \<Rightarrow> Out)"

definition phase :: "'h fne \<Rightarrow> u32 \<Rightarrow> phase" where
  "phase s p = (case peers_view s p of None \<Rightarrow> Out | Some c \<Rightarrow> phase_of c)"

text \<open>The part a message, and a datagram, have in the login of peer \<open>p\<close>.\<close>

definition message_event :: "'e fne_env_scheme \<Rightarrow> sockaddr \<Rightarrow> fne_hdr \<Rightarrow> bytes \<Rightarrow> login_event" where
  "message_event e addr fne message =
     (if m_func fne = NET_FUNC_RPTL then Login addr (env_random e)
      else if m_func fne = NET_FUNC_RPTK then Answer (drop 8 message)
      else if m_func fne = NET_FUNC_RPTC then Config (env_json e (drop 8 message))
      else Other)"

definition login_event_of :: "'e fne_env_scheme \<Rightarrow> u32 \<Rightarrow> (bytes \<times> sockaddr) option \<Rightarrow> login_event" where
  "login_event_of e p rx =
     (case rx of
        None \<Rightarrow> Other
      | Some (dgram, addr) \<Rightarrow>
          (case read_frame dgram of
             Received rtp fne message \<Rightarrow>
               if m_hdrPeerId fne \<noteq> p \<or> message = [] then Other else message_event e addr fne message
           | _ \<Rightarrow> Other))"

text \<open>The states a connection of the table can be in.\<close>

definition conn_ok :: "u32 \<Rightarrow> peer_conn \<Rightarrow> bool" where
  "conn_ok p c \<longleftrightarrow> p > 0 \<and> p_id c = p \<and> (connected c \<longleftrightarrow> connectionState c = NET_STAT_RUNNING) \<and>
     connectionState c \<in> {NET_STAT_WAITING_AUTHORISATION, NET_STAT_WAITING_CONFIG, NET_STAT_RUNNING}"

definition peers_ok :: "'h fne \<Rightarrow> bool" where
  "peers_ok s \<longleftrightarrow> (\<forall>p c. m_peers s p = Some c \<longrightarrow> conn_ok p c)"

lemma conn_view_fields [simp]:
  "p_id (conn_view c) = p_id c" "connected (conn_view c) = connected c"
  "connectionState (conn_view c) = connectionState c" "p_salt (conn_view c) = p_salt c"
  "p_addr (conn_view c) = p_addr c" "lastPing (conn_view c) = lastPing c" "phase_of (conn_view c) = phase_of c"
  "conn_ok p (conn_view c) = conn_ok p c"
  by (simp_all add: conn_view_def phase_of_def conn_ok_def split: NET_CONN_STATUS.split)

lemma peers_ok_view: "peers_ok s \<longleftrightarrow> (\<forall>p c. peers_view s p = Some c \<longrightarrow> conn_ok p c)"
proof -
  have "(\<forall>c. map_option conn_view x = Some c \<longrightarrow> conn_ok p c) \<longleftrightarrow> (\<forall>c. x = Some c \<longrightarrow> conn_ok p c)" for x p
    by (cases x) simp_all
  then show ?thesis by (simp add: peers_ok_def peers_view_def)
qed

section \<open>What each message does to the table\<close>

lemma auth_hash_spec: "length pw + 4 < 2 ^ 32 \<Longrightarrow> auth_hash (salt_bytes salt) pw = sha256_spec (salt_bytes salt @ pw)"
  unfolding auth_hash_def by (rule sha_buffer_spec) (simp_all add: new_sha256_def sha_init_def salt_bytes_def)

lemma hash_valid_iff: "length out = 32 \<Longrightarrow> hash_valid h out \<longleftrightarrow> h = out"
  by (auto simp: hash_valid_def list_all_iff list_eq_iff_nth_eq)

lemma view_Some: "m_peers s p = Some c \<Longrightarrow> peers_view s p = Some (conn_view c)"
  and view_None: "m_peers s p = None \<longleftrightarrow> peers_view s p = None"
  by (simp_all add: peers_view_def)

text \<open>One message moves only the peer it names.\<close>

definition table_step :: "bytes \<Rightarrow> login_event \<Rightarrow> u32 \<Rightarrow> (u32 \<rightharpoonup> peer_conn) \<Rightarrow> (u32 \<rightharpoonup> peer_conn) \<Rightarrow> bool" where
  "table_step password l p t t' \<longleftrightarrow>
     (\<forall>q. q \<noteq> p \<longrightarrow> t' q = t q) \<and>
     auth_step password l (case t p of None \<Rightarrow> Out | Some c \<Rightarrow> phase_of c) (case t' p of None \<Rightarrow> Out | Some c \<Rightarrow> phase_of c) \<and>
     ((\<forall>c. t p = Some c \<longrightarrow> conn_ok p c) \<longrightarrow> (\<forall>c. t' p = Some c \<longrightarrow> conn_ok p c))"

lemma table_stepI:
  assumes "t' = t(p := x)"
    and "auth_step password l (case t p of None \<Rightarrow> Out | Some c \<Rightarrow> phase_of c) (case x of None \<Rightarrow> Out | Some c \<Rightarrow> phase_of c)"
    and "\<And>c. (\<And>d. t p = Some d \<Longrightarrow> conn_ok p d) \<Longrightarrow> x = Some c \<Longrightarrow> conn_ok p c"
  shows "table_step password l p t t'"
  using assms by (auto simp: table_step_def)

lemma table_step_refl: "table_step password l p t t"
  by (simp add: table_step_def auth_step.stay)

lemma table_step_erase: "table_step password l p t (t(p := None))"
  by (rule table_stepI) (auto intro: auth_step.intros)

text \<open>A new connection value with the same login part.\<close>

lemma table_step_same:
  assumes "m_peers s p = Some c" "phase_of c' = phase_of c" "conn_ok p c \<Longrightarrow> conn_ok p c'"
  shows "table_step password l p (peers_view s) ((peers_view s)(p \<mapsto> conn_view c'))"
  by (rule table_stepI [OF refl]) (use assms in \<open>auto simp: view_Some intro: auth_step.stay\<close>)

lemma phase_of_touch [simp]:
  "phase_of (c\<lparr>lastPing := n\<rparr>) = phase_of c" "phase_of (c\<lparr>pktLastSeq := a\<rparr>) = phase_of c"
  "phase_of (c\<lparr>pktNextSeq := a\<rparr>) = phase_of c" "phase_of (c\<lparr>currStreamId := i\<rparr>) = phase_of c"
  "phase_of (c\<lparr>pingsReceived := i\<rparr>) = phase_of c"
  by (simp_all add: phase_of_def split: NET_CONN_STATUS.split)

lemma conn_ok_touch [simp]:
  "conn_ok p (c\<lparr>lastPing := n\<rparr>) = conn_ok p c" "conn_ok p (c\<lparr>pktLastSeq := a\<rparr>) = conn_ok p c"
  "conn_ok p (c\<lparr>pktNextSeq := a\<rparr>) = conn_ok p c" "conn_ok p (c\<lparr>currStreamId := i\<rparr>) = conn_ok p c"
  "conn_ok p (c\<lparr>pingsReceived := i\<rparr>) = conn_ok p c"
  by (simp_all add: conn_ok_def)

lemma handleRPTL_step:
  assumes "handleRPTL e addr p streamId s = Some s'"
  shows "table_step password (Login addr (env_random e)) p (peers_view s) (peers_view s') \<and> m_password s' = m_password s"
proof (cases "p > 0 \<and> m_peers s p = None")
  case True
  from assms obtain c s1 c1 where n: "new_peer_conn p addr = Some c"
    and c1: "c1 = c\<lparr>lastPing := env_now e, currStreamId := streamId, p_salt := fst (createStreamId e s),
      connectionState := NET_STAT_WAITING_AUTHORISATION\<rparr>"
    and w: "writePeerACK e p (SET_UINT32 (fst (createStreamId e s)) (replicate 4 0) 0)
      (put_peer p c1 (snd (createStreamId e s))) = Some s'"
    by (auto simp: handleRPTL_def True Let_def case_prod_unfold bind_eq_Some_conv)
  have v: "peers_view s' = (peers_view s)(p \<mapsto> conn_view c1)"
    using write_view(2) [OF w] by (simp add: core_peers [OF core_basic(3)])
  have q: "m_password s' = m_password s"
    using write_password(2) [OF w] by (simp add: core_password [OF core_basic(3)])
  have c: "phase_of c1 = Challenged (env_random e (m_drawn s)) addr" "conn_ok p c1"
    using n True by (auto simp: c1 createStreamId_def new_peer_conn_def phase_of_def conn_ok_def split: if_splits)
  show ?thesis
    using q v True c by (auto simp: view_None intro!: table_stepI auth_step.challenge)
next
  case False
  then obtain s1 where w: "writeAddrNAK e p addr s = Some s1"
    and s': "s' = (case (if p > 0 then m_peers s1 p else None) of None \<Rightarrow> s1
       | Some c \<Rightarrow> let c = c\<lparr>lastPing := env_now e\<rparr>; s2 = put_peer p c s1
                   in if connectionState c \<noteq> NET_STAT_RUNNING then erase_peer p s2 else s2)"
    using assms unfolding handleRPTL_def if_not_P [OF False] bind_eq_Some_conv option.inject by blast
  have v: "peers_view s1 = peers_view s" and q: "m_password s1 = m_password s"
    using write_view(4) [OF w] write_password(4) [OF w] by simp_all
  show ?thesis
    unfolding s' v [symmetric] q [symmetric]
    by (auto simp: Let_def table_step_refl table_step_erase split: option.split
        intro!: table_step_same)
qed


text \<open>The other handlers look the peer up first.\<close>

lemma entry_cases:
  obtains (none) "(if p > 0 then m_peers s p else None) = None"
  | (entry) c where "p > 0" "m_peers s p = Some c" "(if p > 0 then m_peers s p else None) = Some c"
  by (cases "if p > 0 then m_peers s p else None") (auto split: if_splits)

lemma nak_then_erase:
  assumes "Option.bind (writePeerNAK e p (put_peer p c s)) (\<lambda>s. Some (erase_peer p s)) = Some s'"
  shows "peers_view s' = (peers_view s)(p := None) \<and> m_password s' = m_password s"
proof -
  from assms obtain s1 where w: "writePeerNAK e p (put_peer p c s) = Some s1" and s': "s' = erase_peer p s1"
    by (auto simp: bind_eq_Some_conv)
  show ?thesis using write_view(3) [OF w] write_password(3) [OF w] by (simp add: s')
qed

lemma handleRPTK_step:
  assumes "handleRPTK e addr p message s = Some s'" "length (m_password s) + 4 < 2 ^ 32"
  shows "table_step (m_password s) (Answer (drop 8 message)) p (peers_view s) (peers_view s') \<and> m_password s' = m_password s"
proof (cases rule: entry_cases [of p s])
  case none
  then show ?thesis using assms(1) by (auto simp: handleRPTK_def table_step_refl dest: write_view write_password)
next
  case (entry c)
  let ?c = "c\<lparr>lastPing := env_now e\<rparr>"
  note h = assms(1) [unfolded handleRPTK_def entry(3) option.case Let_def]
  have keep: "table_step (m_password s) l p (peers_view s) ((peers_view s)(p \<mapsto> conn_view ?c))" for l
    by (rule table_step_same [OF entry(2)]) simp_all
  show ?thesis
  proof (cases "connectionState c = NET_STAT_WAITING_AUTHORISATION")
    case False
    then show ?thesis using h nak_then_erase [of e p ?c s s'] by (auto simp: table_step_erase)
  next
    case True
    then have len: "\<not> length message < 8" using h by (auto split: if_splits)
    let ?d = "?c\<lparr>connectionState := NET_STAT_WAITING_CONFIG\<rparr>"
    show ?thesis
    proof (cases "drop 8 message = sha256_spec (salt_bytes (p_salt c) @ m_password s)")
      case valid: True
      then have w: "writePeerACK e p [] (put_peer p ?d (put_peer p ?c s)) = Some s'"
        using h True len assms(2) by (simp add: auth_hash_spec hash_valid_iff)
      have "table_step (m_password s) (Answer (drop 8 message)) p (peers_view s) ((peers_view s)(p \<mapsto> conn_view ?d))"
        unfolding valid
        by (rule table_stepI [OF refl], auto simp: view_Some [OF entry(2)] phase_of_def conn_ok_def True auth_step.answer
            intro: auth_step.drop_peer auth_step.stay)
      then show ?thesis using write_view(2) [OF w] write_password(2) [OF w] by simp
    next
      case False
      then obtain s1 where w: "writePeerNAK e p (put_peer p ?c s) = Some s1"
        and s': "s' = (erase_peer p s1)\<lparr>m_peers := (m_peers (erase_peer p s1))(p := m_peers s1 p)\<rparr>"
        using h True len assms(2) by (auto simp: auth_hash_spec hash_valid_iff bind_eq_Some_conv)
      have "s' = s1" by (simp add: s' erase_peer_def)
      then show ?thesis using write_view(3) [OF w] write_password(3) [OF w] keep by simp
    qed
  qed
qed


lemma handleRPTC_step:
  assumes "handleRPTC e addr p message s = Some s'"
  shows "table_step password (Config (env_json e (drop 8 message))) p (peers_view s) (peers_view s') \<and>
         m_password s' = m_password s"
proof (cases rule: entry_cases [of p s])
  case none
  then show ?thesis using assms by (auto simp: handleRPTC_def table_step_refl dest: write_view write_password)
next
  case (entry c)
  let ?c = "c\<lparr>lastPing := env_now e\<rparr>"
  note h = assms [unfolded handleRPTC_def entry(3) option.case Let_def]
  show ?thesis
  proof (cases "connectionState c = NET_STAT_WAITING_CONFIG")
    case False
    then show ?thesis using h nak_then_erase [of e p ?c s s'] by (auto simp: table_step_erase)
  next
    case True
    then have len: "\<not> length message < 8" using h by (auto split: if_splits)
    let ?d = "c\<lparr>lastPing := env_now e, p_config := drop 8 message, connectionState := NET_STAT_RUNNING,
      connected := True, pingsReceived := 0, lastPing := env_now e\<rparr>"
    show ?thesis
    proof (cases "env_json e (drop 8 message) = Json_object")
      case json: True
      then obtain s1 where w: "writePeerACK e p [] (put_peer p ?d (put_peer p ?c s)) = Some s1"
        and l: "sendLists e p s1 = Some s'"
        using h True len by (auto simp: bind_eq_Some_conv)
      have "table_step password (Config (env_json e (drop 8 message))) p (peers_view s) ((peers_view s)(p \<mapsto> conn_view ?d))"
        unfolding json
        by (rule table_stepI [OF refl], auto simp: view_Some [OF entry(2)] phase_of_def conn_ok_def True auth_step.configure
            intro: auth_step.stay)
      then show ?thesis
        using write_view(2) [OF w] write_password(2) [OF w] write_view(5) [OF l] write_password(5) [OF l] by simp
    next
      case False
      then show ?thesis using h True len nak_then_erase [of e p ?c s s'] by (auto simp: table_step_erase)
    qed
  qed
qed

lemma handleClosing_step:
  "table_step password l p (peers_view s) (peers_view (handleClosing addr p s)) \<and>
   m_password (handleClosing addr p s) = m_password s"
  by (auto simp: handleClosing_def table_step_refl table_step_erase split: option.split)

lemma handlePing_step:
  assumes "handlePing e addr p s = Some s'"
  shows "table_step password l p (peers_view s) (peers_view s') \<and> m_password s' = m_password s"
proof (cases rule: entry_cases [of p s])
  case none
  then show ?thesis using assms by (auto simp: handlePing_def table_step_refl)
next
  case (entry c)
  let ?c = "c\<lparr>pingsReceived := pingsReceived c + 1, lastPing := env_now e, pktLastSeq := pktLastSeq c + 1\<rparr>"
  have keep: "table_step password l p (peers_view s) ((peers_view s)(p \<mapsto> conn_view ?c))"
    by (rule table_step_same [OF entry(2)]) simp_all
  show ?thesis
  proof (cases "valid_peer addr c")
    case True
    then have w: "writePeerCommand e p (NET_FUNC_PONG, NET_SUBFUNC_NOP) [] False False (put_peer p ?c s) = Some s'"
      using assms by (simp add: handlePing_def entry(1,2) Let_def)
    show ?thesis using write_view(1) [OF w] write_password(1) [OF w] keep by simp
  next
    case False
    then have w: "writePeerNAK e p s = Some s'" using assms by (simp add: handlePing_def entry(1,2) Let_def)
    show ?thesis using write_view(3) [OF w] write_password(3) [OF w] by (simp add: table_step_refl)
  qed
qed

lemma handleGrantReq_step:
  "handleGrantReq e addr p s = Some s' \<Longrightarrow>
   table_step password l p (peers_view s) (peers_view s') \<and> m_password s' = m_password s"
  by (auto simp: handleGrantReq_def table_step_refl split: option.splits if_splits dest: write_view(3) write_password(3))

lemma handleTransfer_step:
  "handleTransfer e addr p subFunc message s = Some s' \<Longrightarrow>
   table_step password l p (peers_view s) (peers_view s') \<and> m_password s' = m_password s"
  by (auto simp: handleTransfer_def table_step_refl split: option.splits if_splits dest: write_view(3) write_password(3))

lemma updateSequence_step:
  "table_step password l p (peers_view s) (peers_view (updateSequence p streamId seq s)) \<and>
   m_password (updateSequence p streamId seq s) = m_password s"
  by (auto simp: updateSequence_def table_step_refl split: option.split intro!: table_step_same)

text \<open>The contract of the traffic handlers: they leave connections and password alone.\<close>

definition keeps_logins :: "('h fne \<Rightarrow> 'h fne option) \<Rightarrow> bool" where
  "keeps_logins f \<longleftrightarrow> (\<forall>s s'. f s = Some s' \<longrightarrow> peers_view s' = peers_view s \<and> m_password s' = m_password s)"

definition traffic_ok :: "('e, 'h) traffic \<Rightarrow> bool" where
  "traffic_ok h \<longleftrightarrow>
     (\<forall>e message p seq streamId. keeps_logins (on_dmr h e message p seq streamId) \<and>
        keeps_logins (on_p25 h e message p seq streamId) \<and> keeps_logins (on_nxdn h e message p seq streamId)) \<and>
     (\<forall>e. keeps_logins (on_idle h e))"

lemma handleProtocol_step:
  assumes "traffic_ok h" "handleProtocol h e addr p subFunc seq streamId message s = Some s'"
  shows "peers_view s' = peers_view s \<and> m_password s' = m_password s"
  using assms by (auto simp: handleProtocol_def traffic_ok_def keeps_logins_def Let_def split: if_splits option.splits)


lemma updateSequence_same:
  "(case peers_view (updateSequence p streamId seq s) p of None \<Rightarrow> Out | Some c \<Rightarrow> phase_of c) =
     (case peers_view s p of None \<Rightarrow> Out | Some c \<Rightarrow> phase_of c)"
  "q \<noteq> p \<Longrightarrow> peers_view (updateSequence p streamId seq s) q = peers_view s q"
  "(\<forall>c. peers_view s p = Some c \<longrightarrow> conn_ok p c) \<Longrightarrow>
   (\<forall>c. peers_view (updateSequence p streamId seq s) p = Some c \<longrightarrow> conn_ok p c)"
  "m_password (updateSequence p streamId seq s) = m_password s"
  by (auto simp: updateSequence_def view_Some split: option.split if_splits)

lemma after_updateSequence:
  "table_step password l p (peers_view (updateSequence p streamId seq s)) t \<Longrightarrow> table_step password l p (peers_view s) t"
  unfolding table_step_def updateSequence_same(1) using updateSequence_same(2,3) by metis

lemma handleMessage_step:
  assumes "traffic_ok h" "length (m_password s) + 4 < 2 ^ 32" "handleMessage h e addr rtp fne message s = Some s'"
  shows "table_step (m_password s) (message_event e addr fne message) (m_hdrPeerId fne) (peers_view s) (peers_view s') \<and>
         m_password s' = m_password s"
proof -
  let ?p = "m_hdrPeerId fne"
  let ?s = "updateSequence ?p (m_streamId fne) (m_seq rtp) s"
  note rptk = handleRPTK_step [where s = ?s, unfolded updateSequence_same(4), OF _ assms(2)]
  have "table_step (m_password ?s) (message_event e addr fne message) ?p (peers_view ?s) (peers_view s') \<and>
        m_password s' = m_password ?s"
    using assms(3) unfolding handleMessage_def Let_def message_event_def
    by (auto simp: table_step_refl net_funcs assms(2) updateSequence_same(4) handleClosing_step
        dest: handleProtocol_step [OF assms(1)] handleRPTL_step rptk handleRPTC_step handlePing_step
          handleGrantReq_step handleTransfer_step split: if_splits)
  then show ?thesis using after_updateSequence by (metis updateSequence_same(4))
qed


section \<open>The clock refines the protocol\<close>

lemma maintain_view:
  "peers_view (maintain e ms s) p =
     (if isRunning (timerClock ms (m_maintainenceTimer s)) \<and> hasExpired (timerClock ms (m_maintainenceTimer s)) \<and>
         p \<in> set (peer_walk e s) \<and> quiet e s p
      then None else peers_view s p)"
  "m_password (maintain e ms s) = m_password s"
proof -
  have f: "peers_view (fold erase_peer ps s) p = (if p \<in> set ps then None else peers_view s p) \<and>
           m_password (fold erase_peer ps s) = m_password s" for ps s
    by (induction ps arbitrary: s) auto
  have u: "peers_view (s\<lparr>m_maintainenceTimer := t\<rparr>) = peers_view s" "peers_view (s\<lparr>m_frameQueue := q\<rparr>) = peers_view s"
    "peer_walk e (s\<lparr>m_maintainenceTimer := t\<rparr>) = peer_walk e s" "quiet e (s\<lparr>m_maintainenceTimer := t\<rparr>) = quiet e s"
    for s :: "'a fne" and t q
    by (simp_all add: peers_view_def peer_walk_def quiet_def fun_eq_iff split: option.split)
  show "peers_view (maintain e ms s) p =
     (if isRunning (timerClock ms (m_maintainenceTimer s)) \<and> hasExpired (timerClock ms (m_maintainenceTimer s)) \<and>
         p \<in> set (peer_walk e s) \<and> quiet e s p
      then None else peers_view s p)"
    by (simp add: maintain_def Let_def u f)
  show "m_password (maintain e ms s) = m_password s"
    by (simp add: maintain_def Let_def f)
qed

lemma updateLists_core:
  assumes "updateLists e ms s = Some s'"
  shows "peers_view s' = peers_view s \<and> m_password s' = m_password s"
proof (cases "(isRunning (timerClock ms (m_updateLookupTimer s)) \<and> hasExpired (timerClock ms (m_updateLookupTimer s))) \<or> m_forceListUpdate s")
  case False
  then show ?thesis using assms by (auto simp: updateLists_def Let_def peers_view_def fun_eq_iff)
next
  case True
  let ?s = "s\<lparr>m_updateLookupTimer := timerClock ms (m_updateLookupTimer s)\<rparr>"
  from True assms obtain s1 s2 s3 s4 where w: "writeAllWhitelistRIDs e ?s = Some s1" "writeAllBlacklistRIDs e s1 = Some s2"
      "writeAllTGIDs e (snd (net_flush e s2)) = Some s3" "writeAllDeactiveTGIDs e s3 = Some s4"
    and s': "s' = (snd (net_flush e s4))\<lparr>m_updateLookupTimer := timerStart (m_updateLookupTimer (snd (net_flush e s4))),
      m_forceListUpdate := False\<rparr>"
    by (auto simp: updateLists_def Let_def bind_eq_Some_conv)
  have c: "core (snd (net_flush e s4)) = core ?s"
    using keeps_coreD [OF keeps_core_all_lists(1) w(1)] keeps_coreD [OF keeps_core_all_lists(2) w(2)]
      keeps_coreD [OF keeps_core_all_lists(3) w(3)] keeps_coreD [OF keeps_core_all_lists(4) w(4)]
    by (simp add: core_simps)
  show ?thesis
    using core_peers [OF c] core_password [OF c] by (simp add: s' peers_view_def fun_eq_iff)
qed

lemma receive_step:
  assumes "traffic_ok h" "length (m_password s) + 4 < 2 ^ 32" "receive h e rx s = Some s'" "peers_ok s"
  shows "auth_step (m_password s) (login_event_of e p rx) (phase s p) (phase s' p)"
    and "peers_ok s'" and "m_password s' = m_password s"
proof -
  have "(\<exists>q l. table_step (m_password s) l q (peers_view s) (peers_view s') \<and> (q = p \<longrightarrow> l = login_event_of e p rx)) \<and>
        m_password s' = m_password s"
  proof (cases "\<exists>dgram addr rtp fne message. rx = Some (dgram, addr) \<and> read_frame dgram = Received rtp fne message \<and> message \<noteq> []")
    case True
    then obtain dgram addr rtp fne message
      where r: "rx = Some (dgram, addr)" "read_frame dgram = Received rtp fne message" "message \<noteq> []"
      by blast
    then have "handleMessage h e addr rtp fne message s = Some s'" using assms(3) by (simp add: receive_def)
    from handleMessage_step [OF assms(1,2) this] show ?thesis
      by (intro conjI exI [of _ "m_hdrPeerId fne"] exI [of _ "message_event e addr fne message"])
        (simp_all add: login_event_of_def r)
  next
    case False
    then have "on_idle h e s = Some s'"
      using assms(3) by (auto simp: receive_def split: option.splits prod.splits read_result.splits if_splits)
    then show ?thesis
      using assms(1) table_step_refl by (auto simp: traffic_ok_def keeps_logins_def)
  qed
  then obtain q l where t: "table_step (m_password s) l q (peers_view s) (peers_view s')"
      "q = p \<longrightarrow> l = login_event_of e p rx" and pw: "m_password s' = m_password s"
    by blast
  show "m_password s' = m_password s" by (fact pw)
  show "auth_step (m_password s) (login_event_of e p rx) (phase s p) (phase s' p)"
    using t by (cases "q = p") (auto simp: table_step_def phase_def intro: auth_step.stay)
  show "peers_ok s'"
    using t(1) assms(4) unfolding peers_ok_view table_step_def by metis
qed

lemma clock_login_step:
  assumes "traffic_ok h" "peers_ok s" "length (m_password s) + 4 < 2 ^ 32" "fneClock h e ms rx s = Some s'"
  shows "peers_ok s' \<and> m_password s' = m_password s \<and>
         (\<exists>x \<in> {phase s p, Out}. auth_step (m_password s) (login_event_of e p rx) x (phase s' p))"
proof (cases "fne_status s = NET_STAT_MST_RUNNING")
  case False
  then show ?thesis using assms by (auto simp: fneClock_def intro: auth_step.stay)
next
  case True
  then obtain s1 where u: "updateLists e ms (maintain e ms s) = Some s1" and r: "receive h e rx s1 = Some s'"
    using assms(4) by (auto simp: fneClock_def bind_eq_Some_conv)
  have v: "peers_view s1 = peers_view (maintain e ms s)" and pw: "m_password s1 = m_password s"
    using updateLists_core [OF u] by (simp_all add: maintain_view)
  have "peers_ok s1" using assms(2) unfolding peers_ok_view v maintain_view by simp
  moreover have "phase s1 p \<in> {phase s p, Out}" by (simp add: phase_def v maintain_view)
  ultimately show ?thesis
    using receive_step [OF assms(1) _ r, unfolded pw, OF assms(3)] by blast
qed


section \<open>Traces\<close>

type_synonym 'e tick = "'e fne_env_scheme \<times> u32 \<times> (bytes \<times> sockaddr) option"

inductive fne_run :: "('e, 'h) traffic \<Rightarrow> 'h fne \<Rightarrow> 'e tick list \<Rightarrow> 'h fne \<Rightarrow> bool" for h s0 where
  start: "fne_run h s0 [] s0"
| tick: "fne_run h s0 tr s \<Longrightarrow> fneClock h e ms rx s = Some s' \<Longrightarrow> fne_run h s0 (tr @ [(e, ms, rx)]) s'"

definition events :: "u32 \<Rightarrow> 'e tick list \<Rightarrow> login_event list" where
  "events p tr = map (\<lambda>(e, ms, rx). login_event_of e p rx) tr"

text \<open>The three messages of a login, in their order, with anything between them.\<close>

definition login_done :: "bytes \<Rightarrow> sockaddr \<Rightarrow> login_event list \<Rightarrow> bool" where
  "login_done password addr evs \<longleftrightarrow>
     (\<exists>rnd n. subseq [Login addr rnd, Answer (sha256_spec (salt_bytes (rnd n) @ password)), Config Json_object] evs)"

fun earned :: "bytes \<Rightarrow> login_event list \<Rightarrow> phase \<Rightarrow> bool" where
  "earned password evs Out \<longleftrightarrow> True"
| "earned password evs (Challenged salt addr) \<longleftrightarrow> (\<exists>rnd n. salt = rnd n \<and> subseq [Login addr rnd] evs)"
| "earned password evs (Authorised addr) \<longleftrightarrow>
     (\<exists>rnd n. subseq [Login addr rnd, Answer (sha256_spec (salt_bytes (rnd n) @ password))] evs)"
| "earned password evs (Up addr) \<longleftrightarrow> login_done password addr evs"

lemma subseq_snoc: "subseq xs evs \<Longrightarrow> subseq xs (evs @ [l])"
  by (metis append_Nil2 list_emb_append_mono list_emb_Nil)

lemma subseq_snoc_both: "subseq xs evs \<Longrightarrow> subseq (xs @ [l]) (evs @ [l])"
  by (simp add: list_emb_append_mono)

lemma earned_stay: "earned password evs x \<Longrightarrow> earned password (evs @ [l]) x"
  by (cases x) (auto simp: login_done_def intro: subseq_snoc)

lemma earned_step:
  assumes "auth_step password l x y" "earned password evs x"
  shows "earned password (evs @ [l]) y"
  using assms(1)
proof cases
  case stay
  then show ?thesis using assms(2) earned_stay by simp
next
  case drop_peer
  then show ?thesis by simp
next
  case (challenge addr rnd n)
  then show ?thesis using subseq_snoc_both [of "[]" evs "Login addr rnd"] by auto
next
  case (answer salt addr)
  then obtain rnd n where "salt = rnd n" "subseq [Login addr rnd] evs" using assms(2) by auto
  then show ?thesis using answer subseq_snoc_both by fastforce
next
  case (configure addr)
  then obtain rnd n where "subseq [Login addr rnd, Answer (sha256_spec (salt_bytes (rnd n) @ password))] evs"
    using assms(2) by auto
  then have "login_done password addr (evs @ [Config Json_object])"
    unfolding login_done_def using subseq_snoc_both [of _ evs "Config Json_object"] by fastforce
  then show ?thesis using configure by simp
qed

lemma run_earned:
  assumes "fne_run h s0 tr s" "traffic_ok h" "m_peers s0 = Map.empty" "length (m_password s0) + 4 < 2 ^ 32"
  shows "peers_ok s \<and> m_password s = m_password s0 \<and> earned (m_password s0) (events p tr) (phase s p)"
  using assms(1)
proof induction
  case start
  then show ?case using assms(3) by (simp add: peers_ok_def phase_def peers_view_def)
next
  case (tick tr s e ms rx s')
  then have ok: "peers_ok s" and pw: "m_password s = m_password s0" and ea: "earned (m_password s0) (events p tr) (phase s p)"
    by simp_all
  obtain x where "x \<in> {phase s p, Out}" "auth_step (m_password s0) (login_event_of e p rx) x (phase s' p)"
      "peers_ok s'" "m_password s' = m_password s0"
    using clock_login_step [OF assms(2) ok _ tick.hyps(2)] assms(4) pw by auto
  then show ?case using earned_step [of _ _ x] ea by (auto simp: events_def)
qed


section \<open>A login, message by message\<close>

lemma writePeerACK_Some: "length data \<le> 8182 \<Longrightarrow> \<exists>s'. writePeerACK e p data s = Some s'"
  by (simp add: writePeerACK_def DATA_PACKET_LENGTH_def)

lemma writePeerCommand_Some: "p > 0 \<Longrightarrow> length data \<le> 8186 \<Longrightarrow> \<exists>s'. writePeerCommand e p opcode data queueOnly inc s = Some s'"
  by (simp add: writePeerCommand_def DATA_PACKET_LENGTH_def)

lemma length_put_ids [simp]: "length (put_ids ids offs payload) = length payload"
  by (induction ids arbitrary: offs payload) simp_all

lemma length_put_tgs [simp]: "length (put_tgs tgs offs payload) = length payload"
  by (induction tgs offs payload rule: put_tgs.induct) simp_all

lemma length_rid_payload: "length (rid_payload ids) = 4 + 4 * length ids"
  by (simp add: rid_payload_def)

lemma length_tg_payload: "length (tg_payload tgs) = 4 + 5 * length tgs"
  by (simp add: tg_payload_def)

definition lists_fit :: "'e fne_env_scheme \<Rightarrow> u32 \<Rightarrow> 'h fne \<Rightarrow> bool" where
  "lists_fit e p s \<longleftrightarrow>
     length (enabled_rids True (env_rids e) (m_ridLookup s)) \<le> 2045 \<and>
     length (enabled_rids False (env_rids e) (m_ridLookup s)) \<le> 2045 \<and>
     (m_sendTalkgroups s \<longrightarrow> length (tgid_list p True (m_tidLookup s)) \<le> 1636 \<and>
                            length (tgid_list p False (m_tidLookup s)) \<le> 1636)"

lemma core_tables: "core s' = core s \<Longrightarrow> m_ridLookup s' = m_ridLookup s \<and> m_tidLookup s' = m_tidLookup s \<and>
    m_sendTalkgroups s' = m_sendTalkgroups s"
  by (drule arg_cong [where f = "\<lambda>x. (m_ridLookup (snd x), m_tidLookup (snd x), m_sendTalkgroups (snd x))"])
    (simp add: core_def)

lemma lists_fit_core: "core s' = core s \<Longrightarrow> lists_fit e p s' = lists_fit e p s"
  unfolding lists_fit_def by (drule core_tables) simp

lemma list_write_Some:
  assumes "p > 0" "lists_fit e p s"
  shows "\<exists>s'. writeWhitelistRIDs e p q s = Some s'" "\<exists>s'. writeBlacklistRIDs e p q s = Some s'"
    "\<exists>s'. writeTGIDs e p q s = Some s'" "\<exists>s'. writeDeactiveTGIDs e p q s = Some s'"
proof -
  note fit = assms(2) [unfolded lists_fit_def]
  note rids = writePeerCommand_Some [OF assms(1), of "rid_payload ids" for ids, unfolded length_rid_payload]
  note tgs = writePeerCommand_Some [OF assms(1), of "tg_payload tgs" for tgs, unfolded length_tg_payload]
  have if_Some: "\<exists>s'. (if b then Some s else f) = Some s'" if "\<not> b \<Longrightarrow> \<exists>s'. f = Some s'" for b f
    using that by (cases b) simp_all
  show "\<exists>s'. writeWhitelistRIDs e p q s = Some s'" "\<exists>s'. writeBlacklistRIDs e p q s = Some s'"
    unfolding writeWhitelistRIDs_def writeBlacklistRIDs_def Let_def
    by (rule if_Some, rule rids, use fit in linarith)+
  show "\<exists>s'. writeTGIDs e p q s = Some s'" "\<exists>s'. writeDeactiveTGIDs e p q s = Some s'"
    unfolding writeTGIDs_def writeDeactiveTGIDs_def
    by (rule if_Some, rule tgs, use fit in force)+
qed

lemma sendLists_Some:
  assumes "p > 0" "lists_fit e p s"
  shows "\<exists>s'. sendLists e p s = Some s'"
proof -
  obtain s1 where 1: "writeWhitelistRIDs e p True s = Some s1" using list_write_Some(1) [OF assms] by blast
  then have "lists_fit e p s1" by (rule iffD2 [OF lists_fit_core [OF keeps_coreD [OF keeps_core_lists(1)]] assms(2)])
  then obtain s2 where 2: "writeBlacklistRIDs e p True s1 = Some s2" "lists_fit e p s1"
    using list_write_Some(2) [OF assms(1)] by blast
  then have "lists_fit e p (snd (net_flush e s2))"
    by (auto simp: lists_fit_core [OF core_basic(2)] lists_fit_core [OF keeps_coreD [OF keeps_core_lists(2)]])
  then obtain s3 where 3: "writeTGIDs e p True (snd (net_flush e s2)) = Some s3" "lists_fit e p (snd (net_flush e s2))"
    using list_write_Some(3) [OF assms(1)] by blast
  then have "lists_fit e p s3" by (auto simp: lists_fit_core [OF keeps_coreD [OF keeps_core_lists(3)]])
  then obtain s4 where 4: "writeDeactiveTGIDs e p True s3 = Some s4" using list_write_Some(4) [OF assms(1)] by blast
  show ?thesis by (simp add: sendLists_def 1 2 3 4 Let_def)
qed

end
