(* ===== verification/FNESafety.thy ===== *)
theory FNESafety
  imports FNELogin
begin

text \<open>
  Properties of the FNE (\<^verbatim>\<open>src/src/fne/network/FNENetwork.cpp\<close>) over whole runs: who is
  connected has logged in, whose call data is processed, how a login succeeds, and what happens
  to peers that fail, fall quiet or are named by somebody else.
\<close>

section \<open>Progress of a login\<close>

text \<open>The part of a connection the login is about, and the state apart from the peers.\<close>

definition login_of :: "'h fne \<Rightarrow> u32 \<Rightarrow> (NET_CONN_STATUS \<times> bool \<times> u32 \<times> sockaddr) option" where
  "login_of s p = map_option (\<lambda>c. (connectionState c, connected c, p_salt c, p_addr c)) (m_peers s p)"

definition rest :: "'h fne \<Rightarrow> 'h fne" where
  "rest s = snd (core s)"

lemma login_of_view: "login_of s p = map_option (\<lambda>c. (connectionState c, connected c, p_salt c, p_addr c)) (peers_view s p)"
  by (simp add: login_of_def peers_view_def option.map_comp o_def)

lemma core_rest: "core s' = core s \<Longrightarrow> rest s' = rest s"
  and core_login: "core s' = core s \<Longrightarrow> login_of s' p = login_of s p"
  by (simp_all add: rest_def core_def login_of_view)

lemma rest_put [simp]: "rest (put_peer p c s) = rest s" "rest (erase_peer p s) = rest s"
  "rest (updateSequence p streamId seq s) = rest s"
  by (simp_all add: rest_def core_def put_peer_def erase_peer_def updateSequence_def split: option.split)

lemma login_of_put [simp]:
  "login_of (put_peer p c s) q = (if q = p then Some (connectionState c, connected c, p_salt c, p_addr c) else login_of s q)"
  by (simp add: login_of_def put_peer_def)

lemma login_of_updateSequence [simp]: "login_of (updateSequence p streamId seq s) q = login_of s q"
  by (auto simp: updateSequence_def login_of_def put_peer_def split: option.split if_splits)

lemma drawn_updateSequence [simp]: "m_drawn (updateSequence p streamId seq s) = m_drawn s"
  by (simp add: updateSequence_def put_peer_def split: option.split)

lemma login_of_None: "login_of s p = None \<longleftrightarrow> m_peers s p = None"
  by (simp add: login_of_def)

lemma rest_same:
  assumes "rest s' = rest s"
  shows "m_password s' = m_password s" "lists_fit e p s' = lists_fit e p s"
    "fne_status s' = fne_status s" "m_maintainenceTimer s' = m_maintainenceTimer s"
    "m_updateLookupTimer s' = m_updateLookupTimer s" "m_forceListUpdate s' = m_forceListUpdate s"
proof -
  have f: "m_password (rest x) = m_password x" "lists_fit e p (rest x) = lists_fit e p x"
    "fne_status (rest x) = fne_status x" "m_maintainenceTimer (rest x) = m_maintainenceTimer x"
    "m_updateLookupTimer (rest x) = m_updateLookupTimer x" "m_forceListUpdate (rest x) = m_forceListUpdate x"
    for x :: "'a fne"
    by (simp_all add: rest_def core_def lists_fit_def)
  show "m_password s' = m_password s" "lists_fit e p s' = lists_fit e p s"
    "fne_status s' = fne_status s" "m_maintainenceTimer s' = m_maintainenceTimer s"
    "m_updateLookupTimer s' = m_updateLookupTimer s" "m_forceListUpdate s' = m_forceListUpdate s"
    using f [of s] f [of s'] assms by simp_all
qed

lemma rptl_progress:
  assumes "p > 0" "login_of s p = None" "sa_ip addr \<noteq> []" "sa_port addr > 0"
  shows "\<exists>s'. handleRPTL e addr p streamId s = Some s' \<and> rest s' = rest s \<and>
           login_of s' p = Some (NET_STAT_WAITING_AUTHORISATION, False, env_random e (m_drawn s), addr)"
proof -
  let ?salt = "env_random e (m_drawn s)" and ?t = "snd (createStreamId e s)"
  obtain c where c: "new_peer_conn p addr = Some c" "connected c = False" "p_addr c = addr"
    using assms by (simp add: new_peer_conn_def)
  let ?c = "c\<lparr>lastPing := env_now e, currStreamId := streamId, p_salt := ?salt,
    connectionState := NET_STAT_WAITING_AUTHORISATION\<rparr>"
  obtain s' where w: "writePeerACK e p (SET_UINT32 ?salt (replicate 4 0) 0) (put_peer p ?c ?t) = Some s'"
    using writePeerACK_Some [of "SET_UINT32 ?salt (replicate 4 0) 0" e p "put_peer p ?c ?t"] by auto
  have "handleRPTL e addr p streamId s = Some s'"
    using assms(1,2) c(1) w by (simp add: handleRPTL_def login_of_None createStreamId_def)
  moreover have "rest s' = rest s"
    using core_rest [OF write_core(2) [OF w]] core_rest [OF core_basic(3)] by simp
  moreover have "login_of s' p = Some (NET_STAT_WAITING_AUTHORISATION, False, ?salt, addr)"
    using core_login [OF write_core(2) [OF w]] c(2,3) by simp
  ultimately show ?thesis by blast
qed

lemma login_of_Some:
  assumes "login_of s p = Some (st, con, salt, addr)"
  obtains c where "m_peers s p = Some c" "connectionState c = st" "connected c = con" "p_salt c = salt" "p_addr c = addr"
  using assms by (auto simp: login_of_def)

lemma rptk_progress:
  assumes "p > 0" "login_of s p = Some (NET_STAT_WAITING_AUTHORISATION, con, salt, addr)"
    and "8 \<le> length message" "drop 8 message = sha256_spec (salt_bytes salt @ m_password s)"
    and "length (m_password s) + 4 < 2 ^ 32"
  shows "\<exists>s'. handleRPTK e addr' p message s = Some s' \<and> rest s' = rest s \<and>
           login_of s' p = Some (NET_STAT_WAITING_CONFIG, con, salt, addr)"
proof -
  obtain c where c: "m_peers s p = Some c" "connectionState c = NET_STAT_WAITING_AUTHORISATION" "connected c = con"
      "p_salt c = salt" "p_addr c = addr"
    using login_of_Some [OF assms(2)] by metis
  let ?c = "c\<lparr>lastPing := env_now e\<rparr>"
  let ?s = "put_peer p (?c\<lparr>connectionState := NET_STAT_WAITING_CONFIG\<rparr>) (put_peer p ?c s)"
  obtain s' where w: "writePeerACK e p [] ?s = Some s'" using writePeerACK_Some [of "[]" e p ?s] by auto
  have v: "hash_valid (drop 8 message) (auth_hash (salt_bytes salt) (m_password s))"
    using assms(4,5) by (simp add: auth_hash_spec hash_valid_iff)
  have "handleRPTK e addr' p message s = Some s'"
    using assms(1,3) c v w by (simp add: handleRPTK_def Let_def)
  moreover have "rest s' = rest s" using core_rest [OF write_core(2) [OF w]] by simp
  moreover have "login_of s' p = Some (NET_STAT_WAITING_CONFIG, con, salt, addr)"
    using core_login [OF write_core(2) [OF w]] c by simp
  ultimately show ?thesis by blast
qed

lemma rptc_progress:
  assumes "p > 0" "login_of s p = Some (NET_STAT_WAITING_CONFIG, con, salt, addr)"
    and "8 \<le> length message" "env_json e (drop 8 message) = Json_object" "lists_fit e p s"
  shows "\<exists>s'. handleRPTC e addr' p message s = Some s' \<and> rest s' = rest s \<and>
           login_of s' p = Some (NET_STAT_RUNNING, True, salt, addr)"
proof -
  obtain c where c: "m_peers s p = Some c" "connectionState c = NET_STAT_WAITING_CONFIG" "p_salt c = salt" "p_addr c = addr"
    using login_of_Some [OF assms(2)] by metis
  let ?c = "c\<lparr>lastPing := env_now e\<rparr>"
  let ?d = "?c\<lparr>p_config := drop 8 message, connectionState := NET_STAT_RUNNING, connected := True,
    pingsReceived := 0, lastPing := env_now e\<rparr>"
  let ?s = "put_peer p ?d (put_peer p ?c s)"
  obtain s1 where w: "writePeerACK e p [] ?s = Some s1" using writePeerACK_Some [of "[]" e p ?s] by auto
  have r: "rest s1 = rest s" using core_rest [OF write_core(2) [OF w]] by simp
  then obtain s' where l: "sendLists e p s1 = Some s'"
    using sendLists_Some [OF assms(1)] rest_same(2) assms(5) by metis
  have "handleRPTC e addr' p message s = Some s'"
    using assms(1,3,4) c w l by (simp add: handleRPTC_def Let_def)
  moreover have "rest s' = rest s" using core_rest [OF write_core(5) [OF l]] r by simp
  moreover have "login_of s' p = Some (NET_STAT_RUNNING, True, salt, addr)"
    using core_login [OF write_core(5) [OF l]] core_login [OF write_core(2) [OF w]] c by simp
  ultimately show ?thesis by blast
qed


section \<open>Whole messages\<close>

text \<open>The clock on a quiet FNE: nothing to do but the message it receives.\<close>

definition calm :: "'h fne \<Rightarrow> bool" where
  "calm s \<longleftrightarrow> fne_status s = NET_STAT_MST_RUNNING \<and> \<not> m_forceListUpdate s \<and>
     \<not> (isRunning (m_maintainenceTimer s) \<and> hasExpired (m_maintainenceTimer s)) \<and>
     \<not> (isRunning (m_updateLookupTimer s) \<and> hasExpired (m_updateLookupTimer s))"

lemma calm_rest: "rest s' = rest s \<Longrightarrow> calm s' = calm s"
  by (simp add: calm_def rest_same(3-6) [of s' s])

lemma calm_receive:
  assumes "calm s"
  shows "fneClock h e 0 rx s = receive h e rx s"
proof -
  have t: "timerClock 0 t = t" for t by (simp add: timerClock_def)
  have u: "s\<lparr>m_maintainenceTimer := m_maintainenceTimer s\<rparr> = s" "s\<lparr>m_updateLookupTimer := m_updateLookupTimer s\<rparr> = s"
    by (rule fne.equality; simp; fail)+
  note c = assms [unfolded calm_def]
  have "maintain e 0 s = s" unfolding maintain_def t Let_def u using c by (simp only: if_False)
  moreover have "updateLists e 0 s = Some s" unfolding updateLists_def t Let_def u using c by (simp only: if_False simp_thms)
  moreover have "fne_status s = NET_STAT_MST_RUNNING" using c by simp
  ultimately show ?thesis by (simp add: fneClock_def)
qed

lemma calm_clock:
  assumes "calm s" "read_frame dgram = Received rtp fne message" "message \<noteq> []"
  shows "fneClock h e 0 (Some (dgram, addr)) s = handleMessage h e addr rtp fne message s"
  using assms by (simp add: calm_receive receive_def)

lemma message_delivered:
  assumes "length message \<le> 8160"
  shows "\<exists>dgram rtp. read_frame dgram = Received rtp (frame_fne message streamId p opcode) message"
proof -
  obtain header buffer where bf: "build_frame 0 message streamId p p opcode 0 0 = (header, buffer)"
    by (cases "build_frame 0 message streamId p p opcode 0 0")
  have "take 32 buffer @ message = buffer" using build_frame_layout(2) [OF bf] by (metis append_take_drop_id)
  then show ?thesis using read_built [OF bf assms refl] by auto
qed

lemma frame_fne_fields [simp]:
  "m_hdrPeerId (frame_fne message streamId p opcode) = p" "m_streamId (frame_fne message streamId p opcode) = streamId"
  "m_func (frame_fne message streamId p opcode) = fst opcode" "m_subFunc (frame_fne message streamId p opcode) = snd opcode"
  by (simp_all add: frame_fne_def)

lemma handleMessage_login:
  "m_func fne = NET_FUNC_RPTL \<Longrightarrow> handleMessage h e addr rtp fne message s =
     handleRPTL e addr (m_hdrPeerId fne) (m_streamId fne) (updateSequence (m_hdrPeerId fne) (m_streamId fne) (m_seq rtp) s)"
  "m_func fne = NET_FUNC_RPTK \<Longrightarrow> handleMessage h e addr rtp fne message s =
     handleRPTK e addr (m_hdrPeerId fne) message (updateSequence (m_hdrPeerId fne) (m_streamId fne) (m_seq rtp) s)"
  "m_func fne = NET_FUNC_RPTC \<Longrightarrow> handleMessage h e addr rtp fne message s =
     handleRPTC e addr (m_hdrPeerId fne) message (updateSequence (m_hdrPeerId fne) (m_streamId fne) (m_seq rtp) s)"
  by (simp_all add: handleMessage_def Let_def net_funcs)

text \<open>
  A peer that knows the password gets in: after its login, the answer to the salt it was sent
  and its configuration it is connected, with the address its login came from.  The answer and
  the configuration are accepted from any address.
\<close>

theorem login_succeeds:
  assumes "p > 0" "m_peers s p = None" "sa_ip addr \<noteq> []" "sa_port addr > 0" "length (m_password s) + 4 < 2 ^ 32"
    and f1: "m_func f1 = NET_FUNC_RPTL" "m_hdrPeerId f1 = p"
    and f2: "m_func f2 = NET_FUNC_RPTK" "m_hdrPeerId f2 = p"
    and m2: "8 \<le> length m2" "drop 8 m2 = sha256_spec (salt_bytes (env_random e1 (m_drawn s)) @ m_password s)"
    and f3: "m_func f3 = NET_FUNC_RPTC" "m_hdrPeerId f3 = p"
    and m3: "8 \<le> length m3" "env_json e3 (drop 8 m3) = Json_object" and fit: "lists_fit e3 p s"
  shows "\<exists>s1 s2 s3 c. handleMessage h e1 addr r1 f1 m1 s = Some s1 \<and>
            handleMessage h e2 addr2 r2 f2 m2 s1 = Some s2 \<and>
            handleMessage h e3 addr3 r3 f3 m3 s2 = Some s3 \<and>
            m_peers s3 p = Some c \<and> connected c \<and> p_addr c = addr"
proof -
  let ?u1 = "updateSequence p (m_streamId f1) (m_seq r1) s"
  have "login_of ?u1 p = None" using assms(2) unfolding login_of_updateSequence login_of_None .
  then obtain s1 where s1: "handleRPTL e1 addr p (m_streamId f1) ?u1 = Some s1" "rest s1 = rest ?u1"
      "login_of s1 p = Some (NET_STAT_WAITING_AUTHORISATION, False, env_random e1 (m_drawn ?u1), addr)"
    using rptl_progress [OF assms(1) _ assms(3,4)] by blast
  let ?u2 = "updateSequence p (m_streamId f2) (m_seq r2) s1"
  have r1: "rest ?u2 = rest s" using s1(2) by simp
  have l1: "login_of ?u2 p = Some (NET_STAT_WAITING_AUTHORISATION, False, env_random e1 (m_drawn s), addr)"
    using s1(3) unfolding login_of_updateSequence drawn_updateSequence .
  obtain s2 where s2: "handleRPTK e2 addr2 p m2 ?u2 = Some s2" "rest s2 = rest ?u2"
      "login_of s2 p = Some (NET_STAT_WAITING_CONFIG, False, env_random e1 (m_drawn s), addr)"
    using rptk_progress [OF assms(1) l1 m2(1)] m2(2) assms(5) unfolding rest_same(1) [OF r1] by blast
  let ?u3 = "updateSequence p (m_streamId f3) (m_seq r3) s2"
  have r2: "rest ?u3 = rest s" using s2(2) r1 by simp
  have l2: "login_of ?u3 p = Some (NET_STAT_WAITING_CONFIG, False, env_random e1 (m_drawn s), addr)"
    using s2(3) unfolding login_of_updateSequence .
  obtain s3 where s3: "handleRPTC e3 addr3 p m3 ?u3 = Some s3"
      "login_of s3 p = Some (NET_STAT_RUNNING, True, env_random e1 (m_drawn s), addr)"
    using rptc_progress [OF assms(1) l2 m3] fit unfolding rest_same(2) [OF r2] by blast
  show ?thesis
    unfolding handleMessage_login(1) [OF f1(1)] handleMessage_login(2) [OF f2(1)] handleMessage_login(3) [OF f3(1)]
      f1(2) f2(2) f3(2)
    using s1(1) s2(1) s3(1) login_of_Some [OF s3(2)] by metis
qed


section \<open>A run with a login\<close>

text \<open>The datagrams of a login, on a calm FNE.\<close>

lemma login_run:
  fixes s0 :: "'h fne" and e :: "'e fne_env_scheme" and h :: "('e, 'h) traffic"
  assumes "calm s0" "p > 0" "m_peers s0 p = None" "sa_ip addr \<noteq> []" "sa_port addr > 0"
    and "length (m_password s0) + 4 < 2 ^ 32" "\<And>b. env_json e b = Json_object" "lists_fit e p s0"
  shows "\<exists>tr s c. fne_run h s0 tr s \<and> m_peers s p = Some c \<and> connected c \<and> p_addr c = addr \<and> rest s = rest s0"
proof -
  let ?hash = "sha256_spec (salt_bytes (env_random e (m_drawn s0)) @ m_password s0)"
  let ?m = "replicate 8 0 @ ?hash"
  have m: "length ?m \<le> 8160" "?m \<noteq> []" "8 \<le> length ?m" "drop 8 ?m = ?hash" by simp_all
  obtain d1 r1 where d1: "read_frame d1 = Received r1 (frame_fne ?m 0 p (NET_FUNC_RPTL, NET_SUBFUNC_NOP)) ?m"
    using message_delivered [OF m(1)] by blast
  obtain d2 r2 where d2: "read_frame d2 = Received r2 (frame_fne ?m 0 p (NET_FUNC_RPTK, NET_SUBFUNC_NOP)) ?m"
    using message_delivered [OF m(1)] by blast
  obtain d3 r3 where d3: "read_frame d3 = Received r3 (frame_fne ?m 0 p (NET_FUNC_RPTC, NET_SUBFUNC_NOP)) ?m"
    using message_delivered [OF m(1)] by blast
  have us: "updateSequence p 0 q s = s" for q and s :: "'h fne" by (simp add: updateSequence_def)
  obtain s1 where s1: "handleRPTL e addr p 0 s0 = Some s1" "rest s1 = rest s0"
      "login_of s1 p = Some (NET_STAT_WAITING_AUTHORISATION, False, env_random e (m_drawn s0), addr)"
    using rptl_progress [OF assms(2) _ assms(4,5)] assms(3) login_of_None by metis
  obtain s2 where s2: "handleRPTK e addr p ?m s1 = Some s2" "rest s2 = rest s1"
      "login_of s2 p = Some (NET_STAT_WAITING_CONFIG, False, env_random e (m_drawn s0), addr)"
    using rptk_progress [OF assms(2) s1(3) m(3)] m(4) assms(6) unfolding rest_same(1) [OF s1(2)] by metis
  have r2: "rest s2 = rest s0" using s1(2) s2(2) by simp
  have fit: "lists_fit e p s2" using assms(8) unfolding rest_same(2) [OF r2] .
  obtain s3 where s3: "handleRPTC e addr p ?m s2 = Some s3" "rest s3 = rest s2"
      "login_of s3 p = Some (NET_STAT_RUNNING, True, env_random e (m_drawn s0), addr)"
    using rptc_progress [OF assms(2) s2(3) m(3) _ fit] assms(7) by metis
  have calm: "calm s1" "calm s2" using assms(1) calm_rest [OF s1(2)] calm_rest [OF r2] by simp_all
  have c1: "fneClock h e 0 (Some (d1, addr)) s0 = Some s1"
    unfolding calm_clock [OF assms(1) d1 m(2)] by (simp add: handleMessage_login us s1(1))
  have c2: "fneClock h e 0 (Some (d2, addr)) s1 = Some s2"
    unfolding calm_clock [OF calm(1) d2 m(2)] by (simp add: handleMessage_login us s2(1))
  have c3: "fneClock h e 0 (Some (d3, addr)) s2 = Some s3"
    unfolding calm_clock [OF calm(2) d3 m(2)] by (simp add: handleMessage_login us s3(1))
  have "rest s3 = rest s0" using s3(2) r2 by simp
  then show ?thesis
    using fne_run.tick [OF fne_run.tick [OF fne_run.tick [OF fne_run.start c1] c2] c3] login_of_Some [OF s3(3)] by metis
qed

text \<open>An FNE fresh from its constructor, opened.\<close>

lemma fresh_fne:
  fixes e :: "'e fne_env_scheme" and tags :: 'h
  shows "\<exists>s. new_fne e 9000 [0x70] True True True False False 5 5 10 Map.empty [] False tags = Some s \<and>
    calm (snd (fneOpen True s)) \<and> m_peers (snd (fneOpen True s)) = Map.empty \<and>
    m_password (snd (fneOpen True s)) = [0x70] \<and> m_sendTalkgroups (snd (fneOpen True s)) = False \<and>
    m_ridLookup (snd (fneOpen True s)) = Map.empty \<and> m_dmrEnabled (snd (fneOpen True s))"
  by (simp add: new_fne_def new_base_net_def new_timer_of_def timeout_of_def fneOpen_def calm_def fne.defs
      timerStart_def isRunning_def hasExpired_def base_net.defs word_le_nat_alt)

section \<open>The clock and the login protocol\<close>

text \<open>
  C8. One tick of the FNE is, for every peer, at most a removal by the maintenance and then a step of
  the login protocol for the message it receives.
\<close>

theorem clock_refines_login:
  assumes "traffic_ok h" "peers_ok s" "length (m_password s) + 4 < 2 ^ 32" "fneClock h e ms rx s = Some s'"
  shows "peers_ok s' \<and> m_password s' = m_password s \<and>
         (\<exists>x \<in> {phase s p, Out}. auth_step (m_password s) (login_event_of e p rx) x (phase s' p))"
  by (rule clock_login_step [OF assms])

section \<open>Who is connected\<close>

text \<open>
  C3. Every connected peer has logged in: the datagrams received since the start hold, in this order,
  its login from the address recorded for it, the SHA-256 of a salt drawn for that login and
  the password, and a configuration that is a JSON object.
\<close>

theorem connected_has_logged_in:
  assumes "traffic_ok h" "m_peers s0 = Map.empty" "length (m_password s0) + 4 < 2 ^ 32"
    and "fne_run h s0 tr s" "m_peers s p = Some c" "connected c"
  shows "login_done (m_password s0) (p_addr c) (events p tr)"
proof -
  have "phase s p = Up (p_addr c)" using assms(5,6) by (simp add: phase_def view_Some phase_of_def)
  then show ?thesis using run_earned [OF assms(4,1,2,3), of p] by simp
qed

definition no_traffic :: "(unit, unit) traffic" where
  "no_traffic = \<lparr>on_dmr = \<lambda>e m p q i s. Some s, on_p25 = \<lambda>e m p q i s. Some s, on_nxdn = \<lambda>e m p q i s. Some s,
     on_idle = \<lambda>e s. Some s\<rparr>"


lemma no_traffic_ok: "traffic_ok no_traffic"
  by (simp add: traffic_ok_def no_traffic_def keeps_logins_def)

text \<open>An environment for the examples.\<close>

definition sample_env :: "unit fne_env_scheme" where
  "sample_env = \<lparr>env_now = 0, env_since = \<lambda>_. 0, env_random = \<lambda>_. 0, env_written = True, env_peers = [],
     env_rids = [], env_json = \<lambda>_. Json_object\<rparr>"

lemma sample_run:
  "\<exists>s0 tr s c. m_peers s0 = Map.empty \<and> m_password s0 = [0x70] \<and> fne_run (h :: (unit, 'h) traffic) s0 tr s \<and>
     m_peers s 7 = Some c \<and> connected c \<and> p_addr c = \<lparr>sa_ip = ''10.0.0.1'', sa_port = 62031\<rparr> \<and> calm s \<and>
     m_dmrEnabled s"
proof -
  obtain s where s: "calm (snd (fneOpen True s))" "m_peers (snd (fneOpen True s)) = Map.empty"
      "m_password (snd (fneOpen True s)) = [0x70]" "m_sendTalkgroups (snd (fneOpen True s)) = False"
      "m_dmrEnabled (snd (fneOpen True (s :: 'h fne)))"
    using fresh_fne [of sample_env undefined] by blast
  let ?s0 = "snd (fneOpen True s)"
  have fit: "lists_fit sample_env 7 ?s0" by (simp add: lists_fit_def s(4) enabled_rids_def sample_env_def)
  obtain tr t c where r: "fne_run h ?s0 tr t" "m_peers t 7 = Some c" "connected c"
      "p_addr c = \<lparr>sa_ip = ''10.0.0.1'', sa_port = 62031\<rparr>" "rest t = rest ?s0"
    using login_run [OF s(1) _ _ _ _ _ _ fit, of "\<lparr>sa_ip = ''10.0.0.1'', sa_port = 62031\<rparr>" h] s(2,3)
    by (auto simp: sample_env_def)
  have "m_dmrEnabled t = m_dmrEnabled ?s0"
    using arg_cong [OF r(5), of m_dmrEnabled] by (simp add: rest_def core_def)
  then show ?thesis using s calm_rest [OF r(5)] r by blast
qed

theorem connected_has_logged_in_witness:
  "\<exists>s0 tr s c. fne_run no_traffic s0 tr s \<and> m_peers s 7 = Some c \<and> connected c \<and>
     login_done (m_password s0) (p_addr c) (events 7 tr)"
proof -
  obtain s0 tr s c where r: "m_peers s0 = Map.empty" "m_password s0 = [0x70]" "fne_run no_traffic s0 tr s"
      "m_peers s 7 = Some c" "connected c"
    using sample_run [of no_traffic] by blast
  have "login_done (m_password s0) (p_addr c) (events 7 tr)"
    by (rule connected_has_logged_in [OF no_traffic_ok r(1) _ r(3-5)]) (simp add: r(2))
  then show ?thesis using r(3-5) by blast
qed

section \<open>Whose traffic is processed\<close>

lemma valid_peer_updateSequence:
  assumes "m_peers (updateSequence p streamId seq s) q = Some c'" "valid_peer addr c'"
  shows "\<exists>c. m_peers s q = Some c \<and> connected c \<and> sa_ip (p_addr c) = sa_ip addr"
  using assms by (auto simp: updateSequence_def put_peer_def valid_peer_def split: option.splits if_splits)

text \<open>
  C16. Whether and how the traffic handlers process a datagram can matter only if its peer is
  connected and has logged in from the IP address the datagram comes from: for anybody else the
  clock does the same whatever the handlers are.
\<close>

theorem traffic_needs_login:
  assumes "traffic_ok h" "m_peers s0 = Map.empty" "length (m_password s0) + 4 < 2 ^ 32"
    and "fne_run h s0 tr s"
    and "read_frame dgram = Received rtp fne message" "message \<noteq> []"
    and "fneClock h e ms (Some (dgram, addr)) s \<noteq> fneClock h' e ms (Some (dgram, addr)) s"
  shows "\<exists>login. sa_ip login = sa_ip addr \<and> login_done (m_password s0) login (events (m_hdrPeerId fne) tr)"
proof -
  let ?p = "m_hdrPeerId fne"
  obtain s1 where u: "updateLists e ms (maintain e ms s) = Some s1"
    and n: "handleMessage h e addr rtp fne message s1 \<noteq> handleMessage h' e addr rtp fne message s1"
    using assms(5-7) by (cases "updateLists e ms (maintain e ms s)") (auto simp: fneClock_def receive_def split: if_splits)
  let ?s = "updateSequence ?p (m_streamId fne) (m_seq rtp) s1"
  have "handleProtocol h e addr ?p (m_subFunc fne) (m_seq rtp) (m_streamId fne) message ?s \<noteq>
        handleProtocol h' e addr ?p (m_subFunc fne) (m_seq rtp) (m_streamId fne) message ?s"
    using n by (auto simp: handleMessage_def Let_def split: if_splits)
  then obtain c' where "m_peers ?s ?p = Some c'" "valid_peer addr c'"
    by (auto simp: handleProtocol_def Let_def split: if_splits option.splits)
  then obtain c where c: "m_peers s1 ?p = Some c" "connected c" "sa_ip (p_addr c) = sa_ip addr"
    using valid_peer_updateSequence by blast
  have "peers_view s ?p = Some (conn_view c)"
    using view_Some [OF c(1)] updateLists_core [OF u] by (auto simp: maintain_view split: if_splits)
  then have "phase s ?p = Up (p_addr c)"
    using c(2) by (simp add: phase_def) (simp add: phase_of_def)
  then show ?thesis using run_earned [OF assms(4,1,2,3), of ?p] c(3) by auto
qed

theorem traffic_needs_login_witness:
  "\<exists>s0 tr s login. fne_run no_traffic s0 tr s \<and> sa_ip login = ''10.0.0.1'' \<and> login_done [0x70] login (events 7 tr)"
proof -
  let ?addr = "\<lparr>sa_ip = ''10.0.0.1'', sa_port = 62031\<rparr>"
  obtain s0 tr s c where r: "m_peers s0 = Map.empty" "m_password s0 = [0x70]" "fne_run no_traffic s0 tr s"
      "m_peers s 7 = Some c" "connected c" "p_addr c = ?addr" "calm s" "m_dmrEnabled s"
    using sample_run [of no_traffic] by blast
  let ?f = "frame_fne [0] 1 7 (NET_FUNC_PROTOCOL, NET_PROTOCOL_SUBFUNC_DMR)"
  obtain dgram rtp where d: "read_frame dgram = Received rtp ?f [0]"
    using message_delivered [of "[0]" 1 7 "(NET_FUNC_PROTOCOL, NET_PROTOCOL_SUBFUNC_DMR)"] by auto
  let ?s = "updateSequence 7 1 (m_seq rtp) s"
  have m: "m_dmrEnabled ?s" "\<exists>c'. m_peers ?s 7 = Some c' \<and> valid_peer ?addr c'"
    using r(4-6,8) by (auto simp: updateSequence_def put_peer_def valid_peer_def)
  let ?deny = "no_traffic\<lparr>on_dmr := \<lambda>e m p q i s. None\<rparr>"
  have "handleMessage no_traffic sample_env ?addr rtp ?f [0] s \<noteq> handleMessage ?deny sample_env ?addr rtp ?f [0] s"
    using m by (auto simp: handleMessage_def handleProtocol_def no_traffic_def net_funcs)
  then have "fneClock no_traffic sample_env 0 (Some (dgram, ?addr)) s \<noteq> fneClock ?deny sample_env 0 (Some (dgram, ?addr)) s"
    by (simp add: calm_clock [OF r(7) d])
  from traffic_needs_login [OF no_traffic_ok r(1) _ r(3) d _ this]
  have "\<exists>login. sa_ip login = ''10.0.0.1'' \<and> login_done [0x70] login (events 7 tr)" using r(2) by simp
  then show ?thesis using r(3) by blast
qed


theorem login_succeeds_witness:
  "\<exists>(s :: unit fne) s1 s2 s3 c. m_peers s = Map.empty \<and>
     handleMessage no_traffic sample_env \<lparr>sa_ip = ''10.0.0.1'', sa_port = 62031\<rparr> new_rtp_hdr
       (frame_fne [0] 0 7 (NET_FUNC_RPTL, NET_SUBFUNC_NOP)) [0] s = Some s1 \<and>
     handleMessage no_traffic sample_env \<lparr>sa_ip = ''10.0.0.2'', sa_port = 1\<rparr> new_rtp_hdr
       (frame_fne [0] 0 7 (NET_FUNC_RPTK, NET_SUBFUNC_NOP))
       (replicate 8 0 @ sha256_spec (salt_bytes 0 @ [0x70])) s1 = Some s2 \<and>
     handleMessage no_traffic sample_env \<lparr>sa_ip = ''10.0.0.2'', sa_port = 1\<rparr> new_rtp_hdr
       (frame_fne [0] 0 7 (NET_FUNC_RPTC, NET_SUBFUNC_NOP)) (replicate 8 0) s2 = Some s3 \<and>
     m_peers s3 7 = Some c \<and> connected c \<and> sa_ip (p_addr c) = ''10.0.0.1''"
proof -
  obtain s where s: "m_peers (snd (fneOpen True s)) = Map.empty"
      "m_password (snd (fneOpen True s)) = [0x70]" "m_sendTalkgroups (snd (fneOpen True (s :: unit fne))) = False"
    using fresh_fne [of sample_env "()"] by blast
  let ?s = "snd (fneOpen True s)"
  have r: "env_random sample_env n = 0" "env_json sample_env b = Json_object" for n b by (simp_all add: sample_env_def)
  have fit: "lists_fit sample_env 7 ?s" by (simp add: lists_fit_def s(3) enabled_rids_def sample_env_def)
  have f: "m_func (frame_fne m i 7 (op, sub)) = op" "m_hdrPeerId (frame_fne m i 7 (op, sub)) = 7" for m i op sub by simp_all
  have a: "(7 :: u32) > 0" "m_peers ?s 7 = None" "sa_ip \<lparr>sa_ip = ''10.0.0.1'', sa_port = 62031\<rparr> \<noteq> []"
    "sa_port \<lparr>sa_ip = ''10.0.0.1'', sa_port = 62031\<rparr> > 0" "length (m_password ?s) + 4 < 2 ^ 32"
    using s by simp_all
  have m: "8 \<le> length (replicate 8 0 @ sha256_spec (salt_bytes 0 @ [0x70]))"
    "drop 8 (replicate 8 0 @ sha256_spec (salt_bytes 0 @ [0x70])) =
       sha256_spec (salt_bytes (env_random sample_env (m_drawn ?s)) @ m_password ?s)"
    "8 \<le> length (replicate 8 (0 :: u8))"
    by (simp_all add: r s(2))
  from login_succeeds [OF a f f m(1,2) f m(3) r(2) fit] s(1) show ?thesis by fastforce
qed

section \<open>Failed answers\<close>

fun answers :: "'e fne_env_scheme \<Rightarrow> sockaddr \<Rightarrow> u32 \<Rightarrow> bytes list \<Rightarrow> 'h fne \<Rightarrow> 'h fne option" where
  "answers e addr p [] s = Some s"
| "answers e addr p (m # ms) s = Option.bind (handleRPTK e addr p m s) (answers e addr p ms)"

lemma wrong_answer:
  assumes "p > 0" "login_of s p = Some (NET_STAT_WAITING_AUTHORISATION, con, salt, a)" "length (m_password s) + 4 < 2 ^ 32"
    and "8 \<le> length m" "drop 8 m \<noteq> sha256_spec (salt_bytes salt @ m_password s)"
  shows "\<exists>s'. handleRPTK e addr p m s = Some s' \<and> login_of s' p = login_of s p \<and> rest s' = rest s"
proof -
  obtain c where c: "m_peers s p = Some c" "connectionState c = NET_STAT_WAITING_AUTHORISATION" "p_salt c = salt"
    using login_of_Some [OF assms(2)] by metis
  let ?s = "put_peer p (c\<lparr>lastPing := env_now e\<rparr>) s"
  obtain t where w: "writePeerNAK e p ?s = Some t" using assms(1) by (simp add: writePeerNAK_def)
  have v: "\<not> hash_valid (drop 8 m) (auth_hash (salt_bytes salt) (m_password s))"
    using assms(3,5) by (simp add: auth_hash_spec hash_valid_iff)
  have "handleRPTK e addr p m s = Some t"
    using assms(1,4) c v w by (simp add: handleRPTK_def Let_def erase_peer_def)
  moreover have "login_of t p = login_of s p"
    using core_login [OF write_core(3) [OF w], of p] c by simp (simp add: login_of_def)
  moreover have "rest t = rest s" using core_rest [OF write_core(3) [OF w]] by simp
  ultimately show ?thesis by blast
qed

text \<open>
  A refused peer may try again and again: after any number of wrong answers, from any address,
  its entry still waits for the answer to the same salt (the code erases the entry and writes it
  back).
\<close>

theorem failed_answers_keep_challenge:
  assumes "p > 0" "m_peers s p = Some c" "connectionState c = NET_STAT_WAITING_AUTHORISATION"
    and "length (m_password s) + 4 < 2 ^ 32"
    and "\<forall>m \<in> set ms. 8 \<le> length m \<and> drop 8 m \<noteq> sha256_spec (salt_bytes (p_salt c) @ m_password s)"
  shows "\<exists>s' c'. answers e addr p ms s = Some s' \<and> m_peers s' p = Some c' \<and>
           connectionState c' = NET_STAT_WAITING_AUTHORISATION \<and> p_salt c' = p_salt c"
proof -
  have "\<exists>s'. answers e addr p ms t = Some s' \<and> login_of s' p = login_of s p"
    if "login_of t p = login_of s p" "rest t = rest s" for t
    using assms(5) that
  proof (induction ms arbitrary: t)
    case Nil
    then show ?case by simp
  next
    case (Cons m ms)
    have l: "login_of t p = Some (NET_STAT_WAITING_AUTHORISATION, connected c, p_salt c, p_addr c)"
      using Cons.prems(2) assms(2,3) by (simp add: login_of_def)
    obtain t' where t': "handleRPTK e addr p m t = Some t'" "login_of t' p = login_of t p" "rest t' = rest t"
      using wrong_answer [OF assms(1) l, of m e addr] assms(4) Cons.prems(1) rest_same(1) [OF Cons.prems(3)] by auto
    then show ?case using Cons.IH [of t'] Cons.prems by simp
  qed
  then obtain s' where s': "answers e addr p ms s = Some s'" "login_of s' p = login_of s p" by blast
  then have "login_of s' p = Some (NET_STAT_WAITING_AUTHORISATION, connected c, p_salt c, p_addr c)"
    using assms(2,3) by (simp add: login_of_def)
  from login_of_Some [OF this] s'(1) show ?thesis by metis
qed


text \<open>A table with one connection, for the examples.\<close>

definition sample_conn :: "NET_CONN_STATUS \<Rightarrow> peer_conn" where
  "sample_conn st = \<lparr>p_id = 7, currStreamId = 0, p_addr = \<lparr>sa_ip = ''10.0.0.1'', sa_port = 62031\<rparr>, p_salt = 5,
     connected = (st = NET_STAT_RUNNING), connectionState = st, pingsReceived = 0, lastPing = 100, p_config = [],
     pktLastSeq = 0, pktNextSeq = 1\<rparr>"

definition sample_fne :: "NET_CONN_STATUS \<Rightarrow> unit fne" where
  "sample_fne st = put_peer 7 (sample_conn st)
     (snd (fneOpen True (the (new_fne sample_env 9000 [0x70] True True True False False 5 5 10 Map.empty [] False ()))))"

lemma sample_fne_fields:
  "m_peers (sample_fne st) = [7 \<mapsto> sample_conn st]" "m_password (sample_fne st) = [0x70]"
  "m_pingTime (sample_fne st) = 5" "m_maxMissedPings (sample_fne st) = 5" "m_ridLookup (sample_fne st) = Map.empty"
  "m_maintainenceTimer (sample_fne st) = \<lparr>m_ticksPerSec = 1000, m_timeout = 5001, m_timer = 1, m_paused = False\<rparr>"
  by (simp_all add: sample_fne_def put_peer_def new_fne_def new_base_net_def new_timer_of_def timeout_of_def
      fneOpen_def fne.defs timerStart_def base_net.defs)

theorem failed_answers_keep_challenge_witness:
  "\<exists>s' c'. answers sample_env \<lparr>sa_ip = ''10.9.9.9'', sa_port = 1\<rparr> 7 (replicate 1000 (replicate 8 0))
       (sample_fne NET_STAT_WAITING_AUTHORISATION) = Some s' \<and>
     m_peers s' 7 = Some c' \<and> p_salt c' = 5"
proof -
  have e: "[] \<noteq> sha256_spec m" for m using length_sha256_spec [of m] by (metis list.size(3) zero_neq_numeral)
  have "\<exists>s' c'. answers sample_env \<lparr>sa_ip = ''10.9.9.9'', sa_port = 1\<rparr> 7 (replicate 1000 (replicate 8 0))
       (sample_fne NET_STAT_WAITING_AUTHORISATION) = Some s' \<and> m_peers s' 7 = Some c' \<and>
       connectionState c' = NET_STAT_WAITING_AUTHORISATION \<and>
       p_salt c' = p_salt (sample_conn NET_STAT_WAITING_AUTHORISATION)"
    by (rule failed_answers_keep_challenge) (simp_all add: sample_fne_fields sample_conn_def e)
  then show ?thesis by (auto simp: sample_conn_def)
qed

section \<open>Quiet peers\<close>

text \<open>
  When the maintenance timer runs out, exactly the connected peers whose last ping is too old
  leave the table.  A peer that never finished its login is not connected and stays.
\<close>

theorem maintenance_removes_quiet:
  assumes "walk_of (m_peers s) (env_peers e)"
    and "isRunning (timerClock ms (m_maintainenceTimer s))" "hasExpired (timerClock ms (m_maintainenceTimer s))"
  shows "m_peers (maintain e ms s) p =
     (case m_peers s p of
        None \<Rightarrow> None
      | Some c \<Rightarrow> if connected c \<and> lastPing c + ucast (m_pingTime s * m_maxMissedPings s) < env_now e then None
                  else Some c)"
proof -
  have f: "m_peers (fold erase_peer ps s) p = (if p \<in> set ps then None else m_peers s p)" for ps s
    by (induction ps arbitrary: s) (auto simp: erase_peer_def)
  have u: "peer_walk e (s\<lparr>m_maintainenceTimer := t\<rparr>) = peer_walk e s" "quiet e (s\<lparr>m_maintainenceTimer := t\<rparr>) = quiet e s" for t
    by (simp_all add: peer_walk_def quiet_def fun_eq_iff split: option.split)
  have "m_peers (maintain e ms s) p = (if p \<in> set (filter (quiet e s) (peer_walk e s)) then None else m_peers s p)"
    using assms(2,3) by (simp add: maintain_def Let_def u f)
  moreover have "p \<in> set (env_peers e)" if "m_peers s p = Some c" for c
    using walk_of_mem [OF assms(1)] that by blast
  ultimately show ?thesis by (auto simp: peer_walk_def quiet_def split: option.split)
qed

theorem maintenance_removes_quiet_witness:
  "m_peers (maintain (sample_env\<lparr>env_now := 1000, env_peers := [7]\<rparr>) 5000 (sample_fne NET_STAT_RUNNING)) 7 = None \<and>
   m_peers (maintain (sample_env\<lparr>env_now := 1000, env_peers := [7]\<rparr>) 5000 (sample_fne NET_STAT_WAITING_CONFIG)) 7 =
     Some (sample_conn NET_STAT_WAITING_CONFIG)"
proof -
  have w: "walk_of (m_peers (sample_fne st)) (env_peers (sample_env\<lparr>env_now := 1000, env_peers := [7]\<rparr>))" for st
    by (simp add: sample_fne_fields walk_of_def)
  have t: "isRunning (timerClock 5000 (m_maintainenceTimer (sample_fne st)))"
    "hasExpired (timerClock 5000 (m_maintainenceTimer (sample_fne st)))" for st
    by (simp_all add: sample_fne_fields timerClock_def isRunning_def hasExpired_def)
  show ?thesis
    using maintenance_removes_quiet [OF w t, of NET_STAT_RUNNING 7]
      maintenance_removes_quiet [OF w t, of NET_STAT_WAITING_CONFIG 7]
    by (simp add: sample_fne_fields sample_conn_def)
qed

section \<open>Messages in the name of another peer\<close>

text \<open>
  C39. The two login messages are taken from any address: sent in the name of a running peer they
  drop its connection.
\<close>

theorem login_message_drops_running_peer:
  assumes "p > 0" "m_peers s p = Some c" "connectionState c = NET_STAT_RUNNING"
  shows "\<exists>s1 s2. handleRPTK e addr p m s = Some s1 \<and> m_peers s1 p = None \<and>
                handleRPTC e addr p m s = Some s2 \<and> m_peers s2 p = None"
proof -
  let ?s = "put_peer p (c\<lparr>lastPing := env_now e\<rparr>) s"
  obtain t where w: "writePeerNAK e p ?s = Some t" using assms(1) by (simp add: writePeerNAK_def)
  have "handleRPTK e addr p m s = Some (erase_peer p t)" "handleRPTC e addr p m s = Some (erase_peer p t)"
    using assms w by (simp_all add: handleRPTK_def handleRPTC_def Let_def)
  then show ?thesis by (simp add: erase_peer_def)
qed

theorem login_message_drops_running_peer_witness:
  "\<exists>s1. handleRPTK sample_env \<lparr>sa_ip = ''10.9.9.9'', sa_port = 1\<rparr> 7 [] (sample_fne NET_STAT_RUNNING) = Some s1 \<and>
     m_peers s1 7 = None"
  using login_message_drops_running_peer
    [of 7 "sample_fne NET_STAT_RUNNING" "sample_conn NET_STAT_RUNNING" sample_env "\<lparr>sa_ip = ''10.9.9.9'', sa_port = 1\<rparr>" "[]"]
  by (auto simp: sample_fne_fields sample_conn_def)

section \<open>Long lists\<close>

text \<open>
  C40. A white list of more than 2045 radios does not fit the packet buffer it is copied to, so
  finishing a login with it runs past the buffer.
\<close>

theorem long_whitelist_overflows:
  assumes "p > 0" "m_peers s p = Some c" "connectionState c = NET_STAT_WAITING_CONFIG"
    and "8 \<le> length m" "env_json e (drop 8 m) = Json_object"
    and "length (enabled_rids True (env_rids e) (m_ridLookup s)) > 2045"
  shows "handleRPTC e addr p m s = None"
proof -
  let ?c = "c\<lparr>lastPing := env_now e\<rparr>"
  let ?d = "?c\<lparr>p_config := drop 8 m, connectionState := NET_STAT_RUNNING, connected := True,
    pingsReceived := 0, lastPing := env_now e\<rparr>"
  let ?s = "put_peer p ?d (put_peer p ?c s)"
  obtain s1 where w: "writePeerACK e p [] ?s = Some s1" using writePeerACK_Some [of "[]" e p ?s] by auto
  have "m_ridLookup s1 = m_ridLookup s"
    using core_tables [OF write_core(2) [OF w]] by (simp add: put_peer_def)
  moreover have "enabled_rids True (env_rids e) (m_ridLookup s) \<noteq> []" using assms(6) by auto
  ultimately have "writeWhitelistRIDs e p True s1 = None"
    using assms(6) by (simp add: writeWhitelistRIDs_def writePeerCommand_def length_rid_payload DATA_PACKET_LENGTH_def Let_def)
  then have "sendLists e p s1 = None" by (simp add: sendLists_def)
  then show ?thesis using assms w by (simp add: handleRPTC_def Let_def)
qed

theorem long_whitelist_overflows_witness:
  "handleRPTC (sample_env\<lparr>env_rids := map of_nat [0..<2046]\<rparr>) \<lparr>sa_ip = ''10.0.0.1'', sa_port = 1\<rparr> 7 (replicate 8 0)
     ((sample_fne NET_STAT_WAITING_CONFIG)\<lparr>m_ridLookup := \<lambda>i. if i < 2046 then Some (RadioId_of True False) else None\<rparr>) = None"
proof (rule long_whitelist_overflows [where c = "sample_conn NET_STAT_WAITING_CONFIG"])
  have enabled: "enabled_rids True ids (\<lambda>i. if i < 2046 then Some (RadioId_of True False) else None) =
      filter (\<lambda>i. i < 2046) ids" for ids
    by (auto simp: enabled_rids_def RadioId_of_def intro: filter_cong)
  have "(of_nat i :: u32) < 2046" if "i < 2046" for i
    using that by (simp add: word_less_nat_alt unat_of_nat take_bit_nat_eq_self)
  then have "filter (\<lambda>i. i < 2046) (map of_nat [0..<2046]) = (map of_nat [0..<2046] :: u32 list)"
    by (intro filter_True) auto
  then show "length (enabled_rids True (env_rids (sample_env\<lparr>env_rids := map of_nat [0..<2046]\<rparr>))
      (m_ridLookup ((sample_fne NET_STAT_WAITING_CONFIG)\<lparr>m_ridLookup := \<lambda>i. if i < 2046 then Some (RadioId_of True False) else None\<rparr>))) > 2045"
    by (simp add: enabled del: upt.simps upt_rec_numeral filter_map)
qed (simp_all add: sample_fne_fields sample_conn_def sample_env_def)


section \<open>A tick with a login\<close>

theorem clock_refines_login_witness:
  "\<exists>dgram s'. fneClock no_traffic sample_env 0 (Some (dgram, \<lparr>sa_ip = ''10.0.0.3'', sa_port = 1\<rparr>))
       (sample_fne NET_STAT_RUNNING) = Some s' \<and> peers_ok s' \<and>
     auth_step [0x70] (Login \<lparr>sa_ip = ''10.0.0.3'', sa_port = 1\<rparr> (\<lambda>_. 0)) Out (phase s' 8)"
proof -
  let ?addr = "\<lparr>sa_ip = ''10.0.0.3'', sa_port = 1\<rparr>" and ?s = "sample_fne NET_STAT_RUNNING"
  obtain dgram rtp where d: "read_frame dgram = Received rtp (frame_fne [0] 0 8 (NET_FUNC_RPTL, NET_SUBFUNC_NOP)) [0]"
    using message_delivered [of "[0]" 0 8 "(NET_FUNC_RPTL, NET_SUBFUNC_NOP)"] by auto
  have calm: "calm ?s"
    by (simp add: calm_def sample_fne_def put_peer_def new_fne_def new_base_net_def new_timer_of_def timeout_of_def
        fneOpen_def fne.defs timerStart_def base_net.defs isRunning_def hasExpired_def word_le_nat_alt)
  have none: "login_of ?s 8 = None" by (simp add: login_of_None sample_fne_fields)
  obtain s' where "handleRPTL sample_env ?addr 8 0 ?s = Some s'"
    using rptl_progress [OF _ none, of ?addr sample_env 0] by auto
  then have c: "fneClock no_traffic sample_env 0 (Some (dgram, ?addr)) ?s = Some s'"
    unfolding calm_clock [OF calm d list.simps(3)] by (simp add: handleMessage_login updateSequence_def)
  have ok: "peers_ok ?s" by (simp add: peers_ok_def sample_fne_fields sample_conn_def conn_ok_def)
  have out: "phase ?s 8 = Out" by (simp add: phase_def peers_view_def sample_fne_fields)
  have ev: "login_event_of sample_env 8 (Some (dgram, ?addr)) = Login ?addr (\<lambda>_. 0)"
    by (simp add: login_event_of_def d message_event_def sample_env_def)
  show ?thesis
    using clock_refines_login [OF no_traffic_ok ok _ c, of 8] c by (auto simp: sample_fne_fields out ev)
qed

end
