(* ===== verification/Hamming.thy ===== *)
theory Hamming
  imports ByteUtils
begin

text \<open>
  The six Hamming codes of \<^verbatim>\<open>src/src/common/edac/Hamming.cpp\<close>.  Each encode function is a
  list of assignments \<open>d[p] = d[i] ^ d[j] ^ ...\<close> and each decode function the comparisons of the
  same sums with the same bits, then a \<open>switch\<close> over the number \<open>n\<close> made of the comparisons.
  Both are data here: the assignments are \<open>rows\<close> (the indices of the sum and the index
  of the parity bit), the \<open>switch\<close> is \<open>cases\<close> (the number and the bit it inverts).  What a code
  promises (its own words decode unchanged, one inverted bit is put right) is a locale that each
  of the six interprets.
\<close>

section \<open>Sums, syndromes, corrections\<close>

type_synonym parity_rows = "(nat list \<times> nat) list"

definition xors :: "bits \<Rightarrow> nat list \<Rightarrow> bool" where
  "xors d is = foldr (\<lambda>i x. d ! i \<noteq> x) is False"

definition put_parity :: "parity_rows \<Rightarrow> bits \<Rightarrow> bits" where
  "put_parity rows d = foldl (\<lambda>d (is, p). d[p := xors d is]) d rows"

definition mismatches :: "parity_rows \<Rightarrow> bits \<Rightarrow> bool list" where
  "mismatches rows d = map (\<lambda>(is, p). xors d is \<noteq> d ! p) rows"

text \<open>The number \<open>n\<close>: \<open>0x01\<close> for the first comparison, \<open>0x02\<close> for the second and so on.\<close>

definition flags :: "bool list \<Rightarrow> nat" where
  "flags bs = foldr (\<lambda>b n. of_bool b + 2 * n) bs 0"

definition correct :: "parity_rows \<Rightarrow> (nat \<times> nat) list \<Rightarrow> bits \<Rightarrow> bool \<times> bits" where
  "correct rows cases d =
     (case map_of cases (flags (mismatches rows d)) of
        Some i \<Rightarrow> (True, d[i := \<not> d ! i])
      | None \<Rightarrow> (False, d))"

section \<open>The codes\<close>

definition rows15113_1 :: parity_rows where
  "rows15113_1 = [([0, 1, 2, 3, 4, 5, 6], 11), ([0, 1, 2, 3, 7, 8, 9], 12),
     ([0, 1, 4, 5, 7, 8, 10], 13), ([0, 2, 4, 6, 7, 9, 10], 14)]"

definition cases15113_1 :: "(nat \<times> nat) list" where
  "cases15113_1 = [(0x01, 11), (0x02, 12), (0x04, 13), (0x08, 14), (0x0F, 0), (0x07, 1), (0x0B, 2), (0x03, 3),
     (0x0D, 4), (0x05, 5), (0x09, 6), (0x0E, 7), (0x06, 8), (0x0A, 9), (0x0C, 10)]"

definition rows15113_2 :: parity_rows where
  "rows15113_2 = [([0, 1, 2, 3, 5, 7, 8], 11), ([1, 2, 3, 4, 6, 8, 9], 12),
     ([2, 3, 4, 5, 7, 9, 10], 13), ([0, 1, 2, 4, 6, 7, 10], 14)]"

definition cases15113_2 :: "(nat \<times> nat) list" where
  "cases15113_2 = [(0x01, 11), (0x02, 12), (0x04, 13), (0x08, 14), (0x09, 0), (0x0B, 1), (0x0F, 2), (0x07, 3),
     (0x0E, 4), (0x05, 5), (0x0A, 6), (0x0D, 7), (0x03, 8), (0x06, 9), (0x0C, 10)]"

definition rows1393 :: parity_rows where
  "rows1393 = [([0, 1, 3, 5, 6], 9), ([0, 1, 2, 4, 6, 7], 10), ([0, 1, 2, 3, 5, 7, 8], 11), ([0, 2, 4, 5, 8], 12)]"

definition cases1393 :: "(nat \<times> nat) list" where
  "cases1393 = [(0x01, 9), (0x02, 10), (0x04, 11), (0x08, 12), (0x0F, 0), (0x07, 1), (0x0E, 2), (0x05, 3),
     (0x0A, 4), (0x0D, 5), (0x03, 6), (0x06, 7), (0x0C, 8)]"

definition rows1063 :: parity_rows where
  "rows1063 = [([0, 1, 2, 5], 6), ([0, 1, 3, 5], 7), ([0, 2, 3, 4], 8), ([1, 2, 3, 4], 9)]"

definition cases1063 :: "(nat \<times> nat) list" where
  "cases1063 = [(0x01, 6), (0x02, 7), (0x04, 8), (0x08, 9), (0x07, 0), (0x0B, 1), (0x0D, 2), (0x0E, 3),
     (0x0C, 4), (0x03, 5)]"

definition rows16114 :: parity_rows where
  "rows16114 = [([0, 1, 2, 3, 5, 7, 8], 11), ([1, 2, 3, 4, 6, 8, 9], 12), ([2, 3, 4, 5, 7, 9, 10], 13),
     ([0, 1, 2, 4, 6, 7, 10], 14), ([0, 2, 5, 6, 8, 9, 10], 15)]"

definition cases16114 :: "(nat \<times> nat) list" where
  "cases16114 = [(0x01, 11), (0x02, 12), (0x04, 13), (0x08, 14), (0x10, 15), (0x19, 0), (0x0B, 1), (0x1F, 2),
     (0x07, 3), (0x0E, 4), (0x15, 5), (0x1A, 6), (0x0D, 7), (0x13, 8), (0x16, 9), (0x1C, 10)]"

definition rows17123 :: parity_rows where
  "rows17123 = [([0, 1, 2, 3, 6, 7, 9], 12), ([0, 1, 2, 3, 4, 7, 8, 10], 13), ([1, 2, 3, 4, 5, 8, 9, 11], 14),
     ([0, 1, 4, 5, 7, 10], 15), ([0, 1, 2, 5, 6, 8, 11], 16)]"

definition cases17123 :: "(nat \<times> nat) list" where
  "cases17123 = [(0x01, 12), (0x02, 13), (0x04, 14), (0x08, 15), (0x10, 16), (0x1B, 0), (0x1F, 1), (0x17, 2),
     (0x07, 3), (0x0E, 4), (0x1C, 5), (0x11, 6), (0x0B, 7), (0x16, 8), (0x05, 9), (0x0A, 10), (0x14, 11)]"

definition encode15113_1 :: "bits \<Rightarrow> bits" where "encode15113_1 d = put_parity rows15113_1 d"
definition encode15113_2 :: "bits \<Rightarrow> bits" where "encode15113_2 d = put_parity rows15113_2 d"
definition encode1393 :: "bits \<Rightarrow> bits" where "encode1393 d = put_parity rows1393 d"
definition encode1063 :: "bits \<Rightarrow> bits" where "encode1063 d = put_parity rows1063 d"
definition encode16114 :: "bits \<Rightarrow> bits" where "encode16114 d = put_parity rows16114 d"
definition encode17123 :: "bits \<Rightarrow> bits" where "encode17123 d = put_parity rows17123 d"

definition decode15113_1 :: "bits \<Rightarrow> bool \<times> bits" where "decode15113_1 d = correct rows15113_1 cases15113_1 d"
definition decode15113_2 :: "bits \<Rightarrow> bool \<times> bits" where "decode15113_2 d = correct rows15113_2 cases15113_2 d"
definition decode1393 :: "bits \<Rightarrow> bool \<times> bits" where "decode1393 d = correct rows1393 cases1393 d"
definition decode1063 :: "bits \<Rightarrow> bool \<times> bits" where "decode1063 d = correct rows1063 cases1063 d"

text \<open>The last two also answer true for a word without errors.\<close>

definition decode16114 :: "bits \<Rightarrow> bool \<times> bits" where
  "decode16114 d = (if flags (mismatches rows16114 d) = 0 then (True, d) else correct rows16114 cases16114 d)"

definition decode17123 :: "bits \<Rightarrow> bool \<times> bits" where
  "decode17123 d = (if flags (mismatches rows17123 d) = 0 then (True, d) else correct rows17123 cases17123 d)"

section \<open>The contract\<close>

text \<open>The comparisons that notice position \<open>i\<close>.\<close>

definition column :: "parity_rows \<Rightarrow> nat \<Rightarrow> bool list" where
  "column rows i = map (\<lambda>(is, p). i \<in> set is \<or> i = p) rows"

definition rows_ok :: "nat \<Rightarrow> nat \<Rightarrow> parity_rows \<Rightarrow> bool" where
  "rows_ok k n rows \<longleftrightarrow> distinct (map snd rows) \<and>
     list_all (\<lambda>(is, p). distinct is \<and> list_all (\<lambda>i. i < k) is \<and> k \<le> p \<and> p < n) rows"

lemma xors_flip:
  assumes "distinct is" "i < length d" "list_all (\<lambda>j. j < length d) is"
  shows "xors (d[i := \<not> d ! i]) is \<longleftrightarrow> (xors d is \<noteq> (i \<in> set is))"
  using assms by (induction "is") (auto simp: xors_def nth_list_update)

lemma xors_cong: "(\<And>i. i \<in> set is \<Longrightarrow> d ! i = e ! i) \<Longrightarrow> xors d is = xors e is"
  by (induction "is") (simp_all add: xors_def)

locale hamming_code =
  fixes k n :: nat and rows :: parity_rows and cases :: "(nat \<times> nat) list"
  assumes rows_ok: "rows_ok k n rows"
    and cases_ok: "list_all (\<lambda>i. map_of cases (flags (column rows i)) = Some i) [0..<n]"
    and cases_zero: "map_of cases 0 = None"
begin

lemma rowD: "(is, p) \<in> set rows \<Longrightarrow> distinct is \<and> (\<forall>i \<in> set is. i < k) \<and> k \<le> p \<and> p < n"
  using rows_ok by (auto simp: rows_ok_def list_all_iff)

lemma column_case: "i < n \<Longrightarrow> map_of cases (flags (column rows i)) = Some i"
  using cases_ok [unfolded list_all_iff, THEN bspec, of i] by simp

lemma flags_clean: "\<not> (\<exists>b \<in> set bs. b) \<Longrightarrow> flags bs = 0"
  by (induction bs) (auto simp: flags_def)

definition clean :: "bits \<Rightarrow> bool" where
  "clean d \<longleftrightarrow> length d = n \<and> (\<forall>(is, p) \<in> set rows. xors d is = d ! p)"

lemma mismatches_clean: "clean d \<Longrightarrow> flags (mismatches rows d) = 0"
  by (rule flags_clean) (auto simp: mismatches_def clean_def)

lemma mismatches_flip:
  assumes "clean d" "i < n"
  shows "mismatches rows (d[i := \<not> d ! i]) = column rows i"
proof -
  have "(xors (d[i := \<not> d ! i]) is \<noteq> d[i := \<not> d ! i] ! p) = (i \<in> set is \<or> i = p)"
    if r: "(is, p) \<in> set rows" for "is" p
  proof -
    have c: "length d = n" "xors d is = d ! p" using assms(1) r by (auto simp: clean_def)
    have "xors (d[i := \<not> d ! i]) is \<longleftrightarrow> (xors d is \<noteq> (i \<in> set is))"
      using rowD [OF r] c(1) assms(2) by (intro xors_flip) (auto simp: list_all_iff)
    then show ?thesis using rowD [OF r] c assms(2) by (auto simp: nth_list_update)
  qed
  then show ?thesis by (auto simp: mismatches_def column_def)
qed

lemma correct_clean: "clean d \<Longrightarrow> correct rows cases d = (False, d)"
  by (simp add: correct_def mismatches_clean cases_zero)

lemma correct_flip:
  assumes "clean d" "i < n"
  shows "correct rows cases (d[i := \<not> d ! i]) = (True, d)"
proof -
  show ?thesis
    using assms by (simp add: correct_def mismatches_flip column_case clean_def)
qed

lemma flip_not_zero:
  assumes "clean d" "i < n"
  shows "flags (mismatches rows (d[i := \<not> d ! i])) \<noteq> 0"
proof
  assume "flags (mismatches rows (d[i := \<not> d ! i])) = 0"
  then have "map_of cases 0 = Some i" using column_case [OF assms(2)] by (simp add: mismatches_flip [OF assms])
  then show False using cases_zero by simp
qed

lemma put_parity_data:
  "(\<forall>(is, p) \<in> set rs. k \<le> p) \<Longrightarrow> i < k \<Longrightarrow> put_parity rs d ! i = d ! i"
  by (induction rs arbitrary: d) (auto simp: put_parity_def)

lemma length_put_parity [simp]: "length (put_parity rs d) = length d"
  by (induction rs arbitrary: d) (auto simp: put_parity_def)

lemma put_parity_keeps: "i < k \<Longrightarrow> put_parity rows d ! i = d ! i"
proof -
  have "\<forall>(is, p) \<in> set rows. k \<le> p" using rowD by auto
  then show "i < k \<Longrightarrow> put_parity rows d ! i = d ! i" by (rule put_parity_data)
qed

lemma put_parity_other: "i \<notin> snd ` set rs \<Longrightarrow> put_parity rs d ! i = d ! i"
  by (induction rs arbitrary: d) (auto simp: put_parity_def)

lemma put_parity_sum:
  assumes "(\<forall>(is, p) \<in> set rs. (\<forall>i \<in> set is. i < k) \<and> k \<le> p \<and> p < length d)" "distinct (map snd rs)" "(is, p) \<in> set rs"
  shows "put_parity rs d ! p = xors d is"
  using assms
proof (induction rs arbitrary: d)
  case Nil
  then show ?case by simp
next
  case (Cons r rs)
  obtain js q where r: "r = (js, q)" by (cases r)
  let ?d = "d[q := xors d js]"
  have step: "put_parity (r # rs) d = put_parity rs ?d" by (simp add: put_parity_def r)
  show ?case
  proof (cases "(is, p) = r")
    case True
    then have "p \<notin> snd ` set rs" "p < length d" using Cons.prems r by auto
    then show ?thesis unfolding step using True r by (simp add: put_parity_other)
  next
    case False
    then have "(is, p) \<in> set rs" using Cons.prems(3) by simp
    then have "put_parity rs ?d ! p = xors ?d is" using Cons by auto
    also have "\<dots> = xors d is"
    proof (rule xors_cong)
      fix i assume "i \<in> set is"
      then have "i < k" "k \<le> q" using Cons.prems(1) \<open>(is, p) \<in> set rs\<close> r by auto
      then show "?d ! i = d ! i" by simp
    qed
    finally show ?thesis by (simp add: step)
  qed
qed

lemma clean_put_parity:
  assumes "length d = n"
  shows "clean (put_parity rows d)"
proof -
  have "xors (put_parity rows d) is = put_parity rows d ! p" if r: "(is, p) \<in> set rows" for "is" p
  proof -
    have "put_parity rows d ! p = xors d is"
      using rows_ok assms r rowD by (intro put_parity_sum) (auto simp: rows_ok_def)
    moreover have "xors (put_parity rows d) is = xors d is"
      using rowD [OF r] by (intro xors_cong) (simp add: put_parity_keeps)
    ultimately show ?thesis by simp
  qed
  then show ?thesis using assms by (auto simp: clean_def)
qed

lemma take_put_parity: "take k (put_parity rows d) = take k d"
  by (rule nth_equalityI) (simp_all add: put_parity_keeps)

text \<open>The two promises of a code of distance three.\<close>

lemma word_unchanged: "length d = n \<Longrightarrow> correct rows cases (put_parity rows d) = (False, put_parity rows d)"
  by (rule correct_clean [OF clean_put_parity])

lemma flip_corrected:
  "length d = n \<Longrightarrow> i < n \<Longrightarrow>
   correct rows cases ((put_parity rows d)[i := \<not> put_parity rows d ! i]) = (True, put_parity rows d)"
  by (rule correct_flip [OF clean_put_parity])

end


text \<open>A code of distance four also notices two inverted bits without taking them for one.\<close>

locale hamming_detecting = hamming_code +
  assumes pairs_ok: "list_all (\<lambda>i. list_all (\<lambda>j. i = j \<or>
      (let f = flags (map2 (\<noteq>) (column rows i) (column rows j)) in f \<noteq> 0 \<and> map_of cases f = None)) [0..<n]) [0..<n]"
begin

lemma mismatches_two:
  assumes "clean d" "i < n" "j < n" "i \<noteq> j"
  shows "mismatches rows ((d[i := \<not> d ! i])[j := \<not> d ! j]) = map2 (\<noteq>) (column rows i) (column rows j)"
proof -
  let ?e = "d[i := \<not> d ! i]"
  have d: "d ! j = ?e ! j" using assms(4) by simp
  have "(xors (?e[j := \<not> ?e ! j]) is \<noteq> ?e[j := \<not> ?e ! j] ! p) = ((i \<in> set is \<or> i = p) \<noteq> (j \<in> set is \<or> j = p))"
    if r: "(is, p) \<in> set rows" for "is" p
  proof -
    have c: "length d = n" "xors d is = d ! p" using assms(1) r by (auto simp: clean_def)
    have "xors (?e[j := \<not> ?e ! j]) is \<longleftrightarrow> (xors ?e is \<noteq> (j \<in> set is))"
      using rowD [OF r] c(1) assms(3) by (intro xors_flip) (auto simp: list_all_iff)
    moreover have "xors ?e is \<longleftrightarrow> (xors d is \<noteq> (i \<in> set is))"
      using rowD [OF r] c(1) assms(2) by (intro xors_flip) (auto simp: list_all_iff)
    moreover have "i \<noteq> p \<or> i \<notin> set is" "j \<noteq> p \<or> j \<notin> set is" using rowD [OF r] by auto
    ultimately show ?thesis using rowD [OF r] c assms(2,3,4) by (auto simp: nth_list_update)
  qed
  then show ?thesis
    unfolding d by (auto simp: mismatches_def column_def map2_map_map intro!: map_cong split: prod.splits)
qed

lemma two_flips_noticed:
  assumes "length d = n" "i < n" "j < n" "i \<noteq> j"
  shows "flags (mismatches rows ((put_parity rows d)[i := \<not> put_parity rows d ! i, j := \<not> put_parity rows d ! j])) \<noteq> 0 \<and>
         fst (correct rows cases ((put_parity rows d)[i := \<not> put_parity rows d ! i, j := \<not> put_parity rows d ! j])) = False"
proof -
  have "let f = flags (map2 (\<noteq>) (column rows i) (column rows j)) in f \<noteq> 0 \<and> map_of cases f = None"
    using pairs_ok [unfolded list_all_iff, THEN bspec, of i, THEN bspec, of j] assms(2-4) by simp
  then show ?thesis
    unfolding correct_def mismatches_two [OF clean_put_parity [OF assms(1)] assms(2-4)] by (simp add: Let_def)
qed

end

section \<open>The six codes keep it\<close>

interpretation h15113_1: hamming_code 11 15 rows15113_1 cases15113_1
  by unfold_locales (code_simp+)

interpretation h15113_2: hamming_code 11 15 rows15113_2 cases15113_2
  by unfold_locales (code_simp+)

interpretation h1393: hamming_code 9 13 rows1393 cases1393
  by unfold_locales (code_simp+)

interpretation h1063: hamming_code 6 10 rows1063 cases1063
  by unfold_locales (code_simp+)

interpretation h16114: hamming_detecting 11 16 rows16114 cases16114
  by unfold_locales (code_simp+)

interpretation h17123: hamming_code 12 17 rows17123 cases17123
  by unfold_locales (code_simp+)


text \<open>Every word of the code with one bit inverted is told as wrong and put right.\<close>

definition corrects :: "nat \<Rightarrow> (bits \<Rightarrow> bits) \<Rightarrow> (bits \<Rightarrow> bool \<times> bits) \<Rightarrow> bits \<Rightarrow> bool" where
  "corrects n encode decode d =
     (let w = encode d in list_all (\<lambda>i. decode (w[i := \<not> w ! i]) = (True, w)) [0..<n])"

lemmas hamming_codes =
  encode15113_1_def encode15113_2_def encode1393_def encode1063_def encode16114_def encode17123_def
  decode15113_1_def decode15113_2_def decode1393_def decode1063_def decode16114_def decode17123_def

text \<open>
  C17. Each of the six codes corrects a single inverted bit, whichever of its data or parity bits it
  is, and leaves its own words alone.
\<close>

theorem hamming_corrects_single_errors:
  assumes "length d15 = 15" "length d13 = 13" "length d10 = 10" "length d16 = 16" "length d17 = 17"
  shows "corrects 15 encode15113_1 decode15113_1 d15 \<and> corrects 15 encode15113_2 decode15113_2 d15 \<and>
     corrects 13 encode1393 decode1393 d13 \<and> corrects 10 encode1063 decode1063 d10 \<and>
     corrects 16 encode16114 decode16114 d16 \<and> corrects 17 encode17123 decode17123 d17 \<and>
     decode15113_1 (encode15113_1 d15) = (False, encode15113_1 d15) \<and>
     decode15113_2 (encode15113_2 d15) = (False, encode15113_2 d15) \<and>
     decode1393 (encode1393 d13) = (False, encode1393 d13) \<and>
     decode1063 (encode1063 d10) = (False, encode1063 d10) \<and>
     decode16114 (encode16114 d16) = (True, encode16114 d16) \<and>
     decode17123 (encode17123 d17) = (True, encode17123 d17)"
proof -
  note flips = h15113_1.flip_corrected [OF assms(1)] h15113_2.flip_corrected [OF assms(1)]
    h1393.flip_corrected [OF assms(2)] h1063.flip_corrected [OF assms(3)]
    h16114.flip_corrected [OF assms(4)] h17123.flip_corrected [OF assms(5)]
    h16114.flip_not_zero [OF h16114.clean_put_parity [OF assms(4)]]
    h17123.flip_not_zero [OF h17123.clean_put_parity [OF assms(5)]]
  note words = h15113_1.word_unchanged [OF assms(1)] h15113_2.word_unchanged [OF assms(1)]
    h1393.word_unchanged [OF assms(2)] h1063.word_unchanged [OF assms(3)]
    h16114.mismatches_clean [OF h16114.clean_put_parity [OF assms(4)]]
    h17123.mismatches_clean [OF h17123.clean_put_parity [OF assms(5)]]
  show ?thesis
    by (simp add: corrects_def Let_def list_all_iff hamming_codes flips words)
qed

theorem hamming_corrects_single_errors_witness:
  "corrects 13 encode1393 decode1393 (replicate 13 True) \<and>
   decode16114 (encode16114 (replicate 16 True)) = (True, encode16114 (replicate 16 True))"
  using hamming_corrects_single_errors [of "replicate 15 True" "replicate 13 True" "replicate 10 True" "replicate 16 True" "replicate 17 True"]
  by simp

text \<open>
  The (16,11,4) code refuses a word with two inverted bits instead of correcting a third.
\<close>

theorem hamming16114_refuses_double_errors:
  assumes "length d = 16" "i < 16" "j < 16" "i \<noteq> j"
  shows "fst (decode16114 ((encode16114 d)[i := \<not> encode16114 d ! i, j := \<not> encode16114 d ! j])) = False"
  using h16114.two_flips_noticed [OF assms] by (simp add: hamming_codes)

theorem hamming16114_refuses_double_errors_witness:
  "fst (decode16114 ((encode16114 (replicate 16 True))[3 := \<not> encode16114 (replicate 16 True) ! 3,
     15 := \<not> encode16114 (replicate 16 True) ! 15])) = False"
  by (rule hamming16114_refuses_double_errors) simp_all

end
