(* ===== verification/BPTC.thy ===== *)
theory BPTC
  imports Hamming
begin

text \<open>
  The block product turbo code (196,96) of \<^verbatim>\<open>src/src/common/edac/BPTC19696.cpp\<close>: 96 data bits
  in a matrix of 13 rows and 15 columns, rows protected by the Hamming (15,11,3) code, columns by
  the (13,9,3) code, interleaved over the 196 bits of a DMR burst.  The object's two bit
  arrays are arguments and results.  An element of row \<open>r\<close> and column \<open>c\<close> is bit
  \<open>15 * r + c + 1\<close>.
\<close>

section \<open>Decoding\<close>

definition decodeExtractBinary :: "bytes \<Rightarrow> bits \<Rightarrow> bits" where
  "decodeExtractBinary inp raw =
     (let raw = foldl (\<lambda>raw i. memcpy_at raw (8 * i) (byteToBitsBE (inp ! i))) raw [0..<13];
          b = byteToBitsBE (inp ! 20);
          raw = raw[98 := b ! 6, 99 := b ! 7]
      in foldl (\<lambda>raw i. memcpy_at raw (100 + 8 * i) (byteToBitsBE (inp ! (21 + i)))) raw [0..<12])"

definition decodeDeInterleave :: "bits \<Rightarrow> bits" where
  "decodeDeInterleave raw = foldl (\<lambda>d a. d[a := raw ! (a * 181 mod 196)]) (replicate 196 False) [0..<196]"

definition get_column :: "bits \<Rightarrow> nat \<Rightarrow> bits" where
  "get_column d c = map (\<lambda>a. d ! (c + 1 + 15 * a)) [0..<13]"

definition put_column :: "bits \<Rightarrow> nat \<Rightarrow> bits \<Rightarrow> bits" where
  "put_column d c col = foldl (\<lambda>d a. d[c + 1 + 15 * a := col ! a]) d [0..<13]"

definition get_row :: "bits \<Rightarrow> nat \<Rightarrow> bits" where
  "get_row d r = take 15 (drop (r * 15 + 1) d)"

definition column_step :: "bool \<times> bits \<Rightarrow> nat \<Rightarrow> bool \<times> bits" where
  "column_step fd c =
     (let (fixing, d) = fd;
          (err, col) = decode1393 (get_column d c)
      in if err then (True, put_column d c col) else (fixing, d))"

definition row_step :: "bool \<times> bits \<Rightarrow> nat \<Rightarrow> bool \<times> bits" where
  "row_step fd r =
     (let (fixing, d) = fd;
          (err, row) = decode15113_2 (get_row d r)
      in (if err then True else fixing, memcpy_at d (r * 15 + 1) row))"

definition check_pass :: "bits \<Rightarrow> bool \<times> bits" where
  "check_pass d = foldl row_step (foldl column_step (False, d) [0..<15]) [0..<9]"

text \<open>The loop runs while something was fixed, five times at most.\<close>

function check_loop :: "nat \<Rightarrow> bits \<Rightarrow> bits" where
  "check_loop count d =
     (let (fixing, d) = check_pass d
      in if fixing \<and> count + 1 < 5 then check_loop (count + 1) d else d)"
  by pat_completeness auto
termination by (relation "measure (\<lambda>(count, _). 5 - count)") auto

declare check_loop.simps [simp del]

definition decodeErrorCheck :: "bits \<Rightarrow> bits" where
  "decodeErrorCheck d = check_loop 0 d"

text \<open>The positions of the 96 data bits.\<close>

definition data_positions :: "nat list" where
  "data_positions = [4..<12] @ [16..<27] @ [31..<42] @ [46..<57] @ [61..<72] @ [76..<87] @ [91..<102] @
     [106..<117] @ [121..<132]"

definition decodeExtractData :: "bits \<Rightarrow> bytes \<Rightarrow> bytes" where
  "decodeExtractData d out =
     (let bData = map (\<lambda>a. d ! a) data_positions
      in foldl (\<lambda>out i. out[i := bitsToByteBE (drop (8 * i) bData)]) out [0..<12])"

definition bptc_decode :: "bytes \<Rightarrow> bits \<Rightarrow> bytes \<Rightarrow> bytes" where
  "bptc_decode inp raw out =
     (let raw = decodeExtractBinary inp raw;
          d = decodeDeInterleave raw;
          d = decodeErrorCheck d
      in decodeExtractData d out)"

section \<open>Encoding\<close>

definition encodeExtractData :: "bytes \<Rightarrow> bits" where
  "encodeExtractData inp =
     (let bData = concat (map (\<lambda>i. byteToBitsBE (inp ! i)) [0..<12])
      in foldl (\<lambda>d (pos, a). d[a := bData ! pos]) (replicate 196 False) (zip [0..<96] data_positions))"

definition encode_row :: "bits \<Rightarrow> nat \<Rightarrow> bits" where
  "encode_row d r = memcpy_at d (r * 15 + 1) (encode15113_2 (get_row d r))"

definition encode_column :: "bits \<Rightarrow> nat \<Rightarrow> bits" where
  "encode_column d c = put_column d c (encode1393 (get_column d c))"

definition encodeErrorCheck :: "bits \<Rightarrow> bits" where
  "encodeErrorCheck d = foldl encode_column (foldl encode_row d [0..<9]) [0..<15]"

definition encodeInterleave :: "bits \<Rightarrow> bits" where
  "encodeInterleave d = foldl (\<lambda>raw a. raw[a * 181 mod 196 := d ! a]) (replicate 196 False) [0..<196]"

definition encodeExtractBinary :: "bits \<Rightarrow> bytes \<Rightarrow> bytes" where
  "encodeExtractBinary raw data =
     (let data = foldl (\<lambda>data i. data[i := bitsToByteBE (drop (8 * i) raw)]) data [0..<12];
          byte = bitsToByteBE (drop 96 raw);
          data = data[12 := (data ! 12 AND 0x3F) OR (byte AND 0xC0)];
          data = data[20 := (data ! 20 AND 0xFC) OR (drop_bit 4 byte AND 0x03)]
      in foldl (\<lambda>data i. data[21 + i := bitsToByteBE (drop (100 + 8 * i) raw)]) data [0..<12])"

definition bptc_encode :: "bytes \<Rightarrow> bytes \<Rightarrow> bytes" where
  "bptc_encode inp out =
     (let d = encodeExtractData inp;
          d = encodeErrorCheck d;
          raw = encodeInterleave d
      in encodeExtractBinary raw out)"

section \<open>Loops that write a position each\<close>

lemma foldl_update_length [simp]: "length (foldl (\<lambda>d a. d[f a := g a]) d xs) = length d"
  by (induction xs arbitrary: d) simp_all

lemma foldl_update_nth:
  assumes "distinct (map f xs)" "k < length d"
  shows "foldl (\<lambda>d a. d[f a := g a]) d xs ! k =
     (if k \<in> f ` set xs then g (the_inv_into (set xs) f k) else d ! k)"
  using assms
proof (induction xs arbitrary: d)
  case Nil
  then show ?case by simp
next
  case (Cons x xs)
  have inj: "inj_on f (set (x # xs))" "inj_on f (set xs)" using Cons.prems(1) by (auto simp: distinct_map)
  have IH: "foldl (\<lambda>d a. d[f a := g a]) (d[f x := g x]) xs ! k =
     (if k \<in> f ` set xs then g (the_inv_into (set xs) f k) else d[f x := g x] ! k)"
    using Cons by simp
  show ?case
  proof (cases "k \<in> f ` set xs")
    case True
    then obtain y where y: "y \<in> set xs" "k = f y" by auto
    then show ?thesis
      using IH inj the_inv_into_f_f [OF inj(1), of y] the_inv_into_f_f [OF inj(2), of y] by simp
  next
    case False
    then show ?thesis
      using IH Cons.prems(2) the_inv_into_f_f [OF inj(1), of x] by (auto simp: nth_list_update)
  qed
qed

lemma foldl_update_at:
  "distinct (map f xs) \<Longrightarrow> f a < length d \<Longrightarrow> a \<in> set xs \<Longrightarrow> foldl (\<lambda>d a. d[f a := g a]) d xs ! f a = g a"
  by (subst foldl_update_nth) (auto simp: distinct_map the_inv_into_f_f)

lemma foldl_update_other:
  "k \<notin> f ` set xs \<Longrightarrow> foldl (\<lambda>d a. d[f a := g a]) d xs ! k = d ! k"
  by (induction xs arbitrary: d) auto

section \<open>Interleaving\<close>

lemma interleave_inverse: "a < 196 \<Longrightarrow> ((a :: nat) * 181 mod 196) * 13 mod 196 = a"
proof -
  assume "a < 196"
  have "(a * 181 mod 196) * 13 mod 196 = a * (181 * 13) mod 196" by (simp only: mod_mult_left_eq mult.assoc)
  also have "\<dots> = (a + 196 * (12 * a)) mod 196" by (simp add: mult.commute)
  also have "\<dots> = a" using \<open>a < 196\<close> by (simp only: mod_mult_self2 mod_less)
  finally show ?thesis .
qed

lemma interleave_distinct: "distinct (map (\<lambda>a. a * 181 mod 196) [0..<196])"
proof -
  have "inj_on (\<lambda>a. a * 181 mod 196) {0..<196::nat}"
    by (rule inj_on_inverseI [where g = "\<lambda>b. b * 13 mod 196"]) (simp add: interleave_inverse)
  then show ?thesis by (simp add: distinct_map)
qed

lemma deinterleave_eq: "decodeDeInterleave raw = map (\<lambda>a. raw ! (a * 181 mod 196)) [0..<196]"
  by (rule nth_equalityI) (simp_all add: decodeDeInterleave_def foldl_update_at [where f = "\<lambda>a. a"])

lemma length_encodeInterleave [simp]: "length (encodeInterleave d) = 196"
  by (simp add: encodeInterleave_def)

lemma encodeInterleave_nth:
  assumes "a < 196"
  shows "encodeInterleave d ! (a * 181 mod 196) = d ! a"
proof -
  have "(\<lambda>a. a * 181 mod 196) a < length (replicate 196 False)" by simp
  from foldl_update_at [OF interleave_distinct this, of "\<lambda>a. d ! a"] assms
  show ?thesis by (simp add: encodeInterleave_def)
qed

lemma deinterleave_interleave: "length d = 196 \<Longrightarrow> decodeDeInterleave (encodeInterleave d) = d"
  by (rule nth_equalityI) (simp_all add: deinterleave_eq encodeInterleave_nth)


section \<open>Bits in and out of the burst\<close>

lemma foldl_memcpy_8:
  assumes "\<And>i. length (g i) = 8" "off + 8 * n \<le> length raw"
  shows "foldl (\<lambda>raw i. memcpy_at raw (off + 8 * i) (g i)) raw [0..<n] =
         take off raw @ concat (map g [0..<n]) @ drop (off + 8 * n) raw"
  using assms(2)
proof (induction n)
  case 0
  then show ?case by simp
next
  case (Suc n)
  have len: "length (concat (map g [0..<n])) = 8 * n"
    using assms(1) by (simp add: length_concat comp_def sum_list_triv)
  show ?case
    using Suc assms(1) len by (simp add: memcpy_at_def ac_simps)
qed

lemma concat_chunks: "off + 8 * n \<le> length xs \<Longrightarrow> concat (map (\<lambda>i. take 8 (drop (off + 8 * i) xs)) [0..<n]) = take (8 * n) (drop off xs)"
proof (induction n)
  case 0
  then show ?case by simp
next
  case (Suc n)
  have "take (8 * Suc n) (drop off xs) = take (8 * n) (drop off xs) @ take 8 (drop (8 * n) (drop off xs))"
    using take_add [of "8 * n" 8 "drop off xs"] by (simp add: ac_simps)
  then show ?case using Suc by (simp add: add.commute)
qed

lemma byteToBitsBE_bitsToByteBE_drop:
  "k + 8 \<le> length xs \<Longrightarrow> byteToBitsBE (bitsToByteBE (drop k xs)) = take 8 (drop k xs)"
proof -
  assume k: "k + 8 \<le> length xs"
  have "bitsToByteBE (drop k xs) = bitsToByteBE (take 8 (drop k xs) @ drop 8 (drop k xs))" by (simp only: append_take_drop_id)
  also have "\<dots> = bitsToByteBE (take 8 (drop k xs))" using k by (intro bitsToByteBE_append) simp
  finally show ?thesis using k by simp
qed

lemma two_bits:
  "take 2 (byteToBitsBE ((x AND 0x3F) OR (y AND 0xC0))) = take 2 (byteToBitsBE y)"
  "byteToBitsBE ((x AND 0xFC) OR (drop_bit 4 y AND 0x03)) ! 6 = byteToBitsBE y ! 2"
  "byteToBitsBE ((x AND 0xFC) OR (drop_bit 4 y AND 0x03)) ! 7 = byteToBitsBE y ! 3"
  by (simp_all add: byteToBitsBE_bits bit_simps)

lemma length_encodeExtractBinary [simp]: "length (encodeExtractBinary raw data) = length data"
  by (simp add: encodeExtractBinary_def Let_def)

lemma encodeExtractBinary_nth:
  assumes "length data = 33"
  shows "i < 12 \<Longrightarrow> encodeExtractBinary raw data ! i = bitsToByteBE (drop (8 * i) raw)"
    and "encodeExtractBinary raw data ! 12 = (data ! 12 AND 0x3F) OR (bitsToByteBE (drop 96 raw) AND 0xC0)"
    and "encodeExtractBinary raw data ! 20 = (data ! 20 AND 0xFC) OR (drop_bit 4 (bitsToByteBE (drop 96 raw)) AND 0x03)"
    and "i < 12 \<Longrightarrow> encodeExtractBinary raw data ! (21 + i) = bitsToByteBE (drop (100 + 8 * i) raw)"
    and "13 \<le> j \<Longrightarrow> j < 20 \<Longrightarrow> encodeExtractBinary raw data ! j = data ! j"
proof -
  have o: "k \<notin> (\<lambda>i. 21 + i) ` set [0..<12]" if "k < 21" for k :: nat using that by auto
  have f: "k \<notin> id ` set [0..<12]" if "12 \<le> k" for k :: nat using that by auto
  note first = foldl_update_at [where f = id, unfolded id_def] and other = foldl_update_other [where f = id, unfolded id_def]
  note second = foldl_update_at [where f = "\<lambda>i. 21 + i"] and keep = foldl_update_other [where f = "\<lambda>i. 21 + i", OF o]
  have d: "distinct (map (\<lambda>i. 21 + i) [0..<12 :: nat])" by (simp add: distinct_map)
  show "i < 12 \<Longrightarrow> encodeExtractBinary raw data ! i = bitsToByteBE (drop (8 * i) raw)"
    using assms by (simp add: encodeExtractBinary_def Let_def keep first del: upt_rec_numeral)
  show "encodeExtractBinary raw data ! 12 = (data ! 12 AND 0x3F) OR (bitsToByteBE (drop 96 raw) AND 0xC0)"
    "encodeExtractBinary raw data ! 20 = (data ! 20 AND 0xFC) OR (drop_bit 4 (bitsToByteBE (drop 96 raw)) AND 0x03)"
    "13 \<le> j \<Longrightarrow> j < 20 \<Longrightarrow> encodeExtractBinary raw data ! j = data ! j"
    using assms f by (simp_all add: encodeExtractBinary_def Let_def keep other [unfolded image_ident] del: upt_rec_numeral)
  show "i < 12 \<Longrightarrow> encodeExtractBinary raw data ! (21 + i) = bitsToByteBE (drop (100 + 8 * i) raw)"
    using assms by (simp add: encodeExtractBinary_def Let_def second [OF d] del: upt_rec_numeral)
qed


lemma extract_binary_inverse:
  assumes "length raw = 196" "length data = 33" "length mem = 196"
  shows "decodeExtractBinary (encodeExtractBinary raw data) mem = raw"
proof -
  let ?out = "encodeExtractBinary raw data"
  note out = encodeExtractBinary_nth [OF assms(2)]
  have first: "concat (map (\<lambda>i. byteToBitsBE (?out ! i)) [0..<12]) = take 96 raw"
  proof -
    have "map (\<lambda>i. byteToBitsBE (?out ! i)) [0..<12] = map (\<lambda>i. take 8 (drop (0 + 8 * i) raw)) [0..<12]"
      by (rule map_cong) (simp_all add: out(1) byteToBitsBE_bitsToByteBE_drop assms(1))
    then show ?thesis using concat_chunks [of 0 12 raw] assms(1) by (simp del: map_eq_conv)
  qed
  have second: "concat (map (\<lambda>i. byteToBitsBE (?out ! (21 + i))) [0..<12]) = drop 100 raw"
  proof -
    have "map (\<lambda>i. byteToBitsBE (?out ! (21 + i))) [0..<12] = map (\<lambda>i. take 8 (drop (100 + 8 * i) raw)) [0..<12]"
      by (rule map_cong) (simp_all add: out(4) byteToBitsBE_bitsToByteBE_drop assms(1))
    then show ?thesis using concat_chunks [of 100 12 raw] assms(1) by (simp del: map_eq_conv)
  qed
  have mid: "take 2 (byteToBitsBE (?out ! 12)) = take 2 (drop 96 raw)"
    "byteToBitsBE (?out ! 20) ! 6 = raw ! 98" "byteToBitsBE (?out ! 20) ! 7 = raw ! 99"
    using assms(1) unfolding out(2,3) two_bits by (simp_all add: byteToBitsBE_bitsToByteBE_drop)
  define r1 where "r1 = foldl (\<lambda>raw i. memcpy_at raw (8 * i) (byteToBitsBE (?out ! i))) mem [0..<13]"
  have "r1 = concat (map (\<lambda>i. byteToBitsBE (?out ! i)) [0..<13]) @ drop 104 mem"
    using foldl_memcpy_8 [of "\<lambda>i. byteToBitsBE (?out ! i)" 0 13 mem] assms(3) by (simp add: r1_def)
  also have "[0..<13] = [0..<12] @ [12 :: nat]" using upt_Suc_append [of 0 12] by simp
  finally have r1: "r1 = take 96 raw @ byteToBitsBE (?out ! 12) @ drop 104 mem" by (simp add: first)
  have len: "length r1 = 196" using assms(1,3) by (simp add: r1)
  have t98: "take 98 r1 = take 98 raw"
  proof -
    have "take 98 r1 = take 96 raw @ take 2 (byteToBitsBE (?out ! 12))" using assms(1) by (simp add: r1)
    also have "\<dots> = take (96 + 2) raw" unfolding mid(1) take_add ..
    finally show ?thesis by simp
  qed
  have "take 100 (r1[98 := raw ! 98, 99 := raw ! 99]) = take 100 raw"
  proof (rule nth_equalityI)
    show "length (take 100 (r1[98 := raw ! 98, 99 := raw ! 99])) = length (take 100 raw)" using len assms(1) by simp
    fix i assume "i < length (take 100 (r1[98 := raw ! 98, 99 := raw ! 99]))"
    then have i: "i < 100" by simp
    have "r1 ! i = raw ! i" if "i < 98" using arg_cong [OF t98, of "\<lambda>l. l ! i"] that by simp
    then show "take 100 (r1[98 := raw ! 98, 99 := raw ! 99]) ! i = take 100 raw ! i"
      using i len by (auto simp: nth_list_update)
  qed
  moreover have "decodeExtractBinary ?out mem =
      take 100 (r1[98 := raw ! 98, 99 := raw ! 99]) @ drop 100 raw @ drop 196 (r1[98 := raw ! 98, 99 := raw ! 99])"
    using foldl_memcpy_8 [of "\<lambda>i. byteToBitsBE (?out ! (21 + i))" 100 12 "r1[98 := raw ! 98, 99 := raw ! 99]"] len
    unfolding decodeExtractBinary_def Let_def r1_def [symmetric] mid(2,3) second by simp
  ultimately show ?thesis using len by simp
qed

section \<open>The matrix\<close>

lemma cell_eq_iff: "c < 15 \<Longrightarrow> c' < 15 \<Longrightarrow> Suc (c + 15 * a) = Suc (c' + 15 * a') \<longleftrightarrow> c = c' \<and> a = (a' :: nat)"
proof
  assume c: "c < 15" "c' < 15" and "Suc (c + 15 * a) = Suc (c' + 15 * a')"
  then have "c + 15 * a = c' + 15 * a'" by simp
  then have "(c + 15 * a) mod 15 = (c' + 15 * a') mod 15" "(c + 15 * a) div 15 = (c' + 15 * a') div 15" by simp_all
  then show "c = c' \<and> a = a'" using c by simp
qed simp

lemma put_column_eq: "put_column d c col = foldl (\<lambda>d a. d[Suc (c + 15 * a) := col ! a]) d [0..<13]"
  by (simp add: put_column_def)

lemma get_column_nth [simp]: "a < 13 \<Longrightarrow> get_column d c ! a = d ! Suc (c + 15 * a)"
  by (simp add: get_column_def)

lemma length_get_column [simp]: "length (get_column d c) = 13"
  by (simp add: get_column_def)

lemma length_put_column [simp]: "length (put_column d c col) = length d"
  by (simp add: put_column_def)

lemma cell_put_column:
  assumes "length d = 196" "c < 15" "c' < 15" "a < 13"
  shows "put_column d c col ! (Suc (c' + 15 * a)) = (if c' = c then col ! a else d ! (Suc (c' + 15 * a)))"
proof (cases "c' = c")
  case True
  have "distinct (map (\<lambda>a. Suc (c + 15 * a)) [0..<13])" by (simp add: distinct_map inj_on_def)
  then show ?thesis
    using True assms unfolding put_column_eq
    using foldl_update_at [of "\<lambda>a. Suc (c + 15 * a)" "[0..<13]" a d "\<lambda>a. col ! a"] by simp
next
  case False
  have "Suc (c' + 15 * a) \<notin> (\<lambda>a. Suc (c + 15 * a)) ` set [0..<13]"
    using cell_eq_iff [OF assms(3,2)] False by auto
  then show ?thesis
    using False unfolding put_column_eq by (simp add: foldl_update_other [where f = "\<lambda>a. Suc (c + 15 * a)"])
qed

lemma get_put_column:
  assumes "length d = 196" "c < 15" "c' < 15" "length col = 13"
  shows "get_column (put_column d c col) c' = (if c' = c then col else get_column d c')"
  by (rule nth_equalityI) (use assms in \<open>simp_all add: cell_put_column\<close>)

lemma put_get_column: "length d = 196 \<Longrightarrow> c < 15 \<Longrightarrow> put_column d c (get_column d c) = d"
proof (rule nth_equalityI)
  fix i
  assume d: "length d = 196" "c < 15"
  show "put_column d c (get_column d c) ! i = d ! i"
  proof (cases "i \<in> (\<lambda>a. Suc (c + 15 * a)) ` set [0..<13]")
    case True
    then obtain a where "a < 13" "i = Suc (c + 15 * a)" by auto
    then show ?thesis using d cell_put_column [of d c c a "get_column d c"] by simp
  next
    case False
    then show ?thesis unfolding put_column_eq by (simp add: foldl_update_other [where f = "\<lambda>a. Suc (c + 15 * a)"])
  qed
qed simp

lemma get_row_nth: "length d = 196 \<Longrightarrow> r < 13 \<Longrightarrow> c < 15 \<Longrightarrow> get_row d r ! c = d ! (Suc (c + 15 * r))"
  by (simp add: get_row_def ac_simps)

lemma length_get_row [simp]: "length d = 196 \<Longrightarrow> r < 13 \<Longrightarrow> length (get_row d r) = 15"
  by (simp add: get_row_def)

text \<open>Rows and columns are two views of the same bits.\<close>

lemma get_row_columns: "length d = 196 \<Longrightarrow> r < 13 \<Longrightarrow> get_row d r = map (\<lambda>c. get_column d c ! r) [0..<15]"
  by (rule nth_equalityI) (simp_all add: get_row_nth get_column_def)

lemma row_bits:
  assumes "length d = 196" "r < 9" "length row = 15" "r' < 13" "c < 15"
  shows "memcpy_at d (r * 15 + 1) row ! (Suc (c + 15 * r')) = (if r' = r then row ! c else d ! (Suc (c + 15 * r')))"
proof -
  have "r * 15 + 1 \<le> Suc (c + 15 * r') \<and> Suc (c + 15 * r') < r * 15 + 1 + 15 \<longleftrightarrow> r' = r" using assms(5) by auto
  then show ?thesis using assms by (subst memcpy_at_nth) auto
qed

lemma memcpy_get_row: "length d = 196 \<Longrightarrow> r < 13 \<Longrightarrow> memcpy_at d (r * 15 + 1) (get_row d r) = d"
  by (rule nth_equalityI) (auto simp: memcpy_at_nth get_row_def)


section \<open>What the encoder makes of the matrix\<close>

lemma foldl_upt_Suc: "foldl f x [0..<Suc n] = f (foldl f x [0..<n]) n"
  by simp

lemma get_row_memcpy:
  assumes "length d = 196" "r < 9" "length row = 15" "r' < 13"
  shows "get_row (memcpy_at d (r * 15 + 1) row) r' = (if r' = r then row else get_row d r')"
proof (rule nth_equalityI)
  have len: "length (memcpy_at d (r * 15 + 1) row) = 196" using assms by simp
  then show "length (get_row (memcpy_at d (r * 15 + 1) row) r') = length (if r' = r then row else get_row d r')"
    using assms by simp
  fix c assume "c < length (get_row (memcpy_at d (r * 15 + 1) row) r')"
  then have c: "c < 15" using len assms by simp
  then show "get_row (memcpy_at d (r * 15 + 1) row) r' ! c = (if r' = r then row else get_row d r') ! c"
    using row_bits [OF assms c] len assms(1,4) by (simp add: get_row_nth)
qed

lemma length_encode15113_2 [simp]: "length (encode15113_2 d) = length d"
  by (simp add: encode15113_2_def h15113_2.length_put_parity)

lemma length_encode1393 [simp]: "length (encode1393 d) = length d"
  by (simp add: encode1393_def h1393.length_put_parity)

lemma encode_rows:
  assumes "length d = 196" "n \<le> 9"
  shows "length (foldl encode_row d [0..<n]) = 196 \<and>
    (\<forall>r < 13. get_row (foldl encode_row d [0..<n]) r = (if r < n then encode15113_2 (get_row d r) else get_row d r))"
  using assms(2)
proof (induction n)
  case 0
  then show ?case using assms(1) by simp
next
  case (Suc n)
  let ?e = "foldl encode_row d [0..<n]"
  have IH: "length ?e = 196" "\<forall>r < 13. get_row ?e r = (if r < n then encode15113_2 (get_row d r) else get_row d r)"
    using Suc by auto
  have row: "length (encode15113_2 (get_row d n)) = 15" using assms(1) Suc.prems by simp
  have step: "foldl encode_row d [0..<Suc n] = memcpy_at ?e (n * 15 + 1) (encode15113_2 (get_row d n))"
    using IH(2) Suc.prems by (simp add: encode_row_def)
  have "length (memcpy_at ?e (n * 15 + 1) (encode15113_2 (get_row d n))) = 196"
    using IH(1) row Suc.prems by simp
  then show ?case
    unfolding step using get_row_memcpy [OF IH(1) _ row, of n] IH(2) Suc.prems by (auto simp: less_Suc_eq)
qed

lemma encode_columns:
  assumes "length d = 196" "n \<le> 15"
  shows "length (foldl encode_column d [0..<n]) = 196 \<and>
    (\<forall>c < 15. get_column (foldl encode_column d [0..<n]) c = (if c < n then encode1393 (get_column d c) else get_column d c))"
  using assms(2)
proof (induction n)
  case 0
  then show ?case using assms(1) by simp
next
  case (Suc n)
  let ?e = "foldl encode_column d [0..<n]"
  have IH: "length ?e = 196" "\<forall>c < 15. get_column ?e c = (if c < n then encode1393 (get_column d c) else get_column d c)"
    using Suc by auto
  have step: "foldl encode_column d [0..<Suc n] = put_column ?e n (encode1393 (get_column d n))"
    using IH(2) Suc.prems by (simp add: encode_column_def)
  show ?case
    unfolding step using IH get_put_column [OF IH(1), of n] Suc.prems by (auto simp: less_Suc_eq)
qed

text \<open>A matrix of the code: clean columns, and clean rows in the part with data.\<close>

definition codeword :: "bits \<Rightarrow> bool" where
  "codeword d \<longleftrightarrow> length d = 196 \<and> (\<forall>c < 15. h1393.clean (get_column d c)) \<and> (\<forall>r < 9. h15113_2.clean (get_row d r))"

lemma encodeErrorCheck_rows:
  assumes "length d = 196" "r < 9"
  shows "get_row (encodeErrorCheck d) r = encode15113_2 (get_row d r)"
proof -
  let ?e = "foldl encode_row d [0..<9]"
  have e: "length ?e = 196" "get_row ?e r = encode15113_2 (get_row d r)"
    using encode_rows [OF assms(1), of 9] assms(2) by auto
  have f: "length (encodeErrorCheck d) = 196" "c < 15 \<Longrightarrow> get_column (encodeErrorCheck d) c = encode1393 (get_column ?e c)" for c
    using encode_columns [OF e(1), of 15] by (auto simp: encodeErrorCheck_def)
  have "get_row (encodeErrorCheck d) r = map (\<lambda>c. get_column (encodeErrorCheck d) c ! r) [0..<15]"
    using f(1) assms(2) by (intro get_row_columns) auto
  also have "\<dots> = map (\<lambda>c. get_column ?e c ! r) [0..<15]"
    using assms(2) by (intro map_cong refl) (simp add: f(2) encode1393_def h1393.put_parity_keeps del: get_column_nth)
  also have "\<dots> = get_row ?e r"
    using e(1) assms(2) by (intro get_row_columns [symmetric]) auto
  finally show ?thesis using e(2) by simp
qed

lemma encodeErrorCheck_codeword:
  assumes "length d = 196"
  shows "codeword (encodeErrorCheck d)"
proof -
  let ?e = "foldl encode_row d [0..<9]"
  have e: "length ?e = 196" using encode_rows [OF assms, of 9] by simp
  have "length (encodeErrorCheck d) = 196" "\<forall>c < 15. get_column (encodeErrorCheck d) c = encode1393 (get_column ?e c)"
    using encode_columns [OF e, of 15] by (auto simp: encodeErrorCheck_def)
  moreover have "h15113_2.clean (get_row (encodeErrorCheck d) r)" if "r < 9" for r
    using that assms by (simp add: encodeErrorCheck_rows encode15113_2_def h15113_2.clean_put_parity)
  ultimately show ?thesis by (simp add: codeword_def encode1393_def h1393.clean_put_parity)
qed

section \<open>What the decoder makes of an errored matrix\<close>

text \<open>At most one wrong bit in each column; the unused bit 0 may be anything.\<close>

definition light_errors :: "bits \<Rightarrow> bits \<Rightarrow> bool" where
  "light_errors d e \<longleftrightarrow> length e = 196 \<and>
     list_all (\<lambda>c. get_column e c = get_column d c \<or>
       list_ex (\<lambda>a. get_column e c = (get_column d c)[a := \<not> get_column d c ! a]) [0..<13]) [0..<15]"

lemma light_errors_iff: "light_errors d e \<longleftrightarrow> length e = 196 \<and>
     (\<forall>c < 15. get_column e c = get_column d c \<or> (\<exists>a < 13. get_column e c = (get_column d c)[a := \<not> get_column d c ! a]))"
  unfolding light_errors_def list_all_iff list_ex_iff by (metis atLeastLessThan_iff le0 set_upt)

definition same_cells :: "bits \<Rightarrow> bits \<Rightarrow> bool" where
  "same_cells d e \<longleftrightarrow> length e = 196 \<and> (\<forall>c < 15. get_column e c = get_column d c)"

lemma decode_column:
  assumes "codeword d" "light_errors d e" "c < 15"
  shows "snd (decode1393 (get_column e c)) = get_column d c"
    and "fst (decode1393 (get_column e c)) \<or> get_column e c = get_column d c"
proof -
  have c: "h1393.clean (get_column d c)" using assms(1,3) by (simp add: codeword_def)
  have "decode1393 (get_column e c) = (get_column e c \<noteq> get_column d c, get_column d c)"
    using assms(2,3) h1393.correct_clean [OF c] h1393.correct_flip [OF c]
    unfolding light_errors_iff decode1393_def by (metis h1393.flip_not_zero h1393.mismatches_clean c)
  then show "snd (decode1393 (get_column e c)) = get_column d c"
    "fst (decode1393 (get_column e c)) \<or> get_column e c = get_column d c" by auto
qed

lemma column_pass:
  assumes "codeword d" "light_errors d e" "n \<le> 15"
  shows "length (snd (foldl column_step (f, e) [0..<n])) = 196 \<and>
    (\<forall>c < 15. get_column (snd (foldl column_step (f, e) [0..<n])) c = (if c < n then get_column d c else get_column e c))"
  using assms(3)
proof (induction n)
  case 0
  then show ?case using assms(2) by (simp add: light_errors_iff)
next
  case (Suc n)
  obtain f' s where s: "foldl column_step (f, e) [0..<n] = (f', s)" by (cases "foldl column_step (f, e) [0..<n]")
  have IH: "length s = 196" "\<forall>c < 15. get_column s c = (if c < n then get_column d c else get_column e c)"
    using Suc s by auto
  have n: "n < 15" using Suc.prems by simp
  have cn: "get_column s n = get_column e n" using IH(2) n by simp
  have "snd (foldl column_step (f, e) [0..<Suc n]) = (if fst (decode1393 (get_column e n)) then put_column s n (get_column d n) else s)"
    using decode_column(1) [OF assms(1,2) n] by (simp add: s column_step_def cn case_prod_unfold)
  then show ?case
    using decode_column(2) [OF assms(1,2) n] IH n get_put_column [OF IH(1) n] by (auto simp: less_Suc_eq)
qed

lemma row_pass:
  assumes "codeword d" "same_cells d e" "n \<le> 9"
  shows "foldl row_step (f, e) [0..<n] = (f, e)"
  using assms(3)
proof (induction n)
  case 0
  then show ?case by simp
next
  case (Suc n)
  have "get_row e n = get_row d n"
    using assms(1,2) Suc.prems by (simp add: get_row_columns codeword_def same_cells_def del: get_column_nth)
  then have "decode15113_2 (get_row e n) = (False, get_row e n)"
    using h15113_2.correct_clean assms(1) Suc.prems by (simp add: decode15113_2_def codeword_def)
  then show ?case
    using Suc assms(2) memcpy_get_row [of e n] by (simp add: row_step_def same_cells_def)
qed

lemma same_is_light: "codeword d \<Longrightarrow> same_cells d e \<Longrightarrow> light_errors d e"
  by (simp add: same_cells_def light_errors_iff)

lemma check_pass_corrects:
  assumes "codeword d" "light_errors d e"
  shows "same_cells d (snd (check_pass e))"
proof -
  obtain f s where s: "foldl column_step (False, e) [0..<15] = (f, s)" by (cases "foldl column_step (False, e) [0..<15]")
  have "same_cells d s" using column_pass [OF assms, of 15 False] by (simp add: s same_cells_def)
  then show ?thesis using row_pass [OF assms(1), of s 9 f] by (simp add: check_pass_def s)
qed

lemma check_loop_corrects:
  assumes "codeword d" "light_errors d e"
  shows "same_cells d (check_loop count e)"
  using assms(2)
proof (induction count e rule: check_loop.induct)
  case (1 count e)
  obtain f s where s: "check_pass e = (f, s)" by (cases "check_pass e")
  have "same_cells d s" using check_pass_corrects [OF assms(1) "1.prems"] by (simp add: s)
  then show ?case
    using "1.IH" [OF s [symmetric] refl] same_is_light [OF assms(1)] by (subst check_loop.simps) (simp add: s)
qed


section \<open>Data in and out of the matrix\<close>

lemma data_positions_ok:
  "length data_positions = 96" "distinct data_positions"
  "list_all (\<lambda>p. 1 \<le> p \<and> (p - 1) mod 15 < 11 \<and> (p - 1) div 15 < 9) data_positions"
  by code_simp+

lemma data_position_cell:
  assumes "p \<in> set data_positions"
  obtains r c where "r < 9" "c < 11" "p = Suc (c + 15 * r)"
proof -
  have "1 \<le> p" "(p - 1) mod 15 < 11" "(p - 1) div 15 < 9" using data_positions_ok(3) assms by (auto simp: list_all_iff)
  moreover have "p = Suc ((p - 1) mod 15 + 15 * ((p - 1) div 15))" using \<open>1 \<le> p\<close> by simp
  ultimately show ?thesis using that by blast
qed

lemma same_cells_nth: "same_cells d e \<Longrightarrow> r < 13 \<Longrightarrow> c < 15 \<Longrightarrow> e ! Suc (c + 15 * r) = d ! Suc (c + 15 * r)"
  by (metis same_cells_def get_column_nth)

lemma encodeErrorCheck_data:
  assumes "length d = 196" "p \<in> set data_positions"
  shows "encodeErrorCheck d ! p = d ! p"
proof -
  obtain r c where p: "r < 9" "c < 11" "p = Suc (c + 15 * r)" by (rule data_position_cell [OF assms(2)])
  have "length (encodeErrorCheck d) = 196" using encodeErrorCheck_codeword [OF assms(1)] by (simp add: codeword_def)
  then have "encodeErrorCheck d ! p = get_row (encodeErrorCheck d) r ! c"
    using p by (simp add: get_row_nth)
  also have "\<dots> = get_row d r ! c"
    using p assms(1) by (simp add: encodeErrorCheck_rows encode15113_2_def h15113_2.put_parity_keeps)
  finally show ?thesis using p assms(1) by (simp add: get_row_nth)
qed

lemma length_encodeExtractData [simp]: "length (encodeExtractData inp) = 196"
proof -
  have "length (foldl (\<lambda>d (pos, a). d[a := b ! pos]) d xs) = length d" for b :: bits and d xs
    by (induction xs arbitrary: d) (auto split: prod.splits)
  then show ?thesis by (simp add: encodeExtractData_def Let_def)
qed

lemma data_in_matrix:
  assumes "length inp = 12"
  shows "map ((!) (encodeExtractData inp)) data_positions = bits_of inp"
proof -
  have b: "concat (map (\<lambda>i. byteToBitsBE (inp ! i)) [0..<12]) = bits_of inp"
    unfolding bits_of_def by (rule arg_cong [of _ _ concat], rule nth_equalityI) (simp_all add: assms)
  have z: "zip [0..<96] data_positions = map (\<lambda>i. (i, data_positions ! i)) [0..<96]"
    by (rule nth_equalityI) (simp_all add: data_positions_ok(1))
  have e: "encodeExtractData inp = foldl (\<lambda>d i. d[data_positions ! i := bits_of inp ! i]) (replicate 196 False) [0..<96]"
    unfolding encodeExtractData_def Let_def b z foldl_map by simp
  have m: "map ((!) data_positions) [0..<96] = data_positions"
    using map_nth [of data_positions] data_positions_ok(1) by simp
  have less: "data_positions ! i < 196" if "i < 96" for i
  proof -
    have "data_positions ! i \<in> set data_positions" using that data_positions_ok(1) by simp
    then show ?thesis by (rule data_position_cell) simp
  qed
  show ?thesis
  proof (rule nth_equalityI)
    show "length (map ((!) (encodeExtractData inp)) data_positions) = length (bits_of inp)"
      using assms by (simp add: data_positions_ok(1))
    fix i assume "i < length (map ((!) (encodeExtractData inp)) data_positions)"
    then have i: "i < 96" by (simp add: data_positions_ok(1))
    have "encodeExtractData inp ! (data_positions ! i) = bits_of inp ! i"
      unfolding e
      by (rule foldl_update_at [of "(!) data_positions"]) (use i less data_positions_ok(2) in \<open>simp_all add: m\<close>)
    then show "map ((!) (encodeExtractData inp)) data_positions ! i = bits_of inp ! i"
      using i by (simp add: data_positions_ok(1))
  qed
qed

lemma decodeExtractData_bits:
  assumes "map ((!) d) data_positions = bits_of inp" "length inp = 12" "12 \<le> length out"
  shows "decodeExtractData d out = inp @ drop 12 out"
proof (rule nth_equalityI)
  have m: "map (\<lambda>a. d ! a) data_positions = bits_of inp" using assms(1) .
  have byte: "bitsToByteBE (drop (8 * i) (bits_of inp)) = inp ! i" if "i < 12" for i
    using that assms(2) by (simp add: bits_of_drop [symmetric] drop_as_nth [of i inp])
  show "length (decodeExtractData d out) = length (inp @ drop 12 out)"
    using assms(2,3) by (simp add: decodeExtractData_def Let_def)
  fix i assume i: "i < length (decodeExtractData d out)"
  show "decodeExtractData d out ! i = (inp @ drop 12 out) ! i"
  proof (cases "i < 12")
    case True
    then show ?thesis
      using foldl_update_at [of "\<lambda>a. a" "[0..<12]" i out "\<lambda>i. bitsToByteBE (drop (8 * i) (bits_of inp))"] assms(2,3) byte
      by (simp add: decodeExtractData_def m nth_append del: upt_rec_numeral)
  next
    case False
    then have "i \<notin> (\<lambda>a. a) ` set [0..<12]" by simp
    from foldl_update_other [OF this] show ?thesis
      using False assms(2,3) by (simp add: decodeExtractData_def m nth_append del: upt_rec_numeral)
  qed
qed

section \<open>The code on bursts\<close>

definition matrix_of :: "bytes \<Rightarrow> bits \<Rightarrow> bits" where
  "matrix_of burst mem = decodeDeInterleave (decodeExtractBinary burst mem)"

lemma matrix_of_encode:
  assumes "length burst = 33" "length mem = 196"
  shows "matrix_of (bptc_encode data burst) mem = encodeErrorCheck (encodeExtractData data)"
proof -
  have "length (encodeErrorCheck (encodeExtractData data)) = 196"
    using encodeErrorCheck_codeword [of "encodeExtractData data"] by (simp add: codeword_def)
  then show ?thesis
    using assms by (simp add: matrix_of_def bptc_encode_def Let_def extract_binary_inverse deinterleave_interleave)
qed

lemma bptc_decode_corrects:
  assumes "length data = 12" "length burst = 33" "length mem = 196" "12 \<le> length out"
    and "light_errors (matrix_of (bptc_encode data burst) mem) (matrix_of received mem)"
  shows "bptc_decode received mem out = data @ drop 12 out"
proof -
  let ?d = "encodeErrorCheck (encodeExtractData data)"
  have "codeword ?d" by (rule encodeErrorCheck_codeword) simp
  then have same: "same_cells ?d (decodeErrorCheck (matrix_of received mem))"
    using check_loop_corrects assms(5) unfolding decodeErrorCheck_def matrix_of_encode [OF assms(2,3)] by blast
  have "map ((!) (decodeErrorCheck (matrix_of received mem))) data_positions = bits_of data"
    unfolding data_in_matrix [OF assms(1), symmetric]
  proof (rule map_cong [OF refl])
    fix p assume p: "p \<in> set data_positions"
    obtain r c where "r < 9" "c < 11" "p = Suc (c + 15 * r)" by (rule data_position_cell [OF p])
    then show "decodeErrorCheck (matrix_of received mem) ! p = encodeExtractData data ! p"
      using same_cells_nth [OF same, of r c] encodeErrorCheck_data [OF _ p, of "encodeExtractData data"] by simp
  qed
  then show ?thesis
    using decodeExtractData_bits assms(1,4) by (simp add: bptc_decode_def Let_def matrix_of_def)
qed

lemma light_errors_refl: "length d = 196 \<Longrightarrow> light_errors d d"
  by (simp add: light_errors_iff)

lemma bptc_decode_encode:
  assumes "length data = 12" "length burst = 33" "length mem = 196" "12 \<le> length out"
  shows "bptc_decode (bptc_encode data burst) mem out = data @ drop 12 out"
proof (rule bptc_decode_corrects [OF assms])
  have "length (matrix_of (bptc_encode data burst) mem) = 196"
    using encodeErrorCheck_codeword [of "encodeExtractData data"] by (simp add: matrix_of_encode [OF assms(2,3)] codeword_def)
  then show "light_errors (matrix_of (bptc_encode data burst) mem) (matrix_of (bptc_encode data burst) mem)"
    by (rule light_errors_refl)
qed

lemma length_bptc_encode [simp]: "length (bptc_encode data burst) = length burst"
  by (simp add: bptc_encode_def Let_def)

text \<open>The encoder leaves the sync and slot type bits between its two blocks alone.\<close>

lemma bptc_encode_keeps:
  assumes "length burst = 33"
  shows "13 \<le> j \<Longrightarrow> j < 20 \<Longrightarrow> bptc_encode data burst ! j = burst ! j"
    and "bptc_encode data burst ! 12 AND 0x3F = burst ! 12 AND 0x3F"
    and "bptc_encode data burst ! 20 AND 0xFC = burst ! 20 AND 0xFC"
proof -
  have m: "((x AND 0x3F) OR (y AND 0xC0)) AND 0x3F = x AND 0x3F" "((x AND 0xFC) OR (y AND 0x03)) AND 0xFC = x AND 0xFC"
    for x y :: u8
    by (simp_all add: bit.conj_disj_distrib2 and.assoc)
  show "13 \<le> j \<Longrightarrow> j < 20 \<Longrightarrow> bptc_encode data burst ! j = burst ! j"
    "bptc_encode data burst ! 12 AND 0x3F = burst ! 12 AND 0x3F"
    "bptc_encode data burst ! 20 AND 0xFC = burst ! 20 AND 0xFC"
    by (simp_all add: bptc_encode_def Let_def encodeExtractBinary_nth [OF assms] m)
qed

text \<open>What the arrays held before a decoding does not matter.\<close>

lemma decodeExtractBinary_memory:
  assumes "length raw = 196" "length raw' = 196"
  shows "decodeExtractBinary inp raw = decodeExtractBinary inp raw'"
proof -
  let ?f = "concat (map (\<lambda>i. byteToBitsBE (inp ! i)) [0..<13])" and ?s = "concat (map (\<lambda>i. byteToBitsBE (inp ! (21 + i))) [0..<12])"
  let ?b = "byteToBitsBE (inp ! 20)"
  have lf: "length ?f = 104" by (simp add: length_concat comp_def sum_list_triv del: upt_rec_numeral)
  have e: "decodeExtractBinary inp m = take 98 ?f @ [?b ! 6, ?b ! 7] @ ?s" if m: "length m = 196" for m
  proof -
    have r1: "foldl (\<lambda>raw i. memcpy_at raw (8 * i) (byteToBitsBE (inp ! i))) m [0..<13] = ?f @ drop 104 m"
      using foldl_memcpy_8 [of "\<lambda>i. byteToBitsBE (inp ! i)" 0 13 m] m by simp
    let ?r = "(?f @ drop 104 m)[98 := ?b ! 6, 99 := ?b ! 7]"
    have len: "length ?r = 196" using m lf by simp
    have t: "take 100 ?r = take 98 ?f @ [?b ! 6, ?b ! 7]"
    proof (rule nth_equalityI)
      show "length (take 100 ?r) = length (take 98 ?f @ [?b ! 6, ?b ! 7])" using len lf by simp
      fix i assume "i < length (take 100 ?r)"
      then have i: "i < 100" by simp
      then have "i < 98 \<or> i = 98 \<or> i = 99" by linarith
      then show "take 100 ?r ! i = (take 98 ?f @ [?b ! 6, ?b ! 7]) ! i"
        using lf m len by (auto simp: nth_append nth_list_update simp del: upt_rec_numeral)
    qed
    have "decodeExtractBinary inp m = take 100 ?r @ ?s @ drop 196 ?r"
      using foldl_memcpy_8 [of "\<lambda>i. byteToBitsBE (inp ! (21 + i))" 100 12 ?r] len
      unfolding decodeExtractBinary_def Let_def r1 by simp
    then show ?thesis using len by (simp add: t del: upt_rec_numeral)
  qed
  show ?thesis using e [OF assms(1)] e [OF assms(2)] by simp
qed

lemma decodeExtractData_map:
  assumes "length out = 12"
  shows "decodeExtractData d out = map (\<lambda>i. bitsToByteBE (drop (8 * i) (map (\<lambda>a. d ! a) data_positions))) [0..<12]"
proof (rule nth_equalityI)
  fix i assume "i < length (decodeExtractData d out)"
  then have i: "i < 12" using assms by (simp add: decodeExtractData_def Let_def)
  then show "decodeExtractData d out ! i = map (\<lambda>i. bitsToByteBE (drop (8 * i) (map (\<lambda>a. d ! a) data_positions))) [0..<12] ! i"
    using foldl_update_at [of "\<lambda>a. a" "[0..<12]" i out "\<lambda>i. bitsToByteBE (drop (8 * i) (map (\<lambda>a. d ! a) data_positions))"] assms
    by (simp add: decodeExtractData_def Let_def del: upt_rec_numeral)
qed (simp add: assms decodeExtractData_def Let_def)

lemma bptc_decode_memory:
  assumes "length raw = 196" "length raw' = 196" "length out = 12" "length out' = 12"
  shows "bptc_decode inp raw out = bptc_decode inp raw' out'"
  unfolding bptc_decode_def Let_def decodeExtractBinary_memory [OF assms(1,2)]
    decodeExtractData_map [OF assms(3)] decodeExtractData_map [OF assms(4)] ..

lemma length_bptc_decode [simp]: "length (bptc_decode inp raw out) = length out"
  by (simp add: bptc_decode_def decodeExtractData_def Let_def)

lemma get_column_update:
  assumes "c < 15" "c' < 15" "a < 13" "length d = 196"
  shows "get_column (d[Suc (c + 15 * a) := b]) c' = (if c' = c then (get_column d c)[a := b] else get_column d c')"
proof (rule nth_equalityI)
  fix i assume "i < length (get_column (d[Suc (c + 15 * a) := b]) c')"
  then have i: "i < 13" by simp
  have "Suc (c + 15 * a) = Suc (c' + 15 * i) \<longleftrightarrow> c = c' \<and> a = i" using cell_eq_iff [OF assms(1,2)] by simp
  then show "get_column (d[Suc (c + 15 * a) := b]) c' ! i = (if c' = c then (get_column d c)[a := b] else get_column d c') ! i"
    using i assms by (auto simp: nth_list_update)
qed simp

text \<open>A noisy matrix for the examples: one bit inverted in the fourth column, one in the last.\<close>

definition two_flips :: "bits \<Rightarrow> bits" where
  "two_flips d = d[Suc (3 + 15 * 2) := \<not> d ! Suc (3 + 15 * 2), Suc (14 + 15 * 12) := \<not> d ! Suc (14 + 15 * 12)]"

lemma two_flips_light:
  assumes "length d = 196"
  shows "light_errors d (two_flips d)" "two_flips d \<noteq> d" "length (two_flips d) = 196"
    "matrix_of (encodeExtractBinary (encodeInterleave (two_flips d)) (replicate 33 0)) (replicate 196 b) = two_flips d"
proof -
  show l: "length (two_flips d) = 196" using assms by (simp add: two_flips_def)
  have cols: "get_column (two_flips d) c = (if c = 3 then (get_column d 3)[2 := \<not> get_column d 3 ! 2]
      else if c = 14 then (get_column d 14)[12 := \<not> get_column d 14 ! 12] else get_column d c)" if "c < 15" for c
    unfolding two_flips_def
    using that assms get_column_update [of 3 c 2] get_column_update [of 3 14 2] get_column_update [of 3 3 2] get_column_update [of 14 c 12] by simp
  show "light_errors d (two_flips d)"
    using cols l by (auto simp: light_errors_iff intro: exI [of _ 2] exI [of _ 12])
  have "two_flips d ! Suc (3 + 15 * 2) \<noteq> d ! Suc (3 + 15 * 2)" using assms by (simp add: two_flips_def)
  then show "two_flips d \<noteq> d" by metis
  show "matrix_of (encodeExtractBinary (encodeInterleave (two_flips d)) (replicate 33 0)) (replicate 196 b) = two_flips d"
    using l by (simp add: matrix_of_def extract_binary_inverse deinterleave_interleave)
qed

text \<open>
  C4. A burst carries its twelve bytes through noise: decoding gives them back when the received
  bits, put back into the matrix, differ from the sent ones in at most one place of each column,
  whatever the burst held between the two blocks.
\<close>

theorem bptc_corrects_column_errors:
  assumes "length data = 12" "length burst = 33" "length mem = 196" "12 \<le> length out"
    and "light_errors (matrix_of (bptc_encode data burst) mem) (matrix_of received mem)"
  shows "bptc_decode received mem out = data @ drop 12 out"
  by (rule bptc_decode_corrects [OF assms])


theorem bptc_corrects_column_errors_witness:
  "let d = encodeErrorCheck (encodeExtractData (replicate 12 0xA5));
       e = d[Suc (3 + 15 * 2) := \<not> d ! Suc (3 + 15 * 2), Suc (14 + 15 * 12) := \<not> d ! Suc (14 + 15 * 12)];
       received = encodeExtractBinary (encodeInterleave e) (replicate 33 0)
   in bptc_decode received (replicate 196 True) (replicate 12 0) = replicate 12 0xA5"
proof -
  define d where "d = encodeErrorCheck (encodeExtractData (replicate 12 0xA5))"
  have len: "length d = 196" using encodeErrorCheck_codeword [of "encodeExtractData (replicate 12 0xA5)"] by (simp add: d_def codeword_def)
  have "bptc_decode (encodeExtractBinary (encodeInterleave (two_flips d)) (replicate 33 0)) (replicate 196 True) (replicate 12 0) =
      replicate 12 0xA5 @ drop 12 (replicate 12 0)"
    by (rule bptc_corrects_column_errors [where burst = "replicate 33 0"])
      (simp_all add: matrix_of_encode two_flips_light [OF len] d_def [symmetric])
  then show ?thesis by (simp add: Let_def d_def two_flips_def)
qed

end
