(* ===== verification/RS129.thy ===== *)
theory RS129
  imports CRC
begin

text \<open>
  The Reed-Solomon code (12,9) over the field of 256 elements,
  \<^verbatim>\<open>src/src/common/edac/RS129.cpp\<close>: three parity bytes computed by a shift register and compared
  on reception.  The field product by logarithm tables equals the polynomial product.
\<close>

section \<open>The code\<close>

definition NPAR :: nat where "NPAR = 3"

definition POLY :: "u8 list" where
  "POLY = [64, 56, 14, 1, 0, 0, 0, 0, 0, 0, 0, 0]"

definition EXP_TABLE :: "u8 list" where
  "EXP_TABLE = [
     0x01, 0x02, 0x04, 0x08, 0x10, 0x20, 0x40, 0x80, 0x1D, 0x3A, 0x74, 0xE8, 0xCD, 0x87, 0x13, 0x26,
     0x4C, 0x98, 0x2D, 0x5A, 0xB4, 0x75, 0xEA, 0xC9, 0x8F, 0x03, 0x06, 0x0C, 0x18, 0x30, 0x60, 0xC0,
     0x9D, 0x27, 0x4E, 0x9C, 0x25, 0x4A, 0x94, 0x35, 0x6A, 0xD4, 0xB5, 0x77, 0xEE, 0xC1, 0x9F, 0x23,
     0x46, 0x8C, 0x05, 0x0A, 0x14, 0x28, 0x50, 0xA0, 0x5D, 0xBA, 0x69, 0xD2, 0xB9, 0x6F, 0xDE, 0xA1,
     0x5F, 0xBE, 0x61, 0xC2, 0x99, 0x2F, 0x5E, 0xBC, 0x65, 0xCA, 0x89, 0x0F, 0x1E, 0x3C, 0x78, 0xF0,
     0xFD, 0xE7, 0xD3, 0xBB, 0x6B, 0xD6, 0xB1, 0x7F, 0xFE, 0xE1, 0xDF, 0xA3, 0x5B, 0xB6, 0x71, 0xE2,
     0xD9, 0xAF, 0x43, 0x86, 0x11, 0x22, 0x44, 0x88, 0x0D, 0x1A, 0x34, 0x68, 0xD0, 0xBD, 0x67, 0xCE,
     0x81, 0x1F, 0x3E, 0x7C, 0xF8, 0xED, 0xC7, 0x93, 0x3B, 0x76, 0xEC, 0xC5, 0x97, 0x33, 0x66, 0xCC,
     0x85, 0x17, 0x2E, 0x5C, 0xB8, 0x6D, 0xDA, 0xA9, 0x4F, 0x9E, 0x21, 0x42, 0x84, 0x15, 0x2A, 0x54,
     0xA8, 0x4D, 0x9A, 0x29, 0x52, 0xA4, 0x55, 0xAA, 0x49, 0x92, 0x39, 0x72, 0xE4, 0xD5, 0xB7, 0x73,
     0xE6, 0xD1, 0xBF, 0x63, 0xC6, 0x91, 0x3F, 0x7E, 0xFC, 0xE5, 0xD7, 0xB3, 0x7B, 0xF6, 0xF1, 0xFF,
     0xE3, 0xDB, 0xAB, 0x4B, 0x96, 0x31, 0x62, 0xC4, 0x95, 0x37, 0x6E, 0xDC, 0xA5, 0x57, 0xAE, 0x41,
     0x82, 0x19, 0x32, 0x64, 0xC8, 0x8D, 0x07, 0x0E, 0x1C, 0x38, 0x70, 0xE0, 0xDD, 0xA7, 0x53, 0xA6,
     0x51, 0xA2, 0x59, 0xB2, 0x79, 0xF2, 0xF9, 0xEF, 0xC3, 0x9B, 0x2B, 0x56, 0xAC, 0x45, 0x8A, 0x09,
     0x12, 0x24, 0x48, 0x90, 0x3D, 0x7A, 0xF4, 0xF5, 0xF7, 0xF3, 0xFB, 0xEB, 0xCB, 0x8B, 0x0B, 0x16,
     0x2C, 0x58, 0xB0, 0x7D, 0xFA, 0xE9, 0xCF, 0x83, 0x1B, 0x36, 0x6C, 0xD8, 0xAD, 0x47, 0x8E, 0x01,
     0x02, 0x04, 0x08, 0x10, 0x20, 0x40, 0x80, 0x1D, 0x3A, 0x74, 0xE8, 0xCD, 0x87, 0x13, 0x26, 0x4C,
     0x98, 0x2D, 0x5A, 0xB4, 0x75, 0xEA, 0xC9, 0x8F, 0x03, 0x06, 0x0C, 0x18, 0x30, 0x60, 0xC0, 0x9D,
     0x27, 0x4E, 0x9C, 0x25, 0x4A, 0x94, 0x35, 0x6A, 0xD4, 0xB5, 0x77, 0xEE, 0xC1, 0x9F, 0x23, 0x46,
     0x8C, 0x05, 0x0A, 0x14, 0x28, 0x50, 0xA0, 0x5D, 0xBA, 0x69, 0xD2, 0xB9, 0x6F, 0xDE, 0xA1, 0x5F,
     0xBE, 0x61, 0xC2, 0x99, 0x2F, 0x5E, 0xBC, 0x65, 0xCA, 0x89, 0x0F, 0x1E, 0x3C, 0x78, 0xF0, 0xFD,
     0xE7, 0xD3, 0xBB, 0x6B, 0xD6, 0xB1, 0x7F, 0xFE, 0xE1, 0xDF, 0xA3, 0x5B, 0xB6, 0x71, 0xE2, 0xD9,
     0xAF, 0x43, 0x86, 0x11, 0x22, 0x44, 0x88, 0x0D, 0x1A, 0x34, 0x68, 0xD0, 0xBD, 0x67, 0xCE, 0x81,
     0x1F, 0x3E, 0x7C, 0xF8, 0xED, 0xC7, 0x93, 0x3B, 0x76, 0xEC, 0xC5, 0x97, 0x33, 0x66, 0xCC, 0x85,
     0x17, 0x2E, 0x5C, 0xB8, 0x6D, 0xDA, 0xA9, 0x4F, 0x9E, 0x21, 0x42, 0x84, 0x15, 0x2A, 0x54, 0xA8,
     0x4D, 0x9A, 0x29, 0x52, 0xA4, 0x55, 0xAA, 0x49, 0x92, 0x39, 0x72, 0xE4, 0xD5, 0xB7, 0x73, 0xE6,
     0xD1, 0xBF, 0x63, 0xC6, 0x91, 0x3F, 0x7E, 0xFC, 0xE5, 0xD7, 0xB3, 0x7B, 0xF6, 0xF1, 0xFF, 0xE3,
     0xDB, 0xAB, 0x4B, 0x96, 0x31, 0x62, 0xC4, 0x95, 0x37, 0x6E, 0xDC, 0xA5, 0x57, 0xAE, 0x41, 0x82,
     0x19, 0x32, 0x64, 0xC8, 0x8D, 0x07, 0x0E, 0x1C, 0x38, 0x70, 0xE0, 0xDD, 0xA7, 0x53, 0xA6, 0x51,
     0xA2, 0x59, 0xB2, 0x79, 0xF2, 0xF9, 0xEF, 0xC3, 0x9B, 0x2B, 0x56, 0xAC, 0x45, 0x8A, 0x09, 0x12,
     0x24, 0x48, 0x90, 0x3D, 0x7A, 0xF4, 0xF5, 0xF7, 0xF3, 0xFB, 0xEB, 0xCB, 0x8B, 0x0B, 0x16, 0x2C,
     0x58, 0xB0, 0x7D, 0xFA, 0xE9, 0xCF, 0x83, 0x1B, 0x36, 0x6C, 0xD8, 0xAD, 0x47, 0x8E, 0x01, 0x00]"

definition LOG_TABLE :: "u8 list" where
  "LOG_TABLE = [
     0x00, 0x00, 0x01, 0x19, 0x02, 0x32, 0x1A, 0xC6, 0x03, 0xDF, 0x33, 0xEE, 0x1B, 0x68, 0xC7, 0x4B,
     0x04, 0x64, 0xE0, 0x0E, 0x34, 0x8D, 0xEF, 0x81, 0x1C, 0xC1, 0x69, 0xF8, 0xC8, 0x08, 0x4C, 0x71,
     0x05, 0x8A, 0x65, 0x2F, 0xE1, 0x24, 0x0F, 0x21, 0x35, 0x93, 0x8E, 0xDA, 0xF0, 0x12, 0x82, 0x45,
     0x1D, 0xB5, 0xC2, 0x7D, 0x6A, 0x27, 0xF9, 0xB9, 0xC9, 0x9A, 0x09, 0x78, 0x4D, 0xE4, 0x72, 0xA6,
     0x06, 0xBF, 0x8B, 0x62, 0x66, 0xDD, 0x30, 0xFD, 0xE2, 0x98, 0x25, 0xB3, 0x10, 0x91, 0x22, 0x88,
     0x36, 0xD0, 0x94, 0xCE, 0x8F, 0x96, 0xDB, 0xBD, 0xF1, 0xD2, 0x13, 0x5C, 0x83, 0x38, 0x46, 0x40,
     0x1E, 0x42, 0xB6, 0xA3, 0xC3, 0x48, 0x7E, 0x6E, 0x6B, 0x3A, 0x28, 0x54, 0xFA, 0x85, 0xBA, 0x3D,
     0xCA, 0x5E, 0x9B, 0x9F, 0x0A, 0x15, 0x79, 0x2B, 0x4E, 0xD4, 0xE5, 0xAC, 0x73, 0xF3, 0xA7, 0x57,
     0x07, 0x70, 0xC0, 0xF7, 0x8C, 0x80, 0x63, 0x0D, 0x67, 0x4A, 0xDE, 0xED, 0x31, 0xC5, 0xFE, 0x18,
     0xE3, 0xA5, 0x99, 0x77, 0x26, 0xB8, 0xB4, 0x7C, 0x11, 0x44, 0x92, 0xD9, 0x23, 0x20, 0x89, 0x2E,
     0x37, 0x3F, 0xD1, 0x5B, 0x95, 0xBC, 0xCF, 0xCD, 0x90, 0x87, 0x97, 0xB2, 0xDC, 0xFC, 0xBE, 0x61,
     0xF2, 0x56, 0xD3, 0xAB, 0x14, 0x2A, 0x5D, 0x9E, 0x84, 0x3C, 0x39, 0x53, 0x47, 0x6D, 0x41, 0xA2,
     0x1F, 0x2D, 0x43, 0xD8, 0xB7, 0x7B, 0xA4, 0x76, 0xC4, 0x17, 0x49, 0xEC, 0x7F, 0x0C, 0x6F, 0xF6,
     0x6C, 0xA1, 0x3B, 0x52, 0x29, 0x9D, 0x55, 0xAA, 0xFB, 0x60, 0x86, 0xB1, 0xBB, 0xCC, 0x3E, 0x5A,
     0xCB, 0x59, 0x5F, 0xB0, 0x9C, 0xA9, 0xA0, 0x51, 0x0B, 0xF5, 0x16, 0xEB, 0x7A, 0x75, 0x2C, 0xD7,
     0x4F, 0xAE, 0xD5, 0xE9, 0xE6, 0xE7, 0xAD, 0xE8, 0x74, 0xD6, 0xF4, 0xEA, 0xA8, 0x50, 0x58, 0xAF]"

definition gmult :: "u8 \<Rightarrow> u8 \<Rightarrow> u8" where
  "gmult a b =
     (if a = 0 \<or> b = 0 then 0
      else let i = unat (LOG_TABLE ! unat a); j = unat (LOG_TABLE ! unat b)
           in EXP_TABLE ! (i + j))"

definition rs129_step :: "u8 list \<Rightarrow> u8 \<Rightarrow> u8 list" where
  "rs129_step parity m =
     (let dbyte = m XOR parity ! (NPAR - 1);
          parity = foldl (\<lambda>parity j. parity[j := parity ! (j - 1) XOR gmult (POLY ! j) dbyte]) parity [2, 1]
      in parity[0 := gmult (POLY ! 0) dbyte])"

definition rs129_encode :: "bytes \<Rightarrow> nat \<Rightarrow> u8 list" where
  "rs129_encode msg nbytes = foldl rs129_step (replicate (NPAR + 1) 0) (take nbytes msg)"

definition rs129_check :: "bytes \<Rightarrow> bool" where
  "rs129_check inp =
     (let parity = rs129_encode inp 9
      in inp ! 9 = parity ! 2 \<and> inp ! 10 = parity ! 1 \<and> inp ! 11 = parity ! 0)"

section \<open>The field\<close>

text \<open>Multiplication by the generator is the shift modulo \<open>x^8 + x^4 + x^3 + x^2 + 1\<close>.\<close>

abbreviation times_x :: "u8 \<Rightarrow> u8" where "times_x \<equiv> lfsr 0x1D"

fun shift_chain :: "u8 list \<Rightarrow> bool" where
  "shift_chain (x # y # zs) \<longleftrightarrow> y = times_x x \<and> shift_chain (y # zs)"
| "shift_chain _ \<longleftrightarrow> True"

lemma shift_chain_nth: "shift_chain xs \<Longrightarrow> i < length xs \<Longrightarrow> xs ! i = (times_x ^^ i) (hd xs)"
proof (induction xs arbitrary: i rule: shift_chain.induct)
  case (1 x y zs)
  show ?case
  proof (cases i)
    case (Suc k)
    have c: "shift_chain (y # zs)" "y = times_x x" "k < length (y # zs)" using "1.prems" Suc by auto
    have "(y # zs) ! k = (times_x ^^ k) y" using "1.IH" [OF c(1) c(3)] by simp
    then show ?thesis using Suc c(2) by (simp add: funpow_swap1)
  qed simp
qed auto

lemma EXP_TABLE_chain: "shift_chain (take 511 EXP_TABLE)"
  by (simp add: EXP_TABLE_def lfsr_def)

lemma EXP_TABLE_nth: "i < 511 \<Longrightarrow> EXP_TABLE ! i = (times_x ^^ i) 1"
  using shift_chain_nth [OF EXP_TABLE_chain, of i] by (simp add: EXP_TABLE_def del: take_Cons_numeral)

lemma LOG_TABLE_inverse: "list_all (\<lambda>a. a = 0 \<or> EXP_TABLE ! unat (LOG_TABLE ! a) = of_nat a \<and> LOG_TABLE ! a < 255) [0..<256]"
  by code_simp


lemma LOG_TABLE_nth:
  assumes "a \<noteq> 0"
  shows "(times_x ^^ unat (LOG_TABLE ! unat a)) 1 = a" "unat (LOG_TABLE ! unat a) < 255"
proof -
  have a: "unat a < 256" "unat a \<noteq> 0" using assms unat_u8_less [of a] by (simp_all add: unat_eq_0)
  have "EXP_TABLE ! unat (LOG_TABLE ! unat a) = of_nat (unat a) \<and> LOG_TABLE ! unat a < 255"
    using LOG_TABLE_inverse [unfolded list_all_iff, THEN bspec, of "unat a"] a by simp
  then show l: "unat (LOG_TABLE ! unat a) < 255" "(times_x ^^ unat (LOG_TABLE ! unat a)) 1 = a"
    using EXP_TABLE_nth [of "unat (LOG_TABLE ! unat a)"] by (simp_all add: word_less_nat_alt)
qed

lemma times_x_pow_zero: "(times_x ^^ n) 0 = 0"
  by (rule xor_linear_zero [OF xor_linear_funpow [OF xor_linear_lfsr]])

lemma gmult_pow: "a \<noteq> 0 \<Longrightarrow> gmult a b = (times_x ^^ unat (LOG_TABLE ! unat a)) b"
proof (cases "b = 0")
  case True
  then show ?thesis by (simp add: gmult_def times_x_pow_zero)
next
  case False
  assume a: "a \<noteq> 0"
  let ?i = "unat (LOG_TABLE ! unat a)" and ?j = "unat (LOG_TABLE ! unat b)"
  have "gmult a b = (times_x ^^ (?i + ?j)) 1"
    using a False LOG_TABLE_nth(2) [OF a] LOG_TABLE_nth(2) [OF False] by (simp add: gmult_def Let_def EXP_TABLE_nth)
  also have "\<dots> = (times_x ^^ ?i) ((times_x ^^ ?j) 1)" by (simp add: funpow_add)
  finally show ?thesis by (simp add: LOG_TABLE_nth(1) [OF False])
qed

text \<open>The product of the polynomials: the shifts of one factor the bits of the other select.\<close>

definition gf_mul :: "u8 \<Rightarrow> u8 \<Rightarrow> u8" where
  "gf_mul a b = foldr (\<lambda>i p. (if bit a i then (times_x ^^ i) b else 0) XOR p) [0..<8] 0"

lemma pow_swap: "(f ^^ i) ((f ^^ j) x) = (f ^^ j) ((f ^^ i) x)"
proof -
  have "(f ^^ (i + j)) x = (f ^^ (j + i)) x" by (simp only: add.commute)
  then show ?thesis by (simp only: funpow_add comp_apply)
qed

lemma gf_mul_linear: "xor_linear h \<Longrightarrow> (\<And>i x. h ((times_x ^^ i) x) = (times_x ^^ i) (h x)) \<Longrightarrow> gf_mul a (h b) = h (gf_mul a b)"
proof -
  assume h: "xor_linear h" and c: "\<And>i x. h ((times_x ^^ i) x) = (times_x ^^ i) (h x)"
  have "foldr (\<lambda>i p. (if bit a i then (times_x ^^ i) (h b) else 0) XOR p) is 0 =
        h (foldr (\<lambda>i p. (if bit a i then (times_x ^^ i) b else 0) XOR p) is 0)" for "is"
    by (induction "is") (simp_all add: xor_linear_zero [OF h] xor_linearD [OF h] c)
  then show ?thesis by (simp add: gf_mul_def)
qed

lemma gf_mul_one: "gf_mul a 1 = a"
proof (rule bit_word_eqI)
  fix n assume "n < LENGTH(8)"
  then have n: "n < 8" by simp
  have p: "(times_x ^^ i) 1 = 2 ^ i" if "i < 8" for i
    using that by (elim less_8E) (simp_all add: numeral_eq_Suc lfsr_def)
  have "bit (foldr (\<lambda>i p. (if bit a i then (times_x ^^ i) 1 else 0) XOR p) is 0) n = (n \<in> set is \<and> bit a n)"
    if "distinct is" "\<forall>i \<in> set is. i < 8" for "is"
    using that n by (induction "is") (auto simp: bit_xor_iff p bit_simps)
  then show "bit (gf_mul a 1) n = bit a n" using n by (simp add: gf_mul_def del: upt_rec_numeral)
qed

lemma gmult_eq: "gmult a b = gf_mul a b"
proof (cases "a = 0 \<or> b = 0")
  case True
  have z: "foldr (\<lambda>i p. p) is (0 :: u8) = 0" for "is" :: "nat list"
    by (induction "is") simp_all
  have "gf_mul 0 b = 0" "gf_mul a 0 = 0"
    using z [of "[0..<8]"] by (simp_all add: gf_mul_def times_x_pow_zero del: upt_rec_numeral cong: if_cong)
  then show ?thesis using True by (auto simp: gmult_def)
next
  case False
  let ?j = "unat (LOG_TABLE ! unat b)" and ?i = "unat (LOG_TABLE ! unat a)"
  have "gf_mul a b = gf_mul a ((times_x ^^ ?j) 1)" using LOG_TABLE_nth(1) [of b] False by simp
  also have "\<dots> = (times_x ^^ ?j) (gf_mul a 1)"
    by (rule gf_mul_linear [OF xor_linear_funpow [OF xor_linear_lfsr]]) (rule pow_swap)
  also have "\<dots> = (times_x ^^ ?j) ((times_x ^^ ?i) 1)" using LOG_TABLE_nth(1) [of a] False by (simp add: gf_mul_one)
  also have "\<dots> = (times_x ^^ ?i) ((times_x ^^ ?j) 1)" by (rule pow_swap)
  also have "\<dots> = gmult a b" using False LOG_TABLE_nth(1) [of b] by (simp add: gmult_pow)
  finally show ?thesis by simp
qed

text \<open>
  C18. The product read from the logarithm tables is the product of the field: the polynomial
  product modulo \<open>x^8 + x^4 + x^3 + x^2 + 1\<close>.
\<close>

theorem gmult_is_field_product: "gmult a b = gf_mul a b"
  by (rule gmult_eq)

section \<open>Detection\<close>

lemma gmult_inj:
  assumes "a \<noteq> 0" "gmult a x = gmult a y"
  shows "x = y"
proof (rule funpow_inj)
  show "x = y" if "times_x x = times_x y" for x y :: u8 by (rule lfsr_inj [OF _ that]) simp
  show "(times_x ^^ unat (LOG_TABLE ! unat a)) x = (times_x ^^ unat (LOG_TABLE ! unat a)) y"
    using assms by (simp add: gmult_pow)
qed

text \<open>The three registers in use, and what two equal successors say of their predecessors.\<close>

lemma rs129_step_regs:
  assumes "length s = 4"
  shows "length (rs129_step s m) = 4" "rs129_step s m ! 3 = s ! 3"
    "rs129_step s m ! 0 = gmult 64 (m XOR s ! 2)"
    "rs129_step s m ! Suc 0 = s ! 0 XOR gmult 56 (m XOR s ! 2)"
    "rs129_step s m ! 2 = s ! Suc 0 XOR gmult 14 (m XOR s ! 2)"
  using assms by (simp_all add: rs129_step_def NPAR_def POLY_def Let_def)

lemma length_rs_run [simp]: "length s = 4 \<Longrightarrow> length (foldl rs129_step s ms) = 4"
  by (induction ms arbitrary: s) (simp_all add: rs129_step_regs)

lemma rs_run_fourth: "length s = 4 \<Longrightarrow> foldl rs129_step s ms ! 3 = s ! 3"
  by (induction ms arbitrary: s) (simp_all add: rs129_step_regs)

lemma xor_cancel: "(x :: u8) XOR z = y XOR z \<longleftrightarrow> x = y"
  by (metis xor.assoc xor_self_eq xor.right_neutral)

lemma state4_eqI: "length s = 4 \<Longrightarrow> length t = 4 \<Longrightarrow> s ! 0 = t ! 0 \<Longrightarrow> s ! 1 = t ! 1 \<Longrightarrow> s ! 2 = t ! 2 \<Longrightarrow> s ! 3 = t ! 3 \<Longrightarrow> s = t"
  by (rule nth_equalityI) (auto simp: less_Suc_eq numeral_eq_Suc)

lemma step_first:
  assumes "length s = 4" "length t = 4" "rs129_step s m ! 0 = rs129_step t n ! 0"
  shows "m XOR s ! 2 = n XOR t ! 2"
  using assms gmult_inj [of 64] by (simp add: rs129_step_regs)

lemma step_second:
  assumes "length s = 4" "length t = 4" "rs129_step s m ! 0 = rs129_step t n ! 0" "rs129_step s m ! 1 = rs129_step t n ! 1"
  shows "s ! 0 = t ! 0"
  using assms(1,2,4) step_first [OF assms(1-3)] by (simp add: rs129_step_regs xor_cancel)

lemma step_third:
  assumes "length s = 4" "length t = 4" "rs129_step s m = rs129_step t n"
  shows "s ! 1 = t ! 1"
proof -
  have "rs129_step s m ! i = rs129_step t n ! i" for i using assms(3) by simp
  from this [of 2] step_first [OF assms(1,2) this [of 0]] show ?thesis
    using assms(1,2) by (simp add: rs129_step_regs xor_cancel)
qed

lemma step_inj:
  assumes "length s = 4" "length t = 4" "rs129_step s m = rs129_step t m"
  shows "s = t"
proof (rule state4_eqI [OF assms(1,2)])
  have e: "rs129_step s m ! i = rs129_step t m ! i" for i using assms(3) by simp
  show "s ! 0 = t ! 0" by (rule step_second [OF assms(1,2) e e])
  show "s ! 1 = t ! 1" by (rule step_third [OF assms])
  have "s ! 2 XOR m = t ! 2 XOR m" using step_first [OF assms(1,2) e] by (simp only: xor.commute)
  then show "s ! 2 = t ! 2" by (simp only: xor_cancel)
  show "s ! 3 = t ! 3" using e [of 3] assms(1,2) by (simp add: rs129_step_regs)
qed

lemma run_inj: "length s = 4 \<Longrightarrow> length t = 4 \<Longrightarrow> foldl rs129_step s ms = foldl rs129_step t ms \<Longrightarrow> s = t"
proof (induction ms arbitrary: s t)
  case (Cons m ms)
  then have "rs129_step s m = rs129_step t m" by (simp add: rs129_step_regs)
  then show ?case using step_inj Cons.prems by blast
qed simp

text \<open>Three bytes fed into one state are told apart by the state after them.\<close>

lemma three_bytes_inj:
  assumes "length s = 4" "foldl rs129_step s [a, b, c] = foldl rs129_step s [a', b', c']"
  shows "a = a' \<and> b = b' \<and> c = c'"
proof -
  let ?s1 = "rs129_step s a" and ?t1 = "rs129_step s a'"
  let ?s2 = "rs129_step ?s1 b" and ?t2 = "rs129_step ?t1 b'"
  have l: "length ?s1 = 4" "length ?t1 = 4" "length ?s2 = 4" "length ?t2 = 4" using assms(1) by (simp_all add: rs129_step_regs)
  have e: "rs129_step ?s2 c = rs129_step ?t2 c'" using assms(2) by simp
  have e2: "?s2 ! 0 = ?t2 ! 0" "?s2 ! 1 = ?t2 ! 1"
    using step_second [OF l(3,4), of c c'] step_third [OF l(3,4) e] e by simp_all
  have "?s1 ! 0 = ?t1 ! 0" by (rule step_second [OF l(1,2) e2])
  then have "a XOR s ! 2 = a' XOR s ! 2" by (rule step_first [OF assms(1,1)])
  then have a: "a = a'" by (simp only: xor_cancel)
  have "b XOR ?s1 ! 2 = b' XOR ?s1 ! 2" using step_first [OF l(1,2) e2(1)] a by simp
  then have b: "b = b'" by (simp only: xor_cancel)
  have "c XOR ?s2 ! 2 = c' XOR ?s2 ! 2" using step_first [OF l(3,4), of c c'] e a b by simp
  then show ?thesis using a b by (simp only: xor_cancel)
qed

text \<open>The comparison is the same as running the register over all twelve bytes.\<close>

lemma gmult_zero [simp]: "gmult a 0 = 0"
  by (simp add: gmult_def)

lemma feed_own: "length s = 4 \<Longrightarrow> s ! 3 = 0 \<Longrightarrow> foldl rs129_step s [s ! 2, s ! 1, s ! 0] = replicate 4 0"
proof -
  assume s: "length s = 4" "s ! 3 = 0"
  obtain w x y z where "s = [w, x, y, z]" using s(1) by (auto simp: numeral_eq_Suc length_Suc_conv)
  then show ?thesis using s(2) by (simp add: rs129_step_def NPAR_def POLY_def Let_def numeral_eq_Suc)
qed

lemma rs129_check_iff:
  assumes "length inp = 12"
  shows "rs129_check inp \<longleftrightarrow> foldl rs129_step (replicate 4 0) inp = replicate 4 0"
proof -
  let ?s = "foldl rs129_step (replicate 4 0) (take 9 inp)"
  have s: "length ?s = 4" "?s ! 3 = 0" using rs_run_fourth [of "replicate 4 0"] by simp_all
  have d: "drop 9 inp = [inp ! 9, inp ! 10, inp ! 11]"
    using assms by (intro nth_equalityI) (auto simp: less_Suc_eq numeral_eq_Suc)
  have "foldl rs129_step (replicate 4 0) inp = foldl rs129_step ?s (drop 9 inp)"
    by (metis append_take_drop_id foldl_append)
  then have run: "foldl rs129_step (replicate 4 0) inp = foldl rs129_step ?s [inp ! 9, inp ! 10, inp ! 11]" by (simp only: d)
  show ?thesis
  proof
    assume "rs129_check inp"
    then have "[inp ! 9, inp ! 10, inp ! 11] = [?s ! 2, ?s ! 1, ?s ! 0]"
      by (simp add: rs129_check_def rs129_encode_def NPAR_def Let_def)
    then show "foldl rs129_step (replicate 4 0) inp = replicate 4 0" unfolding run using feed_own [OF s] by simp
  next
    assume "foldl rs129_step (replicate 4 0) inp = replicate 4 0"
    then have "foldl rs129_step ?s [inp ! 9, inp ! 10, inp ! 11] = foldl rs129_step ?s [?s ! 2, ?s ! 1, ?s ! 0]"
      unfolding run using feed_own [OF s] by simp
    from three_bytes_inj [OF s(1) this] show "rs129_check inp" by (simp add: rs129_check_def rs129_encode_def NPAR_def Let_def)
  qed
qed

lemma rs129_burst:
  assumes "length pre + 3 + length post = 12" "rs129_check (pre @ [a, b, c] @ post)"
    and "rs129_check (pre @ [a', b', c'] @ post)"
  shows "a = a' \<and> b = b' \<and> c = c'"
proof -
  let ?s = "foldl rs129_step (replicate 4 0) pre"
  have s: "length ?s = 4" by simp
  have "foldl rs129_step (foldl rs129_step ?s [a, b, c]) post = foldl rs129_step (foldl rs129_step ?s [a', b', c']) post"
    using assms by (simp add: rs129_check_iff foldl_append)
  then have "foldl rs129_step ?s [a, b, c] = foldl rs129_step ?s [a', b', c']"
    by (rule run_inj [rotated 2]) (simp_all del: foldl_Cons)
  then show ?thesis by (rule three_bytes_inj [OF s])
qed

text \<open>
  C19. Nine bytes with their parity pass the check, and no error within three neighbouring bytes of
  the twelve does.
\<close>

theorem rs129_detects_bursts:
  assumes "length data = 9" "parity = rs129_encode data 9"
    and "pre @ [a, b, c] @ post = data @ [parity ! 2, parity ! 1, parity ! 0]"
  shows "rs129_check (pre @ [a, b, c] @ post) \<and>
         (rs129_check (pre @ [a', b', c'] @ post) \<longrightarrow> [a', b', c'] = [a, b, c])"
proof -
  have "length (pre @ [a, b, c] @ post) = 12" unfolding assms(3) using assms(1) by simp
  then have len: "length pre + 3 + length post = 12" by simp
  have "rs129_encode (data @ p) 9 = parity" for p using assms(1,2) by (simp add: rs129_encode_def)
  then have ok: "rs129_check (pre @ [a, b, c] @ post)"
    unfolding assms(3) using assms(1) by (simp add: rs129_check_def nth_append)
  show ?thesis using ok rs129_burst [OF len ok] by blast
qed

theorem rs129_detects_bursts_witness:
  "\<exists>p. p = rs129_encode [1, 2, 3, 4, 5, 6, 7, 8, 9] 9 \<and>
     rs129_check ([1, 2, 3] @ [4, 5, 6] @ [7, 8, 9, p ! 2, p ! 1, p ! 0])"
proof -
  have "length [1, 2, 3, 4, 5, 6, 7, 8, 9 :: u8] = 9" by simp
  from rs129_detects_bursts [OF this refl, of "[1, 2, 3]" 4 5 6] show ?thesis by simp
qed

end
