(* ===== verification/LinkControl.thy ===== *)
theory LinkControl
  imports BPTC RS129 BaseNetwork
begin

text \<open>
  DMR link control: the fields (\<^verbatim>\<open>src/src/common/dmr/lc/LC.cpp\<close>), the privacy header
  (\<^verbatim>\<open>PrivacyLC.cpp\<close>) and their coding into a burst (\<^verbatim>\<open>FullLC.cpp\<close>) with the Reed-Solomon
  parity or the CRC under a mask, and the block product code.  A null pointer is \<open>None\<close>.
\<close>

section \<open>Constants\<close>

definition DMR_LC_HEADER_LENGTH_BYTES :: nat where "DMR_LC_HEADER_LENGTH_BYTES = 12"
definition VOICE_LC_HEADER_CRC_MASK :: "u8 list" where "VOICE_LC_HEADER_CRC_MASK = [0x96, 0x96, 0x96]"
definition TERMINATOR_WITH_LC_CRC_MASK :: "u8 list" where "TERMINATOR_WITH_LC_CRC_MASK = [0x99, 0x99, 0x99]"
definition PI_HEADER_CRC_MASK :: "u8 list" where "PI_HEADER_CRC_MASK = [0x69, 0x69]"
definition FID_ETSI :: u8 where "FID_ETSI = 0x00"
definition CALL_PRIORITY_2 :: u8 where "CALL_PRIORITY_2 = 0x02"

section \<open>Link control\<close>

record lc =
  lc_PF :: bool
  lc_FLCO :: u8
  lc_FID :: u8
  lc_srcId :: u32
  lc_dstId :: u32
  lc_emergency :: bool
  lc_encrypted :: bool
  lc_broadcast :: bool
  lc_ovcm :: bool
  lc_priority :: u8
  lc_R :: bool

definition new_lc :: "u8 \<Rightarrow> u32 \<Rightarrow> u32 \<Rightarrow> lc" where
  "new_lc flco srcId dstId = \<lparr>lc_PF = False, lc_FLCO = flco, lc_FID = FID_ETSI, lc_srcId = srcId, lc_dstId = dstId,
     lc_emergency = False, lc_encrypted = False, lc_broadcast = False, lc_ovcm = False,
     lc_priority = CALL_PRIORITY_2, lc_R = False\<rparr>"

definition word24 :: "u8 \<Rightarrow> u8 \<Rightarrow> u8 \<Rightarrow> u32" where
  "word24 a b c = (push_bit 16 (ucast a) OR push_bit 8 (ucast b)) OR ucast c"

definition lc_of_bytes :: "bytes \<Rightarrow> lc" where
  "lc_of_bytes data =
     \<lparr>lc_PF = (data ! 0 AND 0x80 = 0x80), lc_FLCO = data ! 0 AND 0x3F, lc_FID = data ! 1,
      lc_srcId = word24 (data ! 6) (data ! 7) (data ! 8), lc_dstId = word24 (data ! 3) (data ! 4) (data ! 5),
      lc_emergency = (data ! 2 AND 0x80 = 0x80), lc_encrypted = (data ! 2 AND 0x40 = 0x40),
      lc_broadcast = (data ! 2 AND 0x08 = 0x08), lc_ovcm = (data ! 2 AND 0x04 = 0x04),
      lc_priority = data ! 2 AND 0x03, lc_R = (data ! 0 AND 0x40 = 0x40)\<rparr>"

definition lc_of_bits :: "bits \<Rightarrow> lc" where
  "lc_of_bits b =
     (let byte = (\<lambda>k. bitsToByteBE (drop k b)); temp1 = byte 0; temp2 = byte 8; temp3 = byte 16
      in \<lparr>lc_PF = b ! 0, lc_FLCO = temp1 AND 0x3F, lc_FID = temp2,
          lc_srcId = word24 (byte 48) (byte 56) (byte 64), lc_dstId = word24 (byte 24) (byte 32) (byte 40),
          lc_emergency = (temp3 AND 0x80 = 0x80), lc_encrypted = (temp3 AND 0x40 = 0x40),
          lc_broadcast = (temp3 AND 0x08 = 0x08), lc_ovcm = (temp3 AND 0x04 = 0x04),
          lc_priority = temp3 AND 0x03, lc_R = b ! 1\<rparr>)"

definition lc_getData :: "lc \<Rightarrow> bytes \<Rightarrow> bytes" where
  "lc_getData l data =
     (let data = data[0 := lc_FLCO l];
          data = (if lc_PF l then data[0 := data ! 0 OR 0x80] else data);
          data = (if lc_R l then data[0 := data ! 0 OR 0x40] else data);
          data = data[1 := lc_FID l];
          data = data[2 := (if lc_emergency l then 0x80 else 0) + (if lc_encrypted l then 0x40 else 0) +
                           (if lc_broadcast l then 0x08 else 0) + (if lc_ovcm l then 0x04 else 0) + (lc_priority l AND 0x03)];
          data = data[3 := ucast (drop_bit 16 (lc_dstId l)), 4 := ucast (drop_bit 8 (lc_dstId l)), 5 := ucast (lc_dstId l)]
      in data[6 := ucast (drop_bit 16 (lc_srcId l)), 7 := ucast (drop_bit 8 (lc_srcId l)), 8 := ucast (lc_srcId l)])"

definition lc_getBits :: "lc \<Rightarrow> bytes \<Rightarrow> bits \<Rightarrow> bits" where
  "lc_getBits l mem b =
     (let bytes = lc_getData l mem
      in foldl (\<lambda>b i. memcpy_at b (8 * i) (byteToBitsBE (bytes ! i))) b [0..<9])"

section \<open>Privacy header\<close>

record privacy_lc =
  pi_FID :: u8
  pi_dstId :: u32
  pi_group :: bool
  pi_algId :: u8
  pi_kId :: u32
  pi_mi :: bytes

definition new_privacy_lc :: "bytes \<Rightarrow> privacy_lc" where
  "new_privacy_lc mem = \<lparr>pi_FID = FID_ETSI, pi_dstId = 0, pi_group = False, pi_algId = 0, pi_kId = 0, pi_mi = mem\<rparr>"

definition privacy_of_bytes :: "bytes \<Rightarrow> privacy_lc" where
  "privacy_of_bytes data =
     \<lparr>pi_FID = data ! 1, pi_dstId = word24 (data ! 7) (data ! 8) (data ! 9), pi_group = (data ! 0 AND 0x20 = 0x20),
      pi_algId = data ! 0 AND 7, pi_kId = ucast (data ! 2), pi_mi = [data ! 3, data ! 4, data ! 5, data ! 6]\<rparr>"

definition privacy_of_bits :: "bits \<Rightarrow> privacy_lc" where
  "privacy_of_bits b =
     (let byte = (\<lambda>k. bitsToByteBE (drop k b)); temp1 = byte 0; temp2 = byte 8; temp3 = byte 16
      in \<lparr>pi_FID = temp2, pi_dstId = word24 (byte 56) (byte 64) (byte 72), pi_group = (temp1 AND 0x20 = 0x20),
          pi_algId = temp1 AND 7, pi_kId = ucast temp3, pi_mi = [byte 24, byte 32, byte 40, byte 48]\<rparr>)"

definition privacy_getData :: "privacy_lc \<Rightarrow> bytes \<Rightarrow> bytes" where
  "privacy_getData l data =
     (let data = data[0 := (if pi_group l then 0x20 else 0x00) + (pi_algId l AND 0x07)];
          data = data[1 := pi_FID l, 2 := ucast (pi_kId l)];
          data = data[3 := pi_mi l ! 0, 4 := pi_mi l ! 1, 5 := pi_mi l ! 2, 6 := pi_mi l ! 3]
      in data[7 := ucast (drop_bit 16 (pi_dstId l)), 8 := ucast (drop_bit 8 (pi_dstId l)), 9 := ucast (pi_dstId l)])"

definition privacy_getBits :: "privacy_lc \<Rightarrow> bytes \<Rightarrow> bits \<Rightarrow> bits" where
  "privacy_getBits l mem b =
     (let bytes = privacy_getData l mem
      in foldl (\<lambda>b i. memcpy_at b (8 * i) (byteToBitsBE (bytes ! i))) b [0..<10])"

section \<open>Coding into a burst\<close>

text \<open>
  The two arrays of the block product code and the array \<open>lcData\<close> are written before they are
  read (\<open>bptc_decode_memory\<close>), so they start as zeros here.
\<close>

definition bptc_bytes :: "bytes \<Rightarrow> bytes" where
  "bptc_bytes data = bptc_decode data (replicate 196 False) (replicate DMR_LC_HEADER_LENGTH_BYTES 0)"

definition lc_mask :: "u8 \<Rightarrow> u8 list option" where
  "lc_mask type =
     (if type = DT_VOICE_LC_HEADER then Some VOICE_LC_HEADER_CRC_MASK
      else if type = DT_TERMINATOR_WITH_LC then Some TERMINATOR_WITH_LC_CRC_MASK
      else None)"

definition mask_parity :: "u8 list \<Rightarrow> bytes \<Rightarrow> bytes" where
  "mask_parity m lcData = lcData[9 := lcData ! 9 XOR m ! 0, 10 := lcData ! 10 XOR m ! 1, 11 := lcData ! 11 XOR m ! 2]"

definition fulllc_decode :: "bytes \<Rightarrow> u8 \<Rightarrow> lc option" where
  "fulllc_decode data type =
     (let lcData = bptc_bytes data
      in case lc_mask type of
           None \<Rightarrow> None
         | Some m \<Rightarrow>
             let lcData = mask_parity m lcData
             in if \<not> rs129_check lcData then None else Some (lc_of_bytes lcData))"

definition fulllc_encode :: "lc \<Rightarrow> bytes \<Rightarrow> u8 \<Rightarrow> bytes" where
  "fulllc_encode l data type =
     (let lcData = lc_getData l (replicate DMR_LC_HEADER_LENGTH_BYTES 0);
          parity = rs129_encode lcData 9
      in case lc_mask type of
           None \<Rightarrow> data
         | Some m \<Rightarrow>
             let lcData = lcData[9 := parity ! 2 XOR m ! 0, 10 := parity ! 1 XOR m ! 1, 11 := parity ! 0 XOR m ! 2]
             in bptc_encode lcData data)"

definition unmask_pi :: "bytes \<Rightarrow> bytes" where
  "unmask_pi lcData =
     lcData[10 := lcData ! 10 XOR PI_HEADER_CRC_MASK ! 0, 11 := lcData ! 11 XOR PI_HEADER_CRC_MASK ! 1]"

definition fulllc_decodePI :: "bytes \<Rightarrow> privacy_lc option" where
  "fulllc_decodePI data =
     (let lcData = bptc_bytes data
      in if lcData ! 10 \<noteq> 0 \<and> lcData ! 11 \<noteq> 0
         then if \<not> checkCCITT162 (unmask_pi lcData) DMR_LC_HEADER_LENGTH_BYTES then None
              else Some (privacy_of_bytes (unmask_pi (unmask_pi lcData)))
         else Some (privacy_of_bytes lcData))"

definition fulllc_encodePI :: "privacy_lc \<Rightarrow> bytes \<Rightarrow> bytes" where
  "fulllc_encodePI l data =
     (let lcData = privacy_getData l (replicate DMR_LC_HEADER_LENGTH_BYTES 0);
          lcData = unmask_pi lcData;
          lcData = addCCITT162 lcData DMR_LC_HEADER_LENGTH_BYTES;
          lcData = unmask_pi lcData
      in bptc_encode lcData data)"


section \<open>Fields and bytes\<close>

definition lc_ok :: "lc \<Rightarrow> bool" where
  "lc_ok l \<longleftrightarrow> lc_FLCO l < 0x40 \<and> lc_priority l < 4 \<and> lc_srcId l < 2 ^ 24 \<and> lc_dstId l < 2 ^ 24"

definition privacy_ok :: "privacy_lc \<Rightarrow> bool" where
  "privacy_ok l \<longleftrightarrow> pi_algId l < 8 \<and> pi_kId l < 256 \<and> pi_dstId l < 2 ^ 24 \<and> length (pi_mi l) = 4"

lemma less_two_power_bit: "(x :: ('a :: len) word) < 2 ^ n \<Longrightarrow> n \<le> i \<Longrightarrow> \<not> bit x i"
  using less_mask_eq [of x n] by (metis bit_and_iff bit_mask_iff not_le)

lemma word24_bytes:
  fixes x :: u32
  assumes "x < 2 ^ 24"
  shows "word24 (ucast (drop_bit 16 x)) (ucast (drop_bit 8 x)) (ucast x) = x"
proof (rule bit_word_eqI)
  fix n assume "n < LENGTH(32)"
  have h: "\<not> bit x k" if "24 \<le> k" for k using less_two_power_bit [OF assms that] .
  have "n < 8 \<or> 8 \<le> n \<and> n < 16 \<or> 16 \<le> n \<and> n < 24 \<or> 24 \<le> n" by linarith
  then show "bit (word24 (ucast (drop_bit 16 x)) (ucast (drop_bit 8 x)) (ucast x)) n = bit x n"
    using h [of n] \<open>n < LENGTH(32)\<close> by (auto simp: word24_def bit_simps)
qed

lemma flco_byte:
  fixes x :: u8
  assumes "x < 0x40" and b: "b = (let y = (if p then x OR 0x80 else x) in if r then y OR 0x40 else y)"
  shows "(b AND 0x80 = 0x80) = p" "(b AND 0x40 = 0x40) = r" "b AND 0x3F = x"
proof -
  have h: "\<not> bit x 6" "\<not> bit x 7" using less_two_power_bit [of x 6 6] less_two_power_bit [of x 6 7] assms(1) by simp_all
  show "(b AND 0x80 = 0x80) = p" "(b AND 0x40 = 0x40) = r" "b AND 0x3F = x"
    using h unfolding mask_test b by (auto simp: Let_def bit_simps intro!: u8_eqI)
qed

lemma service_byte:
  fixes x :: u8
  assumes "x < 4"
    and b: "b = (if em then 0x80 else 0) + (if en then 0x40 else 0) + (if br then 0x08 else 0) + (if ov then 0x04 else 0) + (x AND 0x03)"
  shows "(b AND 0x80 = 0x80) = em" "(b AND 0x40 = 0x40) = en" "(b AND 0x08 = 0x08) = br" "(b AND 0x04 = 0x04) = ov"
    "b AND 0x03 = x"
proof -
  have "unat x < 4" using assms(1) by (simp add: word_less_nat_alt)
  then have "unat x = 0 \<or> unat x = 1 \<or> unat x = 2 \<or> unat x = 3" by linarith
  then have "x = 0 \<or> x = 1 \<or> x = 2 \<or> x = 3"
    by (elim disjE) (simp_all add: word_unat_eq_iff)
  then show "(b AND 0x80 = 0x80) = em" "(b AND 0x40 = 0x40) = en" "(b AND 0x08 = 0x08) = br" "(b AND 0x04 = 0x04) = ov"
    "b AND 0x03 = x"
    unfolding b by (elim disjE; cases em; cases en; cases br; cases ov; simp)+
qed


lemma lc_of_getData:
  assumes "lc_ok l" "length data = 12" "data' = lc_getData l data" "take 9 lcData = take 9 data'" "9 \<le> length lcData"
  shows "lc_of_bytes lcData = l"
proof -
  let ?b0 = "let y = (if lc_PF l then lc_FLCO l OR 0x80 else lc_FLCO l) in if lc_R l then y OR 0x40 else y"
  let ?b2 = "(if lc_emergency l then 0x80 else 0) + (if lc_encrypted l then 0x40 else 0) +
    (if lc_broadcast l then 0x08 else 0) + (if lc_ovcm l then 0x04 else 0) + (lc_priority l AND 0x03)"
  note ok = assms(1) [unfolded lc_ok_def]
  have m: "lcData ! i = data' ! i" if "i < 9" for i
    using arg_cong [OF assms(4), of "\<lambda>l. l ! i"] that by simp
  have b: "lcData ! 0 = ?b0" "lcData ! Suc 0 = lc_FID l" "lcData ! 2 = ?b2"
    "lcData ! 3 = ucast (drop_bit 16 (lc_dstId l))" "lcData ! 4 = ucast (drop_bit 8 (lc_dstId l))" "lcData ! 5 = ucast (lc_dstId l)"
    "lcData ! 6 = ucast (drop_bit 16 (lc_srcId l))" "lcData ! 7 = ucast (drop_bit 8 (lc_srcId l))" "lcData ! 8 = ucast (lc_srcId l)"
    unfolding m [of 0, simplified] m [of 1, simplified] m [of 2, simplified] m [of 3, simplified] m [of 4, simplified]
      m [of 5, simplified] m [of 6, simplified] m [of 7, simplified] m [of 8, simplified]
    using assms(2) by (simp_all add: assms(3) lc_getData_def Let_def)
  have f: "(lcData ! 0 AND 0x80 = 0x80) = lc_PF l" "(lcData ! 0 AND 0x40 = 0x40) = lc_R l" "lcData ! 0 AND 0x3F = lc_FLCO l"
    using flco_byte [of "lc_FLCO l" "lcData ! 0" "lc_PF l" "lc_R l"] ok b(1) by simp_all
  have s: "(lcData ! 2 AND 0x80 = 0x80) = lc_emergency l" "(lcData ! 2 AND 0x40 = 0x40) = lc_encrypted l"
    "(lcData ! 2 AND 0x08 = 0x08) = lc_broadcast l" "(lcData ! 2 AND 0x04 = 0x04) = lc_ovcm l" "lcData ! 2 AND 0x03 = lc_priority l"
    using service_byte [OF _ b(3)] ok by simp_all
  have w: "word24 (lcData ! 6) (lcData ! 7) (lcData ! 8) = lc_srcId l" "word24 (lcData ! 3) (lcData ! 4) (lcData ! 5) = lc_dstId l"
    unfolding b using ok word24_bytes by blast+
  show ?thesis
    unfolding lc_of_bytes_def f s w One_nat_def b(2) by simp
qed

lemma length_lc_getData [simp]: "length (lc_getData l data) = length data"
  by (simp add: lc_getData_def Let_def)

lemma length_privacy_getData [simp]: "length (privacy_getData l data) = length data"
  by (simp add: privacy_getData_def Let_def)

lemma privacy_byte:
  fixes x :: u8
  assumes "x < 8" "b = (if g then 0x20 else 0x00) + (x AND 0x07)"
  shows "(b AND 0x20 = 0x20) = g" "b AND 7 = x"
proof -
  have h: "\<not> bit x k" if "3 \<le> k" for k using less_two_power_bit [of x 3 k] assms(1) that by simp
  have "(if g then 0x20 else 0x00) AND (x AND 0x07) = 0" by (cases g) (auto intro!: u8_eqI simp: bit_simps)
  then have b: "b = (if g then 0x20 else 0x00) OR (x AND 0x07)" unfolding assms(2) by (rule disjunctive_add_eq_or)
  show "(b AND 0x20 = 0x20) = g" "b AND 7 = x"
    using h [of 3] h [of 4] h [of 5] h [of 6] h [of 7] unfolding mask_test b
    by (cases g; auto simp: bit_simps intro!: u8_eqI)+
qed

lemma privacy_of_getData:
  assumes "privacy_ok l" "length data = 12" "data' = privacy_getData l data" "take 10 lcData = take 10 data'" "10 \<le> length lcData"
  shows "privacy_of_bytes lcData = l"
proof -
  note ok = assms(1) [unfolded privacy_ok_def]
  have m: "lcData ! i = data' ! i" if "i < 10" for i
    using arg_cong [OF assms(4), of "\<lambda>l. l ! i"] that by simp
  have b: "lcData ! 0 = (if pi_group l then 0x20 else 0x00) + (pi_algId l AND 0x07)" "lcData ! Suc 0 = pi_FID l" "lcData ! 2 = ucast (pi_kId l)"
    "lcData ! 3 = pi_mi l ! 0" "lcData ! 4 = pi_mi l ! 1" "lcData ! 5 = pi_mi l ! 2" "lcData ! 6 = pi_mi l ! 3"
    "lcData ! 7 = ucast (drop_bit 16 (pi_dstId l))" "lcData ! 8 = ucast (drop_bit 8 (pi_dstId l))" "lcData ! 9 = ucast (pi_dstId l)"
    unfolding m [of 0, simplified] m [of 1, simplified] m [of 2, simplified] m [of 3, simplified] m [of 4, simplified]
      m [of 5, simplified] m [of 6, simplified] m [of 7, simplified] m [of 8, simplified] m [of 9, simplified]
    using assms(2) by (simp_all add: assms(3) privacy_getData_def Let_def)
  have p: "(lcData ! 0 AND 0x20 = 0x20) = pi_group l" "lcData ! 0 AND 7 = pi_algId l"
    using privacy_byte [OF _ b(1)] ok by simp_all
  have k: "(ucast (ucast (pi_kId l) :: u8) :: u32) = pi_kId l"
  proof (rule bit_word_eqI)
    fix n show "bit (ucast (ucast (pi_kId l) :: u8) :: u32) n = bit (pi_kId l) n" if "n < LENGTH(32)"
      using less_two_power_bit [of "pi_kId l" 8 n] ok that by (cases "n < 8") (auto simp: bit_simps)
  qed
  have mi: "[pi_mi l ! 0, pi_mi l ! 1, pi_mi l ! 2, pi_mi l ! 3] = pi_mi l"
    using ok by (intro nth_equalityI) (auto simp: less_Suc_eq numeral_eq_Suc)
  have w: "word24 (lcData ! 7) (lcData ! 8) (lcData ! 9) = pi_dstId l"
    unfolding b using ok word24_bytes by blast
  show ?thesis
    unfolding privacy_of_bytes_def p w One_nat_def b(2-7) k using mi by simp
qed


section \<open>Round trips\<close>

lemma bptc_bytes_encode:
  assumes "length data = 12" "length burst = 33"
  shows "bptc_bytes (bptc_encode data burst) = data"
  using bptc_decode_encode [OF assms, of "replicate 196 False" "replicate 12 0"]
  by (simp add: bptc_bytes_def DMR_LC_HEADER_LENGTH_BYTES_def)

lemma xor_masked [simp]: "((x :: u8) XOR k) XOR k = x"
  by (simp add: xor.assoc)

lemma rs129_encode_check:
  assumes "length data = 9"
  shows "rs129_check (data @ [rs129_encode data 9 ! 2, rs129_encode data 9 ! 1, rs129_encode data 9 ! 0])"
  using assms by (simp add: rs129_check_def rs129_encode_def NPAR_def Let_def nth_append)

text \<open>The twelve bytes of a header: fields and parity; the parity goes out under a mask.\<close>

definition lc_plain :: "lc \<Rightarrow> bytes" where
  "lc_plain l =
     (let lcData = lc_getData l (replicate 12 0); parity = rs129_encode lcData 9
      in lcData[9 := parity ! 2, 10 := parity ! 1, 11 := parity ! 0])"

lemma length_lc_plain [simp]: "length (lc_plain l) = 12"
  by (simp add: lc_plain_def Let_def)

lemma lc_plain_check: "rs129_check (lc_plain l)"
proof -
  let ?d = "lc_getData l (replicate 12 0)"
  have e: "rs129_encode ?d 9 = rs129_encode (take 9 ?d) 9" by (simp add: rs129_encode_def)
  have "lc_plain l = take 9 ?d @ [rs129_encode ?d 9 ! 2, rs129_encode ?d 9 ! 1, rs129_encode ?d 9 ! 0]"
    unfolding lc_plain_def Let_def
    by (rule nth_equalityI) (auto simp: nth_append nth_list_update less_Suc_eq numeral_eq_Suc)
  then show ?thesis using rs129_encode_check [of "take 9 ?d"] unfolding e by simp
qed

lemma lc_plain_fields: "lc_ok l \<Longrightarrow> lc_of_bytes (lc_plain l) = l"
  by (rule lc_of_getData [of l "replicate 12 0"]) (simp_all add: lc_plain_def Let_def)

lemma length_mask_parity [simp]: "length (mask_parity m d) = length d"
  by (simp add: mask_parity_def)

lemma mask_parity_twice [simp]: "length d = 12 \<Longrightarrow> mask_parity m (mask_parity m d) = d"
  by (rule nth_equalityI) (auto simp: mask_parity_def nth_list_update)

lemma lc_mask_known: "type \<in> {DT_VOICE_LC_HEADER, DT_TERMINATOR_WITH_LC} \<Longrightarrow> \<exists>m. lc_mask type = Some m"
  by (cases "type = DT_VOICE_LC_HEADER") (simp_all add: lc_mask_def)

lemma lc_mask_iff:
  "lc_mask type = Some m \<longleftrightarrow>
     type = DT_VOICE_LC_HEADER \<and> m = [0x96, 0x96, 0x96] \<or> type = DT_TERMINATOR_WITH_LC \<and> m = [0x99, 0x99, 0x99]"
  by (auto simp: lc_mask_def VOICE_LC_HEADER_CRC_MASK_def TERMINATOR_WITH_LC_CRC_MASK_def DT_VOICE_LC_HEADER_def DT_TERMINATOR_WITH_LC_def)

lemma lc_masks_differ: "lc_mask type = Some m \<Longrightarrow> lc_mask type' = Some m' \<Longrightarrow> type' \<noteq> type \<Longrightarrow> m ! 0 \<noteq> m' ! 0"
  unfolding lc_mask_iff by (elim disjE conjE) simp_all

lemma mask_parity_of:
  "length d = 12 \<Longrightarrow> mask_parity m (d[9 := a, 10 := b, 11 := c]) = d[9 := a XOR m ! 0, 10 := b XOR m ! 1, 11 := c XOR m ! 2]"
  by (rule nth_equalityI) (auto simp: mask_parity_def nth_list_update)

lemma fulllc_encode_block: "lc_mask type = Some m \<Longrightarrow> fulllc_encode l data type = bptc_encode (mask_parity m (lc_plain l)) data"
  by (simp add: fulllc_encode_def lc_plain_def mask_parity_of DMR_LC_HEADER_LENGTH_BYTES_def Let_def)

lemma fulllc_decode_block:
  assumes "lc_mask type = Some m" "bptc_bytes data = mask_parity m (lc_plain l)" "lc_ok l"
  shows "fulllc_decode data type = Some l"
  using assms by (simp add: fulllc_decode_def lc_plain_check lc_plain_fields)

lemma bptc_bytes_corrects:
  assumes "length block = 12" "length burst = 33"
    and "light_errors (matrix_of (bptc_encode block burst) (replicate 196 False)) (matrix_of received (replicate 196 False))"
  shows "bptc_bytes received = block"
  using bptc_decode_corrects [OF assms(1,2) _ _ assms(3), of "replicate 12 0"]
  by (simp add: bptc_bytes_def DMR_LC_HEADER_LENGTH_BYTES_def)

lemma fulllc_corrects:
  assumes "lc_ok l" "type \<in> {DT_VOICE_LC_HEADER, DT_TERMINATOR_WITH_LC}" "length burst = 33"
    and "light_errors (matrix_of (fulllc_encode l burst type) (replicate 196 False)) (matrix_of received (replicate 196 False))"
  shows "fulllc_decode received type = Some l"
proof -
  obtain m where m: "lc_mask type = Some m" using lc_mask_known [OF assms(2)] ..
  show ?thesis
    using fulllc_decode_block [OF m bptc_bytes_corrects assms(1)] assms(3,4)
    by (simp add: fulllc_encode_block [OF m])
qed

lemma fulllc_decode_encode:
  assumes "lc_ok l" "type \<in> {DT_VOICE_LC_HEADER, DT_TERMINATOR_WITH_LC}" "length burst = 33"
  shows "fulllc_decode (fulllc_encode l burst type) type = Some l"
proof -
  obtain m where m: "lc_mask type = Some m" using lc_mask_known [OF assms(2)] ..
  show ?thesis
    using fulllc_decode_block [OF m bptc_bytes_encode assms(1)] assms(3)
    by (simp add: fulllc_encode_block [OF m])
qed

text \<open>A header read as the other kind is refused: the masks differ.\<close>

lemma rs129_data_fixes_parity:
  assumes "length inp = 12" "length inp' = 12" "rs129_check inp" "rs129_check inp'" "take 9 inp = take 9 inp'"
  shows "inp = inp'"
proof -
  have s: "xs = take 9 xs @ [xs ! 9, xs ! 10, xs ! 11] @ []" if "length xs = 12" for xs :: bytes
    using that by (intro nth_equalityI) (auto simp: nth_append less_Suc_eq numeral_eq_Suc)
  have "rs129_check (take 9 inp @ [inp ! 9, inp ! 10, inp ! 11] @ [])"
    using assms(3) s [OF assms(1)] by simp
  moreover have "rs129_check (take 9 inp @ [inp' ! 9, inp' ! 10, inp' ! 11] @ [])"
    unfolding assms(5) using assms(4) s [OF assms(2)] by simp
  ultimately have "inp ! 9 = inp' ! 9 \<and> inp ! 10 = inp' ! 10 \<and> inp ! 11 = inp' ! 11"
    using rs129_burst [of "take 9 inp" "[]"] assms(1) by simp
  then show ?thesis using s [OF assms(1)] s [OF assms(2)] assms(5) by metis
qed

lemma wrong_mask_refused:
  assumes "length u = 12" "rs129_check u" "m ! 0 \<noteq> m' ! 0"
  shows "\<not> rs129_check (mask_parity m' (mask_parity m u))"
proof
  assume v: "rs129_check (mask_parity m' (mask_parity m u))"
  have t: "take 9 u = take 9 (mask_parity m' (mask_parity m u))" by (simp add: mask_parity_def)
  have "u = mask_parity m' (mask_parity m u)" by (rule rs129_data_fixes_parity [OF assms(1) _ assms(2) v t]) (simp add: assms(1))
  then have "u ! 9 = mask_parity m' (mask_parity m u) ! 9" by (rule arg_cong)
  then have e: "u ! 9 = (u ! 9 XOR m ! 0) XOR m' ! 0" using assms(1) by (simp add: mask_parity_def)
  have "(u ! 9 XOR m ! 0) XOR m' ! 0 = (u ! 9 XOR m' ! 0) XOR m ! 0" by (simp add: ac_simps)
  then have "u ! 9 XOR m ! 0 = u ! 9 XOR m' ! 0" using e by (metis xor_masked)
  then show False using assms(3) xor_cancel [of "m ! 0" "u ! 9" "m' ! 0"] by (simp add: xor.commute)
qed

lemma fulllc_wrong_type:
  assumes "type \<in> {DT_VOICE_LC_HEADER, DT_TERMINATOR_WITH_LC}" "length burst = 33" "type' \<noteq> type"
    and "light_errors (matrix_of (fulllc_encode l burst type) (replicate 196 False)) (matrix_of received (replicate 196 False))"
  shows "fulllc_decode received type' = None"
proof (cases "lc_mask type'")
  case None
  then show ?thesis by (simp add: fulllc_decode_def)
next
  case (Some m')
  obtain m where m: "lc_mask type = Some m" using lc_mask_known [OF assms(1)] ..
  have "bptc_bytes received = mask_parity m (lc_plain l)"
    using assms(2,4) unfolding fulllc_encode_block [OF m] by (intro bptc_bytes_corrects) simp_all
  then show ?thesis
    using wrong_mask_refused [OF length_lc_plain lc_plain_check lc_masks_differ [OF m Some assms(3)]]
    by (simp add: fulllc_decode_def Some)
qed

lemma unmask_pi_twice [simp]: "length d = 12 \<Longrightarrow> unmask_pi (unmask_pi d) = d"
  by (rule nth_equalityI) (auto simp: unmask_pi_def nth_list_update)

lemma unmask_pi_facts [simp]: "length (unmask_pi d) = length d" "take 10 (unmask_pi d) = take 10 d"
  by (simp_all add: unmask_pi_def)

lemma fulllc_decodePI_encodePI:
  assumes "privacy_ok l" "length burst = 33"
  shows "fulllc_decodePI (fulllc_encodePI l burst) = Some l"
proof -
  let ?d = "unmask_pi (privacy_getData l (replicate 12 0))"
  let ?c = "addCCITT162 ?d 12"
  have c: "checkCCITT162 ?c 12" "length ?c = 12" "take 10 ?c = take 10 ?d"
    using ccitt162.add_check [of 12 ?d] by simp_all
  have l: "length (unmask_pi ?c) = 12" using c(2) by simp
  have "privacy_of_bytes (unmask_pi ?c) = l"
    by (rule privacy_of_getData [OF assms(1) _ refl]) (simp_all add: c)
  then show ?thesis
    using c unfolding fulllc_decodePI_def fulllc_encodePI_def DMR_LC_HEADER_LENGTH_BYTES_def Let_def
    by (simp add: bptc_bytes_encode [OF l assms(2)])
qed


lemma fulllc_matrix:
  assumes "type \<in> {DT_VOICE_LC_HEADER, DT_TERMINATOR_WITH_LC}" "length burst = 33"
  shows "length (matrix_of (fulllc_encode l burst type) (replicate 196 b)) = 196"
proof -
  obtain m where m: "lc_mask type = Some m" using lc_mask_known [OF assms(1)] ..
  show ?thesis
    unfolding fulllc_encode_block [OF m]
    by (subst matrix_of_encode) (use assms(2) encodeErrorCheck_codeword in \<open>simp_all add: codeword_def\<close>)
qed

text \<open>
  C9. A header or terminator received through one wrong bit in every column of the product code is read
  as it was sent, and the same received burst, errors and all, is never taken for a header of the other kind.
\<close>

theorem link_control_survives:
  assumes "lc_ok l" "type \<in> {DT_VOICE_LC_HEADER, DT_TERMINATOR_WITH_LC}" "length burst = 33"
    and "light_errors (matrix_of (fulllc_encode l burst type) (replicate 196 False)) (matrix_of received (replicate 196 False))"
  shows "fulllc_decode received type = Some l \<and> (\<forall>type'. type' \<noteq> type \<longrightarrow> fulllc_decode received type' = None)"
  using fulllc_corrects [OF assms] fulllc_wrong_type [OF assms(2,3) _ assms(4)] by blast

theorem link_control_survives_witness:
  "let sent = fulllc_encode (new_lc 3 1234567 91) (replicate 33 0) DT_VOICE_LC_HEADER;
       received = encodeExtractBinary (encodeInterleave (two_flips (matrix_of sent (replicate 196 False)))) (replicate 33 0)
   in matrix_of received (replicate 196 False) \<noteq> matrix_of sent (replicate 196 False) \<and>
      fulllc_decode received DT_VOICE_LC_HEADER = Some (new_lc 3 1234567 91) \<and> fulllc_decode received DT_TERMINATOR_WITH_LC = None"
proof -
  let ?l = "new_lc 3 1234567 91"
  let ?sent = "fulllc_encode ?l (replicate 33 0) DT_VOICE_LC_HEADER"
  let ?d = "matrix_of ?sent (replicate 196 False)"
  have "lc_ok ?l" by (simp add: lc_ok_def new_lc_def CALL_PRIORITY_2_def)
  moreover have t: "DT_VOICE_LC_HEADER \<in> {DT_VOICE_LC_HEADER, DT_TERMINATOR_WITH_LC}" by simp
  moreover have "DT_TERMINATOR_WITH_LC \<noteq> DT_VOICE_LC_HEADER" by (simp add: DT_VOICE_LC_HEADER_def DT_TERMINATOR_WITH_LC_def)
  ultimately show ?thesis
    using two_flips_light [OF fulllc_matrix [OF t, of "replicate 33 0" ?l False]]
      link_control_survives [of ?l DT_VOICE_LC_HEADER "replicate 33 0" "encodeExtractBinary (encodeInterleave (two_flips ?d)) (replicate 33 0)"]
    by (simp add: Let_def)
qed

text \<open>
  A privacy header sent over the air is read back as it was.
\<close>

theorem privacy_header_roundtrip:
  assumes "privacy_ok l" "length burst = 33"
  shows "fulllc_decodePI (fulllc_encodePI l burst) = Some l"
  by (rule fulllc_decodePI_encodePI [OF assms])

theorem privacy_header_roundtrip_witness:
  "fulllc_decodePI (fulllc_encodePI (new_privacy_lc [1, 2, 3, 4]) (replicate 33 0)) = Some (new_privacy_lc [1, 2, 3, 4])"
  by (rule privacy_header_roundtrip) (simp_all add: privacy_ok_def new_privacy_lc_def)

end
