(* ===== verification/NetMessages.thy ===== *)
theory NetMessages
  imports BaseNetwork
begin

text \<open>
  The P25 and NXDN messages of \<^verbatim>\<open>src/src/common/network/BaseNetwork.cpp\<close>: the message header,
  terminators, trunking and packet data, and the functions that write them to the master.  The
  messages that carry voice (LDU1 and LDU2) re-code audio and are not modelled.  \<open>None\<close> is a
  copy past the end of a buffer.
\<close>

section \<open>What the messages are made from\<close>

definition LC_GROUP :: u8 where "LC_GROUP = 0x00"
definition LC_PRIVATE :: u8 where "LC_PRIVATE = 0x03"
definition P25_MFG_STANDARD :: u8 where "P25_MFG_STANDARD = 0x00"
definition P25_ALGO_UNENCRYPT :: u8 where "P25_ALGO_UNENCRYPT = 0x80"
definition P25_MI_LENGTH_BYTES :: nat where "P25_MI_LENGTH_BYTES = 9"
definition P25_TSDU_FRAME_LENGTH_BYTES :: nat where "P25_TSDU_FRAME_LENGTH_BYTES = 45"
definition P25_TSDU_PACKET_LENGTH :: nat where "P25_TSDU_PACKET_LENGTH = 69"
definition P25_FT_DATA_UNIT :: u8 where "P25_FT_DATA_UNIT = 0x00"
definition P25_FT_HDU_VALID :: u8 where "P25_FT_HDU_VALID = 0x01"
definition P25_FT_TERMINATOR :: u8 where "P25_FT_TERMINATOR = 0x03"
definition PDU_FMT_CONFIRMED :: u8 where "PDU_FMT_CONFIRMED = 0x16"
definition P25_DUID_TDU :: u8 where "P25_DUID_TDU = 0x03"
definition P25_DUID_LDU1 :: u8 where "P25_DUID_LDU1 = 0x05"
definition P25_DUID_TSDU :: u8 where "P25_DUID_TSDU = 0x07"
definition P25_DUID_LDU2 :: u8 where "P25_DUID_LDU2 = 0x0A"
definition P25_DUID_PDU :: u8 where "P25_DUID_PDU = 0x0C"
definition P25_DUID_TDULC :: u8 where "P25_DUID_TDULC = 0x0F"
definition RTCH_MESSAGE_TYPE_VCALL :: u8 where "RTCH_MESSAGE_TYPE_VCALL = 0x01"
definition RTCH_MESSAGE_TYPE_TX_REL_EX :: u8 where "RTCH_MESSAGE_TYPE_TX_REL_EX = 0x07"
definition RTCH_MESSAGE_TYPE_TX_REL :: u8 where "RTCH_MESSAGE_TYPE_TX_REL = 0x08"
definition RTCH_MESSAGE_TYPE_DCALL_HDR :: u8 where "RTCH_MESSAGE_TYPE_DCALL_HDR = 0x09"
definition RTCH_MESSAGE_TYPE_DCALL_DATA :: u8 where "RTCH_MESSAGE_TYPE_DCALL_DATA = 0x0B"

text \<open>The fields of the link control, the low speed data, the data header and the NXDN call the messages use.\<close>

record p25_lc =
  pl_lco :: u8
  pl_mfId :: u8
  pl_srcId :: u32
  pl_dstId :: u32
  pl_algId :: u8
  pl_kId :: u32
  pl_mi :: bytes

definition new_p25_lc :: p25_lc where
  "new_p25_lc = \<lparr>pl_lco = LC_GROUP, pl_mfId = P25_MFG_STANDARD, pl_srcId = 0, pl_dstId = 0,
     pl_algId = P25_ALGO_UNENCRYPT, pl_kId = 0, pl_mi = replicate P25_MI_LENGTH_BYTES 0\<rparr>"

record p25_site =
  site_sysId :: u32
  site_netId :: u32

record low_speed_data =
  lsd1 :: u8
  lsd2 :: u8

definition new_lsd :: low_speed_data where
  "new_lsd = \<lparr>lsd1 = 0x00, lsd2 = 0x00\<rparr>"

record pdu_header =
  ph_sap :: u8
  ph_fmt :: u8
  ph_mfId :: u8
  ph_blocksToFollow :: u8

record rtch =
  rt_messageType :: u8
  rt_srcId :: u16
  rt_dstId :: u16
  rt_group :: bool

section \<open>The messages\<close>

definition createP25_MessageHdr ::
  "p25_site \<Rightarrow> bytes \<Rightarrow> u8 \<Rightarrow> p25_lc \<Rightarrow> low_speed_data \<Rightarrow> u8 \<Rightarrow> bytes" where
  "createP25_MessageHdr site buffer duid control lsd frameType =
     (let buffer = memcpy_at buffer 0 [0x50, 0x32, 0x35, 0x44];
          buffer = buffer[4 := pl_lco control];
          buffer = SET_UINT16 (pl_srcId control) buffer 5;
          buffer = SET_UINT16 (pl_dstId control) buffer 8;
          buffer = SET_UINT16B (ucast (site_sysId site)) buffer 11;
          buffer = buffer[14 := 0, 15 := pl_mfId control];
          buffer = SET_UINT16 (site_netId site) buffer 16;
          buffer = buffer[20 := lsd1 lsd, 21 := lsd2 lsd, 22 := duid];
          buffer = (if frameType \<noteq> P25_FT_TERMINATOR then buffer[180 := frameType] else buffer)
      in if frameType = P25_FT_HDU_VALID
         then let buffer = buffer[181 := pl_algId control];
                  buffer = SET_UINT16B (ucast (pl_kId control)) buffer 182
              in memcpy_at buffer 184 (take P25_MI_LENGTH_BYTES (pl_mi control))
         else buffer)"

definition createP25_TDUMessage :: "p25_site \<Rightarrow> p25_lc \<Rightarrow> low_speed_data \<Rightarrow> u8 \<Rightarrow> bytes" where
  "createP25_TDUMessage site control lsd controlByte =
     (let buffer = replicate (MSG_HDR_SIZE + PACKET_PAD) 0;
          buffer = createP25_MessageHdr site buffer P25_DUID_TDU control lsd P25_FT_TERMINATOR
      in buffer[14 := controlByte, 23 := of_nat MSG_HDR_SIZE])"

definition createP25_TSDUMessage :: "p25_site \<Rightarrow> p25_lc \<Rightarrow> bytes \<Rightarrow> bytes" where
  "createP25_TSDUMessage site control data =
     (let buffer = replicate (P25_TSDU_PACKET_LENGTH + PACKET_PAD) 0;
          buffer = createP25_MessageHdr site buffer P25_DUID_TSDU control new_lsd P25_FT_TERMINATOR;
          buffer = memcpy_at buffer 24 (take P25_TSDU_FRAME_LENGTH_BYTES data)
      in buffer[23 := of_nat (MSG_HDR_SIZE + P25_TSDU_FRAME_LENGTH_BYTES)])"

definition createP25_PDUMessage :: "pdu_header \<Rightarrow> u8 \<Rightarrow> bytes \<Rightarrow> bytes option" where
  "createP25_PDUMessage header currentBlock data =
     (if MSG_HDR_SIZE + length data + PACKET_PAD > DATA_PACKET_LENGTH then None
      else let buffer = replicate DATA_PACKET_LENGTH 0;
               buffer = memcpy_at buffer 0 [0x50, 0x32, 0x35, 0x44];
               buffer = buffer[4 := ph_sap header];
               buffer = (if ph_fmt header = PDU_FMT_CONFIRMED then buffer[4 := buffer ! 4 OR 0x80] else buffer);
               buffer = SET_UINT16 (of_nat (length data)) buffer 8;
               buffer = buffer[15 := ph_mfId header, 20 := ph_blocksToFollow header, 21 := currentBlock,
                               22 := P25_DUID_PDU];
               buffer = memcpy_at buffer 24 data;
               count = MSG_HDR_SIZE + length data;
               buffer = buffer[23 := of_nat count]
           in Some (take (count + PACKET_PAD) buffer))"

definition createNXDN_Message :: "rtch \<Rightarrow> bytes \<Rightarrow> bytes option" where
  "createNXDN_Message l data =
     (if MSG_HDR_SIZE + length data + PACKET_PAD > DATA_PACKET_LENGTH then None
      else let buffer = replicate DATA_PACKET_LENGTH 0;
               buffer = memcpy_at buffer 0 [0x4E, 0x58, 0x44, 0x44];
               buffer = buffer[4 := rt_messageType l];
               buffer = SET_UINT16 (ucast (rt_srcId l)) buffer 5;
               buffer = SET_UINT16 (ucast (rt_dstId l)) buffer 8;
               buffer = buffer[14 := 0];
               buffer = buffer[15 := buffer ! 15 OR (if rt_group l then 0x00 else 0x40)];
               buffer = memcpy_at buffer 24 data;
               count = MSG_HDR_SIZE + length data;
               buffer = buffer[23 := of_nat count]
           in Some (take (count + PACKET_PAD) buffer))"

section \<open>Writing them\<close>

text \<open>A call without a stream ID draws one and starts counting from 0.\<close>

definition p25_stream :: "'e net_env_scheme \<Rightarrow> 'a base_net_scheme \<Rightarrow> bool \<times> 'a base_net_scheme" where
  "p25_stream e s =
     (if m_p25StreamId s = 0
      then let (newId, s) = createStreamId e s in (True, s\<lparr>m_p25StreamId := newId\<rparr>)
      else (False, s))"

definition nxdn_stream :: "'e net_env_scheme \<Rightarrow> 'a base_net_scheme \<Rightarrow> bool \<times> 'a base_net_scheme" where
  "nxdn_stream e s =
     (if m_nxdnStreamId s = 0
      then let (newId, s) = createStreamId e s in (True, s\<lparr>m_nxdnStreamId := newId\<rparr>)
      else (False, s))"

definition writeP25TDU ::
  "'e net_env_scheme \<Rightarrow> p25_site \<Rightarrow> p25_lc \<Rightarrow> low_speed_data \<Rightarrow> u8 \<Rightarrow> 'a base_net_scheme \<Rightarrow> bool \<times> 'a base_net_scheme" where
  "writeP25TDU e site control lsd controlByte s =
     (if \<not> net_running s then (False, s)
      else let (resetSeq, s) = p25_stream e s;
               message = createP25_TDUMessage site control lsd controlByte;
               (seq, s) = pktSeq resetSeq s;
               seq = (if controlByte = 0x00 then RTP_END_OF_CALL_SEQ else seq)
           in writeMaster e (NET_FUNC_PROTOCOL, NET_PROTOCOL_SUBFUNC_P25) message seq (m_p25StreamId s) False s)"

definition writeP25TSDU ::
  "'e net_env_scheme \<Rightarrow> p25_site \<Rightarrow> p25_lc \<Rightarrow> bytes \<Rightarrow> 'a base_net_scheme \<Rightarrow> bool \<times> 'a base_net_scheme" where
  "writeP25TSDU e site control data s =
     (if \<not> net_running s then (False, s)
      else let (resetSeq, s) = p25_stream e s;
               message = createP25_TSDUMessage site control data
           in writeMaster e (NET_FUNC_PROTOCOL, NET_PROTOCOL_SUBFUNC_P25) message RTP_END_OF_CALL_SEQ
                (m_p25StreamId s) False s)"

definition writeP25PDU ::
  "'e net_env_scheme \<Rightarrow> pdu_header \<Rightarrow> u8 \<Rightarrow> bytes \<Rightarrow> bool \<Rightarrow> 'a base_net_scheme \<Rightarrow> (bool \<times> 'a base_net_scheme) option" where
  "writeP25PDU e header currentBlock data lastBlock s =
     (if \<not> net_running s then Some (False, s)
      else let (resetSeq, s) = p25_stream e s
           in case createP25_PDUMessage header currentBlock data of
                None \<Rightarrow> None
              | Some message \<Rightarrow>
                  let (seq, s) = pktSeq resetSeq s;
                      seq = (if lastBlock then RTP_END_OF_CALL_SEQ else seq)
                  in Some (writeMaster e (NET_FUNC_PROTOCOL, NET_PROTOCOL_SUBFUNC_P25) message seq (m_p25StreamId s) False s))"

definition writeNXDN ::
  "'e net_env_scheme \<Rightarrow> rtch \<Rightarrow> bytes \<Rightarrow> bool \<Rightarrow> 'a base_net_scheme \<Rightarrow> (bool \<times> 'a base_net_scheme) option" where
  "writeNXDN e l data noSequence s =
     (if \<not> net_running s then Some (False, s)
      else let (resetSeq, s) = nxdn_stream e s
           in case createNXDN_Message l data of
                None \<Rightarrow> None
              | Some message \<Rightarrow>
                  let (seq, s) = pktSeq resetSeq s;
                      seq = (if rt_messageType l = RTCH_MESSAGE_TYPE_TX_REL \<or> rt_messageType l = RTCH_MESSAGE_TYPE_TX_REL_EX
                             then RTP_END_OF_CALL_SEQ else seq);
                      seq = (if noSequence then RTP_END_OF_CALL_SEQ else seq)
                  in Some (writeMaster e (NET_FUNC_PROTOCOL, NET_PROTOCOL_SUBFUNC_NXDN) message seq (m_nxdnStreamId s) False s))"

end
