(* ===== verification/FNETraffic.thy ===== *)
theory FNETraffic
  imports FNELogin NetMessages LinkControl "HOL-Library.AList"
begin

text \<open>
  What the three traffic handlers of the FNE share (\<^verbatim>\<open>src/src/fne/network/fne/Tag*Data.cpp\<close>):
  their state, and the two things each of them does with a frame, stated as contracts
  that the handlers' own theories interpret: repeating it to the peers, and playing recorded frames
  back.  What a datagram carries is read with the receiver of the theory \<open>RTP\<close>.
\<close>

section \<open>State\<close>

text \<open>
  The start time of a call is used for a log message only and is left out.  A map of the code
  is an association list here, searched in the order of its walk.
\<close>

record rx_status =
  rx_srcId :: u32
  rx_dstId :: u32
  rx_streamId :: u32

record dmr_rx_status = rx_status +
  rx_slotNo :: u8

record dmr_tag =
  dt_parrotFrames :: "(bytes \<times> u16 \<times> u32) list"
  dt_parrotFramesReady :: bool
  dt_status :: "(u32 \<times> dmr_rx_status) list"

record p25_tag =
  pt_parrotFrames :: "(bytes \<times> u16 \<times> u32 \<times> u32 \<times> u32) list"
  pt_parrotFramesReady :: bool
  pt_parrotFirstFrame :: bool
  pt_status :: "(u32 \<times> rx_status) list"

record nxdn_tag =
  nt_parrotFrames :: "(bytes \<times> u16 \<times> u32) list"
  nt_parrotFramesReady :: bool
  nt_status :: "(u32 \<times> rx_status) list"

text \<open>The handlers, and the upstream networks of the host.\<close>

record tags =
  t_dmr :: dmr_tag
  t_p25 :: p25_tag
  t_nxdn :: nxdn_tag
  t_upstream :: "base_net list"

text \<open>
  The environment also supplies what a fresh array holds, the environments of the upstream
  networks, the parrot option of the configuration, the site of the P25 messages and the trunking
  block with another destination, where the code can rebuild it.
\<close>

record tag_env = fne_env +
  env_mem :: bytes
  env_upstream :: "nat \<Rightarrow> net_env"
  env_parrotGrantDemand :: bool
  env_site :: p25_site
  env_tsdu :: "bytes \<Rightarrow> u32 \<Rightarrow> bytes option"

definition upd_dmr :: "(dmr_tag \<Rightarrow> dmr_tag) \<Rightarrow> tags fne \<Rightarrow> tags fne" where
  "upd_dmr f s = s\<lparr>m_tags := (m_tags s)\<lparr>t_dmr := f (t_dmr (m_tags s))\<rparr>\<rparr>"

definition upd_p25 :: "(p25_tag \<Rightarrow> p25_tag) \<Rightarrow> tags fne \<Rightarrow> tags fne" where
  "upd_p25 f s = s\<lparr>m_tags := (m_tags s)\<lparr>t_p25 := f (t_p25 (m_tags s))\<rparr>\<rparr>"

definition upd_nxdn :: "(nxdn_tag \<Rightarrow> nxdn_tag) \<Rightarrow> tags fne \<Rightarrow> tags fne" where
  "upd_nxdn f s = s\<lparr>m_tags := (m_tags s)\<lparr>t_nxdn := f (t_nxdn (m_tags s))\<rparr>\<rparr>"

abbreviation dmr_of :: "tags fne \<Rightarrow> dmr_tag" where "dmr_of s \<equiv> t_dmr (m_tags s)"
abbreviation p25_of :: "tags fne \<Rightarrow> p25_tag" where "p25_of s \<equiv> t_p25 (m_tags s)"
abbreviation nxdn_of :: "tags fne \<Rightarrow> nxdn_tag" where "nxdn_of s \<equiv> t_nxdn (m_tags s)"

text \<open>Whether radios are refused by the radio table, and the walk over the upstream networks.\<close>

definition rid_refused :: "rid_table \<Rightarrow> u32 \<Rightarrow> bool" where
  "rid_refused m i = (let rid = rid_find i m in \<not> m_radioDefault rid \<and> \<not> m_radioEnabled rid)"

definition tg_permits :: "tg_rule \<Rightarrow> u32 \<Rightarrow> bool" where
  "tg_permits tg peerId =
     (let inclusion = m_inclusion (m_config tg); exclusion = m_exclusion (m_config tg)
      in if length inclusion > 0 then peerId \<in> set inclusion
         else if length exclusion > 0 then peerId \<notin> set exclusion
         else True)"

fun each_upstream :: "(nat \<Rightarrow> base_net \<Rightarrow> base_net option) \<Rightarrow> nat \<Rightarrow> base_net list \<Rightarrow> base_net list option" where
  "each_upstream f i [] = Some []"
| "each_upstream f i (n # ns) =
     Option.bind (f i n) (\<lambda>n. Option.bind (each_upstream f (Suc i) ns) (\<lambda>ns. Some (n # ns)))"

section \<open>Calls without slots\<close>

text \<open>
  The P25 and NXDN handlers keep one call for each destination.  Reading a map by its index
  operator enters an empty status where there is none, so a terminator without a call leaves
  one behind.
\<close>

definition status_of :: "u32 \<Rightarrow> (u32 \<times> rx_status) list \<Rightarrow> (u32 \<times> rx_status) option" where
  "status_of dstId st = List.find (\<lambda>(k, x). rx_dstId x = dstId) st"

definition empty_status :: rx_status where
  "empty_status = \<lparr>rx_srcId = 0, rx_dstId = 0, rx_streamId = 0\<rparr>"

definition status_at :: "u32 \<Rightarrow> (u32 \<times> rx_status) list \<Rightarrow> rx_status \<times> (u32 \<times> rx_status) list" where
  "status_at k st = (case map_of st k of Some x \<Rightarrow> (x, st) | None \<Rightarrow> (empty_status, st @ [(k, empty_status)]))"

definition end_status :: "u32 \<Rightarrow> (u32 \<times> rx_status) list \<Rightarrow> (u32 \<times> rx_status) list" where
  "end_status dstId st =
     (let (status, st) = status_at dstId st
      in if status_of dstId st \<noteq> None then AList.delete dstId st else st)"

datatype call_start = Collision | Known_call | New_call

definition start_status ::
  "u32 \<Rightarrow> u32 \<Rightarrow> u32 \<Rightarrow> (u32 \<times> rx_status) list \<Rightarrow> call_start \<times> (u32 \<times> rx_status) list" where
  "start_status srcId dstId streamId st =
     (if status_of dstId st \<noteq> None
      then let (status, st) = status_at dstId st
           in if streamId \<noteq> rx_streamId status \<and> rx_srcId status \<noteq> 0 \<and> rx_srcId status \<noteq> srcId then (Collision, st)
              else (Known_call, st)
      else (New_call, AList.update dstId \<lparr>rx_srcId = srcId, rx_dstId = dstId, rx_streamId = streamId\<rparr> st))"

text \<open>A call in the table, as long as the destination is not the 0 of the empty status.\<close>

definition calls_ok :: "(u32 \<times> rx_status) list \<Rightarrow> bool" where
  "calls_ok st \<longleftrightarrow> distinct (map fst st) \<and> list_all (\<lambda>(k, x). rx_dstId x = k \<or> x = empty_status) st"

definition call_of :: "u32 \<Rightarrow> (u32 \<times> rx_status) list \<Rightarrow> rx_status option" where
  "call_of dst st = (case map_of st dst of Some x \<Rightarrow> if rx_dstId x = dst then Some x else None | None \<Rightarrow> None)"

lemma status_of_call:
  assumes "calls_ok st" "dst \<noteq> 0"
  shows "status_of dst st = map_option (Pair dst) (call_of dst st)"
  using assms(1)
proof (induction st)
  case Nil
  then show ?case by (simp add: status_of_def call_of_def)
next
  case (Cons a st)
  obtain k x where a: "a = (k, x)" by (cases a)
  have ok: "calls_ok st" "rx_dstId x = k \<or> x = empty_status" "k \<notin> fst ` set st" using Cons.prems by (auto simp: calls_ok_def a)
  have "map_of st k = None" using ok(3) by (simp add: map_of_eq_None_iff)
  then show ?case using Cons.IH [OF ok(1)] ok(2) assms(2) by (auto simp: status_of_def call_of_def a empty_status_def)
qed

lemma calls_ok_at: "calls_ok st \<Longrightarrow> calls_ok (snd (status_at k st))"
  by (auto simp: calls_ok_def status_at_def map_of_eq_None_iff split: option.split)

lemma calls_ok_update:
  assumes "calls_ok st" "rx_dstId x = k"
  shows "calls_ok (AList.update k x st)"
proof -
  have "list_all (\<lambda>(k, x). rx_dstId x = k \<or> x = empty_status) (AList.update k x st)"
    using assms by (induction st) (auto simp: calls_ok_def)
  then show ?thesis using assms(1) by (simp add: calls_ok_def distinct_update)
qed

lemma calls_ok_delete: "calls_ok st \<Longrightarrow> calls_ok (AList.delete k st)"
  by (auto simp: calls_ok_def list_all_iff AList.delete_eq distinct_map_filter)

lemma call_of_at: "dst \<noteq> 0 \<Longrightarrow> call_of dst (snd (status_at k st)) = call_of dst st"
  by (auto simp: call_of_def status_at_def empty_status_def map_of_append split: option.splits if_splits)

lemma calls_ok_end: "calls_ok st \<Longrightarrow> calls_ok (end_status dst st)"
  by (simp add: end_status_def case_prod_unfold Let_def calls_ok_at calls_ok_delete)

lemma call_of_end:
  assumes "calls_ok st" "dst \<noteq> 0"
  shows "call_of dst (end_status k st) = (if k = dst then None else call_of dst st)"
proof (cases "k = dst")
  case True
  have "status_of dst (snd (status_at dst st)) = map_option (Pair dst) (call_of dst st)"
    using status_of_call [OF calls_ok_at [OF assms(1)] assms(2)] call_of_at [OF assms(2)] by simp
  moreover have "call_of dst (AList.delete dst xs) = None" for xs by (simp add: call_of_def delete_conv')
  ultimately show ?thesis
    using call_of_at [OF assms(2), of dst st] True by (cases "call_of dst st") (simp_all add: end_status_def case_prod_unfold Let_def)
next
  case False
  have "call_of dst (AList.delete k xs) = call_of dst xs" for xs using False by (simp add: call_of_def delete_conv')
  then show ?thesis using call_of_at [OF assms(2), of k st] False by (simp add: end_status_def case_prod_unfold Let_def)
qed

lemma calls_ok_start: "calls_ok st \<Longrightarrow> calls_ok (snd (start_status src dst sid st))"
  by (simp add: start_status_def case_prod_unfold Let_def calls_ok_at calls_ok_update)

lemma call_of_start:
  assumes "calls_ok st" "dst \<noteq> 0" "call_of dst st = Some x"
  shows "call_of dst (snd (start_status src k sid st)) = Some x"
proof (cases "status_of k st")
  case (Some y)
  then show ?thesis using call_of_at [OF assms(2), of k st] assms(3) by (simp add: start_status_def case_prod_unfold Let_def)
next
  case None
  then have "k \<noteq> dst" using status_of_call [OF assms(1,2)] assms(3) by auto
  then show ?thesis using assms(3) None by (simp add: start_status_def call_of_def update_conv')
qed

lemma start_collides:
  assumes "calls_ok st" "dst \<noteq> 0" "call_of dst st = Some x" "sid \<noteq> rx_streamId x" "rx_srcId x \<noteq> 0" "src \<noteq> rx_srcId x"
  shows "start_status src dst sid st = (Collision, st)"
proof -
  have "map_of st dst = Some x" using assms(3) by (auto simp: call_of_def split: option.splits if_splits)
  then show ?thesis using assms status_of_call [OF assms(1,2)] by (simp add: start_status_def status_at_def)
qed

section \<open>What a datagram carries\<close>

text \<open>Where to, for which peer, stream, opcode, sequence number, message.\<close>

type_synonym parcel = "sockaddr \<times> u32 \<times> u32 \<times> (u8 \<times> u8) \<times> u16 \<times> bytes"

definition opened :: "udp_datagram \<Rightarrow> parcel option" where
  "opened d =
     (case read_frame (dg_buffer d) of
        Received rtp fne message \<Rightarrow>
          Some (dg_address d, m_hdrPeerId fne, m_streamId fne, (m_func fne, m_subFunc fne), m_seq rtp, message)
      | _ \<Rightarrow> None)"

definition queued :: "'a base_net_scheme \<Rightarrow> udp_datagram list" where
  "queued s = m_buffers (m_frameQueue s)"

lemma net_enqueue_queued:
  assumes "length message \<le> 8160" "fst opcode \<noteq> NET_FUNC_TRANSFER" "fst opcode \<noteq> NET_FUNC_GRANT_REQ"
  shows "\<exists>d. queued (net_enqueue e message streamId p ssrc opcode seq addr s) = queued s @ [d] \<and>
           opened d = Some (addr, p, streamId, opcode, seq, message)"
  using enqueue_received [OF assms(1), of "env_since e (m_encoded s)" streamId p ssrc opcode seq addr "m_frameQueue s"] assms(2,3)
  by (auto simp: queued_def net_enqueue_def opened_def frame_fne_def)

lemma protocol_opcode [simp]: "NET_FUNC_PROTOCOL \<noteq> NET_FUNC_TRANSFER" "NET_FUNC_PROTOCOL \<noteq> NET_FUNC_GRANT_REQ"
  by (simp_all add: net_funcs)

text \<open>A write to a peer, and the fields a write leaves alone.\<close>

lemma writePeerSeq_queued:
  assumes "m_peers s p = Some c" "length message \<le> 8160" "fst opcode \<noteq> NET_FUNC_TRANSFER" "fst opcode \<noteq> NET_FUNC_GRANT_REQ"
    and "streamId \<noteq> 0"
  shows "\<exists>d. queued (snd (writePeerSeq e p opcode message seq streamId True s)) = queued s @ [d] \<and>
           opened d = Some (p_addr c, p, streamId, opcode, seq, message)"
  using assms net_enqueue_queued [OF assms(2-4), of e streamId p "m_peerId s" seq "p_addr c" s]
  by (simp add: writePeerSeq_def)

definition fields_of :: "'h fne \<Rightarrow> rid_table \<times> tg_rules \<times> (u32 \<rightharpoonup> peer_conn) \<times> 'h \<times> bytes \<times> NET_CONN_STATUS" where
  "fields_of s = (m_ridLookup s, m_tidLookup s, m_peers s, m_tags s, m_password s, fne_status s)"

lemma fields_ofD:
  assumes "fields_of s' = fields_of s"
  shows "m_ridLookup s' = m_ridLookup s" "m_tidLookup s' = m_tidLookup s" "m_peers s' = m_peers s" "m_tags s' = m_tags s"
    "m_password s' = m_password s" "peers_view s' = peers_view s" "peer_walk e s' = peer_walk e s"
  using assms by (simp_all add: fields_of_def peers_view_def peer_walk_def fun_eq_iff)

lemma fields_net [simp]:
  "fields_of (net_enqueue e message streamId p ssrc opcode seq addr s) = fields_of s"
  "fields_of (snd (net_flush e s)) = fields_of s"
  "fields_of (snd (writePeerSeq e p opcode message seq streamId queueOnly s)) = fields_of s"
  "fields_of (s\<lparr>m_callInProgress := b\<rparr>) = fields_of s"
  by (simp_all add: fields_of_def net_enqueue_def net_flush_def writePeerSeq_def Let_def case_prod_unfold split: option.split)

lemma flush_sends: "m_sent (snd (net_flush e s)) = m_sent s @ queued s" "queued (snd (net_flush e s)) = []"
  by (simp_all add: net_flush_def flushQueue_def queued_def Let_def case_prod_unfold)

lemma sent_net [simp]:
  "m_sent (net_enqueue e message streamId p ssrc opcode seq addr s) = m_sent s"
  "m_sent (snd (writePeerSeq e p opcode message seq streamId True s)) = m_sent s"
  "m_sent (s\<lparr>m_callInProgress := b\<rparr>) = m_sent (s :: 'h fne)" "queued (s\<lparr>m_callInProgress := b\<rparr>) = queued (s :: 'h fne)"
  by (simp_all add: net_enqueue_def writePeerSeq_def queued_def Let_def split: option.split)

lemma found_rewrites [simp]: "m_rewrite (m_config (tg_find dstId slot rules)) = []"
  by (simp add: tg_find_def rule_assign_def config_assign_def new_tg_rule_def new_tg_config_def split: option.split)

lemma each_upstream_total:
  "(\<And>i n. f i n = Some (g i n)) \<Longrightarrow> each_upstream f i ns = Some (map (\<lambda>(i, n). g i n) (zip [i..<i + length ns] ns))"
proof (induction ns arbitrary: i)
  case (Cons n ns)
  have "[i..<i + length (n # ns)] = i # [Suc i..<Suc i + length ns]" by (simp add: upt_conv_Cons del: upt_Suc)
  then show ?case using Cons.IH [of "Suc i"] Cons.prems by (simp del: upt_Suc)
qed simp

lemma flush_empty: "queued s = [] \<Longrightarrow> snd (net_flush e s) = s"
  by (simp add: net_flush_def flushQueue_def queued_def Let_def)

lemma writeMaster_queued:
  assumes "length message \<le> 8160" "fst opcode \<noteq> NET_FUNC_TRANSFER" "fst opcode \<noteq> NET_FUNC_GRANT_REQ"
  shows "\<exists>d. queued (snd (writeMaster e opcode message seq streamId True n)) = queued n @ [d] \<and>
           opened d = Some (m_addr n, m_peerId n, streamId, opcode, seq, message) \<and>
           m_sent (snd (writeMaster e opcode message seq streamId True n)) = m_sent n"
  using net_enqueue_queued [OF assms, of e streamId "m_peerId n" "m_peerId n" seq "m_addr n" n]
  by (simp add: writeMaster_def Let_def) (auto simp: net_enqueue_def)

section \<open>Repeating a frame\<close>

text \<open>
  The end of each handler: the loop over the peers, the flush, and, unless the talkgroup is the
  parrot's, the loop over the upstream networks.
\<close>

definition relay ::
  "'e fne_env_scheme \<Rightarrow> (u32 \<Rightarrow> tags fne \<Rightarrow> tags fne) \<Rightarrow> bool \<Rightarrow> (nat \<Rightarrow> base_net \<Rightarrow> base_net option) \<Rightarrow> tags fne \<Rightarrow> tags fne option" where
  "relay e step parrot up s =
     (let s = snd (net_flush e (fold step (peer_walk e s) s))
      in if \<not> parrot
         then case each_upstream up 0 (t_upstream (m_tags s)) of
                None \<Rightarrow> None
              | Some ns \<Rightarrow> Some (snd (net_flush e (s\<lparr>m_tags := (m_tags s)\<lparr>t_upstream := ns\<rparr>\<rparr>)))
         else Some (snd (net_flush e s)))"

lemma relay_effect:
  fixes s :: "tags fne"
  assumes "relay e step parrot up s = Some s'"
    and f: "fields_of (fold step (peer_walk e s) s) = fields_of s" and n: "m_sent (fold step (peer_walk e s) s) = m_sent s"
  shows "m_sent s' = m_sent s @ queued (fold step (peer_walk e s) s)" "queued s' = []" "m_peers s' = m_peers s"
    "m_ridLookup s' = m_ridLookup s" "m_tidLookup s' = m_tidLookup s" "m_password s' = m_password s" "peers_view s' = peers_view s"
    "t_dmr (m_tags s') = t_dmr (m_tags s)" "t_p25 (m_tags s') = t_p25 (m_tags s)" "t_nxdn (m_tags s') = t_nxdn (m_tags s)"
    "if parrot then t_upstream (m_tags s') = t_upstream (m_tags s)
     else each_upstream up 0 (t_upstream (m_tags s)) = Some (t_upstream (m_tags s'))"
proof -
  let ?t = "snd (net_flush e (fold step (peer_walk e s) s))"
  have q: "queued ?t = []" by (rule flush_sends)
  have t: "m_sent ?t = m_sent s @ queued (fold step (peer_walk e s) s)" unfolding flush_sends n ..
  have "fields_of ?t = fields_of s" using f by simp
  note k = fields_ofD [OF this]
  have q': "queued (?t\<lparr>m_tags := x\<rparr>) = []" for x using q by (simp add: queued_def)
  have v: "peers_view (?t\<lparr>m_tags := x\<rparr>) = peers_view ?t" for x by (simp add: peers_view_def fun_eq_iff)
  obtain ns where "s' = (if parrot then ?t else ?t\<lparr>m_tags := (m_tags s)\<lparr>t_upstream := ns\<rparr>\<rparr>)"
    "parrot \<or> each_upstream up 0 (t_upstream (m_tags s)) = Some ns"
    using assms(1) flush_empty [OF q] flush_empty [OF q'] by (auto simp: relay_def Let_def k(4) split: if_splits option.splits)
  then show "m_sent s' = m_sent s @ queued (fold step (peer_walk e s) s)" "queued s' = []" "m_peers s' = m_peers s"
    "m_ridLookup s' = m_ridLookup s" "m_tidLookup s' = m_tidLookup s" "m_password s' = m_password s" "peers_view s' = peers_view s"
    "t_dmr (m_tags s') = t_dmr (m_tags s)" "t_p25 (m_tags s') = t_p25 (m_tags s)" "t_nxdn (m_tags s') = t_nxdn (m_tags s)"
    "if parrot then t_upstream (m_tags s') = t_upstream (m_tags s)
     else each_upstream up 0 (t_upstream (m_tags s)) = Some (t_upstream (m_tags s'))"
    using q q' t k v by (auto split: if_splits)
qed

lemma relay_returns:
  assumes "fields_of (fold step (peer_walk e s) s) = fields_of s" "each_upstream up 0 (t_upstream (m_tags s)) = Some ns"
  shows "\<exists>s'. relay e step parrot up s = Some s'"
  using assms(2) fields_ofD(4) [OF assms(1)] by (simp add: relay_def Let_def fields_ofD(4) [OF fields_net(2)])



text \<open>
  One step of the loop over the peers.  It queues the frame for a peer that is not its source
  and is permitted the call, and does nothing for any other.
\<close>

locale repeater =
  fixes step :: "'e fne_env_scheme \<Rightarrow> 'f \<Rightarrow> bytes \<Rightarrow> u32 \<Rightarrow> u16 \<Rightarrow> u32 \<Rightarrow> u32 \<Rightarrow> tags fne \<Rightarrow> tags fne"
    and permitted :: "tg_rules \<Rightarrow> u32 \<Rightarrow> 'f \<Rightarrow> bool"
    and opcode :: "u8 \<times> u8"
  assumes silent: "q = p \<or> \<not> permitted (m_tidLookup s) q f \<Longrightarrow> step e f buffer p seq streamId q s = s"
    and sends: "q \<noteq> p \<Longrightarrow> permitted (m_tidLookup s) q f \<Longrightarrow> m_peers s q = Some c \<Longrightarrow> length buffer \<le> 8160 \<Longrightarrow> streamId \<noteq> 0 \<Longrightarrow>
      \<exists>d. queued (step e f buffer p seq streamId q s) = queued s @ [d] \<and>
          opened d = Some (p_addr c, q, streamId, opcode, seq, buffer)"
    and keeps: "fields_of (step e f buffer p seq streamId q s) = fields_of s"
    and no_send: "m_sent (step e f buffer p seq streamId q s) = m_sent s"
begin

definition receivers :: "u32 \<Rightarrow> 'f \<Rightarrow> tags fne \<Rightarrow> u32 list \<Rightarrow> u32 list" where
  "receivers p f s qs = filter (\<lambda>q. q \<noteq> p \<and> permitted (m_tidLookup s) q f) qs"

lemma fold_keeps: "fields_of (fold (step e f buffer p seq streamId) qs s) = fields_of s"
  by (induction qs arbitrary: s) (simp_all add: keeps)

lemma fold_no_send: "m_sent (fold (step e f buffer p seq streamId) qs s) = m_sent s"
  by (induction qs arbitrary: s) (simp_all add: no_send)

lemma fold_sends:
  assumes "length buffer \<le> 8160" "streamId \<noteq> 0" "\<forall>q \<in> set qs. m_peers s q \<noteq> None"
  shows "\<exists>out. queued (fold (step e f buffer p seq streamId) qs s) = queued s @ out \<and>
           map opened out =
             map (\<lambda>q. Some (p_addr (the (m_peers s q)), q, streamId, opcode, seq, buffer)) (receivers p f s qs)"
  using assms(3)
proof (induction qs arbitrary: s)
  case Nil
  then show ?case by (simp add: receivers_def)
next
  case (Cons q qs)
  let ?s = "step e f buffer p seq streamId q s"
  note k = fields_ofD [OF keeps [of e f buffer p seq streamId q s]]
  obtain out where o: "queued (fold (step e f buffer p seq streamId) qs ?s) = queued ?s @ out"
    "map opened out = map (\<lambda>q. Some (p_addr (the (m_peers s q)), q, streamId, opcode, seq, buffer)) (receivers p f s qs)"
    using Cons.IH [of ?s] Cons.prems k(2,3) by (auto simp: receivers_def)
  obtain c where c: "m_peers s q = Some c" using Cons.prems by auto
  show ?case
  proof (cases "q = p \<or> \<not> permitted (m_tidLookup s) q f")
    case True
    then show ?thesis using o silent by (auto simp: receivers_def)
  next
    case False
    then obtain d where "queued ?s = queued s @ [d]" "opened d = Some (p_addr c, q, streamId, opcode, seq, buffer)"
      using sends [OF _ _ c assms(1,2)] by blast
    then show ?thesis using o c False by (intro exI [of _ "d # out"]) (simp add: receivers_def)
  qed
qed

end

section \<open>Playing recorded frames back\<close>

definition play_to :: "'e fne_env_scheme \<Rightarrow> u8 \<times> u8 \<Rightarrow> bytes \<times> u16 \<times> u32 \<Rightarrow> u32 \<Rightarrow> 'h fne \<Rightarrow> 'h fne" where
  "play_to e opcode pkt peer s =
     (case pkt of (buffer, seq, streamId) \<Rightarrow> snd (writePeerSeq e peer opcode buffer seq streamId False s))"

lemma play_fields [simp]: "fields_of (fold (play_to e opcode pkt) qs s) = fields_of s"
  by (induction qs arbitrary: s) (simp_all add: play_to_def case_prod_unfold)

lemma play_sends:
  assumes "pkt = (buffer, seq, streamId)" "length buffer \<le> 8160" "streamId \<noteq> 0"
    and op: "fst opcode \<noteq> NET_FUNC_TRANSFER" "fst opcode \<noteq> NET_FUNC_GRANT_REQ"
    and "queued s = []" "\<forall>q \<in> set qs. m_peers s q \<noteq> None"
  shows "\<exists>out. m_sent (fold (play_to e opcode pkt) qs s) = m_sent s @ out \<and> queued (fold (play_to e opcode pkt) qs s) = [] \<and>
           map opened out = map (\<lambda>q. Some (p_addr (the (m_peers s q)), q, streamId, opcode, seq, buffer)) qs"
  using assms(6,7)
proof (induction qs arbitrary: s)
  case Nil
  then show ?case by simp
next
  case (Cons q qs)
  let ?s = "play_to e opcode pkt q s"
  obtain c where c: "m_peers s q = Some c" using Cons.prems by auto
  let ?t = "net_enqueue e buffer streamId q (m_peerId s) opcode seq (p_addr c) s"
  have t: "?s = snd (net_flush e ?t)" using c assms(3) by (simp add: play_to_def writePeerSeq_def assms(1))
  obtain d where d: "queued ?t = [d]" "opened d = Some (p_addr c, q, streamId, opcode, seq, buffer)"
    using net_enqueue_queued [OF assms(2) op, of e streamId q "m_peerId s" seq "p_addr c" s] Cons.prems(1) by auto
  have k: "m_peers ?s = m_peers s" "queued ?s = []" "m_sent ?s = m_sent s @ [d]"
    unfolding t using fields_ofD(3) [of "snd (net_flush e ?t)" s] d(1) by (simp_all add: flush_sends)
  obtain out where "m_sent (fold (play_to e opcode pkt) qs ?s) = m_sent ?s @ out" "queued (fold (play_to e opcode pkt) qs ?s) = []"
    "map opened out = map (\<lambda>q. Some (p_addr (the (m_peers s q)), q, streamId, opcode, seq, buffer)) qs"
    using Cons.IH [of ?s] Cons.prems(2) k(1,2) by auto
  then show ?case using k(3) d(2) c by (intro exI [of _ "d # out"]) simp
qed

text \<open>
  What the idle clock does with the recorded frames: the first of them goes to every peer.  The
  contract is about states the handler calls plain (one of them announces itself first).
\<close>

locale parrot =
  fixes idle :: "'e fne_env_scheme \<Rightarrow> tags fne \<Rightarrow> tags fne"
    and frames :: "tags fne \<Rightarrow> 'p list"
    and ready :: "tags fne \<Rightarrow> bool"
    and plain :: "'e fne_env_scheme \<Rightarrow> tags fne \<Rightarrow> bool"
    and content :: "'p \<Rightarrow> bytes \<times> u16 \<times> u32"
    and opcode :: "u8 \<times> u8"
  assumes rests: "\<not> ready s \<or> frames s = [] \<Longrightarrow> idle e s = s"
    and plays: "ready s \<Longrightarrow> plain e s \<Longrightarrow> frames s = pkt # pkts \<Longrightarrow> content pkt = (buffer, seq, streamId) \<Longrightarrow>
      length buffer \<le> 8160 \<Longrightarrow> streamId \<noteq> 0 \<Longrightarrow> queued s = [] \<Longrightarrow>
      \<exists>out. m_sent (idle e s) = m_sent s @ out \<and> queued (idle e s) = [] \<and> m_peers (idle e s) = m_peers s \<and>
        frames (idle e s) = pkts \<and> ready (idle e s) \<and> plain e (idle e s) \<and>
        map opened out = map (\<lambda>q. Some (p_addr (the (m_peers s q)), q, streamId, opcode, seq, buffer)) (peer_walk e s)"
begin

definition playable :: "'e fne_env_scheme \<Rightarrow> tags fne \<Rightarrow> bool" where
  "playable e s \<longleftrightarrow> ready s \<and> plain e s \<and> queued s = [] \<and>
     (\<forall>pkt \<in> set (frames s). case content pkt of (buffer, seq, streamId) \<Rightarrow> length buffer \<le> 8160 \<and> streamId \<noteq> 0)"

definition played :: "'e fne_env_scheme \<Rightarrow> tags fne \<Rightarrow> 'p \<Rightarrow> parcel option list" where
  "played e s pkt =
     (case content pkt of (buffer, seq, streamId) \<Rightarrow>
        map (\<lambda>q. Some (p_addr (the (m_peers s q)), q, streamId, opcode, seq, buffer)) (peer_walk e s))"

lemma played_peers: "m_peers t = m_peers s \<Longrightarrow> played e t = played e s"
  by (simp add: played_def peer_walk_def fun_eq_iff)

lemma idle_silent: "frames s = [] \<Longrightarrow> idle e s = s"
  by (rule rests) simp

lemma idle_plays:
  assumes "playable e s" "frames s \<noteq> []"
  shows "\<exists>out. m_sent (idle e s) = m_sent s @ out \<and> map opened out = played e s (hd (frames s))"
    and "playable e (idle e s)" "frames (idle e s) = tl (frames s)" "m_peers (idle e s) = m_peers s"
proof -
  obtain pkt pkts where f: "frames s = pkt # pkts" using assms(2) by (cases "frames s") auto
  obtain buffer seq streamId where c: "content pkt = (buffer, seq, streamId)" by (cases "content pkt")
  have "length buffer \<le> 8160" "streamId \<noteq> 0" "ready s" "plain e s" "queued s = []"
    using assms(1) f c by (auto simp: playable_def)
  then have p: "\<exists>out. m_sent (idle e s) = m_sent s @ out \<and> queued (idle e s) = [] \<and> m_peers (idle e s) = m_peers s \<and>
        frames (idle e s) = pkts \<and> ready (idle e s) \<and> plain e (idle e s) \<and>
        map opened out = map (\<lambda>q. Some (p_addr (the (m_peers s q)), q, streamId, opcode, seq, buffer)) (peer_walk e s)"
    using plays [OF _ _ f c] by blast
  then show "\<exists>out. m_sent (idle e s) = m_sent s @ out \<and> map opened out = played e s (hd (frames s))"
    using f c by (auto simp: played_def)
  show "playable e (idle e s)" "frames (idle e s) = tl (frames s)" "m_peers (idle e s) = m_peers s"
    using p assms(1) f by (auto simp: playable_def)
qed

lemma playback:
  assumes "playable e s"
  shows "playable e ((idle e ^^ n) s) \<and> frames ((idle e ^^ n) s) = drop n (frames s) \<and> m_peers ((idle e ^^ n) s) = m_peers s"
proof (induction n)
  case (Suc n)
  then show ?case
    using idle_plays(2-4) [of e "(idle e ^^ n) s"] idle_silent [of "(idle e ^^ n) s" e]
    by (cases "frames ((idle e ^^ n) s) = []") (auto simp: tl_drop drop_Suc)
qed (simp add: assms)

text \<open>Each tick sends exactly the next frame, to every peer; after the last nothing happens any more.\<close>

lemma one_frame_each_tick:
  assumes "playable e s"
  shows "if n < length (frames s)
         then \<exists>out. m_sent ((idle e ^^ Suc n) s) = m_sent ((idle e ^^ n) s) @ out \<and> map opened out = played e s (frames s ! n)
         else (idle e ^^ Suc n) s = (idle e ^^ n) s"
  using playback [OF assms, of n] idle_plays(1) [of e "(idle e ^^ n) s"] idle_silent [of "(idle e ^^ n) s" e]
    played_peers [of "(idle e ^^ n) s" s e]
  by (cases "n < length (frames s)") (simp_all add: hd_drop_conv_nth)

end


section \<open>An FNE for the examples\<close>

text \<open>Two connected peers, 7 and 8, and one upstream network, where this FNE is peer 9.\<close>

definition sample_net_env :: net_env where
  "sample_net_env = \<lparr>env_now = 0, env_since = \<lambda>_. 0, env_random = \<lambda>_. 1, env_written = True\<rparr>"

definition sample_tag_env :: tag_env where
  "sample_tag_env = \<lparr>env_now = 0, env_since = \<lambda>_. 0, env_random = \<lambda>_. 1, env_written = True, env_peers = [7, 8],
     env_rids = [], env_json = \<lambda>_. Json_object, env_mem = replicate 66 0, env_upstream = \<lambda>_. sample_net_env,
     env_parrotGrantDemand = False, env_site = \<lparr>site_sysId = 1, site_netId = 2\<rparr>, env_tsdu = \<lambda>_ _. None\<rparr>"

definition sample_peer :: "u32 \<Rightarrow> peer_conn" where
  "sample_peer p = (the (new_peer_conn p \<lparr>sa_ip = ''10.0.0.1'', sa_port = ucast p\<rparr>))\<lparr>connected := True, connectionState := NET_STAT_RUNNING\<rparr>"

definition sample_tags :: tags where
  "sample_tags = \<lparr>t_dmr = \<lparr>dt_parrotFrames = [], dt_parrotFramesReady = False, dt_status = []\<rparr>,
     t_p25 = \<lparr>pt_parrotFrames = [], pt_parrotFramesReady = False, pt_parrotFirstFrame = True, pt_status = []\<rparr>,
     t_nxdn = \<lparr>nt_parrotFrames = [], nt_parrotFramesReady = False, nt_status = []\<rparr>,
     t_upstream = [the (new_base_net sample_net_env 9 True True False False)]\<rparr>"

definition sample_tag_fne :: "tg_rules \<Rightarrow> tags \<Rightarrow> tags fne" where
  "sample_tag_fne rules t =
     put_peer 8 (sample_peer 8) (put_peer 7 (sample_peer 7)
       (the (new_fne sample_tag_env 9000 [0x70] True True True False False 5 5 10 Map.empty rules False t)))"

lemma sample_tag_fields:
  "m_peers (sample_tag_fne rules t) = [7 \<mapsto> sample_peer 7, 8 \<mapsto> sample_peer 8]" "queued (sample_tag_fne rules t) = []"
  "m_tidLookup (sample_tag_fne rules t) = rules" "m_tags (sample_tag_fne rules t) = t"
  "m_ridLookup (sample_tag_fne rules t) = Map.empty" "m_password (sample_tag_fne rules t) = [0x70]"
  "peer_walk sample_tag_env (sample_tag_fne rules t) = [7, 8]"
  by (simp_all add: sample_tag_fne_def put_peer_def new_fne_def new_base_net_def new_timer_of_def timeout_of_def
      base_net.extend_def fne.fields_def queued_def peer_walk_def sample_tag_env_def)

end
