(* ===== verification/TagDMR.thy ===== *)
theory TagDMR
  imports FNETraffic
begin

text \<open>
  The DMR traffic of the FNE, \<^verbatim>\<open>src/src/fne/network/fne/TagDMRData.cpp\<close>: taking a frame apart,
  validating it, starting and ending calls, repeating it to the peers and to the upstream
  networks, talkgroup rewrites and the parrot.  The tables belong to the FNE's state; the
  class's own fields and the host's peer networks are the traffic state \<open>m_tags\<close>.  \<open>None\<close> is a
  read or a write past the end of a frame shorter than 53 bytes, or the undefined search of
  \<open>findByRewrite\<close>.
\<close>

definition new_dmr_tag :: dmr_tag where
  "new_dmr_tag = \<lparr>dt_parrotFrames = [], dt_parrotFramesReady = False, dt_status = []\<rparr>"

section \<open>A frame\<close>

definition frame_slot :: "bytes \<Rightarrow> u32" where
  "frame_slot data = (if data ! 15 AND 0x80 = 0x80 then 2 else 1)"

definition frame_sync :: "bytes \<Rightarrow> bool" where
  "frame_sync data = (data ! 15 AND 0x20 = 0x20)"

definition frame_type :: "bytes \<Rightarrow> u8" where
  "frame_type data = data ! 15 AND 0x0F"

definition frame_src :: "bytes \<Rightarrow> u32" where
  "frame_src data = GET_UINT16 data 5"

definition frame_dst :: "bytes \<Rightarrow> u32" where
  "frame_dst data = GET_UINT16 data 8"

definition frame_of :: "bytes \<Rightarrow> bytes \<Rightarrow> dmr_data" where
  "frame_of mem data =
     (let d = (new_dmr_data mem)\<lparr>d_seqNo := data ! 4, d_slotNo := frame_slot data, d_srcId := frame_src data,
                d_dstId := frame_dst data, d_flco := if data ! 15 AND 0x40 = 0x40 then FLCO_PRIVATE else FLCO_GROUP\<rparr>;
          d = dmr_setData (drop 20 data) d
      in if frame_sync data then d\<lparr>d_dataType := frame_type data, d_n := 0\<rparr>
         else if data ! 15 AND 0x10 = 0x10 then d\<lparr>d_dataType := DT_VOICE_SYNC, d_n := 0\<rparr>
         else d\<lparr>d_dataType := DT_VOICE, d_n := data ! 15 AND 0x0F\<rparr>)"

section \<open>Who may send and receive\<close>

definition isPeerPermitted :: "tg_rules \<Rightarrow> u32 \<Rightarrow> dmr_data \<Rightarrow> bool" where
  "isPeerPermitted rules peerId d =
     (if d_dataType d = FLCO_PRIVATE then True
      else if d_dataType d = FLCO_GROUP then tg_permits (tg_find (d_dstId d) (ucast (d_slotNo d)) rules) peerId
      else True)"

definition validate :: "rid_table \<Rightarrow> tg_rules \<Rightarrow> dmr_data \<Rightarrow> bool" where
  "validate rids rules d =
     (if rid_refused rids (d_srcId d) then False
      else if d_dataType d = DT_TERMINATOR_WITH_LC then True
      else if d_dataType d = FLCO_PRIVATE \<and> rid_refused rids (d_dstId d) then False
      else if d_dataType d = FLCO_GROUP
      then let tg = tg_find (d_dstId d) 0 rules
           in if ucast (m_tgSlot (m_source tg)) \<noteq> d_slotNo d then False
              else if \<not> m_active (m_config tg) then False
              else True
      else True)"

section \<open>Rewrites\<close>

definition peerRewrite :: "tg_rules \<Rightarrow> u32 \<Rightarrow> u32 \<Rightarrow> u32 \<Rightarrow> bool \<Rightarrow> (bool \<times> u32 \<times> u32) option" where
  "peerRewrite rules peerId dstId slotNo outbound =
     (case (if outbound then Some (tg_find dstId (ucast slotNo) rules)
            else tg_findByRewrite peerId dstId (ucast slotNo) rules) of
        None \<Rightarrow> None
      | Some tg \<Rightarrow>
          (case List.find (\<lambda>entry. rw_peerId entry = peerId) (m_rewrite (m_config tg)) of
             None \<Rightarrow> Some (False, dstId, slotNo)
           | Some entry \<Rightarrow>
               if outbound then Some (True, m_tgId (m_source tg), ucast (m_tgSlot (m_source tg)))
               else Some (True, rw_tgId entry, ucast (rw_tgSlot entry))))"

text \<open>The burst with the new destination in its link control, where it has one.\<close>

definition rewrite_burst :: "bytes \<Rightarrow> dmr_data \<Rightarrow> u8 \<Rightarrow> u32 \<Rightarrow> bytes" where
  "rewrite_burst mem d dataType rewriteDstId =
     (let data = dmr_getData d
      in if dataType = DT_VOICE_LC_HEADER \<or> dataType = DT_TERMINATOR_WITH_LC
         then let l = (case fulllc_decode data dataType of
                         Some l \<Rightarrow> l
                       | None \<Rightarrow> new_lc (d_flco d) (d_srcId d) rewriteDstId)
              in fulllc_encode (l\<lparr>lc_dstId := rewriteDstId\<rparr>) data dataType
         else if dataType = DT_VOICE_PI_HEADER
         then let l = (case fulllc_decodePI data of Some l \<Rightarrow> l | None \<Rightarrow> new_privacy_lc (take 4 mem))
              in fulllc_encodePI (l\<lparr>pi_dstId := rewriteDstId\<rparr>) data
         else data)"

definition routeRewrite ::
  "bytes \<Rightarrow> tg_rules \<Rightarrow> bytes \<Rightarrow> u32 \<Rightarrow> dmr_data \<Rightarrow> u8 \<Rightarrow> u32 \<Rightarrow> u32 \<Rightarrow> bool \<Rightarrow> bytes option" where
  "routeRewrite mem rules buffer peerId d dataType dstId slotNo outbound =
     (case peerRewrite rules peerId dstId slotNo outbound of
        None \<Rightarrow> None
      | Some (rewrote, rewriteDstId, rewriteSlotNo) \<Rightarrow>
          if \<not> rewrote then Some buffer
          else let buffer = SET_UINT16 rewriteDstId buffer 8;
                   buffer = (if rewriteSlotNo = 2 \<and> buffer ! 15 AND 0x80 = 0x00 then buffer[15 := buffer ! 15 OR 0x80] else buffer);
                   buffer = (if rewriteSlotNo = 1 \<and> buffer ! 15 AND 0x80 = 0x80 then buffer[15 := buffer ! 15 AND NOT 0x80] else buffer)
               in Some (memcpy_at buffer 20 (rewrite_burst mem d dataType rewriteDstId)))"

section \<open>Calls\<close>

definition status_find :: "u32 \<Rightarrow> u32 \<Rightarrow> (u32 \<times> dmr_rx_status) list \<Rightarrow> dmr_rx_status option" where
  "status_find dstId slotNo st =
     map_option snd (List.find (\<lambda>(k, x). rx_dstId x = dstId \<and> ucast (rx_slotNo x) = slotNo) st)"

text \<open>The end of a call: a terminator, whether or not the call is known.\<close>

definition end_call :: "u32 \<Rightarrow> u32 \<Rightarrow> tags fne \<Rightarrow> tags fne" where
  "end_call dstId slotNo s =
     (let s = (if status_find dstId slotNo (dt_status (dmr_of s)) \<noteq> None
               then upd_dmr (\<lambda>t. t\<lparr>dt_status := AList.delete dstId (dt_status t)\<rparr>) s else s);
          s = (if m_parrot (m_config (tg_find dstId 0 (m_tidLookup s))) \<and> length (dt_parrotFrames (dmr_of s)) > 0
               then upd_dmr (\<lambda>t. t\<lparr>dt_parrotFramesReady := True\<rparr>) s else s)
      in s\<lparr>m_callInProgress := False\<rparr>)"

text \<open>The start of a call: a voice header.  \<open>None\<close> is the collision.\<close>

definition start_call :: "u32 \<Rightarrow> u32 \<Rightarrow> u32 \<Rightarrow> u32 \<Rightarrow> tags fne \<Rightarrow> tags fne option" where
  "start_call srcId dstId slotNo streamId s =
     (case status_find dstId slotNo (dt_status (dmr_of s)) of
        Some status \<Rightarrow>
          if streamId \<noteq> rx_streamId status \<and> rx_srcId status \<noteq> 0 \<and> rx_srcId status \<noteq> srcId then None
          else Some s
      | None \<Rightarrow>
          let s = (if m_parrot (m_config (tg_find dstId 0 (m_tidLookup s)))
                   then upd_dmr (\<lambda>t. t\<lparr>dt_parrotFramesReady := False, dt_parrotFrames := []\<rparr>) s else s);
              status = \<lparr>rx_srcId = srcId, rx_dstId = dstId, rx_streamId = streamId, rx_slotNo = ucast slotNo\<rparr>;
              s = upd_dmr (\<lambda>t. t\<lparr>dt_status := AList.update dstId status (dt_status t)\<rparr>) s
          in Some (s\<lparr>m_callInProgress := True\<rparr>))"

section \<open>Repeating\<close>

definition repeat_to ::
  "'e fne_env_scheme \<Rightarrow> dmr_data \<Rightarrow> bytes \<Rightarrow> u32 \<Rightarrow> u16 \<Rightarrow> u32 \<Rightarrow> u32 \<Rightarrow> tags fne \<Rightarrow> tags fne" where
  "repeat_to e d buffer peerId seq streamId peer s =
     (if peer = peerId then s
      else if \<not> isPeerPermitted (m_tidLookup s) peer d then s
      else let s = snd (writePeerSeq e peer (NET_FUNC_PROTOCOL, NET_PROTOCOL_SUBFUNC_DMR) buffer seq streamId True s)
           in s\<lparr>m_callInProgress := True\<rparr>)"

text \<open>One upstream network: nothing tells the network the frame came from.\<close>

definition repeat_upstream ::
  "bytes \<Rightarrow> tg_rules \<Rightarrow> dmr_data \<Rightarrow> bytes \<Rightarrow> u8 \<Rightarrow> u32 \<Rightarrow> u32 \<Rightarrow> u16 \<Rightarrow> u32 \<Rightarrow> 'e net_env_scheme \<Rightarrow> base_net \<Rightarrow> base_net option" where
  "repeat_upstream mem rules d buffer dataType dstId slotNo seq streamId e n =
     (if \<not> isPeerPermitted rules (m_peerId n) d then Some n
      else case routeRewrite mem rules buffer (m_peerId n) d dataType dstId slotNo True of
             None \<Rightarrow> None
           | Some out \<Rightarrow> Some (snd (writeMaster e (NET_FUNC_PROTOCOL, NET_PROTOCOL_SUBFUNC_DMR) out seq streamId True n)))"

section \<open>The handler\<close>

text \<open>The tests of the frame that stands at the front of the handler.\<close>

definition frame_accepted :: "tags fne \<Rightarrow> u32 \<Rightarrow> dmr_data \<Rightarrow> bool" where
  "frame_accepted s peerId d = (validate (m_ridLookup s) (m_tidLookup s) d \<and> isPeerPermitted (m_tidLookup s) peerId d)"

definition call_control :: "bytes \<Rightarrow> u32 \<Rightarrow> tags fne \<Rightarrow> tags fne option" where
  "call_control data streamId s =
     (let srcId = frame_src data; dstId = frame_dst data; slotNo = frame_slot data;
          s = (if frame_sync data \<and> frame_type data = DT_TERMINATOR_WITH_LC then end_call dstId slotNo s else s)
      in if frame_sync data \<and> frame_type data = DT_VOICE_LC_HEADER
         then start_call srcId dstId slotNo streamId s else Some s)"

definition repeat_frame ::
  "'e tag_env_scheme \<Rightarrow> dmr_data \<Rightarrow> bytes \<Rightarrow> bytes \<Rightarrow> u32 \<Rightarrow> u16 \<Rightarrow> u32 \<Rightarrow> tags fne \<Rightarrow> tags fne option" where
  "repeat_frame e d data buffer peerId seq streamId s =
     (let parrot = m_parrot (m_config (tg_find (frame_dst data) 0 (m_tidLookup s)));
          s = (if parrot then upd_dmr (\<lambda>t. t\<lparr>dt_parrotFrames := dt_parrotFrames t @ [(buffer, seq, streamId)]\<rparr>) s else s)
      in relay e (repeat_to e d buffer peerId seq streamId) parrot
           (\<lambda>i. repeat_upstream (env_mem e) (m_tidLookup s) d buffer (frame_type data) (frame_dst data) (frame_slot data)
                  seq streamId (env_upstream e i)) s)"

definition dmr_processFrame ::
  "'e tag_env_scheme \<Rightarrow> bytes \<Rightarrow> u32 \<Rightarrow> u16 \<Rightarrow> u32 \<Rightarrow> bool \<Rightarrow> tags fne \<Rightarrow> (bool \<times> tags fne) option" where
  "dmr_processFrame e data peerId seq streamId fromPeer s =
     (if length data < 20 + DMR_FRAME_LENGTH_BYTES then None
      else do {
        let d = frame_of (env_mem e) data;
        buffer \<leftarrow> (if fromPeer
                  then routeRewrite (env_mem e) (m_tidLookup s) data peerId d (frame_type data) (frame_dst data) (frame_slot data) False
                  else Some data);
        if \<not> frame_accepted s peerId d then Some (False, s)
        else (case call_control data streamId s of
                None \<Rightarrow> Some (False, s)
              | Some s \<Rightarrow> do {
                  s \<leftarrow> repeat_frame e d data buffer peerId seq streamId s;
                  Some (True, s)
                })
      })"

section \<open>The parrot\<close>

definition hasParrotFrames :: "dmr_tag \<Rightarrow> bool" where
  "hasParrotFrames t = (dt_parrotFramesReady t \<and> dt_parrotFrames t \<noteq> [])"

definition playbackParrot :: "'e fne_env_scheme \<Rightarrow> tags fne \<Rightarrow> tags fne" where
  "playbackParrot e s =
     (case dt_parrotFrames (dmr_of s) of
        [] \<Rightarrow> upd_dmr (\<lambda>t. t\<lparr>dt_parrotFramesReady := False\<rparr>) s
      | pkt # pkts \<Rightarrow>
          upd_dmr (\<lambda>t. t\<lparr>dt_parrotFrames := tl (dt_parrotFrames t)\<rparr>) (fold (play_to e (NET_FUNC_PROTOCOL, NET_PROTOCOL_SUBFUNC_DMR) pkt) (peer_walk e s) s))"

definition dmr_idle :: "'e fne_env_scheme \<Rightarrow> tags fne \<Rightarrow> tags fne" where
  "dmr_idle e s = (if hasParrotFrames (dmr_of s) then playbackParrot e s else s)"

text \<open>The handler as the FNE calls it for its own peers.\<close>

definition on_dmr_frame ::
  "'e tag_env_scheme \<Rightarrow> bytes \<Rightarrow> u32 \<Rightarrow> u16 \<Rightarrow> u32 \<Rightarrow> tags fne \<Rightarrow> tags fne option" where
  "on_dmr_frame e data peerId seq streamId s = map_option snd (dmr_processFrame e data peerId seq streamId False s)"


section \<open>Frame properties\<close>

lemma fields_upd [simp]:
  "m_ridLookup (upd_dmr f s) = m_ridLookup s" "m_tidLookup (upd_dmr f s) = m_tidLookup s" "m_peers (upd_dmr f s) = m_peers s"
  "m_password (upd_dmr f s) = m_password s" "m_sent (upd_dmr f s) = m_sent s" "queued (upd_dmr f s) = queued s"
  "t_upstream (m_tags (upd_dmr f s)) = t_upstream (m_tags s)" "dmr_of (upd_dmr f s) = f (dmr_of s)"
  by (simp_all add: upd_dmr_def queued_def)

text \<open>The loop over the peers keeps the contract.\<close>

interpretation dmr_repeater: repeater repeat_to isPeerPermitted "(NET_FUNC_PROTOCOL, NET_PROTOCOL_SUBFUNC_DMR)"
proof unfold_locales
  fix q p :: u32 and s :: "tags fne" and f :: dmr_data and e :: "'a fne_env_scheme" and buffer :: bytes and seq :: u16 and streamId :: u32
    and c :: peer_conn
  show "q = p \<or> \<not> isPeerPermitted (m_tidLookup s) q f \<Longrightarrow> repeat_to e f buffer p seq streamId q s = s"
    by (auto simp: repeat_to_def)
  show "fields_of (repeat_to e f buffer p seq streamId q s) = fields_of s"
    "m_sent (repeat_to e f buffer p seq streamId q s) = m_sent s"
    by (simp_all add: repeat_to_def Let_def)
  assume "q \<noteq> p" "isPeerPermitted (m_tidLookup s) q f" "m_peers s q = Some c" "length buffer \<le> 8160" "streamId \<noteq> 0"
  then show "\<exists>d. queued (repeat_to e f buffer p seq streamId q s) = queued s @ [d] \<and>
          opened d = Some (p_addr c, q, streamId, (NET_FUNC_PROTOCOL, NET_PROTOCOL_SUBFUNC_DMR), seq, buffer)"
    using writePeerSeq_queued [of s q c buffer "(NET_FUNC_PROTOCOL, NET_PROTOCOL_SUBFUNC_DMR)" streamId e seq]
    by (simp add: repeat_to_def Let_def)
qed

text \<open>So does the playback.\<close>

interpretation dmr_parrot: parrot dmr_idle "\<lambda>s. dt_parrotFrames (dmr_of s)" "\<lambda>s. dt_parrotFramesReady (dmr_of s)" "\<lambda>e s. True"
  "\<lambda>pkt. pkt" "(NET_FUNC_PROTOCOL, NET_PROTOCOL_SUBFUNC_DMR)"
proof unfold_locales
  fix e :: "'a fne_env_scheme" and s :: "tags fne" and pkt :: "bytes \<times> u16 \<times> u32" and pkts buffer seq streamId
  show "\<not> dt_parrotFramesReady (dmr_of s) \<or> dt_parrotFrames (dmr_of s) = [] \<Longrightarrow> dmr_idle e s = s"
    by (auto simp: dmr_idle_def hasParrotFrames_def)
  assume r: "dt_parrotFramesReady (dmr_of s)" and f: "dt_parrotFrames (dmr_of s) = pkt # pkts" and p: "pkt = (buffer, seq, streamId)"
    and l: "length buffer \<le> 8160" "streamId \<noteq> 0" "queued s = []"
  let ?s = "fold (play_to e (NET_FUNC_PROTOCOL, NET_PROTOCOL_SUBFUNC_DMR) pkt) (peer_walk e s) s"
  have "\<forall>q \<in> set (peer_walk e s). m_peers s q \<noteq> None" by (simp add: peer_walk_def)
  then obtain out where o: "m_sent ?s = m_sent s @ out" "queued ?s = []"
    "map opened out = map (\<lambda>q. Some (p_addr (the (m_peers s q)), q, streamId,
                                  (NET_FUNC_PROTOCOL, NET_PROTOCOL_SUBFUNC_DMR), seq, buffer)) (peer_walk e s)"
    using play_sends [where opcode = "(NET_FUNC_PROTOCOL, NET_PROTOCOL_SUBFUNC_DMR)" and e = e and qs = "peer_walk e s", OF p l(1,2) _ _ l(3)] by auto
  have i: "dmr_idle e s = upd_dmr (\<lambda>t. t\<lparr>dt_parrotFrames := tl (dt_parrotFrames t)\<rparr>) ?s"
    using r f by (simp add: dmr_idle_def hasParrotFrames_def playbackParrot_def)
  note k = fields_ofD(3,4) [OF play_fields [of e "(NET_FUNC_PROTOCOL, NET_PROTOCOL_SUBFUNC_DMR)" pkt "peer_walk e s" s]]
  show "\<exists>out. m_sent (dmr_idle e s) = m_sent s @ out \<and> queued (dmr_idle e s) = [] \<and> m_peers (dmr_idle e s) = m_peers s \<and>
        dt_parrotFrames (dmr_of (dmr_idle e s)) = pkts \<and> dt_parrotFramesReady (dmr_of (dmr_idle e s)) \<and> True \<and>
        map opened out = map (\<lambda>q. Some (p_addr (the (m_peers s q)), q, streamId,
                                  (NET_FUNC_PROTOCOL, NET_PROTOCOL_SUBFUNC_DMR), seq, buffer)) (peer_walk e s)"
    using o k r f unfolding i by (intro exI [of _ out]) simp
qed

text \<open>Calls only touch the handler's own state and the flag.\<close>

lemma call_fields:
  assumes "call_control data streamId s = Some s'"
  shows "m_ridLookup s' = m_ridLookup s" "m_tidLookup s' = m_tidLookup s" "m_peers s' = m_peers s" "m_password s' = m_password s"
    "m_sent s' = m_sent s" "queued s' = queued s" "t_upstream (m_tags s') = t_upstream (m_tags s)"
  using assms
  by (auto simp: call_control_def start_call_def end_call_def Let_def split: if_splits option.splits)

section \<open>Repeating\<close>

text \<open>The lookup hands out copies without rewrites, so nothing is ever rewritten on the way out.\<close>

lemma no_outbound_rewrite [simp]: "routeRewrite mem rules buffer p d dataType dstId slotNo True = Some buffer"
  by (simp add: routeRewrite_def peerRewrite_def)

lemma repeat_upstream_eq:
  "repeat_upstream mem rules d buffer dataType dstId slotNo seq streamId e n =
     Some (if isPeerPermitted rules (m_peerId n) d
           then snd (writeMaster e (NET_FUNC_PROTOCOL, NET_PROTOCOL_SUBFUNC_DMR) buffer seq streamId True n) else n)"
  by (simp add: repeat_upstream_def)

definition dmr_upstream :: "'e tag_env_scheme \<Rightarrow> dmr_data \<Rightarrow> bytes \<Rightarrow> u16 \<Rightarrow> u32 \<Rightarrow> tg_rules \<Rightarrow> nat \<Rightarrow> base_net \<Rightarrow> base_net" where
  "dmr_upstream e d buffer seq streamId rules i n =
     (if isPeerPermitted rules (m_peerId n) d
      then snd (writeMaster (env_upstream e i) (NET_FUNC_PROTOCOL, NET_PROTOCOL_SUBFUNC_DMR) buffer seq streamId True n) else n)"

lemma dmr_each_upstream:
  "each_upstream (\<lambda>i. repeat_upstream mem rules d buffer dt dst slot seq streamId (env_upstream e i)) 0 ns =
     Some (map (\<lambda>(i, n). dmr_upstream e d buffer seq streamId rules i n) (zip [0..<length ns] ns))"
  using each_upstream_total [of "\<lambda>i. repeat_upstream mem rules d buffer dt dst slot seq streamId (env_upstream e i)"
      "dmr_upstream e d buffer seq streamId rules" 0 ns]
  by (simp add: repeat_upstream_eq dmr_upstream_def)

text \<open>The state the loops start from: the frame recorded, if it is for the parrot.\<close>

definition recorded :: "tags fne \<Rightarrow> bytes \<Rightarrow> bytes \<Rightarrow> u16 \<Rightarrow> u32 \<Rightarrow> tags fne" where
  "recorded s data buffer seq streamId =
     (if m_parrot (m_config (tg_find (frame_dst data) 0 (m_tidLookup s)))
      then upd_dmr (\<lambda>t. t\<lparr>dt_parrotFrames := dt_parrotFrames t @ [(buffer, seq, streamId)]\<rparr>) s else s)"

lemma recorded_fields [simp]:
  "m_tidLookup (recorded s data buffer seq i) = m_tidLookup s" "m_ridLookup (recorded s data buffer seq i) = m_ridLookup s"
  "m_peers (recorded s data buffer seq i) = m_peers s" "m_password (recorded s data buffer seq i) = m_password s"
  "m_sent (recorded s data buffer seq i) = m_sent s" "queued (recorded s data buffer seq i) = queued s"
  "t_upstream (m_tags (recorded s data buffer seq i)) = t_upstream (m_tags s)"
  "peer_walk e (recorded s data buffer seq i) = peer_walk e s" "peers_view (recorded s data buffer seq i) = peers_view s"
  "dt_status (dmr_of (recorded s data buffer seq i)) = dt_status (dmr_of s)"
  by (simp_all add: recorded_def peer_walk_def peers_view_def fun_eq_iff)

lemma repeat_frame_eq:
  "repeat_frame e d data buffer p seq streamId s = relay e (repeat_to e d buffer p seq streamId)
     (m_parrot (m_config (tg_find (frame_dst data) 0 (m_tidLookup s))))
     (\<lambda>i. repeat_upstream (env_mem e) (m_tidLookup s) d buffer (frame_type data) (frame_dst data) (frame_slot data)
            seq streamId (env_upstream e i)) (recorded s data buffer seq streamId)"
  unfolding repeat_frame_def Let_def recorded_def [symmetric] by simp

lemma repeat_frame_effect:
  assumes "repeat_frame e d data buffer p seq streamId s = Some s'"
  shows "queued s' = []" "m_peers s' = m_peers s" "m_password s' = m_password s" "peers_view s' = peers_view s"
    "dt_status (dmr_of s') = dt_status (dmr_of s)"
    "\<not> m_parrot (m_config (tg_find (frame_dst data) 0 (m_tidLookup s))) \<Longrightarrow> t_upstream (m_tags s') =
       map (\<lambda>(i, n). dmr_upstream e d buffer seq streamId (m_tidLookup s) i n) (zip [0..<length (t_upstream (m_tags s))] (t_upstream (m_tags s)))"
    "queued s = [] \<Longrightarrow> length buffer \<le> 8160 \<Longrightarrow> streamId \<noteq> 0 \<Longrightarrow> \<exists>out. m_sent s' = m_sent s @ out \<and>
       map opened out = map (\<lambda>q. Some (p_addr (the (m_peers s q)), q, streamId, (NET_FUNC_PROTOCOL, NET_PROTOCOL_SUBFUNC_DMR), seq, buffer))
         (filter (\<lambda>q. q \<noteq> p \<and> isPeerPermitted (m_tidLookup s) q d) (peer_walk e s))"
proof -
  let ?t = "recorded s data buffer seq streamId" and ?parrot = "m_parrot (m_config (tg_find (frame_dst data) 0 (m_tidLookup s)))"
  have r: "relay e (repeat_to e d buffer p seq streamId) ?parrot
      (\<lambda>i. repeat_upstream (env_mem e) (m_tidLookup s) d buffer (frame_type data) (frame_dst data) (frame_slot data)
             seq streamId (env_upstream e i)) ?t = Some s'"
    using assms by (simp only: repeat_frame_eq)
  note eff = relay_effect [OF r dmr_repeater.fold_keeps dmr_repeater.fold_no_send, simplified]
  show "queued s' = []" "m_peers s' = m_peers s" "m_password s' = m_password s" "peers_view s' = peers_view s"
    "dt_status (dmr_of s') = dt_status (dmr_of s)"
    using eff by simp_all
  show "t_upstream (m_tags s') = map (\<lambda>(i, n). dmr_upstream e d buffer seq streamId (m_tidLookup s) i n)
      (zip [0..<length (t_upstream (m_tags s))] (t_upstream (m_tags s)))" if "\<not> ?parrot"
    using eff(11) that unfolding dmr_each_upstream by simp
  assume a: "queued s = []" "length buffer \<le> 8160" "streamId \<noteq> 0"
  have w: "\<forall>q \<in> set (peer_walk e s). m_peers ?t q \<noteq> None" by (simp add: peer_walk_def)
  show "\<exists>out. m_sent s' = m_sent s @ out \<and>
       map opened out = map (\<lambda>q. Some (p_addr (the (m_peers s q)), q, streamId, (NET_FUNC_PROTOCOL, NET_PROTOCOL_SUBFUNC_DMR), seq, buffer))
         (filter (\<lambda>q. q \<noteq> p \<and> isPeerPermitted (m_tidLookup s) q d) (peer_walk e s))"
    using dmr_repeater.fold_sends [OF a(2,3) w, of e d p seq] eff(1) a(1) by (simp add: dmr_repeater.receivers_def)
qed

lemma repeat_frame_returns: "\<exists>s'. repeat_frame e d data buffer p seq streamId s = Some s'"
  unfolding repeat_frame_eq by (rule relay_returns [OF dmr_repeater.fold_keeps]) (simp add: dmr_each_upstream)

lemma processFrame_cases:
  assumes "dmr_processFrame e data p seq streamId False s = Some (ok, s')"
  shows "\<not> ok \<and> s' = s \<and> (frame_accepted s p (frame_of (env_mem e) data) \<longrightarrow> call_control data streamId s = None) \<or>
         ok \<and> frame_accepted s p (frame_of (env_mem e) data) \<and>
         (\<exists>t. call_control data streamId s = Some t \<and>
              repeat_frame e (frame_of (env_mem e) data) data data p seq streamId t = Some s')"
  using assms by (auto simp: dmr_processFrame_def Let_def bind_eq_Some_conv split: if_splits option.splits)

text \<open>
  C10. An accepted frame goes out once, unchanged, with its own sequence number and stream, to every
  peer of the table but its source that the permissions of the frame's talkgroup allow, in the
  order of the walk, and to nobody when the handler refuses it.
\<close>

theorem dmr_frame_repeated:
  assumes "dmr_processFrame e data p seq streamId False s = Some (ok, s')"
    and "queued s = []" "length data \<le> 8160" "streamId \<noteq> 0"
  shows "\<exists>out. m_sent s' = m_sent s @ out \<and> queued s' = [] \<and>
           ok = (frame_accepted s p (frame_of (env_mem e) data) \<and> call_control data streamId s \<noteq> None) \<and>
           map opened out = (if ok then map (\<lambda>q. Some (p_addr (the (m_peers s q)), q, streamId,
               (NET_FUNC_PROTOCOL, NET_PROTOCOL_SUBFUNC_DMR), seq, data))
               (filter (\<lambda>q. q \<noteq> p \<and> isPeerPermitted (m_tidLookup s) q (frame_of (env_mem e) data)) (peer_walk e s)) else [])"
proof (cases ok)
  case False
  then show ?thesis using processFrame_cases [OF assms(1)] assms(2) by auto
next
  case True
  let ?d = "frame_of (env_mem e) data"
  obtain t where t: "frame_accepted s p ?d" "call_control data streamId s = Some t"
    "repeat_frame e ?d data data p seq streamId t = Some s'"
    using processFrame_cases [OF assms(1)] True by auto
  note k = call_fields [OF t(2)]
  have "queued t = []" using k(6) assms(2) by simp
  from repeat_frame_effect(7) [OF t(3) this assms(3,4)] obtain out where "m_sent s' = m_sent t @ out"
    "map opened out = map (\<lambda>q. Some (p_addr (the (m_peers t q)), q, streamId, (NET_FUNC_PROTOCOL, NET_PROTOCOL_SUBFUNC_DMR), seq, data))
       (filter (\<lambda>q. q \<noteq> p \<and> isPeerPermitted (m_tidLookup t) q ?d) (peer_walk e t))" by blast
  then show ?thesis
    using repeat_frame_effect(1) [OF t(3)] k t(1,2) True by (auto simp: peer_walk_def)
qed

lemma call_control_any_rules: "call_control data streamId (s\<lparr>m_tidLookup := rules\<rparr>) = None \<longleftrightarrow> call_control data streamId s = None"
  by (auto simp: call_control_def start_call_def end_call_def upd_dmr_def Let_def split: option.splits)

lemma no_rules_for_calls:
  assumes "d_dataType d \<noteq> DT_VOICE_PI_HEADER" "d_dataType d \<noteq> DT_CSBK"
  shows "isPeerPermitted rules q d" "validate rids rules d = (\<not> rid_refused rids (d_srcId d))"
  using assms by (simp_all add: isPeerPermitted_def validate_def FLCO_GROUP_def FLCO_PRIVATE_def DT_VOICE_PI_HEADER_def DT_CSBK_def)

lemma frame_of_src [simp]: "d_srcId (frame_of mem data) = frame_src data"
  by (simp add: frame_of_def dmr_setData_def Let_def)

text \<open>
  C23. Talkgroup rules do not stop calls: the tests compare the data type of the frame, which is not a link
  control opcode, with the two opcodes.  A frame that is no privacy header and no CSBK, from a radio the radio
  table does not refuse and not in collision with a running call, is accepted and sent to every peer but its
  source under whatever rules: inactive, for the other slot, or with the peer on the exclusion list.
\<close>

theorem talkgroup_rules_ignored:
  assumes "d_dataType (frame_of (env_mem e) data) \<notin> {DT_VOICE_PI_HEADER, DT_CSBK}" "\<not> rid_refused (m_ridLookup s) (frame_src data)"
    and "call_control data streamId s \<noteq> None" "53 \<le> length data" "length data \<le> 8160" "streamId \<noteq> 0" "queued s = []"
  shows "\<exists>s' out. dmr_processFrame e data p seq streamId False (s\<lparr>m_tidLookup := rules\<rparr>) = Some (True, s') \<and>
     m_sent s' = m_sent s @ out \<and>
     map opened out = map (\<lambda>q. Some (p_addr (the (m_peers s q)), q, streamId, (NET_FUNC_PROTOCOL, NET_PROTOCOL_SUBFUNC_DMR), seq, data))
       (filter (\<lambda>q. q \<noteq> p) (peer_walk e s))"
proof -
  let ?d = "frame_of (env_mem e) data" and ?s = "s\<lparr>m_tidLookup := rules\<rparr>"
  have permitted: "isPeerPermitted r q ?d" "frame_accepted ?s p ?d" for r q
    using assms(1,2) no_rules_for_calls [of ?d] by (simp_all add: frame_accepted_def)
  obtain t where t: "call_control data streamId ?s = Some t" using assms(3) call_control_any_rules by fastforce
  note k = call_fields [OF t]
  obtain s' where r: "repeat_frame e ?d data data p seq streamId t = Some s'" using repeat_frame_returns by blast
  have "queued t = []" using k(6) assms(7) by (simp add: queued_def)
  then show ?thesis
    using repeat_frame_effect(7) [OF r _ assms(5,6)] k(3,5) r t permitted assms(4)
    by (auto simp: dmr_processFrame_def Let_def DMR_FRAME_LENGTH_BYTES_def peer_walk_def)
qed

section \<open>Calls\<close>

definition status_ok :: "(u32 \<times> dmr_rx_status) list \<Rightarrow> bool" where
  "status_ok st \<longleftrightarrow> distinct (map fst st) \<and> list_all (\<lambda>(k, x). rx_dstId x = k) st"

lemma status_find_ok:
  assumes "status_ok st"
  shows "status_find dst slot st =
     (case map_of st dst of None \<Rightarrow> None | Some x \<Rightarrow> if ucast (rx_slotNo x) = slot then Some x else None)"
  using assms
proof (induction st)
  case Nil
  then show ?case by (simp add: status_find_def)
next
  case (Cons a st)
  obtain k x where a: "a = (k, x)" by (cases a)
  have ok: "status_ok st" "rx_dstId x = k" "k \<notin> fst ` set st" using Cons.prems by (auto simp: status_ok_def a)
  have "map_of st k = None" using ok(3) by (simp add: map_of_eq_None_iff)
  then show ?case using Cons.IH [OF ok(1)] ok(2) by (auto simp: status_find_def a)
qed

lemma status_ok_update:
  assumes "status_ok st" "rx_dstId x = k"
  shows "status_ok (AList.update k x st)"
proof -
  have "list_all (\<lambda>(k, x). rx_dstId x = k) (AList.update k x st)"
    using assms by (induction st) (auto simp: status_ok_def)
  then show ?thesis using assms(1) by (simp add: status_ok_def distinct_update)
qed

lemma status_ok_delete: "status_ok st \<Longrightarrow> status_ok (AList.delete k st)"
  by (auto simp: status_ok_def list_all_iff AList.delete_eq distinct_map_filter)

text \<open>The frames that leave the call to \<open>dst\<close> on \<open>slot\<close> alone.\<close>

definition undisturbed :: "u32 \<Rightarrow> u32 \<Rightarrow> bytes \<Rightarrow> bool" where
  "undisturbed dst slot data \<longleftrightarrow> frame_dst data \<noteq> dst \<or> \<not> frame_sync data \<or>
     (frame_type data \<noteq> DT_TERMINATOR_WITH_LC \<and> frame_type data \<noteq> DT_VOICE_LC_HEADER) \<or>
     (frame_type data = DT_TERMINATOR_WITH_LC \<and> frame_slot data \<noteq> slot) \<or>
     (frame_type data = DT_VOICE_LC_HEADER \<and> frame_slot data = slot)"

lemma call_control_keeps_call:
  assumes "status_ok (dt_status (dmr_of s))" "map_of (dt_status (dmr_of s)) dst = Some x"
    and "undisturbed dst (ucast (rx_slotNo x)) data" "call_control data streamId s = Some s'"
  shows "status_ok (dt_status (dmr_of s')) \<and> map_of (dt_status (dmr_of s')) dst = Some x"
proof -
  have ne: "DT_TERMINATOR_WITH_LC \<noteq> DT_VOICE_LC_HEADER" by (simp add: DT_TERMINATOR_WITH_LC_def DT_VOICE_LC_HEADER_def)
  have e: "status_ok (dt_status (dmr_of (end_call k sl t)))" if "status_ok (dt_status (dmr_of t))" for k sl t
    using that by (auto simp: end_call_def Let_def status_ok_delete)
  have s: "status_ok (dt_status (dmr_of t'))" if "status_ok (dt_status (dmr_of t))" "start_call a b c i t = Some t'" for a b c i t t'
    using that by (auto simp: start_call_def Let_def status_ok_update split: option.splits if_splits)
  show ?thesis
  proof (cases "frame_sync data \<and> frame_type data = DT_TERMINATOR_WITH_LC")
    case True
    then have s': "s' = end_call (frame_dst data) (frame_slot data) s" using assms(4) ne by (simp add: call_control_def)
    have "frame_dst data \<noteq> dst \<or> frame_slot data \<noteq> ucast (rx_slotNo x)" using assms(3) True ne by (auto simp: undisturbed_def)
    then have "map_of (dt_status (dmr_of s')) dst = Some x"
      using assms(2) status_find_ok [OF assms(1), of "frame_dst data" "frame_slot data"] unfolding s'
      by (auto simp: end_call_def Let_def delete_conv')
    then show ?thesis using e [OF assms(1)] s' by simp
  next
    case False
    show ?thesis
    proof (cases "frame_sync data \<and> frame_type data = DT_VOICE_LC_HEADER")
      case True
      then have s': "start_call (frame_src data) (frame_dst data) (frame_slot data) streamId s = Some s'"
        using assms(4) ne by (simp add: call_control_def)
      have d: "frame_dst data \<noteq> dst \<or> frame_slot data = ucast (rx_slotNo x)" using assms(3) True ne by (auto simp: undisturbed_def)
      have "map_of (dt_status (dmr_of s')) dst = Some x"
      proof (cases "status_find (frame_dst data) (frame_slot data) (dt_status (dmr_of s))")
        case None
        then have "frame_dst data \<noteq> dst" using d assms(2) status_find_ok [OF assms(1), of "frame_dst data" "frame_slot data"] by auto
        then show ?thesis using s' None assms(2) by (auto simp: start_call_def Let_def update_conv')
      next
        case (Some y)
        then show ?thesis using s' assms(2) by (auto simp: start_call_def split: if_splits)
      qed
      then show ?thesis using s [OF assms(1) s'] by simp
    next
      case no_header: False
      then have "s' = s" using False assms(4) by (auto simp: call_control_def Let_def split: if_splits)
      then show ?thesis using assms(1,2) by simp
    qed
  qed
qed


text \<open>A run of the handler: frames with their environment, source, sequence number and stream.\<close>

type_synonym arrival = "bytes \<times> u32 \<times> u16 \<times> u32 \<times> bool"

fun dmr_run :: "'e tag_env_scheme \<Rightarrow> arrival list \<Rightarrow> tags fne \<Rightarrow> tags fne option" where
  "dmr_run e [] s = Some s"
| "dmr_run e ((data, p, seq, streamId, fromPeer) # fs) s =
     Option.bind (dmr_processFrame e data p seq streamId fromPeer s) (\<lambda>(ok, s). dmr_run e fs s)"

lemma process_keeps_call:
  assumes "status_ok (dt_status (dmr_of s))" "map_of (dt_status (dmr_of s)) dst = Some x"
    and "undisturbed dst (ucast (rx_slotNo x)) data" "dmr_processFrame e data p seq streamId fromPeer s = Some (ok, s')"
  shows "status_ok (dt_status (dmr_of s')) \<and> map_of (dt_status (dmr_of s')) dst = Some x"
proof -
  have "s' = s \<or> (\<exists>t buffer. call_control data streamId s = Some t \<and>
      repeat_frame e (frame_of (env_mem e) data) data buffer p seq streamId t = Some s')"
    using assms(4) by (auto simp: dmr_processFrame_def Let_def bind_eq_Some_conv split: if_splits option.splits)
  then show ?thesis
    using assms(1,2) call_control_keeps_call [OF assms(1-3)] repeat_frame_effect(5) by metis
qed

lemma run_keeps_call:
  assumes "status_ok (dt_status (dmr_of s))" "map_of (dt_status (dmr_of s)) dst = Some x"
    and "\<forall>f \<in> set fs. undisturbed dst (ucast (rx_slotNo x)) (fst f)" "dmr_run e fs s = Some s'"
  shows "status_ok (dt_status (dmr_of s')) \<and> map_of (dt_status (dmr_of s')) dst = Some x"
  using assms
proof (induction e fs s arbitrary: rule: dmr_run.induct)
  case (2 e data p seq streamId fromPeer fs s)
  obtain ok t where t: "dmr_processFrame e data p seq streamId fromPeer s = Some (ok, t)" "dmr_run e fs t = Some s'"
    using "2.prems"(4) by (auto simp: bind_eq_Some_conv)
  have "undisturbed dst (ucast (rx_slotNo x)) data" using "2.prems"(3) by simp
  note k = process_keeps_call [OF "2.prems"(1,2) this t(1)]
  show ?case by (rule "2.IH" [OF t(1) refl]) (use k t(2) "2.prems"(3) in auto)
qed simp

text \<open>
  C20. The talker keeps the call: while the call to a destination is recorded for a radio, and as long as
  neither a terminator for that destination on the slot of the call nor a header for it on the other slot arrives
  (\<open>undisturbed\<close>; the table has one entry for each destination, so such a header replaces the talker), a header of
  another radio in another stream on the slot is refused and changes nothing, whatever else arrives in between.
\<close>

theorem dmr_talker_keeps_call:
  assumes "status_ok (dt_status (dmr_of s))" "map_of (dt_status (dmr_of s)) dst = Some x" "rx_srcId x \<noteq> 0"
    and "\<forall>f \<in> set fs. undisturbed dst (ucast (rx_slotNo x)) (fst f)" "dmr_run e fs s = Some s'"
    and "53 \<le> length data" "frame_sync data" "frame_type data = DT_VOICE_LC_HEADER" "frame_dst data = dst"
    and "frame_slot data = ucast (rx_slotNo x)" "frame_src data \<noteq> rx_srcId x" "streamId \<noteq> rx_streamId x"
  shows "dmr_processFrame e data p seq streamId False s' = Some (False, s')"
proof -
  note k = run_keeps_call [OF assms(1,2,4,5)]
  have ne: "DT_VOICE_LC_HEADER \<noteq> DT_TERMINATOR_WITH_LC" by (simp add: DT_TERMINATOR_WITH_LC_def DT_VOICE_LC_HEADER_def)
  have "status_find dst (frame_slot data) (dt_status (dmr_of s')) = Some x"
    using k assms(10) by (simp add: status_find_ok)
  then have "call_control data streamId s' = None"
    using assms(3,7-12) ne by (simp add: call_control_def start_call_def)
  then show ?thesis using assms(6) by (simp add: dmr_processFrame_def Let_def DMR_FRAME_LENGTH_BYTES_def)
qed

text \<open>
  C21. The parrot answers: tick by tick of the idle clock, the next recorded frame, and only that one, goes
  out to every peer, with its sequence number and stream; when all have been played nothing is sent any more.
\<close>

theorem dmr_parrot_plays_back:
  assumes "dt_parrotFramesReady (dmr_of s)" "queued s = []"
    and "\<forall>(buffer, seq, streamId) \<in> set (dt_parrotFrames (dmr_of s)). length buffer \<le> 8160 \<and> streamId \<noteq> 0"
  shows "dt_parrotFrames (dmr_of ((dmr_idle e ^^ n) s)) = drop n (dt_parrotFrames (dmr_of s)) \<and>
    (if n < length (dt_parrotFrames (dmr_of s))
     then \<exists>out. m_sent ((dmr_idle e ^^ Suc n) s) = m_sent ((dmr_idle e ^^ n) s) @ out \<and>
       map opened out = (case dt_parrotFrames (dmr_of s) ! n of (buffer, seq, streamId) \<Rightarrow>
         map (\<lambda>q. Some (p_addr (the (m_peers s q)), q, streamId, (NET_FUNC_PROTOCOL, NET_PROTOCOL_SUBFUNC_DMR), seq, buffer)) (peer_walk e s))
     else (dmr_idle e ^^ Suc n) s = (dmr_idle e ^^ n) s)"
proof -
  have "dmr_parrot.playable e s" using assms by (auto simp: dmr_parrot.playable_def)
  from dmr_parrot.playback [OF this, of n] dmr_parrot.one_frame_each_tick [OF this, of n]
  show ?thesis by (simp only: dmr_parrot.played_def)
qed


section \<open>Upstream\<close>

lemma no_inbound_rewrite:
  assumes "list_all (\<lambda>r. m_rewrite (m_config r) = []) rules"
  shows "routeRewrite mem rules buffer p d dataType dstId slotNo False = Some buffer"
proof -
  have "m_rewrite (m_config (rule_assign new_tg_rule new_tg_rule)) = []"
    by (simp add: rule_assign_def config_assign_def new_tg_rule_def new_tg_config_def)
  then show ?thesis using assms by (simp add: routeRewrite_def peerRewrite_def tg_findByRewrite_def)
qed

text \<open>
  A frame from an upstream network goes back to the network it came from, and what is repeated
  upstream is not sent: it waits in that network's queue, which the handler never flushes.
\<close>

theorem dmr_upstream_echo_waits:
  assumes "dmr_processFrame e data p seq streamId True s = Some (True, s')"
    and "queued s = []" "length data \<le> 8160" "streamId \<noteq> 0" "list_all (\<lambda>r. m_rewrite (m_config r) = []) (m_tidLookup s)"
    and "\<not> m_parrot (m_config (tg_find (frame_dst data) 0 (m_tidLookup s)))"
    and "i < length (t_upstream (m_tags s))" "n = t_upstream (m_tags s) ! i" "m_peerId n = p"
  shows "\<exists>d n'. t_upstream (m_tags s') ! i = n' \<and> queued n' = queued n @ [d] \<and> m_sent n' = m_sent n \<and>
           opened d = Some (m_addr n, p, streamId, (NET_FUNC_PROTOCOL, NET_PROTOCOL_SUBFUNC_DMR), seq, data)"
proof -
  let ?d = "frame_of (env_mem e) data"
  obtain t where t: "frame_accepted s p ?d" "call_control data streamId s = Some t"
    "repeat_frame e ?d data data p seq streamId t = Some s'"
    using assms(1) by (auto simp: dmr_processFrame_def Let_def bind_eq_Some_conv no_inbound_rewrite [OF assms(5)]
        split: if_splits option.splits)
  note k = call_fields [OF t(2)]
  have "t_upstream (m_tags s') = map (\<lambda>(i, n). dmr_upstream e ?d data seq streamId (m_tidLookup t) i n)
      (zip [0..<length (t_upstream (m_tags t))] (t_upstream (m_tags t)))"
    using repeat_frame_effect(6) [OF t(3)] assms(6) k(2) by simp
  then have "t_upstream (m_tags s') ! i = dmr_upstream e ?d data seq streamId (m_tidLookup t) i n" using assms(7,8) k(7) by simp
  also have "\<dots> = snd (writeMaster (env_upstream e i) (NET_FUNC_PROTOCOL, NET_PROTOCOL_SUBFUNC_DMR) data seq streamId True n)"
    using t(1) assms(9) k(2) by (simp add: dmr_upstream_def frame_accepted_def)
  finally show ?thesis
    using writeMaster_queued [OF assms(3), of "(NET_FUNC_PROTOCOL, NET_PROTOCOL_SUBFUNC_DMR)" "env_upstream e i" seq streamId n] assms(9)
    by auto
qed

section \<open>The handler in the FNE\<close>

lemma dmr_keeps_logins: "keeps_logins (on_dmr_frame e data p seq streamId)"
proof -
  show ?thesis
    unfolding keeps_logins_def on_dmr_frame_def
  proof (intro allI impI)
    fix s s' assume "map_option snd (dmr_processFrame e data p seq streamId False s) = Some s'"
    then obtain ok where o: "dmr_processFrame e data p seq streamId False s = Some (ok, s')" by auto
    show "peers_view s' = peers_view s \<and> m_password s' = m_password s"
      using processFrame_cases [OF o] repeat_frame_effect(3,4) call_fields(3,4) by (fastforce simp: peers_view_def fun_eq_iff)
  qed
qed

lemma dmr_idle_keeps_logins: "peers_view (dmr_idle e s) = peers_view s" "m_password (dmr_idle e s) = m_password s"
proof -
  have p: "peers_view (upd_dmr f t) = peers_view t" for f t by (simp add: upd_dmr_def peers_view_def fun_eq_iff)
  show "peers_view (dmr_idle e s) = peers_view s" "m_password (dmr_idle e s) = m_password s"
    by (simp_all add: dmr_idle_def playbackParrot_def p fields_ofD(5,6) [OF play_fields] split: list.split)
qed

section \<open>Examples\<close>

definition sample_voice :: bytes where "sample_voice = replicate 53 0"

lemma sample_voice_frame: "frame_of mem sample_voice = (frame_of mem sample_voice)\<lparr>d_dataType := DT_VOICE\<rparr>" "\<not> frame_sync sample_voice"
  "frame_dst sample_voice = 0" "d_srcId (frame_of mem sample_voice) = 0"
  by (simp_all add: sample_voice_def frame_of_def frame_sync_def frame_dst_def frame_src_def GET_UINT16_def Let_def dmr_setData_def)

lemma sample_voice_accepted: "frame_accepted (sample_tag_fne [] t) p (frame_of mem sample_voice)" "call_control sample_voice i s = Some s"
proof -
  have d: "d_dataType (frame_of mem sample_voice) = DT_VOICE" using sample_voice_frame(1) [of mem] by (metis dmr_data.select_convs(7) dmr_data.surjective dmr_data.update_convs(7))
  show "frame_accepted (sample_tag_fne [] t) p (frame_of mem sample_voice)"
    using d sample_voice_frame(4) [of mem]
    by (simp add: frame_accepted_def validate_def isPeerPermitted_def sample_tag_fields rid_refused_def rid_find_def RadioId_of_def
        DT_VOICE_def DT_TERMINATOR_WITH_LC_def FLCO_GROUP_def FLCO_PRIVATE_def P25_WUID_ALL_def P25_WUID_FNE_def Let_def)
  show "call_control sample_voice i s = Some s" using sample_voice_frame(2) by (simp add: call_control_def)
qed


lemma sample_voice_processed:
  fixes t :: tags
  defines "s \<equiv> sample_tag_fne [] t"
  shows "\<exists>s'. dmr_processFrame sample_tag_env sample_voice p 1 5 fromPeer s = Some (True, s')"
proof -
  obtain s' where r: "repeat_frame sample_tag_env (frame_of (env_mem sample_tag_env) sample_voice) sample_voice sample_voice p 1 5 s = Some s'"
    using repeat_frame_returns by blast
  have w: "routeRewrite mem (m_tidLookup s) buffer p d dt dst sl False = Some buffer" for mem buffer d dt dst sl
    by (rule no_inbound_rewrite) (simp add: s_def sample_tag_fields)
  have l: "\<not> length sample_voice < 20 + DMR_FRAME_LENGTH_BYTES" by (simp add: sample_voice_def DMR_FRAME_LENGTH_BYTES_def)
  show ?thesis
    using r l sample_voice_accepted(1) [of t p "env_mem sample_tag_env"] sample_voice_accepted(2) [of 5 s]
    by (simp add: dmr_processFrame_def Let_def w s_def [symmetric])
qed

theorem dmr_frame_repeated_witness:
  "\<exists>s' out. dmr_processFrame sample_tag_env sample_voice 7 1 5 False (sample_tag_fne [] sample_tags) = Some (True, s') \<and>
     m_sent s' = m_sent (sample_tag_fne [] sample_tags) @ out \<and>
     map opened out = [Some (p_addr (sample_peer 8), 8, 5, (NET_FUNC_PROTOCOL, NET_PROTOCOL_SUBFUNC_DMR), 1, sample_voice)]"
proof -
  let ?s = "sample_tag_fne [] sample_tags"
  obtain s' where s': "dmr_processFrame sample_tag_env sample_voice 7 1 5 False ?s = Some (True, s')"
    using sample_voice_processed by blast
  have "isPeerPermitted (m_tidLookup ?s) 8 (frame_of (env_mem sample_tag_env) sample_voice)"
    using sample_voice_accepted(1) [of sample_tags 8 "env_mem sample_tag_env"] by (simp add: frame_accepted_def)
  then show ?thesis
    using dmr_frame_repeated [OF s' _ _ _] s' by (auto simp: sample_tag_fields sample_voice_def)
qed

theorem dmr_upstream_echo_waits_witness:
  "\<exists>s' d. dmr_processFrame sample_tag_env sample_voice 9 1 5 True (sample_tag_fne [] sample_tags) = Some (True, s') \<and>
     queued (t_upstream (m_tags s') ! 0) = [d] \<and> map_option (fst \<circ> snd) (opened d) = Some 9"
proof -
  let ?s = "sample_tag_fne [] sample_tags" and ?n = "the (new_base_net sample_net_env 9 True True False False)"
  obtain s' where s': "dmr_processFrame sample_tag_env sample_voice 9 1 5 True ?s = Some (True, s')"
    using sample_voice_processed by blast
  have n: "m_peerId ?n = 9" "queued ?n = []" by (simp_all add: new_base_net_def queued_def)
  have "\<exists>d n'. t_upstream (m_tags s') ! 0 = n' \<and> queued n' = queued ?n @ [d] \<and> m_sent n' = m_sent ?n \<and>
           opened d = Some (m_addr ?n, 9, 5, (NET_FUNC_PROTOCOL, NET_PROTOCOL_SUBFUNC_DMR), 1, sample_voice)"
    by (rule dmr_upstream_echo_waits [OF s'])
      (simp_all add: sample_tag_fields sample_voice_def sample_tags_def n tg_find_def rule_assign_def config_assign_def
        new_tg_rule_def new_tg_config_def)
  then show ?thesis using s' n(2) by auto
qed

definition sample_parrot :: "tags fne" where
  "sample_parrot = sample_tag_fne [] (sample_tags\<lparr>t_dmr := \<lparr>dt_parrotFrames = [([1], 1, 5), ([2], 2, 5)],
     dt_parrotFramesReady = True, dt_status = []\<rparr>\<rparr>)"

theorem dmr_parrot_plays_back_witness:
  "\<exists>out. m_sent (dmr_idle sample_tag_env (dmr_idle sample_tag_env sample_parrot)) = m_sent (dmr_idle sample_tag_env sample_parrot) @ out \<and>
     map opened out = map (\<lambda>q. Some (p_addr (sample_peer q), q, 5, (NET_FUNC_PROTOCOL, NET_PROTOCOL_SUBFUNC_DMR), 2, [2])) [7, 8]"
proof -
  have f: "dt_parrotFramesReady (dmr_of sample_parrot)" "queued sample_parrot = []"
    "dt_parrotFrames (dmr_of sample_parrot) = [([1], 1, 5), ([2], 2, 5)]" "m_peers sample_parrot = [7 \<mapsto> sample_peer 7, 8 \<mapsto> sample_peer 8]"
    "peer_walk sample_tag_env sample_parrot = [7, 8]"
    by (simp_all add: sample_parrot_def sample_tag_fields)
  show ?thesis using dmr_parrot_plays_back [of sample_parrot 1 sample_tag_env] f by simp
qed


definition sample_header :: bytes where
  "sample_header = (replicate 53 0)[7 := 2, 10 := 91, 15 := 0x21]"

lemma sample_header_fields:
  "length sample_header = 53" "frame_sync sample_header" "frame_type sample_header = DT_VOICE_LC_HEADER" "frame_dst sample_header = 91"
  "frame_slot sample_header = 1" "frame_src sample_header = 2"
  by (simp_all add: sample_header_def frame_sync_def frame_type_def frame_dst_def frame_slot_def frame_src_def
      GET_UINT16_def DT_VOICE_LC_HEADER_def)

text \<open>The rule for talkgroup 91: switched off, and peer 8 is excluded.\<close>

definition sample_ban :: tg_rule where
  "sample_ban = new_tg_rule\<lparr>m_config := new_tg_config\<lparr>m_exclusion := [8]\<rparr>, m_source := \<lparr>m_tgId = 91, m_tgSlot = 1\<rparr>\<rparr>"

theorem talkgroup_rules_ignored_witness:
  "\<not> tg_permits (tg_find 91 1 [sample_ban]) 8 \<and> \<not> m_active (m_config (tg_find 91 1 [sample_ban])) \<and>
   (\<exists>s' out. dmr_processFrame sample_tag_env sample_header 7 1 5 False ((sample_tag_fne [] sample_tags)\<lparr>m_tidLookup := [sample_ban]\<rparr>) =
      Some (True, s') \<and> m_sent s' = m_sent (sample_tag_fne [] sample_tags) @ out \<and>
      map opened out = [Some (p_addr (sample_peer 8), 8, 5, (NET_FUNC_PROTOCOL, NET_PROTOCOL_SUBFUNC_DMR), 1, sample_header)])"
proof -
  let ?s = "sample_tag_fne [] sample_tags"
  have d: "d_dataType (frame_of mem sample_header) = DT_VOICE_LC_HEADER" for mem
    using sample_header_fields(2,3) by (simp add: frame_of_def Let_def)
  have r: "\<not> rid_refused (m_ridLookup ?s) 2"
    by (simp add: sample_tag_fields rid_refused_def rid_find_def RadioId_of_def P25_WUID_ALL_def P25_WUID_FNE_def Let_def)
  have c: "call_control sample_header 5 ?s \<noteq> None"
    by (simp add: call_control_def start_call_def sample_header_fields sample_tag_fields sample_tags_def status_find_def
        DT_TERMINATOR_WITH_LC_def DT_VOICE_LC_HEADER_def Let_def)
  have "\<not> tg_permits (tg_find 91 1 [sample_ban]) 8 \<and> \<not> m_active (m_config (tg_find 91 1 [sample_ban]))"
    by (simp add: tg_permits_def tg_find_def sample_ban_def rule_assign_def config_assign_def new_tg_rule_def new_tg_config_def
        tg_matches_def)
  then show ?thesis
    using talkgroup_rules_ignored [of sample_tag_env sample_header ?s 5 7 1 "[sample_ban]"] r c d
    by (simp add: sample_header_fields sample_tag_fields DT_VOICE_LC_HEADER_def DT_VOICE_PI_HEADER_def DT_CSBK_def)
qed

theorem dmr_talker_keeps_call_witness:
  "\<exists>s s'. s = sample_tag_fne [] (sample_tags\<lparr>t_dmr := \<lparr>dt_parrotFrames = [], dt_parrotFramesReady = False,
        dt_status = [(91, \<lparr>rx_srcId = 1, rx_dstId = 91, rx_streamId = 5, rx_slotNo = 1\<rparr>)]\<rparr>\<rparr>) \<and>
     dmr_run sample_tag_env [(sample_voice, 7, 1, 5, False)] s = Some s' \<and>
     dmr_processFrame sample_tag_env sample_header 8 1 6 False s' = Some (False, s')"
proof -
  let ?x = "\<lparr>rx_srcId = 1, rx_dstId = 91, rx_streamId = 5, rx_slotNo = 1\<rparr> :: dmr_rx_status"
  let ?s = "sample_tag_fne [] (sample_tags\<lparr>t_dmr := \<lparr>dt_parrotFrames = [], dt_parrotFramesReady = False, dt_status = [(91, ?x)]\<rparr>\<rparr>)"
  have f: "dt_status (dmr_of ?s) = [(91, ?x)]" by (simp add: sample_tag_fields)
  obtain s' where "dmr_processFrame sample_tag_env sample_voice 7 1 5 False ?s = Some (True, s')"
    using sample_voice_processed by blast
  then have r: "dmr_run sample_tag_env [(sample_voice, 7, 1, 5, False)] ?s = Some s'" by simp
  have "dmr_processFrame sample_tag_env sample_header 8 1 6 False s' = Some (False, s')"
    by (rule dmr_talker_keeps_call [where s = ?s and x = ?x and dst = 91 and fs = "[(sample_voice, 7, 1, 5, False)]", OF _ _ _ _ r])
      (simp_all add: f sample_header_fields status_ok_def undisturbed_def sample_voice_frame(3))
  then show ?thesis using r by blast
qed

end
