(* ===== verification/TagP25.thy ===== *)
theory TagP25
  imports FNETraffic
begin

text \<open>
  The P25 traffic of the FNE, \<^verbatim>\<open>src/src/fne/network/fne/TagP25Data.cpp\<close>.  The handler keeps the
  calls of a destination and looks at every voice frame.  \<open>None\<close> is a read or a write past the
  end of a frame that is too short for its kind, or the undefined search of \<open>findByRewrite\<close>.
  Rebuilding a trunking block with another destination is the environment's (\<open>env_tsdu\<close>); the lookup
  never hands out a rewrite that would need it.
\<close>

definition new_p25_tag :: p25_tag where
  "new_p25_tag = \<lparr>pt_parrotFrames = [], pt_parrotFramesReady = False, pt_parrotFirstFrame = True, pt_status = []\<rparr>"

section \<open>A frame\<close>

definition p25_src :: "bytes \<Rightarrow> u32" where "p25_src data = GET_UINT16 data 5"
definition p25_dst :: "bytes \<Rightarrow> u32" where "p25_dst data = GET_UINT16 data 8"
definition p25_duid :: "bytes \<Rightarrow> u8" where "p25_duid data = data ! 22"

text \<open>How many bytes the handler reads before it looks at the call.\<close>

definition p25_needs :: "bytes \<Rightarrow> nat" where
  "p25_needs data =
     (if length data < 23 then 23
      else if p25_duid data \<noteq> P25_DUID_LDU1 then 23
      else if length data < 181 then 181
      else if data ! 180 = P25_FT_HDU_VALID then 184 + P25_MI_LENGTH_BYTES else 181)"

definition p25_control :: "bytes \<Rightarrow> p25_lc" where
  "p25_control data =
     (let control = (if p25_duid data = P25_DUID_LDU1 \<and> data ! 180 = P25_FT_HDU_VALID
                     then new_p25_lc\<lparr>pl_algId := data ! 181, pl_kId := push_bit 8 (ucast (data ! 182)) OR ucast (data ! 183),
                            pl_mi := take P25_MI_LENGTH_BYTES (drop 184 data)\<rparr>
                     else new_p25_lc)
      in control\<lparr>pl_lco := data ! 4, pl_srcId := p25_src data, pl_dstId := p25_dst data, pl_mfId := data ! 15\<rparr>)"

definition p25_terminator :: "u8 \<Rightarrow> bool" where
  "p25_terminator duid = (duid = P25_DUID_TDU \<or> duid = P25_DUID_TDULC)"

definition p25_block :: "u8 \<Rightarrow> bool" where
  "p25_block duid = (duid = P25_DUID_TSDU \<or> duid = P25_DUID_PDU)"

section \<open>Who may send and receive\<close>

definition p25_permitted :: "tg_rules \<Rightarrow> u32 \<Rightarrow> p25_lc \<times> u8 \<Rightarrow> bool" where
  "p25_permitted rules peerId f =
     (let (control, duid) = f
      in if pl_lco control = LC_PRIVATE then True
         else if p25_block duid then True
         else if p25_terminator duid then True
         else tg_permits (tg_find (pl_dstId control) 0 rules) peerId)"

definition p25_validate :: "rid_table \<Rightarrow> tg_rules \<Rightarrow> p25_lc \<Rightarrow> u8 \<Rightarrow> bool" where
  "p25_validate rids rules control duid =
     (if rid_refused rids (pl_srcId control) then False
      else if p25_block duid then True
      else if p25_terminator duid then True
      else if pl_lco control = LC_PRIVATE then \<not> rid_refused rids (pl_dstId control)
      else m_active (m_config (tg_find (pl_dstId control) 0 rules)))"

section \<open>Rewrites\<close>

definition p25_peerRewrite :: "tg_rules \<Rightarrow> u32 \<Rightarrow> u32 \<Rightarrow> bool \<Rightarrow> (bool \<times> u32) option" where
  "p25_peerRewrite rules peerId dstId outbound =
     (case (if outbound then Some (tg_find dstId 0 rules) else tg_findByRewrite peerId dstId 0 rules) of
        None \<Rightarrow> None
      | Some tg \<Rightarrow>
          (case List.find (\<lambda>entry. rw_peerId entry = peerId) (m_rewrite (m_config tg)) of
             None \<Rightarrow> Some (False, dstId)
           | Some entry \<Rightarrow> Some (True, if outbound then m_tgId (m_source tg) else rw_tgId entry)))"

definition p25_routeRewrite ::
  "(bytes \<Rightarrow> u32 \<Rightarrow> bytes option) \<Rightarrow> tg_rules \<Rightarrow> bytes \<Rightarrow> u32 \<Rightarrow> u8 \<Rightarrow> u32 \<Rightarrow> bool \<Rightarrow> bytes option" where
  "p25_routeRewrite tsdu rules buffer peerId duid dstId outbound =
     (if length buffer < 24 then None
      else let frameLength = unat (buffer ! 23)
           in case p25_peerRewrite rules peerId dstId outbound of
                None \<Rightarrow> None
              | Some (rewrote, rewriteDstId) \<Rightarrow>
                  if \<not> rewrote then Some buffer
                  else let buffer = SET_UINT16 rewriteDstId buffer 8
                       in if 24 + frameLength > length buffer then None
                          else if duid = P25_DUID_TSDU
                          then case tsdu (take frameLength (drop 24 buffer)) rewriteDstId of
                                 None \<Rightarrow> Some buffer
                               | Some data \<Rightarrow>
                                   if 24 + P25_TSDU_FRAME_LENGTH_BYTES > length buffer then None
                                   else Some (memcpy_at buffer 24 (take P25_TSDU_FRAME_LENGTH_BYTES data))
                          else Some buffer)"

section \<open>Calls\<close>

definition p25_end_call :: "u32 \<Rightarrow> tags fne \<Rightarrow> tags fne" where
  "p25_end_call dstId s =
     (let s = upd_p25 (\<lambda>t. t\<lparr>pt_status := end_status dstId (pt_status t)\<rparr>) s;
          s = (if m_parrot (m_config (tg_find dstId 0 (m_tidLookup s))) \<and> length (pt_parrotFrames (p25_of s)) > 0
               then upd_p25 (\<lambda>t. t\<lparr>pt_parrotFramesReady := True, pt_parrotFirstFrame := True\<rparr>) s else s)
      in s\<lparr>m_callInProgress := False\<rparr>)"

text \<open>The start of a call or the next frame of one; the flag is false for a collision.\<close>

definition p25_start_call :: "u32 \<Rightarrow> u32 \<Rightarrow> u32 \<Rightarrow> tags fne \<Rightarrow> bool \<times> tags fne" where
  "p25_start_call srcId dstId streamId s =
     (let (started, st) = start_status srcId dstId streamId (pt_status (p25_of s))
      in case started of
           Collision \<Rightarrow> (False, upd_p25 (\<lambda>t. t\<lparr>pt_status := st\<rparr>) s)
         | Known_call \<Rightarrow> (True, upd_p25 (\<lambda>t. t\<lparr>pt_status := st\<rparr>) s)
         | New_call \<Rightarrow>
             let s = (if m_parrot (m_config (tg_find dstId 0 (m_tidLookup s)))
                      then upd_p25 (\<lambda>t. t\<lparr>pt_parrotFramesReady := False, pt_parrotFrames := []\<rparr>) s else s);
                 s = upd_p25 (\<lambda>t. t\<lparr>pt_status := st\<rparr>) s
             in (True, s\<lparr>m_callInProgress := True\<rparr>))"

definition p25_call_control :: "bytes \<Rightarrow> u32 \<Rightarrow> tags fne \<Rightarrow> bool \<times> tags fne" where
  "p25_call_control data streamId s =
     (if p25_block (p25_duid data) then (True, s)
      else if p25_terminator (p25_duid data) then (True, p25_end_call (p25_dst data) s)
      else p25_start_call (p25_src data) (p25_dst data) streamId s)"

section \<open>Repeating\<close>

definition p25_repeat_to ::
  "'e fne_env_scheme \<Rightarrow> p25_lc \<times> u8 \<Rightarrow> bytes \<Rightarrow> u32 \<Rightarrow> u16 \<Rightarrow> u32 \<Rightarrow> u32 \<Rightarrow> tags fne \<Rightarrow> tags fne" where
  "p25_repeat_to e f buffer peerId seq streamId peer s =
     (if peer = peerId then s
      else if \<not> p25_permitted (m_tidLookup s) peer f then s
      else let s = snd (writePeerSeq e peer (NET_FUNC_PROTOCOL, NET_PROTOCOL_SUBFUNC_P25) buffer seq streamId True s)
           in s\<lparr>m_callInProgress := True\<rparr>)"

definition p25_upstream ::
  "(bytes \<Rightarrow> u32 \<Rightarrow> bytes option) \<Rightarrow> tg_rules \<Rightarrow> p25_lc \<times> u8 \<Rightarrow> bytes \<Rightarrow> u32 \<Rightarrow> u16 \<Rightarrow> u32 \<Rightarrow> 'e net_env_scheme \<Rightarrow> base_net \<Rightarrow> base_net option" where
  "p25_upstream tsdu rules f buffer dstId seq streamId e n =
     (if \<not> p25_permitted rules (m_peerId n) f then Some n
      else case p25_routeRewrite tsdu rules buffer (m_peerId n) (snd f) dstId True of
             None \<Rightarrow> None
           | Some out \<Rightarrow> Some (snd (writeMaster e (NET_FUNC_PROTOCOL, NET_PROTOCOL_SUBFUNC_P25) out seq streamId True n)))"

definition p25_repeat_frame ::
  "'e tag_env_scheme \<Rightarrow> p25_lc \<times> u8 \<Rightarrow> bytes \<Rightarrow> bytes \<Rightarrow> u32 \<Rightarrow> u16 \<Rightarrow> u32 \<Rightarrow> tags fne \<Rightarrow> tags fne option" where
  "p25_repeat_frame e f data buffer peerId seq streamId s =
     (let parrot = m_parrot (m_config (tg_find (p25_dst data) 0 (m_tidLookup s)));
          s = (if parrot
               then upd_p25 (\<lambda>t. t\<lparr>pt_parrotFrames := pt_parrotFrames t @ [(buffer, seq, streamId, p25_src data, p25_dst data)]\<rparr>) s
               else s)
      in relay e (p25_repeat_to e f buffer peerId seq streamId) parrot
           (\<lambda>i. p25_upstream (env_tsdu e) (m_tidLookup s) f buffer (p25_dst data) seq streamId (env_upstream e i)) s)"

section \<open>The handler\<close>

definition p25_processFrame ::
  "'e tag_env_scheme \<Rightarrow> bytes \<Rightarrow> u32 \<Rightarrow> u16 \<Rightarrow> u32 \<Rightarrow> bool \<Rightarrow> tags fne \<Rightarrow> (bool \<times> tags fne) option" where
  "p25_processFrame e data peerId seq streamId fromPeer s =
     (if length data < p25_needs data then None
      else do {
        let control = p25_control data;
        let duid = p25_duid data;
        buffer \<leftarrow> (if fromPeer
                  then p25_routeRewrite (env_tsdu e) (m_tidLookup s) data peerId duid (p25_dst data) False
                  else Some data);
        if \<not> (p25_validate (m_ridLookup s) (m_tidLookup s) control duid \<and> p25_permitted (m_tidLookup s) peerId (control, duid))
        then Some (False, s)
        else (case p25_call_control data streamId s of
                (False, s) \<Rightarrow> Some (False, s)
              | (True, s) \<Rightarrow> do {
                  s \<leftarrow> p25_repeat_frame e (control, duid) data buffer peerId seq streamId s;
                  Some (True, s)
                })
      })"

definition p25_hasParrotFrames :: "p25_tag \<Rightarrow> bool" where
  "p25_hasParrotFrames t = (pt_parrotFramesReady t \<and> pt_parrotFrames t \<noteq> [])"

text \<open>The grant demand in front of the first frame.\<close>

definition p25_grant_demand :: "'e tag_env_scheme \<Rightarrow> u32 \<Rightarrow> u32 \<Rightarrow> tags fne \<Rightarrow> tags fne" where
  "p25_grant_demand e srcId dstId s =
     (let control = new_p25_lc\<lparr>pl_srcId := srcId, pl_dstId := dstId\<rparr>;
          message = createP25_TDUMessage (env_site e) control new_lsd 0x80
      in fold (\<lambda>peer s. snd (writePeer e peer (NET_FUNC_PROTOCOL, NET_PROTOCOL_SUBFUNC_P25) message 0 False False s))
           (peer_walk e s) s)"

definition p25_playbackParrot :: "'e tag_env_scheme \<Rightarrow> tags fne \<Rightarrow> tags fne" where
  "p25_playbackParrot e s =
     (case pt_parrotFrames (p25_of s) of
        [] \<Rightarrow> upd_p25 (\<lambda>t. t\<lparr>pt_parrotFramesReady := False, pt_parrotFirstFrame := True\<rparr>) s
      | (buffer, seq, streamId, srcId, dstId) # pkts \<Rightarrow>
          let s = (if pt_parrotFirstFrame (p25_of s)
                   then let s = (if env_parrotGrantDemand e then p25_grant_demand e srcId dstId s else s)
                        in upd_p25 (\<lambda>t. t\<lparr>pt_parrotFirstFrame := False\<rparr>) s
                   else s)
          in upd_p25 (\<lambda>t. t\<lparr>pt_parrotFrames := tl (pt_parrotFrames t)\<rparr>)
               (fold (play_to e (NET_FUNC_PROTOCOL, NET_PROTOCOL_SUBFUNC_P25) (buffer, seq, streamId)) (peer_walk e s) s))"

definition p25_idle :: "'e tag_env_scheme \<Rightarrow> tags fne \<Rightarrow> tags fne" where
  "p25_idle e s = (if p25_hasParrotFrames (p25_of s) then p25_playbackParrot e s else s)"

definition on_p25_frame ::
  "'e tag_env_scheme \<Rightarrow> bytes \<Rightarrow> u32 \<Rightarrow> u16 \<Rightarrow> u32 \<Rightarrow> tags fne \<Rightarrow> tags fne option" where
  "on_p25_frame e data peerId seq streamId s = map_option snd (p25_processFrame e data peerId seq streamId False s)"

section \<open>The contracts\<close>

lemma p25_fields_upd [simp]:
  "m_ridLookup (upd_p25 f s) = m_ridLookup s" "m_tidLookup (upd_p25 f s) = m_tidLookup s" "m_peers (upd_p25 f s) = m_peers s"
  "m_password (upd_p25 f s) = m_password s" "m_sent (upd_p25 f s) = m_sent s" "queued (upd_p25 f s) = queued s"
  "t_upstream (m_tags (upd_p25 f s)) = t_upstream (m_tags s)" "p25_of (upd_p25 f s) = f (p25_of s)"
  "peers_view (upd_p25 f s) = peers_view s" "peer_walk e (upd_p25 f s) = peer_walk e s"
  by (simp_all add: upd_p25_def queued_def peers_view_def peer_walk_def fun_eq_iff)

interpretation p25_repeater: repeater p25_repeat_to p25_permitted "(NET_FUNC_PROTOCOL, NET_PROTOCOL_SUBFUNC_P25)"
proof unfold_locales
  fix q p :: u32 and s :: "tags fne" and f :: "p25_lc \<times> u8" and e :: "'a fne_env_scheme" and buffer :: bytes and seq :: u16 and streamId :: u32
    and c :: peer_conn
  show "q = p \<or> \<not> p25_permitted (m_tidLookup s) q f \<Longrightarrow> p25_repeat_to e f buffer p seq streamId q s = s"
    by (auto simp: p25_repeat_to_def)
  show "fields_of (p25_repeat_to e f buffer p seq streamId q s) = fields_of s"
    "m_sent (p25_repeat_to e f buffer p seq streamId q s) = m_sent s"
    by (simp_all add: p25_repeat_to_def Let_def)
  assume "q \<noteq> p" "p25_permitted (m_tidLookup s) q f" "m_peers s q = Some c" "length buffer \<le> 8160" "streamId \<noteq> 0"
  then show "\<exists>d. queued (p25_repeat_to e f buffer p seq streamId q s) = queued s @ [d] \<and>
          opened d = Some (p_addr c, q, streamId, (NET_FUNC_PROTOCOL, NET_PROTOCOL_SUBFUNC_P25), seq, buffer)"
    using writePeerSeq_queued [of s q c buffer "(NET_FUNC_PROTOCOL, NET_PROTOCOL_SUBFUNC_P25)" streamId e seq]
    by (simp add: p25_repeat_to_def Let_def)
qed

text \<open>The contract is about a parrot that does not have to announce the call first.\<close>

interpretation p25_parrot: parrot p25_idle "\<lambda>s. pt_parrotFrames (p25_of s)" "\<lambda>s. pt_parrotFramesReady (p25_of s)"
  "\<lambda>e s. \<not> (pt_parrotFirstFrame (p25_of s) \<and> env_parrotGrantDemand e)"
  "\<lambda>(buffer, seq, streamId, srcId, dstId). (buffer, seq, streamId)" "(NET_FUNC_PROTOCOL, NET_PROTOCOL_SUBFUNC_P25)"
proof unfold_locales
  fix e :: "'a tag_env_scheme" and s :: "tags fne" and pkt :: "bytes \<times> u16 \<times> u32 \<times> u32 \<times> u32" and pkts buffer seq streamId
  let ?op = "(NET_FUNC_PROTOCOL, NET_PROTOCOL_SUBFUNC_P25)"
  show "\<not> pt_parrotFramesReady (p25_of s) \<or> pt_parrotFrames (p25_of s) = [] \<Longrightarrow> p25_idle e s = s"
    by (auto simp: p25_idle_def p25_hasParrotFrames_def)
  assume r: "pt_parrotFramesReady (p25_of s)" and f: "pt_parrotFrames (p25_of s) = pkt # pkts"
    and p: "(case pkt of (buffer, seq, streamId, srcId, dstId) \<Rightarrow> (buffer, seq, streamId)) = (buffer, seq, streamId)"
    and n: "\<not> (pt_parrotFirstFrame (p25_of s) \<and> env_parrotGrantDemand e)"
    and l: "length buffer \<le> 8160" "streamId \<noteq> 0" "queued s = []"
  obtain srcId dstId where pkt: "pkt = (buffer, seq, streamId, srcId, dstId)" using p by (cases pkt) auto
  let ?t = "if pt_parrotFirstFrame (p25_of s) then upd_p25 (\<lambda>t. t\<lparr>pt_parrotFirstFrame := False\<rparr>) s else s"
  let ?s = "fold (play_to e ?op (buffer, seq, streamId)) (peer_walk e s) ?t"
  have t: "m_sent ?t = m_sent s" "m_peers ?t = m_peers s" "queued ?t = []" "pt_parrotFrames (p25_of ?t) = pkt # pkts"
    "pt_parrotFramesReady (p25_of ?t)" "\<not> pt_parrotFirstFrame (p25_of ?t)" "peer_walk e ?t = peer_walk e s"
    using r f l(3) by simp_all
  have "\<forall>q \<in> set (peer_walk e s). m_peers ?t q \<noteq> None" by (simp add: peer_walk_def)
  then obtain out where o: "m_sent ?s = m_sent s @ out" "queued ?s = []"
    "map opened out = map (\<lambda>q. Some (p_addr (the (m_peers s q)), q, streamId, ?op, seq, buffer)) (peer_walk e s)"
    using play_sends [where opcode = ?op and e = e and qs = "peer_walk e s", OF refl l(1,2) _ _ t(3)] t(1,2) by auto
  have i: "p25_idle e s = upd_p25 (\<lambda>t. t\<lparr>pt_parrotFrames := tl (pt_parrotFrames t)\<rparr>) ?s"
    using r f n t(7) by (auto simp: p25_idle_def p25_hasParrotFrames_def p25_playbackParrot_def pkt Let_def)
  note k = fields_ofD(3,4) [OF play_fields [of e ?op "(buffer, seq, streamId)" "peer_walk e s" ?t]]
  show "\<exists>out. m_sent (p25_idle e s) = m_sent s @ out \<and> queued (p25_idle e s) = [] \<and> m_peers (p25_idle e s) = m_peers s \<and>
        pt_parrotFrames (p25_of (p25_idle e s)) = pkts \<and> pt_parrotFramesReady (p25_of (p25_idle e s)) \<and>
        \<not> (pt_parrotFirstFrame (p25_of (p25_idle e s)) \<and> env_parrotGrantDemand e) \<and>
        map opened out = map (\<lambda>q. Some (p_addr (the (m_peers s q)), q, streamId, ?op, seq, buffer)) (peer_walk e s)"
    using o k t unfolding i by (intro exI [of _ out]) simp
qed

section \<open>Frames and calls\<close>

lemma p25_call_fields:
  assumes "p25_call_control data streamId s = (b, s')"
  shows "m_ridLookup s' = m_ridLookup s" "m_tidLookup s' = m_tidLookup s" "m_peers s' = m_peers s" "m_password s' = m_password s"
    "m_sent s' = m_sent s" "queued s' = queued s" "peers_view s' = peers_view s" "peer_walk e s' = peer_walk e s"
proof -
  have p: "peers_view (t\<lparr>m_callInProgress := x\<rparr>) = peers_view t" "peer_walk e (t\<lparr>m_callInProgress := x\<rparr>) = peer_walk e t" for t :: "tags fne" and x
    by (simp_all add: peers_view_def peer_walk_def fun_eq_iff)
  show "m_ridLookup s' = m_ridLookup s" "m_tidLookup s' = m_tidLookup s" "m_peers s' = m_peers s" "m_password s' = m_password s"
    "m_sent s' = m_sent s" "queued s' = queued s" "peers_view s' = peers_view s" "peer_walk e s' = peer_walk e s"
    using assms by (auto simp: p25_call_control_def p25_start_call_def p25_end_call_def Let_def p
        split: if_splits call_start.splits prod.splits)
qed

lemma p25_no_outbound [simp]: "24 \<le> length buffer \<Longrightarrow> p25_routeRewrite tsdu rules buffer p duid dstId True = Some buffer"
  by (simp add: p25_routeRewrite_def p25_peerRewrite_def)

definition p25_recorded :: "tags fne \<Rightarrow> bytes \<Rightarrow> bytes \<Rightarrow> u16 \<Rightarrow> u32 \<Rightarrow> tags fne" where
  "p25_recorded s data buffer seq streamId =
     (if m_parrot (m_config (tg_find (p25_dst data) 0 (m_tidLookup s)))
      then upd_p25 (\<lambda>t. t\<lparr>pt_parrotFrames := pt_parrotFrames t @ [(buffer, seq, streamId, p25_src data, p25_dst data)]\<rparr>) s else s)"

lemma p25_recorded_fields [simp]:
  "m_tidLookup (p25_recorded s data buffer seq i) = m_tidLookup s" "m_peers (p25_recorded s data buffer seq i) = m_peers s"
  "m_password (p25_recorded s data buffer seq i) = m_password s" "m_sent (p25_recorded s data buffer seq i) = m_sent s"
  "queued (p25_recorded s data buffer seq i) = queued s" "peer_walk e (p25_recorded s data buffer seq i) = peer_walk e s"
  "peers_view (p25_recorded s data buffer seq i) = peers_view s"
  "pt_status (p25_of (p25_recorded s data buffer seq i)) = pt_status (p25_of s)"
  by (simp_all add: p25_recorded_def)

lemma p25_repeat_frame_eq:
  "p25_repeat_frame e l data buffer p seq streamId s = relay e (p25_repeat_to e l buffer p seq streamId)
     (m_parrot (m_config (tg_find (p25_dst data) 0 (m_tidLookup s))))
     (\<lambda>i. p25_upstream (env_tsdu e) (m_tidLookup s) l buffer (p25_dst data) seq streamId (env_upstream e i)) (p25_recorded s data buffer seq streamId)"
  unfolding p25_repeat_frame_def Let_def p25_recorded_def [symmetric] by simp

lemma p25_repeat_effect:
  assumes "p25_repeat_frame e l data buffer p seq streamId s = Some s'"
  shows "queued s' = []" "m_peers s' = m_peers s" "m_password s' = m_password s" "peers_view s' = peers_view s"
    "pt_status (p25_of s') = pt_status (p25_of s)"
    "queued s = [] \<Longrightarrow> length buffer \<le> 8160 \<Longrightarrow> streamId \<noteq> 0 \<Longrightarrow> \<exists>out. m_sent s' = m_sent s @ out \<and>
       map opened out = map (\<lambda>q. Some (p_addr (the (m_peers s q)), q, streamId, (NET_FUNC_PROTOCOL, NET_PROTOCOL_SUBFUNC_P25), seq, buffer))
         (filter (\<lambda>q. q \<noteq> p \<and> p25_permitted (m_tidLookup s) q l) (peer_walk e s))"
proof -
  let ?t = "p25_recorded s data buffer seq streamId"
  note eff = relay_effect [OF assms [unfolded p25_repeat_frame_eq] p25_repeater.fold_keeps p25_repeater.fold_no_send, simplified]
  show "queued s' = []" "m_peers s' = m_peers s" "m_password s' = m_password s" "peers_view s' = peers_view s"
    "pt_status (p25_of s') = pt_status (p25_of s)"
    using eff by simp_all
  assume a: "queued s = []" "length buffer \<le> 8160" "streamId \<noteq> 0"
  have w: "\<forall>q \<in> set (peer_walk e s). m_peers ?t q \<noteq> None" by (simp add: peer_walk_def)
  show "\<exists>out. m_sent s' = m_sent s @ out \<and>
       map opened out = map (\<lambda>q. Some (p_addr (the (m_peers s q)), q, streamId, (NET_FUNC_PROTOCOL, NET_PROTOCOL_SUBFUNC_P25), seq, buffer))
         (filter (\<lambda>q. q \<noteq> p \<and> p25_permitted (m_tidLookup s) q l) (peer_walk e s))"
    using p25_repeater.fold_sends [OF a(2,3) w, of e l p seq] eff(1) a(1) by (simp add: p25_repeater.receivers_def)
qed

lemma p25_process_cases:
  assumes "p25_processFrame e data p seq streamId fromPeer s = Some (ok, s')"
  shows "s' = s \<and> \<not> ok \<or> (\<exists>t. p25_call_control data streamId s = (False, t) \<and> s' = t \<and> \<not> ok) \<or>
     ok \<and> (\<exists>t buffer. p25_call_control data streamId s = (True, t) \<and>
             p25_repeat_frame e (p25_control data, p25_duid data) data buffer p seq streamId t = Some s' \<and> (\<not> fromPeer \<longrightarrow> buffer = data))"
  using assms by (auto simp: p25_processFrame_def Let_def bind_eq_Some_conv split: if_splits prod.splits bool.splits)

text \<open>Every frame handled goes out once to every other peer its talkgroup allows.\<close>

lemma p25_frame_repeated:
  assumes "p25_processFrame e data p seq streamId False s = Some (True, s')" "queued s = []" "length data \<le> 8160" "streamId \<noteq> 0"
  shows "\<exists>out. m_sent s' = m_sent s @ out \<and>
       map opened out = map (\<lambda>q. Some (p_addr (the (m_peers s q)), q, streamId, (NET_FUNC_PROTOCOL, NET_PROTOCOL_SUBFUNC_P25), seq, data))
         (filter (\<lambda>q. q \<noteq> p \<and> p25_permitted (m_tidLookup s) q (p25_control data, p25_duid data)) (peer_walk e s))"
proof -
  obtain t where t: "p25_call_control data streamId s = (True, t)"
    "p25_repeat_frame e (p25_control data, p25_duid data) data data p seq streamId t = Some s'"
    using p25_process_cases [OF assms(1)] by auto
  note k = p25_call_fields [OF t(1)]
  show ?thesis using p25_repeat_effect(6) [OF t(2)] assms(2-4) k(2,3,5,6) k(8) [of e] by simp
qed

text \<open>The talker keeps the call until a release for its destination.\<close>

lemma p25_keeps_call:
  assumes "calls_ok (pt_status (p25_of s))" "dst \<noteq> 0" "call_of dst (pt_status (p25_of s)) = Some x"
    and "p25_dst data \<noteq> dst \<or> \<not> p25_terminator (p25_duid data)" "p25_processFrame e data p seq streamId fromPeer s = Some (ok, s')"
  shows "calls_ok (pt_status (p25_of s')) \<and> call_of dst (pt_status (p25_of s')) = Some x"
proof -
  have c: "calls_ok (pt_status (p25_of t)) \<and> call_of dst (pt_status (p25_of t)) = Some x"
    if "p25_call_control data streamId s = (b, t)" for b t
    using that assms(1-4) calls_ok_end [OF assms(1)] call_of_end [OF assms(1,2)] calls_ok_start [OF assms(1)]
      call_of_start [OF assms(1-3)]
    by (auto simp: p25_call_control_def p25_end_call_def p25_start_call_def Let_def case_prod_unfold
        split: if_splits call_start.splits)
  show ?thesis using p25_process_cases [OF assms(5)] c p25_repeat_effect(5) assms(1,3) by metis
qed

lemma p25_keeps_logins: "keeps_logins (on_p25_frame e data p seq streamId)"
  unfolding keeps_logins_def on_p25_frame_def
proof (intro allI impI)
  fix s s' assume "map_option snd (p25_processFrame e data p seq streamId False s) = Some s'"
  then obtain ok where o: "p25_processFrame e data p seq streamId False s = Some (ok, s')" by auto
  show "peers_view s' = peers_view s \<and> m_password s' = m_password s"
    using p25_process_cases [OF o] p25_repeat_effect(3,4) p25_call_fields(4,7) by metis
qed

lemma p25_grant_demand_core: "core (p25_grant_demand e srcId dstId s) = core s"
proof -
  have "core (fold (\<lambda>q s. snd (writePeer e q opcode message i b c s)) qs s) = core s" for opcode message i b c qs
    by (induction qs arbitrary: s) (simp_all add: core_simps)
  then show ?thesis by (simp add: p25_grant_demand_def Let_def)
qed

lemma p25_idle_keeps_logins: "peers_view (p25_idle e s) = peers_view s" "m_password (p25_idle e s) = m_password s"
  by (simp_all add: p25_idle_def p25_playbackParrot_def Let_def fields_ofD(5,6) [OF play_fields]
      core_peers [OF p25_grant_demand_core] core_password [OF p25_grant_demand_core] split: list.split)

end
