(* ===== verification/TagNXDN.thy ===== *)
theory TagNXDN
  imports FNETraffic
begin

text \<open>
  The NXDN traffic of the FNE, \<^verbatim>\<open>src/src/fne/network/fne/TagNXDNData.cpp\<close>.  The handler keeps the
  calls of a destination without looking at a slot.  \<open>None\<close> is a read past the end of a frame
  shorter than 16 bytes, or the undefined search of \<open>findByRewrite\<close>.
\<close>

definition new_nxdn_tag :: nxdn_tag where
  "new_nxdn_tag = \<lparr>nt_parrotFrames = [], nt_parrotFramesReady = False, nt_status = []\<rparr>"

section \<open>A frame\<close>

definition nxdn_src :: "bytes \<Rightarrow> u32" where "nxdn_src data = GET_UINT16 data 5"
definition nxdn_dst :: "bytes \<Rightarrow> u32" where "nxdn_dst data = GET_UINT16 data 8"

definition nxdn_call :: "bytes \<Rightarrow> rtch" where
  "nxdn_call data =
     \<lparr>rt_messageType = data ! 4, rt_srcId = ucast (nxdn_src data) AND 0xFFFF, rt_dstId = ucast (nxdn_dst data) AND 0xFFFF,
      rt_group = (data ! 15 AND 0x40 \<noteq> 0x40)\<rparr>"

definition nxdn_release :: "u8 \<Rightarrow> bool" where
  "nxdn_release messageType = (messageType = RTCH_MESSAGE_TYPE_TX_REL \<or> messageType = RTCH_MESSAGE_TYPE_TX_REL_EX)"

section \<open>Who may send and receive\<close>

definition nxdn_permitted :: "tg_rules \<Rightarrow> u32 \<Rightarrow> rtch \<Rightarrow> bool" where
  "nxdn_permitted rules peerId l =
     (if \<not> rt_group l then True else tg_permits (tg_find (ucast (rt_dstId l)) 0 rules) peerId)"

definition nxdn_validate :: "rid_table \<Rightarrow> tg_rules \<Rightarrow> rtch \<Rightarrow> bool" where
  "nxdn_validate rids rules l =
     (if rid_refused rids (ucast (rt_srcId l)) then False
      else if nxdn_release (rt_messageType l) then True
      else if \<not> rt_group l then \<not> rid_refused rids (ucast (rt_dstId l))
      else m_active (m_config (tg_find (ucast (rt_dstId l)) 0 rules)))"

section \<open>Rewrites\<close>

definition nxdn_peerRewrite :: "tg_rules \<Rightarrow> u32 \<Rightarrow> u32 \<Rightarrow> bool \<Rightarrow> (bool \<times> u32) option" where
  "nxdn_peerRewrite rules peerId dstId outbound =
     (case (if outbound then Some (tg_find dstId 0 rules) else tg_findByRewrite peerId dstId 0 rules) of
        None \<Rightarrow> None
      | Some tg \<Rightarrow>
          (case List.find (\<lambda>entry. rw_peerId entry = peerId) (m_rewrite (m_config tg)) of
             None \<Rightarrow> Some (False, dstId)
           | Some entry \<Rightarrow> Some (True, if outbound then m_tgId (m_source tg) else rw_tgId entry)))"

definition nxdn_routeRewrite :: "tg_rules \<Rightarrow> bytes \<Rightarrow> u32 \<Rightarrow> u32 \<Rightarrow> bool \<Rightarrow> bytes option" where
  "nxdn_routeRewrite rules buffer peerId dstId outbound =
     (case nxdn_peerRewrite rules peerId dstId outbound of
        None \<Rightarrow> None
      | Some (rewrote, rewriteDstId) \<Rightarrow> Some (if rewrote then SET_UINT16 rewriteDstId buffer 8 else buffer))"

section \<open>Calls\<close>

definition nxdn_end_call :: "u32 \<Rightarrow> tags fne \<Rightarrow> tags fne" where
  "nxdn_end_call dstId s =
     (let s = upd_nxdn (\<lambda>t. t\<lparr>nt_status := end_status dstId (nt_status t)\<rparr>) s;
          s = (if m_parrot (m_config (tg_find dstId 0 (m_tidLookup s))) \<and> length (nt_parrotFrames (nxdn_of s)) > 0
               then upd_nxdn (\<lambda>t. t\<lparr>nt_parrotFramesReady := True\<rparr>) s else s)
      in s\<lparr>m_callInProgress := False\<rparr>)"

text \<open>The start of a call or the next frame of one; the flag is false for a collision.\<close>

definition nxdn_start_call :: "u32 \<Rightarrow> u32 \<Rightarrow> u32 \<Rightarrow> tags fne \<Rightarrow> bool \<times> tags fne" where
  "nxdn_start_call srcId dstId streamId s =
     (let (started, st) = start_status srcId dstId streamId (nt_status (nxdn_of s))
      in case started of
           Collision \<Rightarrow> (False, upd_nxdn (\<lambda>t. t\<lparr>nt_status := st\<rparr>) s)
         | Known_call \<Rightarrow> (True, upd_nxdn (\<lambda>t. t\<lparr>nt_status := st\<rparr>) s)
         | New_call \<Rightarrow>
             let s = (if m_parrot (m_config (tg_find dstId 0 (m_tidLookup s)))
                      then upd_nxdn (\<lambda>t. t\<lparr>nt_parrotFramesReady := False, nt_parrotFrames := []\<rparr>) s else s);
                 s = upd_nxdn (\<lambda>t. t\<lparr>nt_status := st\<rparr>) s
             in (True, s\<lparr>m_callInProgress := True\<rparr>))"

definition nxdn_call_control :: "bytes \<Rightarrow> u32 \<Rightarrow> tags fne \<Rightarrow> bool \<times> tags fne" where
  "nxdn_call_control data streamId s =
     (let messageType = data ! 4; srcId = nxdn_src data; dstId = nxdn_dst data
      in if nxdn_release messageType then (True, nxdn_end_call dstId s)
         else if messageType = RTCH_MESSAGE_TYPE_VCALL \<or> messageType = RTCH_MESSAGE_TYPE_DCALL_HDR \<or>
                 messageType = RTCH_MESSAGE_TYPE_DCALL_DATA
         then nxdn_start_call srcId dstId streamId s
         else (True, s))"

section \<open>Repeating\<close>

definition nxdn_repeat_to ::
  "'e fne_env_scheme \<Rightarrow> rtch \<Rightarrow> bytes \<Rightarrow> u32 \<Rightarrow> u16 \<Rightarrow> u32 \<Rightarrow> u32 \<Rightarrow> tags fne \<Rightarrow> tags fne" where
  "nxdn_repeat_to e l buffer peerId seq streamId peer s =
     (if peer = peerId then s
      else if \<not> nxdn_permitted (m_tidLookup s) peer l then s
      else let s = snd (writePeerSeq e peer (NET_FUNC_PROTOCOL, NET_PROTOCOL_SUBFUNC_NXDN) buffer seq streamId True s)
           in s\<lparr>m_callInProgress := True\<rparr>)"

definition nxdn_upstream ::
  "tg_rules \<Rightarrow> rtch \<Rightarrow> bytes \<Rightarrow> u32 \<Rightarrow> u16 \<Rightarrow> u32 \<Rightarrow> 'e net_env_scheme \<Rightarrow> base_net \<Rightarrow> base_net option" where
  "nxdn_upstream rules l buffer dstId seq streamId e n =
     (if \<not> nxdn_permitted rules (m_peerId n) l then Some n
      else case nxdn_routeRewrite rules buffer (m_peerId n) dstId True of
             None \<Rightarrow> None
           | Some out \<Rightarrow> Some (snd (writeMaster e (NET_FUNC_PROTOCOL, NET_PROTOCOL_SUBFUNC_NXDN) out seq streamId True n)))"

definition nxdn_repeat_frame ::
  "'e tag_env_scheme \<Rightarrow> rtch \<Rightarrow> bytes \<Rightarrow> bytes \<Rightarrow> u32 \<Rightarrow> u16 \<Rightarrow> u32 \<Rightarrow> tags fne \<Rightarrow> tags fne option" where
  "nxdn_repeat_frame e l data buffer peerId seq streamId s =
     (let parrot = m_parrot (m_config (tg_find (nxdn_dst data) 0 (m_tidLookup s)));
          s = (if parrot then upd_nxdn (\<lambda>t. t\<lparr>nt_parrotFrames := nt_parrotFrames t @ [(buffer, seq, streamId)]\<rparr>) s else s)
      in relay e (nxdn_repeat_to e l buffer peerId seq streamId) parrot
           (\<lambda>i. nxdn_upstream (m_tidLookup s) l buffer (nxdn_dst data) seq streamId (env_upstream e i)) s)"

section \<open>The handler\<close>

definition nxdn_processFrame ::
  "'e tag_env_scheme \<Rightarrow> bytes \<Rightarrow> u32 \<Rightarrow> u16 \<Rightarrow> u32 \<Rightarrow> bool \<Rightarrow> tags fne \<Rightarrow> (bool \<times> tags fne) option" where
  "nxdn_processFrame e data peerId seq streamId fromPeer s =
     (if length data < 16 then None
      else do {
        let l = nxdn_call data;
        buffer \<leftarrow> (if fromPeer then nxdn_routeRewrite (m_tidLookup s) data peerId (nxdn_dst data) False else Some data);
        if \<not> (nxdn_validate (m_ridLookup s) (m_tidLookup s) l \<and> nxdn_permitted (m_tidLookup s) peerId l) then Some (False, s)
        else (case nxdn_call_control data streamId s of
                (False, s) \<Rightarrow> Some (False, s)
              | (True, s) \<Rightarrow> do {
                  s \<leftarrow> nxdn_repeat_frame e l data buffer peerId seq streamId s;
                  Some (True, s)
                })
      })"

definition nxdn_hasParrotFrames :: "nxdn_tag \<Rightarrow> bool" where
  "nxdn_hasParrotFrames t = (nt_parrotFramesReady t \<and> nt_parrotFrames t \<noteq> [])"

definition nxdn_playbackParrot :: "'e fne_env_scheme \<Rightarrow> tags fne \<Rightarrow> tags fne" where
  "nxdn_playbackParrot e s =
     (case nt_parrotFrames (nxdn_of s) of
        [] \<Rightarrow> upd_nxdn (\<lambda>t. t\<lparr>nt_parrotFramesReady := False\<rparr>) s
      | pkt # pkts \<Rightarrow>
          upd_nxdn (\<lambda>t. t\<lparr>nt_parrotFrames := tl (nt_parrotFrames t)\<rparr>)
            (fold (play_to e (NET_FUNC_PROTOCOL, NET_PROTOCOL_SUBFUNC_NXDN) pkt) (peer_walk e s) s))"

definition nxdn_idle :: "'e fne_env_scheme \<Rightarrow> tags fne \<Rightarrow> tags fne" where
  "nxdn_idle e s = (if nxdn_hasParrotFrames (nxdn_of s) then nxdn_playbackParrot e s else s)"

definition on_nxdn_frame ::
  "'e tag_env_scheme \<Rightarrow> bytes \<Rightarrow> u32 \<Rightarrow> u16 \<Rightarrow> u32 \<Rightarrow> tags fne \<Rightarrow> tags fne option" where
  "on_nxdn_frame e data peerId seq streamId s = map_option snd (nxdn_processFrame e data peerId seq streamId False s)"

section \<open>The contracts\<close>

lemma nxdn_fields_upd [simp]:
  "m_ridLookup (upd_nxdn f s) = m_ridLookup s" "m_tidLookup (upd_nxdn f s) = m_tidLookup s" "m_peers (upd_nxdn f s) = m_peers s"
  "m_password (upd_nxdn f s) = m_password s" "m_sent (upd_nxdn f s) = m_sent s" "queued (upd_nxdn f s) = queued s"
  "t_upstream (m_tags (upd_nxdn f s)) = t_upstream (m_tags s)" "nxdn_of (upd_nxdn f s) = f (nxdn_of s)"
  "peers_view (upd_nxdn f s) = peers_view s" "peer_walk e (upd_nxdn f s) = peer_walk e s"
  by (simp_all add: upd_nxdn_def queued_def peers_view_def peer_walk_def fun_eq_iff)

interpretation nxdn_repeater: repeater nxdn_repeat_to nxdn_permitted "(NET_FUNC_PROTOCOL, NET_PROTOCOL_SUBFUNC_NXDN)"
proof unfold_locales
  fix q p :: u32 and s :: "tags fne" and f :: rtch and e :: "'a fne_env_scheme" and buffer :: bytes and seq :: u16 and streamId :: u32
    and c :: peer_conn
  show "q = p \<or> \<not> nxdn_permitted (m_tidLookup s) q f \<Longrightarrow> nxdn_repeat_to e f buffer p seq streamId q s = s"
    by (auto simp: nxdn_repeat_to_def)
  show "fields_of (nxdn_repeat_to e f buffer p seq streamId q s) = fields_of s"
    "m_sent (nxdn_repeat_to e f buffer p seq streamId q s) = m_sent s"
    by (simp_all add: nxdn_repeat_to_def Let_def)
  assume "q \<noteq> p" "nxdn_permitted (m_tidLookup s) q f" "m_peers s q = Some c" "length buffer \<le> 8160" "streamId \<noteq> 0"
  then show "\<exists>d. queued (nxdn_repeat_to e f buffer p seq streamId q s) = queued s @ [d] \<and>
          opened d = Some (p_addr c, q, streamId, (NET_FUNC_PROTOCOL, NET_PROTOCOL_SUBFUNC_NXDN), seq, buffer)"
    using writePeerSeq_queued [of s q c buffer "(NET_FUNC_PROTOCOL, NET_PROTOCOL_SUBFUNC_NXDN)" streamId e seq]
    by (simp add: nxdn_repeat_to_def Let_def)
qed

interpretation nxdn_parrot: parrot nxdn_idle "\<lambda>s. nt_parrotFrames (nxdn_of s)" "\<lambda>s. nt_parrotFramesReady (nxdn_of s)" "\<lambda>e s. True"
  "\<lambda>pkt. pkt" "(NET_FUNC_PROTOCOL, NET_PROTOCOL_SUBFUNC_NXDN)"
proof unfold_locales
  fix e :: "'a fne_env_scheme" and s :: "tags fne" and pkt :: "bytes \<times> u16 \<times> u32" and pkts buffer seq streamId
  let ?op = "(NET_FUNC_PROTOCOL, NET_PROTOCOL_SUBFUNC_NXDN)"
  show "\<not> nt_parrotFramesReady (nxdn_of s) \<or> nt_parrotFrames (nxdn_of s) = [] \<Longrightarrow> nxdn_idle e s = s"
    by (auto simp: nxdn_idle_def nxdn_hasParrotFrames_def)
  assume r: "nt_parrotFramesReady (nxdn_of s)" and f: "nt_parrotFrames (nxdn_of s) = pkt # pkts" and p: "pkt = (buffer, seq, streamId)"
    and l: "length buffer \<le> 8160" "streamId \<noteq> 0" "queued s = []"
  let ?s = "fold (play_to e ?op pkt) (peer_walk e s) s"
  have "\<forall>q \<in> set (peer_walk e s). m_peers s q \<noteq> None" by (simp add: peer_walk_def)
  then obtain out where o: "m_sent ?s = m_sent s @ out" "queued ?s = []"
    "map opened out = map (\<lambda>q. Some (p_addr (the (m_peers s q)), q, streamId, ?op, seq, buffer)) (peer_walk e s)"
    using play_sends [where opcode = ?op and e = e and qs = "peer_walk e s", OF p l(1,2) _ _ l(3)] by auto
  have i: "nxdn_idle e s = upd_nxdn (\<lambda>t. t\<lparr>nt_parrotFrames := tl (nt_parrotFrames t)\<rparr>) ?s"
    using r f by (simp add: nxdn_idle_def nxdn_hasParrotFrames_def nxdn_playbackParrot_def)
  note k = fields_ofD(3,4) [OF play_fields [of e ?op pkt "peer_walk e s" s]]
  show "\<exists>out. m_sent (nxdn_idle e s) = m_sent s @ out \<and> queued (nxdn_idle e s) = [] \<and> m_peers (nxdn_idle e s) = m_peers s \<and>
        nt_parrotFrames (nxdn_of (nxdn_idle e s)) = pkts \<and> nt_parrotFramesReady (nxdn_of (nxdn_idle e s)) \<and> True \<and>
        map opened out = map (\<lambda>q. Some (p_addr (the (m_peers s q)), q, streamId, ?op, seq, buffer)) (peer_walk e s)"
    using o k r f unfolding i by (intro exI [of _ out]) simp
qed

section \<open>Frames and calls\<close>

lemma nxdn_call_fields:
  assumes "nxdn_call_control data streamId s = (b, s')"
  shows "m_ridLookup s' = m_ridLookup s" "m_tidLookup s' = m_tidLookup s" "m_peers s' = m_peers s" "m_password s' = m_password s"
    "m_sent s' = m_sent s" "queued s' = queued s" "peers_view s' = peers_view s" "peer_walk e s' = peer_walk e s"
proof -
  have p: "peers_view (t\<lparr>m_callInProgress := x\<rparr>) = peers_view t" "peer_walk e (t\<lparr>m_callInProgress := x\<rparr>) = peer_walk e t" for t :: "tags fne" and x
    by (simp_all add: peers_view_def peer_walk_def fun_eq_iff)
  show "m_ridLookup s' = m_ridLookup s" "m_tidLookup s' = m_tidLookup s" "m_peers s' = m_peers s" "m_password s' = m_password s"
    "m_sent s' = m_sent s" "queued s' = queued s" "peers_view s' = peers_view s" "peer_walk e s' = peer_walk e s"
    using assms by (auto simp: nxdn_call_control_def nxdn_start_call_def nxdn_end_call_def Let_def p
        split: if_splits call_start.splits prod.splits)
qed

lemma nxdn_no_outbound [simp]: "nxdn_routeRewrite rules buffer p dstId True = Some buffer"
  by (simp add: nxdn_routeRewrite_def nxdn_peerRewrite_def)

definition nxdn_recorded :: "tags fne \<Rightarrow> bytes \<Rightarrow> bytes \<Rightarrow> u16 \<Rightarrow> u32 \<Rightarrow> tags fne" where
  "nxdn_recorded s data buffer seq streamId =
     (if m_parrot (m_config (tg_find (nxdn_dst data) 0 (m_tidLookup s)))
      then upd_nxdn (\<lambda>t. t\<lparr>nt_parrotFrames := nt_parrotFrames t @ [(buffer, seq, streamId)]\<rparr>) s else s)"

lemma nxdn_recorded_fields [simp]:
  "m_tidLookup (nxdn_recorded s data buffer seq i) = m_tidLookup s" "m_peers (nxdn_recorded s data buffer seq i) = m_peers s"
  "m_password (nxdn_recorded s data buffer seq i) = m_password s" "m_sent (nxdn_recorded s data buffer seq i) = m_sent s"
  "queued (nxdn_recorded s data buffer seq i) = queued s" "peer_walk e (nxdn_recorded s data buffer seq i) = peer_walk e s"
  "peers_view (nxdn_recorded s data buffer seq i) = peers_view s"
  "nt_status (nxdn_of (nxdn_recorded s data buffer seq i)) = nt_status (nxdn_of s)"
  by (simp_all add: nxdn_recorded_def)

lemma nxdn_repeat_frame_eq:
  "nxdn_repeat_frame e l data buffer p seq streamId s = relay e (nxdn_repeat_to e l buffer p seq streamId)
     (m_parrot (m_config (tg_find (nxdn_dst data) 0 (m_tidLookup s))))
     (\<lambda>i. nxdn_upstream (m_tidLookup s) l buffer (nxdn_dst data) seq streamId (env_upstream e i)) (nxdn_recorded s data buffer seq streamId)"
  unfolding nxdn_repeat_frame_def Let_def nxdn_recorded_def [symmetric] by simp

lemma nxdn_repeat_effect:
  assumes "nxdn_repeat_frame e l data buffer p seq streamId s = Some s'"
  shows "queued s' = []" "m_peers s' = m_peers s" "m_password s' = m_password s" "peers_view s' = peers_view s"
    "nt_status (nxdn_of s') = nt_status (nxdn_of s)"
    "queued s = [] \<Longrightarrow> length buffer \<le> 8160 \<Longrightarrow> streamId \<noteq> 0 \<Longrightarrow> \<exists>out. m_sent s' = m_sent s @ out \<and>
       map opened out = map (\<lambda>q. Some (p_addr (the (m_peers s q)), q, streamId, (NET_FUNC_PROTOCOL, NET_PROTOCOL_SUBFUNC_NXDN), seq, buffer))
         (filter (\<lambda>q. q \<noteq> p \<and> nxdn_permitted (m_tidLookup s) q l) (peer_walk e s))"
proof -
  let ?t = "nxdn_recorded s data buffer seq streamId"
  note eff = relay_effect [OF assms [unfolded nxdn_repeat_frame_eq] nxdn_repeater.fold_keeps nxdn_repeater.fold_no_send, simplified]
  show "queued s' = []" "m_peers s' = m_peers s" "m_password s' = m_password s" "peers_view s' = peers_view s"
    "nt_status (nxdn_of s') = nt_status (nxdn_of s)"
    using eff by simp_all
  assume a: "queued s = []" "length buffer \<le> 8160" "streamId \<noteq> 0"
  have w: "\<forall>q \<in> set (peer_walk e s). m_peers ?t q \<noteq> None" by (simp add: peer_walk_def)
  show "\<exists>out. m_sent s' = m_sent s @ out \<and>
       map opened out = map (\<lambda>q. Some (p_addr (the (m_peers s q)), q, streamId, (NET_FUNC_PROTOCOL, NET_PROTOCOL_SUBFUNC_NXDN), seq, buffer))
         (filter (\<lambda>q. q \<noteq> p \<and> nxdn_permitted (m_tidLookup s) q l) (peer_walk e s))"
    using nxdn_repeater.fold_sends [OF a(2,3) w, of e l p seq] eff(1) a(1) by (simp add: nxdn_repeater.receivers_def)
qed

lemma nxdn_process_cases:
  assumes "nxdn_processFrame e data p seq streamId fromPeer s = Some (ok, s')"
  shows "s' = s \<and> \<not> ok \<or> (\<exists>t. nxdn_call_control data streamId s = (False, t) \<and> s' = t \<and> \<not> ok) \<or>
     ok \<and> (\<exists>t buffer. nxdn_call_control data streamId s = (True, t) \<and>
             nxdn_repeat_frame e (nxdn_call data) data buffer p seq streamId t = Some s' \<and> (\<not> fromPeer \<longrightarrow> buffer = data))"
  using assms by (auto simp: nxdn_processFrame_def Let_def bind_eq_Some_conv split: if_splits prod.splits bool.splits)

text \<open>Every frame handled goes out once to every other peer its talkgroup allows.\<close>

lemma nxdn_frame_repeated:
  assumes "nxdn_processFrame e data p seq streamId False s = Some (True, s')" "queued s = []" "length data \<le> 8160" "streamId \<noteq> 0"
  shows "\<exists>out. m_sent s' = m_sent s @ out \<and>
       map opened out = map (\<lambda>q. Some (p_addr (the (m_peers s q)), q, streamId, (NET_FUNC_PROTOCOL, NET_PROTOCOL_SUBFUNC_NXDN), seq, data))
         (filter (\<lambda>q. q \<noteq> p \<and> nxdn_permitted (m_tidLookup s) q (nxdn_call data)) (peer_walk e s))"
proof -
  obtain t where t: "nxdn_call_control data streamId s = (True, t)"
    "nxdn_repeat_frame e (nxdn_call data) data data p seq streamId t = Some s'"
    using nxdn_process_cases [OF assms(1)] by auto
  note k = nxdn_call_fields [OF t(1)]
  show ?thesis using nxdn_repeat_effect(6) [OF t(2)] assms(2-4) k(2,3,5,6) k(8) [of e] by simp
qed

text \<open>The talker keeps the call until a release for its destination.\<close>

lemma nxdn_keeps_call:
  assumes "calls_ok (nt_status (nxdn_of s))" "dst \<noteq> 0" "call_of dst (nt_status (nxdn_of s)) = Some x"
    and "nxdn_dst data \<noteq> dst \<or> \<not> nxdn_release (data ! 4)" "nxdn_processFrame e data p seq streamId fromPeer s = Some (ok, s')"
  shows "calls_ok (nt_status (nxdn_of s')) \<and> call_of dst (nt_status (nxdn_of s')) = Some x"
proof -
  have c: "calls_ok (nt_status (nxdn_of t)) \<and> call_of dst (nt_status (nxdn_of t)) = Some x"
    if "nxdn_call_control data streamId s = (b, t)" for b t
    using that assms(1-4) calls_ok_end [OF assms(1)] call_of_end [OF assms(1,2)] calls_ok_start [OF assms(1)]
      call_of_start [OF assms(1-3)]
    by (auto simp: nxdn_call_control_def nxdn_end_call_def nxdn_start_call_def Let_def case_prod_unfold
        split: if_splits call_start.splits)
  show ?thesis using nxdn_process_cases [OF assms(5)] c nxdn_repeat_effect(5) assms(1,3) by metis
qed

lemma nxdn_keeps_logins: "keeps_logins (on_nxdn_frame e data p seq streamId)"
  unfolding keeps_logins_def on_nxdn_frame_def
proof (intro allI impI)
  fix s s' assume "map_option snd (nxdn_processFrame e data p seq streamId False s) = Some s'"
  then obtain ok where o: "nxdn_processFrame e data p seq streamId False s = Some (ok, s')" by auto
  show "peers_view s' = peers_view s \<and> m_password s' = m_password s"
    using nxdn_process_cases [OF o] nxdn_repeat_effect(3,4) nxdn_call_fields(4,7) by metis
qed

lemma nxdn_idle_keeps_logins: "peers_view (nxdn_idle e s) = peers_view s" "m_password (nxdn_idle e s) = m_password s"
  by (simp_all add: nxdn_idle_def nxdn_playbackParrot_def fields_ofD(5,6) [OF play_fields] split: list.split)

end
