(* ===== verification/FNEHandlers.thy ===== *)
theory FNEHandlers
  imports FNESafety TagDMR TagP25 TagNXDN
begin

text \<open>
  The FNE with its three traffic handlers in place: the handlers meet the contract under which
  the login is safe, so the safety theorems hold for the program as it runs
  (\<^verbatim>\<open>src/src/fne/network/FNENetwork.cpp\<close> with \<^verbatim>\<open>src/src/fne/network/fne\<close>).
\<close>

definition fne_traffic :: "('e tag_env_ext, tags) traffic" where
  "fne_traffic = \<lparr>on_dmr = on_dmr_frame, on_p25 = on_p25_frame, on_nxdn = on_nxdn_frame,
     on_idle = \<lambda>e s. Some (nxdn_idle e (p25_idle e (dmr_idle e s)))\<rparr>"

lemma fne_traffic_ok: "traffic_ok fne_traffic"
  unfolding traffic_ok_def fne_traffic_def traffic.simps
  by (intro conjI allI dmr_keeps_logins p25_keeps_logins nxdn_keeps_logins)
    (simp add: keeps_logins_def dmr_idle_keeps_logins p25_idle_keeps_logins nxdn_idle_keeps_logins)

text \<open>
  C22. Whatever traffic the three handlers process, repeat, record and play back, no connection
  changes but for its packet counter: who is connected, from where and with which salt stays
  a matter of the login messages alone.
\<close>

theorem handlers_keep_logins: "traffic_ok fne_traffic"
  by (rule fne_traffic_ok)

end
