(* ===== verification/HostNetwork.thy ===== *)
theory HostNetwork
  imports BaseNetwork Lookups SHA256 "HOL-Library.Monad_Syntax"
begin

text \<open>
  The host's side of the network, \<^verbatim>\<open>src/src/host/network/Network.cpp\<close>: the connection to the
  master with its login, retries and timeouts, the call data received, and the radio and
  talkgroup lists.  The class extends the state of \<open>BaseNetwork\<close> and its fields have the prefix
  \<open>h_\<close>; \<open>h_pktSeq\<close> is its own \<open>m_pktSeq\<close>, which hides the base class's.  The station metadata
  is only ever serialised into the configuration message, whose JSON text is the
  environment's, and so are the results of opening the socket and of the address lookup and what
  uninitialised memory holds.  \<open>None\<close> is an access outside an array.
\<close>

section \<open>State\<close>

record host_env = net_env +
  env_opened :: bool
  env_lookup :: "string \<Rightarrow> u16 \<Rightarrow> sockaddr option"
  env_config :: bytes
  env_uninit :: "nat \<Rightarrow> u8"

record host_net = base_net +
  h_pktLastSeq :: u16
  h_address :: string
  h_port :: u16
  h_password :: bytes
  h_enabled :: bool
  h_dmrEnabled :: bool
  h_p25Enabled :: bool
  h_nxdnEnabled :: bool
  h_updateLookup :: bool
  h_ridLookup :: "rid_table option"
  h_tidLookup :: "tg_rules option"
  h_salt :: bytes
  h_retryTimer :: timer
  h_timeoutTimer :: timer
  h_rxDMRStreamId :: "u32 list"
  h_rxP25StreamId :: u32
  h_rxNXDNStreamId :: u32
  h_pktSeq :: u16
  h_loginStreamId :: u32
  h_remotePeerId :: u32

definition uninit :: "'e host_env_scheme \<Rightarrow> nat \<Rightarrow> bytes" where
  "uninit e n = map (env_uninit e) [0..<n]"

text \<open>The constructor; \<open>None\<close> is a failing assertion.\<close>

definition new_host ::
  "'e host_env_scheme \<Rightarrow> string \<Rightarrow> u16 \<Rightarrow> u32 \<Rightarrow> bytes \<Rightarrow> bool \<Rightarrow> bool \<Rightarrow> bool \<Rightarrow> bool \<Rightarrow> bool \<Rightarrow> bool \<Rightarrow> bool \<Rightarrow> bool \<Rightarrow>
   host_net option" where
  "new_host e address port peerId password dmr p25 nxdn slot1 slot2 allowActivity allowDiagnostic updateLookup =
     (if address = [] \<or> \<not> port > 0 \<or> password = [] then None
      else do {
        b \<leftarrow> new_base_net e peerId slot1 slot2 allowActivity allowDiagnostic;
        t1 \<leftarrow> new_timer_of 1000 10 0;
        t2 \<leftarrow> new_timer_of 1000 60 0;
        Some (base_net.extend b (host_net.fields 0 address port password False dmr p25 nxdn updateLookup None None
                (uninit e 4) t1 t2 [0, 0] 0 0 0 0 0))
      })"

definition host_resetDMR :: "'e host_env_scheme \<Rightarrow> u32 \<Rightarrow> host_net \<Rightarrow> host_net option" where
  "host_resetDMR e slotNo s =
     do {
       s \<leftarrow> base_resetDMR e slotNo s;
       Some (if slotNo = 1 then s\<lparr>h_rxDMRStreamId := (h_rxDMRStreamId s)[0 := 0]\<rparr>
             else s\<lparr>h_rxDMRStreamId := (h_rxDMRStreamId s)[1 := 0]\<rparr>)
     }"

definition host_resetP25 :: "'e host_env_scheme \<Rightarrow> host_net \<Rightarrow> host_net" where
  "host_resetP25 e s = (base_resetP25 e s)\<lparr>h_rxP25StreamId := 0\<rparr>"

definition host_resetNXDN :: "'e host_env_scheme \<Rightarrow> host_net \<Rightarrow> host_net" where
  "host_resetNXDN e s = (base_resetNXDN e s)\<lparr>h_rxNXDNStreamId := 0\<rparr>"

definition setLookups :: "rid_table option \<Rightarrow> tg_rules option \<Rightarrow> host_net \<Rightarrow> host_net" where
  "setLookups ridLookup tidLookup s = s\<lparr>h_ridLookup := ridLookup, h_tidLookup := tidLookup\<rparr>"

definition host_enable :: "bool \<Rightarrow> host_net \<Rightarrow> host_net" where
  "host_enable enabled s = s\<lparr>h_enabled := enabled\<rparr>"

section \<open>Messages to the master\<close>

definition login_message :: "u32 \<Rightarrow> bytes" where
  "login_message peerId = SET_UINT32 peerId (memcpy_at (replicate 8 0) 0 [0x52, 0x50, 0x54, 0x4C]) 4"

definition auth_message :: "u32 \<Rightarrow> bytes \<Rightarrow> bytes \<Rightarrow> bytes" where
  "auth_message peerId salt password =
     (let out = SET_UINT32 peerId (memcpy_at (replicate 40 0) 0 [0x52, 0x50, 0x54, 0x4B]) 4
      in memcpy_at out 8 (sha_buffer (salt @ password) (new_sha256 (replicate 128 0))))"

text \<open>
  The configuration, bytes 4 to 7 left as they are.  \<open>sprintf\<close> also writes the terminator of the
  string one byte past the end of the buffer; that byte is left out.
\<close>

definition config_message :: "'e host_env_scheme \<Rightarrow> bytes" where
  "config_message e = [0x52, 0x50, 0x54, 0x43] @ uninit e 4 @ env_config e"

definition writeLogin :: "'e host_env_scheme \<Rightarrow> host_net \<Rightarrow> bool \<times> host_net" where
  "writeLogin e s =
     (if \<not> h_enabled s then (False, s)
      else let (newId, s) = createStreamId e s;
               s = s\<lparr>h_loginStreamId := newId, h_remotePeerId := 0\<rparr>;
               (seq, s) = pktSeq True s
           in writeMaster e (NET_FUNC_RPTL, NET_SUBFUNC_NOP) (login_message (m_peerId s)) seq (h_loginStreamId s) False s)"

definition writeAuthorisation :: "'e host_env_scheme \<Rightarrow> host_net \<Rightarrow> bool \<times> host_net" where
  "writeAuthorisation e s =
     (if h_loginStreamId s = 0 then (False, s)
      else let (seq, s) = pktSeq False s
           in writeMaster e (NET_FUNC_RPTK, NET_SUBFUNC_NOP) (auth_message (m_peerId s) (h_salt s) (h_password s)) seq
                (h_loginStreamId s) False s)"

definition writeConfig :: "'e host_env_scheme \<Rightarrow> host_net \<Rightarrow> bool \<times> host_net" where
  "writeConfig e s =
     (if h_loginStreamId s = 0 then (False, s)
      else writeMaster e (NET_FUNC_RPTC, NET_SUBFUNC_NOP) (config_message e) RTP_END_OF_CALL_SEQ (h_loginStreamId s) False s)"

definition writePing :: "'e host_env_scheme \<Rightarrow> host_net \<Rightarrow> bool \<times> host_net" where
  "writePing e s =
     (let (newId, s) = createStreamId e s
      in writeMaster e (NET_FUNC_PING, NET_SUBFUNC_NOP) [0] RTP_END_OF_CALL_SEQ newId False s)"

section \<open>Opening and closing\<close>

text \<open>A failed lookup leaves the address \<open>INADDR_NONE\<close> behind (\<open>UDPSocket::lookup\<close>).\<close>

definition hostOpen :: "'e host_env_scheme \<Rightarrow> host_net \<Rightarrow> bool \<times> host_net" where
  "hostOpen e s =
     (if \<not> h_enabled s then (False, s)
      else case env_lookup e (h_address s) (h_port s) of
             None \<Rightarrow> (False, s\<lparr>m_addr := \<lparr>sa_ip = ''255.255.255.255'', sa_port = h_port s\<rparr>\<rparr>)
           | Some addr \<Rightarrow>
               (True, s\<lparr>m_addr := addr, m_status := NET_STAT_WAITING_CONNECT,
                        h_timeoutTimer := timerStop (h_timeoutTimer s), h_retryTimer := timerStart (h_retryTimer s)\<rparr>))"

definition hostClose :: "'e host_env_scheme \<Rightarrow> host_net \<Rightarrow> host_net" where
  "hostClose e s =
     (let s = (if m_status s = NET_STAT_RUNNING
               then let (seq, s) = pktSeq True s; (newId, s) = createStreamId e s
                    in snd (writeMaster e (NET_FUNC_RPT_CLOSING, NET_SUBFUNC_NOP) [0] seq newId False s)
               else s)
      in s\<lparr>h_retryTimer := timerStop (h_retryTimer s), h_timeoutTimer := timerStop (h_timeoutTimer s),
           m_status := NET_STAT_WAITING_CONNECT\<rparr>)"

definition reopen :: "'e host_env_scheme \<Rightarrow> host_net \<Rightarrow> host_net" where
  "reopen e s = snd (hostOpen e (hostClose e s))"

text \<open>Both timers from the start.\<close>

definition restart :: "host_net \<Rightarrow> host_net" where
  "restart s = s\<lparr>h_timeoutTimer := timerStart (h_timeoutTimer s), h_retryTimer := timerStart (h_retryTimer s)\<rparr>"

section \<open>Call data\<close>

text \<open>The stream a received frame belongs to.  Frames out of sequence are logged and kept.\<close>

definition track_stream :: "u32 \<Rightarrow> u32 \<Rightarrow> host_net \<Rightarrow> u32 \<times> host_net" where
  "track_stream rxStreamId streamId s =
     (if rxStreamId = 0 then (streamId, s\<lparr>h_pktLastSeq := h_pktSeq s\<rparr>)
      else if rxStreamId = streamId then (rxStreamId, s\<lparr>h_pktLastSeq := h_pktSeq s\<rparr>)
      else (rxStreamId, s))"

definition rx_add :: "bytes \<Rightarrow> u8 ring \<Rightarrow> u8 ring" where
  "rx_add message q =
     (let len = of_nat (length message)
      in snd (addData (take (unat (len :: u8)) message) (snd (addData [len] q))))"

definition host_protocol :: "u8 \<Rightarrow> u32 \<Rightarrow> bytes \<Rightarrow> host_net \<Rightarrow> host_net option" where
  "host_protocol subFunc streamId message s =
     (if subFunc = NET_PROTOCOL_SUBFUNC_DMR
      then if h_enabled s \<and> h_dmrEnabled s
           then if length message < 16 then None
                else let slotNo = (if message ! 15 AND 0x80 = 0x80 then 2 else 1)
                     in if slotNo \<ge> length (h_rxDMRStreamId s) then None
                        else let (rx, s) = track_stream (h_rxDMRStreamId s ! slotNo) streamId s;
                                 s = s\<lparr>h_rxDMRStreamId := (h_rxDMRStreamId s)[slotNo := rx]\<rparr>
                             in Some (s\<lparr>m_rxDMRData := rx_add message (m_rxDMRData s)\<rparr>)
           else Some s
      else if subFunc = NET_PROTOCOL_SUBFUNC_P25
      then if h_enabled s \<and> h_p25Enabled s
           then let (rx, s) = track_stream (h_rxP25StreamId s) streamId s
                in Some (s\<lparr>h_rxP25StreamId := rx, m_rxP25Data := rx_add message (m_rxP25Data s)\<rparr>)
           else Some s
      else if subFunc = NET_PROTOCOL_SUBFUNC_NXDN
      then if h_enabled s \<and> h_nxdnEnabled s
           then let (rx, s) = track_stream (h_rxNXDNStreamId s) streamId s
                in Some (s\<lparr>h_rxNXDNStreamId := rx, m_rxNXDNData := rx_add message (m_rxNXDNData s)\<rparr>)
           else Some s
      else Some s)"

section \<open>The lists of the master\<close>

text \<open>
  The loop over the entries of a list.  Its counter has eight bits and its bound 32, the entry at
  offset \<open>j\<close> ends at \<open>10 + j + gap\<close>.
\<close>

function list_loop :: "nat \<Rightarrow> (nat \<Rightarrow> 's \<Rightarrow> 's) \<Rightarrow> bytes \<Rightarrow> u32 \<Rightarrow> u8 \<Rightarrow> nat \<Rightarrow> 's \<Rightarrow> 's option" where
  "list_loop gap body message len i j s =
     (if \<not> ucast i < len then Some s
      else if length message \<le> 10 + j + gap then None
      else list_loop gap body message len (i + 1) (j + gap + 1) (body j s))"
  by pat_completeness auto
termination by (relation "measure (\<lambda>(gap, body, message, len, i, j, s). length message - j)") auto

declare list_loop.simps [simp del]

definition read_list :: "nat \<Rightarrow> (nat \<Rightarrow> 's \<Rightarrow> 's) \<Rightarrow> bytes \<Rightarrow> 's \<Rightarrow> 's option" where
  "read_list gap body message s =
     (if length message < 10 then None else list_loop gap body message (GET_UINT16 message 7) 0 0 s)"

definition toggle_at :: "bool \<Rightarrow> bytes \<Rightarrow> nat \<Rightarrow> rid_table \<Rightarrow> rid_table" where
  "toggle_at enabled message j = rid_toggleEntry (GET_UINT16 message (11 + j)) enabled"

definition activate_at :: "bytes \<Rightarrow> nat \<Rightarrow> tg_rules \<Rightarrow> tg_rules" where
  "activate_at message j rules =
     (let tgid = GET_UINT16 message (11 + j); slot = message ! (14 + j); tid = tg_find tgid slot rules
      in if isInvalid tid
         then tg_addEntry tgid slot True (if \<not> m_active (m_config tid) then tg_eraseEntry tgid slot rules else rules)
         else rules)"

definition deactivate_at :: "bytes \<Rightarrow> nat \<Rightarrow> tg_rules \<Rightarrow> tg_rules" where
  "deactivate_at message j rules =
     (let tgid = GET_UINT16 message (11 + j); slot = message ! (14 + j)
      in if \<not> isInvalid (tg_find tgid slot rules) then tg_eraseEntry tgid slot rules else rules)"

definition update_rids :: "bool \<Rightarrow> bytes \<Rightarrow> host_net \<Rightarrow> host_net option" where
  "update_rids enabled message s =
     (if h_enabled s \<and> h_updateLookup s
      then case h_ridLookup s of
             None \<Rightarrow> Some s
           | Some rids \<Rightarrow>
               map_option (\<lambda>rids. s\<lparr>h_ridLookup := Some rids\<rparr>) (read_list 3 (toggle_at enabled message) message rids)
      else Some s)"

definition update_tgs :: "(bytes \<Rightarrow> nat \<Rightarrow> tg_rules \<Rightarrow> tg_rules) \<Rightarrow> bytes \<Rightarrow> host_net \<Rightarrow> host_net option" where
  "update_tgs body message s =
     (if h_enabled s \<and> h_updateLookup s
      then case h_tidLookup s of
             None \<Rightarrow> Some s
           | Some rules \<Rightarrow>
               map_option (\<lambda>rules. s\<lparr>h_tidLookup := Some rules\<rparr>) (read_list 4 (body message) message rules)
      else Some s)"

definition host_master :: "u8 \<Rightarrow> bytes \<Rightarrow> host_net \<Rightarrow> host_net option" where
  "host_master subFunc message s =
     (if subFunc = NET_MASTER_SUBFUNC_WL_RID then update_rids True message s
      else if subFunc = NET_MASTER_SUBFUNC_BL_RID then update_rids False message s
      else if subFunc = NET_MASTER_SUBFUNC_ACTIVE_TGS then update_tgs activate_at message s
      else if subFunc = NET_MASTER_SUBFUNC_DEACTIVE_TGS then update_tgs deactivate_at message s
      else Some s)"

section \<open>The connection\<close>

text \<open>The results of the writes are not looked at: the status moves on all the same.\<close>

definition host_ack :: "'e host_env_scheme \<Rightarrow> rtp_hdr \<Rightarrow> bytes \<Rightarrow> host_net \<Rightarrow> host_net option" where
  "host_ack e rtp message s =
     (case m_status s of
        NET_STAT_WAITING_LOGIN \<Rightarrow>
          if length message < 10 then None
          else let s = s\<lparr>h_salt := take 4 (drop 6 message)\<rparr>;
                   s = snd (writeAuthorisation e s)
               in Some (restart (s\<lparr>m_status := NET_STAT_WAITING_AUTHORISATION\<rparr>))
      | NET_STAT_WAITING_AUTHORISATION \<Rightarrow>
          let s = snd (writeConfig e s) in Some (restart (s\<lparr>m_status := NET_STAT_WAITING_CONFIG\<rparr>))
      | NET_STAT_WAITING_CONFIG \<Rightarrow>
          let s = s\<lparr>h_loginStreamId := 0, h_remotePeerId := m_ssrc rtp\<rparr>;
              s = snd (pktSeq True s)
          in Some (restart (s\<lparr>m_status := NET_STAT_RUNNING\<rparr>))
      | _ \<Rightarrow> Some s)"

text \<open>A message, and whether the clock goes on to its timers after it.\<close>

definition host_message ::
  "'e host_env_scheme \<Rightarrow> sockaddr \<Rightarrow> rtp_hdr \<Rightarrow> fne_hdr \<Rightarrow> bytes \<Rightarrow> host_net \<Rightarrow> (bool \<times> host_net) option" where
  "host_message e addr rtp fne message s =
     (if m_addr s \<noteq> addr then Some (False, s)
      else if m_peerId s \<noteq> m_hdrPeerId fne then Some (False, s)
      else let s = s\<lparr>h_pktSeq := m_seq rtp\<rparr>;
               s = (if h_pktSeq s = RTP_END_OF_CALL_SEQ then s\<lparr>h_pktSeq := 0, h_pktLastSeq := 0\<rparr> else s);
               func = m_func fne; go = map_option (Pair True)
           in if func = NET_FUNC_PROTOCOL then go (host_protocol (m_subFunc fne) (m_streamId fne) message s)
              else if func = NET_FUNC_MASTER then go (host_master (m_subFunc fne) message s)
              else if func = NET_FUNC_NAK
              then if m_status s = NET_STAT_RUNNING
                   then Some (True, restart (s\<lparr>m_status := NET_STAT_WAITING_LOGIN\<rparr>))
                   else Some (False, reopen e s)
              else if func = NET_FUNC_ACK then go (host_ack e rtp message s)
              else if func = NET_FUNC_MST_CLOSING then Some (True, reopen e s)
              else if func = NET_FUNC_PONG
              then Some (True, s\<lparr>h_timeoutTimer := timerStart (h_timeoutTimer s)\<rparr>)
              else Some (True, s))"

definition host_receive ::
  "'e host_env_scheme \<Rightarrow> (bytes \<times> sockaddr) option \<Rightarrow> host_net \<Rightarrow> (bool \<times> host_net) option" where
  "host_receive e rx s =
     (case rx of
        None \<Rightarrow> Some (True, s)
      | Some (dgram, addr) \<Rightarrow>
          (case read_frame dgram of
             Overread \<Rightarrow> None
           | Rejected \<Rightarrow> Some (True, s)
           | Received rtp fne message \<Rightarrow>
               if length message > 0 then host_message e addr rtp fne message s else Some (True, s)))"

definition host_retry :: "'e host_env_scheme \<Rightarrow> u32 \<Rightarrow> host_net \<Rightarrow> host_net" where
  "host_retry e ms s =
     (let s = s\<lparr>h_retryTimer := timerClock ms (h_retryTimer s)\<rparr>
      in if timed_out (h_retryTimer s)
         then let s = (case m_status s of
                         NET_STAT_WAITING_LOGIN \<Rightarrow> snd (writeLogin e s)
                       | NET_STAT_WAITING_AUTHORISATION \<Rightarrow> snd (writeAuthorisation e s)
                       | NET_STAT_WAITING_CONFIG \<Rightarrow> snd (writeConfig e s)
                       | NET_STAT_RUNNING \<Rightarrow> snd (writePing e s)
                       | _ \<Rightarrow> s)
              in s\<lparr>h_retryTimer := timerStart (h_retryTimer s)\<rparr>
         else s)"

definition host_timeout :: "'e host_env_scheme \<Rightarrow> u32 \<Rightarrow> host_net \<Rightarrow> host_net" where
  "host_timeout e ms s =
     (let s = s\<lparr>h_timeoutTimer := timerClock ms (h_timeoutTimer s)\<rparr>
      in if timed_out (h_timeoutTimer s) then reopen e s else s)"

text \<open>Waiting for a connection: the socket is opened and the login sent when the retry timer runs out.\<close>

definition host_connect :: "'e host_env_scheme \<Rightarrow> u32 \<Rightarrow> host_net \<Rightarrow> host_net" where
  "host_connect e ms s =
     (let s = s\<lparr>h_retryTimer := timerClock ms (h_retryTimer s)\<rparr>
      in if timed_out (h_retryTimer s)
         then let s = (if h_enabled s \<and> env_opened e
                       then let (ret, s) = writeLogin e s
                            in if \<not> ret then s
                               else s\<lparr>m_status := NET_STAT_WAITING_LOGIN, h_timeoutTimer := timerStart (h_timeoutTimer s)\<rparr>
                       else s)
              in s\<lparr>h_retryTimer := timerStart (h_retryTimer s)\<rparr>
         else s)"

definition hostClock :: "'e host_env_scheme \<Rightarrow> u32 \<Rightarrow> (bytes \<times> sockaddr) option \<Rightarrow> host_net \<Rightarrow> host_net option" where
  "hostClock e ms rx s =
     (if m_status s = NET_STAT_WAITING_CONNECT then Some (host_connect e ms s)
      else if \<not> h_enabled s then Some s
      else do {
        (go_on, s) \<leftarrow> host_receive e rx s;
        Some (if \<not> go_on then s else host_timeout e ms (host_retry e ms s))
      })"

section \<open>Lists\<close>

text \<open>A list of fewer than 256 entries that fits its message is read entry by entry.\<close>

lemma list_loop_fold:
  assumes "n < 256" "unat len = n" "10 + n * (gap + 1) \<le> length message" "i \<le> n"
  shows "list_loop gap body message len (of_nat i) (i * (gap + 1)) s =
           Some (fold (\<lambda>k. body (k * (gap + 1))) [i..<n] s)"
  using assms(4)
proof (induction "n - i" arbitrary: i s)
  case 0
  then have "i = n" by simp
  then have "\<not> (ucast (of_nat i :: u8) :: u32) < len"
    using assms(1,2) by (simp add: word_less_nat_alt unsigned_ucast_eq unat_of_nat_u8 take_bit_nat_eq_self)
  then show ?case using \<open>i = n\<close> by (subst list_loop.simps) simp
next
  case (Suc k)
  then have i: "i < n" by simp
  have lt: "(ucast (of_nat i :: u8) :: u32) < len"
    using assms(1,2) i by (simp add: word_less_nat_alt unsigned_ucast_eq unat_of_nat_u8 take_bit_nat_eq_self)
  have "(i + 1) * (gap + 1) \<le> n * (gap + 1)" using i by (intro mult_le_mono1) simp
  then have room: "\<not> length message \<le> 10 + i * (gap + 1) + gap" using assms(3) by simp
  have IH: "list_loop gap body message len (of_nat (Suc i)) (Suc i * (gap + 1)) t =
      Some (fold (\<lambda>k. body (k * (gap + 1))) [Suc i..<n] t)" for t
    using Suc i by (intro Suc.hyps(1)) simp_all
  have step: "i * (gap + 1) + gap + 1 = Suc i * (gap + 1)" "of_nat i + 1 = (of_nat (Suc i) :: u8)" by simp_all
  have "list_loop gap body message len (of_nat i) (i * (gap + 1)) s =
      list_loop gap body message len (of_nat (Suc i)) (Suc i * (gap + 1)) (body (i * (gap + 1)) s)"
    unfolding list_loop.simps [of gap body message len "of_nat i"] step if_not_P [OF room] using lt by simp
  then show ?case unfolding IH using i by (simp add: upt_conv_Cons del: upt_Suc mult_Suc of_nat_Suc)
qed

lemma read_list_fold:
  assumes "n < 256" "GET_UINT16 message 7 = of_nat n" "10 + n * (gap + 1) \<le> length message"
  shows "read_list gap body message s = Some (fold (\<lambda>k. body (k * (gap + 1))) [0..<n] s)"
proof -
  have "unat (of_nat n :: u32) = n" using assms(1) by (simp add: unat_of_nat take_bit_nat_eq_self)
  then show ?thesis
    using list_loop_fold [OF assms(1) _ assms(3), of "of_nat n" 0] assms(2,3) by (simp add: read_list_def)
qed

text \<open>With more entries the counter wraps, and the loop runs on to the end of the message and past it.\<close>

lemma list_loop_overruns: "256 \<le> unat len \<Longrightarrow> list_loop gap body message len i j s = None"
proof (induction gap body message len i j s rule: list_loop.induct)
  case (1 gap body message len i j s)
  have "unat i < 256" using unsigned_less [of i, where 'a = nat] by simp
  then have "(ucast i :: u32) < len" using 1(2) by (simp add: word_less_nat_alt unsigned_ucast_eq take_bit_nat_eq_self)
  then show ?case using 1 by (subst list_loop.simps) simp
qed

text \<open>
  A list of 256 or more radios or talkgroups never ends the loop that reads it: its eight-bit
  counter stays below the length, and the entries are read from beyond the message.
\<close>

theorem long_lists_overrun:
  assumes "256 \<le> unat (GET_UINT16 message 7)" "h_enabled s" "h_updateLookup s"
    and "h_ridLookup s = Some rids" "h_tidLookup s = Some rules"
    and "subFunc \<in> {NET_MASTER_SUBFUNC_WL_RID, NET_MASTER_SUBFUNC_BL_RID, NET_MASTER_SUBFUNC_ACTIVE_TGS, NET_MASTER_SUBFUNC_DEACTIVE_TGS}"
  shows "host_master subFunc message s = None"
proof -
  have "update_rids b message s = None" "update_tgs body message s = None" for b body
    using assms(1-5) by (simp_all add: update_rids_def update_tgs_def read_list_def list_loop_overruns)
  then show ?thesis using assms(6) by (auto simp: host_master_def)
qed

text \<open>
  C26. The loop over a list that fits its message ends, with every entry read once and in order, when
  the list has fewer than 256 entries, and only then.
\<close>

theorem lists_end_below_256:
  assumes "10 + unat (GET_UINT16 message 7) * (gap + 1) \<le> length message"
  shows "read_list gap body message s =
           (if unat (GET_UINT16 message 7) < 256
            then Some (fold (\<lambda>k. body (k * (gap + 1))) [0..<unat (GET_UINT16 message 7)] s) else None)"
  using read_list_fold [OF _ _ assms, of body s] list_loop_overruns [of "GET_UINT16 message 7" gap body message 0 0 s]
  by (auto simp: read_list_def)

theorem lists_end_below_256_witness:
  "read_list 3 (\<lambda>j. (#) (j :: nat)) [0, 0, 0, 0, 0, 0, 0, 0, 0, 2, 0, 0, 0, 0, 0, 0, 0, 0] [] = Some [4, 0]"
proof -
  let ?m = "[0, 0, 0, 0, 0, 0, 0, 0, 0, 2, 0, 0, 0, 0, 0, 0, 0, 0] :: bytes"
  have g: "GET_UINT16 ?m 7 = 2" by (simp add: GET_UINT16_def)
  have "[0..<unat (GET_UINT16 ?m 7)] = [0, 1]" unfolding g by (simp add: upt_rec)
  then show ?thesis using lists_end_below_256 [of ?m 3 "\<lambda>j. (#) (j :: nat)" "[]"] unfolding g by simp
qed

section \<open>The connection\<close>

text \<open>What a message can do to the status, and the timers.\<close>

definition accepted :: "host_net \<Rightarrow> (bytes \<times> sockaddr) option \<Rightarrow> u8 option" where
  "accepted s rx =
     (case rx of
        None \<Rightarrow> None
      | Some (dgram, addr) \<Rightarrow>
          (case read_frame dgram of
             Received rtp fne message \<Rightarrow>
               if message \<noteq> [] \<and> addr = m_addr s \<and> m_hdrPeerId fne = m_peerId s then Some (m_func fne) else None
           | _ \<Rightarrow> None))"

inductive link_step :: "u8 option \<Rightarrow> NET_CONN_STATUS \<Rightarrow> NET_CONN_STATUS \<Rightarrow> bool" where
  stay: "link_step f x x"
| connect: "link_step f NET_STAT_WAITING_CONNECT NET_STAT_WAITING_LOGIN"
| challenged: "link_step (Some NET_FUNC_ACK) NET_STAT_WAITING_LOGIN NET_STAT_WAITING_AUTHORISATION"
| authorised: "link_step (Some NET_FUNC_ACK) NET_STAT_WAITING_AUTHORISATION NET_STAT_WAITING_CONFIG"
| logged_in: "link_step (Some NET_FUNC_ACK) NET_STAT_WAITING_CONFIG NET_STAT_RUNNING"
| refused: "link_step (Some NET_FUNC_NAK) NET_STAT_RUNNING NET_STAT_WAITING_LOGIN"
| reconnect: "link_step f x NET_STAT_WAITING_CONNECT"

inductive_cases link_runningE: "link_step f x NET_STAT_RUNNING"
inductive_cases link_configE: "link_step f x NET_STAT_WAITING_CONFIG"
inductive_cases link_authE: "link_step f x NET_STAT_WAITING_AUTHORISATION"

lemma status_writes [simp]:
  fixes s :: host_net
  shows "m_status (snd (writeLogin e s)) = m_status s" "m_status (snd (writeAuthorisation e s)) = m_status s"
    "m_status (snd (writeConfig e s)) = m_status s" "m_status (snd (writePing e s)) = m_status s"
    "m_status (snd (pktSeq b s)) = m_status s" "m_status (restart s) = m_status s"
  by (simp_all add: writeLogin_def writeAuthorisation_def writeConfig_def writePing_def writeMaster_def net_enqueue_def
      net_flush_def createStreamId_def pktSeq_def restart_def Let_def case_prod_unfold)

lemma status_reopen [simp]: "m_status (reopen e s) = NET_STAT_WAITING_CONNECT"
  by (simp add: reopen_def hostOpen_def hostClose_def Let_def split: option.split)

lemma status_lists:
  "host_master subFunc message s = Some s' \<Longrightarrow> m_status s' = m_status s"
  "host_protocol subFunc streamId message s = Some s' \<Longrightarrow> m_status s' = m_status s"
  by (auto simp: host_master_def update_rids_def update_tgs_def host_protocol_def track_stream_def Let_def
      split: if_splits option.splits)

lemma status_timers: "m_status (host_timeout e ms (host_retry e ms s)) \<in> {m_status s, NET_STAT_WAITING_CONNECT}"
  by (simp add: host_timeout_def host_retry_def Let_def split: NET_CONN_STATUS.split)

lemma host_ack_status:
  "host_ack e rtp message s = Some s' \<Longrightarrow> link_step (Some NET_FUNC_ACK) (m_status s) (m_status s')"
  by (auto simp: host_ack_def Let_def split: NET_CONN_STATUS.splits if_splits intro: link_step.intros)

lemma host_message_status:
  assumes "host_message e addr rtp fne message s = Some (go_on, s')"
  shows "link_step (if addr = m_addr s \<and> m_hdrPeerId fne = m_peerId s then Some (m_func fne) else None) (m_status s) (m_status s')"
  using assms
  by (auto simp: host_message_def Let_def split: if_splits dest!: status_lists host_ack_status
      intro: link_step.intros)

lemma host_receive_status:
  assumes "host_receive e rx s = Some (go_on, s')"
  shows "link_step (accepted s rx) (m_status s) (m_status s')"
  using assms host_message_status
  by (fastforce simp: host_receive_def accepted_def split: option.splits read_result.splits if_splits prod.splits intro: link_step.stay)

lemma link_then_reconnect: "link_step f x y \<Longrightarrow> z \<in> {y, NET_STAT_WAITING_CONNECT} \<Longrightarrow> link_step f x z"
  by (auto intro: link_step.reconnect)

lemma host_clock_link:
  assumes "hostClock e ms rx s = Some s'"
  shows "link_step (accepted s rx) (m_status s) (m_status s')"
proof (cases "m_status s = NET_STAT_WAITING_CONNECT")
  case True
  have "m_status s' \<in> {NET_STAT_WAITING_CONNECT, NET_STAT_WAITING_LOGIN}"
    using assms True by (auto simp: hostClock_def host_connect_def Let_def case_prod_unfold)
  then show ?thesis using True by (auto intro: link_step.intros)
next
  case False
  show ?thesis
  proof (cases "h_enabled s")
    case True
    then obtain go_on t where t: "host_receive e rx s = Some (go_on, t)"
      "s' = (if \<not> go_on then t else host_timeout e ms (host_retry e ms t))"
      using assms False by (auto simp: hostClock_def bind_eq_Some_conv)
    show ?thesis
      by (rule link_then_reconnect [OF host_receive_status [OF t(1)]]) (use t(2) status_timers in auto)
  next
    case disabled: False
    then show ?thesis using assms False by (simp add: hostClock_def link_step.stay)
  qed
qed

end
