(* ===== verification/HostSession.thy ===== *)
theory HostSession
  imports HostNetwork FNEHandlers "HOL-Library.Sublist"
begin

text \<open>
  The host (\<^verbatim>\<open>src/src/host/network/Network.cpp\<close>) over whole runs and together with the FNE
  (\<^verbatim>\<open>src/src/fne/network/FNENetwork.cpp\<close>): when it takes itself to be logged in, how a failing
  address lookup strands it, the login as the two programs run it, the lists that reach the host's
  tables, and a voice frame on its way from one host to another.
\<close>

section \<open>Runs of the host\<close>

inductive host_run :: "host_net \<Rightarrow> u8 option list \<Rightarrow> host_net \<Rightarrow> bool" for s0 where
  start: "host_run s0 [] s0"
| tick: "host_run s0 fs s \<Longrightarrow> hostClock (e :: host_env) ms rx s = Some s' \<Longrightarrow> host_run s0 (fs @ [accepted s rx]) s'"

text \<open>How many acknowledgements of the current login the status stands for.\<close>

definition acks_of :: "NET_CONN_STATUS \<Rightarrow> nat" where
  "acks_of st = (case st of NET_STAT_WAITING_AUTHORISATION \<Rightarrow> 1 | NET_STAT_WAITING_CONFIG \<Rightarrow> 2 | NET_STAT_RUNNING \<Rightarrow> 3 | _ \<Rightarrow> 0)"

lemma link_step_acks:
  assumes "link_step f x y"
  shows "acks_of y \<le> acks_of x \<or> f = Some NET_FUNC_ACK \<and> acks_of y = Suc (acks_of x)"
  using assms by cases (simp_all add: acks_of_def)

lemma subseq_snoc_any: "subseq xs ys \<Longrightarrow> subseq xs (ys @ [y])" "subseq xs ys \<Longrightarrow> subseq (xs @ [y]) (ys @ [y])"
  using list_emb_append_mono [of "(=)" xs ys "[]" "[y]"] list_emb_append_mono [of "(=)" xs ys "[y]" "[y]"] by simp_all

lemma replicate_subseq: "m \<le> n \<Longrightarrow> subseq (replicate m x) (replicate n x)"
  by (induction n rule: nat_induct) (auto simp: le_Suc_eq)

lemma run_acks:
  assumes "host_run s0 fs s" "acks_of (m_status s0) = 0"
  shows "subseq (replicate (acks_of (m_status s)) (Some NET_FUNC_ACK)) fs"
  using assms
proof induction
  case (tick fs s e ms rx s')
  from link_step_acks [OF host_clock_link [OF tick.hyps(2)]] show ?case
  proof
    assume "acks_of (m_status s') \<le> acks_of (m_status s)"
    then show ?thesis using tick.IH [OF tick.prems] subseq_snoc_any(1) replicate_subseq subseq_order.order_trans by metis
  next
    assume "accepted s rx = Some NET_FUNC_ACK \<and> acks_of (m_status s') = Suc (acks_of (m_status s))"
    moreover have "replicate (Suc n) x = replicate n x @ [x]" for n and x :: "u8 option" by (simp add: replicate_append_same)
    ultimately show ?thesis using subseq_snoc_any(2) [OF tick.IH [OF tick.prems]] by metis
  qed
qed (simp add: acks_of_def)

text \<open>
  C24. The host takes itself to be connected only after three acknowledgements, each a datagram for its
  peer ID from the address of the master.
\<close>

theorem connected_after_three_acks:
  assumes "host_run s0 fs s" "m_status s0 = NET_STAT_WAITING_CONNECT" "m_status s = NET_STAT_RUNNING"
  shows "subseq [Some NET_FUNC_ACK, Some NET_FUNC_ACK, Some NET_FUNC_ACK] fs"
  using run_acks [OF assms(1)] assms(2,3) by (simp add: acks_of_def numeral_3_eq_3)

section \<open>A failing lookup\<close>

definition stranded :: "host_net \<Rightarrow> bool" where
  "stranded s \<longleftrightarrow> m_status s = NET_STAT_WAITING_CONNECT \<and> m_timer (h_retryTimer s) = 0"

lemma stranded_tick:
  assumes "stranded s" "hostClock e ms rx s = Some s'"
  shows "s' = s"
proof -
  have "timerClock ms (h_retryTimer s) = h_retryTimer s" using assms(1) by (simp add: stranded_def timerClock_def)
  then show ?thesis
    using assms by (simp add: stranded_def hostClock_def host_connect_def Let_def timed_out_def isRunning_def)
qed

lemma stranded_run: "host_run s fs s' \<Longrightarrow> stranded s \<Longrightarrow> s' = s"
  by (induction rule: host_run.induct) (auto dest: stranded_tick)

lemma reopen_strands:
  assumes "env_lookup e (h_address s) (h_port s) = None"
  shows "stranded (reopen e s)"
  using assms
  by (simp add: stranded_def reopen_def hostOpen_def hostClose_def Let_def timerStop_def writeMaster_def net_enqueue_def
      net_flush_def createStreamId_def pktSeq_def case_prod_unfold)

lemma stranded_timers:
  assumes "stranded s" "m_timer (h_timeoutTimer s) = 0"
  shows "host_timeout e ms (host_retry e ms s) = s"
proof -
  have "timerClock ms (h_retryTimer s) = h_retryTimer s" "timerClock ms (h_timeoutTimer s) = h_timeoutTimer s"
    using assms by (simp_all add: stranded_def timerClock_def)
  then show ?thesis
    using assms by (simp add: host_retry_def host_timeout_def stranded_def timed_out_def isRunning_def Let_def)
qed

lemma reopen_timeout:
  assumes "env_lookup e (h_address s) (h_port s) = None"
  shows "m_timer (h_timeoutTimer (reopen e s)) = 0"
  using assms
  by (simp add: reopen_def hostOpen_def hostClose_def Let_def timerStop_def writeMaster_def net_enqueue_def
      net_flush_def createStreamId_def pktSeq_def case_prod_unfold)

text \<open>
  C27. When the master closes and its address cannot be looked up at that moment, the host never tries
  again: closing has stopped the retry timer and only a successful lookup starts it.
\<close>

theorem failed_lookup_strands_host:
  assumes "m_status s = NET_STAT_RUNNING" "h_enabled s"
    and "accepted s rx = Some NET_FUNC_MST_CLOSING" "env_lookup e (h_address s) (h_port s) = None"
    and "hostClock e ms rx s = Some s1" "host_run s1 fs s2"
  shows "m_status s2 = NET_STAT_WAITING_CONNECT \<and> m_sent s2 = m_sent s1"
proof -
  obtain dgram addr rtp fne message where rx: "rx = Some (dgram, addr)" "read_frame dgram = Received rtp fne message"
    "message \<noteq> []" "addr = m_addr s" "m_hdrPeerId fne = m_peerId s" "m_func fne = NET_FUNC_MST_CLOSING"
    using assms(3) by (auto simp: accepted_def split: option.splits read_result.splits if_splits)
  obtain t where t: "host_receive e rx s = Some (True, reopen e t)" "h_address t = h_address s" "h_port t = h_port s"
    using rx by (auto simp: host_receive_def host_message_def Let_def net_funcs)
  have l: "env_lookup e (h_address t) (h_port t) = None" using assms(4) t(2,3) by simp
  have "hostClock e ms rx s = Some (host_timeout e ms (host_retry e ms (reopen e t)))"
    using assms(1,2) t(1) by (simp add: hostClock_def)
  then have "s1 = reopen e t"
    using assms(5) stranded_timers [OF reopen_strands [OF l] reopen_timeout [OF l]] by simp
  then show ?thesis
    using stranded_run [OF assms(6)] reopen_strands [OF l] by (simp add: stranded_def)
qed

section \<open>The second timeslot\<close>

text \<open>
  C28. The stream IDs of the two slots are read and written with the slot number as the index, so a DMR
  frame for slot 2 is beyond the array, and one for slot 1 takes the place of slot 2.
\<close>

theorem slot_2_frame_out_of_bounds:
  assumes "length (h_rxDMRStreamId s) = 2" "h_enabled s" "h_dmrEnabled s" "16 \<le> length message"
  shows "host_protocol NET_PROTOCOL_SUBFUNC_DMR streamId message s =
           (if frame_slot message = 2 then None
            else Some (let (rx, s') = track_stream (h_rxDMRStreamId s ! 1) streamId s
                       in s'\<lparr>h_rxDMRStreamId := [h_rxDMRStreamId s ! 0, rx], m_rxDMRData := rx_add message (m_rxDMRData s)\<rparr>))"
proof -
  obtain a b where "h_rxDMRStreamId s = [a, b]" using assms(1) by (auto simp: length_Suc_conv numeral_2_eq_2)
  then show ?thesis
    using assms by (simp add: host_protocol_def frame_slot_def Let_def case_prod_unfold track_stream_def)
qed

section \<open>Datagrams between the two\<close>

lemma flushed_datagram:
  assumes "queued s = []" "length message \<le> 8160" "fst opcode \<noteq> NET_FUNC_TRANSFER" "fst opcode \<noteq> NET_FUNC_GRANT_REQ"
  shows "\<exists>d. m_sent (snd (net_flush e (net_enqueue e' message streamId p ssrc opcode seq addr s))) = m_sent s @ [d] \<and>
           opened d = Some (addr, p, streamId, opcode, seq, message)"
  using net_enqueue_queued [OF assms(2-4), of e' streamId p ssrc seq addr s] assms(1)
    flush_sends(1) [of e "net_enqueue e' message streamId p ssrc opcode seq addr s"]
  by (auto simp: net_enqueue_def)

lemma openedD:
  assumes "opened d = Some (addr, p, streamId, opcode, seq, message)"
  obtains rtp fne where "read_frame (dg_buffer d) = Received rtp fne message" "dg_address d = addr" "m_hdrPeerId fne = p"
    "m_streamId fne = streamId" "m_func fne = fst opcode" "m_subFunc fne = snd opcode" "m_seq rtp = seq"
  using assms by (auto simp: opened_def split: read_result.splits)

lemma writePeerACK_answers:
  assumes "writePeerACK e p data s = Some s'" "m_peers s p = Some c" "queued s = []" "length data \<le> 4"
  shows "\<exists>d seq. m_sent s' = m_sent s @ [d] \<and> queued s' = [] \<and>
           opened d = Some (p_addr c, p, ucast RTP_END_OF_CALL_SEQ, (NET_FUNC_ACK, NET_SUBFUNC_NOP), seq,
                            take (length data + 10) (command_buffer data))"
proof -
  let ?m = "take (length data + 10) (command_buffer data)" and ?c = "c\<lparr>pktLastSeq := pktLastSeq c + 1\<rparr>"
  let ?t = "put_peer p ?c s"
  have l: "length ?m \<le> 8160" using assms(4) by simp
  have s': "s' = snd (net_flush e (net_enqueue e ?m (ucast RTP_END_OF_CALL_SEQ) p (m_peerId ?t) (NET_FUNC_ACK, NET_SUBFUNC_NOP)
      (pktLastSeq ?c) (p_addr c) ?t))"
    using assms(1,2) by (simp add: writePeerACK_def writePeer_def writePeerSeq_def put_peer_def RTP_END_OF_CALL_SEQ_def Let_def split: if_splits)
  have "queued ?t = []" "m_sent ?t = m_sent s" using assms(3) by (simp_all add: queued_def put_peer_def)
  then show ?thesis
    using flushed_datagram [OF _ l, of ?t "(NET_FUNC_ACK, NET_SUBFUNC_NOP)" e e "ucast RTP_END_OF_CALL_SEQ" p "m_peerId ?t" "pktLastSeq ?c" "p_addr c"]
    unfolding s' by (auto simp: net_funcs flush_sends)
qed

lemma command_buffer_eq: "length data \<le> 8186 \<Longrightarrow> command_buffer data = replicate 6 0 @ data @ replicate (8186 - length data) 0"
  by (simp add: command_buffer_def memcpy_at_def DATA_PACKET_LENGTH_def)

lemma ack_message: "take 4 (drop 6 (take (length data + 10) (command_buffer data))) = take 4 (data @ replicate 4 0)" if "length data \<le> 4"
  using that by (simp add: command_buffer_eq take_append)

lemma queued_put [simp]:
  "queued (put_peer p c s) = queued s" "m_sent (put_peer p c s) = m_sent s"
  "queued (updateSequence p streamId seq s) = queued s" "m_sent (updateSequence p streamId seq s) = m_sent s"
  "queued (snd (createStreamId e s)) = queued s" "m_sent (snd (createStreamId e s)) = m_sent s"
  by (simp_all add: queued_def put_peer_def updateSequence_def createStreamId_def split: option.split)

abbreviation ack_opcode :: "u8 \<times> u8" where "ack_opcode \<equiv> (NET_FUNC_ACK, NET_SUBFUNC_NOP)"

lemma rptl_answers:
  assumes "handleRPTL e addr p streamId s = Some s'" "p > 0" "m_peers s p = None" "queued s = []"
  shows "\<exists>d seq message. m_sent s' = m_sent s @ [d] \<and> queued s' = [] \<and>
           opened d = Some (addr, p, ucast RTP_END_OF_CALL_SEQ, ack_opcode, seq, message) \<and> length message = 14 \<and>
           take 4 (drop 6 message) = salt_bytes (env_random e (m_drawn s))"
proof -
  let ?salt = "env_random e (m_drawn s)" and ?t = "snd (createStreamId e s)"
  obtain c where c: "new_peer_conn p addr = Some c" using assms(1-3) by (cases "new_peer_conn p addr") (simp_all add: handleRPTL_def)
  let ?c = "c\<lparr>lastPing := env_now e, currStreamId := streamId, p_salt := ?salt, connectionState := NET_STAT_WAITING_AUTHORISATION\<rparr>"
  have w: "writePeerACK e p (salt_bytes ?salt) (put_peer p ?c ?t) = Some s'"
    using assms(1-3) c by (simp add: handleRPTL_def createStreamId_def salt_bytes_def)
  have "p_addr ?c = addr" using c by (auto simp: new_peer_conn_def split: if_splits)
  moreover have "length (salt_bytes ?salt) = 4" by (simp add: salt_bytes_def)
  ultimately show ?thesis
    using writePeerACK_answers [OF w, of ?c] ack_message [of "salt_bytes ?salt"] assms(4)
    by (fastforce simp: put_peer_def [of p ?c ?t, THEN arg_cong [where f = m_peers]] command_buffer_def DATA_PACKET_LENGTH_def)
qed

lemma rptk_answers:
  assumes "handleRPTK e addr p message s = Some s'" "p > 0" "m_peers s p = Some c" "queued s = []"
    and "connectionState c = NET_STAT_WAITING_AUTHORISATION"
    and "hash_valid (drop 8 message) (auth_hash (salt_bytes (p_salt c)) (m_password s))"
  shows "\<exists>d seq ack. m_sent s' = m_sent s @ [d] \<and> queued s' = [] \<and>
           opened d = Some (p_addr c, p, ucast RTP_END_OF_CALL_SEQ, ack_opcode, seq, ack) \<and> length ack = 10"
proof -
  let ?c = "c\<lparr>lastPing := env_now e\<rparr>"
  let ?d = "?c\<lparr>connectionState := NET_STAT_WAITING_CONFIG\<rparr>"
  have w: "writePeerACK e p [] (put_peer p ?d (put_peer p ?c s)) = Some s'"
    using assms by (simp add: handleRPTK_def Let_def split: if_splits)
  have "m_peers (put_peer p ?d (put_peer p ?c s)) p = Some ?d" by (simp add: put_peer_def)
  then show ?thesis
    using writePeerACK_answers [OF w] assms(4) by (fastforce simp: command_buffer_def DATA_PACKET_LENGTH_def)
qed

text \<open>The lists follow the acknowledgement of the configuration.\<close>

definition appends :: "('h fne \<Rightarrow> 'h fne option) \<Rightarrow> bool" where
  "appends f \<longleftrightarrow> (\<forall>s s'. f s = Some s' \<longrightarrow> (\<exists>out. m_sent s' = m_sent s @ out))"

lemma appendsD: "appends f \<Longrightarrow> f s = Some s' \<Longrightarrow> \<exists>out. m_sent s' = m_sent s @ out"
  by (auto simp: appends_def)

lemma queued_command_sends_nothing: "writePeerCommand e p opcode data True inc s = Some s' \<Longrightarrow> m_sent s' = m_sent s"
  by (auto simp: writePeerCommand_def writePeer_def split: if_splits option.splits)

lemma appends_writes:
  "appends (writeWhitelistRIDs e p True)" "appends (writeBlacklistRIDs e p True)"
  "appends (writeTGIDs e p True)" "appends (writeDeactiveTGIDs e p True)"
  by (auto simp: appends_def writeWhitelistRIDs_def writeBlacklistRIDs_def writeTGIDs_def writeDeactiveTGIDs_def Let_def
      dest!: queued_command_sends_nothing split: if_splits)

lemma sendLists_appends:
  assumes "sendLists e p s = Some s'"
  shows "\<exists>out. m_sent s' = m_sent s @ out" "queued s' = []"
proof -
  obtain s1 s2 s3 s4 where w: "writeWhitelistRIDs e p True s = Some s1" "writeBlacklistRIDs e p True s1 = Some s2"
    "writeTGIDs e p True (snd (net_flush e s2)) = Some s3" "writeDeactiveTGIDs e p True s3 = Some s4" "s' = snd (net_flush e s4)"
    using assms by (auto simp: sendLists_def Let_def bind_eq_Some_conv)
  show "\<exists>out. m_sent s' = m_sent s @ out"
    using appendsD [OF appends_writes(1) w(1)] appendsD [OF appends_writes(2) w(2)] appendsD [OF appends_writes(3) w(3)]
      appendsD [OF appends_writes(4) w(4)] unfolding w(5) flush_sends(1) by auto
  show "queued s' = []" unfolding w(5) by (rule flush_sends)
qed

lemma rptc_answers:
  assumes "handleRPTC e addr p message s = Some s'" "p > 0" "m_peers s p = Some c" "queued s = []"
    and "connectionState c = NET_STAT_WAITING_CONFIG" "env_json e (drop 8 message) = Json_object"
  shows "\<exists>d seq ack out. m_sent s' = m_sent s @ d # out \<and> queued s' = [] \<and>
           opened d = Some (p_addr c, p, ucast RTP_END_OF_CALL_SEQ, ack_opcode, seq, ack) \<and> length ack = 10"
proof -
  let ?c = "c\<lparr>lastPing := env_now e\<rparr>"
  let ?d = "?c\<lparr>p_config := drop 8 message, connectionState := NET_STAT_RUNNING, connected := True,
    pingsReceived := 0, lastPing := env_now e\<rparr>"
  obtain t where w: "writePeerACK e p [] (put_peer p ?d (put_peer p ?c s)) = Some t" "sendLists e p t = Some s'"
    using assms by (auto simp: handleRPTC_def Let_def bind_eq_Some_conv split: if_splits)
  have "m_peers (put_peer p ?d (put_peer p ?c s)) p = Some ?d" by (simp add: put_peer_def)
  then obtain d seq where "m_sent t = m_sent s @ [d]"
    "opened d = Some (p_addr c, p, ucast RTP_END_OF_CALL_SEQ, ack_opcode, seq, take 10 (command_buffer []))"
    using writePeerACK_answers [OF w(1)] assms(4) by fastforce
  then show ?thesis
    using sendLists_appends [OF w(2)] by (fastforce simp: command_buffer_def DATA_PACKET_LENGTH_def)
qed

section \<open>The login of a host at the FNE\<close>

lemma fne_receives:
  assumes "calm s" "opened d = Some (addr, p, streamId, opcode, seq, message)" "message \<noteq> []"
  obtains rtp fne where "fneClock h e 0 (Some (dg_buffer d, a)) s = handleMessage h e a rtp fne message s"
    "m_hdrPeerId fne = p" "m_streamId fne = streamId" "m_func fne = fst opcode" "m_subFunc fne = snd opcode" "m_seq rtp = seq"
  using openedD [OF assms(2)] calm_clock [OF assms(1) _ assms(3)] by metis

lemma fne_takes_login:
  assumes "calm s" "p > 0" "login_of s p = None" "sa_ip a \<noteq> []" "sa_port a > 0" "queued s = []"
    and "opened d = Some (addr, p, streamId, (NET_FUNC_RPTL, NET_SUBFUNC_NOP), seq, message)" "message \<noteq> []"
  shows "\<exists>s' x q m. fneClock h e 0 (Some (dg_buffer d, a)) s = Some s' \<and> rest s' = rest s \<and> queued s' = [] \<and>
           login_of s' p = Some (NET_STAT_WAITING_AUTHORISATION, False, env_random e (m_drawn s), a) \<and>
           m_sent s' = m_sent s @ [x] \<and> opened x = Some (a, p, ucast RTP_END_OF_CALL_SEQ, ack_opcode, q, m) \<and>
           length m = 14 \<and> take 4 (drop 6 m) = salt_bytes (env_random e (m_drawn s))"
proof -
  let ?u = "updateSequence p streamId seq s"
  have n: "login_of ?u p = None" using assms(3) by simp
  obtain s' where s': "handleRPTL e a p streamId ?u = Some s'" "rest s' = rest ?u"
      "login_of s' p = Some (NET_STAT_WAITING_AUTHORISATION, False, env_random e (m_drawn ?u), a)"
    using rptl_progress [OF assms(2) n assms(4,5)] by blast
  have q: "m_peers ?u p = None" "queued ?u = []" using n assms(6) unfolding login_of_None by simp_all
  have "fneClock h e 0 (Some (dg_buffer d, a)) s = Some s'"
    by (rule fne_receives [OF assms(1,7,8), of h e a]) (simp add: handleMessage_login(1) s'(1))
  then show ?thesis using rptl_answers [OF s'(1) assms(2) q] s'(2,3) by auto
qed

lemma fne_takes_answer:
  assumes "calm s" "p > 0" "login_of s p = Some (NET_STAT_WAITING_AUTHORISATION, con, salt, a)" "queued s = []"
    and "opened d = Some (addr, p, streamId, (NET_FUNC_RPTK, NET_SUBFUNC_NOP), seq, message)"
    and "8 \<le> length message" "drop 8 message = sha256_spec (salt_bytes salt @ m_password s)" "length (m_password s) + 4 < 2 ^ 32"
  shows "\<exists>s' x q m. fneClock h e 0 (Some (dg_buffer d, b)) s = Some s' \<and> rest s' = rest s \<and> queued s' = [] \<and>
           login_of s' p = Some (NET_STAT_WAITING_CONFIG, con, salt, a) \<and>
           m_sent s' = m_sent s @ [x] \<and> opened x = Some (a, p, ucast RTP_END_OF_CALL_SEQ, ack_opcode, q, m) \<and> length m = 10"
proof -
  let ?u = "updateSequence p streamId seq s"
  have r: "rest ?u = rest s" by simp
  note pw = rest_same(1) [OF r]
  have l: "login_of ?u p = Some (NET_STAT_WAITING_AUTHORISATION, con, salt, a)" using assms(3) by simp
  obtain s' where s': "handleRPTK e b p message ?u = Some s'" "rest s' = rest ?u"
      "login_of s' p = Some (NET_STAT_WAITING_CONFIG, con, salt, a)"
    using rptk_progress [OF assms(2) l assms(6)] assms(7,8) unfolding pw by blast
  obtain c where c: "m_peers ?u p = Some c" "connectionState c = NET_STAT_WAITING_AUTHORISATION" "p_salt c = salt" "p_addr c = a"
    using login_of_Some [OF l] by metis
  have h: "hash_valid (drop 8 message) (auth_hash (salt_bytes (p_salt c)) (m_password ?u))"
    using assms(7,8) unfolding c(3) pw by (simp add: auth_hash_spec hash_valid_iff)
  have q: "queued ?u = []" using assms(4) by simp
  have "message \<noteq> []" using assms(6) by auto
  from fne_receives [OF assms(1,5) this, of h e b] have "fneClock h e 0 (Some (dg_buffer d, b)) s = Some s'"
    by (metis handleMessage_login(2) s'(1) fst_conv)
  then show ?thesis using rptk_answers [OF s'(1) assms(2) c(1) q c(2) h] s'(2,3) c(4) by auto
qed

lemma fne_takes_config:
  assumes "calm s" "p > 0" "login_of s p = Some (NET_STAT_WAITING_CONFIG, con, salt, a)" "queued s = []"
    and "opened d = Some (addr, p, streamId, (NET_FUNC_RPTC, NET_SUBFUNC_NOP), seq, message)"
    and "8 \<le> length message" "env_json e (drop 8 message) = Json_object" "lists_fit e p s"
  shows "\<exists>s' x q m out. fneClock h e 0 (Some (dg_buffer d, b)) s = Some s' \<and> rest s' = rest s \<and> queued s' = [] \<and>
           login_of s' p = Some (NET_STAT_RUNNING, True, salt, a) \<and>
           m_sent s' = m_sent s @ x # out \<and> opened x = Some (a, p, ucast RTP_END_OF_CALL_SEQ, ack_opcode, q, m) \<and> length m = 10"
proof -
  let ?u = "updateSequence p streamId seq s"
  have r: "rest ?u = rest s" by simp
  have l: "login_of ?u p = Some (NET_STAT_WAITING_CONFIG, con, salt, a)" using assms(3) by simp
  obtain s' where s': "handleRPTC e b p message ?u = Some s'" "rest s' = rest ?u" "login_of s' p = Some (NET_STAT_RUNNING, True, salt, a)"
    using rptc_progress [OF assms(2) l assms(6,7)] assms(8) unfolding rest_same(2) [OF r] by blast
  obtain c where c: "m_peers ?u p = Some c" "connectionState c = NET_STAT_WAITING_CONFIG" "p_addr c = a"
    using login_of_Some [OF l] by metis
  have q: "queued ?u = []" using assms(4) by simp
  have "message \<noteq> []" using assms(6) by auto
  from fne_receives [OF assms(1,5) this, of h e b] have "fneClock h e 0 (Some (dg_buffer d, b)) s = Some s'"
    by (metis handleMessage_login(3) s'(1) fst_conv)
  then show ?thesis using rptc_answers [OF s'(1) assms(2) c(1) q c(2) assms(7)] s'(2,3) c(3) by auto
qed

text \<open>The host at rest: nothing queued, no timer about to run out.\<close>

definition host_calm :: "host_net \<Rightarrow> bool" where
  "host_calm s \<longleftrightarrow> h_enabled s \<and> queued s = [] \<and> m_timeout (h_retryTimer s) = 10001 \<and> m_timeout (h_timeoutTimer s) = 60001"

definition rested :: "host_net \<Rightarrow> bool" where
  "rested s \<longleftrightarrow> \<not> timed_out (h_retryTimer s) \<and> \<not> timed_out (h_timeoutTimer s)"

definition host_ids :: "host_net \<Rightarrow> u32 \<times> sockaddr \<times> bytes" where
  "host_ids s = (m_peerId s, m_addr s, h_password s)"

lemma started_fresh: "m_timeout t = 10001 \<or> m_timeout t = 60001 \<Longrightarrow> \<not> timed_out (timerStart t)"
  by (auto simp: timed_out_def timerStart_def hasExpired_def word_le_nat_alt)

lemma restart_rested: "host_calm s \<Longrightarrow> rested (restart s)" "host_calm (restart s) = host_calm s" "host_ids (restart s) = host_ids s"
  by (simp_all add: rested_def restart_def host_calm_def host_ids_def started_fresh queued_def)

lemma resting_timers: "rested s \<Longrightarrow> host_timeout e 0 (host_retry e 0 s) = s"
proof -
  assume r: "rested s"
  have t: "timerClock 0 t = t" for t by (simp add: timerClock_def)
  have u: "s\<lparr>h_retryTimer := h_retryTimer s\<rparr> = s" "s\<lparr>h_timeoutTimer := h_timeoutTimer s\<rparr> = s"
    by (rule host_net.equality; simp; fail)+
  show ?thesis using r by (simp add: host_retry_def host_timeout_def t u rested_def Let_def)
qed

lemma host_hears:
  assumes "m_status s \<noteq> NET_STAT_WAITING_CONNECT" "h_enabled s" "message \<noteq> []"
    and "opened d = Some (addr, m_peerId s, streamId, opcode, seq, message)"
  obtains rtp fne where "\<And>s'. host_message e (m_addr s) rtp fne message s = Some (True, s') \<Longrightarrow>
      hostClock e ms (Some (dg_buffer d, m_addr s)) s = Some (host_timeout e ms (host_retry e ms s'))"
    "m_hdrPeerId fne = m_peerId s" "m_streamId fne = streamId" "m_func fne = fst opcode" "m_subFunc fne = snd opcode" "m_seq rtp = seq"
proof -
  obtain rtp fne where r: "read_frame (dg_buffer d) = Received rtp fne message" "m_hdrPeerId fne = m_peerId s"
    "m_streamId fne = streamId" "m_func fne = fst opcode" "m_subFunc fne = snd opcode" "m_seq rtp = seq"
    using openedD [OF assms(4)] by metis
  then have "host_receive e (Some (dg_buffer d, m_addr s)) s = host_message e (m_addr s) rtp fne message s"
    using assms(3) by (simp add: host_receive_def)
  then show ?thesis using that [of rtp fne] r(2-) assms(1,2) by (simp add: hostClock_def)
qed

lemma writeMaster_fields [simp]:
  fixes s :: host_net
  shows "m_status (snd (writeMaster e opcode data seq i q s)) = m_status s" "host_ids (snd (writeMaster e opcode data seq i q s)) = host_ids s"
    "h_enabled (snd (writeMaster e opcode data seq i q s)) = h_enabled s"
    "h_retryTimer (snd (writeMaster e opcode data seq i q s)) = h_retryTimer s"
    "h_timeoutTimer (snd (writeMaster e opcode data seq i q s)) = h_timeoutTimer s"
    "h_loginStreamId (snd (writeMaster e opcode data seq i q s)) = h_loginStreamId s"
  by (simp_all add: writeMaster_def net_enqueue_def net_flush_def host_ids_def Let_def case_prod_unfold)

lemma master_sends:
  fixes s :: host_net
  assumes "queued s = []" "length data \<le> 8160" "fst opcode \<noteq> NET_FUNC_TRANSFER" "fst opcode \<noteq> NET_FUNC_GRANT_REQ"
  shows "\<exists>d. m_sent (snd (writeMaster e opcode data seq i False s)) = m_sent s @ [d] \<and>
           opened d = Some (m_addr s, m_peerId s, i, opcode, seq, data)"
    "queued (snd (writeMaster e opcode data seq i False s)) = []" "env_written e \<Longrightarrow> fst (writeMaster e opcode data seq i False s)"
proof -
  show "\<exists>d. m_sent (snd (writeMaster e opcode data seq i False s)) = m_sent s @ [d] \<and>
           opened d = Some (m_addr s, m_peerId s, i, opcode, seq, data)"
    using flushed_datagram [OF assms, of e e i "m_peerId s" "m_peerId s" seq "m_addr s"] by (simp add: writeMaster_def Let_def)
  show "queued (snd (writeMaster e opcode data seq i False s)) = []" by (simp add: writeMaster_def Let_def flush_sends)
  have "queued (net_enqueue e data i (m_peerId s) (m_peerId s) opcode seq (m_addr s) s) \<noteq> []"
    using net_enqueue_queued [OF assms(2-4), of e i "m_peerId s" "m_peerId s" seq "m_addr s" s] by auto
  then show "env_written e \<Longrightarrow> fst (writeMaster e opcode data seq i False s)"
    by (simp add: writeMaster_def net_flush_def flushQueue_def queued_def Let_def)
qed

lemma pktSeq_fields [simp]:
  fixes s :: host_net
  shows "host_ids (snd (pktSeq b s)) = host_ids s" "queued (snd (pktSeq b s)) = queued s" "m_sent (snd (pktSeq b s)) = m_sent s"
    "h_enabled (snd (pktSeq b s)) = h_enabled s" "h_retryTimer (snd (pktSeq b s)) = h_retryTimer s"
    "h_timeoutTimer (snd (pktSeq b s)) = h_timeoutTimer s" "h_loginStreamId (snd (pktSeq b s)) = h_loginStreamId s"
    "m_addr (snd (pktSeq b s)) = m_addr s" "m_peerId (snd (pktSeq b s)) = m_peerId s"
    "h_password (snd (pktSeq b s)) = h_password s" "h_salt (snd (pktSeq b s)) = h_salt s"
  by (simp_all add: pktSeq_def host_ids_def queued_def Let_def)

lemma writeLogin_sends:
  assumes "h_enabled s" "queued s = []" "env_written e"
  shows "\<exists>s' d. writeLogin e s = (True, s') \<and> m_sent s' = m_sent s @ [d] \<and> queued s' = [] \<and>
           opened d = Some (m_addr s, m_peerId s, env_random e (m_drawn s), (NET_FUNC_RPTL, NET_SUBFUNC_NOP), 0, login_message (m_peerId s)) \<and>
           host_ids s' = host_ids s \<and> h_enabled s' \<and> h_retryTimer s' = h_retryTimer s \<and> h_timeoutTimer s' = h_timeoutTimer s \<and>
           h_loginStreamId s' = env_random e (m_drawn s)"
proof -
  let ?i = "env_random e (m_drawn s)"
  define t where "t = snd (pktSeq True ((snd (createStreamId e s))\<lparr>h_loginStreamId := ?i, h_remotePeerId := 0\<rparr>))"
  have "queued (x\<lparr>h_loginStreamId := a, h_remotePeerId := b\<rparr>) = queued x" for x a b by (simp add: queued_def)
  then have t1: "queued t = []" using assms(2) by (simp add: t_def createStreamId_def) (simp add: queued_def)
  have t2: "m_sent t = m_sent s" "m_addr t = m_addr s" "m_peerId t = m_peerId s" "host_ids t = host_ids s"
    "h_enabled t" "h_retryTimer t = h_retryTimer s" "h_timeoutTimer t = h_timeoutTimer s" "h_loginStreamId t = ?i"
    using assms(1) by (simp_all add: t_def createStreamId_def) (simp add: host_ids_def)
  note t = t1 t2
  let ?w = "writeMaster e (NET_FUNC_RPTL, NET_SUBFUNC_NOP) (login_message (m_peerId s)) 0 ?i False t"
  have w: "writeLogin e s = ?w"
    using assms(1) by (simp add: writeLogin_def createStreamId_def pktSeq_def Let_def t_def case_prod_unfold)
  have m: "length (login_message (m_peerId s)) \<le> 8160" by (simp add: login_message_def)
  show ?thesis
    using master_sends [OF t(1) m, of "(NET_FUNC_RPTL, NET_SUBFUNC_NOP)" e 0 ?i] t assms(3) unfolding w
    by (intro exI [of _ "snd ?w"]) (auto simp: net_funcs prod_eq_iff)
qed

lemma host_sends_login:
  assumes "host_calm s" "m_status s = NET_STAT_WAITING_CONNECT" "timed_out (timerClock ms (h_retryTimer s))" "env_opened e" "env_written e"
  shows "\<exists>s' d. hostClock e ms rx s = Some s' \<and> host_calm s' \<and> rested s' \<and> host_ids s' = host_ids s \<and>
           m_status s' = NET_STAT_WAITING_LOGIN \<and> h_loginStreamId s' = env_random e (m_drawn s) \<and> m_sent s' = m_sent s @ [d] \<and>
           opened d = Some (m_addr s, m_peerId s, env_random e (m_drawn s), (NET_FUNC_RPTL, NET_SUBFUNC_NOP), 0, login_message (m_peerId s))"
proof -
  let ?s = "s\<lparr>h_retryTimer := timerClock ms (h_retryTimer s)\<rparr>"
  note c = assms(1) [unfolded host_calm_def]
  obtain s' d where w: "writeLogin e ?s = (True, s')" "m_sent s' = m_sent s @ [d]" "queued s' = []"
    "opened d = Some (m_addr s, m_peerId s, env_random e (m_drawn s), (NET_FUNC_RPTL, NET_SUBFUNC_NOP), 0, login_message (m_peerId s))"
    "host_ids s' = host_ids s" "h_enabled s'" "h_retryTimer s' = timerClock ms (h_retryTimer s)" "h_timeoutTimer s' = h_timeoutTimer s"
    "h_loginStreamId s' = env_random e (m_drawn s)"
    using writeLogin_sends [of ?s e] c assms(5) by (auto simp: queued_def host_ids_def)
  let ?u = "s'\<lparr>m_status := NET_STAT_WAITING_LOGIN\<rparr>"
  have "hostClock e ms rx s = Some (restart ?u)"
    using w(1) c assms by (simp add: hostClock_def host_connect_def restart_def Let_def)
  moreover have u: "host_calm ?u" using w c by (simp add: host_calm_def queued_def)
  moreover have "host_ids (restart ?u) = host_ids s" using w(5) unfolding restart_rested(3) by (simp add: host_ids_def)
  ultimately show ?thesis
    using w(2,4,9) restart_rested(1) [OF u] restart_rested(2) [of ?u] by (intro exI [of _ "restart ?u"] exI [of _ d]) (simp add: restart_def)
qed

text \<open>The state a message is handled in, with its sequence number taken down.\<close>

definition heard :: "rtp_hdr \<Rightarrow> host_net \<Rightarrow> host_net" where
  "heard rtp s = (let s = s\<lparr>h_pktSeq := m_seq rtp\<rparr>
                  in if h_pktSeq s = RTP_END_OF_CALL_SEQ then s\<lparr>h_pktSeq := 0, h_pktLastSeq := 0\<rparr> else s)"

lemma heard_fields [simp]:
  "host_ids (heard rtp s) = host_ids s" "queued (heard rtp s) = queued s" "m_sent (heard rtp s) = m_sent s"
  "h_enabled (heard rtp s) = h_enabled s" "h_retryTimer (heard rtp s) = h_retryTimer s" "h_timeoutTimer (heard rtp s) = h_timeoutTimer s"
  "h_loginStreamId (heard rtp s) = h_loginStreamId s" "m_addr (heard rtp s) = m_addr s" "m_peerId (heard rtp s) = m_peerId s"
  "h_password (heard rtp s) = h_password s" "m_status (heard rtp s) = m_status s" "host_calm (heard rtp s) = host_calm s"
  "h_ridLookup (heard rtp s) = h_ridLookup s" "h_tidLookup (heard rtp s) = h_tidLookup s" "h_updateLookup (heard rtp s) = h_updateLookup s"
  "h_dmrEnabled (heard rtp s) = h_dmrEnabled s" "h_rxDMRStreamId (heard rtp s) = h_rxDMRStreamId s" "m_rxDMRData (heard rtp s) = m_rxDMRData s"
  by (simp_all add: heard_def host_ids_def queued_def host_calm_def Let_def)

lemma host_hears_ack:
  assumes "host_calm s" "m_status s \<noteq> NET_STAT_WAITING_CONNECT" "opened d = Some (addr, m_peerId s, i, ack_opcode, q, m)" "m \<noteq> []"
    and "\<And>rtp. host_ack e rtp m (heard rtp s) = Some (restart (t rtp))" "\<And>rtp. host_calm (t rtp)"
  shows "\<exists>rtp. hostClock e 0 (Some (dg_buffer d, m_addr s)) s = Some (restart (t rtp))"
proof -
  have en: "h_enabled s" using assms(1) by (simp add: host_calm_def)
  obtain rtp fne where r: "\<And>s'. host_message e (m_addr s) rtp fne m s = Some (True, s') \<Longrightarrow>
      hostClock e 0 (Some (dg_buffer d, m_addr s)) s = Some (host_timeout e 0 (host_retry e 0 s'))"
    "m_hdrPeerId fne = m_peerId s" "m_func fne = fst ack_opcode"
    using host_hears [OF assms(2) en assms(4,3), of e 0] by metis
  have "host_message e (m_addr s) rtp fne m s = map_option (Pair True) (host_ack e rtp m (heard rtp s))"
    using r(2,3) by (simp add: host_message_def heard_def net_funcs Let_def)
  then have "host_message e (m_addr s) rtp fne m s = Some (True, restart (t rtp))" using assms(5) by simp
  from r(1) [OF this] show ?thesis using resting_timers [OF restart_rested(1) [OF assms(6)]] by auto
qed

lemma restart_fields [simp]:
  "m_status (restart s) = m_status s" "m_sent (restart s) = m_sent s" "h_loginStreamId (restart s) = h_loginStreamId s"
  by (simp_all add: restart_def)

lemma auth_message_eq:
  assumes "length salt = 4" "length pw + 4 < 2 ^ 32"
  shows "length (auth_message p salt pw) = 40" "drop 8 (auth_message p salt pw) = sha256_spec (salt @ pw)"
proof -
  have "sha_buffer (salt @ pw) (new_sha256 (replicate 128 0)) = sha256_spec (salt @ pw)"
    by (rule sha_buffer_spec) (use assms in \<open>simp_all add: new_sha256_def sha_init_def\<close>)
  then show "length (auth_message p salt pw) = 40" "drop 8 (auth_message p salt pw) = sha256_spec (salt @ pw)"
    by (simp_all add: auth_message_def memcpy_at_def Let_def)
qed

lemma host_answers_challenge:
  assumes "host_calm s" "m_status s = NET_STAT_WAITING_LOGIN" "h_loginStreamId s \<noteq> 0"
    and "opened d = Some (addr, m_peerId s, i, ack_opcode, q, m)" "10 \<le> length m" "take 4 (drop 6 m) = salt"
    and "length (h_password s) + 4 < 2 ^ 32"
  shows "\<exists>s' x q'. hostClock e 0 (Some (dg_buffer d, m_addr s)) s = Some s' \<and> host_calm s' \<and> host_ids s' = host_ids s \<and>
           m_status s' = NET_STAT_WAITING_AUTHORISATION \<and> h_loginStreamId s' = h_loginStreamId s \<and> m_sent s' = m_sent s @ [x] \<and>
           opened x = Some (m_addr s, m_peerId s, h_loginStreamId s, (NET_FUNC_RPTK, NET_SUBFUNC_NOP), q', auth_message (m_peerId s) salt (h_password s))"
proof -
  let ?v = "\<lambda>rtp. (heard rtp s)\<lparr>h_salt := salt\<rparr>"
  let ?u = "\<lambda>rtp. snd (pktSeq False (?v rtp))" and ?op = "(NET_FUNC_RPTK, NET_SUBFUNC_NOP)" and ?m = "auth_message (m_peerId s) salt (h_password s)"
  let ?w = "\<lambda>rtp. snd (writeMaster e ?op ?m (fst (pktSeq False (?v rtp))) (h_loginStreamId s) False (?u rtp))"
  let ?t = "\<lambda>rtp. (?w rtp)\<lparr>m_status := NET_STAT_WAITING_AUTHORISATION\<rparr>"
  have q: "queued (?u rtp) = []" for rtp
  proof -
    have "queued (?v rtp) = queued (heard rtp s)" by (simp add: queued_def)
    then show ?thesis using assms(1) by (simp add: host_calm_def)
  qed
  have "length salt = 4" using assms(5,6) by auto
  then have l: "length ?m \<le> 8160" using auth_message_eq(1) assms(7) by simp
  note sends = master_sends [OF q l, of ?op]
  have calm: "host_calm (?t rtp)" for rtp
  proof -
    have "queued (?t rtp) = queued (?w rtp)" by (simp add: queued_def)
    then show ?thesis using assms(1) sends(2) by (simp add: host_calm_def net_funcs)
  qed
  have "host_ack e rtp m (heard rtp s) = Some (restart (?t rtp))" for rtp
    using assms(2,3,5,6) by (simp add: host_ack_def writeAuthorisation_def Let_def case_prod_unfold)
  from host_hears_ack [OF assms(1) _ assms(4) _ this calm] obtain rtp where
    h: "hostClock e 0 (Some (dg_buffer d, m_addr s)) s = Some (restart (?t rtp))" using assms(2,5) by fastforce
  have "host_ids (restart (?t rtp)) = host_ids s"
    unfolding restart_rested(3) using writeMaster_fields(2) [of e ?op ?m] pktSeq_fields(1) heard_fields(1) by (simp add: host_ids_def)
  then show ?thesis
    using h calm [of rtp] sends(1) [of e "fst (pktSeq False (?v rtp))" "h_loginStreamId s" rtp] restart_rested(2) [of "?t rtp"]
    by (intro exI [of _ "restart (?t rtp)"]) (auto simp: net_funcs)
qed

lemma host_sends_config:
  assumes "host_calm s" "m_status s = NET_STAT_WAITING_AUTHORISATION" "h_loginStreamId s \<noteq> 0"
    and "opened d = Some (addr, m_peerId s, i, ack_opcode, q, m)" "m \<noteq> []" "length (env_config e) \<le> 8152"
  shows "\<exists>s' x q'. hostClock e 0 (Some (dg_buffer d, m_addr s)) s = Some s' \<and> host_calm s' \<and> host_ids s' = host_ids s \<and>
           m_status s' = NET_STAT_WAITING_CONFIG \<and> m_sent s' = m_sent s @ [x] \<and>
           opened x = Some (m_addr s, m_peerId s, h_loginStreamId s, (NET_FUNC_RPTC, NET_SUBFUNC_NOP), q', config_message e)"
proof -
  let ?op = "(NET_FUNC_RPTC, NET_SUBFUNC_NOP)"
  let ?w = "\<lambda>rtp. snd (writeMaster e ?op (config_message e) RTP_END_OF_CALL_SEQ (h_loginStreamId s) False (heard rtp s))"
  let ?t = "\<lambda>rtp. (?w rtp)\<lparr>m_status := NET_STAT_WAITING_CONFIG\<rparr>"
  have q: "queued (heard rtp s) = []" for rtp using assms(1) by (simp add: host_calm_def)
  have l: "length (config_message e) \<le> 8160" using assms(6) by (simp add: config_message_def uninit_def)
  note sends = master_sends [OF q l, of ?op]
  have calm: "host_calm (?t rtp)" for rtp
  proof -
    have "queued (?t rtp) = queued (?w rtp)" by (simp add: queued_def)
    then show ?thesis using assms(1) sends(2) by (simp add: host_calm_def net_funcs)
  qed
  have "host_ack e rtp m (heard rtp s) = Some (restart (?t rtp))" for rtp
    using assms(2,3) by (simp add: host_ack_def writeConfig_def Let_def case_prod_unfold)
  from host_hears_ack [OF assms(1) _ assms(4,5) this calm] obtain rtp where
    h: "hostClock e 0 (Some (dg_buffer d, m_addr s)) s = Some (restart (?t rtp))" using assms(2) by fastforce
  have "host_ids (restart (?t rtp)) = host_ids s"
    unfolding restart_rested(3) using writeMaster_fields(2) [of e ?op "config_message e"] heard_fields(1) by (simp add: host_ids_def)
  then show ?thesis
    using h calm [of rtp] sends(1) [of e RTP_END_OF_CALL_SEQ "h_loginStreamId s" rtp] restart_rested(2) [of "?t rtp"]
    by (intro exI [of _ "restart (?t rtp)"]) (auto simp: net_funcs)
qed

lemma host_logged_in:
  assumes "host_calm s" "m_status s = NET_STAT_WAITING_CONFIG"
    and "opened d = Some (addr, m_peerId s, i, ack_opcode, q, m)" "m \<noteq> []"
  shows "\<exists>s'. hostClock e 0 (Some (dg_buffer d, m_addr s)) s = Some s' \<and> m_status s' = NET_STAT_RUNNING \<and> m_sent s' = m_sent s"
proof -
  let ?v = "\<lambda>rtp. (heard rtp s)\<lparr>h_loginStreamId := 0, h_remotePeerId := m_ssrc rtp\<rparr>"
  let ?t = "\<lambda>rtp. (snd (pktSeq True (?v rtp)))\<lparr>m_status := NET_STAT_RUNNING\<rparr>"
  have calm: "host_calm (?t rtp)" for rtp
  proof -
    have "queued (?t rtp) = queued (snd (pktSeq True (?v rtp)))" "queued (?v rtp) = queued (heard rtp s)" by (simp_all add: queued_def)
    then show ?thesis using assms(1) by (simp add: host_calm_def)
  qed
  have "host_ack e rtp m (heard rtp s) = Some (restart (?t rtp))" for rtp
    using assms(2) by (simp add: host_ack_def Let_def)
  from host_hears_ack [OF assms(1) _ assms(3,4) this calm] obtain rtp where
    "hostClock e 0 (Some (dg_buffer d, m_addr s)) s = Some (restart (?t rtp))" using assms(2) by fastforce
  then show ?thesis by simp
qed

text \<open>
  A host and an FNE: in each turn the host takes the oldest datagram on its way to it, then the FNE
  what the host has just sent, and its answers are on their way.
\<close>

record 'h pair =
  w_host :: host_net
  w_fne :: "'h fne"
  w_mail :: "bytes list"

fun deliver :: "('e, 'h) traffic \<Rightarrow> 'e fne_env_scheme \<Rightarrow> sockaddr \<Rightarrow> udp_datagram list \<Rightarrow> 'h fne \<Rightarrow> 'h fne option" where
  "deliver h e a [] f = Some f"
| "deliver h e a (d # ds) f = Option.bind (fneClock h e 0 (Some (dg_buffer d, a)) f) (deliver h e a ds)"

definition turn ::
  "('e, 'h) traffic \<Rightarrow> 'f host_env_scheme \<Rightarrow> 'e fne_env_scheme \<Rightarrow> sockaddr \<Rightarrow> sockaddr \<Rightarrow> u32 \<Rightarrow> 'h pair \<Rightarrow> 'h pair option" where
  "turn h eh ef hostAddr fneAddr ms w =
     do {
       host \<leftarrow> hostClock eh ms (case w_mail w of [] \<Rightarrow> None | d # ds \<Rightarrow> Some (d, fneAddr)) (w_host w);
       fne \<leftarrow> deliver h ef hostAddr (drop (length (m_sent (w_host w))) (m_sent host)) (w_fne w);
       Some \<lparr>w_host = host, w_fne = fne,
             w_mail = tl (w_mail w) @ map dg_buffer (filter (\<lambda>d. dg_address d = hostAddr) (drop (length (m_sent (w_fne w))) (m_sent fne)))\<rparr>
     }"

fun turns ::
  "('e, 'h) traffic \<Rightarrow> 'f host_env_scheme \<Rightarrow> 'e fne_env_scheme \<Rightarrow> sockaddr \<Rightarrow> sockaddr \<Rightarrow> u32 list \<Rightarrow> 'h pair \<Rightarrow> 'h pair option" where
  "turns h eh ef hostAddr fneAddr [] w = Some w"
| "turns h eh ef hostAddr fneAddr (ms # mss) w =
     Option.bind (turn h eh ef hostAddr fneAddr ms w) (turns h eh ef hostAddr fneAddr mss)"

lemma turnI:
  assumes "hostClock eh ms (case w_mail w of [] \<Rightarrow> None | d # ds \<Rightarrow> Some (d, fneAddr)) (w_host w) = Some host"
    and "m_sent host = m_sent (w_host w) @ [d]" "fneClock h ef 0 (Some (dg_buffer d, hostAddr)) (w_fne w) = Some fne"
    and "m_sent fne = m_sent (w_fne w) @ x # out" "opened x = Some (hostAddr, r)"
  shows "turn h eh ef hostAddr fneAddr ms w = Some \<lparr>w_host = host, w_fne = fne,
           w_mail = tl (w_mail w) @ dg_buffer x # map dg_buffer (filter (\<lambda>d. dg_address d = hostAddr) out)\<rparr>"
proof -
  have "dg_address x = hostAddr" using assms(5) by (auto simp: opened_def split: read_result.splits)
  then show ?thesis using assms(1-4) by (simp add: turn_def)
qed

text \<open>
  C2. A host that knows the password logs in at an idle FNE in four turns: from the moment its retry
  timer runs out it sends its login, answers the salt, sends its configuration and, with the
  third acknowledgement, is running; the FNE has it connected under its address.
\<close>

theorem login_completes:
  fixes w :: "'h pair"
  defines "p \<equiv> m_peerId (w_host w)"
  assumes host: "host_calm (w_host w)" "m_status (w_host w) = NET_STAT_WAITING_CONNECT" "timed_out (timerClock ms (h_retryTimer (w_host w)))"
      "m_addr (w_host w) = fneAddr" "env_random eh (m_drawn (w_host w)) \<noteq> 0" "p > 0"
    and sockets: "env_opened eh" "env_written eh" "w_mail w = []" "sa_ip hostAddr \<noteq> []" "sa_port hostAddr > 0"
    and fne: "calm (w_fne w)" "queued (w_fne w) = []" "m_peers (w_fne w) p = None" "lists_fit ef p (w_fne w)"
    and password: "h_password (w_host w) = m_password (w_fne w)" "length (m_password (w_fne w)) + 4 < 2 ^ 32"
    and config: "length (env_config eh) \<le> 8152" "env_json ef (env_config eh) = Json_object"
  shows "\<exists>w' c. turns h eh ef hostAddr fneAddr [ms, 0, 0, 0] w = Some w' \<and> m_status (w_host w') = NET_STAT_RUNNING \<and>
           m_peers (w_fne w') p = Some c \<and> connected c \<and> p_addr c = hostAddr"
proof -
  let ?h0 = "w_host w" and ?f0 = "w_fne w"
  let ?salt = "env_random ef (m_drawn ?f0)"
  obtain h1 d1 where h1: "hostClock eh ms None ?h0 = Some h1" "host_calm h1" "host_ids h1 = host_ids ?h0"
    "m_status h1 = NET_STAT_WAITING_LOGIN" "h_loginStreamId h1 \<noteq> 0" "m_sent h1 = m_sent ?h0 @ [d1]"
    "opened d1 = Some (fneAddr, p, env_random eh (m_drawn ?h0), (NET_FUNC_RPTL, NET_SUBFUNC_NOP), 0, login_message p)"
    using host_sends_login [OF host(1-3) sockets(1,2), of None] host(4,5) unfolding p_def by auto
  have m1: "login_message p \<noteq> []" by (simp add: login_message_def flip: length_greater_0_conv)
  obtain f1 x1 q1 a1 where f1: "fneClock h ef 0 (Some (dg_buffer d1, hostAddr)) ?f0 = Some f1" "rest f1 = rest ?f0" "queued f1 = []"
    "login_of f1 p = Some (NET_STAT_WAITING_AUTHORISATION, False, ?salt, hostAddr)" "m_sent f1 = m_sent ?f0 @ [x1]"
    "opened x1 = Some (hostAddr, p, ucast RTP_END_OF_CALL_SEQ, ack_opcode, q1, a1)" "length a1 = 14" "take 4 (drop 6 a1) = salt_bytes ?salt"
    using fne_takes_login [OF fne(1) host(6) _ sockets(4,5) fne(2) h1(7) m1, of h ef] fne(3) by (auto simp: login_of_None)
  note t1 = turnI [where w = w, OF _ h1(6) f1(1,5,6), of eh ms fneAddr, simplified sockets(3) list.simps, OF h1(1)]
  have id1: "m_peerId h1 = p" "m_addr h1 = fneAddr" "h_password h1 = m_password ?f0"
    using h1(3) host(4) password(1) by (simp_all add: host_ids_def p_def)
  have pw1: "length (h_password h1) + 4 < 2 ^ 32" using id1(3) password(2) by simp
  have o1: "opened x1 = Some (hostAddr, m_peerId h1, ucast RTP_END_OF_CALL_SEQ, ack_opcode, q1, a1)" "10 \<le> length a1"
    using f1(6,7) id1(1) by simp_all
  obtain h2 d2 q2 where h2: "hostClock eh 0 (Some (dg_buffer x1, fneAddr)) h1 = Some h2" "host_calm h2" "host_ids h2 = host_ids h1"
    "m_status h2 = NET_STAT_WAITING_AUTHORISATION" "h_loginStreamId h2 \<noteq> 0" "m_sent h2 = m_sent h1 @ [d2]"
    "opened d2 = Some (fneAddr, p, h_loginStreamId h1, (NET_FUNC_RPTK, NET_SUBFUNC_NOP), q2, auth_message p (salt_bytes ?salt) (m_password ?f0))"
    using host_answers_challenge [OF h1(2,4,5) o1 f1(8) pw1, of eh] h1(5) unfolding id1 by metis
  have calm1: "calm f1" using calm_rest [OF f1(2)] fne(1) by simp
  note r1 = rest_same(1) [OF f1(2)]
  have sl: "length (salt_bytes ?salt) = 4" by (simp add: salt_bytes_def)
  note am = auth_message_eq [OF sl password(2), of p]
  obtain f2 x2 q3 a2 where f2: "fneClock h ef 0 (Some (dg_buffer d2, hostAddr)) f1 = Some f2" "rest f2 = rest f1" "queued f2 = []"
    "login_of f2 p = Some (NET_STAT_WAITING_CONFIG, False, ?salt, hostAddr)" "m_sent f2 = m_sent f1 @ [x2]"
    "opened x2 = Some (hostAddr, p, ucast RTP_END_OF_CALL_SEQ, ack_opcode, q3, a2)" "length a2 = 10"
    using fne_takes_answer [OF calm1 host(6) f1(4,3) h2(7), of h ef hostAddr] am password(2) unfolding r1 by auto
  let ?w1 = "\<lparr>w_host = h1, w_fne = f1, w_mail = [dg_buffer x1]\<rparr>"
  have t2: "turn h eh ef hostAddr fneAddr 0 ?w1 = Some \<lparr>w_host = h2, w_fne = f2, w_mail = [dg_buffer x2]\<rparr>"
    using turnI [where w = ?w1 and eh = eh and ms = 0 and fneAddr = fneAddr and host = h2 and d = d2 and h = h and ef = ef and fne = f2 and out = "[]",
        OF _ _ _ _ f2(6)] h2(1,6) f2(1,5) by simp
  have id2: "m_peerId h2 = p" "m_addr h2 = fneAddr" using h2(3) id1 by (simp_all add: host_ids_def)
  have o2: "opened x2 = Some (hostAddr, m_peerId h2, ucast RTP_END_OF_CALL_SEQ, ack_opcode, q3, a2)" "a2 \<noteq> []"
    using f2(6,7) id2(1) by auto
  obtain h3 d3 q4 where h3: "hostClock eh 0 (Some (dg_buffer x2, fneAddr)) h2 = Some h3" "host_calm h3" "host_ids h3 = host_ids h2"
    "m_status h3 = NET_STAT_WAITING_CONFIG" "m_sent h3 = m_sent h2 @ [d3]"
    "opened d3 = Some (fneAddr, p, h_loginStreamId h2, (NET_FUNC_RPTC, NET_SUBFUNC_NOP), q4, config_message eh)"
    using host_sends_config [OF h2(2,4,5) o2 config(1)] unfolding id2 by metis
  have r2: "rest f2 = rest ?f0" using f2(2) f1(2) by simp
  have calm2: "calm f2" using calm_rest [OF r2] fne(1) by simp
  have fit2: "lists_fit ef p f2" using fne(4) by (simp add: rest_same(2) [OF r2])
  have c3: "8 \<le> length (config_message eh)" "env_json ef (drop 8 (config_message eh)) = Json_object"
    using config(2) by (simp_all add: config_message_def uninit_def)
  obtain f3 x3 q5 a3 out where f3: "fneClock h ef 0 (Some (dg_buffer d3, hostAddr)) f2 = Some f3"
    "login_of f3 p = Some (NET_STAT_RUNNING, True, ?salt, hostAddr)" "m_sent f3 = m_sent f2 @ x3 # out"
    "opened x3 = Some (hostAddr, p, ucast RTP_END_OF_CALL_SEQ, ack_opcode, q5, a3)" "length a3 = 10"
    using fne_takes_config [OF calm2 host(6) f2(4,3) h3(6) c3 fit2, of h hostAddr] by auto
  let ?w2 = "\<lparr>w_host = h2, w_fne = f2, w_mail = [dg_buffer x2]\<rparr>"
  obtain mail where t3: "turn h eh ef hostAddr fneAddr 0 ?w2 = Some \<lparr>w_host = h3, w_fne = f3, w_mail = dg_buffer x3 # mail\<rparr>"
    using turnI [where w = ?w2 and eh = eh and ms = 0 and fneAddr = fneAddr and host = h3 and d = d3 and h = h and ef = ef and fne = f3 and out = out,
        OF _ _ _ _ f3(4)] h3(1,5) f3(1,3) by simp
  have id3: "m_peerId h3 = p" "m_addr h3 = fneAddr" using h3(3) id2 by (simp_all add: host_ids_def)
  have o3: "opened x3 = Some (hostAddr, m_peerId h3, ucast RTP_END_OF_CALL_SEQ, ack_opcode, q5, a3)" "a3 \<noteq> []"
    using f3(4,5) id3(1) by auto
  obtain h4 where h4: "hostClock eh 0 (Some (dg_buffer x3, fneAddr)) h3 = Some h4" "m_status h4 = NET_STAT_RUNNING" "m_sent h4 = m_sent h3"
    using host_logged_in [OF h3(2,4) o3] unfolding id3 by metis
  have "turn h eh ef hostAddr fneAddr 0 \<lparr>w_host = h3, w_fne = f3, w_mail = dg_buffer x3 # mail\<rparr> =
      Some \<lparr>w_host = h4, w_fne = f3, w_mail = mail\<rparr>"
    using h4 by (simp add: turn_def)
  then have "turns h eh ef hostAddr fneAddr [ms, 0, 0, 0] w = Some \<lparr>w_host = h4, w_fne = f3, w_mail = mail\<rparr>"
    using t1 t2 t3 by simp
  then show ?thesis using h4(2) login_of_Some [OF f3(2)] by fastforce
qed

text \<open>A host for the examples, opened towards an FNE.\<close>

definition sample_host_env :: host_env where
  "sample_host_env = \<lparr>env_now = 0, env_since = \<lambda>_. 0, env_random = \<lambda>_. 1, env_written = True, env_opened = True,
     env_lookup = \<lambda>_ port. Some \<lparr>sa_ip = ''10.0.0.9'', sa_port = port\<rparr>, env_config = [0x7B, 0x7D], env_uninit = \<lambda>_. 0\<rparr>"

definition sample_host :: "u32 \<Rightarrow> host_net" where
  "sample_host p = snd (hostOpen sample_host_env (host_enable True
     (the (new_host sample_host_env ''fne'' 62031 p [0x70] True True True True True False False True))))"

lemma sample_host_fields:
  assumes "p < 999999999"
  shows "host_calm (sample_host p)" "m_status (sample_host p) = NET_STAT_WAITING_CONNECT" "m_peerId (sample_host p) = p"
    "m_addr (sample_host p) = \<lparr>sa_ip = ''10.0.0.9'', sa_port = 62031\<rparr>" "h_password (sample_host p) = [0x70]"
    "timed_out (timerClock 10000 (h_retryTimer (sample_host p)))" "h_address (sample_host p) = ''fne''" "h_port (sample_host p) = 62031"
    "h_rxDMRStreamId (sample_host p) = [0, 0]" "h_dmrEnabled (sample_host p)" "h_updateLookup (sample_host p)"
    "m_rxDMRData (sample_host p) = new_ring 4000" "m_slot1 (sample_host p)"
  using assms
  by (simp_all add: sample_host_def new_host_def new_base_net_def sample_host_env_def new_timer_of_def timeout_of_def host_net.fields_def
      base_net.extend_def hostOpen_def host_enable_def host_calm_def queued_def timerStart_def timerStop_def timerClock_def timed_out_def
      hasExpired_def isRunning_def word_le_nat_alt)

theorem login_completes_witness:
  "\<exists>(w :: unit pair) w' c. m_peers (w_fne w) = Map.empty \<and>
     turns no_traffic sample_host_env sample_env \<lparr>sa_ip = ''10.0.0.1'', sa_port = 62031\<rparr> \<lparr>sa_ip = ''10.0.0.9'', sa_port = 62031\<rparr>
       [10000, 0, 0, 0] w = Some w' \<and>
     m_status (w_host w') = NET_STAT_RUNNING \<and> m_peers (w_fne w') 7 = Some c \<and> connected c"
proof -
  obtain s :: "unit fne" where s: "calm (snd (fneOpen True s))" "m_peers (snd (fneOpen True s)) = Map.empty"
      "m_password (snd (fneOpen True s)) = [0x70]" "m_sendTalkgroups (snd (fneOpen True s)) = False"
    using fresh_fne [of sample_env "()"] by blast
  let ?f = "snd (fneOpen True s)"
  let ?w = "\<lparr>w_host = sample_host 7, w_fne = ?f, w_mail = []\<rparr>"
  have q: "queued ?f = []" by (simp add: fneOpen_def queued_def Let_def)
  have fit: "lists_fit sample_env 7 ?f" using s(4) by (simp add: lists_fit_def enabled_rids_def sample_env_def)
  have h: "(7 :: u32) < 999999999" by simp
  note hf = sample_host_fields [OF h]
  obtain w' c where "turns no_traffic sample_host_env sample_env \<lparr>sa_ip = ''10.0.0.1'', sa_port = 62031\<rparr> \<lparr>sa_ip = ''10.0.0.9'', sa_port = 62031\<rparr>
       [10000, 0, 0, 0] ?w = Some w'" "m_status (w_host w') = NET_STAT_RUNNING" "m_peers (w_fne w') 7 = Some c" "connected c"
    using login_completes [of ?w 10000 "\<lparr>sa_ip = ''10.0.0.9'', sa_port = 62031\<rparr>" sample_host_env
        "\<lparr>sa_ip = ''10.0.0.1'', sa_port = 62031\<rparr>" sample_env no_traffic] s q fit hf
    by (auto simp: sample_host_env_def sample_env_def simp del: turns.simps)
  then show ?thesis using s(2) by (intro exI [of _ ?w] exI [of _ w'] exI [of _ c]) simp
qed

end
