(* ===== verification/HostTraffic.thy ===== *)
theory HostTraffic
  imports HostSession
begin

text \<open>
  What the FNE sends its hosts once they are connected: the radio lists, which end in the hosts'
  tables (\<^verbatim>\<open>FNENetwork::writeWhitelistRIDs\<close> to \<^verbatim>\<open>Network::clock\<close>), and call data, followed from the
  writer of one host through the FNE's traffic handler to the reader of another.
\<close>

section \<open>Lists on the wire\<close>

lemma SET_UINT32_append:
  assumes "length pre = off"
  shows "SET_UINT32 v (pre @ replicate 4 0 @ r) off = pre @ salt_bytes v @ r"
proof -
  have "SET_UINT32 v (replicate 4 0 @ r) 0 = salt_bytes v @ r"
    by (simp add: salt_bytes_def SET_UINT32_def numeral_nat(1) eval_nat_numeral)
  moreover have "SET_UINT32 v (pre @ x) (length pre) = pre @ SET_UINT32 v x 0" for x
    by (simp add: SET_UINT32_def list_update_append)
  ultimately show ?thesis using assms by simp
qed

lemma length_salt_bytes [simp]: "length (salt_bytes v) = 4"
  by (simp add: salt_bytes_def)

lemma put_ids_blocks:
  "length pre = off \<Longrightarrow> put_ids ids off (pre @ replicate (4 * length ids) 0) = pre @ concat (map salt_bytes ids)"
proof (induction ids arbitrary: pre off)
  case (Cons i ids)
  have "replicate (4 * length (i # ids)) 0 = replicate 4 0 @ replicate (4 * length ids) (0 :: u8)"
    by (simp add: replicate_add [symmetric])
  then show ?case
    using Cons.IH [of "pre @ salt_bytes i" "off + 4"] Cons.prems SET_UINT32_append [OF Cons.prems, of i] by simp
qed simp

lemma rid_payload_blocks: "rid_payload ids = salt_bytes (of_nat (length ids)) @ concat (map salt_bytes ids)"
proof -
  have "replicate (4 + length ids * 4) 0 = replicate 4 0 @ replicate (4 * length ids) (0 :: u8)"
    by (simp add: replicate_add [symmetric] mult.commute)
  then show ?thesis
    using put_ids_blocks [of "salt_bytes (of_nat (length ids))" 4 ids] SET_UINT32_append [of "[]" 0]
    by (simp add: rid_payload_def)
qed

lemma GET_UINT16_drop: "j \<le> length m \<Longrightarrow> GET_UINT16 (drop j m) n = GET_UINT16 m (j + n)"
  by (simp add: GET_UINT16_def)

lemma GET_low: "GET_UINT16 (salt_bytes v @ r) 1 = take_bit 24 v"
  by (simp add: GET_UINT16_def salt_bytes_def SET_UINT32_def nth_append and_FF_32 nth_list_update join24)

lemma drop_blocks:
  assumes "\<And>x. length (blk x) = w" "k < length xs"
  shows "drop (k * w) (concat (map blk xs)) = blk (xs ! k) @ concat (map blk (drop (Suc k) xs))"
  using assms(2)
proof (induction xs arbitrary: k)
  case (Cons x xs)
  then show ?case using assms(1) by (cases k) (simp_all add: add.commute)
qed simp

text \<open>The message as the host reads it: its length and its entries.\<close>

definition list_message :: "bytes \<Rightarrow> bytes" where
  "list_message payload = take (length payload + 6) (command_buffer payload)"

lemma list_message_eq: "length payload \<le> 8186 \<Longrightarrow> list_message payload = replicate 6 0 @ payload"
  by (simp add: list_message_def command_buffer_eq)

lemma rid_message:
  assumes "length ids < 256"
  shows "length (list_message (rid_payload ids)) = 10 + length ids * 4"
    "GET_UINT16 (list_message (rid_payload ids)) 7 = of_nat (length ids)"
    "k < length ids \<Longrightarrow> GET_UINT16 (list_message (rid_payload ids)) (11 + k * 4) = take_bit 24 (ids ! k)"
proof -
  let ?m = "list_message (rid_payload ids)" and ?n = "of_nat (length ids) :: u32"
  have l: "length (rid_payload ids) = 4 + length ids * 4" by (simp add: length_rid_payload)
  then have m: "?m = replicate 6 0 @ salt_bytes ?n @ concat (map salt_bytes ids)"
    using assms list_message_eq [of "rid_payload ids"] rid_payload_blocks [of ids] by simp
  show len: "length ?m = 10 + length ids * 4" using assms l list_message_eq [of "rid_payload ids"] by simp
  have "drop 6 ?m = salt_bytes ?n @ concat (map salt_bytes ids)" using m by simp
  then have "GET_UINT16 ?m 7 = take_bit 24 ?n" using GET_UINT16_drop [of 6 ?m 1] GET_low len by simp
  moreover have "take_bit 24 ?n = ?n"
    by (rule unsigned_word_eqI [where 'a = nat]) (use assms in \<open>simp add: unsigned_take_bit_eq unat_of_nat take_bit_nat_eq_self\<close>)
  ultimately show "GET_UINT16 ?m 7 = ?n" by simp
  assume k: "k < length ids"
  have "drop (10 + k * 4) ?m = drop (k * 4) (concat (map salt_bytes ids))" unfolding m by simp
  also have "\<dots> = salt_bytes (ids ! k) @ concat (map salt_bytes (drop (Suc k) ids))" by (rule drop_blocks [OF _ k]) simp
  finally show "GET_UINT16 ?m (11 + k * 4) = take_bit 24 (ids ! k)"
    using GET_UINT16_drop [of "10 + k * 4" ?m 1] GET_low len k by (simp add: add.commute)
qed

lemma update_rids_list:
  assumes "length ids < 256" "h_enabled s" "h_updateLookup s" "h_ridLookup s = Some rids"
  shows "update_rids b (list_message (rid_payload ids)) s =
           Some (s\<lparr>h_ridLookup := Some (fold (\<lambda>i. rid_toggleEntry (take_bit 24 i) b) ids rids)\<rparr>)"
proof -
  let ?m = "list_message (rid_payload ids)"
  note m = rid_message [OF assms(1)]
  have "fold (\<lambda>k. toggle_at b ?m (k * 4)) [0..<n] rids = fold (\<lambda>i. rid_toggleEntry (take_bit 24 i) b) (take n ids) rids"
    if "n \<le> length ids" for n
    using that by (induction n) (simp_all add: toggle_at_def m(3) take_Suc_conv_app_nth)
  from this [of "length ids"]
  have "read_list 3 (toggle_at b ?m) ?m rids = Some (fold (\<lambda>i. rid_toggleEntry (take_bit 24 i) b) ids rids)"
    using m(1) by (simp add: read_list_fold [where gap = 3, OF assms(1) m(2)])
  then show ?thesis using assms(2-4) by (simp add: update_rids_def)
qed

section \<open>The radio lists\<close>

text \<open>A command the FNE writes to a peer, and a host hearing a list.\<close>

lemma writePeerCommand_sends:
  assumes "writePeerCommand e p opcode data False inc s = Some s'" "m_peers s p = Some c" "queued s = []" "length data \<le> 8154"
    and "fst opcode \<noteq> NET_FUNC_TRANSFER" "fst opcode \<noteq> NET_FUNC_GRANT_REQ"
  shows "\<exists>d i seq. m_sent s' = m_sent s @ [d] \<and> opened d = Some (p_addr c, p, i, opcode, seq, list_message data)"
proof -
  let ?c = "if inc then c\<lparr>pktLastSeq := pktLastSeq c + 1\<rparr> else c"
  let ?t = "put_peer p ?c s"
  have l: "length (list_message data) \<le> 8160" using assms(4) by (simp add: list_message_eq)
  have s': "s' = snd (net_flush e (net_enqueue e (list_message data) (currStreamId ?c) p (m_peerId ?t) opcode (pktLastSeq ?c) (p_addr ?c) ?t))"
    using assms(1,2) by (simp add: writePeerCommand_def writePeer_def writePeerSeq_def put_peer_def list_message_def Let_def split: if_splits)
  have q: "queued ?t = []" using assms(3) by simp
  have "p_addr ?c = p_addr c" by simp
  then show ?thesis
    using flushed_datagram [OF q l assms(5,6), of e e "currStreamId ?c" p "m_peerId ?t" "pktLastSeq ?c" "p_addr ?c"]
    unfolding s' queued_put(2) by metis
qed

definition host_data :: "host_net \<Rightarrow> rid_table option \<times> tg_rules option \<times> u8 ring \<times> u8 ring \<times> u8 ring" where
  "host_data s = (h_ridLookup s, h_tidLookup s, m_rxDMRData s, m_rxP25Data s, m_rxNXDNData s)"

lemma host_data_basic:
  "host_data (snd (pktSeq b s)) = host_data s" "host_data (snd (createStreamId e s)) = host_data s"
  "host_data (snd (writeMaster e opcode data seq i q s)) = host_data s"
  by (simp_all add: host_data_def pktSeq_def createStreamId_def writeMaster_def net_enqueue_def net_flush_def Let_def case_prod_unfold)

lemma host_data_fields:
  "host_data (s\<lparr>h_loginStreamId := a, h_remotePeerId := i\<rparr>) = host_data s" "host_data (s\<lparr>m_status := st\<rparr>) = host_data s"
  "host_data (s\<lparr>h_retryTimer := t\<rparr>) = host_data s" "host_data (s\<lparr>h_timeoutTimer := t\<rparr>) = host_data s"
  "host_data (s\<lparr>h_retryTimer := t, h_timeoutTimer := u, m_status := st\<rparr>) = host_data s"
  "host_data (s\<lparr>m_addr := addr\<rparr>) = host_data s"
  by (simp_all add: host_data_def)

lemma host_data_writes:
  "host_data (snd (writeLogin e s)) = host_data s" "host_data (snd (writeAuthorisation e s)) = host_data s"
  "host_data (snd (writeConfig e s)) = host_data s" "host_data (snd (writePing e s)) = host_data s"
  "host_data (hostClose e s) = host_data s" "host_data (snd (hostOpen e s)) = host_data s"
  unfolding writeLogin_def writeAuthorisation_def writeConfig_def writePing_def hostClose_def hostOpen_def
  by (simp_all add: Let_def case_prod_unfold host_data_basic host_data_fields split: option.split)

lemma host_timers_keep: "host_data (host_timeout e ms (host_retry e ms s)) = host_data s"
  by (simp add: host_timeout_def host_retry_def reopen_def Let_def host_data_writes host_data_fields
      split: NET_CONN_STATUS.split)

lemma opened_address: "opened d = Some (a, r) \<Longrightarrow> dg_address d = a"
  by (auto simp: opened_def split: read_result.splits)

text \<open>
  C14. The radios the FNE lists reach the table of a connected host: for up to 255 of them the datagram
  it is sent enables (or, from the black list, disables) every one of them there, whatever the
  table held before.
\<close>

theorem radio_lists_reach_host:
  fixes s :: "'h fne" and e :: "'e fne_env_scheme" and host :: host_net and b :: bool
  defines "ids \<equiv> enabled_rids b (env_rids e) (m_ridLookup s)"
  assumes fne: "(if b then writeWhitelistRIDs else writeBlacklistRIDs) e p False s = Some s'" "m_peers s p = Some c" "queued s = []"
    and ids: "0 < length ids" "length ids < 256"
    and host: "m_status host \<noteq> NET_STAT_WAITING_CONNECT" "h_enabled host" "h_updateLookup host" "h_ridLookup host = Some rids"
      "m_peerId host = p" "m_addr host = fneAddr"
  shows "\<exists>d host'. m_sent s' = m_sent s @ [d] \<and> dg_address d = p_addr c \<and>
           hostClock eh ms (Some (dg_buffer d, fneAddr)) host = Some host' \<and>
           (\<exists>rids'. h_ridLookup host' = Some rids' \<and>
              (\<forall>k. \<not> wuid k \<longrightarrow> m_radioEnabled (rid_find k rids') = (if k \<in> take_bit 24 ` set ids then b else m_radioEnabled (rid_find k rids))))"
proof -
  let ?op = "(NET_FUNC_MASTER, if b then NET_MASTER_SUBFUNC_WL_RID else NET_MASTER_SUBFUNC_BL_RID)"
  have w: "writePeerCommand e p ?op (rid_payload ids) False True s = Some s'"
    using fne(1) ids(1) unfolding ids_def by (simp add: writeWhitelistRIDs_def writeBlacklistRIDs_def Let_def split: if_splits)
  have l: "length (rid_payload ids) \<le> 8154" using ids(2) by (simp add: length_rid_payload)
  obtain d i seq where d: "m_sent s' = m_sent s @ [d]" "opened d = Some (p_addr c, p, i, ?op, seq, list_message (rid_payload ids))"
    using writePeerCommand_sends [OF w fne(2,3) l] by (auto simp: net_funcs)
  have m: "list_message (rid_payload ids) \<noteq> []" using rid_message(1) [OF ids(2)] by auto
  have o: "opened d = Some (p_addr c, m_peerId host, i, ?op, seq, list_message (rid_payload ids))" using d(2) host(5) by simp
  obtain rtp fne' where r: "\<And>s'. host_message eh (m_addr host) rtp fne' (list_message (rid_payload ids)) host = Some (True, s') \<Longrightarrow>
      hostClock eh ms (Some (dg_buffer d, m_addr host)) host = Some (host_timeout eh ms (host_retry eh ms s'))"
    "m_hdrPeerId fne' = m_peerId host" "m_func fne' = fst ?op" "m_subFunc fne' = snd ?op"
    using host_hears [OF host(1,2) m o] by metis
  let ?h = "(heard rtp host)\<lparr>h_ridLookup := Some (fold (\<lambda>i. rid_toggleEntry (take_bit 24 i) b) ids rids)\<rparr>"
  have "host_master (snd ?op) (list_message (rid_payload ids)) (heard rtp host) = Some ?h"
    using update_rids_list [OF ids(2), of "heard rtp host" rids b] host(2-4)
    by (cases b) (simp_all add: host_master_def NET_MASTER_SUBFUNC_WL_RID_def NET_MASTER_SUBFUNC_BL_RID_def)
  then have "host_message eh (m_addr host) rtp fne' (list_message (rid_payload ids)) host = Some (True, ?h)"
    using r(2-4) by (simp add: host_message_def heard_def net_funcs Let_def)
  moreover have "fold (\<lambda>i. rid_toggleEntry (take_bit 24 i) b) ids rids = fold (\<lambda>i. rid_toggleEntry i b) (map (take_bit 24) ids) rids"
    by (simp add: fold_map o_def)
  ultimately show ?thesis
    using r(1) [of ?h] d(1) opened_address [OF d(2)] host(6) rids.lookup_puts [of _ b "map (take_bit 24) ids" rids]
      host_timers_keep [of eh ms ?h] by (simp add: host_data_def)
qed

section \<open>The DMR message\<close>

text \<open>A frame as the host's DMR code hands it to the network.\<close>

definition dmr_ok :: "dmr_data \<Rightarrow> bool" where
  "dmr_ok d \<longleftrightarrow> d_slotNo d \<in> {1, 2} \<and> d_flco d \<in> {FLCO_GROUP, FLCO_PRIVATE} \<and> DMR_FRAME_LENGTH_BYTES \<le> length (d_data d) \<and>
     (d_dataType d = DT_VOICE \<and> d_n d < 16 \<or> d_dataType d = DT_VOICE_SYNC \<or> d_dataType d < 16)"

definition kind_bits :: "dmr_data \<Rightarrow> u8" where
  "kind_bits d = (if d_dataType d = DT_VOICE_SYNC then 0x10 else if d_dataType d = DT_VOICE then d_n d else 0x20 OR d_dataType d)"

definition head_byte :: "dmr_data \<Rightarrow> u8" where
  "head_byte d = ((if d_slotNo d = 1 then 0x00 else 0x80) OR (if d_flco d = FLCO_GROUP then 0x00 else 0x40)) OR kind_bits d"

lemma low_nibble:
  assumes "(t :: u8) < 16"
  shows "t AND 0x80 = 0" "t AND 0x40 = 0" "t AND 0x20 = 0" "t AND 0x10 = 0" "t AND 0x0F = t"
proof -
  define k where "k = unat t"
  have k: "t = of_nat k" "k < 16" using assms by (simp_all add: k_def word_less_nat_alt)
  then have "k = 0 \<or> k = 1 \<or> k = 2 \<or> k = 3 \<or> k = 4 \<or> k = 5 \<or> k = 6 \<or> k = 7 \<or> k = 8 \<or> k = 9 \<or> k = 10 \<or> k = 11 \<or>
      k = 12 \<or> k = 13 \<or> k = 14 \<or> k = 15" by arith
  then show "t AND 0x80 = 0" "t AND 0x40 = 0" "t AND 0x20 = 0" "t AND 0x10 = 0" "t AND 0x0F = t"
    unfolding k(1) by (elim disjE; simp)+
qed

lemma head_bits:
  assumes "dmr_ok d"
  shows "head_byte d AND 0x80 = (if d_slotNo d = 1 then 0 else 0x80)" "head_byte d AND 0x40 = (if d_flco d = FLCO_GROUP then 0 else 0x40)"
    "head_byte d AND 0x20 = (if d_dataType d = DT_VOICE_SYNC \<or> d_dataType d = DT_VOICE then 0 else 0x20)"
    "head_byte d AND 0x10 = (if d_dataType d = DT_VOICE_SYNC then 0x10 else 0)"
    "head_byte d AND 0x0F = (if d_dataType d = DT_VOICE_SYNC then 0 else if d_dataType d = DT_VOICE then d_n d else d_dataType d)"
  using assms low_nibble
  by (auto simp: head_byte_def kind_bits_def dmr_ok_def bit.conj_disj_distrib2 DT_VOICE_def DT_VOICE_SYNC_def)

lemma dmr_message_fields:
  assumes "createDMR_Message d s = Some msg" "DMR_FRAME_LENGTH_BYTES \<le> length (d_data d)"
  shows "length msg = 63" "msg ! 4 = d_seqNo d" "msg ! 15 = head_byte d" "GET_UINT16 msg 5 = take_bit 24 (d_srcId d)"
    "GET_UINT16 msg 8 = take_bit 24 (d_dstId d)" "take DMR_FRAME_LENGTH_BYTES (drop 20 msg) = dmr_getData d"
proof -
  let ?b = "((((SET_UINT16 (d_dstId d) (SET_UINT16 (d_srcId d) (memcpy_at (replicate 63 0) 0 [0x44, 0x4D, 0x52, 0x44]) 5) 8)[14 := 0])
     [15 := head_byte d])[4 := d_seqNo d])[53 := d_ber d, 54 := d_rssi d]"
  have m: "msg = memcpy_at ?b 20 (dmr_getData d)"
    using assms(1)
    by (auto simp: createDMR_Message_def Let_def DMR_PACKET_LENGTH_def PACKET_PAD_def head_byte_def kind_bits_def or.assoc split: if_splits)
  have l: "length (dmr_getData d) = 33" using assms(2) by (simp add: dmr_getData_def DMR_FRAME_LENGTH_BYTES_def)
  have b: "length ?b = 63" by simp
  show "length msg = 63" unfolding m by (simp add: l)
  have n: "msg ! i = ?b ! i" if "i < 20" for i unfolding m using that by (simp add: memcpy_at_nth l)
  show "msg ! 4 = d_seqNo d" "msg ! 15 = head_byte d" by (simp_all add: n)
  show "GET_UINT16 msg 5 = take_bit 24 (d_srcId d)" "GET_UINT16 msg 8 = take_bit 24 (d_dstId d)"
    using memcpy_at_nth n by (simp_all add: GET_UINT16_def SET_UINT16_def and_FF_32 join24 nth_list_update)
  show "take DMR_FRAME_LENGTH_BYTES (drop 20 msg) = dmr_getData d"
    unfolding m using l by (simp add: memcpy_at_def DMR_FRAME_LENGTH_BYTES_def)
qed

lemma frame_of_fields:
  "d_srcId (frame_of mem data) = frame_src data" "d_dstId (frame_of mem data) = frame_dst data" "d_slotNo (frame_of mem data) = frame_slot data"
  "d_flco (frame_of mem data) = (if data ! 15 AND 0x40 = 0x40 then FLCO_PRIVATE else FLCO_GROUP)" "d_seqNo (frame_of mem data) = data ! 4"
  "d_dataType (frame_of mem data) = (if frame_sync data then frame_type data else if data ! 15 AND 0x10 = 0x10 then DT_VOICE_SYNC else DT_VOICE)"
  "d_n (frame_of mem data) = (if frame_sync data \<or> data ! 15 AND 0x10 = 0x10 then 0 else data ! 15 AND 0x0F)"
  "length data = 63 \<Longrightarrow> dmr_getData (frame_of mem data) = take DMR_FRAME_LENGTH_BYTES (drop 20 data)"
  by (simp_all add: frame_of_def dmr_setData_def new_dmr_data_def dmr_getData_def memcpy_at_def DMR_FRAME_LENGTH_BYTES_def Let_def)

lemma dmr_message_frame:
  assumes "createDMR_Message d s = Some msg" "dmr_ok d"
  shows "d_srcId (frame_of mem msg) = take_bit 24 (d_srcId d) \<and> d_dstId (frame_of mem msg) = take_bit 24 (d_dstId d) \<and>
         d_slotNo (frame_of mem msg) = d_slotNo d \<and> d_flco (frame_of mem msg) = d_flco d \<and> d_seqNo (frame_of mem msg) = d_seqNo d \<and>
         d_dataType (frame_of mem msg) = d_dataType d \<and> d_n (frame_of mem msg) = (if d_dataType d = DT_VOICE then d_n d else 0) \<and>
         dmr_getData (frame_of mem msg) = dmr_getData d"
proof -
  have l: "DMR_FRAME_LENGTH_BYTES \<le> length (d_data d)" using assms(2) by (simp add: dmr_ok_def)
  note m = dmr_message_fields [OF assms(1) l] and h = head_bits [OF assms(2)]
  have f: "frame_sync msg = (d_dataType d \<noteq> DT_VOICE_SYNC \<and> d_dataType d \<noteq> DT_VOICE)"
    "(msg ! 15 AND 0x10 = 0x10) = (d_dataType d = DT_VOICE_SYNC)" "(msg ! 15 AND 0x40 = 0x40) = (d_flco d \<noteq> FLCO_GROUP)"
    "frame_slot msg = (if d_slotNo d = 1 then 1 else 2)"
    "msg ! 15 AND 0x0F = (if d_dataType d = DT_VOICE_SYNC then 0 else if d_dataType d = DT_VOICE then d_n d else d_dataType d)"
    unfolding frame_sync_def frame_slot_def m(3) h by simp_all
  have v: "DT_VOICE \<noteq> DT_VOICE_SYNC" by (simp add: DT_VOICE_def DT_VOICE_SYNC_def)
  show ?thesis
    unfolding frame_of_fields(1-7) frame_of_fields(8) [OF m(1)] m(2,6) f frame_src_def frame_dst_def m(4,5) frame_type_def
    using assms(2) v by (auto simp: dmr_ok_def)
qed

text \<open>
  C25. The FNE takes a DMR message apart into the frame it was made from: its radios (of 24 bits), slot,
  call type, sequence number, kind and the 33 bytes of the burst.
\<close>

theorem dmr_message_roundtrip:
  assumes "createDMR_Message d s = Some msg" "dmr_ok d"
  shows "d_srcId (frame_of mem msg) = take_bit 24 (d_srcId d) \<and> d_dstId (frame_of mem msg) = take_bit 24 (d_dstId d) \<and>
         d_slotNo (frame_of mem msg) = d_slotNo d \<and> d_flco (frame_of mem msg) = d_flco d \<and> d_seqNo (frame_of mem msg) = d_seqNo d \<and>
         d_dataType (frame_of mem msg) = d_dataType d \<and> d_n (frame_of mem msg) = (if d_dataType d = DT_VOICE then d_n d else 0) \<and>
         dmr_getData (frame_of mem msg) = dmr_getData d"
  by (rule dmr_message_frame [OF assms])

section \<open>A frame from host to host\<close>

abbreviation dmr_opcode :: "u8 \<times> u8" where "dmr_opcode \<equiv> (NET_FUNC_PROTOCOL, NET_PROTOCOL_SUBFUNC_DMR)"

lemma writeDMR_sends:
  fixes a :: host_net
  assumes "writeDMR e d noSequence a = Some (ret, a')" "net_running a" "m_slot1 a" "d_slotNo d = 1" "queued a = []"
    and "createDMR_Message d a = Some msg" "DMR_FRAME_LENGTH_BYTES \<le> length (d_data d)"
  shows "\<exists>x seq. m_sent a' = m_sent a @ [x] \<and> opened x = Some (m_addr a, m_peerId a, m_dmrStreamId a' ! 0, dmr_opcode, seq, msg)"
proof -
  let ?fresh = "\<lambda>s. let (newId, s) = createStreamId e s in s\<lparr>m_dmrStreamId := (m_dmrStreamId s)[unat (d_slotNo d - 1) := newId]\<rparr>"
  define s1 where "s1 = (if d_dataType d = DT_VOICE_LC_HEADER then ?fresh a else a)"
  define s2 where "s2 = (if d_dataType d = DT_CSBK \<or> d_dataType d = DT_DATA_HEADER then ?fresh s1 else s1)"
  define reset where "reset = (if d_dataType d = DT_CSBK \<or> d_dataType d = DT_DATA_HEADER then True
      else if d_dataType d = DT_VOICE_LC_HEADER then True else False)"
  have s2: "m_slot1 s2" "m_slot2 s2 = m_slot2 a" "queued s2 = queued a" "m_sent s2 = m_sent a" "m_addr s2 = m_addr a" "m_peerId s2 = m_peerId a"
    using assms(3) by (simp_all add: s2_def s1_def createStreamId_def queued_def)
  have m: "createDMR_Message d s2 = Some msg"
    using assms(3,4,6) s2(1) by (simp add: createDMR_Message_def Let_def split: if_splits)
  let ?s = "snd (pktSeq reset s2)"
  have s: "queued ?s = []" "m_sent ?s = m_sent a" "m_addr ?s = m_addr a" "m_peerId ?s = m_peerId a" using s2 assms(5) by simp_all
  have l: "length msg \<le> 8160" using dmr_message_fields(1) [OF assms(6,7)] by simp
  have pair: "(if b then (x, y) else (x', y')) = (if b then x else x', if b then y else y')" for b and x x' :: bool and y y' :: host_net by simp
  have "writeDMR e d noSequence a = (case createDMR_Message d s2 of None \<Rightarrow> Some (False, s2)
      | Some message \<Rightarrow> let seq = fst (pktSeq reset s2);
            seq = (if d_dataType d = DT_TERMINATOR_WITH_LC then RTP_END_OF_CALL_SEQ else seq);
            seq = (if noSequence then RTP_END_OF_CALL_SEQ else seq)
          in Some (writeMaster e dmr_opcode message seq (m_dmrStreamId ?s ! 0) False ?s))"
    using assms(2-4) by (simp add: writeDMR_def pair s1_def s2_def reset_def Let_def case_prod_unfold cong: if_cong option.case_cong split del: if_split)
  then obtain seq where w: "a' = snd (writeMaster e dmr_opcode msg seq (m_dmrStreamId ?s ! 0) False ?s)"
    using assms(1) m by (simp add: Let_def) (metis snd_conv)
  have "m_dmrStreamId a' = m_dmrStreamId ?s" unfolding w
    by (simp add: writeMaster_def net_enqueue_def net_flush_def Let_def case_prod_unfold)
  then show ?thesis
    using master_sends(1) [OF s(1) l, of dmr_opcode e seq "m_dmrStreamId ?s ! 0"] s unfolding w by (auto simp: net_funcs)
qed

lemma call_control_same:
  assumes "m_tags s' = m_tags s" "m_tidLookup s' = m_tidLookup s"
  shows "call_control data i s' = None \<longleftrightarrow> call_control data i s = None"
proof -
  have "m_tags (end_call dst slot s') = m_tags (end_call dst slot s)" "m_tidLookup (end_call dst slot s') = m_tidLookup (end_call dst slot s)" for dst slot
    using assms by (simp_all add: end_call_def upd_dmr_def Let_def)
  then show ?thesis using assms by (simp add: call_control_def start_call_def Let_def split: option.split)
qed

lemma updateSequence_traffic:
  fixes s :: "tags fne"
  shows "m_tags (updateSequence p i q s) = m_tags s" "m_tidLookup (updateSequence p i q s) = m_tidLookup s"
    "m_ridLookup (updateSequence p i q s) = m_ridLookup s" "m_dmrEnabled (updateSequence p i q s) = m_dmrEnabled s"
    "r \<noteq> p \<Longrightarrow> m_peers (updateSequence p i q s) r = m_peers s r" "peer_walk e (updateSequence p i q s) = peer_walk e s"
  by (auto simp: updateSequence_def put_peer_def peer_walk_def split: option.split intro!: filter_cong)

text \<open>The FNE repeats a frame to a peer that may have it.\<close>

lemma fne_repeats:
  fixes f :: "tags fne" and e :: "'e tag_env_scheme"
  assumes "calm f" "queued f = []" "m_peers f p = Some c" "valid_peer src c" "m_dmrEnabled f" "p > 0" "i \<noteq> 0"
    and "opened x = Some (addr, p, i, dmr_opcode, seq, msg)" "length msg = 63"
    and "frame_accepted f p (frame_of (env_mem e) msg)" "call_control msg i f \<noteq> None"
    and "m_peers f q = Some cq" "q \<noteq> p" "q \<in> set (env_peers e)" "isPeerPermitted (m_tidLookup f) q (frame_of (env_mem e) msg)"
  shows "\<exists>f' out y. fneClock fne_traffic e 0 (Some (dg_buffer x, src)) f = Some f' \<and> m_sent f' = m_sent f @ out \<and> y \<in> set out \<and>
           opened y = Some (p_addr cq, q, i, dmr_opcode, seq, msg)"
proof -
  let ?u = "updateSequence p i seq f" and ?d = "frame_of (env_mem e) msg"
  note us = updateSequence_traffic [where p = p and i = i and q = seq and s = f]
  have "call_control msg i ?u \<noteq> None" using call_control_same [OF us(1,2)] assms(11) by simp
  then obtain t where t: "call_control msg i ?u = Some t" by blast
  note k = call_fields [OF t]
  obtain f' where r: "repeat_frame e ?d msg msg p seq i t = Some f'" using repeat_frame_returns by blast
  have "queued t = []" using k(6) assms(2) by simp
  from repeat_frame_effect(7) [OF r this] assms(7,9) obtain out where out: "m_sent f' = m_sent t @ out"
    "map opened out = map (\<lambda>q. Some (p_addr (the (m_peers t q)), q, i, dmr_opcode, seq, msg))
       (filter (\<lambda>q. q \<noteq> p \<and> isPeerPermitted (m_tidLookup t) q ?d) (peer_walk e t))" by auto
  have "q \<in> set (peer_walk e t)" using assms(12,14) k(3) us(5) [OF assms(13)] by (simp add: peer_walk_def)
  then have "Some (p_addr (the (m_peers t q)), q, i, dmr_opcode, seq, msg) \<in> set (map opened out)"
    unfolding out(2) using assms(13,15) k(2) us(2) by auto
  then obtain y where y: "y \<in> set out" "opened y = Some (p_addr cq, q, i, dmr_opcode, seq, msg)"
    using k(3) us(5) [OF assms(13)] assms(12) by auto
  have acc: "frame_accepted ?u p ?d" using assms(10) us by (simp add: frame_accepted_def)
  have "dmr_processFrame e msg p seq i False ?u = Some (True, f')"
    using assms(9) acc t r by (simp add: dmr_processFrame_def DMR_FRAME_LENGTH_BYTES_def Let_def)
  then have "on_dmr_frame e msg p seq i ?u = Some f'" by (simp add: on_dmr_frame_def)
  moreover obtain c' where "m_peers ?u p = Some c'" "valid_peer src c'"
  proof -
    have "login_of f p = Some (connectionState c, connected c, p_salt c, p_addr c)" using assms(3) by (simp add: login_of_def)
    then have "login_of ?u p = Some (connectionState c, connected c, p_salt c, p_addr c)" by simp
    from login_of_Some [OF this] show ?thesis using that assms(4) unfolding valid_peer_def by metis
  qed
  ultimately have "handleProtocol fne_traffic e src p NET_PROTOCOL_SUBFUNC_DMR seq i msg ?u = Some f'"
    using assms(5,6) us(4) by (simp add: handleProtocol_def fne_traffic_def)
  then have h: "handleMessage fne_traffic e src rtp fne msg f = Some f'"
    if "m_hdrPeerId fne = p" "m_streamId fne = i" "m_func fne = fst dmr_opcode" "m_subFunc fne = snd dmr_opcode" "m_seq rtp = seq" for rtp fne
    using that assms(7) by (simp add: handleMessage_def Let_def)
  have "msg \<noteq> []" using assms(9) by auto
  then have "fneClock fne_traffic e 0 (Some (dg_buffer x, src)) f = Some f'"
    using fne_receives [OF assms(1,8)] h by metis
  then show ?thesis using out(1) y k(5) by auto
qed

text \<open>The receiving host queues it for its DMR code.\<close>

lemma host_queues_frame:
  assumes "opened y = Some (addr, m_peerId b, i, dmr_opcode, seq, msg)" "length msg = 63" "frame_slot msg = 1"
    and "m_status b \<noteq> NET_STAT_WAITING_CONNECT" "h_enabled b" "h_dmrEnabled b" "length (h_rxDMRStreamId b) = 2"
    and "holds (m_rxDMRData b) fs" "64 < freeSpace (m_rxDMRData b)"
  shows "\<exists>b'. hostClock e ms (Some (dg_buffer y, m_addr b)) b = Some b' \<and> holds (m_rxDMRData b') (fs @ [msg])"
proof -
  have n: "msg \<noteq> []" using assms(2) by auto
  obtain rtp fne where r: "\<And>s'. host_message e (m_addr b) rtp fne msg b = Some (True, s') \<Longrightarrow>
      hostClock e ms (Some (dg_buffer y, m_addr b)) b = Some (host_timeout e ms (host_retry e ms s'))"
    "m_hdrPeerId fne = m_peerId b" "m_streamId fne = i" "m_func fne = fst dmr_opcode" "m_subFunc fne = snd dmr_opcode"
    using host_hears [OF assms(4,5) n assms(1)] by metis
  have s: "\<not> msg ! 15 AND 0x80 = 0x80" using assms(3) by (simp add: frame_slot_def split: if_splits)
  obtain b1 where b1: "host_protocol NET_PROTOCOL_SUBFUNC_DMR i msg (heard rtp b) = Some b1" "m_rxDMRData b1 = rx_add msg (m_rxDMRData b)"
    using assms(2,5-7) s by (auto simp: host_protocol_def Let_def case_prod_unfold track_stream_def)
  then have "host_message e (m_addr b) rtp fne msg b = Some (True, b1)"
    using r(2-5) by (simp add: host_message_def heard_def net_funcs Let_def)
  from r(1) [OF this] have "hostClock e ms (Some (dg_buffer y, m_addr b)) b = Some (host_timeout e ms (host_retry e ms b1))" .
  moreover have "m_rxDMRData (host_timeout e ms (host_retry e ms b1)) = rx_add msg (m_rxDMRData b)"
    using host_timers_keep [of e ms b1] b1(2) by (simp add: host_data_def)
  moreover have "holds (rx_add msg (m_rxDMRData b)) (fs @ [msg])"
  proof -
    have "rx_add msg q = queue_frame 63 63 0 msg True q" if "64 < freeSpace q" for q
      using that assms(2) by (simp add: rx_add_def queue_frame_def Let_def)
    then show ?thesis using queue_frame_appends [OF assms(8), of 63 63 msg 0 True] assms(2,9) by simp
  qed
  ultimately show ?thesis by simp
qed

text \<open>
  C1. A DMR frame for slot 1 that one host sends reaches every other host that may have it: the FNE
  passes on the message its writer made of the frame, and the other host queues exactly these bytes
  for its DMR code, which take apart into the frame that was sent.
\<close>

theorem voice_frame_delivered:
  fixes a b :: host_net and f :: "tags fne" and ef :: "'e tag_env_scheme"
  assumes sender: "net_running a" "m_slot1 a" "queued a = []" "dmr_ok d" "d_slotNo d = 1" "createDMR_Message d a = Some msg"
      "writeDMR ea d noSequence a = Some (ret, a')" "m_dmrStreamId a' ! 0 \<noteq> 0"
    and fne: "calm f" "queued f = []" "m_peers f (m_peerId a) = Some ca" "valid_peer src ca" "m_dmrEnabled f" "m_peerId a > 0"
      "frame_accepted f (m_peerId a) (frame_of (env_mem ef) msg)" "call_control msg (m_dmrStreamId a' ! 0) f \<noteq> None"
    and permitted: "m_peers f (m_peerId b) = Some cb" "m_peerId b \<noteq> m_peerId a" "m_peerId b \<in> set (env_peers ef)"
      "isPeerPermitted (m_tidLookup f) (m_peerId b) (frame_of (env_mem ef) msg)"
    and receiver: "m_status b \<noteq> NET_STAT_WAITING_CONNECT" "h_enabled b" "h_dmrEnabled b" "length (h_rxDMRStreamId b) = 2"
      "holds (m_rxDMRData b) fs" "64 < freeSpace (m_rxDMRData b)"
  shows "\<exists>x f' out y b'. m_sent a' = m_sent a @ [x] \<and> fneClock fne_traffic ef 0 (Some (dg_buffer x, src)) f = Some f' \<and>
           m_sent f' = m_sent f @ out \<and> y \<in> set out \<and> dg_address y = p_addr cb \<and>
           hostClock eb ms (Some (dg_buffer y, m_addr b)) b = Some b' \<and> holds (m_rxDMRData b') (fs @ [msg])"
proof -
  have l: "DMR_FRAME_LENGTH_BYTES \<le> length (d_data d)" using sender(4) by (simp add: dmr_ok_def)
  note m = dmr_message_fields [OF sender(6) l]
  obtain x seq where x: "m_sent a' = m_sent a @ [x]"
    "opened x = Some (m_addr a, m_peerId a, m_dmrStreamId a' ! 0, dmr_opcode, seq, msg)"
    using writeDMR_sends [OF sender(7,1,2,5,3,6) l] by blast
  obtain f' out y where f: "fneClock fne_traffic ef 0 (Some (dg_buffer x, src)) f = Some f'" "m_sent f' = m_sent f @ out" "y \<in> set out"
    "opened y = Some (p_addr cb, m_peerId b, m_dmrStreamId a' ! 0, dmr_opcode, seq, msg)"
    using fne_repeats [OF fne(1-6) sender(8) x(2) m(1) fne(7,8) permitted] by blast
  have "frame_slot msg = 1" using head_bits(1) [OF sender(4)] sender(5) m(3) by (simp add: frame_slot_def)
  then show ?thesis using host_queues_frame [OF f(4) m(1) _ receiver] x(1) f opened_address [OF f(4)] by blast
qed

section \<open>Examples\<close>

definition sample_frame :: dmr_data where
  "sample_frame = \<lparr>d_slotNo = 1, d_srcId = 1234, d_dstId = 9, d_flco = FLCO_GROUP, d_n = 3, d_seqNo = 7, d_dataType = DT_VOICE,
     d_ber = 0, d_rssi = 0, d_data = replicate 33 0x55\<rparr>"

lemma sample_frame_ok: "dmr_ok sample_frame" "d_slotNo sample_frame = 1" "d_dataType sample_frame = DT_VOICE"
  by (simp_all add: sample_frame_def dmr_ok_def DMR_FRAME_LENGTH_BYTES_def)

lemma sample_frame_message: "m_slot1 s \<Longrightarrow> \<exists>msg. createDMR_Message sample_frame s = Some msg"
  by (simp add: createDMR_Message_def sample_frame_ok Let_def)

theorem dmr_message_roundtrip_witness:
  "\<exists>msg. createDMR_Message sample_frame (sample_host 7) = Some msg \<and> d_srcId (frame_of [] msg) = 1234"
proof -
  obtain msg where "createDMR_Message sample_frame (sample_host 7) = Some msg"
    using sample_frame_message [of "sample_host 7"] sample_host_fields(13) [of 7] by auto
  then show ?thesis using dmr_message_roundtrip [OF _ sample_frame_ok(1), of "sample_host 7" msg "[]"]
    by (simp add: sample_frame_def)
qed

definition sample_running :: "u32 \<Rightarrow> host_net" where
  "sample_running p = (sample_host p)\<lparr>m_status := NET_STAT_RUNNING, h_ridLookup := Some Map.empty, h_tidLookup := Some []\<rparr>"

lemma sample_running_fields:
  assumes "p < 999999999"
  shows "net_running (sample_running p)" "m_slot1 (sample_running p)" "queued (sample_running p) = []" "m_peerId (sample_running p) = p"
    "m_status (sample_running p) = NET_STAT_RUNNING" "h_enabled (sample_running p)" "h_dmrEnabled (sample_running p)"
    "h_rxDMRStreamId (sample_running p) = [0, 0]" "m_rxDMRData (sample_running p) = new_ring 4000" "m_dmrStreamId (sample_running p) = [1, 1]"
    "h_ridLookup (sample_running p) = Some Map.empty" "h_updateLookup (sample_running p)" "h_tidLookup (sample_running p) = Some []"
    "m_addr (sample_running p) = \<lparr>sa_ip = ''10.0.0.9'', sa_port = 62031\<rparr>" "h_address (sample_running p) = ''fne''" "h_port (sample_running p) = 62031"
  using sample_host_fields [OF assms] assms
  by (simp_all add: sample_running_def net_running_def host_calm_def queued_def)
    (simp add: sample_host_def new_host_def new_base_net_def sample_host_env_def new_timer_of_def host_net.fields_def
      base_net.extend_def hostOpen_def host_enable_def)

definition sample_open_fne :: "tags fne" where
  "sample_open_fne = snd (fneOpen True (sample_tag_fne [] sample_tags))"

lemma sample_open_fields:
  "calm sample_open_fne" "queued sample_open_fne = []" "m_peers sample_open_fne = [7 \<mapsto> sample_peer 7, 8 \<mapsto> sample_peer 8]"
  "m_dmrEnabled sample_open_fne" "m_tidLookup sample_open_fne = []" "m_ridLookup sample_open_fne = Map.empty"
  by (simp_all add: sample_open_fne_def sample_tag_fne_def put_peer_def new_fne_def new_base_net_def new_timer_of_def timeout_of_def
      base_net.extend_def fne.fields_def queued_def fneOpen_def calm_def isRunning_def hasExpired_def timerStart_def Let_def word_le_nat_alt)

lemma sample_peer_fields: "p > 0 \<Longrightarrow> (ucast p :: u16) > 0 \<Longrightarrow> p_addr (sample_peer p) = \<lparr>sa_ip = ''10.0.0.1'', sa_port = ucast p\<rparr> \<and> connected (sample_peer p)"
  by (simp add: sample_peer_def new_peer_conn_def)

theorem voice_frame_delivered_witness:
  "\<exists>msg (a' :: host_net) x f' out y b'. createDMR_Message sample_frame (sample_running 7) = Some msg \<and> m_sent a' = m_sent (sample_running 7) @ [x] \<and>
     fneClock fne_traffic sample_tag_env 0 (Some (dg_buffer x, \<lparr>sa_ip = ''10.0.0.1'', sa_port = 7\<rparr>)) sample_open_fne = Some f' \<and>
     m_sent f' = m_sent sample_open_fne @ out \<and> y \<in> set out \<and> dg_address y = \<lparr>sa_ip = ''10.0.0.1'', sa_port = 8\<rparr> \<and>
     hostClock sample_host_env 10 (Some (dg_buffer y, m_addr (sample_running 8))) (sample_running 8) = Some b' \<and>
     holds (m_rxDMRData b') [msg]"
proof -
  have n: "(7 :: u32) < 999999999" "(8 :: u32) < 999999999" by simp_all
  note a = sample_running_fields [OF n(1)] and b = sample_running_fields [OF n(2)]
  obtain msg where m: "createDMR_Message sample_frame (sample_running 7) = Some msg" using sample_frame_message a(2) by blast
  have dt: "DT_VOICE \<notin> {DT_VOICE_LC_HEADER, DT_CSBK, DT_DATA_HEADER, DT_TERMINATOR_WITH_LC, DT_VOICE_SYNC, FLCO_GROUP, FLCO_PRIVATE}"
    by (simp add: DT_VOICE_def DT_VOICE_LC_HEADER_def DT_CSBK_def DT_DATA_HEADER_def DT_TERMINATOR_WITH_LC_def DT_VOICE_SYNC_def FLCO_GROUP_def FLCO_PRIVATE_def)
  obtain ret a' where w: "writeDMR sample_host_env sample_frame False (sample_running 7) = Some (ret, a')" "m_dmrStreamId a' = [1, 1]"
    using a(1,2,10) m dt sample_frame_ok
    by (auto simp: writeDMR_def pktSeq_def writeMaster_def net_enqueue_def net_flush_def Let_def case_prod_unfold)
  let ?d = "frame_of (env_mem sample_tag_env) msg"
  note f = dmr_message_frame [OF m sample_frame_ok(1), of "env_mem sample_tag_env"]
  have sync: "\<not> frame_sync msg"
    using dmr_message_fields(3) [OF m] head_bits(3) [OF sample_frame_ok(1)] sample_frame_ok(1,3) by (simp add: frame_sync_def dmr_ok_def)
  have acc: "frame_accepted sample_open_fne q ?d" for q
    using f dt sample_frame_ok(3) by (simp add: frame_accepted_def validate_def isPeerPermitted_def sample_open_fields rid_refused_def rid_find_def
        RadioId_of_def sample_frame_def P25_WUID_ALL_def P25_WUID_FNE_def Let_def)
  have cc: "call_control msg i s \<noteq> None" for i s using sync by (simp add: call_control_def)
  have free: "freeSpace (new_ring 4000) > 64" by (simp add: freeSpace_def new_ring_def)
  note v = voice_frame_delivered [where a = "sample_running 7" and b = "sample_running 8" and f = sample_open_fne and d = sample_frame and
      msg = msg and ea = sample_host_env and noSequence = False and a' = a' and ret = ret and ef = sample_tag_env and ca = "sample_peer 7" and
      cb = "sample_peer 8" and src = "\<lparr>sa_ip = ''10.0.0.1'', sa_port = 7\<rparr>" and fs = "[]" and eb = sample_host_env and ms = 10]
  have "\<exists>x f' out y b'. m_sent a' = m_sent (sample_running 7) @ [x] \<and>
      fneClock fne_traffic sample_tag_env 0 (Some (dg_buffer x, \<lparr>sa_ip = ''10.0.0.1'', sa_port = 7\<rparr>)) sample_open_fne = Some f' \<and>
      m_sent f' = m_sent sample_open_fne @ out \<and> y \<in> set out \<and> dg_address y = p_addr (sample_peer 8) \<and>
      hostClock sample_host_env 10 (Some (dg_buffer y, m_addr (sample_running 8))) (sample_running 8) = Some b' \<and>
      holds (m_rxDMRData b') ([] @ [msg])"
    by (rule v) (use a b m w acc cc sample_frame_ok sample_open_fields sample_peer_fields [of 7] sample_peer_fields [of 8] in
        \<open>simp_all add: valid_peer_def sample_tag_env_def frame_accepted_def free\<close>)
  then obtain x f' out y b' where "m_sent a' = m_sent (sample_running 7) @ [x]"
    "fneClock fne_traffic sample_tag_env 0 (Some (dg_buffer x, \<lparr>sa_ip = ''10.0.0.1'', sa_port = 7\<rparr>)) sample_open_fne = Some f'"
    "m_sent f' = m_sent sample_open_fne @ out" "y \<in> set out" "dg_address y = p_addr (sample_peer 8)"
    "hostClock sample_host_env 10 (Some (dg_buffer y, m_addr (sample_running 8))) (sample_running 8) = Some b'" "holds (m_rxDMRData b') [msg]"
    unfolding append_Nil by blast
  moreover have "p_addr (sample_peer 8) = \<lparr>sa_ip = ''10.0.0.1'', sa_port = 8\<rparr>" using sample_peer_fields [of 8] by simp
  ultimately show ?thesis using m
    by (intro exI [of _ msg], intro exI [of _ a'], intro exI [of _ x], intro exI [of _ f'], intro exI [of _ out], intro exI [of _ y],
        intro exI [of _ b']) simp
qed

text \<open>An FNE with a white list of two radios.\<close>

theorem radio_lists_reach_host_witness:
  "\<exists>s' (d :: udp_datagram) host' rids. writeWhitelistRIDs (sample_tag_env\<lparr>env_rids := [100, 200]\<rparr>) 7 False
         (sample_open_fne\<lparr>m_ridLookup := [100 \<mapsto> RadioId_of True False, 200 \<mapsto> RadioId_of True False]\<rparr>) = Some s' \<and>
     hostClock sample_host_env 10 (Some (dg_buffer d, m_addr (sample_running 7))) (sample_running 7) = Some host' \<and>
     h_ridLookup host' = Some rids \<and> m_radioEnabled (rid_find 100 rids)"
proof -
  let ?e = "sample_tag_env\<lparr>env_rids := [100, 200]\<rparr>"
  let ?s = "sample_open_fne\<lparr>m_ridLookup := [100 \<mapsto> RadioId_of True False, 200 \<mapsto> RadioId_of True False]\<rparr>"
  have n: "(7 :: u32) < 999999999" by simp
  note b = sample_running_fields [OF n]
  have ids: "enabled_rids True (env_rids ?e) (m_ridLookup ?s) = [100, 200]" by (simp add: enabled_rids_def RadioId_of_def)
  have "length (rid_payload [100, 200]) \<le> 8186" by (simp add: length_rid_payload)
  then obtain s' where w: "writeWhitelistRIDs ?e 7 False ?s = Some s'"
    using writePeerCommand_Some [of 7 "rid_payload [100, 200]" ?e "(NET_FUNC_MASTER, NET_MASTER_SUBFUNC_WL_RID)" False True ?s] ids
    by (auto simp: writeWhitelistRIDs_def)
  have q: "queued ?s = []" using sample_open_fields(2) by (simp add: queued_def)
  have k: "\<not> wuid 100" "take_bit 24 (100 :: u32) = 100" by (simp_all add: wuid_def P25_WUID_ALL_def P25_WUID_FNE_def)
  have "\<exists>d host'. m_sent s' = m_sent ?s @ [d] \<and> dg_address d = p_addr (sample_peer 7) \<and>
      hostClock sample_host_env 10 (Some (dg_buffer d, m_addr (sample_running 7))) (sample_running 7) = Some host' \<and>
      (\<exists>rids'. h_ridLookup host' = Some rids' \<and> (\<forall>k. \<not> wuid k \<longrightarrow> m_radioEnabled (rid_find k rids') =
         (if k \<in> take_bit 24 ` set (enabled_rids True (env_rids ?e) (m_ridLookup ?s)) then True else m_radioEnabled (rid_find k Map.empty))))"
    by (rule radio_lists_reach_host [where p = 7]) (use w q ids b sample_open_fields in simp_all)
  then obtain d :: udp_datagram and host' rids' where "hostClock sample_host_env 10 (Some (dg_buffer d, m_addr (sample_running 7))) (sample_running 7) = Some host'"
    "h_ridLookup host' = Some rids'" "\<forall>k. \<not> wuid k \<longrightarrow> m_radioEnabled (rid_find k rids') =
         (if k \<in> take_bit 24 ` set [100, 200] then True else m_radioEnabled (rid_find k Map.empty))"
    unfolding ids by blast
  then show ?thesis using w k by (intro exI [of _ s'], intro exI [of _ d], intro exI [of _ host'], intro exI [of _ rids']) force
qed

text \<open>A frame for slot 2, a list of 256 radios.\<close>

theorem slot_2_frame_out_of_bounds_witness:
  "host_protocol NET_PROTOCOL_SUBFUNC_DMR 5 (replicate 63 0x80) (sample_running 7) = None"
  using slot_2_frame_out_of_bounds [of "sample_running 7" "replicate 63 0x80" 5] sample_running_fields [of 7]
  by (simp add: frame_slot_def)

theorem long_lists_overrun_witness:
  "host_master NET_MASTER_SUBFUNC_WL_RID (list_message (rid_payload (replicate 256 5))) (sample_running 7) = None"
proof -
  let ?m = "list_message (rid_payload (replicate 256 5))"
  have m: "?m = replicate 6 0 @ salt_bytes 256 @ concat (map salt_bytes (replicate 256 5))"
    using list_message_eq [of "rid_payload (replicate 256 5)"] rid_payload_blocks [of "replicate 256 5"] by (simp add: length_rid_payload length_concat o_def sum_list_replicate)
  have "drop 6 ?m = salt_bytes 256 @ concat (map salt_bytes (replicate 256 5))" unfolding m by simp
  moreover have "6 \<le> length ?m" unfolding m by simp
  ultimately have "GET_UINT16 ?m 7 = 256" using GET_UINT16_drop [of 6 ?m 1] GET_low [of 256] by simp
  then show ?thesis
    using long_lists_overrun [of ?m "sample_running 7" Map.empty "[]" NET_MASTER_SUBFUNC_WL_RID] sample_running_fields [of 7] by simp
qed

text \<open>The master closes while its address cannot be looked up.\<close>

theorem failed_lookup_strands_host_witness:
  "\<exists>dgram s1. hostClock (sample_host_env\<lparr>env_lookup := \<lambda>_ _. None\<rparr>) 0 (Some (dgram, m_addr (sample_running 7))) (sample_running 7) = Some s1 \<and>
     (\<forall>fs s2. host_run s1 fs s2 \<longrightarrow> m_status s2 = NET_STAT_WAITING_CONNECT)"
proof -
  let ?e = "sample_host_env\<lparr>env_lookup := \<lambda>_ _. None\<rparr>" and ?h = "sample_running 7"
  have n: "(7 :: u32) < 999999999" by simp
  note b = sample_running_fields [OF n]
  obtain dgram rtp where d: "read_frame dgram = Received rtp (frame_fne [0] 5 7 (NET_FUNC_MST_CLOSING, NET_SUBFUNC_NOP)) [0]"
    using message_delivered [of "[0]" 5 7 "(NET_FUNC_MST_CLOSING, NET_SUBFUNC_NOP)"] by auto
  have acc: "accepted ?h (Some (dgram, m_addr ?h)) = Some NET_FUNC_MST_CLOSING" using d b(4) by (simp add: accepted_def)
  obtain s1 where s1: "hostClock ?e 0 (Some (dgram, m_addr ?h)) ?h = Some s1"
    using d b by (simp add: hostClock_def host_receive_def host_message_def net_funcs Let_def)
  have "m_status s2 = NET_STAT_WAITING_CONNECT" if "host_run s1 fs s2" for fs s2
    using failed_lookup_strands_host [OF b(5,6) acc _ s1 that] by simp
  then show ?thesis using s1 by blast
qed

text \<open>A host that gets its three acknowledgements.\<close>

theorem connected_after_three_acks_witness:
  "\<exists>fs s. host_run (sample_host 7) fs s \<and> m_status s = NET_STAT_RUNNING \<and> subseq [Some NET_FUNC_ACK, Some NET_FUNC_ACK, Some NET_FUNC_ACK] fs"
proof -
  let ?h = "sample_host 7" and ?e = sample_host_env and ?m = "replicate 14 0 :: bytes"
  have n: "(7 :: u32) < 999999999" by simp
  note h = sample_host_fields [OF n]
  obtain dgram rtp where "read_frame dgram = Received rtp (frame_fne ?m 5 7 ack_opcode) ?m"
    using message_delivered [of ?m 5 7 ack_opcode] by auto
  then have o: "opened \<lparr>dg_buffer = dgram, dg_address = a\<rparr> = Some (a, 7, 5, ack_opcode, m_seq rtp, ?m)" for a by (simp add: opened_def)
  have e: "env_opened ?e" "env_written ?e" "env_random ?e k \<noteq> 0" "length (env_config ?e) \<le> 8152" for k by (simp_all add: sample_host_env_def)
  let ?d = "\<lparr>dg_buffer = dgram, dg_address = \<lparr>sa_ip = [], sa_port = 0\<rparr>\<rparr>"
  obtain h1 where h1: "hostClock ?e 10000 None ?h = Some h1" "host_calm h1" "host_ids h1 = host_ids ?h" "m_status h1 = NET_STAT_WAITING_LOGIN"
    "h_loginStreamId h1 \<noteq> 0" using host_sends_login [OF h(1,2,6) e(1,2), of None] e(3) by metis
  have i1: "m_peerId h1 = 7" "h_password h1 = [0x70]" using h1(3) h(3,5) by (simp_all add: host_ids_def)
  have p1: "length (h_password h1) + 4 < 2 ^ 32" "10 \<le> length ?m" using i1(2) by simp_all
  obtain h2 where h2: "hostClock ?e 0 (Some (dgram, m_addr h1)) h1 = Some h2" "host_calm h2" "host_ids h2 = host_ids h1"
    "m_status h2 = NET_STAT_WAITING_AUTHORISATION" "h_loginStreamId h2 \<noteq> 0"
    using host_answers_challenge [OF h1(2,4,5) _ p1(2) refl p1(1), of ?d _ 5 _ ?e] o h1(5) unfolding i1(1) by fastforce
  have i2: "m_peerId h2 = 7" using h2(3) i1 by (simp add: host_ids_def)
  have m: "?m \<noteq> []" by simp
  obtain h3 where h3: "hostClock ?e 0 (Some (dgram, m_addr h2)) h2 = Some h3" "host_calm h3" "host_ids h3 = host_ids h2"
    "m_status h3 = NET_STAT_WAITING_CONFIG"
    using host_sends_config [OF h2(2,4,5) _ m e(4), of ?d _ 5] o unfolding i2 by fastforce
  have i3: "m_peerId h3 = 7" using h3(3) i2 by (simp add: host_ids_def)
  obtain h4 where h4: "hostClock ?e 0 (Some (dgram, m_addr h3)) h3 = Some h4" "m_status h4 = NET_STAT_RUNNING"
    using host_logged_in [OF h3(2,4) _ m, of ?d _ 5 _ ?e] o unfolding i3 by fastforce
  note r = host_run.tick [OF host_run.tick [OF host_run.tick [OF host_run.tick [OF host_run.start h1(1)] h2(1)] h3(1)] h4(1)]
  show ?thesis using r connected_after_three_acks [OF r h(2) h4(2)] h4(2) by blast
qed

end
