(* ===== verification/PolyCodes.thy ===== *)
theory PolyCodes
  imports CRC
begin

text \<open>
  What the Golay and quadratic residue codes of \<^verbatim>\<open>src/src/common/edac\<close> share: the loop that
  divides a received word by the generator polynomial, the tables that a linear function
  fills, and the argument that a table of error patterns puts a received word right.
\<close>

section \<open>The division loop\<close>

text \<open>
  \<open>getSyndrome1987\<close>, \<open>getSyndrome23127\<close> and \<open>getSyndrome1576\<close> are one loop with different
  constants.  The inner loop moves the single bit of \<open>aux\<close> down to the first bit that the pattern
  has; once \<open>aux\<close> is zero it never ends, which is \<open>None\<close>.  The outer loop ends when nothing of the
  pattern is left under the mask; it does not end either when the pattern has bits above \<open>aux\<close>.
\<close>

function skip_zeros :: "u32 \<Rightarrow> u32 \<Rightarrow> u32 option" where
  "skip_zeros aux pattern =
     (if aux AND pattern \<noteq> 0 then Some aux
      else if aux = 0 then None
      else skip_zeros (drop_bit 1 aux) pattern)"
  by pat_completeness auto
termination
proof (relation "measure (\<lambda>(aux, _). unat aux)")
  fix aux pattern :: u32
  assume "aux \<noteq> 0"
  then have "unat aux > 0" using unat_gt_0 by blast
  moreover have "unat (drop_bit 1 aux) = unat aux div 2"
    unfolding unat_drop_bit_eq by (simp add: drop_bit_eq_div)
  ultimately show "((drop_bit 1 aux, pattern), aux, pattern) \<in> measure (\<lambda>(aux, _). unat aux)"
    by (simp only: in_measure prod.case)
qed simp

declare skip_zeros.simps [simp del]

partial_function (option) syndrome_loop :: "u32 \<Rightarrow> u32 \<Rightarrow> u32 \<Rightarrow> u32 \<Rightarrow> u32 \<Rightarrow> u32 option" where
  "syndrome_loop x msk gen aux pattern =
     (if pattern AND msk = 0 then Some pattern
      else Option.bind (skip_zeros aux pattern)
             (\<lambda>aux. syndrome_loop x msk gen aux (pattern XOR (aux div x) * gen)))"

definition get_syndrome :: "u32 \<Rightarrow> u32 \<Rightarrow> u32 \<Rightarrow> u32 \<Rightarrow> u32 \<Rightarrow> u32 option" where
  "get_syndrome x0 x msk gen pattern =
     (if x \<le> pattern then syndrome_loop x msk gen x0 pattern else Some pattern)"

text \<open>Division by schoolbook: from the highest bit down, the generator is added where there is a bit.\<close>

primrec divide :: "u32 \<Rightarrow> nat \<Rightarrow> nat \<Rightarrow> u32 \<Rightarrow> u32" where
  "divide gen r 0 p = p"
| "divide gen r (Suc m) p = divide gen r m (if bit p (r + m) then p XOR push_bit m gen else p)"

lemma xor_linear_divide: "xor_linear (divide gen r m)"
proof -
  have "divide gen r m (x XOR y) = divide gen r m x XOR divide gen r m y" for x y
  proof (induction m arbitrary: x y)
    case (Suc m)
    have "(if bit (x XOR y) (r + m) then (x XOR y) XOR push_bit m gen else x XOR y) =
          (if bit x (r + m) then x XOR push_bit m gen else x) XOR (if bit y (r + m) then y XOR push_bit m gen else y)"
      by (cases "bit x (r + m)"; cases "bit y (r + m)")
        (simp_all add: bit_xor_iff xor.assoc xor.left_commute xor.commute)
    then show ?case by (simp add: Suc.IH)
  qed simp
  then show ?thesis by (simp add: xor_linear_def)
qed

lemma word_less_bits: "(x :: ('a :: len) word) < 2 ^ n \<longleftrightarrow> (\<forall>i \<ge> n. \<not> bit x i)" if "n < LENGTH('a)"
proof
  assume "x < 2 ^ n"
  then have "take_bit n x = x" by (metis less_mask_eq take_bit_eq_mask)
  then show "\<forall>i \<ge> n. \<not> bit x i" by (metis bit_take_bit_iff not_le)
next
  assume "\<forall>i \<ge> n. \<not> bit x i"
  then have "take_bit n x = x" by (intro bit_word_eqI) (auto simp: bit_take_bit_iff not_le intro: leI)
  then show "x < 2 ^ n" using that by (metis take_bit_eq_mask and_mask_less')
qed


lemma less_bits: "(x :: u32) < 2 ^ n \<Longrightarrow> n < 32 \<Longrightarrow> n \<le> i \<Longrightarrow> \<not> bit x i"
  using word_less_bits [of n x] by simp

lemma and_two_power_zero: "(2 ^ j :: u32) AND p = 0 \<longleftrightarrow> \<not> bit p j" if "j < 32"
proof
  assume "(2 ^ j :: u32) AND p = 0"
  then have "\<not> bit ((2 ^ j :: u32) AND p) j" by simp
  then show "\<not> bit p j" using that by (simp add: bit_simps)
next
  assume "\<not> bit p j"
  then show "(2 ^ j :: u32) AND p = 0" by (intro bit_word_eqI) (auto simp: bit_simps)
qed

lemma skip_zeros_finds:
  assumes "j < 32" "k \<le> j" "bit p k" "p < 2 ^ Suc k"
  shows "skip_zeros (2 ^ j) p = Some (2 ^ k)"
  using assms(1,2)
proof (induction "j - k" arbitrary: j)
  case 0
  then have "j = k" by simp
  then show ?case using 0 assms(3) by (subst skip_zeros.simps) (simp add: and_two_power_zero)
next
  case (Suc n)
  then have j: "Suc k \<le> j" "j < 32" by simp_all
  have no: "\<not> bit p j" using j assms(4) less_bits [of p "Suc k" j] by simp
  have nz: "(2 ^ j :: u32) \<noteq> 0" using bit_exp_iff [of j j, where ?'a = u32] j by force
  have d: "drop_bit 1 (2 ^ j :: u32) = 2 ^ (j - 1)"
    using j by (intro bit_word_eqI) (auto simp: bit_simps)
  show ?case
    using Suc.hyps(1) [of "j - 1"] Suc.hyps(2) Suc.prems j no nz
    by (subst skip_zeros.simps) (simp add: and_two_power_zero d [unfolded One_nat_def])
qed


lemma and_high_zero:
  fixes p :: u32
  assumes "r < 32"
  shows "p AND NOT (mask r) = 0 \<longleftrightarrow> p < 2 ^ r"
proof -
  have "p AND NOT (mask r) = 0 \<longleftrightarrow> (\<forall>i \<ge> r. \<not> bit p i)"
    by (auto simp: bit_eq_iff bit_simps not_less) (use bit_imp_le_length [where 'a = 32] in fastforce)
  then show ?thesis using word_less_bits [of r p] assms by simp
qed

text \<open>The constants of one code: \<open>x\<close> is \<open>2\<^sup>r\<close>, the mask takes the bits from \<open>r\<close> up, the generator has degree \<open>r\<close>.\<close>

definition generator :: "u32 \<Rightarrow> nat \<Rightarrow> bool" where
  "generator gen r \<longleftrightarrow> bit gen r \<and> gen < 2 ^ Suc r"

lemma cancel_top:
  assumes "generator gen r" "p < 2 ^ Suc (r + m)" "bit p (r + m)" "r + m < 31"
  shows "p XOR push_bit m gen < 2 ^ (r + m)"
proof -
  have "\<not> bit (p XOR push_bit m gen) i" if "r + m \<le> i" for i
  proof (cases "i = r + m")
    case True
    then show ?thesis using assms by (simp add: generator_def bit_xor_iff bit_push_bit_iff)
  next
    case False
    then have i: "Suc (r + m) \<le> i" using that by simp
    have "\<not> bit gen (i - m)" using assms(1,4) i less_bits [of gen "Suc r" "i - m"] by (simp add: generator_def)
    moreover have "\<not> bit p i" using assms(2,4) i less_bits [of p "Suc (r + m)" i] by simp
    ultimately show ?thesis by (auto simp: bit_xor_iff bit_push_bit_iff)
  qed
  then show ?thesis using assms(4) word_less_bits [of "r + m" "p XOR push_bit m gen"] by simp
qed

lemma divide_less:
  assumes "generator gen r" "p < 2 ^ (r + m)" "r + m < 32"
  shows "divide gen r m p < 2 ^ r"
  using assms(2,3)
proof (induction m arbitrary: p)
  case (Suc m)
  let ?q = "if bit p (r + m) then p XOR push_bit m gen else p"
  have "?q < 2 ^ (r + m)"
  proof (cases "bit p (r + m)")
    case True
    then show ?thesis using cancel_top [OF assms(1), of p m] Suc.prems by simp
  next
    case False
    have "\<not> bit p i" if "r + m \<le> i" for i
      using False that Suc.prems less_bits [of p "Suc (r + m)" i] by (cases "i = r + m") simp_all
    then show ?thesis using False Suc.prems word_less_bits [of "r + m" p] by simp
  qed
  then show ?case using Suc.IH Suc.prems by simp
qed simp

lemma syndrome_loop_divides:
  assumes "generator gen r" "p < 2 ^ (r + m)" "r + m \<le> Suc j" "j < 32" "r + m < 32" "r \<le> j"
  shows "syndrome_loop (2 ^ r) (NOT (mask r)) gen (2 ^ j) p = Some (divide gen r m p)"
  using assms(2-)
proof (induction m arbitrary: p j)
  case 0
  then show ?case by (subst syndrome_loop.simps) (simp add: and_high_zero)
next
  case (Suc m)
  show ?case
  proof (cases "bit p (r + m)")
    case True
    have nz: "p AND NOT (mask r) \<noteq> 0"
      using True Suc.prems less_bits [of p r "r + m"] by (auto simp: and_high_zero)
    have s: "skip_zeros (2 ^ j) p = Some (2 ^ (r + m))"
      using True Suc.prems by (intro skip_zeros_finds) simp_all
    have d: "(2 ^ (r + m) :: u32) div 2 ^ r = 2 ^ m"
      unfolding drop_bit_eq_div [symmetric] using Suc.prems
      by (intro bit_word_eqI) (auto simp: bit_simps)
    have q: "p XOR 2 ^ m * gen < 2 ^ (r + m)"
      using cancel_top [OF assms(1), of p m] Suc.prems True by (simp add: push_bit_eq_mult mult.commute)
    have "syndrome_loop (2 ^ r) (NOT (mask r)) gen (2 ^ (r + m)) (p XOR 2 ^ m * gen) =
          Some (divide gen r m (p XOR 2 ^ m * gen))"
      using Suc.prems q by (intro Suc.IH) simp_all
    then show ?thesis
      using True nz by (subst syndrome_loop.simps) (simp add: s d push_bit_eq_mult mult.commute)
  next
    case False
    have "\<not> bit p i" if "r + m \<le> i" for i
      using False that Suc.prems less_bits [of p "Suc (r + m)" i] by (cases "i = r + m") simp_all
    then have "p < 2 ^ (r + m)" using Suc.prems word_less_bits [of "r + m" p] by simp
    then show ?thesis using Suc False by simp
  qed
qed

lemma divide_small: "p < 2 ^ r \<Longrightarrow> r < 32 \<Longrightarrow> divide gen r m p = p"
  using less_bits [of p r] by (induction m) simp_all

lemma get_syndrome_divides:
  assumes "generator gen r" "p < 2 ^ (r + m)" "r + m < 32" "0 < m"
  shows "get_syndrome (2 ^ (r + m - 1)) (2 ^ r) (NOT (mask r)) gen p = Some (divide gen r m p)"
proof (cases "2 ^ r \<le> p")
  case True
  then show ?thesis using assms by (simp add: get_syndrome_def syndrome_loop_divides)
next
  case False
  then have "p < 2 ^ r" by simp
  then show ?thesis using False divide_small assms(3) by (simp add: get_syndrome_def)
qed


section \<open>Tables of linear functions\<close>

text \<open>A linear function of a numeral is the sum of its values at the bits of the numeral.\<close>

fun lin_num :: "num \<Rightarrow> ('a :: len) word list \<Rightarrow> 'a word" where
  "lin_num num.One (c # cs) = c"
| "lin_num (num.Bit0 k) (c # cs) = lin_num k cs"
| "lin_num (num.Bit1 k) (c # cs) = c XOR lin_num k cs"
| "lin_num k [] = 0"

definition columns_of :: "(u32 \<Rightarrow> u32) \<Rightarrow> u32 list" where
  "columns_of h = map (\<lambda>i. h (2 ^ i)) [0..<32]"

lemma numeral_Bit1_two: "numeral (num.Bit1 k) = 1 + 2 * (numeral k :: u32)"
  unfolding numeral_Bit1 by (subst mult_2) (rule add.commute)

lemma shifted_even: "(2 ^ j :: u32) * numeral (num.Bit0 k) = 2 ^ Suc j * numeral k"
proof -
  have "numeral (num.Bit0 k) = 2 * (numeral k :: u32)"
    by (rule trans [OF numeral_Bit0 mult_2 [symmetric]])
  then show ?thesis by (simp only: power_Suc ac_simps)
qed

lemma shifted_odd: "(2 ^ j :: u32) * numeral (num.Bit1 k) = 2 ^ j XOR 2 ^ Suc j * numeral k"
proof -
  have a: "(2 ^ j :: u32) AND push_bit (Suc j) (numeral k) = 0"
    by (rule bit_word_eqI) (auto simp only: bit_and_iff bit_push_bit_iff bit_exp_iff bit_0_eq bot_apply bot_bool_def)
  have "(2 ^ j :: u32) * numeral (num.Bit1 k) = 2 ^ j + push_bit (Suc j) (numeral k)"
    unfolding push_bit_eq_mult numeral_Bit1_two by (simp only: distrib_left mult_1_right mult_1_left power_Suc ac_simps)
  also have "\<dots> = 2 ^ j XOR push_bit (Suc j) (numeral k)"
    using a by (simp add: disjunctive_xor_eq_or disjunctive_add_eq_or)
  finally show ?thesis by (simp add: push_bit_eq_mult mult.commute)
qed

lemma exp_overflow: "32 \<le> j \<Longrightarrow> (2 ^ j :: u32) = 0"
  by (rule bit_word_eqI) (auto simp: bit_exp_iff)

lemma linear_numeral:
  assumes "xor_linear h"
  shows "h (numeral k) = lin_num k (columns_of h)"
proof -
  have z: "h 0 = 0" by (rule xor_linear_zero [OF assms])
  have "h (2 ^ j * numeral k) = lin_num k (map (\<lambda>i. h (2 ^ i)) [j..<32])" for j
  proof (induction k arbitrary: j)
    case One
    show ?case by (cases "j < 32") (simp_all add: upt_conv_Cons z exp_overflow)
  next
    case (Bit0 k)
    have "h (2 ^ Suc j * numeral k) = 0" if "\<not> j < 32" using that z by (simp add: exp_overflow del: power_Suc)
    then show ?case using Bit0 [of "Suc j"] unfolding shifted_even
      by (cases "j < 32") (simp_all add: upt_conv_Cons del: power_Suc)
  next
    case (Bit1 k)
    have "h (2 ^ j * numeral (num.Bit1 k)) = h (2 ^ j) XOR h (2 ^ Suc j * numeral k)"
      unfolding shifted_odd by (rule xor_linearD [OF assms])
    moreover have "h (2 ^ j) = 0" "h (2 ^ Suc j * numeral k) = 0" if "\<not> j < 32"
      using that z by (simp_all add: exp_overflow del: power_Suc)
    ultimately show ?case using Bit1 [of "Suc j"] by (cases "j < 32") (simp_all add: upt_conv_Cons del: power_Suc)
  qed
  from this [of 0] show ?thesis by (simp add: columns_of_def)
qed

lemma upt_32: "[0..<32] = [0, 1, 2, 3, 4, 5, 6, 7, 8, 9, 10, 11, 12, 13, 14, 15, 16, 17, 18, 19, 20, 21, 22, 23, 24, 25, 26,
  27, 28, 29, 30, 31]"
  by (simp add: upt_rec)

lemma columns_32: "columns_of h = [h 1, h 2, h 4, h 8, h 0x10, h 0x20, h 0x40, h 0x80, h 0x100, h 0x200, h 0x400, h 0x800,
  h 0x1000, h 0x2000, h 0x4000, h 0x8000, h 0x10000, h 0x20000, h 0x40000, h 0x80000, h 0x100000, h 0x200000,
  h 0x400000, h 0x800000, h 0x1000000, h 0x2000000, h 0x4000000, h 0x8000000, h 0x10000000, h 0x20000000,
  h 0x40000000, h 0x80000000]"
  unfolding columns_of_def upt_32 by simp

lemma eval_divide:
  "divide gen r (numeral k) p =
     divide gen r (pred_numeral k) (if bit p (r + pred_numeral k) then p XOR push_bit (pred_numeral k) gen else p)"
  by (simp add: numeral_eq_Suc)

text \<open>
  The two ways a table is checked: \<open>h\<close> has the entries of the table as its values, or \<open>h\<close> leads from
  the entries back to their indices.
\<close>

fun tabulates :: "(u32 \<Rightarrow> u32) \<Rightarrow> u32 \<Rightarrow> u32 list \<Rightarrow> bool" where
  "tabulates h s [] = True"
| "tabulates h s (e # es) = (if h s = e then tabulates h (s + 1) es else False)"

fun inverts :: "(u32 \<Rightarrow> u32) \<Rightarrow> u32 \<Rightarrow> u32 list \<Rightarrow> bool" where
  "inverts h s [] = True"
| "inverts h s (e # es) = (if h e = s then inverts h (s + 1) es else False)"

lemma tabulates_cong: "s = s' \<Longrightarrow> tabulates h s es = tabulates h s' es" by simp
lemma inverts_cong: "s = s' \<Longrightarrow> inverts h s es = inverts h s' es" by simp

lemma tabulates_append:
  "tabulates h s (xs @ ys) \<longleftrightarrow> tabulates h s xs \<and> tabulates h (s + of_nat (length xs)) ys"
  by (induction xs arbitrary: s) (simp_all add: algebra_simps)

lemma inverts_append:
  "inverts h s (xs @ ys) \<longleftrightarrow> inverts h s xs \<and> inverts h (s + of_nat (length xs)) ys"
  by (induction xs arbitrary: s) (simp_all add: algebra_simps)

lemma tabulates_nth: "tabulates h s es \<Longrightarrow> i < length es \<Longrightarrow> es ! i = h (s + of_nat i)"
  by (induction es arbitrary: s i) (auto simp: nth_Cons algebra_simps split: nat.splits if_splits)

lemma inverts_nth: "inverts h s es \<Longrightarrow> i < length es \<Longrightarrow> h (es ! i) = s + of_nat i"
  by (induction es arbitrary: s i) (auto simp: nth_Cons algebra_simps split: nat.splits if_splits)

section \<open>Weights\<close>

definition weight :: "('a :: len) word \<Rightarrow> nat" where
  "weight x = card {i. bit x i}"

primrec num_weight :: "num \<Rightarrow> nat" where
  "num_weight num.One = 1"
| "num_weight (num.Bit0 k) = num_weight k"
| "num_weight (num.Bit1 k) = Suc (num_weight k)"

lemma finite_bits [simp]: "finite {i. bit (x :: ('a :: len) word) i}"
  by (rule finite_subset [of _ "{..<LENGTH('a)}"]) (auto dest: bit_imp_le_length)

lemma weight_0 [simp]: "weight (0 :: ('a :: len) word) = 0"
  by (simp add: weight_def)

lemma weight_xor: "weight (x XOR y) \<le> weight x + weight (y :: ('a :: len) word)"
proof -
  have "{i. bit (x XOR y) i} \<subseteq> {i. bit x i} \<union> {i. bit y i}" by (auto simp: bit_xor_iff)
  then have "card {i. bit (x XOR y) i} \<le> card ({i. bit x i} \<union> {i. bit y i})" by (intro card_mono) simp_all
  also have "\<dots> \<le> card {i. bit x i} + card {i. bit y i}" by (rule card_Un_le)
  finally show ?thesis by (simp add: weight_def)
qed

lemma weight_exp: "weight (2 ^ j :: ('a :: len) word) \<le> 1"
proof -
  have "{i. bit (2 ^ j :: 'a word) i} \<subseteq> {j}" by (auto simp: bit_simps)
  then have "card {i. bit (2 ^ j :: 'a word) i} \<le> card {j}" by (intro card_mono) simp_all
  then show ?thesis by (simp add: weight_def)
qed

lemma weight_numeral: "weight (numeral k :: u32) \<le> num_weight k"
proof -
  have "weight ((2 ^ j :: u32) * numeral k) \<le> num_weight k" for j
  proof (induction k arbitrary: j)
    case One
    show ?case using weight_exp [of j] by simp
  next
    case (Bit0 k)
    show ?case unfolding shifted_even num_weight.simps by (rule Bit0)
  next
    case (Bit1 k)
    show ?case
      unfolding shifted_odd num_weight.simps
      by (rule order_trans [OF weight_xor]) (use add_mono [OF weight_exp Bit1 [of "Suc j"]] in simp)
  qed
  from this [of 0] show ?thesis by simp
qed

primrec num_len :: "num \<Rightarrow> nat" where
  "num_len num.One = 1"
| "num_len (num.Bit0 k) = Suc (num_len k)"
| "num_len (num.Bit1 k) = Suc (num_len k)"

lemma weight_disjoint:
  fixes x y :: u32
  assumes "\<And>i. bit x i \<Longrightarrow> \<not> bit y i"
  shows "weight (x XOR y) = weight x + weight y"
proof -
  have "{i. bit (x XOR y) i} = {i. bit x i} \<union> {i. bit y i}" using assms by (auto simp: bit_xor_iff)
  moreover have "{i. bit x i} \<inter> {i. bit y i} = {}" using assms by auto
  ultimately show ?thesis by (simp add: weight_def card_Un_disjoint)
qed

lemma weight_exp_eq: "j < 32 \<Longrightarrow> weight (2 ^ j :: u32) = 1"
proof -
  assume "j < 32"
  then have "{i. bit (2 ^ j :: u32) i} = {j}" by (auto simp: bit_exp_iff)
  then show ?thesis by (simp add: weight_def)
qed

lemma weight_numeral_eq: "num_len k \<le> 32 \<Longrightarrow> weight (numeral k :: u32) = num_weight k"
proof -
  have "weight ((2 ^ j :: u32) * numeral k) = num_weight k" if "j + num_len k \<le> 32" for j
    using that
  proof (induction k arbitrary: j)
    case One
    then show ?case using weight_exp_eq [of j] by simp
  next
    case (Bit0 k)
    then show ?case unfolding shifted_even num_weight.simps by (intro Bit0.IH) simp
  next
    case (Bit1 k)
    have "\<not> bit (2 ^ Suc j * numeral k :: u32) i" if "bit (2 ^ j :: u32) i" for i
    proof -
      have "i = j" using that by (simp add: bit_exp_iff)
      then have "\<not> bit (push_bit (Suc j) (numeral k :: u32)) i" by (simp only: bit_push_bit_iff) simp
      then show ?thesis by (simp only: push_bit_eq_mult mult.commute) simp
    qed
    then have "weight (2 ^ j XOR 2 ^ Suc j * numeral k :: u32) = weight (2 ^ j :: u32) + weight (2 ^ Suc j * numeral k :: u32)"
      by (rule weight_disjoint)
    also have "weight (2 ^ Suc j * numeral k :: u32) = num_weight k" using Bit1.prems by (intro Bit1.IH) simp
    also have "weight (2 ^ j :: u32) = 1" using Bit1.prems by (intro weight_exp_eq) simp
    finally show ?case unfolding shifted_odd num_weight.simps by simp
  qed
  from this [of 0] show "num_len k \<le> 32 \<Longrightarrow> weight (numeral k :: u32) = num_weight k" by simp
qed

text \<open>\<open>countBits32\<close> of the source counts the bits.\<close>

lemma countBits8_weight: "countBits8 b = of_nat (weight b)"
proof -
  have "length (filter id (byteToBitsBE b)) = card {i. i < 8 \<and> byteToBitsBE b ! i}"
    by (simp add: length_filter_conv_card)
  also have "{i. i < 8 \<and> byteToBitsBE b ! i} = (\<lambda>i. 7 - i) ` {i. bit b i}"
  proof (intro subset_antisym subsetI)
    fix i assume "i \<in> {i. i < 8 \<and> byteToBitsBE b ! i}"
    then show "i \<in> (\<lambda>i. 7 - i) ` {i. bit b i}" by (intro image_eqI [of _ _ "7 - i"]) (auto simp: byteToBitsBE_nth)
  next
    fix i assume "i \<in> (\<lambda>i. 7 - i) ` {i. bit b i}"
    then obtain k where "i = 7 - k" "bit b k" "k < 8"
      using bit_imp_le_length [of b] by auto
    then show "i \<in> {i. i < 8 \<and> byteToBitsBE b ! i}" by (simp add: byteToBitsBE_nth)
  qed
  also have "card ((\<lambda>i. 7 - i) ` {i. bit b i}) = card {i. bit b i}"
    by (rule card_image) (auto simp: inj_on_def dest!: bit_imp_le_length)
  finally show ?thesis by (simp add: countBits8_popcount weight_def id_def)
qed

lemma byte_weight:
  "weight (ucast (drop_bit k (x :: u32)) :: u8) = card {i. bit x i \<and> k \<le> i \<and> i < k + 8}"
proof -
  have b: "bit (ucast (drop_bit k x) :: u8) i \<longleftrightarrow> i < 8 \<and> bit x (k + i)" for i
    by (simp add: bit_ucast_iff bit_drop_bit_eq)
  have "{i. bit x i \<and> k \<le> i \<and> i < k + 8} = (+) k ` {i. i < 8 \<and> bit x (k + i)}"
  proof (intro subset_antisym subsetI)
    fix i assume "i \<in> {i. bit x i \<and> k \<le> i \<and> i < k + 8}"
    then show "i \<in> (+) k ` {i. i < 8 \<and> bit x (k + i)}" by (intro image_eqI [of _ _ "i - k"]) auto
  qed auto
  then show ?thesis unfolding weight_def b by (simp add: card_image)
qed

lemma countBits32_weight: "countBits32 x = of_nat (weight x)"
proof -
  let ?S = "\<lambda>a b. {i. bit x i \<and> a \<le> i \<and> i < b}"
  have split: "card (?S a c) = card (?S a b) + card (?S b c)" if "a \<le> b" "b \<le> c" for a b c
  proof -
    have fin: "finite (?S a b)" "finite (?S b c)" by (auto intro: finite_subset [OF _ finite_bits [of x]])
    have "?S a c = ?S a b \<union> ?S b c" using that by auto
    moreover have "card (?S a b \<union> ?S b c) = card (?S a b) + card (?S b c)"
      by (rule card_Un_disjoint [OF fin]) auto
    ultimately show ?thesis by simp
  qed
  have "{i. bit x i} = ?S 0 32" using bit_imp_le_length [of x] by auto
  then have "weight x = card (?S 0 32)" unfolding weight_def by simp
  also have "\<dots> = card (?S 0 8) + (card (?S 8 16) + (card (?S 16 24) + card (?S 24 32)))"
    using split [of 0 8 32] split [of 8 16 32] split [of 16 24 32] by simp
  finally have "weight x = weight (ucast x :: u8) + (weight (ucast (drop_bit 8 x) :: u8) +
      (weight (ucast (drop_bit 16 x) :: u8) + weight (ucast (drop_bit 24 x) :: u8)))"
    using byte_weight [of 0 x] by (simp add: byte_weight)
  then show ?thesis
    using countBits8_weight [unfolded countBits8_def] by (simp add: countBits32_def)
qed

lemma weight_le_32: "weight (x :: u32) \<le> 32"
proof -
  have "{i. bit x i} \<subseteq> {..<32}" using bit_imp_le_length [of x] by auto
  then have "card {i. bit x i} \<le> card {..<32 :: nat}" by (intro card_mono) simp_all
  then show ?thesis by (simp add: weight_def)
qed

lemma unat_countBits32: "unat (countBits32 x) = weight x"
  using weight_le_32 [of x] by (simp add: countBits32_weight unat_of_nat take_bit_nat_eq_self)

lemma odd_weight_xor: "odd (weight (x XOR y :: u32)) \<longleftrightarrow> (odd (weight x) \<noteq> odd (weight y))"
proof -
  let ?c = "card ({i. bit x i} \<inter> {i. bit y i})"
  have "{i. bit (x XOR y) i} = ({i. bit x i} \<union> {i. bit y i}) - ({i. bit x i} \<inter> {i. bit y i})"
    by (auto simp: bit_xor_iff)
  then have "weight (x XOR y) = card ({i. bit x i} \<union> {i. bit y i}) - ?c"
    unfolding weight_def by (simp add: card_Diff_subset le_infI1)
  moreover have "card ({i. bit x i} \<union> {i. bit y i}) + ?c = weight x + weight y"
    unfolding weight_def by (simp add: card_Un_Int [symmetric])
  moreover have "?c \<le> card ({i. bit x i} \<union> {i. bit y i})" by (intro card_mono) auto
  ultimately have "weight x + weight y = weight (x XOR y) + 2 * ?c" by linarith
  then have "odd (weight x + weight y) \<longleftrightarrow> odd (weight (x XOR y))" by simp
  then show ?thesis by simp
qed

definition parity_word :: "u32 \<Rightarrow> u32" where
  "parity_word x = of_bool (odd (weight x))"

lemma xor_linear_parity [linear_intros]: "xor_linear h \<Longrightarrow> xor_linear (\<lambda>x. parity_word (h x))"
  by (auto simp: xor_linear_def parity_word_def odd_weight_xor)

lemma countBits32_odd: "countBits32 x AND 1 \<noteq> 0 \<longleftrightarrow> odd (weight x)"
  by (simp add: countBits32_weight and_one_eq odd_iff_mod_2_eq_one [symmetric])

text \<open>
  All entries of a table are below \<open>2\<^sup>n\<close> and have at most \<open>t\<close> bits.  For a numeral this is a walk
  along its digits, with \<open>n\<close> and \<open>t\<close> in unary.
\<close>

definition light_word :: "unit list \<Rightarrow> unit list \<Rightarrow> u32 \<Rightarrow> bool" where
  "light_word n t e \<longleftrightarrow> e < 2 ^ length n \<and> weight e \<le> length t"

fun light :: "unit list \<Rightarrow> unit list \<Rightarrow> u32 list \<Rightarrow> bool" where
  "light n t [] = True"
| "light n t (e # es) = (if light_word n t e then light n t es else False)"

fun num_light :: "num \<Rightarrow> unit list \<Rightarrow> unit list \<Rightarrow> bool" where
  "num_light num.One (c # cs) (b # bs) = True"
| "num_light (num.Bit0 k) (c # cs) bs = num_light k cs bs"
| "num_light (num.Bit1 k) (c # cs) (b # bs) = num_light k cs bs"
| "num_light _ _ _ = False"

lemma light_cong: "light n t es = light n t es" by simp

lemma light_append: "light n t (xs @ ys) \<longleftrightarrow> light n t xs \<and> light n t ys"
  by (induction xs) simp_all

lemma light_set: "light n t es \<Longrightarrow> set es \<subseteq> {x. x < 2 ^ length n \<and> weight x \<le> length t}"
  by (induction es) (auto simp: light_word_def split: if_splits)

lemma num_light_bounds: "num_light k n t \<Longrightarrow> num_len k \<le> length n \<and> num_weight k \<le> length t"
  by (induction k n t rule: num_light.induct) auto

lemma numeral_num_len: "numeral k < (2 :: nat) ^ num_len k"
proof (induction k)
  case (Bit0 k)
  then show ?case using numeral_Bit0 [of k, where 'a = nat] by (simp only: num_len.simps power_Suc)
next
  case (Bit1 k)
  then show ?case using numeral_Bit1 [of k, where 'a = nat] by (simp only: num_len.simps power_Suc)
qed simp

lemma unat_two_power: "n < 32 \<Longrightarrow> unat (2 ^ n :: u32) = 2 ^ n"
proof -
  assume n: "n < 32"
  have "unat (of_nat (2 ^ n) :: u32) = 2 ^ n"
    unfolding unat_of_nat using n power_strict_increasing [of n 32 "2 :: nat"] by (simp add: take_bit_nat_eq_self)
  then show ?thesis by simp
qed

lemma light_numeral:
  assumes "num_light k n t" "length n < 32"
  shows "light_word n t (numeral k)"
proof -
  have k: "num_len k \<le> length n" "num_weight k \<le> length t" using num_light_bounds [OF assms(1)] by simp_all
  have "(numeral k :: nat) < 2 ^ length n"
    by (rule less_le_trans [OF numeral_num_len]) (simp add: k(1))
  moreover have "(2 :: nat) ^ length n < 2 ^ 32" using assms(2) by (rule power_strict_increasing) simp
  moreover have "unat (numeral k :: u32) \<le> numeral k" unfolding unat_numeral by (rule mod_less_eq_dividend)
  ultimately have "unat (numeral k :: u32) < unat (2 ^ length n :: u32)"
    unfolding unat_two_power [OF assms(2)] by linarith
  then show ?thesis using weight_numeral [of k] k(2) by (simp add: light_word_def word_less_nat_alt)
qed

lemma light_0: "length n < 32 \<Longrightarrow> light_word n t 0"
  by (simp add: light_word_def word_less_nat_alt unat_two_power)

lemma light_1: "length n < 32 \<Longrightarrow> 0 < length n \<Longrightarrow> 0 < length t \<Longrightarrow> light_word n t 1"
proof -
  assume *: "length n < 32" "0 < length n" "0 < length t"
  have "(2 :: nat) ^ 0 < 2 ^ length n" by (rule power_strict_increasing) (use * in simp_all)
  moreover have "weight (1 :: u32) \<le> length t"
    using weight_exp [of 0, where 'a = 32] *(3) by (metis One_nat_def Suc_leI le_trans power_0)
  ultimately show ?thesis using * by (simp add: light_word_def word_less_nat_alt unat_two_power)
qed

text \<open>
  The step from one entry of a linear table to the next: the indices \<open>n\<close> and \<open>n + 1\<close> differ in
  the trailing ones of \<open>n\<close> and the zero before these, so the entries differ by one of the values
  \<open>h 1, h 3, h 7, ...\<close>, the list \<open>ds\<close>.  The table is walked with one sum per entry.
\<close>

fun step_to :: "num \<Rightarrow> u32 list \<Rightarrow> u32 \<Rightarrow> u32 \<Rightarrow> bool" where
  "step_to (num.Bit0 k) (d # ds) p e = (p XOR d = e)"
| "step_to (num.Bit1 k) (d # ds) p e = step_to k ds p e"
| "step_to num.One (d # d' # ds) p e = (p XOR d' = e)"
| "step_to _ _ p e = False"

fun tab_steps :: "u32 list \<Rightarrow> num \<Rightarrow> u32 \<Rightarrow> u32 list \<Rightarrow> bool" where
  "tab_steps ds k p [] = True"
| "tab_steps ds k p (e # es) = (if step_to k ds p e then tab_steps ds (Num.inc k) e es else False)"

lemma tab_steps_cong: "k = k' \<Longrightarrow> p = p' \<Longrightarrow> tab_steps ds k p es = tab_steps ds k' p' es" by simp

definition ladder :: "(u32 \<Rightarrow> u32) \<Rightarrow> nat \<Rightarrow> u32 list \<Rightarrow> bool" where
  "ladder h j ds \<longleftrightarrow> (\<forall>t < length ds. ds ! t = h (mask (Suc (j + t))))"

lemma ladder_Cons: "ladder h j (d # ds) \<longleftrightarrow> d = h (mask (Suc j)) \<and> ladder h (Suc j) ds"
  by (auto simp: ladder_def nth_Cons less_Suc_eq_0_disj split: nat.splits)

lemma ladder_Nil: "ladder h j []"
  by (simp add: ladder_def)

lemma add_disjoint:
  fixes a b :: u32
  assumes "\<And>i. bit a i \<Longrightarrow> \<not> bit b i"
  shows "a + b = a XOR b"
proof -
  have "a AND b = 0" using assms by (intro bit_word_eqI) (auto simp: bit_and_iff)
  then show ?thesis by (simp add: disjunctive_xor_eq_or disjunctive_add_eq_or)
qed

lemma bit_scaled: "bit ((2 ^ j :: u32) * x) i \<longleftrightarrow> j \<le> i \<and> i < 32 \<and> bit x (i - j)"
  by (subst mult.commute) (simp only: push_bit_eq_mult [symmetric] bit_push_bit_iff possible_bit_word, simp)

lemma double_mask: "2 ^ j * (1 + 2 * x) + (2 ^ j - 1) = 2 ^ Suc j * x + (2 ^ Suc j - 1 :: u32)"
  by (simp add: algebra_simps)

lemma double_Suc: "1 + 2 * x + 1 = 2 * (x + 1 :: u32)"
  by (simp add: algebra_simps)

lemma step_to_next:
  assumes "xor_linear h"
  shows "ladder h j ds \<Longrightarrow> step_to k ds p e \<Longrightarrow> p = h (2 ^ j * numeral k + mask j) \<Longrightarrow>
    e = h (2 ^ j * (numeral k + 1))"
proof (induction k ds p e arbitrary: j rule: step_to.induct)
  case (1 k d ds p e)
  let ?A = "2 ^ Suc j * numeral k :: u32"
  have "?A + mask j = ?A XOR mask j"
    by (rule add_disjoint) (auto simp only: bit_scaled bit_mask_iff)
  moreover have "?A + 2 ^ j = ?A XOR 2 ^ j"
    by (rule add_disjoint) (auto simp only: bit_scaled bit_exp_iff)
  moreover have "mask j XOR mask (Suc j) = (2 ^ j :: u32)"
    by (rule bit_word_eqI) (auto simp: bit_xor_iff bit_mask_iff bit_exp_iff)
  moreover have "2 ^ j * (numeral (num.Bit0 k) + 1) = ?A + 2 ^ j"
    by (simp only: distrib_left shifted_even mult_1_right)
  moreover have "e = h (?A + mask j) XOR h (mask (Suc j))"
    using 1 by (simp only: step_to.simps ladder_Cons shifted_even)
  ultimately show ?case
    using xor_linearD [OF assms] by (metis xor.assoc)
next
  case (2 k d ds p e)
  have e: "numeral (num.Bit1 k) + (1 :: u32) = 2 * (numeral k + 1)"
    unfolding numeral_Bit1_two by (rule double_Suc)
  have m: "2 ^ j * numeral (num.Bit1 k) + mask j = (2 ^ Suc j * numeral k + mask (Suc j) :: u32)"
    unfolding numeral_Bit1_two mask_eq_exp_minus_1 by (rule double_mask)
  have "e = h (2 ^ Suc j * (numeral k + 1))"
    using "2.prems" by (intro "2.IH") (simp_all only: ladder_Cons step_to.simps m)
  then show ?case unfolding e by (simp only: power_Suc ac_simps)
next
  case (3 d d' ds p e)
  have "2 ^ j * numeral num.One + mask j = (mask (Suc j) :: u32)"
    by (simp add: mask_eq_exp_minus_1)
  moreover have "mask (Suc j) XOR mask (Suc (Suc j)) = (2 ^ Suc j :: u32)"
    by (rule bit_word_eqI) (auto simp: bit_xor_iff bit_mask_iff bit_exp_iff simp del: power_Suc)
  moreover have "2 ^ j * (numeral num.One + 1) = (2 ^ Suc j :: u32)" by simp
  moreover have "e = h (2 ^ j * numeral num.One + mask j) XOR h (mask (Suc (Suc j)))"
    using 3 by (simp only: step_to.simps ladder_Cons)
  ultimately show ?case using xor_linearD [OF assms] by metis
qed auto

lemma tabulates_steps:
  assumes "xor_linear h"
  shows "ladder h 0 ds \<Longrightarrow> tab_steps ds k p es \<Longrightarrow> p = h (numeral k) \<Longrightarrow> tabulates h (numeral k + 1) es"
proof (induction ds k p es rule: tab_steps.induct)
  case (2 ds k p e es)
  then have s: "step_to k ds p e" "tab_steps ds (Num.inc k) e es" by (auto split: if_splits)
  have "e = h (numeral k + 1)"
    using step_to_next [OF assms "2.prems"(1) s(1)] "2.prems" by (simp add: numeral_inc)
  then show ?case using 2 s by (simp add: numeral_inc)
qed simp

lemma tabulates_run:
  assumes "xor_linear h" "ladder h 0 ds"
  shows "h (numeral k) = e \<Longrightarrow> tab_steps ds k e es \<Longrightarrow> tabulates h (numeral k) (e # es)"
    "h 0 = d \<Longrightarrow> h 1 = e \<Longrightarrow> tab_steps ds num.One e es \<Longrightarrow> tabulates h 0 (d # e # es)"
proof -
  have k: "tabulates h (numeral k) (e # es)" if "h (numeral k) = e" "tab_steps ds k e es" for k
    using tabulates_steps [OF assms that(2) that(1) [symmetric]] that(1) by (simp only: tabulates.simps if_True simp_thms)
  then show "h (numeral k) = e \<Longrightarrow> tab_steps ds k e es \<Longrightarrow> tabulates h (numeral k) (e # es)" .
  show "h 0 = d \<Longrightarrow> h 1 = e \<Longrightarrow> tab_steps ds num.One e es \<Longrightarrow> tabulates h 0 (d # e # es)"
    using k [of num.One] by (simp only: tabulates.simps(2) [of h 0] if_True numeral_One add_0 simp_thms)
qed

lemma weight_1 [simp]: "weight (1 :: u32) = 1"
  using weight_exp_eq [of 0] by simp

lemma weight_eq_0: "weight x = 0 \<longleftrightarrow> x = (0 :: ('a :: len) word)"
  unfolding weight_def card_0_eq [OF finite_bits] using bit_imp_le_length [of x] by (auto simp: bit_eq_iff)

text \<open>The patterns of \<open>n\<close> bits with at most \<open>t\<close> of them set.\<close>

definition patterns :: "nat \<Rightarrow> nat \<Rightarrow> u32 set" where
  "patterns n t = {x. x < 2 ^ n \<and> weight x \<le> t}"

lemma card_patterns:
  assumes "n < 32"
  shows "card (patterns n t) = (\<Sum>i \<le> t. n choose i)"
proof -
  let ?A = "{A. A \<subseteq> {..<n} \<and> card A \<le> t}"
  have inj: "inj_on (\<lambda>x :: u32. {i. bit x i}) (patterns n t)"
    by (rule inj_onI) (auto simp: bit_eq_iff)
  have img: "(\<lambda>x :: u32. {i. bit x i}) ` patterns n t = ?A"
  proof (intro subset_antisym subsetI)
    fix A assume "A \<in> (\<lambda>x :: u32. {i. bit x i}) ` patterns n t"
    then obtain x :: u32 where x: "A = {i. bit x i}" "x < 2 ^ n" "card A \<le> t" by (auto simp: patterns_def weight_def)
    have "A \<subseteq> {..<n}" using x less_bits [OF x(2) assms] by (auto simp: not_le [symmetric])
    then show "A \<in> ?A" using x by simp
  next
    fix A assume A: "A \<in> ?A"
    let ?x = "horner_sum of_bool 2 (map (\<lambda>i. i \<in> A) [0..<n]) :: u32"
    have b: "bit ?x = (\<lambda>i. i \<in> A)" using A assms by (auto simp: bit_horner_sum_bit_iff fun_eq_iff)
    have "?x < 2 ^ n" using b A word_less_bits [of n ?x] assms by auto
    then have "?x \<in> patterns n t" using A b by (simp add: patterns_def weight_def)
    then show "A \<in> (\<lambda>x :: u32. {i. bit x i}) ` patterns n t" using b by force
  qed
  have "?A = (\<Union>i \<in> {..t}. {A. A \<subseteq> {..<n} \<and> card A = i})" by auto
  then have "card ?A = (\<Sum>i \<le> t. card {A. A \<subseteq> {..<n} \<and> card A = i})"
    by (simp only:) (rule card_UN_disjoint, auto)
  also have "\<dots> = (\<Sum>i \<le> t. n choose i)" by (simp add: n_subsets)
  finally show ?thesis using card_image [OF inj] img by simp
qed


section \<open>Error patterns in a table\<close>

text \<open>
  What a decoder needs of its table: the syndrome of every pattern in reach finds that pattern.  Then
  a code word with such an error is put right.
\<close>

locale error_table =
  fixes gen :: u32 and r m t :: nat and T :: "u32 list"
  assumes gen_ok: "generator gen r" "r + m < 32" "0 < m"
    and finds: "e \<in> patterns (r + m) t \<Longrightarrow> T ! unat (divide gen r m e) = e"
begin

lemma corrects:
  assumes "divide gen r m c = 0" "e \<in> patterns (r + m) t"
  shows "(c XOR e) XOR T ! unat (divide gen r m (c XOR e)) = c"
proof -
  have "divide gen r m (c XOR e) = divide gen r m e"
    using xor_linearD [OF xor_linear_divide] assms(1) by simp
  then show ?thesis using finds [OF assms(2)] by (simp add: xor.assoc)
qed

lemma syndrome_returns:
  "p < 2 ^ (r + m) \<Longrightarrow> get_syndrome (2 ^ (r + m - 1)) (2 ^ r) (NOT (mask r)) gen p = Some (divide gen r m p)"
  using get_syndrome_divides [of gen r p m] gen_ok by simp

end

text \<open>
  A table whose entries have the syndromes \<open>0, 1, 2, ...\<close> and are light finds every light pattern, when
  there are as many of these as there are syndromes.
\<close>

lemma perfect_table:
  assumes gen: "generator gen r" "r + m < 32"
    and T: "length T = 2 ^ r" "inverts (divide gen r m) 0 T" "set T \<subseteq> patterns (r + m) t"
    and count: "(\<Sum>i \<le> t. (r + m) choose i) = 2 ^ r"
    and e: "e \<in> patterns (r + m) t"
  shows "T ! unat (divide gen r m e) = e"
proof -
  have d: "divide gen r m (T ! i) = of_nat i" if "i < 2 ^ r" for i
    using inverts_nth [OF T(2)] that T(1) by simp
  have lt: "i < 2 ^ 32" if "i < 2 ^ r" for i :: nat
    using that gen(2) power_increasing [of r 32 "2 :: nat"] by simp
  have inj: "inj_on ((!) T) {..<2 ^ r}"
  proof (rule inj_onI)
    fix i j assume ij: "i \<in> {..<2 ^ r}" "j \<in> {..<2 ^ r}" "T ! i = T ! j"
    then have "(of_nat i :: u32) = of_nat j" using d by (metis lessThan_iff)
    then have "unat (of_nat i :: u32) = unat (of_nat j :: u32)" by simp
    then show "i = j" using ij lt by (simp add: unat_of_nat take_bit_nat_eq_self)
  qed
  have sub: "(!) T ` {..<2 ^ r} \<subseteq> patterns (r + m) t" using T(1,3) by (auto dest!: nth_mem)
  have "card ((!) T ` {..<2 ^ r}) = card (patterns (r + m) t)"
    using card_image [OF inj] card_patterns [OF gen(2), of t] count by simp
  moreover have "finite (patterns (r + m) t)" by simp
  ultimately have "(!) T ` {..<2 ^ r} = patterns (r + m) t" using sub by (intro card_subset_eq)
  then obtain i where i: "i < 2 ^ r" "e = T ! i" using e by auto
  then show ?thesis using d [of i] lt [of i] by (simp add: unat_of_nat take_bit_nat_eq_self)
qed

end
