(* ===== verification/Golay24128.thy ===== *)
theory Golay24128
  imports GolayTables
begin

text \<open>
  The Golay (23,12,7) and (24,12,8) codes of \<^verbatim>\<open>src/src/common/edac/Golay24128.cpp\<close>.  The
  syndrome loop is the option-valued loop of \<open>PolyCodes\<close>; a decoder that reads outside its
  precondition does not return, which is \<open>None\<close>.
\<close>

section \<open>The functions\<close>

definition getSyndrome23127 :: "u32 \<Rightarrow> u32 option" where
  "getSyndrome23127 pattern = get_syndrome 0x00400000 0x00000800 0xfffff800 0x00000c75 pattern"

definition decode23127 :: "u32 \<Rightarrow> u32 option" where
  "decode23127 code =
     Option.bind (getSyndrome23127 code)
       (\<lambda>syndrome. Some (drop_bit 11 (code XOR DECODING_TABLE_23127 ! unat syndrome)))"

definition decode24128 :: "u32 \<Rightarrow> (bool \<times> u32) option" where
  "decode24128 code =
     Option.bind (getSyndrome23127 (drop_bit 1 code))
       (\<lambda>syndrome.
          let out = code XOR push_bit 1 (DECODING_TABLE_23127 ! unat syndrome);
              valid = (countBits32 syndrome < 3 \<or> \<not> countBits32 out AND 1 \<noteq> 0)
          in Some (valid, drop_bit 12 out))"

definition decode24128_bytes :: "bytes \<Rightarrow> (bool \<times> u32) option" where
  "decode24128_bytes b =
     decode24128 ((push_bit 16 (ucast (b ! 0)) OR push_bit 8 (ucast (b ! 1))) OR ucast (b ! 2))"

definition encode23127 :: "u32 \<Rightarrow> u32" where
  "encode23127 data = ENCODING_TABLE_23127 ! unat data"

definition encode24128 :: "u32 \<Rightarrow> u32" where
  "encode24128 data = ENCODING_TABLE_24128 ! unat data"

text \<open>
  The two functions that code a buffer: three bytes become two words of three bytes each, what
  is left of the message becomes one word per byte.  \<open>j\<close> is the offset in the coded buffer.
\<close>

definition pack24 :: "bytes \<Rightarrow> nat \<Rightarrow> u32" where
  "pack24 raw j =
     (push_bit 16 (ucast (raw ! j)) AND 0xff0000) OR (push_bit 8 (ucast (raw ! (j + 1))) AND 0x00ff00)
       OR (ucast (raw ! (j + 2)) AND 0x0000ff)"

definition unpack24 :: "u32 \<Rightarrow> bytes \<Rightarrow> nat \<Rightarrow> bytes" where
  "unpack24 v data j =
     data[j := ucast (drop_bit 16 v AND 0xff), j + 1 := ucast (drop_bit 8 v AND 0xff), j + 2 := ucast (v AND 0xff)]"

definition encode24128_buffer :: "bytes \<Rightarrow> bytes \<Rightarrow> nat \<Rightarrow> bytes" where
  "encode24128_buffer data raw msglen =
     (let r = msglen mod 3;
          data = foldl (\<lambda>data k.
              let i = 3 * k; j = 6 * k; s0 = ucast (raw ! i); s1 = ucast (raw ! (i + 1)); s2 = ucast (raw ! (i + 2));
                  m0 = (push_bit 4 s0 AND 0x0ff0) OR (drop_bit 4 s1 AND 0x000f);
                  m1 = (push_bit 8 s1 AND 0x0f00) OR (s2 AND 0x00ff)
              in unpack24 (encode24128 m1) (unpack24 (encode24128 m0) data j) (j + 3)) data [0..<(msglen - r) div 3];
          j0 = 6 * ((msglen - r) div 3)
      in foldl (\<lambda>data k. unpack24 (encode24128 (ucast (raw ! (msglen - r + k)))) data (j0 + 3 * k)) data [0..<r])"

fun decode24128_words :: "bytes \<Rightarrow> bytes \<Rightarrow> nat \<Rightarrow> nat \<Rightarrow> nat \<Rightarrow> bytes option" where
  "decode24128_words data raw i j n =
     (case n of
        0 \<Rightarrow> Some data
      | Suc n \<Rightarrow>
          Option.bind (decode24128 (pack24 raw j)) (\<lambda>(_, m0_hat).
          Option.bind (decode24128 (pack24 raw (j + 3))) (\<lambda>(_, m1_hat).
          decode24128_words
            (data[i := ucast (drop_bit 4 m0_hat AND 0xff),
                  i + 1 := ucast ((push_bit 4 m0_hat AND 0xf0) OR (drop_bit 8 m1_hat AND 0x0f)),
                  i + 2 := ucast (m1_hat AND 0xff)]) raw (i + 3) (j + 6) n)))"

fun decode24128_rest :: "bytes \<Rightarrow> bytes \<Rightarrow> nat \<Rightarrow> nat \<Rightarrow> nat \<Rightarrow> bytes option" where
  "decode24128_rest data raw i j n =
     (case n of
        0 \<Rightarrow> Some data
      | Suc n \<Rightarrow>
          Option.bind (decode24128 (pack24 raw j)) (\<lambda>(_, m0_hat).
          decode24128_rest (data[i := ucast (m0_hat AND 0xff)]) raw (i + 1) (j + 3) n))"

definition decode24128_buffer :: "bytes \<Rightarrow> bytes \<Rightarrow> nat \<Rightarrow> bytes option" where
  "decode24128_buffer data raw msglen =
     (let r = msglen mod 3; n = (msglen - r) div 3
      in Option.bind (decode24128_words data raw 0 0 n)
           (\<lambda>data. decode24128_rest data raw (msglen - r) (6 * n) r))"

section \<open>The tables\<close>

abbreviation "golay_gen \<equiv> 0xc75 :: u32"

lemma golay_generator: "generator golay_gen 11"
  by (simp add: generator_def)

lemma golay_divide:
  "divide golay_gen 11 12 1 = 1" "divide golay_gen 11 12 0x2 = 0x2" "divide golay_gen 11 12 0x4 = 0x4" "divide golay_gen 11 12 0x8 = 0x8"
  "divide golay_gen 11 12 0x10 = 0x10" "divide golay_gen 11 12 0x20 = 0x20" "divide golay_gen 11 12 0x40 = 0x40" "divide golay_gen 11 12 0x80 = 0x80"
  "divide golay_gen 11 12 0x100 = 0x100" "divide golay_gen 11 12 0x200 = 0x200" "divide golay_gen 11 12 0x400 = 0x400" "divide golay_gen 11 12 0x800 = 0x475"
  "divide golay_gen 11 12 0x1000 = 0x49f" "divide golay_gen 11 12 0x2000 = 0x54b" "divide golay_gen 11 12 0x4000 = 0x6e3" "divide golay_gen 11 12 0x8000 = 0x1b3"
  "divide golay_gen 11 12 0x10000 = 0x366" "divide golay_gen 11 12 0x20000 = 0x6cc" "divide golay_gen 11 12 0x40000 = 0x1ed" "divide golay_gen 11 12 0x80000 = 0x3da"
  "divide golay_gen 11 12 0x100000 = 0x7b4" "divide golay_gen 11 12 0x200000 = 0x31d" "divide golay_gen 11 12 0x400000 = 0x63a" "divide golay_gen 11 12 0x800000 = 0x800000"
  "divide golay_gen 11 12 0x1000000 = 0x1000000" "divide golay_gen 11 12 0x2000000 = 0x2000000" "divide golay_gen 11 12 0x4000000 = 0x4000000" "divide golay_gen 11 12 0x8000000 = 0x8000000"
  "divide golay_gen 11 12 0x10000000 = 0x10000000" "divide golay_gen 11 12 0x20000000 = 0x20000000" "divide golay_gen 11 12 0x40000000 = 0x40000000" "divide golay_gen 11 12 0x80000000 = 0x80000000"
  by (simp_all add: eval_divide)

definition golay_columns :: "u32 list" where
  "golay_columns = [1, 2, 4, 8, 0x10, 0x20, 0x40, 0x80, 0x100, 0x200, 0x400,
     0x475, 0x49f, 0x54b, 0x6e3, 0x1b3, 0x366, 0x6cc, 0x1ed, 0x3da, 0x7b4, 0x31d,
     0x63a, 0x800000, 0x1000000, 0x2000000, 0x4000000, 0x8000000, 0x10000000, 0x20000000, 0x40000000, 0x80000000]"

lemma golay_columns_eq: "columns_of (divide golay_gen 11 12) = golay_columns"
  unfolding columns_32 golay_columns_def by (simp only: golay_divide)

lemma golay_numeral: "divide golay_gen 11 12 (numeral k) = lin_num k golay_columns"
  using linear_numeral [OF xor_linear_divide] by (simp add: golay_columns_eq)

lemma golay_zero: "divide golay_gen 11 12 0 = 0"
  by (rule xor_linear_zero [OF xor_linear_divide])

text \<open>The code words: twelve bits, the remainder that makes the word divisible, a zero or the parity.\<close>

definition word_23 :: "u32 \<Rightarrow> u32" where
  "word_23 d = push_bit 11 d XOR divide golay_gen 11 12 (push_bit 11 d)"

definition shifted23 :: "u32 \<Rightarrow> u32" where
  "shifted23 d = push_bit 1 (word_23 d)"

definition word_24 :: "u32 \<Rightarrow> u32" where
  "word_24 d = shifted23 d XOR parity_word (shifted23 d)"

lemma xor_linear_xor [linear_intros]: "xor_linear f \<Longrightarrow> xor_linear h \<Longrightarrow> xor_linear (\<lambda>x. f x XOR h x)"
  by (auto simp: xor_linear_def xor.assoc xor.left_commute)

lemma xor_linear_divided [linear_intros]: "xor_linear h \<Longrightarrow> xor_linear (\<lambda>x. divide gen r m (h x))"
  using xor_linear_divide [of gen r m] by (simp add: xor_linear_def)

lemma xor_linear_word23 [linear_intros]: "xor_linear h \<Longrightarrow> xor_linear (\<lambda>x. word_23 (h x))"
  unfolding word_23_def by (intro linear_intros)

lemma xor_linear_shifted23 [linear_intros]: "xor_linear h \<Longrightarrow> xor_linear (\<lambda>x. shifted23 (h x))"
  unfolding shifted23_def by (intro linear_intros)

lemma xor_linear_word_24: "xor_linear word_24"
  unfolding word_24_def by (intro linear_intros)

lemma word_23_values:
  "shifted23 1 = 0x18ea" "shifted23 0x2 = 0x293e" "shifted23 0x4 = 0x4a96" "shifted23 0x8 = 0x8dc6"
  "shifted23 0x10 = 0x10366" "shifted23 0x20 = 0x206cc" "shifted23 0x40 = 0x40d98" "shifted23 0x80 = 0x803da"
  "shifted23 0x100 = 0x1007b4" "shifted23 0x200 = 0x200f68" "shifted23 0x400 = 0x40063a" "shifted23 0x800 = 0x800c74"
  "shifted23 0x1000 = 0" "shifted23 0x2000 = 0" "shifted23 0x4000 = 0" "shifted23 0x8000 = 0"
  "shifted23 0x10000 = 0" "shifted23 0x20000 = 0" "shifted23 0x40000 = 0" "shifted23 0x80000 = 0"
  "shifted23 0x100000 = 0" "shifted23 0x200000 = 0" "shifted23 0x400000 = 0" "shifted23 0x800000 = 0"
  "shifted23 0x1000000 = 0" "shifted23 0x2000000 = 0" "shifted23 0x4000000 = 0" "shifted23 0x8000000 = 0"
  "shifted23 0x10000000 = 0" "shifted23 0x20000000 = 0" "shifted23 0x40000000 = 0" "shifted23 0x80000000 = 0"
  by (simp_all add: shifted23_def word_23_def eval_divide)

definition word_23_columns :: "u32 list" where
  "word_23_columns = [0x18ea, 0x293e, 0x4a96, 0x8dc6, 0x10366, 0x206cc, 0x40d98, 0x803da, 0x1007b4, 0x200f68, 0x40063a,
     0x800c74, 0, 0, 0, 0, 0, 0, 0, 0, 0, 0,
     0, 0, 0, 0, 0, 0, 0, 0, 0, 0]"

lemma word_23_columns_eq: "columns_of shifted23 = word_23_columns"
  unfolding columns_32 word_23_columns_def by (simp only: word_23_values)

lemma word_23_numeral: "shifted23 (numeral k) = lin_num k word_23_columns"
  using linear_numeral [OF xor_linear_shifted23 [OF xor_linear_id]] by (simp add: word_23_columns_eq)

lemma parity_numeral: "num_len k \<le> 32 \<Longrightarrow> parity_word (numeral k) = of_bool (odd (num_weight k))"
  by (simp add: parity_word_def weight_numeral_eq)

lemma parity_0: "parity_word 0 = 0"
  by (simp add: parity_word_def)

lemma word_24_values:
  "word_24 1 = 0x18eb" "word_24 0x2 = 0x293e" "word_24 0x4 = 0x4a97" "word_24 0x8 = 0x8dc6"
  "word_24 0x10 = 0x10367" "word_24 0x20 = 0x206cd" "word_24 0x40 = 0x40d99" "word_24 0x80 = 0x803da"
  "word_24 0x100 = 0x1007b4" "word_24 0x200 = 0x200f68" "word_24 0x400 = 0x40063b" "word_24 0x800 = 0x800c75"
  "word_24 0x1000 = 0" "word_24 0x2000 = 0" "word_24 0x4000 = 0" "word_24 0x8000 = 0"
  "word_24 0x10000 = 0" "word_24 0x20000 = 0" "word_24 0x40000 = 0" "word_24 0x80000 = 0"
  "word_24 0x100000 = 0" "word_24 0x200000 = 0" "word_24 0x400000 = 0" "word_24 0x800000 = 0"
  "word_24 0x1000000 = 0" "word_24 0x2000000 = 0" "word_24 0x4000000 = 0" "word_24 0x8000000 = 0"
  "word_24 0x10000000 = 0" "word_24 0x20000000 = 0" "word_24 0x40000000 = 0" "word_24 0x80000000 = 0"
  by (simp_all only: word_24_def word_23_values) (simp_all add: parity_numeral parity_0)

definition word_24_columns :: "u32 list" where
  "word_24_columns = [0x18eb, 0x293e, 0x4a97, 0x8dc6, 0x10367, 0x206cd, 0x40d99, 0x803da, 0x1007b4, 0x200f68, 0x40063b,
     0x800c75, 0, 0, 0, 0, 0, 0, 0, 0, 0, 0,
     0, 0, 0, 0, 0, 0, 0, 0, 0, 0]"

lemma word_24_columns_eq: "columns_of word_24 = word_24_columns"
  unfolding columns_32 word_24_columns_def by (simp only: word_24_values)

lemma word_24_numeral: "word_24 (numeral k) = lin_num k word_24_columns"
  using linear_numeral [OF xor_linear_word_24] by (simp add: word_24_columns_eq)

section \<open>The tables hold what they should\<close>

lemma word_zero: "shifted23 0 = 0" "word_24 0 = 0"
  by (simp_all add: word_24_def shifted23_def word_23_def golay_zero parity_0)

definition ladder23 :: "u32 list" where
  "ladder23 = [0x18ea, 0x31d4, 0x7b42, 0xf684, 0x1f5e2, 0x3f32e, 0x7feb6, 0xffd6c, 0x1ffad8, 0x3ff5b0, 0x7ff38a, 0xfffffe, 0xfffffe]"

lemma ladder23_values:
  "shifted23 1 = 0x18ea" "shifted23 0x3 = 0x31d4" "shifted23 0x7 = 0x7b42" "shifted23 0xf = 0xf684" "shifted23 0x1f = 0x1f5e2" "shifted23 0x3f = 0x3f32e" "shifted23 0x7f = 0x7feb6" "shifted23 0xff = 0xffd6c" "shifted23 0x1ff = 0x1ffad8" "shifted23 0x3ff = 0x3ff5b0" "shifted23 0x7ff = 0x7ff38a" "shifted23 0xfff = 0xfffffe" "shifted23 0x1fff = 0xfffffe"
  by (simp_all add: word_23_numeral word_23_columns_def word_23_values)

lemma ladder23_is: "ladder shifted23 0 ladder23"
  unfolding ladder23_def by (simp add: ladder_Cons ladder_Nil mask_eq_exp_minus_1 ladder23_values)

definition ladder24 :: "u32 list" where
  "ladder24 = [0x18eb, 0x31d5, 0x7b42, 0xf684, 0x1f5e3, 0x3f32e, 0x7feb7, 0xffd6d, 0x1ffad9, 0x3ff5b1, 0x7ff38a, 0xffffff, 0xffffff]"

lemma ladder24_values:
  "word_24 1 = 0x18eb" "word_24 0x3 = 0x31d5" "word_24 0x7 = 0x7b42" "word_24 0xf = 0xf684" "word_24 0x1f = 0x1f5e3" "word_24 0x3f = 0x3f32e" "word_24 0x7f = 0x7feb7" "word_24 0xff = 0xffd6d" "word_24 0x1ff = 0x1ffad9" "word_24 0x3ff = 0x3ff5b1" "word_24 0x7ff = 0x7ff38a" "word_24 0xfff = 0xffffff" "word_24 0x1fff = 0xffffff"
  by (simp_all add: word_24_numeral word_24_columns_def word_24_values)

lemma ladder24_is: "ladder word_24 0 ladder24"
  unfolding ladder24_def by (simp add: ladder_Cons ladder_Nil mask_eq_exp_minus_1 ladder24_values)

lemmas enc2_eval = word_zero word_23_numeral word_23_columns_def word_23_values word_24_numeral word_24_columns_def word_24_values
  ladder23_def ladder24_def

lemma enc23_0: "tabulates shifted23 0 ENCODING_TABLE_23127_0"
  unfolding ENCODING_TABLE_23127_0_def
  by (rule tabulates_run(2) [OF xor_linear_shifted23 [OF xor_linear_id] ladder23_is]) (simp_all add: enc2_eval cong: tab_steps_cong)
lemma enc23_1: "tabulates shifted23 250 ENCODING_TABLE_23127_1"
  unfolding ENCODING_TABLE_23127_1_def
  by (rule tabulates_run(1) [OF xor_linear_shifted23 [OF xor_linear_id] ladder23_is]) (simp_all add: enc2_eval cong: tab_steps_cong)
lemma enc23_2: "tabulates shifted23 500 ENCODING_TABLE_23127_2"
  unfolding ENCODING_TABLE_23127_2_def
  by (rule tabulates_run(1) [OF xor_linear_shifted23 [OF xor_linear_id] ladder23_is]) (simp_all add: enc2_eval cong: tab_steps_cong)
lemma enc23_3: "tabulates shifted23 750 ENCODING_TABLE_23127_3"
  unfolding ENCODING_TABLE_23127_3_def
  by (rule tabulates_run(1) [OF xor_linear_shifted23 [OF xor_linear_id] ladder23_is]) (simp_all add: enc2_eval cong: tab_steps_cong)
lemma enc23_4: "tabulates shifted23 1000 ENCODING_TABLE_23127_4"
  unfolding ENCODING_TABLE_23127_4_def
  by (rule tabulates_run(1) [OF xor_linear_shifted23 [OF xor_linear_id] ladder23_is]) (simp_all add: enc2_eval cong: tab_steps_cong)
lemma enc23_5: "tabulates shifted23 1250 ENCODING_TABLE_23127_5"
  unfolding ENCODING_TABLE_23127_5_def
  by (rule tabulates_run(1) [OF xor_linear_shifted23 [OF xor_linear_id] ladder23_is]) (simp_all add: enc2_eval cong: tab_steps_cong)
lemma enc23_6: "tabulates shifted23 1500 ENCODING_TABLE_23127_6"
  unfolding ENCODING_TABLE_23127_6_def
  by (rule tabulates_run(1) [OF xor_linear_shifted23 [OF xor_linear_id] ladder23_is]) (simp_all add: enc2_eval cong: tab_steps_cong)
lemma enc23_7: "tabulates shifted23 1750 ENCODING_TABLE_23127_7"
  unfolding ENCODING_TABLE_23127_7_def
  by (rule tabulates_run(1) [OF xor_linear_shifted23 [OF xor_linear_id] ladder23_is]) (simp_all add: enc2_eval cong: tab_steps_cong)
lemma enc23_8: "tabulates shifted23 2000 ENCODING_TABLE_23127_8"
  unfolding ENCODING_TABLE_23127_8_def
  by (rule tabulates_run(1) [OF xor_linear_shifted23 [OF xor_linear_id] ladder23_is]) (simp_all add: enc2_eval cong: tab_steps_cong)
lemma enc23_9: "tabulates shifted23 2250 ENCODING_TABLE_23127_9"
  unfolding ENCODING_TABLE_23127_9_def
  by (rule tabulates_run(1) [OF xor_linear_shifted23 [OF xor_linear_id] ladder23_is]) (simp_all add: enc2_eval cong: tab_steps_cong)
lemma enc23_10: "tabulates shifted23 2500 ENCODING_TABLE_23127_10"
  unfolding ENCODING_TABLE_23127_10_def
  by (rule tabulates_run(1) [OF xor_linear_shifted23 [OF xor_linear_id] ladder23_is]) (simp_all add: enc2_eval cong: tab_steps_cong)
lemma enc23_11: "tabulates shifted23 2750 ENCODING_TABLE_23127_11"
  unfolding ENCODING_TABLE_23127_11_def
  by (rule tabulates_run(1) [OF xor_linear_shifted23 [OF xor_linear_id] ladder23_is]) (simp_all add: enc2_eval cong: tab_steps_cong)
lemma enc23_12: "tabulates shifted23 3000 ENCODING_TABLE_23127_12"
  unfolding ENCODING_TABLE_23127_12_def
  by (rule tabulates_run(1) [OF xor_linear_shifted23 [OF xor_linear_id] ladder23_is]) (simp_all add: enc2_eval cong: tab_steps_cong)
lemma enc23_13: "tabulates shifted23 3250 ENCODING_TABLE_23127_13"
  unfolding ENCODING_TABLE_23127_13_def
  by (rule tabulates_run(1) [OF xor_linear_shifted23 [OF xor_linear_id] ladder23_is]) (simp_all add: enc2_eval cong: tab_steps_cong)
lemma enc23_14: "tabulates shifted23 3500 ENCODING_TABLE_23127_14"
  unfolding ENCODING_TABLE_23127_14_def
  by (rule tabulates_run(1) [OF xor_linear_shifted23 [OF xor_linear_id] ladder23_is]) (simp_all add: enc2_eval cong: tab_steps_cong)
lemma enc23_15: "tabulates shifted23 3750 ENCODING_TABLE_23127_15"
  unfolding ENCODING_TABLE_23127_15_def
  by (rule tabulates_run(1) [OF xor_linear_shifted23 [OF xor_linear_id] ladder23_is]) (simp_all add: enc2_eval cong: tab_steps_cong)
lemma enc23_16: "tabulates shifted23 4000 ENCODING_TABLE_23127_16"
  unfolding ENCODING_TABLE_23127_16_def
  by (rule tabulates_run(1) [OF xor_linear_shifted23 [OF xor_linear_id] ladder23_is]) (simp_all add: enc2_eval cong: tab_steps_cong)

lemma enc24_0: "tabulates word_24 0 ENCODING_TABLE_24128_0"
  unfolding ENCODING_TABLE_24128_0_def
  by (rule tabulates_run(2) [OF xor_linear_word_24 ladder24_is]) (simp_all add: enc2_eval cong: tab_steps_cong)
lemma enc24_1: "tabulates word_24 250 ENCODING_TABLE_24128_1"
  unfolding ENCODING_TABLE_24128_1_def
  by (rule tabulates_run(1) [OF xor_linear_word_24 ladder24_is]) (simp_all add: enc2_eval cong: tab_steps_cong)
lemma enc24_2: "tabulates word_24 500 ENCODING_TABLE_24128_2"
  unfolding ENCODING_TABLE_24128_2_def
  by (rule tabulates_run(1) [OF xor_linear_word_24 ladder24_is]) (simp_all add: enc2_eval cong: tab_steps_cong)
lemma enc24_3: "tabulates word_24 750 ENCODING_TABLE_24128_3"
  unfolding ENCODING_TABLE_24128_3_def
  by (rule tabulates_run(1) [OF xor_linear_word_24 ladder24_is]) (simp_all add: enc2_eval cong: tab_steps_cong)
lemma enc24_4: "tabulates word_24 1000 ENCODING_TABLE_24128_4"
  unfolding ENCODING_TABLE_24128_4_def
  by (rule tabulates_run(1) [OF xor_linear_word_24 ladder24_is]) (simp_all add: enc2_eval cong: tab_steps_cong)
lemma enc24_5: "tabulates word_24 1250 ENCODING_TABLE_24128_5"
  unfolding ENCODING_TABLE_24128_5_def
  by (rule tabulates_run(1) [OF xor_linear_word_24 ladder24_is]) (simp_all add: enc2_eval cong: tab_steps_cong)
lemma enc24_6: "tabulates word_24 1500 ENCODING_TABLE_24128_6"
  unfolding ENCODING_TABLE_24128_6_def
  by (rule tabulates_run(1) [OF xor_linear_word_24 ladder24_is]) (simp_all add: enc2_eval cong: tab_steps_cong)
lemma enc24_7: "tabulates word_24 1750 ENCODING_TABLE_24128_7"
  unfolding ENCODING_TABLE_24128_7_def
  by (rule tabulates_run(1) [OF xor_linear_word_24 ladder24_is]) (simp_all add: enc2_eval cong: tab_steps_cong)
lemma enc24_8: "tabulates word_24 2000 ENCODING_TABLE_24128_8"
  unfolding ENCODING_TABLE_24128_8_def
  by (rule tabulates_run(1) [OF xor_linear_word_24 ladder24_is]) (simp_all add: enc2_eval cong: tab_steps_cong)
lemma enc24_9: "tabulates word_24 2250 ENCODING_TABLE_24128_9"
  unfolding ENCODING_TABLE_24128_9_def
  by (rule tabulates_run(1) [OF xor_linear_word_24 ladder24_is]) (simp_all add: enc2_eval cong: tab_steps_cong)
lemma enc24_10: "tabulates word_24 2500 ENCODING_TABLE_24128_10"
  unfolding ENCODING_TABLE_24128_10_def
  by (rule tabulates_run(1) [OF xor_linear_word_24 ladder24_is]) (simp_all add: enc2_eval cong: tab_steps_cong)
lemma enc24_11: "tabulates word_24 2750 ENCODING_TABLE_24128_11"
  unfolding ENCODING_TABLE_24128_11_def
  by (rule tabulates_run(1) [OF xor_linear_word_24 ladder24_is]) (simp_all add: enc2_eval cong: tab_steps_cong)
lemma enc24_12: "tabulates word_24 3000 ENCODING_TABLE_24128_12"
  unfolding ENCODING_TABLE_24128_12_def
  by (rule tabulates_run(1) [OF xor_linear_word_24 ladder24_is]) (simp_all add: enc2_eval cong: tab_steps_cong)
lemma enc24_13: "tabulates word_24 3250 ENCODING_TABLE_24128_13"
  unfolding ENCODING_TABLE_24128_13_def
  by (rule tabulates_run(1) [OF xor_linear_word_24 ladder24_is]) (simp_all add: enc2_eval cong: tab_steps_cong)
lemma enc24_14: "tabulates word_24 3500 ENCODING_TABLE_24128_14"
  unfolding ENCODING_TABLE_24128_14_def
  by (rule tabulates_run(1) [OF xor_linear_word_24 ladder24_is]) (simp_all add: enc2_eval cong: tab_steps_cong)
lemma enc24_15: "tabulates word_24 3750 ENCODING_TABLE_24128_15"
  unfolding ENCODING_TABLE_24128_15_def
  by (rule tabulates_run(1) [OF xor_linear_word_24 ladder24_is]) (simp_all add: enc2_eval cong: tab_steps_cong)
lemma enc24_16: "tabulates word_24 4000 ENCODING_TABLE_24128_16"
  unfolding ENCODING_TABLE_24128_16_def
  by (rule tabulates_run(1) [OF xor_linear_word_24 ladder24_is]) (simp_all add: enc2_eval cong: tab_steps_cong)

lemma dec23_0: "inverts (divide golay_gen 11 12) 0 DECODING_TABLE_23127_0"
  unfolding DECODING_TABLE_23127_0_def by (simp add: golay_numeral golay_columns_def golay_divide golay_zero cong: inverts_cong)
lemma dec23_1: "inverts (divide golay_gen 11 12) 260 DECODING_TABLE_23127_1"
  unfolding DECODING_TABLE_23127_1_def by (simp add: golay_numeral golay_columns_def golay_divide golay_zero cong: inverts_cong)
lemma dec23_2: "inverts (divide golay_gen 11 12) 520 DECODING_TABLE_23127_2"
  unfolding DECODING_TABLE_23127_2_def by (simp add: golay_numeral golay_columns_def golay_divide golay_zero cong: inverts_cong)
lemma dec23_3: "inverts (divide golay_gen 11 12) 780 DECODING_TABLE_23127_3"
  unfolding DECODING_TABLE_23127_3_def by (simp add: golay_numeral golay_columns_def golay_divide golay_zero cong: inverts_cong)
lemma dec23_4: "inverts (divide golay_gen 11 12) 1040 DECODING_TABLE_23127_4"
  unfolding DECODING_TABLE_23127_4_def by (simp add: golay_numeral golay_columns_def golay_divide golay_zero cong: inverts_cong)
lemma dec23_5: "inverts (divide golay_gen 11 12) 1300 DECODING_TABLE_23127_5"
  unfolding DECODING_TABLE_23127_5_def by (simp add: golay_numeral golay_columns_def golay_divide golay_zero cong: inverts_cong)
lemma dec23_6: "inverts (divide golay_gen 11 12) 1560 DECODING_TABLE_23127_6"
  unfolding DECODING_TABLE_23127_6_def by (simp add: golay_numeral golay_columns_def golay_divide golay_zero cong: inverts_cong)
lemma dec23_7: "inverts (divide golay_gen 11 12) 1820 DECODING_TABLE_23127_7"
  unfolding DECODING_TABLE_23127_7_def by (simp add: golay_numeral golay_columns_def golay_divide golay_zero cong: inverts_cong)

definition unary_23 :: "unit list" where
  "unary_23 = [(), (), (), (), (), (), (), (), (), (), (), (), (), (), (), (), (), (), (), (), (), (), ()]"

lemma light23_0: "light unary_23 [(), (), ()] DECODING_TABLE_23127_0"
  unfolding DECODING_TABLE_23127_0_def by (simp add: light_numeral light_0 light_1 unary_23_def cong: light_cong)
lemma light23_1: "light unary_23 [(), (), ()] DECODING_TABLE_23127_1"
  unfolding DECODING_TABLE_23127_1_def by (simp add: light_numeral light_0 light_1 unary_23_def cong: light_cong)
lemma light23_2: "light unary_23 [(), (), ()] DECODING_TABLE_23127_2"
  unfolding DECODING_TABLE_23127_2_def by (simp add: light_numeral light_0 light_1 unary_23_def cong: light_cong)
lemma light23_3: "light unary_23 [(), (), ()] DECODING_TABLE_23127_3"
  unfolding DECODING_TABLE_23127_3_def by (simp add: light_numeral light_0 light_1 unary_23_def cong: light_cong)
lemma light23_4: "light unary_23 [(), (), ()] DECODING_TABLE_23127_4"
  unfolding DECODING_TABLE_23127_4_def by (simp add: light_numeral light_0 light_1 unary_23_def cong: light_cong)
lemma light23_5: "light unary_23 [(), (), ()] DECODING_TABLE_23127_5"
  unfolding DECODING_TABLE_23127_5_def by (simp add: light_numeral light_0 light_1 unary_23_def cong: light_cong)
lemma light23_6: "light unary_23 [(), (), ()] DECODING_TABLE_23127_6"
  unfolding DECODING_TABLE_23127_6_def by (simp add: light_numeral light_0 light_1 unary_23_def cong: light_cong)
lemma light23_7: "light unary_23 [(), (), ()] DECODING_TABLE_23127_7"
  unfolding DECODING_TABLE_23127_7_def by (simp add: light_numeral light_0 light_1 unary_23_def cong: light_cong)

lemma ENCODING_TABLE_23127_lengths:
  "length ENCODING_TABLE_23127_0 = 250" "length ENCODING_TABLE_23127_1 = 250" "length ENCODING_TABLE_23127_2 = 250"
  "length ENCODING_TABLE_23127_3 = 250" "length ENCODING_TABLE_23127_4 = 250" "length ENCODING_TABLE_23127_5 = 250"
  "length ENCODING_TABLE_23127_6 = 250" "length ENCODING_TABLE_23127_7 = 250" "length ENCODING_TABLE_23127_8 = 250"
  "length ENCODING_TABLE_23127_9 = 250" "length ENCODING_TABLE_23127_10 = 250" "length ENCODING_TABLE_23127_11 = 250"
  "length ENCODING_TABLE_23127_12 = 250" "length ENCODING_TABLE_23127_13 = 250" "length ENCODING_TABLE_23127_14 = 250"
  "length ENCODING_TABLE_23127_15 = 250" "length ENCODING_TABLE_23127_16 = 96"
  by (simp_all add: ENCODING_TABLE_23127_0_def ENCODING_TABLE_23127_1_def ENCODING_TABLE_23127_2_def ENCODING_TABLE_23127_3_def ENCODING_TABLE_23127_4_def ENCODING_TABLE_23127_5_def ENCODING_TABLE_23127_6_def ENCODING_TABLE_23127_7_def ENCODING_TABLE_23127_8_def ENCODING_TABLE_23127_9_def ENCODING_TABLE_23127_10_def ENCODING_TABLE_23127_11_def ENCODING_TABLE_23127_12_def ENCODING_TABLE_23127_13_def ENCODING_TABLE_23127_14_def ENCODING_TABLE_23127_15_def ENCODING_TABLE_23127_16_def)

lemma length_ENCODING_TABLE_23127: "length ENCODING_TABLE_23127 = 4096"
  by (simp add: ENCODING_TABLE_23127_def ENCODING_TABLE_23127_lengths)

lemma ENCODING_TABLE_24128_lengths:
  "length ENCODING_TABLE_24128_0 = 250" "length ENCODING_TABLE_24128_1 = 250" "length ENCODING_TABLE_24128_2 = 250"
  "length ENCODING_TABLE_24128_3 = 250" "length ENCODING_TABLE_24128_4 = 250" "length ENCODING_TABLE_24128_5 = 250"
  "length ENCODING_TABLE_24128_6 = 250" "length ENCODING_TABLE_24128_7 = 250" "length ENCODING_TABLE_24128_8 = 250"
  "length ENCODING_TABLE_24128_9 = 250" "length ENCODING_TABLE_24128_10 = 250" "length ENCODING_TABLE_24128_11 = 250"
  "length ENCODING_TABLE_24128_12 = 250" "length ENCODING_TABLE_24128_13 = 250" "length ENCODING_TABLE_24128_14 = 250"
  "length ENCODING_TABLE_24128_15 = 250" "length ENCODING_TABLE_24128_16 = 96"
  by (simp_all add: ENCODING_TABLE_24128_0_def ENCODING_TABLE_24128_1_def ENCODING_TABLE_24128_2_def ENCODING_TABLE_24128_3_def ENCODING_TABLE_24128_4_def ENCODING_TABLE_24128_5_def ENCODING_TABLE_24128_6_def ENCODING_TABLE_24128_7_def ENCODING_TABLE_24128_8_def ENCODING_TABLE_24128_9_def ENCODING_TABLE_24128_10_def ENCODING_TABLE_24128_11_def ENCODING_TABLE_24128_12_def ENCODING_TABLE_24128_13_def ENCODING_TABLE_24128_14_def ENCODING_TABLE_24128_15_def ENCODING_TABLE_24128_16_def)

lemma length_ENCODING_TABLE_24128: "length ENCODING_TABLE_24128 = 4096"
  by (simp add: ENCODING_TABLE_24128_def ENCODING_TABLE_24128_lengths)

lemma DECODING_TABLE_23127_lengths:
  "length DECODING_TABLE_23127_0 = 260" "length DECODING_TABLE_23127_1 = 260" "length DECODING_TABLE_23127_2 = 260"
  "length DECODING_TABLE_23127_3 = 260" "length DECODING_TABLE_23127_4 = 260" "length DECODING_TABLE_23127_5 = 260"
  "length DECODING_TABLE_23127_6 = 260" "length DECODING_TABLE_23127_7 = 228"
  by (simp_all add: DECODING_TABLE_23127_0_def DECODING_TABLE_23127_1_def DECODING_TABLE_23127_2_def DECODING_TABLE_23127_3_def DECODING_TABLE_23127_4_def DECODING_TABLE_23127_5_def DECODING_TABLE_23127_6_def DECODING_TABLE_23127_7_def)

lemma length_DECODING_TABLE_23127: "length DECODING_TABLE_23127 = 2048"
  by (simp add: DECODING_TABLE_23127_def DECODING_TABLE_23127_lengths)

lemma enc23: "tabulates shifted23 0 ENCODING_TABLE_23127"
  unfolding ENCODING_TABLE_23127_def
  by (simp add: tabulates_append ENCODING_TABLE_23127_lengths enc23_0 enc23_1 enc23_2 enc23_3 enc23_4 enc23_5 enc23_6 enc23_7 enc23_8 enc23_9 enc23_10 enc23_11 enc23_12 enc23_13 enc23_14 enc23_15 enc23_16)

lemma enc24: "tabulates word_24 0 ENCODING_TABLE_24128"
  unfolding ENCODING_TABLE_24128_def
  by (simp add: tabulates_append ENCODING_TABLE_24128_lengths enc24_0 enc24_1 enc24_2 enc24_3 enc24_4 enc24_5 enc24_6 enc24_7 enc24_8 enc24_9 enc24_10 enc24_11 enc24_12 enc24_13 enc24_14 enc24_15 enc24_16)

lemma dec23: "inverts (divide golay_gen 11 12) 0 DECODING_TABLE_23127"
  unfolding DECODING_TABLE_23127_def
  by (simp add: inverts_append DECODING_TABLE_23127_lengths dec23_0 dec23_1 dec23_2 dec23_3 dec23_4 dec23_5 dec23_6 dec23_7)

lemma light23: "set DECODING_TABLE_23127 \<subseteq> patterns 23 3"
proof -
  have "light unary_23 [(), (), ()] DECODING_TABLE_23127"
    by (simp only: DECODING_TABLE_23127_def light_append light23_0 light23_1 light23_2 light23_3 light23_4 light23_5 light23_6 light23_7 simp_thms)
  from light_set [OF this] show ?thesis by (simp add: patterns_def unary_23_def eval_nat_numeral)
qed

section \<open>Decoding\<close>

lemma golay_count: "(\<Sum>i \<le> 3. 23 choose i) = (2 :: nat) ^ 11"
proof -
  have two: "23 choose 2 = (253 :: nat)" by (simp add: choose_two)
  have "3 * (23 choose 3) = 23 * (22 choose 2)" using times_binomial_minus1_eq [of 3 23] by simp
  then have three: "23 choose 3 = (1771 :: nat)" by (simp add: choose_two)
  have "{..3 :: nat} = {0, 1, 2, 3}" by auto
  then show ?thesis using two three by simp
qed

lemma golay_mask: "NOT (mask 11) = (0xfffff800 :: u32)"
proof -
  have "(0xfffff800 :: u32) + 2048 = 0" by simp
  then have "(0xfffff800 :: u32) = - 2048" by (simp only: eq_neg_iff_add_eq_0)
  moreover have "NOT (mask 11 :: u32) = - 2048" by (simp add: mask_eq_exp_minus_1)
  ultimately show ?thesis by (simp only:)
qed

interpretation golay: error_table golay_gen 11 12 3 DECODING_TABLE_23127
proof
  show "generator golay_gen 11" by (rule golay_generator)
  show "DECODING_TABLE_23127 ! unat (divide golay_gen 11 12 e) = e" if "e \<in> patterns (11 + 12) 3" for e
  proof (rule perfect_table [OF golay_generator])
    show "length DECODING_TABLE_23127 = 2 ^ 11" by (simp add: length_DECODING_TABLE_23127)
    show "(\<Sum>i \<le> 3. (11 + 12) choose i) = (2 :: nat) ^ 11" using golay_count by simp
    show "set DECODING_TABLE_23127 \<subseteq> patterns (11 + 12) 3" using light23 by simp
  qed (use that dec23 in simp_all)
qed simp_all

lemma golay_exps: "(2 ^ 22 :: u32) = 0x00400000" "(2 ^ 11 :: u32) = 0x00000800" "11 + 12 = (23 :: nat)" "23 - 1 = (22 :: nat)"
  by simp_all

lemma getSyndrome23127_divides: "p < 2 ^ 23 \<Longrightarrow> getSyndrome23127 p = Some (divide golay_gen 11 12 p)"
  using golay.syndrome_returns [of p] unfolding getSyndrome23127_def golay_mask golay_exps by (rule meta_mp)

lemma divide_word_23: 
  assumes "d < 2 ^ 12"
  shows "divide golay_gen 11 12 (word_23 d) = 0"
proof -
  let ?r = "divide golay_gen 11 12 (push_bit 11 d)"
  have "push_bit 11 d < (2 :: u32) ^ 23"
    using assms less_bits [of d 12] by (subst word_less_bits) (auto simp: bit_push_bit_iff)
  then have "?r < 2 ^ 11" using divide_less [OF golay_generator, of "push_bit 11 d" 12] by simp
  then have "divide golay_gen 11 12 ?r = ?r"
    by (rule divide_small) simp
  then show ?thesis by (simp add: word_23_def xor_linearD [OF xor_linear_divide])
qed


lemma less_4096_unat: "(d :: u32) < 4096 \<Longrightarrow> unat d < 4096"
  by (simp add: word_less_nat_alt)

lemma encode23127_word: "d < 4096 \<Longrightarrow> encode23127 d = shifted23 d"
  using tabulates_nth [OF enc23, of "unat d"] less_4096_unat [of d]
  by (simp add: encode23127_def length_ENCODING_TABLE_23127)

lemma encode24128_word: "d < 4096 \<Longrightarrow> encode24128 d = word_24 d"
  using tabulates_nth [OF enc24, of "unat d"] less_4096_unat [of d]
  by (simp add: encode24128_def length_ENCODING_TABLE_24128)

lemma word_23_remainder:
  assumes "d < 4096"
  shows "divide golay_gen 11 12 (push_bit 11 d) < 2 ^ 11" "\<not> bit (divide golay_gen 11 12 (push_bit 11 d)) (11 + i)"
proof -
  have "push_bit 11 d < (2 :: u32) ^ 23"
    using assms less_bits [of d 12] by (subst word_less_bits) (auto simp: bit_push_bit_iff)
  then show r: "divide golay_gen 11 12 (push_bit 11 d) < 2 ^ 11"
    using divide_less [OF golay_generator, of "push_bit 11 d" 12] by simp
  show "\<not> bit (divide golay_gen 11 12 (push_bit 11 d)) (11 + i)" using less_bits [OF r] by simp
qed

lemma bit_below: "bit (x :: u32) i \<Longrightarrow> x < 2 ^ n \<Longrightarrow> n < 32 \<Longrightarrow> i < n"
  using less_bits [of x n i] by (meson not_less)

lemma word_23_data: "d < 4096 \<Longrightarrow> drop_bit 11 (word_23 d) = d"
  using word_23_remainder(2) [of d] bit_below [of d _ 12]
  by (intro bit_word_eqI) (fastforce simp: word_23_def bit_drop_bit_eq bit_xor_iff bit_push_bit_iff)

lemma word_23_less: "d < 4096 \<Longrightarrow> word_23 d < 2 ^ 23"
proof -
  assume d: "d < 4096"
  have "\<not> bit (word_23 d) i" if "23 \<le> i" for i
    using that d word_23_remainder(2) [OF d, of "i - 11"] less_bits [of d 12 "i - 11"]
    by (auto simp: word_23_def bit_xor_iff bit_push_bit_iff)
  then show ?thesis by (subst word_less_bits) simp_all
qed

lemma drop_shifted23: "d < 4096 \<Longrightarrow> drop_bit 1 (shifted23 d) = word_23 d"
  using bit_below [OF _ word_23_less, of d]
  by (intro bit_word_eqI) (fastforce simp: shifted23_def bit_drop_bit_eq bit_push_bit_iff simp del: push_bit_Suc)

lemma parity_word_bits: "bit (parity_word x) i \<longleftrightarrow> i = 0 \<and> odd (weight x)"
  by (simp add: parity_word_def bit_1_iff)

lemma drop_word_24: "d < 4096 \<Longrightarrow> drop_bit 1 (word_24 d) = word_23 d"
  using drop_shifted23 [of d] by (simp add: word_24_def drop_bit_xor parity_word_def)

lemma even_word_24: "even (weight (word_24 d))"
proof -
  have "weight (parity_word x) = of_bool (odd (weight x))" for x by (simp add: parity_word_def)
  then show ?thesis using odd_weight_xor [of "shifted23 d" "parity_word (shifted23 d)"] by (auto simp: word_24_def)
qed

lemma xor_less: "x < 2 ^ n \<Longrightarrow> y < 2 ^ n \<Longrightarrow> n < 32 \<Longrightarrow> x XOR y < (2 :: u32) ^ n"
  using word_less_bits [of n x] word_less_bits [of n y] word_less_bits [of n "x XOR y"] by (auto simp: bit_xor_iff)

lemma golay23_corrects:
  assumes "d < 4096" "e < 2 ^ 23" "weight e \<le> 3"
  shows "decode23127 (drop_bit 1 (encode23127 d) XOR e) = Some d"
proof -
  have "e \<in> patterns (11 + 12) 3" using assms by (simp add: patterns_def)
  moreover have "divide golay_gen 11 12 (word_23 d) = 0" using assms(1) by (intro divide_word_23) simp
  ultimately have "(word_23 d XOR e) XOR DECODING_TABLE_23127 ! unat (divide golay_gen 11 12 (word_23 d XOR e)) = word_23 d"
    by (intro golay.corrects)
  moreover have "word_23 d XOR e < 2 ^ 23" using word_23_less assms by (intro xor_less) simp_all
  then have "getSyndrome23127 (word_23 d XOR e) = Some (divide golay_gen 11 12 (word_23 d XOR e))" by (rule getSyndrome23127_divides)
  ultimately show ?thesis
    unfolding decode23127_def encode23127_word [OF assms(1)] drop_shifted23 [OF assms(1)]
    by (simp only: bind.bind_lunit word_23_data [OF assms(1)])
qed

lemma golay24_decodes:
  assumes "d < 4096" "e < 2 ^ 24" "weight (drop_bit 1 e) \<le> 3"
  shows "decode24128 (encode24128 d XOR e) =
    Some (\<not> bit e 0 \<or> weight (divide golay_gen 11 12 (drop_bit 1 e)) < 3, d)"
proof -
  let ?e = "drop_bit 1 e" and ?c = "word_24 d XOR e"
  have e: "?e < 2 ^ 23"
    using assms(2) less_bits [OF assms(2)] by (subst word_less_bits) (auto simp: bit_drop_bit_eq)
  then have p: "?e \<in> patterns (11 + 12) 3" using assms by (simp add: patterns_def)
  have w: "divide golay_gen 11 12 (word_23 d) = 0" using assms(1) by (intro divide_word_23) simp
  have s: "drop_bit 1 ?c = word_23 d XOR ?e" using drop_word_24 [OF assms(1)] by (simp add: drop_bit_xor)
  have syn: "divide golay_gen 11 12 (word_23 d XOR ?e) = divide golay_gen 11 12 ?e"
    using xor_linearD [OF xor_linear_divide] w by simp
  have T: "DECODING_TABLE_23127 ! unat (divide golay_gen 11 12 ?e) = ?e" using golay.finds [OF p] .
  have g: "getSyndrome23127 (drop_bit 1 ?c) = Some (divide golay_gen 11 12 ?e)"
    unfolding s syn [symmetric] using e word_23_less [OF assms(1)] by (intro getSyndrome23127_divides xor_less) simp_all
  let ?out = "?c XOR push_bit 1 ?e"
  have out: "?out = word_24 d XOR (if bit e 0 then 1 else 0)"
  proof (rule bit_word_eqI)
    fix n assume "n < LENGTH(32)"
    then show "bit ?out n = bit (word_24 d XOR (if bit e 0 then 1 else 0)) n"
      by (cases n) (auto simp: bit_xor_iff bit_push_bit_iff bit_drop_bit_eq bit_1_iff simp del: push_bit_Suc drop_bit_Suc)
  qed
  have odd: "odd (weight ?out) \<longleftrightarrow> bit e 0"
    unfolding out using odd_weight_xor [of "word_24 d" 1] even_word_24 [of d] by simp
  have d12: "drop_bit 12 ?out = d"
  proof -
    have "drop_bit 12 ?out = drop_bit 11 (drop_bit 1 ?out)" by (simp add: drop_bit_drop_bit)
    also have "drop_bit 1 ?out = word_23 d" unfolding out using drop_word_24 [OF assms(1)] by (simp add: drop_bit_xor)
    finally show ?thesis using word_23_data [OF assms(1)] by simp
  qed
  have three: "countBits32 x < 3 \<longleftrightarrow> weight x < 3" for x
    using unat_countBits32 [of x] by (simp add: word_less_nat_alt)
  show ?thesis
    unfolding decode24128_def encode24128_word [OF assms(1)] g
    by (simp only: bind.bind_lunit Let_def T three countBits32_odd odd d12) auto
qed

lemma golay23_sample: "decode23127 (drop_bit 1 (encode23127 0xABC) XOR 0x400801) = Some 0xABC"
  by (rule golay23_corrects) (simp_all add: weight_numeral_eq)

lemma golay24_sample:
  "decode24128 (encode24128 0xABC XOR 0x800001) = Some (False, 0xABC)"
  using golay24_decodes [of "0xABC" "0x800001"]
  by (simp add: weight_numeral_eq golay_numeral golay_columns_def)

end
