(* ===== verification/AMBETables.thy ===== *)
theory AMBETables
  imports Prelude
begin

text \<open>The whitening words of \<^verbatim>\<open>src/src/common/edac/AMBEFEC.h\<close>, one for each value of a voice parameter.\<close>

definition PRNG_TABLE_0 :: "u32 list" where
  "PRNG_TABLE_0 = [
     0x42CC47, 0x19D6FE, 0x304729, 0x6B2CD0, 0x60BF47, 0x39650E, 0x7354F1, 0xEACF60, 0x819C9F, 0xDE25CE,
     0xD7B745, 0x8CC8B8, 0x8D592B, 0xF71257, 0xBCA084, 0xA5B329, 0xEE6AFA, 0xF7D9A7, 0xBCC21C, 0x4712D9,
     0x4F2922, 0x14FA37, 0x5D43EC, 0x564115, 0x299A92, 0x20A9EB, 0x7B707D, 0x3BE3A4, 0x20D95B, 0x6B085A,
     0x5233A5, 0x99A474, 0xC0EDCB, 0xCB5F12, 0x918455, 0xF897EC, 0xE32E3B, 0xAA7CC2, 0xB1E7C9, 0xFC561D,
     0xA70DE6, 0x8DBE73, 0xD4F608, 0x57658D, 0x0E5E56, 0x458DAB, 0x7E15B8, 0x376645, 0x2DFD86, 0x64EC3B,
     0x3F1F60, 0x3481B4, 0x4DA00F, 0x067BCE, 0x1B68B1, 0xD19328, 0xCA03FF, 0xA31856, 0xF8EB81, 0xF9F2F8,
     0xA26067, 0xA91BB6, 0xF19A59, 0x9A6148, 0x8372B6, 0xC8E86F, 0x9399DC, 0x1A0291, 0x619142, 0x6DE9FF,
     0x367A2C, 0x7D2511, 0x6484DA, 0x2F1F0F, 0x1E6DB4, 0x55F6E1, 0x0EA70A, 0x061C96, 0xDD0E45, 0xB4D738,
     0xAF64AB, 0xE47F42, 0xFDBE9D, 0xB684AC, 0xFE5773, 0xC1E4A2, 0x8AFD0D, 0x932ED4, 0xD814E3, 0x81853A,
     0x225EEC, 0x7A6945, 0x31A112, 0x2AB2EB, 0x630974, 0x785AB5, 0x11E3CE, 0x4A715B, 0x402AA0, 0x199B7D,
     0x16C05E, 0x6F5283, 0xA4FB10, 0xBFA8EC, 0xF633B7, 0xEC4012, 0xADD8C9, 0xD6EB1C, 0xDD3027, 0x84A1FA,
     0xCF9E19, 0xD64C80, 0xBC4557, 0xA7B62E, 0x6E2DA1, 0x311F50, 0x38C68E, 0x63D5BF, 0x486E60, 0x10BFE1,
     0x5BAD1E, 0x4A4647, 0x0157F0, 0x7ACC29, 0x73BEEA, 0x2825D7, 0xA0940C, 0xFBCFF9, 0xB05C62, 0x892426,
     0xC6B3DD, 0xDF3840, 0x9449B3, 0xCED3BE, 0xE7804D, 0xBC3B90, 0xF5AA0B, 0xE6D17E, 0x2D43B5, 0x345A04,
     0x5EA9DB, 0x07A202, 0x0C7134, 0x45C9FD, 0x5EDA0A, 0x310193, 0x6830C4, 0x62AA3D, 0x3B59B2, 0xB04043,
     0xEB975C, 0x82BCAD, 0x912E62, 0xD8F7FB, 0x82C489, 0x895F54, 0xF00FE7, 0xFBBC2A, 0xA2E771, 0xE956C4,
     0xF6CD1F, 0x3F8FEA, 0x0534E1, 0x4C653C, 0x17FE8F, 0x1C4C52, 0x4515A1, 0x2E86A9, 0x3FBD56, 0x756C87,
     0x6ED218, 0x279179, 0x7C0AA6, 0xD53B17, 0x8EE0C8, 0x85F291, 0xD94B36, 0x9298EF, 0xAB8318, 0xE07301,
     0xBB68DF, 0xB2CB7C, 0xE910A5, 0xE101D2, 0x92BB4B, 0x59E8B4, 0x407175, 0x0B026A, 0x12989B, 0x792944,
     0x2376ED, 0x2EF5BA, 0x758663, 0x7C1ED5, 0x078D0C, 0x4EF6AB, 0x5567F2, 0x9F7C29, 0xC68E9C, 0xC51747,
     0xBC6422, 0xB7EFB9, 0xECFD44, 0xA50497, 0xAF178A, 0xD68C69, 0xD97DB5, 0x82670E, 0xCBB45B, 0x508D90,
     0x190A25, 0x63F0FE, 0x68E3C7, 0x317A10, 0x3A09D9, 0x6B926E, 0x004237, 0x1B79C8, 0x53EA59, 0x48B3B7,
     0x811166, 0xDE4A79, 0xF5F988, 0xAC6057, 0xE733FE, 0xFF89AD, 0xB49830, 0x8F4BC3, 0xC6F00E, 0x9DA135,
     0x942FE0, 0xC71C3B, 0x4DC78F, 0x3476C4, 0x7F6C39, 0x66BFAA, 0x298657, 0x725504, 0x5B4E89, 0x01FE72,
     0x0835A3, 0x53269C, 0x189D4D, 0x01CDC2, 0xEA763B, 0xF3A56D, 0xB0BCD4, 0xE80F13, 0xE355CA, 0x98C47D]"

definition PRNG_TABLE_1 :: "u32 list" where
  "PRNG_TABLE_1 = [
     0x91AB24, 0xCE38DB, 0x87A35A, 0x9CD3A5, 0xD648F4, 0xAF7B6F, 0x24A292, 0x7D3011, 0x764B6D, 0x2DDABE,
     0x44D123, 0x5E22D8, 0x1FB09D, 0x04A926, 0x4F5AF3, 0x064128, 0x3DB105, 0x70AAD6, 0xAA392F, 0xA1C4B8,
     0xF8C7C0, 0xD35D0F, 0x8A2E9E, 0xC1B761, 0xDA44F0, 0x925E8F, 0x89CF4E, 0xE8B4D1, 0xB32728, 0xB8FE7F,
     0x61DCC6, 0x2A4701, 0x1614D8, 0x5DADE2, 0x46BE37, 0x0F44DC, 0x54D549, 0x5D8E32, 0x263DAF, 0x2C237C,
     0x75E291, 0xBE5982, 0xA74A7F, 0xC493A4, 0xDFA131, 0x967A5A, 0xCCCB8E, 0xC1D835, 0x9A02EC, 0xF331BB,
     0xE8B812, 0xA3EBC5, 0xBA507C, 0x7080AB, 0x099BC2, 0x02285D, 0x59718C, 0x50C273, 0x0B1862, 0x4A1F8C,
     0x70A655, 0x3BF5C2, 0x666FBB, 0x6DDE68, 0x3485C5, 0x9F161E, 0xC46F4B, 0x8CFDF0, 0x97C625, 0xDE058E,
     0xC59CD3, 0xAEAE20, 0xF775BC, 0xFC647F, 0xBD9F02, 0xE70C91, 0xCC1468, 0x11E7B7, 0x1AFC36, 0x435B49,
     0x080398, 0x139027, 0x7B63FE, 0x607AF9, 0x29E900, 0x7293D6, 0x79026F, 0x00D930, 0x0BEAF1, 0xD3614E,
     0x90119F, 0x8B8AE4, 0xC61969, 0xBD609A, 0xB4F247, 0xEFA954, 0xE518A9, 0xBC0362, 0xD7D0D6, 0xCE7E8D,
     0x856F18, 0x1C94E3, 0x578726, 0x0D5F1D, 0x24ECC0, 0x7FF713, 0x3E26AA, 0x251D6D, 0x6A8F14, 0x53648B,
     0x19757A, 0x40AEB4, 0xCB9CA5, 0x90055A, 0x9956C3, 0xE2ED34, 0xAB3C7D, 0xB126EA, 0xFA9513, 0xA3D2C8,
     0x886BFD, 0xD9F836, 0xD2A2E3, 0x8D1359, 0x454804, 0x5EDBF7, 0x37637A, 0x2C3089, 0x67ABD4, 0x3E8847,
     0x3551BA, 0x4D6331, 0x46B8C4, 0x1D299F, 0x54120E, 0x5FC0E1, 0x86D93B, 0xE56A0E, 0xFBB1D5, 0xB2B600,
     0xA94EAB, 0xE05DF6, 0x9BE605, 0x90B798, 0xC92C6B, 0xC3DE66, 0x9AC7BD, 0xD15448, 0x6A3FD3, 0x23ADA3,
     0x78346C, 0x7147F5, 0x2BDC02, 0x0EAD5B, 0x553FFC, 0x1EA425, 0x07D5F2, 0x4C4ECB, 0x554C14, 0x3EB3F5,
     0xE4A26A, 0xED799B, 0xB6CA85, 0xFFD25C, 0xC421BF, 0x8F3A22, 0x96AB51, 0xDC518C, 0x895217, 0x8289F2,
     0xF9B8A9, 0xF0231C, 0x2BF1C7, 0x62C80A, 0x781B39, 0x1320E5, 0x4AB156, 0x41EB8F, 0x1848E0, 0x13D771,
     0x4886AE, 0x203C5F, 0x3B6F40, 0x76F6A1, 0xE5457E, 0xAE1EE7, 0xD7AC10, 0xDCB549, 0x8476EF, 0x8FC536,
     0xD49DE9, 0x9D0ED8, 0xA63513, 0xEFE4A6, 0xB4DF7D, 0x3E0D00, 0x779693, 0x4CA75E, 0x0568AD, 0x527BB0,
     0x59C34B, 0x00109F, 0x0A0B14, 0x73FA61, 0x38E0BA, 0x23530F, 0x6A88D4, 0xB199DD, 0x98322A, 0xC260F3,
     0xCBF944, 0x908A0D, 0xDB11F2, 0xC28163, 0xADFABD, 0xBC694C, 0xF65243, 0xAD83BA, 0xA40D6D, 0x5F7EF4,
     0x16E787, 0x0DF44A, 0x460EF1, 0x5E1F24, 0x15CC3F, 0x6C77CA, 0x676401, 0x3C9CBD, 0x359FEE, 0x6A0413,
     0x02F590, 0x91EE4D, 0xDA3C3E, 0xC305A3, 0x889658, 0xF14D99, 0xFA7F86, 0xA1E677, 0xE981E8, 0xF21A10,
     0xBB4BD7, 0x80F1CE, 0xCB6239, 0x123BE0, 0x1D885F, 0x45921E, 0x6641E1, 0x3DE870, 0x74BBAF, 0x6F00C6]"

definition PRNG_TABLE_2 :: "u32 list" where
  "PRNG_TABLE_2 = [
     0x261055, 0x7DCBA8, 0x57787A, 0x0E2167, 0x05B28C, 0xCC8819, 0x975BE2, 0xBC52B7, 0xE5E52C, 0xEB37C9,
     0xB20E12, 0xF9DD2F, 0xE8C6FC, 0x837701, 0xD8AD82, 0xD1BE5A, 0x0B0525, 0x0244B4, 0x79FE5B, 0x322DCA,
     0x2B3495, 0x60876C, 0x79DCFB, 0x334C12, 0x4C7745, 0x45A4DC, 0x1E3F23, 0x175FF2, 0xC4C0D8, 0xAFF30D,
     0xB72AF6, 0xFCB96B, 0xA5C338, 0xAE5295, 0xF54946, 0xDCBABB, 0x87A1A8, 0xCF2165, 0xD4DA9E, 0x9FC90B,
     0x223070, 0x6922A4, 0x30B92F, 0x3348D6, 0x695B01, 0x20C038, 0x1BB2EF, 0x523B06, 0x49EC99, 0x02D7C8,
     0x5B4777, 0x713CA6, 0xA8AF49, 0xA3B650, 0xF84586, 0xB5DF7F, 0xAE8CF8, 0xC72581, 0x9D3652, 0x9EEDCF,
     0xC75D34, 0xCC0671, 0xB5B5CA, 0xFEAC1F, 0x677EA4, 0x2DC5F9, 0x26D63A, 0x7F1F86, 0x142855, 0x0DF2A8,
     0x42E3B3, 0x195872, 0x108B8D, 0x6AB31C, 0x632063, 0x307BAA, 0xFBC83D, 0xE201C4, 0xA91393, 0x90A82A,
     0xDAF9E4, 0x816A55, 0x88D00A, 0xD383DB, 0xFA3A64, 0xA569A5, 0xEEE2DE, 0x76D243, 0x3D0D90, 0x649E6D,
     0x47E76E, 0x1C7491, 0x156E49, 0x4E9DDE, 0x0604B7, 0x3D3720, 0x76FDD9, 0x6FEC06, 0x2417B7, 0xFD04F8,
     0xF29D29, 0x886F92, 0xC1744F, 0xDAC73C, 0x939EB1, 0x880C63, 0xEBE79E, 0xB2F285, 0xB86970, 0xE11ABB,
     0xEA822E, 0x311155, 0x586AC0, 0x43F92B, 0x0A81F6, 0x5412C5, 0x5D111C, 0x26E8CB, 0x2D7B63, 0x74213C,
     0x3F90CD, 0x2E8B52, 0x645883, 0xDFE36C, 0x96F375, 0xDD0882, 0xC40B1B, 0x8FD6CC, 0xB464A5, 0xFC7F3E,
     0xA7AECB, 0xAA9511, 0xF10634, 0xBA5CEF, 0x83ED32, 0x483681, 0x5015DC, 0x138D3F, 0x48DEA2, 0x616571,
     0x3AF40C, 0x33AF97, 0x681D72, 0x2246E9, 0x3BD7B9, 0x506C46, 0x0D2FDF, 0x869338, 0xDDC061, 0xD45BD6,
     0xAF6A0F, 0xE7B8C0, 0xFC2371, 0xBF102E, 0xA6C9DF, 0xEDDA40, 0x943089, 0x9FA1BF, 0x459A66, 0x0C4995,
     0x175108, 0x7AE243, 0x6139B6, 0x2A2A2D, 0x73D3D8, 0x79C183, 0x204A26, 0x0B3FFD, 0x5AA420, 0x111613,
     0x8A4FDF, 0xC3DC2C, 0xF9A7B5, 0xB034EA, 0xEBAC5B, 0xE0CF94, 0xBD5465, 0xF605FA, 0xCFBEA3, 0x85AC54,
     0x9E55DD, 0xD7C62A, 0x0CDD73, 0x252FCD, 0x76361C, 0x7DF5D3, 0x3546E2, 0x6E5B39, 0x67A98C, 0x1CB247,
     0x57231A, 0x4AD8A9, 0x01CA74, 0x191187, 0xF2208A, 0xA9AB50, 0xA0F8A5, 0xFB403E, 0xF2D34B, 0xA9A880,
     0xCB393D, 0xD262EE, 0x99D0B7, 0xC04B00, 0xCB1AC9, 0xB0B176, 0x39E3A7, 0x677EF8, 0x2ECD58, 0x359687,
     0x7E277E, 0x473D69, 0x0CEEB0, 0x55D557, 0x5F04CE, 0x0C8EBD, 0x25BD60, 0x7E64DB, 0xB7771E, 0xACCC05,
     0xE51CF0, 0xBF2F2A, 0x90F497, 0xC9E7D4, 0xC25F09, 0x9B9CBA, 0xD08767, 0xEB320C, 0xA36999, 0x38FB42,
     0x7180B3, 0x22112C, 0x29AA45, 0x50F9D2, 0x1B610A, 0x0202FD, 0x4899E4, 0x57080B, 0x3E72DA, 0x65E165,
     0x6CFA34, 0xB70BEB, 0xBC104A, 0xE4E295, 0x8F7BEC, 0x96787F, 0xD583B2, 0x9E9740, 0x870C5D, 0xECFFA6]"

definition PRNG_TABLE_3 :: "u32 list" where
  "PRNG_TABLE_3 = [
     0xF4E433, 0xBF35F8, 0xE00F8D, 0x699C16, 0x3265EB, 0x1B6638, 0x40F515, 0x0A8DC6, 0x131E1B, 0x5845A0,
     0x21F670, 0x2A6E1F, 0x791D8E, 0x708651, 0x2AD7E8, 0xE37CAF, 0xD8EE56, 0x97B3C1, 0x8E0018, 0xC51B6F,
     0x9CC9E6, 0xB67019, 0xEF23C8, 0xE498F2, 0xBF9927, 0xF643EC, 0xCD7051, 0x04E902, 0x563AFF, 0x5D006C,
     0x04D3A1, 0x0FCA9A, 0x72794F, 0x39A2B4, 0x228231, 0x6A19EA, 0x714E96, 0x18F705, 0x4324FC, 0xC83E3B,
     0x918D02, 0xDADCD5, 0xC2470C, 0xA135B3, 0xBABCF2, 0xF30F4D, 0xA8549E, 0xA1C543, 0xDEFF78, 0xD42CBC,
     0x0DB747, 0x46C6D2, 0x5F5C89, 0x144F60, 0x6FA6F7, 0x66350E, 0x2C0A59, 0x35DAE0, 0x7EC12F, 0x0D32FE,
     0x0429C1, 0x5FB911, 0xD642AE, 0x895167, 0xC3D8B0, 0xFAAB89, 0xB1315A, 0xA8C0A7, 0xE3DB24, 0xB84879,
     0x913382, 0xCBA317, 0x82F8FC, 0x994BA9, 0x50C213, 0x4390CE, 0x282F5D, 0x713E30, 0x7FCDE3, 0x26565E,
     0x2D0485, 0x56BDD4, 0x1FAE7B, 0x0475AA, 0x4DD555, 0x17CE4C, 0x9C1D9B, 0xE52473, 0xEEF7E4, 0xB7CD1D,
     0xF45E42, 0xEF87E3, 0x87B43C, 0x986FAD, 0xD16FD2, 0x8AD403, 0x8103A8, 0xD83A75, 0x33A826, 0x2BF39B,
     0x604049, 0x7B99A4, 0x328ABF, 0x49306A, 0x407191, 0x1BEA04, 0x19D96F, 0x4001F2, 0x0FB201, 0x36E9DC,
     0xFD7ADF, 0xE64326, 0xAF91F9, 0xF51249, 0xDC2B16, 0x87F8D7, 0xCCE668, 0xC517B1, 0x9E8C46, 0x97BF5F,
     0xED6498, 0xA67461, 0x378FF6, 0x788C8F, 0x611514, 0x0AE6F1, 0x53FC2B, 0x596F3E, 0x0216C5, 0x4B8508,
     0x507FBB, 0x396EE6, 0x22F535, 0xE99688, 0xB10F43, 0xBA1D36, 0xC3E2AD, 0xC07178, 0x9B28C3, 0xD69A8B,
     0xCD817C, 0x8570E5, 0xFEEB12, 0xF5E8CB, 0xAC10C4, 0x270335, 0x7ED8EA, 0x156B5B, 0x0E7A14, 0x46A0C5,
     0x5D937A, 0x144AA3, 0x4F79D5, 0x6CF35C, 0x31228F, 0x7A1932, 0x628E69, 0xA9D59C, 0x926517, 0xDBBEE2,
     0x80ADB9, 0x891424, 0xD246D7, 0xD8ED1A, 0xA17C28, 0xEA27F5, 0xF3942E, 0xB8CE8F, 0xAB5FD0, 0x466461,
     0x1CB7BE, 0x152F6F, 0x4E1CC0, 0x05D799, 0x1CE66E, 0x773DF7, 0x7EAB00, 0x249048, 0x6D41D7, 0x765A26,
     0x1DA9F9, 0x8431C8, 0xCF0203, 0x96C1DE, 0x90D86D, 0xCB6A30, 0xA23193, 0xB9A24E, 0xF05B95, 0xEB48A0,
     0xA0D27A, 0xD8A39F, 0xD33804, 0x0A9B79, 0x01C3AA, 0x5A5437, 0x132FD4, 0x28BC0D, 0x60253A, 0x3F57E3,
     0x3CCC7C, 0x65DD9D, 0x4E26C2, 0x172572, 0xDCDDAD, 0xC64E64, 0x8F5553, 0x94A68A, 0xFDBE7D, 0xA66DE4,
     0xADD68B, 0xF4C75A, 0xFE0CC1, 0x873E34, 0xC8A72F, 0xDBD0C2, 0x124B10, 0x49998D, 0x40A8FE, 0x3A3323,
     0x316088, 0x68D95D, 0x235B06, 0x3A00B3, 0x51B178, 0x4AEA89, 0x025816, 0x59C36F, 0xD092B8, 0x8B2930,
     0xE43AC7, 0xF5E2DE, 0xBEC121, 0xA71AF0, 0xED8B7F, 0x94B40E, 0x9F66D1, 0xD45D68, 0xCD8CBF, 0x8617F6,
     0x5F2545, 0x75FC98, 0x2EFF62, 0x674467, 0x7C959C, 0x318F09, 0x0A7CD2, 0x4967AF, 0x11D62C, 0x1A8CD1]"

definition PRNG_TABLE_4 :: "u32 list" where
  "PRNG_TABLE_4 = [
     0x431F02, 0x48A69D, 0xB3E5EC, 0xFA7623, 0xE10E9A, 0xA99948, 0xB20215, 0xD971A6, 0x80E86B, 0x8BDA90,
     0xD60185, 0x9D907E, 0x8FFBFB, 0xE66920, 0x7D705D, 0x3483CE, 0x6F9833, 0x646BF1, 0x1DF3E8, 0x17E017,
     0x4E1BC6, 0x050A79, 0x1E8038, 0x5773E7, 0x2C685E, 0xA1BD89, 0xFB86B0, 0xF01477, 0xA16D8E, 0xCAFE19,
     0xD365C1, 0x9815AE, 0x839E3F, 0xCBCDC4, 0x907611, 0xB9E70A, 0xE2BDE7, 0x2B0E34, 0x301789, 0x7BE4DA,
     0x477707, 0x0C2FAC, 0x558C79, 0x5E9743, 0x0D4496, 0x04786D, 0x7FABE0, 0x3730B3, 0x3C014A, 0xE7DADD,
     0xEEE834, 0x956163, 0xDCB2FA, 0xC78905, 0x8D5BD4, 0xD0427B, 0xDBF12B, 0xA22AB4, 0xA93B4D, 0xFA819A,
     0xB3D2B3, 0x287B64, 0x40289D, 0x5BB206, 0x100153, 0x495CB8, 0x42CF2D, 0x3BF4D6, 0x70248B, 0x6ABF19,
     0x23CCF4, 0x3C4527, 0x75761A, 0x8EACC1, 0x853F44, 0xD44EBF, 0xDED5EE, 0x87C751, 0xEC3E80, 0xF72D6F,
     0xBEB676, 0xE557A1, 0xEC4D59, 0xB6BECE, 0x9DA527, 0x443078, 0x0BCAE9, 0x12D916, 0x594087, 0x6033E8,
     0x22A831, 0x7948A2, 0x70535F, 0x2BC01C, 0x62BBA1, 0x592A7B, 0x92308E, 0x8AC395, 0xC15A50, 0x9809AB,
     0xB3B336, 0xECB245, 0xE54998, 0xBEDA1B, 0xF681E6, 0xED35F5, 0x8E2E0C, 0x87FDD3, 0x5CC453, 0x1556AC,
     0x0E85FD, 0x64AC42, 0x3D7F8B, 0x36447C, 0x6FD665, 0x640FB2, 0x3B3C4B, 0x52A7C4, 0x48F7B5, 0x014C2E,
     0x9A9FFB, 0xD19601, 0xA0250C, 0xAB7FFF, 0xF2C822, 0xB8D1B1, 0xA302CC, 0xEAB907, 0xD1E9B2, 0x987269,
     0xC3411C, 0xCC8897, 0x141A42, 0x3F61B8, 0x66F2A1, 0x2DCB56, 0x3618DF, 0x778208, 0x2CB3F1, 0x0468EE,
     0x5F7B1F, 0x5693D0, 0x0D8041, 0x461B3E, 0xFFECE7, 0xB4FD50, 0xA94798, 0xE314CF, 0xB88D76, 0xB17EAD,
     0xCA7508, 0xC3E553, 0x989EA6, 0xDB0D3D, 0xC396E8, 0xA8E683, 0x717D1E, 0x7A0EED, 0x219730, 0x288422,
     0x736ECF, 0x1BFF14, 0x04A4A1, 0x4F177A, 0x56092B, 0x1DD884, 0x64635D, 0xEF70EA, 0xA589B3, 0xF49B54,
     0xFF50CD, 0xA66312, 0x8DFA62, 0xD628FD, 0x9F131C, 0x8582C3, 0xCCF9DA, 0xF36A29, 0xB8B2F4, 0x618157,
     0x6A020A, 0x335999, 0x79E864, 0x4272BF, 0x03259A, 0x189C40, 0x51CFB5, 0x0A752E, 0x216463, 0x79BF90,
     0x721C0D, 0xAB47FE, 0xE4D727, 0xFDEC28, 0x963FD9, 0x8DA646, 0xC594B7, 0x9E4FE8, 0x977E60, 0xECA597,
     0xAF264E, 0xB61C79, 0xFDCDA0, 0x65D64F, 0x2E61DC, 0x553881, 0x5CAA72, 0x0351FB, 0x0A400C, 0x51FB55,
     0x3BB9CA, 0x22223A, 0x6993B5, 0x30C8C4, 0x3B5B1B, 0xE02B82, 0xC1B075, 0x9B23BC, 0xD25A8B, 0xC9C852,
     0x82A3A9, 0xBB303C, 0xF42977, 0xADDA82, 0xA64418, 0xFC55E5, 0xB5AEE6, 0x0EBD3B, 0x4765C8, 0x4CD655,
     0x17DD2E, 0x562EEB, 0x6C3770, 0x25A585, 0x3E5EDE, 0x754F6F, 0x2C94A1, 0x23A758, 0x5A3F4F, 0xD07C96,
     0x8BC761, 0xC254E8, 0xD92C97, 0xB0BF06, 0xEBE0D9, 0xE25138, 0xB8CAA7, 0xBB98DE, 0xE22109, 0x896291]"

definition PRNG_TABLE_5 :: "u32 list" where
  "PRNG_TABLE_5 = [
     0x10F172, 0x5BCB2F, 0x401A94, 0x0CA141, 0x77B2BA, 0x7E6BBF, 0x255964, 0x6E82D9, 0x77130A, 0x3C3877,
     0x04EAF4, 0x4FD129, 0x9C40DB, 0x959BC6, 0xCEAC2D, 0xE774FC, 0xBC6763, 0xF6DC12, 0xEB8DCD, 0xA00664,
     0xF9F4B3, 0xD2EF4A, 0x895E5D, 0x800584, 0x5A972B, 0x132EFB, 0x287D84, 0x63E615, 0x7297CE, 0x391D23,
     0x608E30, 0x6AF5CD, 0x11641E, 0x5C5E93, 0x4789E0, 0x0E903D, 0x956386, 0xFEF053, 0xB6E879, 0xAD0BAC,
     0xE41077, 0xFF83CA, 0xB47A99, 0xCD6870, 0xCE93E7, 0x96823E, 0x9D1941, 0xC4EBD0, 0x2BF23F, 0x3031EE,
     0x790A71, 0x229909, 0x2AC1CE, 0x717677, 0x5AEDA0, 0x039C99, 0x480646, 0x515587, 0x1AEC3C, 0x296F69,
     0xE13492, 0xBA8607, 0xB39FCC, 0xEC4CB1, 0xA77723, 0x9EA7DE, 0xD51C0D, 0xCD0F00, 0x86D4FB, 0xDDF56E,
     0xF46F95, 0x2FBCD4, 0x268D6B, 0x7D52B2, 0x374165, 0x26F9DC, 0x4D2A9B, 0x141163, 0x1FD2FC, 0x40CA2D,
     0x497952, 0x3322D3, 0x7AB32C, 0xE108F5, 0xAA5AE2, 0xB3E31B, 0xF8B098, 0x812B65, 0x8B8936, 0xD0D08A,
     0xD94341, 0x8A7894, 0xE3A9AF, 0xF8377A, 0xB74481, 0x6FDD0C, 0x64EE5F, 0x3D35A2, 0x163731, 0x5F8ECC,
     0x045DC7, 0x0F4616, 0x57B6E8, 0x7CAD79, 0x253E86, 0x6EC7CF, 0x7DD478, 0xB426A1, 0xCF2D76, 0xC3BC5F,
     0x984780, 0x935571, 0xCACCEE, 0x81BBBF, 0xB82054, 0xF371C0, 0xE9CB3B, 0xA05826, 0xFB33F5, 0x52A218,
     0x09B88B, 0x424BF6, 0x53D22D, 0x198198, 0x043A53, 0x6F2A06, 0x34F1BD, 0x3DC260, 0x664982, 0x6FB81B,
     0x15A24C, 0xDE71F5, 0xC7482A, 0x8CDFCB, 0x9505D4, 0xDE3405, 0xA5EFFA, 0xA4FC63, 0xFE5704, 0xB387DD,
     0xA8BC6A, 0xC32FB2, 0x5A7EE5, 0x11C44C, 0x489797, 0x420E62, 0x19BD79, 0x30E6BC, 0x6B6407, 0x225DDA,
     0x398EA9, 0x703534, 0x0A64F7, 0x09FA0A, 0xD4C910, 0xDF10E5, 0x86833E, 0xCDB99B, 0xE67A40, 0xBE631B,
     0xB590AE, 0xEC8B75, 0xA73BD0, 0x9CE08B, 0xD5F35E, 0x8E0AE5, 0x061828, 0x5D835A, 0x5660C7, 0x277914,
     0x68CAE9, 0x7190E2, 0x3A0113, 0x20FECC, 0x49ED7D, 0x127522, 0x1B06AB, 0x40855C, 0x8B9E85, 0x926FB2,
     0xF8F56A, 0xE186A5, 0xAA1F14, 0xF10CCB, 0xF0F7BA, 0x8F6735, 0x867CEC, 0xDC9F1F, 0x978402, 0x8E54F1,
     0x45EF3C, 0x7CFC8F, 0x3705D2, 0x6C1248, 0x64C8BD, 0x3FF976, 0x566243, 0x4DA198, 0x069B45, 0x1F0AF6,
     0x5851BB, 0x00E248, 0xAB3BD1, 0xF2090E, 0xF9926F, 0xA2C3F1, 0xEB7800, 0xD07B9F, 0x98A1E6, 0xC31021,
     0xC84BB8, 0x91D84F, 0x9AEC96, 0x6337A9, 0x288468, 0x369FB3, 0x774E06, 0x6C645D, 0x05B7A9, 0x4E2E22,
     0x551DFF, 0x1CC78C, 0x47D611, 0x4F2DF2, 0x343E6F, 0xBF8514, 0xE655C1, 0xAD5E5A, 0xB4EDBF, 0xDFB4E4,
     0xC1265D, 0x80DD8B, 0xDBC852, 0xD25375, 0x8920AC, 0xA2BA53, 0xFB0BC2, 0x31401D, 0x28D33C, 0x63AAE3,
     0x18381A, 0x11238D, 0x4AD2E4, 0x434933, 0x195BAB, 0x56A058, 0x6FB105, 0x2C5AAE, 0x35C97B, 0xFED9A0]"

definition PRNG_TABLE_6 :: "u32 list" where
  "PRNG_TABLE_6 = [
     0xA52295, 0x8D314E, 0xD6ECA3, 0x9F5E30, 0x84456D, 0xCFB6DE, 0xD6AF03, 0xBD2CE9, 0xE556FC, 0xEEC707,
     0xB71CD6, 0x382F59, 0x43B720, 0x02E4F7, 0x195F4E, 0x51CC99, 0x0AA550, 0x013767, 0x786CBE, 0x73DD01,
     0x2AC6D1, 0x61159E, 0x7BA92F, 0x92BAF4, 0x896109, 0xC0521A, 0x9F9AF7, 0x942924, 0xC532B9, 0xEFE3C2,
     0xA6D807, 0xFD0ABC, 0xF69369, 0xAFA033, 0x44738E, 0x5D694D, 0x17C8F0, 0x0C93A3, 0x45207A, 0x1EF9C5,
     0x37EB04, 0x6850FB, 0x6305EA, 0x3B9E15, 0x782DC4, 0x41774B, 0x8AF633, 0xD18DE4, 0xD81E5D, 0x83A69A,
     0x8AF583, 0xF06E7C, 0xBB5FAD, 0xA28416, 0xE99653, 0xF06D88, 0x9FEC35, 0xC4F7E6, 0x4C059A, 0x1F1C19,
     0x56EFC4, 0x4D743F, 0x24612A, 0x3F9BD1, 0x748814, 0x2C13AF, 0x27F276, 0x5EE861, 0x553B88, 0x0E0A5F,
     0xC791E6, 0xD8E2B0, 0x907A69, 0xABE9C6, 0xE09217, 0xB10168, 0xBA48F9, 0xE3FA26, 0x8861CF, 0x9230D8,
     0xDB8B21, 0xC099B2, 0x09644F, 0x52F704, 0x79AC90, 0x201F6B, 0x2E17BE, 0x77C495, 0x3CFF48, 0x172E9B,
     0x4E9426, 0x0D8775, 0x145E98, 0x5E6D03, 0xC5F6D6, 0xAC242D, 0xF70D3C, 0xFEDED2, 0xA5C543, 0xAE74BC,
     0xD62EE5, 0x9D9D72, 0x80029B, 0xCB534C, 0x90E175, 0x19BAAA, 0x6A3B6B, 0x6280D4, 0x39D385, 0x724B7A,
     0x6B78E2, 0x00A321, 0x19101C, 0x5248CF, 0x0ADB30, 0x01F0A9, 0x5A21CE, 0xB73A17, 0xACC880, 0xE55179,
     0xFE42A6, 0xB4B987, 0xC5AF58, 0xCE1688, 0x97C533, 0x9CCE76, 0xC73F8D, 0x8E2510, 0xB4B6C3, 0x7D4FFE,
     0x665C3D, 0x2DC7C0, 0x70B55B, 0x5B2C2E, 0x025FF5, 0x49D470, 0x53448A, 0x1A3FD7, 0x09AC64, 0x60BDBD,
     0x3B467A, 0xB0D043, 0xE98B9C, 0xE33A2D, 0x9A21E2, 0xD1C3B3, 0xCA5A0C, 0x8709DD, 0xDCB222, 0xF5A3AA,
     0xBF79DD, 0xA44A04, 0xEDD193, 0x3E006A, 0x373B21, 0x4CF994, 0x47C04F, 0x1F53DA, 0x5488A1, 0x4DB86C,
     0x2623DF, 0x7D7402, 0x70CF50, 0x2B9EFD, 0x232426, 0xF8A7D3, 0x91FEC8, 0x8A4D39, 0xC117F6, 0xD0866F,
     0x9B3D18, 0xE36EC1, 0xE8F576, 0xB3C5BF, 0xBA1629, 0xE1BD50, 0xA8EC8F, 0x17763E, 0x5D45F1, 0x049CA0,
     0x0F8F1F, 0x5630C6, 0x7DE225, 0x26FB38, 0x6F08CB, 0x7D0316, 0x34B28D, 0x2F68E9, 0xC47B72, 0x9DC287,
     0x96915C, 0xCF0B41, 0x85F8A2, 0xBAE17F, 0xF372CC, 0xE81991, 0xA1894A, 0xFAF2EB, 0xF16134, 0x89F845,
     0x0A8ADB, 0x53153A, 0x1806E5, 0x03FF7C, 0x6A7C0B, 0x312692, 0x399775, 0x628CAC, 0x6D7FB3, 0x34EE42,
     0x5FF49D, 0x56073C, 0x8D1C67, 0x87CDBB, 0xDEE708, 0xB574D5, 0xA4ADB6, 0xEF9E2B, 0xF605D0, 0xBD7545,
     0xE6EE0E, 0xCE39FB, 0x950260, 0xD8929D, 0x43D9CE, 0x086A47, 0x31B3B1, 0x7AA068, 0x221ADF, 0x294B86,
     0x72F049, 0x73E3F8, 0x083927, 0x418856, 0x5AC3C9, 0x105020, 0xC969B7, 0xE2BBEE, 0xBF2019, 0xB41181,
     0xEFCA6A, 0xA6FD3F, 0xBC27A4, 0xD53651, 0xCE9D9A, 0x854EA7, 0xDC5E74, 0xDFE5A9, 0x26B61A, 0x6C0D57]"

definition PRNG_TABLE_7 :: "u32 list" where
  "PRNG_TABLE_7 = [
     0x77DCEC, 0x3EC639, 0x2575C3, 0x682CD6, 0x13AF1D, 0x1855EC, 0x404473, 0x4BDF8A, 0x12ACDD, 0xF93754,
     0xE207A3, 0xABD87A, 0xF04B45, 0xF03284, 0xABB05B, 0x80ABEB, 0xD95AB4, 0x92C10D, 0x8FD2CE, 0xC42833,
     0xEC3920, 0x37C2FD, 0x7C5106, 0x654883, 0x2EAAF8, 0x37B12D, 0x5C20B6, 0x065B42, 0x07C909, 0x5C12B4,
     0x152367, 0x2EB4FA, 0x65CF19, 0xFC5F40, 0xB294FF, 0xEBA72E, 0xE03ED1, 0x9B6CD0, 0x92D70F, 0xC944F6,
     0x801D60, 0x9AAE19, 0xF1F4DE, 0xA85547, 0xAB4EB8, 0x729DE9, 0x792456, 0x223697, 0x4BED0C, 0x55DE71,
     0x1C03A2, 0x07910F, 0x4CAADC, 0x356BA0, 0x3E5033, 0x67C3EE, 0x2D9B05, 0xB62810, 0xFFF3EB, 0xC4E03E,
     0x8558A5, 0xDE0B48, 0xD5905B, 0x8D71A2, 0xA26A75, 0xFBD8EC, 0xB08982, 0xAB1253, 0xE2A1EC, 0x79FB3F,
     0x116E52, 0x4A15C9, 0x43861C, 0x188FE7, 0x537DF2, 0x62E619, 0x29D7C0, 0x310C57, 0x7A1F2E, 0x25E5B8,
     0xAC7451, 0xC76F86, 0xDE9C9F, 0x959460, 0xCF27B1, 0xC6FC1E, 0xBDEDCF, 0xF416B0, 0xEF0429, 0xA49FEE,
     0xBDEA17, 0xFF7104, 0x06A3F8, 0x0D8A63, 0x5219A6, 0x5B62DD, 0x00F348, 0x6969B3, 0x731A6E, 0x38816D,
     0x61D090, 0x6A6343, 0x33F9FE, 0x18B8A5, 0xC30340, 0x8B10DA, 0x98E80B, 0xD1FB74, 0xEA20F5, 0xA5930A,
     0xFC8E93, 0xF75CC4, 0xAF673D, 0xA4E6BA, 0xDF3D43, 0x960F9C, 0x0DD68D, 0x44E572, 0x1F7EB2, 0x35AD09,
     0x6C9554, 0x6746A7, 0x365D3A, 0x7DFCF9, 0x64A6C4, 0x0B351F, 0x118CEA, 0x58DF61, 0x836434, 0x8A36CF,
     0xF1AB5B, 0xBA18A0, 0xA343ED, 0xE8C27E, 0xF0F887, 0xBB2B50, 0xC03A69, 0xC9C1A6, 0x9A5317, 0x9368C8,
     0x5CB919, 0x26A226, 0x2F01EF, 0x74D919, 0x3DCA80, 0x2631D7, 0x6D223E, 0x54BAA1, 0x1E4950, 0x47520B,
     0x4CA79E, 0x97BC75, 0xBE3EA8, 0xED479B, 0xA4D446, 0xBA4FF5, 0xF13C39, 0xE8A46A, 0x83D7D7, 0xDA4C0C,
     0xD1DDF9, 0x8AA7F2, 0xC22427, 0x793DDC, 0x30CE45, 0x2B5522, 0x6007FB, 0x39BE6C, 0x32AD95, 0x42560B,
     0x4D426A, 0x16D1B5, 0x5F3A04, 0x442BDB, 0x2DF082, 0xF6C225, 0xFE59FC, 0xA5880F, 0xAEB312, 0xF761C9,
     0x9C582C, 0x85CBB7, 0xCE00C3, 0xD43118, 0x9DAB9D, 0xEAF866, 0xE3437B, 0x381288, 0x738955, 0x6A3BF6,
     0x2066AB, 0x19D570, 0x52DEC1, 0x090E1E, 0x00B5FF, 0x5BE6E1, 0x727D38, 0x284CCF, 0x639656, 0xFA8531,
     0xBD3CA8, 0xD4EF77, 0xCFC586, 0x841489, 0x9C0F78, 0xD7BCA7, 0x8E671E, 0xA5774D, 0xFE8481, 0xF79F32,
     0xAC0AEF, 0x65F09C, 0x5FF301, 0x144ACA, 0x0D193F, 0x468224, 0x13F0D1, 0x18694A, 0x63FA87, 0x2B81F4,
     0x30106D, 0x790A9B, 0xE2E952, 0x8970CD, 0xD003BC, 0xDB9963, 0x838AD2, 0x88731D, 0xD1E064, 0xBAFFF3,
     0xA10F2A, 0xEC049D, 0xBFD7D4, 0xB7EE2B, 0x4C7CBB, 0x478760, 0x1E9415, 0x554D9E, 0x4C7E6B, 0x07E4B0,
     0x3D35AD, 0x741E4E, 0x2F8D93, 0x26FC20, 0x7D667D, 0x16B586, 0x8B8E02, 0xC91FD9, 0xD0456C, 0x9BF237]"

definition PRNG_TABLE_8 :: "u32 list" where
  "PRNG_TABLE_8 = [
     0xC0EBCE, 0xE92849, 0xB29390, 0xBBC3E7, 0xE1787E, 0xAA6B81, 0x93B040, 0xD8005F, 0x411BAE, 0x0AC870,
     0x51F1D1, 0x5D328E, 0x362837, 0x6799E0, 0x6C4239, 0x37711A, 0x3EABC7, 0x45BA3C, 0x0D01A9, 0x16D6F2,
     0xDDCF17, 0xC46D8C, 0x8F3670, 0xF6A723, 0xFD5CBC, 0xA74F5D, 0xEAF582, 0xF1A43B, 0x903768, 0x8B0CC5,
     0xC0DC16, 0x9957CB, 0x1324F0, 0x4ABD25, 0x61AECE, 0x38545A, 0x73C701, 0x68FEF4, 0x212D6F, 0x5B3382,
     0x52C2D1, 0x09494C, 0x065ABF, 0xDFA126, 0x9CB149, 0xA56A98, 0xEE5927, 0xF4C0F6, 0xBD33B8, 0xE62901,
     0xCFB8D6, 0x94D32F, 0x9F40B8, 0xC69AF1, 0x8CAB0E, 0x15309F, 0x7E6360, 0x21DA31, 0x2848BA, 0x733747,
     0x72A6D4, 0x08EDA8, 0x435F7B, 0x5A4CD6, 0x119505, 0x082658, 0x433DE3, 0xB8ED26, 0xB0D6DD, 0xEB05C8,
     0xA2BC13, 0xA9BEEA, 0xD6656D, 0xDF5614, 0x848F82, 0xC41C5B, 0xDF26A4, 0x94F7A5, 0xADCC5A, 0x665B8B,
     0x3F1234, 0x34A0ED, 0x6E7BAA, 0x076813, 0x1CD1C4, 0x55833D, 0x4E1836, 0x03A9E2, 0x58F219, 0x72418C,
     0x2B09F7, 0xA89A72, 0xF1A1A9, 0xBA7254, 0x81EA47, 0xC899BA, 0xD20279, 0x9B13C4, 0xC0E09F, 0xCB7E4B,
     0xB25FF0, 0xF98431, 0xE4974E, 0x2E6CD7, 0x35FC00, 0x5CE7A9, 0x07147E, 0x060D07, 0x5D9F98, 0x56E449,
     0x0E65A6, 0x659EB7, 0x7C8D49, 0x371790, 0x6C6623, 0xE5FD6E, 0x9E6EBD, 0x921600, 0xC985D3, 0x82DAEE,
     0x9B7B25, 0xD0E0F0, 0xE1924B, 0xAA091E, 0xF158F5, 0xF9E369, 0x22F1BA, 0x4B28C7, 0x509B54, 0x1B80BD,
     0x024162, 0x497B53, 0x01A88C, 0x3E1B5D, 0x7502F2, 0x6CD12B, 0x27EB1C, 0x7E7AC5, 0xDDA113, 0x8596BA,
     0xCE5EED, 0xD54D14, 0x9CF68B, 0x87A54A, 0xEE1C31, 0xB58EA4, 0xBFD55F, 0xE66482, 0xE93FA1, 0x90AD7C,
     0x5B04EF, 0x405713, 0x09CC48, 0x13BFED, 0x522736, 0x2914E3, 0x22CFD8, 0x7B5E05, 0x3061E6, 0x29B37F,
     0x43BAA8, 0x5849D1, 0x91D25E, 0xCEE0AF, 0xC73971, 0x9C2A40, 0xB7919F, 0xEF401E, 0xA452E1, 0xB5B9B8,
     0xFEA80F, 0x8533D6, 0x8C4115, 0xD7DA28, 0x5F6BF3, 0x043006, 0x4FA39D, 0x76DBD9, 0x394C22, 0x20C7BF,
     0x6BB64C, 0x312C41, 0x187FB2, 0x43C46F, 0x0A55F4, 0x192E81, 0xD2BC4A, 0xCBA5FB, 0xA15624, 0xF85DFD,
     0xF38ECB, 0xBA3602, 0xA125F5, 0xCEFE6C, 0x97CF3B, 0x9D55C2, 0xC4A64D, 0x4FBFBC, 0x1468A3, 0x7D4352,
     0x6ED19D, 0x270804, 0x7D3B76, 0x76A0AB, 0x0FF018, 0x0443D5, 0x5D188E, 0x16A93B, 0x0932E0, 0xC07015,
     0xFACB1E, 0xB39AC3, 0xE80170, 0xE3B3AD, 0xBAEA5E, 0xD17956, 0xC042A9, 0x8A9378, 0x912DE7, 0xD86E86,
     0x83F559, 0x2AC4E8, 0x711F37, 0x7A0D6E, 0x26B4C9, 0x6D6710, 0x547CE7, 0x1F8CFE, 0x449720, 0x4D3483,
     0x16EF5A, 0x1EFE2D, 0x6D44B4, 0xA6174B, 0xBF8E8A, 0xF4FD95, 0xED6764, 0x86D6BB, 0xDC8912, 0xD10A45,
     0x8A799C, 0x83E12A, 0xF872F3, 0xB10954, 0xAA980D, 0x6083D6, 0x397163, 0x3AE8B8, 0x439BDD, 0x481046]"

definition PRNG_TABLE_9 :: "u32 list" where
  "PRNG_TABLE_9 = [
     0x1302BB, 0x5AFB68, 0x50E875, 0x297396, 0x26824A, 0x7D98F1, 0x344BA4, 0xAF726F, 0xE6F5DA, 0x9C0F01,
     0x971C38, 0xCE85EF, 0xC5F626, 0x946D91, 0xFFBDC8, 0xE48637, 0xAC15A6, 0xB74C48, 0x7EEE99, 0x21B586,
     0x0A0677, 0x539FA8, 0x18CC01, 0x007652, 0x4B67CF, 0x70B43C, 0x390FF1, 0x625ECA, 0x6BD01F, 0x38E3C4,
     0xB23870, 0xCB893B, 0x8093C6, 0x994055, 0xD679A8, 0x8DAAFB, 0xA4B176, 0xFE018D, 0xF7CA5C, 0xACD963,
     0xE762B2, 0xFE323D, 0x1589C4, 0x0C5A92, 0x4F432B, 0x17F0EC, 0x1CAA35, 0x673B82, 0x6E54DB, 0x31C724,
     0x785CA5, 0x632C5A, 0x29B70B, 0x508490, 0xDB5D6D, 0x82CFEE, 0x89B492, 0xD22541, 0xBB2EDC, 0xA1DD27,
     0xE04F62, 0xFB56D9, 0xB0A50C, 0xF9BED7, 0xC24EFA, 0x8F5529, 0x55C6D0, 0x5E3B47, 0x07383F, 0x2CA2F0,
     0x75D161, 0x3E489E, 0x25BB0F, 0x6DA170, 0x7630B1, 0x174B2E, 0x4CD8D7, 0x470180, 0x9E2339, 0xD5B8FE,
     0xE9EB27, 0xA2521D, 0xB941C8, 0xF0BB23, 0xAB2AB6, 0xA271CD, 0xD9C250, 0xD3DC83, 0x8A1D6E, 0x41A67D,
     0x58B580, 0x3B6C5B, 0x205ECE, 0x6985A5, 0x333471, 0x3E27CA, 0x65FD13, 0x0CCE44, 0x1747ED, 0x5C143A,
     0x45AF83, 0x8F7F54, 0xF6643D, 0xFDD7A2, 0xA68E73, 0xAF3D8C, 0xF4E79D, 0xB5E073, 0x8F59AA, 0xC40A3D,
     0x999044, 0x922197, 0xCB7A3A, 0x60E9E1, 0x3B90B4, 0x73020F, 0x6839DA, 0x21FA71, 0x3A632C, 0x5151DF,
     0x088A43, 0x039B80, 0x4260FD, 0x18F36E, 0x33EB97, 0xEE1848, 0xE503C9, 0xBCA4B6, 0xF7FC67, 0xEC6FD8,
     0x849C01, 0x9F8506, 0xD616FF, 0x8D6C29, 0x86FD90, 0xFF26CF, 0xF4150E, 0x2C9EB1, 0x6FEE60, 0x74751B,
     0x39E696, 0x429F65, 0x4B0DB8, 0x1056AB, 0x1AE756, 0x43FC9D, 0x282F29, 0x318172, 0x7A90E7, 0xE36B1C,
     0xA878D9, 0xF2A0E2, 0xDB133F, 0x8008EC, 0xC1D955, 0xDAE292, 0x9570EB, 0xAC9B74, 0xE68A85, 0xBF514B,
     0x34635A, 0x6FFAA5, 0x66A93C, 0x1D12CB, 0x54C382, 0x4ED915, 0x056AEC, 0x5C2D37, 0x779402, 0x2607C9,
     0x2D5D1C, 0x72ECA6, 0xBAB7FB, 0xA12408, 0xC89C85, 0xD3CF76, 0x98542B, 0xC177B8, 0xCAAE45, 0xB29CCE,
     0xB9473B, 0xE2D660, 0xABEDF1, 0xA03F1E, 0x7926C4, 0x1A95F1, 0x044E2A, 0x4D49FF, 0x56B154, 0x1FA209,
     0x6419FA, 0x6F4867, 0x36D394, 0x3C2199, 0x653842, 0x2EABB7, 0x95C02C, 0xDC525C, 0x87CB93, 0x8EB80A,
     0xD423FD, 0xF152A4, 0xAAC003, 0xE15BDA, 0xF82A0D, 0xB3B134, 0xAAB3EB, 0xC14C0A, 0x1B5D95, 0x128664,
     0x49357A, 0x002DA3, 0x3BDE40, 0x70C5DD, 0x6954AE, 0x23AE73, 0x76ADE8, 0x7D760D, 0x064756, 0x0FDCE3,
     0xD40E38, 0x9D37F5, 0x87E4C6, 0xECDF1A, 0xB54EA9, 0xBE1470, 0xE7B71F, 0xEC288E, 0xB77951, 0xDFC3A0,
     0xC490BF, 0x89095E, 0x1ABA81, 0x51E118, 0x2853EF, 0x234AB6, 0x7B8910, 0x703AC9, 0x2B6216, 0x62F127,
     0x59CAEC, 0x101B59, 0x4B2082, 0xC1F2FF, 0x88696C, 0xB358A1, 0xFA9752, 0xAD844F, 0xA63CB4, 0xFFEF60]"

definition PRNG_TABLE_10 :: "u32 list" where
  "PRNG_TABLE_10 = [
     0xF5F4EB, 0x8C059E, 0xC71F45, 0xDCACF0, 0x95772B, 0x4E6622, 0x67CDD5, 0x3D9F0C, 0x3406BB, 0x6F75F2,
     0x24EE0D, 0x3D7E9C, 0x520542, 0x4396B3, 0x09ADBC, 0x527C45, 0x5BF292, 0xA0810B, 0xE91878, 0xF20BB5,
     0xB9F10E, 0xA1E0DB, 0xEA33C0, 0x938835, 0x989BFE, 0xC36342, 0xCA6011, 0x95FBEC, 0xFD0A6F, 0x6E11B2,
     0x25C3C1, 0x3CFA5C, 0x7769A7, 0x0EB266, 0x058079, 0x5E1988, 0x167E17, 0x0DE5EF, 0x44B428, 0x7F0E31,
     0x349DC6, 0xEDC41F, 0xE277A0, 0xBA6DE1, 0x99BE1E, 0xC2178F, 0x8B4450, 0x90FF39, 0xD9EFAA, 0x823457,
     0xA88785, 0xF1DE98, 0xFA4D73, 0x3377E6, 0x68A41D, 0x43AD48, 0x1A1AD3, 0x14C836, 0x4DF1ED, 0x0622D0,
     0x173903, 0x7C88FE, 0x27527D, 0x2E41A5, 0xF4FADA, 0xFDBB4B, 0x8601A4, 0xCDD235, 0xD4CB6A, 0x9F7893,
     0x862304, 0xCCB3ED, 0xB388BA, 0xBA5B23, 0xE1C0DC, 0xE8A00D, 0x3B3F27, 0x500CF2, 0x48D509, 0x034694,
     0x5A3CC7, 0x51AD6A, 0x0AB6B9, 0x234544, 0x785E57, 0x30DE9A, 0x2B2561, 0x6036F4, 0xDDCF8F, 0x96DD5B,
     0xCF46D0, 0xCCB729, 0x96A4FE, 0xDF3FC7, 0xE44D10, 0xADC4F9, 0xB61366, 0xFD2837, 0xA4B888, 0x8EC359,
     0x5750B6, 0x5C49AF, 0x07BA79, 0x4A2080, 0x517307, 0x38DA7E, 0x62C9AD, 0x611230, 0x38A2CB, 0x33F98E,
     0x4A4A35, 0x0153E0, 0x98815B, 0xD23A06, 0xD929C5, 0x80E079, 0xEBD7AA, 0xF20D57, 0xBD1C4C, 0xE6A78D,
     0xEF7472, 0x954CE3, 0x9CDF9C, 0xCF8455, 0x0437C2, 0x1DFE3B, 0x56EC6C, 0x6F57D5, 0x25061B, 0x7E95AA,
     0x772FF5, 0x2C7C24, 0x05C59B, 0x5A965A, 0x111D21, 0x892DBC, 0xC2F26F, 0x9B6192, 0xB81891, 0xE38B6E,
     0xEA91B6, 0xB16221, 0xF9FB48, 0xC2C8DF, 0x890226, 0x9013F9, 0xDBE848, 0x02FB07, 0x0D62D6, 0x77906D,
     0x3E8BB0, 0x2538C3, 0x6C614E, 0x77F39C, 0x141861, 0x4D0D7A, 0x47968F, 0x1EE544, 0x157DD1, 0xCEEEAA,
     0xA7953F, 0xBC06D4, 0xF57E09, 0xABED3A, 0xA2EEE3, 0xD91734, 0xD2849C, 0x8BDEC3, 0xC06F32, 0xD174AD,
     0x9BA77C, 0x201C93, 0x690C8A, 0x22F77D, 0x3BF4E4, 0x702933, 0x4B9B5A, 0x0380C1, 0x585134, 0x556AEE,
     0x0EF9CB, 0x45A310, 0x7C12CD, 0xB7C97E, 0xAFEA23, 0xEC72C0, 0xB7215D, 0x9E9A8E, 0xC50BF3, 0xCC5068,
     0x97E28D, 0xDDB916, 0xC42846, 0xAF93B9, 0xF2D020, 0x796CC7, 0x223F9E, 0x2BA429, 0x5095F0, 0x18473F,
     0x03DC8E, 0x40EFD1, 0x593620, 0x1225BF, 0x6BCF76, 0x605E40, 0xBA6599, 0xF3B66A, 0xE8AEF7, 0x851DBC,
     0x9EC649, 0xD5D5D2, 0x8C2C27, 0x863E7C, 0xDFB5D9, 0xF4C002, 0xA55BDF, 0xEEE9EC, 0x75B020, 0x3C23D3,
     0x06584A, 0x4FCB15, 0x1453A4, 0x1F306B, 0x42AB9A, 0x09FA05, 0x30415C, 0x7A53AB, 0x61AA22, 0x2839D5,
     0xF3228C, 0xDAD032, 0x89C9E3, 0x820A2C, 0xCAB91D, 0x91A4C6, 0x985673, 0xE34DB8, 0xA8DCE5, 0xB52756,
     0xFE358B, 0xE6EE78, 0x0DDF75, 0x5654AF, 0x5F075A, 0x04BFC1, 0x0D2CB4, 0x56577F, 0x34C6C2, 0x2D9D11]"

definition PRNG_TABLE_11 :: "u32 list" where
  "PRNG_TABLE_11 = [
     0x662F48, 0x3FB4FF, 0x34E536, 0x4F4E89, 0xC61C58, 0x988107, 0xD132A7, 0xCA6978, 0x81D881, 0xB8C296,
     0xF3114F, 0xAA2AA8, 0xA0FB31, 0xF37142, 0xDA429F, 0x819B24, 0x4888E1, 0x5333FA, 0x1AE30F, 0x40D0D5,
     0x6F0B68, 0x36182B, 0x3DA0F6, 0x646345, 0x2F7898, 0x14CDF3, 0x5C9666, 0xC704BD, 0x8E7F4C, 0xDDEED3,
     0xD655BA, 0xAF062D, 0xE49EF5, 0xFDFD02, 0xB7661B, 0xA8F7F4, 0xC18D25, 0x9A1E9A, 0x9305CB, 0x48F414,
     0x43EFB5, 0x1B1D6A, 0x708413, 0x698780, 0x2A7C4D, 0x6168BF, 0x78F3A2, 0x130059, 0x0B1BCC, 0x40CA07,
     0x1FF072, 0x9663E9, 0xCD9A14, 0xE499C7, 0xBF0AEA, 0xF57239, 0xECE1E4, 0xA7BA5F, 0xDE098F, 0xD591E0,
     0x86E271, 0x8F79AE, 0xD52817, 0x1C8350, 0x2711A9, 0x684C3E, 0x71FFE7, 0x3AE490, 0x633619, 0x498FE6,
     0x10DC37, 0x1B670D, 0x4066D8, 0x09BC13, 0x328FAE, 0xFB16FD, 0xA9C500, 0xA2FF93, 0xFB2C5E, 0xF03565,
     0x8D86B0, 0xC65D4B, 0xDD7DCE, 0x95E615, 0x8EB169, 0xE708FA, 0xBCDB03, 0x37C1C4, 0x6E72FD, 0x25232A,
     0x3DB8F3, 0x5ECA4C, 0x45430D, 0x0CF0B2, 0x57AB61, 0x5E3ABC, 0x210087, 0x2BD343, 0xF248B8, 0xB9392D,
     0xA0A376, 0xEBB09F, 0x905908, 0x99CAF1, 0xD3F5A6, 0xCA251F, 0x813ED0, 0xF2CD01, 0xFBD63E, 0xA046EE,
     0x29BD51, 0x76AE98, 0x3C274F, 0x055476, 0x4ECEA5, 0x573F58, 0x1C24DB, 0x47B786, 0x6ECC7D, 0x345CE8,
     0x7D0703, 0x66B456, 0xAF3DEC, 0xBC6F31, 0xD7D0A2, 0x8EC1CF, 0x80321C, 0xD9A9A1, 0xD2FB7A, 0xA9422B,
     0xE05184, 0xFB8A55, 0xB22AAA, 0xE831B3, 0x63E264, 0x1ADB8C, 0x11081B, 0x4832E2, 0x0BA1BD, 0x10781C,
     0x784BC3, 0x679052, 0x2E902D, 0x752BFC, 0x7EFC57, 0x27C58A, 0xCC57D9, 0xD40C64, 0x9FBFB6, 0x84665B,
     0xCD7540, 0xB6CF95, 0xBF8E6E, 0xE415FB, 0xE62690, 0xBFFE0D, 0xF04DFE, 0xC91623, 0x028520, 0x19BCD9,
     0x506E06, 0x0AEDB6, 0x23D4E9, 0x780728, 0x331997, 0x3AE84E, 0x6173B9, 0x6840A0, 0x129B67, 0x598B9E,
     0xC87009, 0x877370, 0x9EEAEB, 0xF5190E, 0xAC03D4, 0xA690C1, 0xFDE93A, 0xB47AF7, 0xAF8044, 0xC69119,
     0xDD0ACA, 0x166977, 0x4EF0BC, 0x45E2C9, 0x3C1D52, 0x3F8E87, 0x64D73C, 0x296574, 0x327E83, 0x7A8F1A,
     0x0114ED, 0x0A1734, 0x53EF3B, 0xD8FCCA, 0x812715, 0xEA94A4, 0xF185EB, 0xB95F3A, 0xA26C85, 0xEBB55C,
     0xB0862A, 0x930CA3, 0xCEDD70, 0x85E6CD, 0x9D7196, 0x562A63, 0x6D9AE8, 0x24411D, 0x7F5246, 0x76EBDB,
     0x2DB928, 0x2712E5, 0x5E83D7, 0x15D80A, 0x0C6BD1, 0x473170, 0x54A02F, 0xB99B9E, 0xE34841, 0xEAD090,
     0xB1E33F, 0xFA2866, 0xE31991, 0x88C208, 0x8154FF, 0xDB6FB7, 0x92BE28, 0x89A5D9, 0xE25606, 0x7BCE37,
     0x30FDFC, 0x693E21, 0x6F2792, 0x3495CF, 0x5DCE6C, 0x465DB1, 0x0FA46A, 0x14B75F, 0x5F2D85, 0x275C60,
     0x2CC7FB, 0xF56486, 0xFE3C55, 0xA5ABC8, 0xECD02B, 0xD743F2, 0x9FDAC5, 0xC0A81C, 0xC33383, 0x9A2262]"

definition PRNG_TABLE_12 :: "u32 list" where
  "PRNG_TABLE_12 = [
     0xB1D93D, 0xE8DA8D, 0x232252, 0x39B19B, 0x70AAAC, 0x6B5975, 0x024182, 0x59921B, 0x522974, 0x0B38A5,
     0x01F33E, 0x78C1CB, 0x3758D0, 0x242F3D, 0xEDB4EF, 0xB66672, 0xBF5701, 0xC5CCDC, 0xCE9F77, 0x9726A2,
     0xDCA4F9, 0xC5FF4C, 0xAE4E87, 0xB51576, 0xFDA7E9, 0xA63C90, 0x2F6D47, 0x74D6CF, 0x1BC538, 0x0A1D21,
     0x413EDE, 0x58E50F, 0x127480, 0x6B4BF1, 0x60992E, 0x2BA297, 0x327340, 0x79E809, 0xA0DABA, 0x8A0367,
     0xD1009D, 0x98BB98, 0x836A63, 0xCE70F6, 0xF5832D, 0xB69850, 0xEE29D3, 0xE5732E, 0xBCE0FD, 0xB75962,
     0x4C1A13, 0x0589DC, 0x1EF165, 0x5666B7, 0x4DFDEA, 0x268E59, 0x7F1794, 0x74256F, 0x29FE7A, 0x626F81,
     0x700404, 0x1996DF, 0x828FA2, 0xCB7C31, 0x9067CC, 0x9B940E, 0xE20C17, 0xE81FE8, 0xB1E439, 0xFAF586,
     0xE17FC7, 0xA88C18, 0xD397A1, 0x5E4276, 0x04794F, 0x0FEB88, 0x5E9271, 0x3501E6, 0x2C9A3E, 0x67EA51,
     0x7C61C0, 0x34323B, 0x6F89EE, 0x4618F5, 0x1D4218, 0xD4F1CB, 0xCFE876, 0x841B25, 0xB888F8, 0xF3D053,
     0xAA7386, 0xA168BC, 0xF2BB69, 0xFB8792, 0x80541F, 0xC8CF4C, 0xC3FEB5, 0x182522, 0x1117CB, 0x6A9E9C,
     0x234D05, 0x3876FA, 0x72A42B, 0x2FBD84, 0x240ED4, 0x5DD54B, 0x56C4B2, 0x057E65, 0x4C2D4C, 0xD7849B,
     0xBFD762, 0xA44DF9, 0xEFFEAC, 0xB6A347, 0xBD30D2, 0xC40B29, 0x8FDB74, 0x9540E6, 0xDC330B, 0xC3BAD8,
     0x8A89E5, 0x71533E, 0x7AC0BB, 0x2BB140, 0x212A11, 0x7838AE, 0x13C17F, 0x08D290, 0x414989, 0x1AA85E,
     0x13B2A6, 0x494131, 0x625AD8, 0xBBCF87, 0xF43516, 0xED26E9, 0xA6BF78, 0x9FCC17, 0xDD57CE, 0x86B75D,
     0x8FACA0, 0xD43FE3, 0x9D445E, 0xA6D584, 0x6DCF71, 0x753C6A, 0x3EA5AF, 0x67F654, 0x4C4CC9, 0x134DBA,
     0x1AB667, 0x4125E4, 0x097E19, 0x12CA0A, 0x71D1F3, 0x78022C, 0xA33BAC, 0xEAA953, 0xF17A02, 0x9B53BD,
     0xC28074, 0xC9BB83, 0x90299A, 0x9BF04D, 0xC4C3B4, 0xAD583B, 0xB7084A, 0xFEB3D1, 0x656004, 0x2E69FE,
     0x5FDAF3, 0x548000, 0x0D37DD, 0x472E4E, 0x5CFD33, 0x1546F8, 0x2E164D, 0x678D96, 0x3CBEE3, 0x337768,
     0xEBE5BD, 0xC09E47, 0x990D5E, 0xD234A9, 0xC9E720, 0x887DF7, 0xD34C0E, 0xFB9711, 0xA084E0, 0xA96C2F,
     0xF27FBE, 0xB9E4C1, 0x001318, 0x4B02AF, 0x56B867, 0x1CEB30, 0x477289, 0x4E8152, 0x358AF7, 0x3C1AAC,
     0x676159, 0x24F2C2, 0x3C6917, 0x57197C, 0x8E82E1, 0x85F112, 0xDE68CF, 0xD77BDD, 0x8C9130, 0xE400EB,
     0xFB5B5E, 0xB0E885, 0xA9F6D4, 0xE2277B, 0x9B9CA2, 0x108F15, 0x5A764C, 0x0B64AB, 0x00AF32, 0x599CED,
     0x72059D, 0x29D702, 0x60ECE3, 0x7A7D3C, 0x330625, 0x0C95D6, 0x474D0B, 0x9E7EA8, 0x95FDF5, 0xCCA666,
     0x86179B, 0xBD8D40, 0xFCDA65, 0xE763BF, 0xAE304A, 0xF58AD1, 0xDE9B9C, 0x86406F, 0x8DE3F2, 0x54B801,
     0x1B28D8, 0x0213D7, 0x69C026, 0x7259B9, 0x3A6B48, 0x61B017, 0x68819F, 0x135A68, 0x50D9B1, 0x49E386]"

definition PRNG_TABLE_13 :: "u32 list" where
  "PRNG_TABLE_13 = [
     0x02325F, 0x9A29B0, 0xD19E23, 0xAAC77E, 0xA3558D, 0xFCAE04, 0xF5BFF3, 0xAE04AA, 0xC44635, 0xDDDDC5,
     0x966C4A, 0xCF373B, 0xC4A4E4, 0x1FD47D, 0x3E4F8A, 0x64DC43, 0x2DA574, 0x3637AD, 0x7D5C56, 0x44CFC3,
     0x0BD688, 0x52257D, 0x59BBE7, 0x03AA1A, 0x4A5119, 0xF142C4, 0xB89A37, 0xB329AA, 0xE822D1, 0xA9D114,
     0x93C88F, 0xDA5A7A, 0xC1A121, 0x8AB090, 0xD36B5E, 0xDC58A7, 0xA5C0B0, 0x2F8369, 0x74389E, 0x3DAB17,
     0x26D368, 0x4F40F9, 0x141F26, 0x1DAEC7, 0x473558, 0x446721, 0x1DDEF6, 0x769D6E, 0xEF0E8D, 0xA434D0,
     0xBFE56B, 0xF35EBE, 0x884D45, 0x819440, 0xDAA69B, 0x917D26, 0x88ECF5, 0xC3C788, 0xFB150B, 0xB02ED6,
     0x63BF24, 0x6A6439, 0x3153D2, 0x188B03, 0x43989C, 0x0923ED, 0x147232, 0x5FF99B, 0x060B4C, 0x2D10B5,
     0x76A1A2, 0x7FFA7B, 0xA568D4, 0xECD104, 0xD7827B, 0x9C19EA, 0x8D6831, 0xC6E2DC, 0x9F71CF, 0x950A32,
     0xEE9BE1, 0xA3A16C, 0xB8761F, 0xF16FC2, 0x6A9C79, 0x010FAC, 0x491786, 0x52F453, 0x1BEF88, 0x007C35,
     0x4B8566, 0x32978F, 0x316C18, 0x697DC1, 0x62E6BE, 0x3B142F, 0xD40DC0, 0xCFCE11, 0x86F58E, 0xDD66F6,
     0xD53E31, 0x8E8988, 0xA5125F, 0xFC6366, 0xB7F9B9, 0xAEAA78, 0xE513C3, 0xD69096, 0x1ECB6D, 0x4579F8,
     0x4C6033, 0x13B34E, 0x5888DC, 0x615821, 0x2AE3F2, 0x32F0FF, 0x792B04, 0x220A91, 0x0B906A, 0xD0432B,
     0xD97294, 0x82AD4D, 0xC8BE9A, 0xD90623, 0xB2D564, 0xEBEE9C, 0xE02D03, 0xBF35D2, 0xB686AD, 0xCCDD2C,
     0x854CD3, 0x1EF70A, 0x55A51D, 0x4C1CE4, 0x074F67, 0x7ED49A, 0x7476C9, 0x2F2F75, 0x26BCBE, 0x75876B,
     0x1C5650, 0x07C885, 0x48BB7E, 0x9022F3, 0x9B11A0, 0xC2CA5D, 0xE9C8CE, 0xA07133, 0xFBA238, 0xF0B9E9,
     0xA84917, 0x835286, 0xDAC179, 0x913830, 0x822B87, 0x4BD95E, 0x30D289, 0x3C43A0, 0x67B87F, 0x6CAA8E,
     0x353311, 0x7E4440, 0x47DFAB, 0x0C8E3F, 0x1634C4, 0x5FA7D9, 0x04CC0A, 0xAD5DE7, 0xF64774, 0xBDB409,
     0xAC2DD2, 0xE67E67, 0xFBC5AC, 0x90D5F9, 0xCB0E42, 0xC23D9F, 0x99B67D, 0x9047E4, 0xEA5DB3, 0x218E0A,
     0x38B7D5, 0x732034, 0x6AFA2B, 0x21CBFA, 0x5A1005, 0x5B039C, 0x01A8FB, 0x4C7822, 0x574395, 0x3CD04D,
     0xA5811A, 0xEE3BB3, 0xB76868, 0xBDF19D, 0xE64286, 0xCF1943, 0x949BF8, 0xDDA225, 0xC67156, 0x8FCACB,
     0xF59B08, 0xF605F5, 0x2B36EF, 0x20EF1A, 0x797CC1, 0x324664, 0x1985BF, 0x419CE4, 0x4A6F51, 0x13748A,
     0x58C42F, 0x631F74, 0x2A0CA1, 0x71F51A, 0xF9E7D7, 0xA27CA5, 0xA99F38, 0xD886EB, 0x973516, 0x8E6F1D,
     0xC5FEEC, 0xDF0133, 0xB61282, 0xED8ADD, 0xE4F954, 0xBF7AA3, 0x74617A, 0x6D904D, 0x070A95, 0x1E795A,
     0x55E0EB, 0x0EF334, 0x0F0845, 0x7098CA, 0x798313, 0x2360E0, 0x687BFD, 0x71AB0E, 0xBA10C3, 0x830370,
     0xC8FA2D, 0x93EDB7, 0x9B3742, 0xC00689, 0xA99DBC, 0xB25E67, 0xF964BA, 0xE0F509, 0xA7AE44, 0xFF1DB7]"

definition PRNG_TABLE_14 :: "u32 list" where
  "PRNG_TABLE_14 = [
     0x54C42E, 0x0DF6F1, 0x066D90, 0x5D3C0E, 0x1487FF, 0x2F8460, 0x675E19, 0x3CEFDE, 0x37B447, 0x6E27B0,
     0x651369, 0x9CC856, 0xD77B97, 0xC9604C, 0x88B1F9, 0x939BA2, 0xFA4856, 0xB1D1DD, 0xAAE200, 0xE33873,
     0xB829EE, 0xB0D20D, 0xCBC190, 0x407AEB, 0x19AA3E, 0x52A1A5, 0x4B1240, 0x204B1B, 0x3ED9A2, 0x7F2274,
     0x2437AD, 0x2DAC8A, 0x76DF53, 0x5D45AC, 0x04F43D, 0xCEBFE2, 0xD72CC3, 0x9C551C, 0xE7C7E5, 0xEEDC72,
     0xB52D1B, 0xBCB6CC, 0xE6A454, 0xA95FA7, 0x904EFA, 0xD3A551, 0xCA3684, 0x01265F, 0x5ADD6A, 0x72CEB1,
     0x29135C, 0x60A1CF, 0x7BBA92, 0x304921, 0x2950FC, 0x42D316, 0x1AA903, 0x1138F8, 0x48E329, 0xC7D0A6,
     0xBC48DF, 0xFD1B08, 0xE6A0B1, 0xAE3366, 0xF55AAF, 0xFEC898, 0x879341, 0x8C22FE, 0xD5392E, 0x9EEA61,
     0x8456D0, 0x6D450B, 0x769EF6, 0x3FADE5, 0x606508, 0x6BD6DB, 0x3ACD46, 0x101C3D, 0x5927F8, 0x02F543,
     0x096C96, 0x505FCC, 0xBB8C71, 0xA296B2, 0xE8370F, 0xF36C5C, 0xBADF85, 0xE1063A, 0xC814FB, 0x97AF04,
     0x9CFA15, 0xC461EA, 0x87D23B, 0xBE88B4, 0x7509CC, 0x2E721B, 0x27E1A2, 0x7C5965, 0x750A7C, 0x0F9183,
     0x44A052, 0x5D7BE9, 0x1669AC, 0x0F9277, 0x6013CA, 0x3B0819, 0xB3FA65, 0xE0E3E6, 0xA9103B, 0xB28BC0,
     0xDB9ED5, 0xC0642E, 0x8B77EB, 0xD3EC50, 0xD80D89, 0xA1179E, 0xAAC477, 0xF1F5A0, 0x386E19, 0x271D4F,
     0x6F8596, 0x541639, 0x1F6DE8, 0x4EFE97, 0x45B706, 0x1C05D9, 0x779E30, 0x6DCF27, 0x2474DE, 0x3F664D,
     0xF69BB0, 0xAD08FB, 0x86536F, 0xDFE094, 0xD1E841, 0x883B6A, 0xC300B7, 0xE8D164, 0xB16BD9, 0xF2788A,
     0xEBA167, 0xA192FC, 0x3A0929, 0x53DBD2, 0x08F2C3, 0x01212D, 0x5A3ABC, 0x518B43, 0x29D11A, 0x62628D,
     0x7FFD64, 0x34ACB3, 0x6F1E8A, 0xE64555, 0x95C494, 0x9D7F2B, 0xC62C7A, 0x8DB485, 0x94871D, 0xFF5CDE,
     0xE6EFE3, 0xADB730, 0xF524CF, 0xFE0F56, 0xA5DE31, 0x48C5E8, 0x53377F, 0x1AAE86, 0x01BD59, 0x4B4678,
     0x3A50A7, 0x31E977, 0x683ACC, 0x633189, 0x38C072, 0x71DAEF, 0x4B493C, 0x82B001, 0x99A3C2, 0xD2383F,
     0x8F4AA4, 0xA4D3D1, 0xFDA00A, 0xB62B8F, 0xACBB75, 0xE5C028, 0xF6539B, 0x9F4242, 0xC4B985, 0x4F2FBC,
     0x167463, 0x1CC5D2, 0x65DE1D, 0x2E3C4C, 0x35A5F3, 0x78F622, 0x234DDD, 0x0A5C55, 0x408622, 0x5BB5FB,
     0x122E6C, 0xC1FF95, 0xC8C4DE, 0xB3066B, 0xB83FB0, 0xE0AC25, 0xAB775E, 0xB24793, 0xD9DC20, 0x828BFD,
     0x8F30AF, 0xD46102, 0xDCDBD9, 0x07582C, 0x6E0137, 0x75B2C6, 0x3EE809, 0x2F7990, 0x64C2E7, 0x1C913E,
     0x170A89, 0x4C3A40, 0x45E9D6, 0x1E42AF, 0x571370, 0xE889C1, 0xA2BA0E, 0xFB635F, 0xF070E0, 0xA9CF39,
     0x821DDA, 0xD904C7, 0x90F734, 0x82FCE9, 0xCB4D72, 0xD09716, 0x3B848D, 0x623D78, 0x696EA3, 0x30F4BE,
     0x7A075D, 0x451E80, 0x0C8D33, 0x17E66E, 0x5E76B5, 0x050D14, 0x0E9ECB, 0x7607BA, 0xF57524, 0xACEAC5]"

definition PRNG_TABLE_15 :: "u32 list" where
  "PRNG_TABLE_15 = [
     0xE7F91A, 0xFC0083, 0x9583F4, 0xCED96D, 0xC6688A, 0x9D7353, 0x92804C, 0xCB11BD, 0xA00B62, 0xA9F8C3,
     0x72E398, 0x783244, 0x2118F7, 0x4A8B2A, 0x5B5249, 0x1061D4, 0x09FA2F, 0x428ABA, 0x1911F1, 0x31C604,
     0x6AFD9F, 0x276D62, 0xBC2631, 0xF795B8, 0xCE4C4E, 0x855F97, 0xDDE520, 0xD6B479, 0x8D0FB6, 0x8C1C07,
     0xF7C6D8, 0xBE77A9, 0xA53C36, 0xEFAFDF, 0x369648, 0x1D4411, 0x40DFE6, 0x4BEE7E, 0x103595, 0x5902C0,
     0x43D85B, 0x2AC9AE, 0x316265, 0x7AB158, 0x23A18B, 0x201A56, 0xD949E5, 0x93F2A8, 0x882313, 0xC139C6,
     0xDA8A3C, 0x97D329, 0xEC50E2, 0xE7AA13, 0xBFBB8C, 0xB42075, 0xED5322, 0x06C8AB, 0x1DF85C, 0x542785,
     0x0FB4BA, 0x0FCD7B, 0x544FA4, 0x7F5414, 0x26A54B, 0x6D3EF2, 0x702D31, 0x3BD7CC, 0x13C6DF, 0xC83D02,
     0x83AEF9, 0x9AB77C, 0xD15507, 0xC84ED2, 0xA3DF49, 0xF9A4BD, 0xF836F6, 0xA3ED4B, 0xEADC98, 0xD14B05,
     0x9A30E6, 0x03A0BF, 0x4D6B00, 0x1458D1, 0x1FC12E, 0x64932F, 0x6D28F0, 0x36BB09, 0x7FE29F, 0x6551E6,
     0x0E0B21, 0x57AAB8, 0x54B147, 0x8D6216, 0x86DBA9, 0xDDC968, 0xB412F3, 0xAA218E, 0xE3FC5D, 0xF86EF0,
     0xB35523, 0xCA945F, 0xC1AFCC, 0x983C11, 0xD264FA, 0x49D7EF, 0x000C14, 0x3B1FC1, 0x7AA75A, 0x21F4B7,
     0x2A6FA4, 0x728E5D, 0x5D958A, 0x042713, 0x4F767D, 0x54EDAC, 0x1D5E13, 0x8604C0, 0xEE91AD, 0xB5EA36,
     0xBC79E3, 0xE77018, 0xAC820D, 0x9D19E6, 0xD6283F, 0xCEF3A8, 0x85E0D1, 0xDA1A47, 0x538BAE, 0x389079,
     0x216360, 0x6A6B9F, 0x30D84E, 0x3903E1, 0x421230, 0x0BE94F, 0x10FBD6, 0x5B6011, 0x4215E8, 0x008EFB,
     0xF95C07, 0xF2759C, 0xADE659, 0xA49D22, 0xFF0CB7, 0x96964C, 0x8CE591, 0xC77E92, 0x9E2F6F, 0x959CBC,
     0xCC0601, 0xE7475A, 0x3CFCBF, 0x74EF25, 0x6717F4, 0x2E048B, 0x15DF0A, 0x5A6CF5, 0x03716C, 0x08A33B,
     0x5098C2, 0x5B1945, 0x20C2BC, 0x69F063, 0xF22972, 0xBB1A8D, 0xE0814D, 0xCA52F6, 0x936AAB, 0x98B958,
     0xC9A2C5, 0x820306, 0x9B593B, 0xF4CAE0, 0xEE7315, 0xA7209E, 0x7C9BCB, 0x75C930, 0x0E54A4, 0x45E75F,
     0x5CBC12, 0x173D81, 0x0F0778, 0x44D4AF, 0x3FC596, 0x363E59, 0x65ACE8, 0x6C9737, 0xA346E6, 0xD95DD9,
     0xD0FE10, 0x8B26E6, 0xC2357F, 0xD9CE28, 0x92DDC1, 0xAB455E, 0xE1B6AF, 0xB8ADF4, 0xB35861, 0x68438A,
     0x41C157, 0x12B864, 0x5B2BB9, 0x45B00A, 0x0EC3C6, 0x175B95, 0x7C2828, 0x25B3F3, 0x2E2206, 0x75580D,
     0x3DDBD8, 0x86C223, 0xCF31BA, 0xD4AADD, 0x9FF804, 0xC64193, 0xCD526A, 0xBDA9F4, 0xB2BD95, 0xE92E4A,
     0xA0C5FB, 0xBBD424, 0xD20F7D, 0x093DDA, 0x01A603, 0x5A77F0, 0x514CED, 0x089E36, 0x63A7D3, 0x7A3448,
     0x31FF3C, 0x2BCEE7, 0x625462, 0x150799, 0x1CBC84, 0xC7ED77, 0x8C76AA, 0x95C409, 0xDF9954, 0xE62A8F,
     0xAD213E, 0xF6F1E1, 0xFF4A00, 0xA4191E, 0x8D82C7, 0xD7B330, 0x9C69A9, 0x057ACE, 0x42C357, 0x2B1088]"

definition PRNG_TABLE_16 :: "u32 list" where
  "PRNG_TABLE_16 = [
     0x303A79, 0x7BEB76, 0x63F087, 0x284358, 0x7198E1, 0x5A88B2, 0x017B7E, 0x0860CD, 0x53F510, 0x9A0F63,
     0xA00CFE, 0xEBB535, 0xF2E6C0, 0xB97DDB, 0xEC0F2E, 0xE796B5, 0x9C0578, 0xD47E0B, 0xCFEF92, 0x86F564,
     0x1D16AD, 0x768F32, 0x2FFC43, 0x24669C, 0x7C752D, 0x778CE2, 0x2E1F9B, 0x45000C, 0x5EF0D5, 0x13FB62,
     0x40282B, 0x4811D4, 0xB38344, 0xB8789F, 0xE16BEA, 0xAAB261, 0xB38194, 0xF81B4F, 0xC2CA52, 0x8BE1B1,
     0xD0726C, 0xD903DF, 0x829982, 0xE94A79, 0x7471FD, 0x36E026, 0x2FBA93, 0x640DC8, 0x3F1431, 0x16D7B6,
     0x4D6C6F, 0x443C18, 0x1E8781, 0x55947E, 0x6C4FBF, 0x27FFA0, 0xBEE451, 0xF5378F, 0xAE0E2E, 0xA2CD71,
     0xC9D7C8, 0x98661F, 0x93BDC6, 0xC88EE5, 0xC15438, 0xBA45C3, 0xF2FE56, 0xE9290D, 0x2230E8, 0x3B9273,
     0x70C98F, 0x0958DC, 0x02A343, 0x58B0A2, 0x150A7D, 0x0E5BC4, 0x6FC897, 0x74F33A, 0x3F23E9, 0x66A834,
     0xECDB0F, 0xB542DA, 0x9E5131, 0xC7ABA5, 0x8C38FE, 0x97010B, 0xDED290, 0xA4CC7D, 0xAD3D2E, 0xF6B6B3,
     0xF9A540, 0x205ED9, 0x634EB6, 0x5A9567, 0x11A6D8, 0x0B3F09]"

definition PRNG_TABLE :: "u32 list" where
  "PRNG_TABLE = PRNG_TABLE_0 @ PRNG_TABLE_1 @ PRNG_TABLE_2 @ PRNG_TABLE_3 @ PRNG_TABLE_4 @ PRNG_TABLE_5 @ PRNG_TABLE_6 @ PRNG_TABLE_7 @ PRNG_TABLE_8 @ PRNG_TABLE_9 @ PRNG_TABLE_10 @ PRNG_TABLE_11 @ PRNG_TABLE_12 @ PRNG_TABLE_13 @ PRNG_TABLE_14 @ PRNG_TABLE_15 @ PRNG_TABLE_16"

end
