(* ===== verification/AMBEFEC.thy ===== *)
theory AMBEFEC
  imports Golay24128 AMBETables Hamming
begin

text \<open>
  The forward error correction of the voice frames, \<^verbatim>\<open>src/src/common/edac/AMBEFEC.cpp\<close>.  A
  DMR burst carries three AMBE frames and an NXDN block one, each of 24, 23 and 25 bits
  spread over 72 positions; a P25 IMBE frame has 144 bits.  The bits that one loop reads
  for all three frames are read here frame by frame, in one loop each.  The functions return
  \<open>None\<close> where the Golay decoder does.
\<close>

section \<open>Positions\<close>

definition AMBE_A_TABLE :: "nat list" where
  "AMBE_A_TABLE = [0, 4, 8, 12, 16, 20, 24, 28, 32, 36, 40, 44, 48, 52, 56, 60, 64, 68, 1, 5, 9, 13, 17, 21]"

definition AMBE_B_TABLE :: "nat list" where
  "AMBE_B_TABLE = [25, 29, 33, 37, 41, 45, 49, 53, 57, 61, 65, 69, 2, 6, 10, 14, 18, 22, 26, 30, 34, 38, 42]"

definition AMBE_C_TABLE :: "nat list" where
  "AMBE_C_TABLE = [46, 50, 54, 58, 62, 66, 70, 3, 7, 11, 15, 19, 23, 27, 31, 35, 39, 43, 47, 51, 55, 59, 63, 67, 71]"

definition IMBE_INTERLEAVE :: "nat list" where
  "IMBE_INTERLEAVE = [
     0, 7, 12, 19, 24, 31, 36, 43, 48, 55, 60, 67, 72, 79, 84, 91, 96, 103, 108, 115, 120, 127, 132, 139,
     1, 6, 13, 18, 25, 30, 37, 42, 49, 54, 61, 66, 73, 78, 85, 90, 97, 102, 109, 114, 121, 126, 133, 138,
     2, 9, 14, 21, 26, 33, 38, 45, 50, 57, 62, 69, 74, 81, 86, 93, 98, 105, 110, 117, 122, 129, 134, 141,
     3, 8, 15, 20, 27, 32, 39, 44, 51, 56, 63, 68, 75, 80, 87, 92, 99, 104, 111, 116, 123, 128, 135, 140,
     4, 11, 16, 23, 28, 35, 40, 47, 52, 59, 64, 71, 76, 83, 88, 95, 100, 107, 112, 119, 124, 131, 136, 143,
     5, 10, 17, 22, 29, 34, 41, 46, 53, 58, 65, 70, 77, 82, 89, 94, 101, 106, 113, 118, 125, 130, 137, 142]"

text \<open>The three frames of a burst: the second one goes round the 48 bits in the middle.\<close>

definition dmr_pos :: "nat \<Rightarrow> nat \<Rightarrow> nat" where
  "dmr_pos k p =
     (if k = 0 then p
      else if k = 1 then (let p = p + 72 in if p \<ge> 108 then p + 48 else p)
      else p + 192)"

text \<open>
  \<open>MASK\<close> starts at the highest bit of the word and moves down with the table.
\<close>

definition gather :: "u32 \<Rightarrow> nat list \<Rightarrow> bytes \<Rightarrow> u32" where
  "gather m0 ps b =
     fst (foldl (\<lambda>(w, m) p. (if READ_BIT b p \<noteq> 0 then w OR m else w, drop_bit 1 m)) (0, m0) ps)"

definition scatter :: "u32 \<Rightarrow> (nat list \<times> u32) list \<Rightarrow> nat \<Rightarrow> bytes \<Rightarrow> bytes" where
  "scatter m0 ws n b =
     fst (foldl (\<lambda>(b, m) i. (foldl (\<lambda>b (ps, w). WRITE_BIT b (ps ! i) (w AND m \<noteq> 0)) b ws, drop_bit 1 m))
       (b, m0) [0..<n])"

section \<open>One AMBE frame\<close>

definition regenerate :: "u32 \<Rightarrow> u32 \<Rightarrow> u32 \<Rightarrow> (u32 \<times> u32 \<times> u32 \<times> u32) option" where
  "regenerate a b c =
     Option.bind (decode24128 a) (\<lambda>(valid, data).
       if \<not> valid then Some (ucast (countBits32 (data XOR a)), 0xF00292, 0x0E0B20, 0x000000)
       else
         let old_a = a; old_b = b;
             a = encode24128 data;
             p = drop_bit 1 (PRNG_TABLE ! unat data);
             b = b XOR p
         in Option.bind (decode23127 b) (\<lambda>datb.
           let b = drop_bit 1 (encode23127 datb) XOR p;
               errsA = ucast (countBits32 (a XOR old_a));
               errsB = ucast (countBits32 (b XOR old_b))
           in if errsA \<ge> 4 \<or> errsA + errsB \<ge> 6 \<and> errsA \<ge> 2
              then Some (errsA + errsB, 0xF00292, 0x0E0B20, 0x000000)
              else Some (errsA + errsB, a, b, c)))"

section \<open>A DMR burst\<close>

definition dmr_words :: "bytes \<Rightarrow> nat \<Rightarrow> u32 \<times> u32 \<times> u32" where
  "dmr_words b k =
     (gather 0x800000 (map (dmr_pos k) AMBE_A_TABLE) b, gather 0x400000 (map (dmr_pos k) AMBE_B_TABLE) b,
      gather 0x1000000 (map (dmr_pos k) AMBE_C_TABLE) b)"

definition regenerate_words :: "u32 \<times> u32 \<times> u32 \<Rightarrow> (u32 \<times> u32 \<times> u32 \<times> u32) option" where
  "regenerate_words w = (case w of (a, b, c) \<Rightarrow> regenerate a b c)"

definition regenerateDMR :: "bytes \<Rightarrow> (u32 \<times> bytes) option" where
  "regenerateDMR bytes =
     Option.bind (regenerate_words (dmr_words bytes 0)) (\<lambda>(e1, a1, b1, c1).
     Option.bind (regenerate_words (dmr_words bytes 1)) (\<lambda>(e2, a2, b2, c2).
     Option.bind (regenerate_words (dmr_words bytes 2)) (\<lambda>(e3, a3, b3, c3).
       let errors = e1 + e2 + e3;
           pos = (\<lambda>T. (map (dmr_pos 0) T, map (dmr_pos 1) T, map (dmr_pos 2) T));
           put = (\<lambda>m T n x y z b. case pos T of (p1, p2, p3) \<Rightarrow> scatter m [(p1, x), (p2, y), (p3, z)] n b);
           bytes = put 0x800000 AMBE_A_TABLE 24 a1 a2 a3 bytes;
           bytes = put 0x400000 AMBE_B_TABLE 23 b1 b2 b3 bytes;
           bytes = put 0x1000000 AMBE_C_TABLE 25 c1 c2 c3 bytes
       in Some (errors, bytes))))"

definition measureDMRBER :: "bytes \<Rightarrow> u32 option" where
  "measureDMRBER bytes =
     Option.bind (regenerate_words (dmr_words bytes 0)) (\<lambda>(e1, _).
     Option.bind (regenerate_words (dmr_words bytes 1)) (\<lambda>(e2, _).
     Option.bind (regenerate_words (dmr_words bytes 2)) (\<lambda>(e3, _). Some (e1 + e2 + e3))))"

section \<open>An NXDN block\<close>

definition regenerateNXDN :: "bytes \<Rightarrow> (u32 \<times> bytes) option" where
  "regenerateNXDN bytes =
     Option.bind (regenerate (gather 0x800000 AMBE_A_TABLE bytes) (gather 0x400000 AMBE_B_TABLE bytes)
                    (gather 0x1000000 AMBE_C_TABLE bytes)) (\<lambda>(errors, a, b, c).
       let bytes = scatter 0x800000 [(AMBE_A_TABLE, a)] 24 bytes;
           bytes = scatter 0x400000 [(AMBE_B_TABLE, b)] 23 bytes;
           bytes = scatter 0x1000000 [(AMBE_C_TABLE, c)] 25 bytes
       in Some (errors, bytes))"

definition measureNXDNBER :: "bytes \<Rightarrow> u32 option" where
  "measureNXDNBER bytes =
     map_option fst (regenerate (gather 0x800000 AMBE_A_TABLE bytes) (gather 0x400000 AMBE_B_TABLE bytes)
                       (gather 0x1000000 AMBE_C_TABLE bytes))"

section \<open>A P25 frame\<close>

definition imbe_word :: "nat \<Rightarrow> bits \<Rightarrow> u32" where
  "imbe_word o0 temp = foldl (\<lambda>g i. push_bit 1 g OR (if temp ! (o0 + i) then 0x01 else 0x00)) 0 [0..<23]"

text \<open>Writing a code word back: the loop has 24 rounds, from 23 down to 0.\<close>

definition imbe_put :: "nat \<Rightarrow> u32 \<Rightarrow> bits \<Rightarrow> bits" where
  "imbe_put o0 g2 temp =
     fst (foldl (\<lambda>(temp, g2) i. (temp[o0 + i := (g2 AND 0x01 = 0x01)], drop_bit 1 g2)) (temp, g2) (rev [0..<24]))"

definition imbe_golay :: "nat \<Rightarrow> bits \<Rightarrow> (u32 \<times> bits) option" where
  "imbe_golay o0 temp =
     Option.bind (decode23127 (imbe_word o0 temp)) (\<lambda>data. Some (data, imbe_put o0 (encode23127 data) temp))"

definition imbe_hamming :: "nat \<Rightarrow> bits \<Rightarrow> bits" where
  "imbe_hamming o0 temp = memcpy_at temp o0 (snd (decode15113_1 (drop o0 temp)))"

definition imbe_prn :: "u32 \<Rightarrow> bits" where
  "imbe_prn c0data =
     snd (foldl (\<lambda>(p, prn) _. let p = (173 * p + 13849) mod 65536 in (p, prn @ [p \<ge> 32768])) (16 * c0data, []) [0..<114])"

definition imbe_whiten :: "bits \<Rightarrow> bits \<Rightarrow> bits" where
  "imbe_whiten prn temp = foldl (\<lambda>temp i. temp[i + 23 := (temp ! (i + 23) \<noteq> prn ! i)]) temp [0..<114]"

definition imbe_correct :: "bits \<Rightarrow> bits option" where
  "imbe_correct temp =
     Option.bind (imbe_golay 0 temp) (\<lambda>(c0data, temp).
     let prn = imbe_prn c0data; temp = imbe_whiten prn temp in
     Option.bind (imbe_golay 23 temp) (\<lambda>(_, temp).
     Option.bind (imbe_golay 46 temp) (\<lambda>(_, temp).
     Option.bind (imbe_golay 69 temp) (\<lambda>(_, temp).
     let temp = imbe_hamming 92 temp;
         temp = imbe_hamming 107 temp;
         temp = imbe_hamming 122 temp
     in Some (imbe_whiten prn temp)))))"

definition imbe_deinterleave :: "bytes \<Rightarrow> bits" where
  "imbe_deinterleave bytes = map (\<lambda>n. READ_BIT bytes n \<noteq> 0) IMBE_INTERLEAVE"

definition imbe_errors :: "bits \<Rightarrow> bits \<Rightarrow> u32" where
  "imbe_errors orig temp = foldl (\<lambda>errors i. if orig ! i \<noteq> temp ! i then errors + 1 else errors) 0 [0..<144]"

definition regenerateIMBE :: "bytes \<Rightarrow> (u32 \<times> bytes) option" where
  "regenerateIMBE bytes =
     (let orig = imbe_deinterleave bytes
      in Option.bind (imbe_correct orig) (\<lambda>temp.
           Some (imbe_errors orig temp,
                 foldl (\<lambda>bytes i. WRITE_BIT bytes (IMBE_INTERLEAVE ! i) (temp ! i)) bytes [0..<144])))"

definition measureP25BER :: "bytes \<Rightarrow> u32 option" where
  "measureP25BER bytes =
     (let orig = imbe_deinterleave bytes
      in Option.bind (imbe_correct orig) (\<lambda>temp. Some (imbe_errors orig temp)))"

section \<open>Reading and writing words\<close>

lemma gather_bits:
  assumes "length ps \<le> Suc k" "k < 32" "\<forall>p \<in> set ps. p < 8 * length b"
  shows "bit (fst (foldl (\<lambda>(w, m) p. (if READ_BIT b p \<noteq> 0 then w OR m else w, drop_bit 1 m)) (w, 2 ^ k) ps) :: u32) j \<longleftrightarrow>
    bit w j \<or> (j \<le> k \<and> k - j < length ps \<and> bits_of b ! (ps ! (k - j)))"
  using assms
proof (induction ps arbitrary: w k)
  case Nil
  then show ?case by simp
next
  case (Cons p ps)
  let ?w = "if READ_BIT b p \<noteq> 0 then w OR 2 ^ k else w"
  have r: "READ_BIT b p \<noteq> 0 \<longleftrightarrow> bits_of b ! p" using Cons.prems by (simp add: READ_BIT_bits_of)
  have w: "bit ?w j \<longleftrightarrow> bit w j \<or> j = k \<and> bits_of b ! p"
    using Cons.prems r by (auto simp: bit_or_iff bit_exp_iff)
  show ?case
  proof (cases k)
    case 0
    then have "ps = []" using Cons.prems by simp
    then show ?thesis using w 0 by auto
  next
    case (Suc k')
    have d: "drop_bit 1 (2 ^ k :: u32) = 2 ^ k'"
      using Suc Cons.prems by (intro bit_word_eqI) (auto simp: bit_drop_bit_eq bit_exp_iff simp del: power_Suc)
    have "j \<le> k \<and> k - j < length (p # ps) \<and> bits_of b ! ((p # ps) ! (k - j)) \<longleftrightarrow>
        j = k \<and> bits_of b ! p \<or> j \<le> k' \<and> k' - j < length ps \<and> bits_of b ! (ps ! (k' - j))"
      using Suc by (cases "j = k"; cases "j \<le> k'") (auto simp: Suc_diff_le)
    moreover have "bit (fst (foldl (\<lambda>(w, m) p. (if READ_BIT b p \<noteq> 0 then w OR m else w, drop_bit 1 m)) (?w, 2 ^ k') ps)) j \<longleftrightarrow>
        bit ?w j \<or> j \<le> k' \<and> k' - j < length ps \<and> bits_of b ! (ps ! (k' - j))"
      using Cons.prems Suc by (intro Cons.IH) simp_all
    ultimately show ?thesis unfolding foldl_Cons prod.case d w by blast
  qed
qed

lemma bit_gather:
  assumes "length ps = n" "0 < n" "n \<le> 32" "\<forall>p \<in> set ps. p < 8 * length b" "m = 2 ^ (n - 1)"
  shows "bit (gather m ps b) j \<longleftrightarrow> j < n \<and> bits_of b ! (ps ! (n - 1 - j))"
proof -
  have "j \<le> n - 1 \<and> n - 1 - j < n \<longleftrightarrow> j < n" using assms(2) by auto
  then show ?thesis
    using gather_bits [of ps "n - 1" b 0 j, unfolded assms(1)] assms(2-) by (auto simp: gather_def)
qed

lemma gather_less:
  assumes "length ps = n" "0 < n" "n < 32" "\<forall>p \<in> set ps. p < 8 * length b" "m = 2 ^ (n - 1)"
  shows "gather m ps b < 2 ^ n"
  using assms bit_gather [OF assms(1,2) _ assms(4,5)] by (subst word_less_bits) auto

text \<open>A buffer that agrees with the bits \<open>F\<close> on the positions \<open>D\<close>.\<close>

definition agrees :: "bits \<Rightarrow> nat set \<Rightarrow> bytes \<Rightarrow> bool" where
  "agrees F D b \<longleftrightarrow> 8 * length b = length F \<and> (\<forall>q < length F. q \<in> D \<longrightarrow> bits_of b ! q = F ! q)"

lemma agrees_write: "agrees F D b \<Longrightarrow> p < length F \<Longrightarrow> v = F ! p \<Longrightarrow> agrees F (insert p D) (WRITE_BIT b p v)"
  by (auto simp: agrees_def WRITE_BIT_bits_of nth_list_update)

lemma agrees_all: "agrees F UNIV b \<Longrightarrow> bits_of b = F"
  by (auto simp: agrees_def intro: nth_equalityI)

lemma agrees_writes:
  assumes "agrees F D b" "\<forall>(ps, w) \<in> set ws. ps ! i < length F \<and> (w AND m \<noteq> 0 \<longleftrightarrow> F ! (ps ! i))"
  shows "agrees F (D \<union> (\<lambda>(ps, w). ps ! i) ` set ws) (foldl (\<lambda>b (ps, w). WRITE_BIT b (ps ! i) (w AND m \<noteq> 0)) b ws)"
  using assms
proof (induction ws arbitrary: b D)
  case Nil
  then show ?case by simp
next
  case (Cons x ws)
  obtain ps w where x: "x = (ps, w)" by (cases x)
  have "agrees F (insert (ps ! i) D) (WRITE_BIT b (ps ! i) (w AND m \<noteq> 0))"
    using Cons.prems x by (intro agrees_write) auto
  then have "agrees F (insert (ps ! i) D \<union> (\<lambda>(ps, w). ps ! i) ` set ws)
      (foldl (\<lambda>b (ps, w). WRITE_BIT b (ps ! i) (w AND m \<noteq> 0)) (WRITE_BIT b (ps ! i) (w AND m \<noteq> 0)) ws)"
    using Cons.prems by (intro Cons.IH) auto
  moreover have "insert (ps ! i) D \<union> (\<lambda>(ps, w). ps ! i) ` set ws = D \<union> (\<lambda>(ps, w). ps ! i) ` set (x # ws)"
    using x by auto
  ultimately show ?case by (simp only: x foldl_Cons prod.case)
qed

lemma agrees_scatter:
  assumes "agrees F D b" "0 < n" "n \<le> 32"
    and "\<forall>(ps, w) \<in> set ws. length ps = n \<and> (\<forall>i < n. ps ! i < length F \<and> (bit w (n - 1 - i) \<longleftrightarrow> F ! (ps ! i)))"
  shows "agrees F (D \<union> (\<Union>(ps, w) \<in> set ws. set ps)) (scatter (2 ^ (n - 1)) ws n b)"
proof -
  let ?step = "\<lambda>(b, m) i. (foldl (\<lambda>b (ps, w). WRITE_BIT b (ps ! i) (w AND m \<noteq> 0)) b ws, drop_bit 1 m)"
  have "agrees F (D \<union> (\<Union>(ps, w) \<in> set ws. set (take k ps))) (fst (foldl ?step (b, 2 ^ (n - 1)) [0..<k])) \<and>
        snd (foldl ?step (b, 2 ^ (n - 1)) [0..<k]) = drop_bit k (2 ^ (n - 1) :: u32)" if "k \<le> n" for k
    using that
  proof (induction k)
    case 0
    then show ?case using assms(1) by simp
  next
    case (Suc k)
    obtain b' m where s: "foldl ?step (b, 2 ^ (n - 1)) [0..<k] = (b', m)" by (cases "foldl ?step (b, 2 ^ (n - 1)) [0..<k]")
    have IH: "agrees F (D \<union> (\<Union>(ps, w) \<in> set ws. set (take k ps))) b'" "m = drop_bit k (2 ^ (n - 1))"
      using Suc s by simp_all
    have m: "m = 2 ^ (n - 1 - k)"
      unfolding IH(2) using Suc.prems assms(3) by (intro bit_word_eqI) (auto simp: bit_drop_bit_eq bit_exp_iff)
    have v: "w AND m \<noteq> 0 \<longleftrightarrow> bit w (n - 1 - k)" for w
      using and_two_power_zero [of "n - 1 - k" w] assms(2,3) Suc.prems by (simp add: m and.commute)
    have "agrees F ((D \<union> (\<Union>(ps, w) \<in> set ws. set (take k ps))) \<union> (\<lambda>(ps, w). ps ! k) ` set ws)
      (foldl (\<lambda>b (ps, w). WRITE_BIT b (ps ! k) (w AND m \<noteq> 0)) b' ws)"
      using assms(4) Suc.prems by (intro agrees_writes IH(1)) (auto simp: v)
    moreover have "(D \<union> (\<Union>(ps, w) \<in> set ws. set (take k ps))) \<union> (\<lambda>(ps, w). ps ! k) ` set ws =
        D \<union> (\<Union>(ps, w) \<in> set ws. set (take (Suc k) ps))"
      using assms(4) Suc.prems by (fastforce simp: take_Suc_conv_app_nth)
    ultimately show ?case using s by (simp add: IH(2) drop_bit_drop_bit)
  qed
  from this [of n] have "agrees F (D \<union> (\<Union>(ps, w) \<in> set ws. set (take n ps))) (scatter (2 ^ (n - 1)) ws n b)"
    by (simp add: scatter_def)
  moreover have "(\<Union>(ps, w) \<in> set ws. set (take n ps)) = (\<Union>(ps, w) \<in> set ws. set ps)" using assms(4) by fastforce
  ultimately show ?thesis by simp
qed

section \<open>What the correction of a frame does\<close>

text \<open>The whitening words have 24 bits.\<close>

definition unary_24 :: "unit list" where
  "unary_24 = [(), (), (), (), (), (), (), (), (), (), (), (), (), (), (), (), (), (), (), (), (), (), (), ()]"

lemma prng_0: "light unary_24 unary_24 PRNG_TABLE_0"
  unfolding PRNG_TABLE_0_def by (simp add: light_numeral light_0 light_1 unary_24_def cong: light_cong)
lemma prng_1: "light unary_24 unary_24 PRNG_TABLE_1"
  unfolding PRNG_TABLE_1_def by (simp add: light_numeral light_0 light_1 unary_24_def cong: light_cong)
lemma prng_2: "light unary_24 unary_24 PRNG_TABLE_2"
  unfolding PRNG_TABLE_2_def by (simp add: light_numeral light_0 light_1 unary_24_def cong: light_cong)
lemma prng_3: "light unary_24 unary_24 PRNG_TABLE_3"
  unfolding PRNG_TABLE_3_def by (simp add: light_numeral light_0 light_1 unary_24_def cong: light_cong)
lemma prng_4: "light unary_24 unary_24 PRNG_TABLE_4"
  unfolding PRNG_TABLE_4_def by (simp add: light_numeral light_0 light_1 unary_24_def cong: light_cong)
lemma prng_5: "light unary_24 unary_24 PRNG_TABLE_5"
  unfolding PRNG_TABLE_5_def by (simp add: light_numeral light_0 light_1 unary_24_def cong: light_cong)
lemma prng_6: "light unary_24 unary_24 PRNG_TABLE_6"
  unfolding PRNG_TABLE_6_def by (simp add: light_numeral light_0 light_1 unary_24_def cong: light_cong)
lemma prng_7: "light unary_24 unary_24 PRNG_TABLE_7"
  unfolding PRNG_TABLE_7_def by (simp add: light_numeral light_0 light_1 unary_24_def cong: light_cong)
lemma prng_8: "light unary_24 unary_24 PRNG_TABLE_8"
  unfolding PRNG_TABLE_8_def by (simp add: light_numeral light_0 light_1 unary_24_def cong: light_cong)
lemma prng_9: "light unary_24 unary_24 PRNG_TABLE_9"
  unfolding PRNG_TABLE_9_def by (simp add: light_numeral light_0 light_1 unary_24_def cong: light_cong)
lemma prng_10: "light unary_24 unary_24 PRNG_TABLE_10"
  unfolding PRNG_TABLE_10_def by (simp add: light_numeral light_0 light_1 unary_24_def cong: light_cong)
lemma prng_11: "light unary_24 unary_24 PRNG_TABLE_11"
  unfolding PRNG_TABLE_11_def by (simp add: light_numeral light_0 light_1 unary_24_def cong: light_cong)
lemma prng_12: "light unary_24 unary_24 PRNG_TABLE_12"
  unfolding PRNG_TABLE_12_def by (simp add: light_numeral light_0 light_1 unary_24_def cong: light_cong)
lemma prng_13: "light unary_24 unary_24 PRNG_TABLE_13"
  unfolding PRNG_TABLE_13_def by (simp add: light_numeral light_0 light_1 unary_24_def cong: light_cong)
lemma prng_14: "light unary_24 unary_24 PRNG_TABLE_14"
  unfolding PRNG_TABLE_14_def by (simp add: light_numeral light_0 light_1 unary_24_def cong: light_cong)
lemma prng_15: "light unary_24 unary_24 PRNG_TABLE_15"
  unfolding PRNG_TABLE_15_def by (simp add: light_numeral light_0 light_1 unary_24_def cong: light_cong)
lemma prng_16: "light unary_24 unary_24 PRNG_TABLE_16"
  unfolding PRNG_TABLE_16_def by (simp add: light_numeral light_0 light_1 unary_24_def cong: light_cong)

lemma PRNG_TABLE_lengths:
  "length PRNG_TABLE_0 = 250" "length PRNG_TABLE_1 = 250" "length PRNG_TABLE_2 = 250" "length PRNG_TABLE_3 = 250" "length PRNG_TABLE_4 = 250"
  "length PRNG_TABLE_5 = 250" "length PRNG_TABLE_6 = 250" "length PRNG_TABLE_7 = 250" "length PRNG_TABLE_8 = 250" "length PRNG_TABLE_9 = 250"
  "length PRNG_TABLE_10 = 250" "length PRNG_TABLE_11 = 250" "length PRNG_TABLE_12 = 250" "length PRNG_TABLE_13 = 250" "length PRNG_TABLE_14 = 250"
  "length PRNG_TABLE_15 = 250" "length PRNG_TABLE_16 = 96"
  by (simp_all add: PRNG_TABLE_0_def PRNG_TABLE_1_def PRNG_TABLE_2_def PRNG_TABLE_3_def PRNG_TABLE_4_def PRNG_TABLE_5_def PRNG_TABLE_6_def PRNG_TABLE_7_def PRNG_TABLE_8_def PRNG_TABLE_9_def PRNG_TABLE_10_def PRNG_TABLE_11_def PRNG_TABLE_12_def PRNG_TABLE_13_def PRNG_TABLE_14_def PRNG_TABLE_15_def PRNG_TABLE_16_def)

lemma PRNG_TABLE_less:
  fixes d :: u32
  assumes "d < 4096"
  shows "drop_bit 1 (PRNG_TABLE ! unat d) < 2 ^ 23"
proof -
  have "light unary_24 unary_24 PRNG_TABLE"
    by (simp only: PRNG_TABLE_def light_append prng_0 prng_1 prng_2 prng_3 prng_4 prng_5 prng_6 prng_7 prng_8 prng_9 prng_10 prng_11 prng_12 prng_13 prng_14 prng_15 prng_16 simp_thms)
  moreover have "unat d < length PRNG_TABLE"
    using less_4096_unat [OF assms] by (simp add: PRNG_TABLE_def PRNG_TABLE_lengths)
  ultimately have "PRNG_TABLE ! unat d < 2 ^ 24"
    using light_set [of unary_24 unary_24 PRNG_TABLE] nth_mem by (fastforce simp: unary_24_def)
  then show ?thesis using less_bits [of "PRNG_TABLE ! unat d" 24] by (subst word_less_bits) (auto simp: bit_drop_bit_eq)
qed

text \<open>
  The two protected words of a frame made of the parameters \<open>d\<close> and \<open>x\<close>, and the errors the
  correction can take away: up to three in each word, but not three in both, and if the parity bit of the
  first word is among them, then only with a light syndrome (\<open>golay24_decodes\<close>).
\<close>

definition ambe_a :: "u32 \<Rightarrow> u32" where "ambe_a d = encode24128 d"

definition ambe_b :: "u32 \<Rightarrow> u32 \<Rightarrow> u32" where
  "ambe_b d x = drop_bit 1 (encode23127 x) XOR drop_bit 1 (PRNG_TABLE ! unat d)"

definition ambe_correctable :: "u32 \<Rightarrow> u32 \<Rightarrow> bool" where
  "ambe_correctable ea eb \<longleftrightarrow> ea < 2 ^ 24 \<and> eb < 2 ^ 23 \<and> weight ea \<le> 3 \<and> weight eb \<le> 3 \<and> weight ea + weight eb < 6 \<and>
     (\<not> bit ea 0 \<or> weight (divide golay_gen 11 12 (drop_bit 1 ea)) < 3)"

lemma weight_drop: "weight (drop_bit n x :: u32) \<le> weight x"
proof -
  have "(+) n ` {i. bit (drop_bit n x) i} \<subseteq> {i. bit x i}" by (auto simp: bit_drop_bit_eq)
  then have "card ((+) n ` {i. bit (drop_bit n x) i}) \<le> card {i. bit x i}" by (intro card_mono) simp_all
  then show ?thesis by (simp add: weight_def card_image)
qed

lemma ucast_countBits32: "(ucast (countBits32 x) :: u32) = of_nat (weight x)"
  using unat_countBits32 [of x] by (metis of_nat_unat)

lemma of_nat_less_u32: "n < 2 ^ 32 \<Longrightarrow> (of_nat n :: u32) < numeral k \<longleftrightarrow> n < unat (numeral k :: u32)"
  by (simp add: word_less_nat_alt unat_of_nat take_bit_nat_eq_self)

lemma ambe_frame_corrected:
  assumes "d < 4096" "x < 4096" "ambe_correctable ea eb"
  shows "regenerate (ambe_a d XOR ea) (ambe_b d x XOR eb) c =
    Some (of_nat (weight ea + weight eb), ambe_a d, ambe_b d x, c)"
proof -
  have e: "ea < 2 ^ 24" "eb < 2 ^ 23" "weight ea \<le> 3" "weight eb \<le> 3" "weight ea + weight eb < 6"
    "\<not> bit ea 0 \<or> weight (divide golay_gen 11 12 (drop_bit 1 ea)) < 3"
    using assms(3) by (simp_all add: ambe_correctable_def)
  let ?p = "drop_bit 1 (PRNG_TABLE ! unat d)"
  have a: "decode24128 (ambe_a d XOR ea) = Some (True, d)"
    unfolding ambe_a_def using golay24_decodes [OF assms(1) e(1)] weight_drop [of 1 ea] e(3,6) by simp
  have "(ambe_b d x XOR eb) XOR ?p = drop_bit 1 (encode23127 x) XOR eb"
    by (simp add: ambe_b_def xor.assoc xor.left_commute)
  then have b: "decode23127 ((ambe_b d x XOR eb) XOR ?p) = Some x"
    using golay23_corrects [OF assms(2) e(2,4)] by simp
  have v: "ambe_a d XOR (ambe_a d XOR ea) = ea" "ambe_b d x XOR (ambe_b d x XOR eb) = eb"
    by (simp_all add: xor.assoc [symmetric])
  have le: "\<not> (of_nat (weight ea) :: u32) \<ge> 4" "\<not> (of_nat (weight ea) + of_nat (weight eb) :: u32) \<ge> 6"
    using e(3-5) of_nat_less_u32 [of "weight ea" "num.Bit0 (num.Bit0 num.One)"]
      of_nat_less_u32 [of "weight ea + weight eb" "num.Bit0 (num.Bit1 num.One)"] by simp_all
  show ?thesis
    unfolding regenerate_def a bind.bind_lunit prod.case not_True_eq_False if_False Let_def b
      ambe_a_def [symmetric] ambe_b_def [symmetric] v ucast_countBits32
    using le by simp
qed

section \<open>Whole bursts\<close>

definition ambe_positions :: "nat \<Rightarrow> nat set" where
  "ambe_positions k = dmr_pos k ` set (AMBE_A_TABLE @ AMBE_B_TABLE)"

text \<open>Burst \<open>f\<close> is what a radio sent, burst \<open>r\<close> what was received of it.\<close>

definition ambe_sent :: "bytes \<Rightarrow> nat \<Rightarrow> bool" where
  "ambe_sent f k \<longleftrightarrow> (\<exists>d x c. d < 4096 \<and> x < 4096 \<and> dmr_words f k = (ambe_a d, ambe_b d x, c))"

definition ambe_noise :: "bytes \<Rightarrow> bytes \<Rightarrow> nat \<Rightarrow> u32 \<times> u32" where
  "ambe_noise f r k = (fst (dmr_words f k) XOR fst (dmr_words r k), fst (snd (dmr_words f k)) XOR fst (snd (dmr_words r k)))"

definition ambe_errors :: "bytes \<Rightarrow> bytes \<Rightarrow> nat \<Rightarrow> nat" where
  "ambe_errors f r k = weight (fst (ambe_noise f r k)) + weight (snd (ambe_noise f r k))"

lemma dmr_pos_bound: "k < 3 \<Longrightarrow> p \<in> set (AMBE_A_TABLE @ AMBE_B_TABLE @ AMBE_C_TABLE) \<Longrightarrow> dmr_pos k p < 264"
  by (auto simp: dmr_pos_def AMBE_A_TABLE_def AMBE_B_TABLE_def AMBE_C_TABLE_def)

lemma ambe_table_lengths: "length AMBE_A_TABLE = 24" "length AMBE_B_TABLE = 23" "length AMBE_C_TABLE = 25"
  by (simp_all add: AMBE_A_TABLE_def AMBE_B_TABLE_def AMBE_C_TABLE_def)

lemma dmr_pos_inj: "k < 3 \<Longrightarrow> l < 3 \<Longrightarrow> p < 72 \<Longrightarrow> q < 72 \<Longrightarrow> dmr_pos k p = dmr_pos l q \<Longrightarrow> p = q"
  by (auto simp: dmr_pos_def Let_def split: if_splits)

lemma ambe_tables_disjoint:
  assumes "k < 3" "l < 3" "p \<in> set AMBE_C_TABLE"
  shows "dmr_pos k p \<notin> ambe_positions l"
proof
  assume "dmr_pos k p \<in> ambe_positions l"
  then obtain q where q: "q \<in> set (AMBE_A_TABLE @ AMBE_B_TABLE)" "dmr_pos k p = dmr_pos l q"
    by (auto simp: ambe_positions_def)
  have "list_all (\<lambda>q. q < 72) (AMBE_A_TABLE @ AMBE_B_TABLE @ AMBE_C_TABLE)"
    by (simp add: AMBE_A_TABLE_def AMBE_B_TABLE_def AMBE_C_TABLE_def)
  then have "p = q" using dmr_pos_inj [OF assms(1,2) _ _ q(2)] q(1) assms(3) by (auto simp: list_all_iff)
  moreover have "set AMBE_C_TABLE \<inter> set (AMBE_A_TABLE @ AMBE_B_TABLE) = {}"
    by (simp add: AMBE_A_TABLE_def AMBE_B_TABLE_def AMBE_C_TABLE_def)
  ultimately show False using q(1) assms(3) by blast
qed

lemma dmr_words_bits:
  assumes "length b = 33" "k < 3"
  shows "bit (fst (dmr_words b k)) j \<longleftrightarrow> j < 24 \<and> bits_of b ! dmr_pos k (AMBE_A_TABLE ! (23 - j))"
    "bit (fst (snd (dmr_words b k))) j \<longleftrightarrow> j < 23 \<and> bits_of b ! dmr_pos k (AMBE_B_TABLE ! (22 - j))"
    "bit (snd (snd (dmr_words b k))) j \<longleftrightarrow> j < 25 \<and> bits_of b ! dmr_pos k (AMBE_C_TABLE ! (24 - j))"
proof -
  have p: "\<forall>p \<in> set (map (dmr_pos k) T). p < 8 * length b" if "T \<in> {AMBE_A_TABLE, AMBE_B_TABLE, AMBE_C_TABLE}" for T
    using dmr_pos_bound [OF assms(2)] that assms(1) by auto
  show "bit (fst (dmr_words b k)) j \<longleftrightarrow> j < 24 \<and> bits_of b ! dmr_pos k (AMBE_A_TABLE ! (23 - j))"
    using bit_gather [of "map (dmr_pos k) AMBE_A_TABLE" 24 b "0x800000" j] p [of AMBE_A_TABLE]
    by (auto simp: dmr_words_def ambe_table_lengths)
  show "bit (fst (snd (dmr_words b k))) j \<longleftrightarrow> j < 23 \<and> bits_of b ! dmr_pos k (AMBE_B_TABLE ! (22 - j))"
    using bit_gather [of "map (dmr_pos k) AMBE_B_TABLE" 23 b "0x400000" j] p [of AMBE_B_TABLE]
    by (auto simp: dmr_words_def ambe_table_lengths)
  show "bit (snd (snd (dmr_words b k))) j \<longleftrightarrow> j < 25 \<and> bits_of b ! dmr_pos k (AMBE_C_TABLE ! (24 - j))"
    using bit_gather [of "map (dmr_pos k) AMBE_C_TABLE" 25 b "0x1000000" j] p [of AMBE_C_TABLE]
    by (auto simp: dmr_words_def ambe_table_lengths)
qed

lemma nth_rev_index: "i < n \<Longrightarrow> n - 1 - (n - 1 - i) = (i :: nat)"
  by simp

text \<open>
  Writing the words of the sent burst into a burst that has its bits everywhere else.
\<close>

lemma put_words:
  assumes "length f = 33" "T \<in> {AMBE_A_TABLE, AMBE_B_TABLE, AMBE_C_TABLE}" "length T = n" "0 < n" "n < 32" "m = 2 ^ (n - 1)"
    and "\<And>k j. k < 3 \<Longrightarrow> bit (w k) j \<longleftrightarrow> j < n \<and> bits_of f ! dmr_pos k (T ! (n - 1 - j))"
    and "agrees (bits_of f) D b"
  shows "agrees (bits_of f) (D \<union> (\<Union>k \<in> {0, 1, 2}. dmr_pos k ` set T))
    (scatter m [(map (dmr_pos 0) T, w 0), (map (dmr_pos 1) T, w 1), (map (dmr_pos 2) T, w 2)] n b)"
proof -
  let ?ws = "[(map (dmr_pos 0) T, w 0), (map (dmr_pos 1) T, w 1), (map (dmr_pos 2) T, w 2 :: u32)]"
  have in_T: "T ! i \<in> set (AMBE_A_TABLE @ AMBE_B_TABLE @ AMBE_C_TABLE)" if "i < n" for i
    using assms(2,3) that nth_mem by auto
  have ok: "dmr_pos k (T ! i) < length (bits_of f) \<and> (bit (w k) (n - 1 - i) \<longleftrightarrow> bits_of f ! dmr_pos k (T ! i))"
    if "k < 3" "i < n" for k i
    using dmr_pos_bound [OF that(1) in_T [OF that(2)]] assms(1,4) assms(7) [OF that(1), of "n - 1 - i"] that
    by (simp add: nth_rev_index)
  have "agrees (bits_of f) (D \<union> (\<Union>(ps, w) \<in> set ?ws. set ps)) (scatter (2 ^ (n - 1)) ?ws n b)"
    using assms(3-5,8) ok [of 0] ok [of 1] ok [of 2] by (intro agrees_scatter) auto
  then show ?thesis using assms(6) by (simp add: Un_assoc)
qed

text \<open>
  C11. A voice burst whose three frames carry encoded parameters is restored, and the wrong bits
  counted, whatever bits of the protected words were inverted on the air as long as each frame stays
  within \<open>ambe_correctable\<close>: at most three errors in each of its two words, not three in both, and
  a parity bit of the first word wrong only together with other errors whose syndrome has at most two ones
  (in the other case the frame is muted).
\<close>

theorem voice_burst_regenerated:
  assumes "length f = 33" "length r = 33"
    and "\<And>k. k < 3 \<Longrightarrow> ambe_sent f k \<and> ambe_correctable (fst (ambe_noise f r k)) (snd (ambe_noise f r k))"
    and "\<And>q. q < 264 \<Longrightarrow> q \<notin> (\<Union>k \<in> {0, 1, 2}. ambe_positions k) \<Longrightarrow> bits_of r ! q = bits_of f ! q"
  shows "regenerateDMR r = Some (of_nat (ambe_errors f r 0 + ambe_errors f r 1 + ambe_errors f r 2), f)"
proof -
  have words: "regenerate_words (dmr_words r k) =
      Some (of_nat (ambe_errors f r k), fst (dmr_words f k), fst (snd (dmr_words f k)), snd (snd (dmr_words f k)))"
    if k: "k < 3" for k
  proof -
    obtain d x c where s: "d < 4096" "x < 4096" "dmr_words f k = (ambe_a d, ambe_b d x, c)"
      using assms(3) [OF k] by (auto simp: ambe_sent_def)
    obtain a b c' where r: "dmr_words r k = (a, b, c')" by (cases "dmr_words r k") auto
    have "c' = c"
    proof (rule bit_word_eqI)
      fix j
      have "bits_of r ! dmr_pos k (AMBE_C_TABLE ! (24 - j)) = bits_of f ! dmr_pos k (AMBE_C_TABLE ! (24 - j))"
        using k dmr_pos_bound [OF k] ambe_tables_disjoint [OF k]
        by (intro assms(4)) (auto simp: ambe_table_lengths)
      then show "bit c' j = bit c j"
        using dmr_words_bits(3) [OF assms(1) k, of j] dmr_words_bits(3) [OF assms(2) k, of j] s(3) r by simp
    qed
    moreover have "a = ambe_a d XOR fst (ambe_noise f r k)" "b = ambe_b d x XOR snd (ambe_noise f r k)"
      by (simp_all add: ambe_noise_def s(3) r xor.assoc [symmetric])
    ultimately show ?thesis
      using ambe_frame_corrected [OF s(1,2), of "fst (ambe_noise f r k)" "snd (ambe_noise f r k)" c] assms(3) [OF k]
      by (simp add: regenerate_words_def r s(3) ambe_errors_def)
  qed
  let ?P = "\<lambda>T. \<Union>k \<in> {0 :: nat, 1, 2}. dmr_pos k ` set T"
  let ?put = "\<lambda>m T n w b. scatter m [(map (dmr_pos 0) T, w 0), (map (dmr_pos 1) T, w 1), (map (dmr_pos 2) T, w 2)] n b"
  let ?b1 = "?put 0x800000 AMBE_A_TABLE 24 (\<lambda>k. fst (dmr_words f k)) r"
  let ?b2 = "?put 0x400000 AMBE_B_TABLE 23 (\<lambda>k. fst (snd (dmr_words f k))) ?b1"
  let ?b3 = "?put 0x1000000 AMBE_C_TABLE 25 (\<lambda>k. snd (snd (dmr_words f k))) ?b2"
  let ?D = "- (\<Union>k \<in> {0, 1, 2}. ambe_positions k)"
  have r0: "agrees (bits_of f) ?D r" using assms(1,2,4) by (auto simp: agrees_def)
  have r1: "agrees (bits_of f) (?D \<union> ?P AMBE_A_TABLE) ?b1"
    by (rule put_words [OF assms(1) _ _ _ _ _ _ r0]) (simp_all add: ambe_table_lengths dmr_words_bits(1) [OF assms(1)])
  have r2: "agrees (bits_of f) (?D \<union> ?P AMBE_A_TABLE \<union> ?P AMBE_B_TABLE) ?b2"
    by (rule put_words [OF assms(1) _ _ _ _ _ _ r1]) (simp_all add: ambe_table_lengths dmr_words_bits(2) [OF assms(1)])
  have r3: "agrees (bits_of f) (?D \<union> ?P AMBE_A_TABLE \<union> ?P AMBE_B_TABLE \<union> ?P AMBE_C_TABLE) ?b3"
    by (rule put_words [OF assms(1) _ _ _ _ _ _ r2]) (simp_all add: ambe_table_lengths dmr_words_bits(3) [OF assms(1)])
  have "?D \<union> ?P AMBE_A_TABLE \<union> ?P AMBE_B_TABLE \<union> ?P AMBE_C_TABLE = UNIV"
    by (auto simp: ambe_positions_def)
  then have b3: "agrees (bits_of f) UNIV ?b3" using r3 by (simp only:)
  then have "?b3 = f" using agrees_all [OF b3] by (intro bits_of_inj) (simp_all add: agrees_def)
  then show ?thesis
    unfolding regenerateDMR_def
    using words [of 0] words [of 1] words [of 2] by (simp add: Let_def case_prod_beta)
qed

text \<open>
  C30. Let the parity bit of a frame's first word arrive wrong, with at most three of its other bits.
  The decoder recovers the data of the word, but when the syndrome of those other bits has three or more ones it
  reports the word invalid, and the frame is replaced by silence; the errors it counts are then the
  differences between the twelve data bits and the whole word.
\<close>

theorem parity_error_mutes_frame:
  assumes "d < 4096" "ea < 2 ^ 24" "bit ea 0" "weight (drop_bit 1 ea) \<le> 3"
    and "3 \<le> weight (divide golay_gen 11 12 (drop_bit 1 ea))"
  shows "decode24128 (ambe_a d XOR ea) = Some (False, d) \<and>
    regenerate (ambe_a d XOR ea) b c = Some (ucast (countBits32 (d XOR (ambe_a d XOR ea))), 0xF00292, 0x0E0B20, 0x000000)"
  using golay24_decodes [OF assms(1,2,4)] assms(3,5) by (simp add: regenerate_def ambe_a_def)

theorem parity_error_mutes_frame_witness:
  "decode24128 (ambe_a 0xABC XOR 0x800001) = Some (False, 0xABC) \<and>
   regenerate (ambe_a 0xABC XOR 0x800001) 0 0 =
     Some (ucast (countBits32 (0xABC XOR (ambe_a 0xABC XOR 0x800001))), 0xF00292, 0x0E0B20, 0x000000)"
  by (rule parity_error_mutes_frame) (simp_all add: weight_numeral_eq golay_numeral golay_columns_def)

section \<open>The bit after a code word\<close>

lemma imbe_word_less: "imbe_word o0 temp < 2 ^ 23"
proof -
  have "foldl (\<lambda>g i. push_bit 1 g OR (if temp ! (o0 + i) then 0x01 else 0x00)) 0 [0..<k] < (2 :: u32) ^ k" if "k < 32" for k
    using that
  proof (induction k)
    case (Suc k)
    let ?g = "foldl (\<lambda>g i. push_bit 1 g OR (if temp ! (o0 + i) then 0x01 else 0x00)) (0 :: u32) [0..<k]"
    have "\<not> bit (push_bit 1 ?g OR (if temp ! (o0 + k) then 0x01 else 0x00)) i" if "Suc k \<le> i" for i
      using that Suc less_bits [of ?g k "i - 1"] by (auto simp: bit_or_iff bit_push_bit_iff bit_1_iff simp del: push_bit_Suc)
    then show ?case using Suc.prems by (subst word_less_bits) simp_all
  qed simp
  from this [of 23] show ?thesis by (simp add: imbe_word_def)
qed

lemma decode23127_total:
  assumes "c < 2 ^ 23"
  shows "\<exists>d < 4096. decode23127 c = Some d"
proof -
  let ?s = "divide golay_gen 11 12 c"
  have "?s < 2 ^ 11" using assms golay_generator by (intro divide_less) simp_all
  then have "unat ?s < length DECODING_TABLE_23127" by (simp add: length_DECODING_TABLE_23127 word_less_nat_alt)
  then have "DECODING_TABLE_23127 ! unat ?s < 2 ^ 23" using light23 nth_mem by (fastforce simp: patterns_def)
  then have x: "c XOR DECODING_TABLE_23127 ! unat ?s < 2 ^ 23" using assms by (intro xor_less) simp_all
  have "drop_bit 11 (c XOR DECODING_TABLE_23127 ! unat ?s) < 2 ^ 12"
    using less_bits [OF x] by (subst word_less_bits) (auto simp: bit_drop_bit_eq simp del: drop_bit_xor)
  then show ?thesis using getSyndrome23127_divides [OF assms] by (simp add: decode23127_def)
qed

lemma imbe_put_rest:
  "\<forall>i \<in> set is. i < 23 \<Longrightarrow>
   fst (foldl (\<lambda>(temp, g2) i. (temp[o0 + i := (g2 AND 0x01 = (0x01 :: u32))], drop_bit 1 g2)) (temp, g) is) ! (o0 + 23) = temp ! (o0 + 23)"
  by (induction "is" arbitrary: temp g) simp_all

text \<open>
  C31. The loop that writes a corrected 23-bit word of a P25 voice frame back has 24 rounds: the bit after the
  word, the first of the next one, is cleared whatever it was.
\<close>

theorem imbe_overwrites_next_word:
  assumes "o0 + 23 < length temp"
  shows "\<exists>data temp'. imbe_golay o0 temp = Some (data, temp') \<and> \<not> temp' ! (o0 + 23)"
proof -
  obtain d where d: "d < 4096" "decode23127 (imbe_word o0 temp) = Some d"
    using decode23127_total [OF imbe_word_less] by blast
  have "\<not> bit (encode23127 d) 0"
    by (simp add: encode23127_word [OF d(1)] shifted23_def bit_push_bit_iff del: push_bit_Suc)
  then have "encode23127 d AND 1 \<noteq> 1" by (metis bit_1_iff bit_and_iff)
  moreover have "rev [0..<24] = 23 # rev [0..<23]"
    using upt_Suc_append [of 0 23] by (simp add: eval_nat_numeral)
  ultimately have "\<not> imbe_put o0 (encode23127 d) temp ! (o0 + 23)"
    using assms imbe_put_rest [of "rev [0..<23]" o0 "temp[o0 + 23 := False]" "drop_bit 1 (encode23127 d)"]
    by (simp add: imbe_put_def)
  then show ?thesis using d(2) by (simp add: imbe_golay_def)
qed

section \<open>Every burst is regenerated\<close>

lemma decode24128_total:
  assumes "c < 2 ^ 24"
  shows "\<exists>valid. \<exists>d < 4096. decode24128 c = Some (valid, d)"
proof -
  let ?s = "divide golay_gen 11 12 (drop_bit 1 c)"
  have c: "drop_bit 1 c < 2 ^ 23" using less_bits [OF assms] by (subst word_less_bits) (auto simp: bit_drop_bit_eq)
  then have "?s < 2 ^ 11" using golay_generator by (intro divide_less) simp_all
  then have "unat ?s < length DECODING_TABLE_23127" by (simp add: length_DECODING_TABLE_23127 word_less_nat_alt)
  then have t: "DECODING_TABLE_23127 ! unat ?s < 2 ^ 23" using light23 nth_mem by (fastforce simp: patterns_def)
  then have "push_bit 1 (DECODING_TABLE_23127 ! unat ?s) < 2 ^ 24"
    using less_bits [OF t] by (subst word_less_bits) (auto simp: bit_push_bit_iff simp del: push_bit_Suc)
  then have x: "c XOR push_bit 1 (DECODING_TABLE_23127 ! unat ?s) < 2 ^ 24" using assms by (intro xor_less) simp_all
  have "drop_bit 12 (c XOR push_bit 1 (DECODING_TABLE_23127 ! unat ?s)) < 2 ^ 12"
    using less_bits [OF x] by (subst word_less_bits) (auto simp: bit_drop_bit_eq simp del: drop_bit_xor)
  then show ?thesis unfolding decode24128_def getSyndrome23127_divides [OF c] by (simp add: Let_def)
qed

lemma regenerate_total:
  assumes "a < 2 ^ 24" "b < 2 ^ 23"
  shows "\<exists>n a' b' c'. regenerate a b c = Some (n, a', b', c')"
proof -
  obtain valid d where d: "d < 4096" "decode24128 a = Some (valid, d)" using decode24128_total [OF assms(1)] by blast
  let ?b = "b XOR drop_bit 1 (PRNG_TABLE ! unat d)"
  have "?b < 2 ^ 23" using assms(2) PRNG_TABLE_less [OF d(1)] by (intro xor_less) simp_all
  then obtain e where "decode23127 ?b = Some e" using decode23127_total by blast
  then show ?thesis by (simp add: regenerate_def d(2) Let_def)
qed

lemma gather_fits:
  assumes "k < 31"
  shows "gather (2 ^ k) ps b < 2 ^ Suc k"
proof -
  have "\<forall>i > k. \<not> bit (fst (foldl (\<lambda>(w, m) p. (if READ_BIT b p \<noteq> 0 then w OR m else w, drop_bit 1 m)) (w, m) ps)) i"
    if "\<forall>i > k. \<not> bit w i" "\<forall>i > k. \<not> bit m i" for w m :: u32
    using that
  proof (induction ps arbitrary: w m)
    case (Cons p ps)
    have "\<forall>i > k. \<not> bit (drop_bit 1 m) i" using Cons.prems(2) by (auto simp: bit_drop_bit_eq simp del: drop_bit_Suc)
    moreover have "\<forall>i > k. \<not> bit (if READ_BIT b p \<noteq> 0 then w OR m else w) i" using Cons.prems by (auto simp: bit_or_iff)
    ultimately show ?case unfolding foldl.simps prod.case by (intro Cons.IH)
  qed simp
  then show ?thesis using assms unfolding gather_def by (subst word_less_bits) (auto simp: bit_exp_iff)
qed

lemma dmr_words_less: "fst (dmr_words r k) < 2 ^ 24" "fst (snd (dmr_words r k)) < 2 ^ 23"
  using gather_fits [of 23 "map (dmr_pos k) AMBE_A_TABLE" r] gather_fits [of 22 "map (dmr_pos k) AMBE_B_TABLE" r]
  by (simp_all add: dmr_words_def)

lemma regenerate_words_total: "\<exists>n a b c. regenerate_words (dmr_words r k) = Some (n, a, b, c)"
  using regenerate_total [OF dmr_words_less(1) [of r k] dmr_words_less(2) [of r k], of "snd (snd (dmr_words r k))"]
  by (simp add: regenerate_words_def case_prod_beta)

lemma length_scatter [simp]: "length (scatter m ws n b) = length b"
proof -
  have w: "length (foldl (\<lambda>b (ps, w). WRITE_BIT b (ps ! i) (w AND m \<noteq> 0)) b ws) = length b" for b :: bytes and i :: nat and m :: u32
    by (induction ws arbitrary: b) (simp_all add: case_prod_beta)
  have "length (fst (foldl (\<lambda>(b, m) i. (foldl (\<lambda>b (ps, w). WRITE_BIT b (ps ! i) (w AND m \<noteq> 0)) b ws, drop_bit 1 m)) (b, m) is)) = length b" for "is"
    by (induction "is" arbitrary: b m) (simp_all add: w)
  then show ?thesis by (simp add: scatter_def)
qed

text \<open>
  C29. Every burst is regenerated, whatever it holds: the division loops of the decoder return for each word
  that is read from a burst, all table lookups stay within the tables, and a burst of the same length comes out.
\<close>

theorem voice_regeneration_returns: "\<exists>n f. regenerateDMR r = Some (n, f) \<and> length f = length r"
  using regenerate_words_total [of r 0] regenerate_words_total [of r 1] regenerate_words_total [of r 2]
  by (auto simp: regenerateDMR_def Let_def)

section \<open>An example\<close>

text \<open>A burst whose three frames are made of the parameters zero, and the burst with three bits inverted.\<close>

definition sample_burst :: bytes where
  "sample_burst = [0x22, 0x00, 0x02, 0x04, 0x02, 0x20, 0x40, 0x44, 0x00, 0x22, 0x00, 0x02, 0x04, 0x00, 0x00, 0x00, 0x00, 0x00,
     0x00, 0x02, 0x20, 0x40, 0x44, 0x00, 0x22, 0x00, 0x02, 0x04, 0x02, 0x20, 0x40, 0x44, 0x00]"

definition noisy_burst :: bytes where
  "noisy_burst = [0x22, 0x00, 0x0A, 0x04, 0x0A, 0x20, 0x40, 0x44, 0x00, 0x22, 0x00, 0x02, 0x04, 0x00, 0x00, 0x00, 0x00, 0x00,
     0x00, 0x06, 0x20, 0x40, 0x44, 0x00, 0x22, 0x00, 0x02, 0x04, 0x02, 0x20, 0x40, 0x44, 0x00]"

lemma word_zero_values: "ambe_a 0 = 0" "ambe_b 0 0 = 0x216623"
  by (simp_all add: ambe_a_def ambe_b_def encode24128_word encode23127_word word_zero PRNG_TABLE_def PRNG_TABLE_0_def)

lemmas burst_eval = dmr_words_def gather_def dmr_pos_def AMBE_A_TABLE_def AMBE_B_TABLE_def AMBE_C_TABLE_def READ_BIT_def BIT_MASK_TABLE_def

lemma sample_words: "dmr_words sample_burst 0 = (0, 0x216623, 0)" "dmr_words sample_burst 1 = (0, 0x216623, 0)"
  "dmr_words sample_burst 2 = (0, 0x216623, 0)"
  by (simp_all add: burst_eval sample_burst_def)

lemma noisy_words: "dmr_words noisy_burst 0 = (0x44000, 0x216623, 0)" "dmr_words noisy_burst 1 = (0, 0x296623, 0)"
  "dmr_words noisy_burst 2 = (0, 0x216623, 0)"
  by (simp_all add: burst_eval noisy_burst_def)

lemma sample_noise: "ambe_noise sample_burst noisy_burst 0 = (0x44000, 0)" "ambe_noise sample_burst noisy_burst 1 = (0, 0x80000)"
  "ambe_noise sample_burst noisy_burst 2 = (0, 0)"
  using sample_words noisy_words by (simp_all add: ambe_noise_def)

lemma sample_correctable: "ambe_correctable 0x44000 0" "ambe_correctable 0 0x80000" "ambe_correctable 0 0"
  by (simp_all add: ambe_correctable_def weight_numeral_eq golay_zero)

lemma noisy_written: "noisy_burst = WRITE_BIT (WRITE_BIT (WRITE_BIT sample_burst 20 True) 36 True) 157 True"
  by (simp add: noisy_burst_def sample_burst_def WRITE_BIT_def BIT_MASK_TABLE_def)

lemma noisy_positions: "20 \<in> ambe_positions 0" "36 \<in> ambe_positions 0" "157 \<in> ambe_positions 1"
  by (simp_all add: ambe_positions_def dmr_pos_def AMBE_A_TABLE_def AMBE_B_TABLE_def)

theorem voice_burst_regenerated_witness: "regenerateDMR noisy_burst = Some (3, sample_burst)"
proof -
  have l: "length sample_burst = 33" "length noisy_burst = 33" by (simp_all add: sample_burst_def noisy_burst_def)
  have three: "k < 3 \<Longrightarrow> k = 0 \<or> k = 1 \<or> k = 2" for k :: nat by auto
  have "ambe_sent sample_burst k" if "k < 3" for k
    using three [OF that] sample_words word_zero_values by (auto simp: ambe_sent_def intro!: exI [of _ 0])
  moreover have "ambe_correctable (fst (ambe_noise sample_burst noisy_burst k)) (snd (ambe_noise sample_burst noisy_burst k))"
    if "k < 3" for k
    using three [OF that] sample_noise sample_correctable by auto
  moreover have "bits_of noisy_burst ! q = bits_of sample_burst ! q"
    if "q < 264" "q \<notin> (\<Union>k \<in> {0, 1, 2}. ambe_positions k)" for q
    using that noisy_positions l unfolding noisy_written by (auto simp: WRITE_BIT_bits_of nth_list_update)
  ultimately have "regenerateDMR noisy_burst =
      Some (of_nat (ambe_errors sample_burst noisy_burst 0 + ambe_errors sample_burst noisy_burst 1 + ambe_errors sample_burst noisy_burst 2),
        sample_burst)"
    by (intro voice_burst_regenerated l) simp_all
  then show ?thesis using sample_noise by (simp add: ambe_errors_def weight_numeral_eq)
qed

theorem imbe_overwrites_next_word_witness:
  "\<exists>data temp'. imbe_golay 0 (replicate 144 True) = Some (data, temp') \<and> \<not> temp' ! 23"
  using imbe_overwrites_next_word [of 0 "replicate 144 True"] by simp

end
