(* ===== verification/SlotType.thy ===== *)
theory SlotType
  imports Golay2087 BaseNetwork
begin

text \<open>
  The slot type, \<^verbatim>\<open>src/src/common/dmr/SlotType.cpp\<close>: the twenty bits around the sync pattern of a
  DMR burst that carry the colour code and the data type, under the Golay (20,8,7) code.
\<close>

section \<open>The slot type\<close>

record slot_type =
  st_colorCode :: u8
  st_dataType :: u8

definition slottype_bytes :: "bytes \<Rightarrow> bytes" where
  "slottype_bytes data =
     [(push_bit 2 (data ! 12) AND 0xFC) OR (drop_bit 6 (data ! 13) AND 0x03),
      ((push_bit 2 (data ! 13) AND 0xC0) OR (push_bit 2 (data ! 19) AND 0x3C)) OR (drop_bit 6 (data ! 20) AND 0x03),
      push_bit 2 (data ! 20) AND 0xF0]"

definition slottype_decode :: "bytes \<Rightarrow> slot_type option" where
  "slottype_decode data =
     map_option (\<lambda>code. \<lparr>st_colorCode = drop_bit 4 code AND 0x0F, st_dataType = code AND 0x0F\<rparr>)
       (golay2087_decode (slottype_bytes data))"

definition slottype_encode :: "slot_type \<Rightarrow> bytes \<Rightarrow> bytes" where
  "slottype_encode st data =
     (let b = golay2087_encode [(push_bit 4 (st_colorCode st) AND 0xF0) OR (st_dataType st AND 0x0F), 0x00, 0x00]
      in data[12 := (data ! 12 AND 0xC0) OR (drop_bit 2 (b ! 0) AND 0x3F),
              13 := ((data ! 13 AND 0x0F) OR (push_bit 6 (b ! 0) AND 0xC0)) OR (drop_bit 2 (b ! 1) AND 0x30),
              19 := (data ! 19 AND 0xF0) OR (drop_bit 2 (b ! 1) AND 0x0F),
              20 := ((data ! 20 AND 0x03) OR (push_bit 6 (b ! 1) AND 0xC0)) OR (drop_bit 2 (b ! 2) AND 0x3C)])"


section \<open>Encoding and decoding\<close>

text \<open>What \<open>encode\<close> puts around the sync pattern is what \<open>decode\<close> gathers, except for four bits of the last byte.\<close>

lemma slottype_bytes_put:
  assumes "length data = 33"
  shows "slottype_bytes (data[12 := (data ! 12 AND 0xC0) OR (drop_bit 2 b0 AND 0x3F),
              13 := ((data ! 13 AND 0x0F) OR (push_bit 6 b0 AND 0xC0)) OR (drop_bit 2 b1 AND 0x30),
              19 := (data ! 19 AND 0xF0) OR (drop_bit 2 b1 AND 0x0F),
              20 := ((data ! 20 AND 0x03) OR (push_bit 6 b1 AND 0xC0)) OR (drop_bit 2 b2 AND 0x3C)]) =
         [b0, b1, b2 AND 0xF0]"
  using assms unfolding slottype_bytes_def
  by (auto intro!: u8_eqI simp: bit_simps)

lemma byte_of_cksum:
  "(ucast (ucast ((((drop_bit 3 w AND 0xFF) XOR push_bit 13 (w AND 7)) XOR push_bit 12 (parity_word w)) AND 0xFF) :: u8) :: u32) =
   drop_bit 3 w AND 0xFF"
  "drop_bit 5 (ucast (ucast (drop_bit 8 (((drop_bit 3 w AND 0xFF) XOR push_bit 13 (w AND 7)) XOR push_bit 12 (parity_word w))) AND 0xF0 :: u8)) =
   w AND 7"
proof -
  have m: "(0xFF :: u32) = mask 8" "(7 :: u32) = mask 3" "(0xF0 :: u8) = push_bit 4 (mask 4)" by (simp_all add: mask_eq_exp_minus_1)
  show "(ucast (ucast ((((drop_bit 3 w AND 0xFF) XOR push_bit 13 (w AND 7)) XOR push_bit 12 (parity_word w)) AND 0xFF) :: u8) :: u32) =
    drop_bit 3 w AND 0xFF"
    unfolding m by (rule bit_word_eqI) (auto simp: bit_simps parity_word_bits)
  show "drop_bit 5 (ucast (ucast (drop_bit 8 (((drop_bit 3 w AND 0xFF) XOR push_bit 13 (w AND 7)) XOR push_bit 12 (parity_word w))) AND 0xF0 :: u8)) =
    w AND 7"
    unfolding m by (rule bit_word_eqI) (auto simp: bit_simps parity_word_bits)
qed

lemma glue_19: "push_bit 11 (drop_bit 11 w) + push_bit 3 (drop_bit 3 w AND 0xFF) + (w AND 7) = (w :: u32)"
proof -
  have m: "(0xFF :: u32) = mask 8" "(7 :: u32) = mask 3" by (simp_all add: mask_eq_exp_minus_1)
  have "push_bit 11 (drop_bit 11 w) + push_bit 3 (drop_bit 3 w AND 0xFF) = push_bit 11 (drop_bit 11 w) OR push_bit 3 (drop_bit 3 w AND 0xFF)"
    unfolding m by (rule disjunctive_add) (auto simp: bit_simps)
  moreover have "(push_bit 11 (drop_bit 11 w) OR push_bit 3 (drop_bit 3 w AND 0xFF)) + (w AND 7) =
      (push_bit 11 (drop_bit 11 w) OR push_bit 3 (drop_bit 3 w AND 0xFF)) OR (w AND 7)"
    unfolding m by (rule disjunctive_add) (auto simp: bit_simps)
  moreover have "(push_bit 11 (drop_bit 11 w) OR push_bit 3 (drop_bit 3 w AND 0xFF)) OR (w AND 7) = w"
    unfolding m
  proof (rule bit_word_eqI)
    fix n assume n: "n < LENGTH(32)"
    consider "n < 3" | "3 \<le> n" "n < 11" | "11 \<le> n" by linarith
    then show "bit ((push_bit 11 (drop_bit 11 w) OR push_bit 3 (drop_bit 3 w AND mask 8)) OR w AND mask 3) n = bit w n"
      using n by cases (auto simp: bit_simps)
  qed
  ultimately show ?thesis by simp
qed


lemma byte_less: "(ucast (v :: u8) :: u32) < 2 ^ 8"
  by (subst word_less_bits) (auto simp: bit_ucast_iff dest: u8_bit_bound)

lemma xor_if_nonzero: "(if p \<noteq> 0 then (c :: u32) XOR p else c) = c XOR p" by simp

lemma nibble_high: "(x :: u8) < 16 \<Longrightarrow> \<not> bit x 4 \<and> \<not> bit x 5 \<and> \<not> bit x 6 \<and> \<not> bit x 7"
proof -
  assume "x < 16"
  moreover have "(16 :: u8) = 2 ^ 4" by simp
  ultimately have "x < 2 ^ 4" by (rule subst [where P = "\<lambda>k. x < k", rotated])
  then have "\<forall>i \<ge> 4. \<not> bit x i" by (subst (asm) word_less_bits) simp_all
  then show ?thesis by simp
qed

lemma code2087_three:
  "code2087 [a, b, c] = push_bit 11 (ucast a) + push_bit 3 (ucast b) + drop_bit 5 (ucast c)"
  by (simp add: code2087_def)

lemma ucast_back: "(ucast (ucast (b :: u8) :: u32) :: u8) = b"
  by (rule bit_word_eqI) (simp add: bit_ucast_iff)

lemma code2087_word:
  assumes "length bs = 3" "bs ! 0 = v" "bs ! 1 = 0"
  shows "(let b = golay2087_encode bs in code2087 [b ! 0, b ! 1, b ! 2 AND 0xF0]) = word19 (ucast v)"
proof -
  have v: "unat v < 256" using unsigned_less [of v] by simp
  have "ENCODING_TABLE_2087 ! unat v = table2087 (ucast v)"
    using tabulates_nth [OF enc2087, of "unat v"] v length_ENCODING_TABLE_2087
    by (simp add: unsigned_ucast_eq)
  moreover have d: "drop_bit 11 (word19 (ucast v)) = ucast v" by (rule word19_data [OF byte_less])
  ultimately have e: "golay2087_encode bs = bs[1 := ucast (table2087 (ucast v) AND 0xFF), 2 := ucast (drop_bit 8 (table2087 (ucast v)))]"
    using assms by (simp only: golay2087_encode_def Let_def)
  have "code2087 [v, ucast (table2087 (ucast v) AND 0xFF), ucast (drop_bit 8 (table2087 (ucast v))) AND 0xF0] = word19 (ucast v)"
    using glue_19 [of "word19 (ucast v)"] unfolding code2087_three table2087_def byte_of_cksum d .
  moreover have "golay2087_encode bs ! 0 = v" "golay2087_encode bs ! 1 = ucast (table2087 (ucast v) AND 0xFF)"
    "golay2087_encode bs ! 2 = ucast (drop_bit 8 (table2087 (ucast v)))"
    unfolding e using assms by simp_all
  ultimately show ?thesis by (simp only: Let_def)
qed

text \<open>
  C13. A burst whose slot type bits are those of an encoded slot type, with at most three of the
  nineteen that the decoder looks at changed, decodes to that slot type.
\<close>

theorem slottype_corrects:
  assumes "st_colorCode st < 16" "st_dataType st < 16" "length data = 33"
    "e < 2 ^ 19" "weight e \<le> 3"
    "code2087 (slottype_bytes received) = code2087 (slottype_bytes (slottype_encode st data)) XOR e"
  shows "slottype_decode received = Some st"
proof -
  let ?v = "(push_bit 4 (st_colorCode st) AND 0xF0) OR (st_dataType st AND 0x0F)"
  let ?w = "word19 (ucast ?v)"
  have v: "ucast ?v < (2 ^ 8 :: u32)" by (rule byte_less)
  have sent: "code2087 (slottype_bytes (slottype_encode st data)) = ?w"
    using code2087_word [of "[?v, 0x00, 0x00]" ?v]
    unfolding slottype_encode_def Let_def slottype_bytes_put [OF assms(3)] by (simp add: Let_def)
  have e: "e \<in> patterns (11 + 8) 3" using assms by (simp add: patterns_def)
  have "(?w XOR e) XOR DECODING_TABLE_1987 ! unat (divide golay_gen 11 8 (?w XOR e)) = ?w"
    by (intro golay19.corrects e divide_word19 v)
  moreover have "?w XOR e < 2 ^ 19" using word19_less [OF v] assms by (intro xor_less) simp_all
  then have "getSyndrome1987 (?w XOR e) = Some (divide golay_gen 11 8 (?w XOR e))" by (rule getSyndrome1987_divides)
  ultimately have "golay2087_decode (slottype_bytes received) = Some (ucast (drop_bit 11 ?w))"
    unfolding golay2087_decode_def Let_def assms(6) sent by (simp only: bind.bind_lunit xor_if_nonzero)
  then have "golay2087_decode (slottype_bytes received) = Some ?v"
    by (simp only: word19_data [OF v] ucast_back)
  moreover have "drop_bit 4 ?v AND 0x0F = st_colorCode st" "st_colorCode st AND 0x0F = st_colorCode st" "?v AND 0x0F = st_dataType st"
    using nibble_high [OF assms(1)] nibble_high [OF assms(2)] by (auto intro!: u8_eqI simp: bit_simps)
  ultimately show ?thesis by (simp add: slottype_decode_def)
qed

definition sample_slot_burst :: bytes where
  "sample_slot_burst =
     [165, 165, 165, 165, 165, 165, 165, 165, 165, 165, 165, 165, 150, 101, 165, 165, 165, 165, 165, 175, 77, 165, 165, 165,
      165, 165, 165, 165, 165, 165, 165, 165, 165]"

lemma sample_slot_burst_eq: "slottype_encode \<lparr>st_colorCode = 5, st_dataType = 9\<rparr> (replicate 33 0xA5) = sample_slot_burst"
  unfolding sample_slot_burst_def
  by (simp add: slottype_encode_def golay2087_encode_def ENCODING_TABLE_2087_def Let_def) (simp add: numeral_eq_Suc)

theorem slottype_corrects_witness:
  "slottype_decode ((slottype_encode \<lparr>st_colorCode = 5, st_dataType = 9\<rparr> (replicate 33 0xA5))[13 := 69, 20 := 69]) =
   Some \<lparr>st_colorCode = 5, st_dataType = 9\<rparr>"
proof (rule slottype_corrects [where data = "replicate 33 0xA5" and e = "0x401"])
  show "code2087 (slottype_bytes ((slottype_encode \<lparr>st_colorCode = 5, st_dataType = 9\<rparr> (replicate 33 0xA5))[13 := 69, 20 := 69])) =
    code2087 (slottype_bytes (slottype_encode \<lparr>st_colorCode = 5, st_dataType = 9\<rparr> (replicate 33 0xA5))) XOR 0x401"
    unfolding sample_slot_burst_eq by (simp add: sample_slot_burst_def slottype_bytes_def code2087_def)
qed (simp_all add: weight_numeral_eq)

end
