(* ===== verification/QR1676.thy ===== *)
theory QR1676
  imports Golay2087
begin

text \<open>
  The quadratic residue (16,7,6) code of \<^verbatim>\<open>src/src/common/edac/QR1676.cpp\<close>.  The decoder looks at
  fifteen of the sixteen bits.
\<close>

section \<open>Tables\<close>

definition ENCODING_TABLE_1676 :: "u32 list" where
  "ENCODING_TABLE_1676 = [
     0x0000, 0x0273, 0x04E5, 0x0696, 0x09C9, 0x0BBA, 0x0D2C, 0x0F5F, 0x11E2, 0x1391, 0x1507, 0x1774,
     0x182B, 0x1A58, 0x1CCE, 0x1EBD, 0x21B7, 0x23C4, 0x2552, 0x2721, 0x287E, 0x2A0D, 0x2C9B, 0x2EE8,
     0x3055, 0x3226, 0x34B0, 0x36C3, 0x399C, 0x3BEF, 0x3D79, 0x3F0A, 0x411E, 0x436D, 0x45FB, 0x4788,
     0x48D7, 0x4AA4, 0x4C32, 0x4E41, 0x50FC, 0x528F, 0x5419, 0x566A, 0x5935, 0x5B46, 0x5DD0, 0x5FA3,
     0x60A9, 0x62DA, 0x644C, 0x663F, 0x6960, 0x6B13, 0x6D85, 0x6FF6, 0x714B, 0x7338, 0x75AE, 0x77DD,
     0x7882, 0x7AF1, 0x7C67, 0x7E14, 0x804F, 0x823C, 0x84AA, 0x86D9, 0x8986, 0x8BF5, 0x8D63, 0x8F10,
     0x91AD, 0x93DE, 0x9548, 0x973B, 0x9864, 0x9A17, 0x9C81, 0x9EF2, 0xA1F8, 0xA38B, 0xA51D, 0xA76E,
     0xA831, 0xAA42, 0xACD4, 0xAEA7, 0xB01A, 0xB269, 0xB4FF, 0xB68C, 0xB9D3, 0xBBA0, 0xBD36, 0xBF45,
     0xC151, 0xC322, 0xC5B4, 0xC7C7, 0xC898, 0xCAEB, 0xCC7D, 0xCE0E, 0xD0B3, 0xD2C0, 0xD456, 0xD625,
     0xD97A, 0xDB09, 0xDD9F, 0xDFEC, 0xE0E6, 0xE295, 0xE403, 0xE670, 0xE92F, 0xEB5C, 0xEDCA, 0xEFB9,
     0xF104, 0xF377, 0xF5E1, 0xF792, 0xF8CD, 0xFABE, 0xFC28, 0xFE5B]"

definition DECODING_TABLE_1576 :: "u32 list" where
  "DECODING_TABLE_1576 = [
     0x0000, 0x0001, 0x0002, 0x0003, 0x0004, 0x0005, 0x0006, 0x4020, 0x0008, 0x0009, 0x000A, 0x000B,
     0x000C, 0x000D, 0x2081, 0x2080, 0x0010, 0x0011, 0x0012, 0x0013, 0x0014, 0x0C00, 0x0016, 0x0C02,
     0x0018, 0x0120, 0x001A, 0x0122, 0x4102, 0x0124, 0x4100, 0x4101, 0x0020, 0x0021, 0x0022, 0x4004,
     0x0024, 0x4002, 0x4001, 0x4000, 0x0028, 0x0110, 0x1800, 0x1801, 0x002C, 0x400A, 0x4009, 0x4008,
     0x0030, 0x0108, 0x0240, 0x0241, 0x0034, 0x4012, 0x4011, 0x4010, 0x0101, 0x0100, 0x0103, 0x0102,
     0x0105, 0x0104, 0x1401, 0x1400, 0x0040, 0x0041, 0x0042, 0x0043, 0x0044, 0x0045, 0x0046, 0x4060,
     0x0048, 0x0049, 0x0301, 0x0300, 0x004C, 0x1600, 0x0305, 0x0304, 0x0050, 0x0051, 0x0220, 0x0221,
     0x3000, 0x4200, 0x3002, 0x4202, 0x0058, 0x1082, 0x1081, 0x1080, 0x3008, 0x4208, 0x2820, 0x1084,
     0x0060, 0x0061, 0x0210, 0x0211, 0x0480, 0x0481, 0x4041, 0x4040, 0x0068, 0x2402, 0x2401, 0x2400,
     0x0488, 0x3100, 0x2810, 0x2404, 0x0202, 0x0880, 0x0200, 0x0201, 0x0206, 0x0884, 0x0204, 0x0205,
     0x0141, 0x0140, 0x0208, 0x0209, 0x2802, 0x0144, 0x2800, 0x2801, 0x0080, 0x0081, 0x0082, 0x0A00,
     0x0084, 0x0085, 0x2009, 0x2008, 0x0088, 0x0089, 0x2005, 0x2004, 0x2003, 0x2002, 0x2001, 0x2000,
     0x0090, 0x0091, 0x0092, 0x1048, 0x0602, 0x0C80, 0x0600, 0x0601, 0x0098, 0x1042, 0x1041, 0x1040,
     0x2013, 0x2012, 0x2011, 0x2010, 0x00A0, 0x00A1, 0x00A2, 0x4084, 0x0440, 0x0441, 0x4081, 0x4080,
     0x6000, 0x1200, 0x6002, 0x1202, 0x6004, 0x2022, 0x2021, 0x2020, 0x0841, 0x0840, 0x2104, 0x0842,
     0x2102, 0x0844, 0x2100, 0x2101, 0x0181, 0x0180, 0x0B00, 0x0182, 0x5040, 0x0184, 0x2108, 0x2030,
     0x00C0, 0x00C1, 0x4401, 0x4400, 0x0420, 0x0421, 0x0422, 0x4404, 0x0900, 0x0901, 0x1011, 0x1010,
     0x0904, 0x2042, 0x2041, 0x2040, 0x0821, 0x0820, 0x1009, 0x1008, 0x4802, 0x0824, 0x4800, 0x4801,
     0x1003, 0x1002, 0x1001, 0x1000, 0x0501, 0x0500, 0x1005, 0x1004, 0x0404, 0x0810, 0x1100, 0x1101,
     0x0400, 0x0401, 0x0402, 0x0403, 0x040C, 0x0818, 0x1108, 0x1030, 0x0408, 0x0409, 0x040A, 0x2060,
     0x0801, 0x0800, 0x0280, 0x0802, 0x0410, 0x0804, 0x0412, 0x0806, 0x0809, 0x0808, 0x1021, 0x1020,
     0x5000, 0x2200, 0x5002, 0x2202]"

section \<open>The code\<close>

definition getSyndrome1576 :: "u32 \<Rightarrow> u32 option" where
  "getSyndrome1576 pattern = get_syndrome 0x00004000 0x00000100 0xffffff00 0x00000139 pattern"

definition code1676 :: "bytes \<Rightarrow> u32" where
  "code1676 data = push_bit 7 (ucast (data ! 0)) + drop_bit 1 (ucast (data ! 1))"

definition qr1676_decode :: "bytes \<Rightarrow> u8 option" where
  "qr1676_decode data =
     (let code = code1676 data
      in Option.bind (getSyndrome1576 code) (\<lambda>syndrome.
           let error_pattern = DECODING_TABLE_1576 ! unat syndrome;
               code = code XOR error_pattern
           in Some (ucast (drop_bit 7 code))))"

definition qr1676_encode :: "bytes \<Rightarrow> bytes" where
  "qr1676_encode data =
     (let value = drop_bit 1 (data ! 0) AND 0x7F;
          cksum = ENCODING_TABLE_1676 ! unat value
      in data[0 := ucast (drop_bit 8 cksum), 1 := ucast (cksum AND 0xFF)])"

section \<open>The decoding table\<close>

text \<open>
  More than one entry of the table belongs to patterns that no code word can be told from, but every
  pattern with up to two bits is among the entries.
\<close>

lemma inverts_distinct:
  assumes "inverts h 0 T" "length T = 2 ^ r" "r < 32"
  shows "distinct T"
proof -
  have "map h T = map of_nat [0..<2 ^ r]"
    using inverts_nth [OF assms(1)] assms(2) by (intro nth_equalityI) simp_all
  moreover have "inj_on (of_nat :: nat \<Rightarrow> u32) {0..<2 ^ r}"
  proof (rule inj_onI)
    fix i j :: nat assume "i \<in> {0..<2 ^ r}" "j \<in> {0..<2 ^ r}" and e: "(of_nat i :: u32) = of_nat j"
    moreover have "(2 :: nat) ^ r < 2 ^ 32" using assms(3) by (intro power_strict_increasing) simp_all
    ultimately have "i < 2 ^ 32" "j < 2 ^ 32" by simp_all
    then show "i = j" using arg_cong [OF e, of unat] by (simp add: unat_of_nat take_bit_nat_eq_self)
  qed
  ultimately have "distinct (map h T)" by (simp add: distinct_map)
  then show ?thesis by (simp add: distinct_map)
qed

lemma packed_table:
  assumes gen: "generator gen r" "r + m < 32"
    and T: "length T = 2 ^ r" "inverts (divide gen r m) 0 T" "\<forall>e \<in> set T. e < 2 ^ (r + m)"
    and count: "length (filter (\<lambda>e. weight e \<le> t) T) = (\<Sum>i \<le> t. (r + m) choose i)"
    and e: "e \<in> patterns (r + m) t"
  shows "T ! unat (divide gen r m e) = e"
proof -
  have "distinct T" using inverts_distinct [OF T(2,1)] gen(2) by simp
  then have "card (set (filter (\<lambda>e. weight e \<le> t) T)) = card (patterns (r + m) t)"
    using count card_patterns [OF gen(2), of t] by (subst distinct_card) simp_all
  moreover have "set (filter (\<lambda>e. weight e \<le> t) T) \<subseteq> patterns (r + m) t" using T(3) by (auto simp: patterns_def)
  moreover have "finite (patterns (r + m) t)" by simp
  ultimately have "set (filter (\<lambda>e. weight e \<le> t) T) = patterns (r + m) t" by (intro card_subset_eq)
  then have "e \<in> set T" using e by auto
  then obtain i where i: "i < 2 ^ r" "e = T ! i" using T(1) by (auto simp: in_set_conv_nth)
  have "(2 :: nat) ^ r < 2 ^ 32" using gen(2) by (intro power_strict_increasing) simp_all
  then show ?thesis
    using inverts_nth [OF T(2), of i] i T(1) by (simp add: unat_of_nat take_bit_nat_eq_self)
qed

definition qr_gen :: u32 where "qr_gen = 0x00000139"

lemma qr_generator [simp]: "generator qr_gen 8"
  by (simp add: generator_def qr_gen_def)

lemma qr_divide:
  "divide qr_gen 8 7 1 = 1" "divide qr_gen 8 7 0x2 = 0x2" "divide qr_gen 8 7 0x4 = 0x4" "divide qr_gen 8 7 0x8 = 0x8"
  "divide qr_gen 8 7 0x10 = 0x10" "divide qr_gen 8 7 0x20 = 0x20" "divide qr_gen 8 7 0x40 = 0x40" "divide qr_gen 8 7 0x80 = 0x80"
  "divide qr_gen 8 7 0x100 = 0x39" "divide qr_gen 8 7 0x200 = 0x72" "divide qr_gen 8 7 0x400 = 0xe4" "divide qr_gen 8 7 0x800 = 0xf1"
  "divide qr_gen 8 7 0x1000 = 0xdb" "divide qr_gen 8 7 0x2000 = 0x8f" "divide qr_gen 8 7 0x4000 = 0x27" "divide qr_gen 8 7 0x8000 = 0x8000"
  "divide qr_gen 8 7 0x10000 = 0x10000" "divide qr_gen 8 7 0x20000 = 0x20000" "divide qr_gen 8 7 0x40000 = 0x40000" "divide qr_gen 8 7 0x80000 = 0x80000"
  "divide qr_gen 8 7 0x100000 = 0x100000" "divide qr_gen 8 7 0x200000 = 0x200000" "divide qr_gen 8 7 0x400000 = 0x400000" "divide qr_gen 8 7 0x800000 = 0x800000"
  "divide qr_gen 8 7 0x1000000 = 0x1000000" "divide qr_gen 8 7 0x2000000 = 0x2000000" "divide qr_gen 8 7 0x4000000 = 0x4000000" "divide qr_gen 8 7 0x8000000 = 0x8000000"
  "divide qr_gen 8 7 0x10000000 = 0x10000000" "divide qr_gen 8 7 0x20000000 = 0x20000000" "divide qr_gen 8 7 0x40000000 = 0x40000000" "divide qr_gen 8 7 0x80000000 = 0x80000000"
  by (simp_all add: eval_divide qr_gen_def)

definition qr_columns :: "u32 list" where
  "qr_columns = [1, 0x2, 0x4, 0x8, 0x10, 0x20, 0x40, 0x80, 0x39, 0x72, 0xe4,
     0xf1, 0xdb, 0x8f, 0x27, 0x8000, 0x10000, 0x20000, 0x40000, 0x80000, 0x100000, 0x200000,
     0x400000, 0x800000, 0x1000000, 0x2000000, 0x4000000, 0x8000000, 0x10000000, 0x20000000, 0x40000000, 0x80000000]"

lemma qr_columns_eq: "columns_of (divide qr_gen 8 7) = qr_columns"
  unfolding columns_32 qr_columns_def by (simp only: qr_divide)

lemma qr_numeral: "divide qr_gen 8 7 (numeral k) = lin_num k qr_columns"
  using linear_numeral [OF xor_linear_divide] by (simp add: qr_columns_eq)

lemma qr_zero: "divide qr_gen 8 7 0 = 0"
  by (rule xor_linear_zero [OF xor_linear_divide])

lemma dec15: "inverts (divide qr_gen 8 7) 0 DECODING_TABLE_1576"
  unfolding DECODING_TABLE_1576_def by (simp add: qr_numeral qr_columns_def qr_divide qr_zero cong: inverts_cong)

lemma length_DECODING_TABLE_1576: "length DECODING_TABLE_1576 = 256"
  by (simp add: DECODING_TABLE_1576_def)

lemma light15: "length (filter (\<lambda>e. weight e \<le> 2) DECODING_TABLE_1576) = 121"
  unfolding DECODING_TABLE_1576_def by (simp add: weight_numeral_eq)

lemma less15: "list_all (\<lambda>e. e < 0x8000) DECODING_TABLE_1576"
  unfolding DECODING_TABLE_1576_def by simp


interpretation qr: error_table qr_gen 8 7 2 DECODING_TABLE_1576
proof
  show "generator qr_gen 8" by (rule qr_generator)
  show "DECODING_TABLE_1576 ! unat (divide qr_gen 8 7 e) = e" if "e \<in> patterns (8 + 7) 2" for e
  proof (rule packed_table [OF qr_generator])
    show "length DECODING_TABLE_1576 = 2 ^ 8" by (simp add: length_DECODING_TABLE_1576)
    show "\<forall>e \<in> set DECODING_TABLE_1576. e < 2 ^ (8 + 7)" using less15 by (simp add: list_all_iff)
    show "length (filter (\<lambda>e. weight e \<le> 2) DECODING_TABLE_1576) = (\<Sum>i \<le> 2. (8 + 7) choose i)"
      unfolding light15 by (simp add: eval_nat_numeral)
  qed (use that dec15 in simp_all)
qed simp_all

lemma getSyndrome1576_divides: "p < 2 ^ 15 \<Longrightarrow> getSyndrome1576 p = Some (divide qr_gen 8 7 p)"
proof -
  have x: "(2 ^ 14 :: u32) = 0x00004000" "(2 ^ 8 :: u32) = 0x00000100" "8 + 7 = (15 :: nat)" "15 - 1 = (14 :: nat)"
    "NOT (mask 8) = (0xffffff00 :: u32)" "qr_gen = 0x00000139"
    by (simp_all add: mask_eq_exp_minus_1 qr_gen_def)
  show "p < 2 ^ 15 \<Longrightarrow> getSyndrome1576 p = Some (divide qr_gen 8 7 p)"
    using qr.syndrome_returns [of p] unfolding getSyndrome1576_def x by (rule meta_mp)
qed

section \<open>The encoding table\<close>

definition word15 :: "u32 \<Rightarrow> u32" where
  "word15 v = push_bit 8 v XOR divide qr_gen 8 7 (push_bit 8 v)"

definition table1676 :: "u32 \<Rightarrow> u32" where
  "table1676 v = push_bit 1 (word15 v) XOR parity_word (word15 v)"

lemma xor_linear_table1676: "xor_linear table1676"
  unfolding table1676_def word15_def by (intro linear_intros)

lemma word15_values:
  "word15 1 = 0x139" "word15 0x2 = 0x272" "word15 0x4 = 0x4e4" "word15 0x8 = 0x8f1"
  "word15 0x10 = 0x10db" "word15 0x20 = 0x208f" "word15 0x40 = 0x4027" "word15 0x80 = 0"
  "word15 0x100 = 0" "word15 0x200 = 0" "word15 0x400 = 0" "word15 0x800 = 0"
  "word15 0x1000 = 0" "word15 0x2000 = 0" "word15 0x4000 = 0" "word15 0x8000 = 0"
  "word15 0x10000 = 0" "word15 0x20000 = 0" "word15 0x40000 = 0" "word15 0x80000 = 0"
  "word15 0x100000 = 0" "word15 0x200000 = 0" "word15 0x400000 = 0" "word15 0x800000 = 0"
  "word15 0x1000000 = 0" "word15 0x2000000 = 0" "word15 0x4000000 = 0" "word15 0x8000000 = 0"
  "word15 0x10000000 = 0" "word15 0x20000000 = 0" "word15 0x40000000 = 0" "word15 0x80000000 = 0"
  by (simp_all add: word15_def eval_divide qr_gen_def)

lemma table1676_values:
  "table1676 1 = 0x273" "table1676 0x2 = 0x4e5" "table1676 0x4 = 0x9c9" "table1676 0x8 = 0x11e2"
  "table1676 0x10 = 0x21b7" "table1676 0x20 = 0x411e" "table1676 0x40 = 0x804f" "table1676 0x80 = 0"
  "table1676 0x100 = 0" "table1676 0x200 = 0" "table1676 0x400 = 0" "table1676 0x800 = 0"
  "table1676 0x1000 = 0" "table1676 0x2000 = 0" "table1676 0x4000 = 0" "table1676 0x8000 = 0"
  "table1676 0x10000 = 0" "table1676 0x20000 = 0" "table1676 0x40000 = 0" "table1676 0x80000 = 0"
  "table1676 0x100000 = 0" "table1676 0x200000 = 0" "table1676 0x400000 = 0" "table1676 0x800000 = 0"
  "table1676 0x1000000 = 0" "table1676 0x2000000 = 0" "table1676 0x4000000 = 0" "table1676 0x8000000 = 0"
  "table1676 0x10000000 = 0" "table1676 0x20000000 = 0" "table1676 0x40000000 = 0" "table1676 0x80000000 = 0"
  by (simp_all only: table1676_def word15_values) (simp_all add: parity_numeral parity_0)

definition columns1676 :: "u32 list" where
  "columns1676 = [0x273, 0x4e5, 0x9c9, 0x11e2, 0x21b7, 0x411e, 0x804f, 0, 0, 0, 0,
     0, 0, 0, 0, 0, 0, 0, 0, 0, 0, 0,
     0, 0, 0, 0, 0, 0, 0, 0, 0, 0]"

lemma columns1676_eq: "columns_of table1676 = columns1676"
  unfolding columns_32 columns1676_def by (simp only: table1676_values)

lemma table1676_numeral: "table1676 (numeral k) = lin_num k columns1676"
  using linear_numeral [OF xor_linear_table1676] by (simp add: columns1676_eq)

lemma enc1676: "tabulates table1676 0 ENCODING_TABLE_1676"
  unfolding ENCODING_TABLE_1676_def
  by (simp add: table1676_numeral columns1676_def table1676_values xor_linear_zero [OF xor_linear_table1676] cong: tabulates_cong)

lemma length_ENCODING_TABLE_1676: "length ENCODING_TABLE_1676 = 128"
  by (simp add: ENCODING_TABLE_1676_def)

lemma word15_remainder:
  assumes "v < 2 ^ 7"
  shows "divide qr_gen 8 7 (push_bit 8 v) < 2 ^ 8"
proof -
  have "push_bit 8 v < (2 :: u32) ^ 15"
    using assms less_bits [of v 7] by (subst word_less_bits) (auto simp: bit_push_bit_iff)
  then show ?thesis using divide_less [OF qr_generator, of "push_bit 8 v" 7] by simp
qed

lemma divide_word15: "v < 2 ^ 7 \<Longrightarrow> divide qr_gen 8 7 (word15 v) = 0"
  using divide_small [OF word15_remainder] by (simp add: word15_def xor_linearD [OF xor_linear_divide])

lemma word15_data: "v < 2 ^ 7 \<Longrightarrow> drop_bit 8 (word15 v) = v"
  using less_bits [OF word15_remainder [of v]] bit_below [of v _ 7]
  by (intro bit_word_eqI) (fastforce simp: word15_def bit_drop_bit_eq bit_xor_iff bit_push_bit_iff)

lemma word15_less: "v < 2 ^ 7 \<Longrightarrow> word15 v < 2 ^ 15"
proof -
  assume v: "v < 2 ^ 7"
  have "\<not> bit (word15 v) i" if "15 \<le> i" for i
    using that less_bits [OF word15_remainder [OF v], of i] less_bits [OF v, of "i - 8"]
    by (auto simp: word15_def bit_xor_iff bit_push_bit_iff)
  then show ?thesis by (subst word_less_bits) simp_all
qed

end
