(* ===== verification/EMB.thy ===== *)
theory EMB
  imports QR1676 SlotType
begin

text \<open>
  The embedded signalling of a voice burst (\<^verbatim>\<open>src/src/common/dmr/data/EMB.cpp\<close>) and the sync
  patterns (\<^verbatim>\<open>src/src/common/dmr/Sync.cpp\<close>).
\<close>

section \<open>Embedded signalling\<close>

record emb =
  emb_colorCode :: u8
  emb_PI :: bool
  emb_LCSS :: u8

definition new_emb :: emb where
  "new_emb = \<lparr>emb_colorCode = 0, emb_PI = False, emb_LCSS = 0\<rparr>"

definition emb_bytes :: "bytes \<Rightarrow> bytes" where
  "emb_bytes data =
     [(push_bit 4 (data ! 13) AND 0xF0) OR (drop_bit 4 (data ! 14) AND 0x0F),
      (push_bit 4 (data ! 18) AND 0xF0) OR (drop_bit 4 (data ! 19) AND 0x0F)]"

text \<open>\<open>decode\<close> calls the decoder of the code, whose result it does not use.\<close>

definition emb_decode :: "bytes \<Rightarrow> emb option" where
  "emb_decode data =
     (let DMREMB = emb_bytes data
      in map_option (\<lambda>_. \<lparr>emb_colorCode = drop_bit 4 (DMREMB ! 0) AND 0x0F, emb_PI = (DMREMB ! 0 AND 0x08 = 0x08),
           emb_LCSS = drop_bit 1 (DMREMB ! 0) AND 0x03\<rparr>) (qr1676_decode DMREMB))"

definition emb_encode :: "emb \<Rightarrow> bytes \<Rightarrow> bytes" where
  "emb_encode e data =
     (let b = qr1676_encode
            [((push_bit 4 (emb_colorCode e) AND 0xF0) OR (if emb_PI e then 0x08 else 0x00)) OR (push_bit 1 (emb_LCSS e) AND 0x06), 0x00]
      in data[13 := (data ! 13 AND 0xF0) OR (drop_bit 4 (b ! 0) AND 0x0F),
              14 := (data ! 14 AND 0x0F) OR (push_bit 4 (b ! 0) AND 0xF0),
              18 := (data ! 18 AND 0xF0) OR (drop_bit 4 (b ! 1) AND 0x0F),
              19 := (data ! 19 AND 0x0F) OR (push_bit 4 (b ! 1) AND 0xF0)])"

section \<open>Sync patterns\<close>

definition BS_SOURCED_AUDIO_SYNC :: bytes where "BS_SOURCED_AUDIO_SYNC = [0x07, 0x55, 0xFD, 0x7D, 0xF7, 0x5F, 0x70]"
definition BS_SOURCED_DATA_SYNC :: bytes where "BS_SOURCED_DATA_SYNC = [0x0D, 0xFF, 0x57, 0xD7, 0x5D, 0xF5, 0xD0]"
definition MS_SOURCED_AUDIO_SYNC :: bytes where "MS_SOURCED_AUDIO_SYNC = [0x07, 0xF7, 0xD5, 0xDD, 0x57, 0xDF, 0xD0]"
definition MS_SOURCED_DATA_SYNC :: bytes where "MS_SOURCED_DATA_SYNC = [0x0D, 0x5D, 0x7F, 0x77, 0xFD, 0x75, 0x70]"
definition SYNC_MASK :: bytes where "SYNC_MASK = [0x0F, 0xFF, 0xFF, 0xFF, 0xFF, 0xFF, 0xF0]"

definition put_sync :: "bytes \<Rightarrow> bytes \<Rightarrow> bytes" where
  "put_sync sync data = foldl (\<lambda>data i. data[i + 13 := (data ! (i + 13) AND NOT (SYNC_MASK ! i)) OR sync ! i]) data [0..<7]"

definition addDMRDataSync :: "bytes \<Rightarrow> bool \<Rightarrow> bytes" where
  "addDMRDataSync data duplex = (if duplex then put_sync BS_SOURCED_DATA_SYNC data else put_sync MS_SOURCED_DATA_SYNC data)"

definition addDMRAudioSync :: "bytes \<Rightarrow> bool \<Rightarrow> bytes" where
  "addDMRAudioSync data duplex = (if duplex then put_sync BS_SOURCED_AUDIO_SYNC data else put_sync MS_SOURCED_AUDIO_SYNC data)"

section \<open>What a burst carries\<close>

lemma length_put_sync [simp]: "length (put_sync sync data) = length data"
proof -
  have "length (foldl (\<lambda>data i. data[i + 13 := (data ! (i + 13) AND NOT (SYNC_MASK ! i)) OR sync ! i]) data is) = length data" for "is"
    by (induction "is" arbitrary: data) simp_all
  then show ?thesis by (simp add: put_sync_def)
qed

lemma length_addSync [simp]: "length (addDMRDataSync data duplex) = length data" "length (addDMRAudioSync data duplex) = length data"
  by (simp_all add: addDMRDataSync_def addDMRAudioSync_def)

lemma length_emb_encode [simp]: "length (emb_encode e data) = length data"
  by (simp add: emb_encode_def Let_def)

text \<open>The slot type does not meet the sync pattern.\<close>

lemma put_sync_bytes:
  assumes "length data = 33"
  shows "put_sync sync data =
    data[13 := (data ! 13 AND 0xF0) OR sync ! 0, 14 := sync ! 1, 15 := sync ! 2, 16 := sync ! 3, 17 := sync ! 4,
         18 := sync ! 5, 19 := (data ! 19 AND 0x0F) OR sync ! 6]"
proof -
  have u: "[0..<7] = [0, 1, 2, 3, 4, 5, 6]" by (simp add: upt_rec)
  have n: "(- 16 :: u8) = 0xF0" "(- 256 :: u8) = 0" "(- 241 :: u8) = 0x0F" by simp_all
  show ?thesis using assms unfolding put_sync_def u SYNC_MASK_def by (simp add: n)
qed

lemma slottype_bytes_sync:
  assumes "length data = 33" "sync ! 0 AND 0xF0 = 0" "sync ! 6 AND 0x0F = 0"
  shows "slottype_bytes (put_sync sync data) = slottype_bytes data"
proof -
  have "\<not> bit (sync ! 0) 4 \<and> \<not> bit (sync ! 0) 5 \<and> \<not> bit (sync ! 0) 6 \<and> \<not> bit (sync ! 0) 7"
    using arg_cong [OF assms(2), of "\<lambda>x. (bit x 4, bit x 5, bit x 6, bit x 7)"] by (simp add: bit_simps)
  moreover have "\<not> bit (sync ! 6) 0 \<and> \<not> bit (sync ! 6) 1 \<and> \<not> bit (sync ! 6) 2 \<and> \<not> bit (sync ! 6) 3"
    using arg_cong [OF assms(3), of "\<lambda>x. (bit x 0, bit x 1, bit x 2, bit x 3)"] by (simp add: bit_simps)
  ultimately show ?thesis
    using assms(1) unfolding put_sync_bytes [OF assms(1)] slottype_bytes_def
    by (auto intro!: u8_eqI simp: bit_simps)
qed


text \<open>What \<open>encode\<close> writes is what \<open>decode\<close> gathers.\<close>

lemma emb_bytes_put:
  assumes "length data = 33"
  shows "emb_bytes (data[13 := (data ! 13 AND 0xF0) OR (drop_bit 4 b0 AND 0x0F), 14 := (data ! 14 AND 0x0F) OR (push_bit 4 b0 AND 0xF0),
      18 := (data ! 18 AND 0xF0) OR (drop_bit 4 b1 AND 0x0F), 19 := (data ! 19 AND 0x0F) OR (push_bit 4 b1 AND 0xF0)]) = [b0, b1]"
  using assms unfolding emb_bytes_def by (auto intro!: u8_eqI simp: bit_simps)

definition emb_fields :: "emb \<Rightarrow> u8" where
  "emb_fields e = ((push_bit 4 (emb_colorCode e) AND 0xF0) OR (if emb_PI e then 0x08 else 0x00)) OR (push_bit 1 (emb_LCSS e) AND 0x06)"

definition emb_value :: "emb \<Rightarrow> u8" where
  "emb_value e = drop_bit 1 (emb_fields e) AND 0x7F"

definition emb_ok :: "emb \<Rightarrow> bool" where
  "emb_ok e \<longleftrightarrow> emb_colorCode e < 16 \<and> emb_LCSS e < 4"

definition emb_of_byte :: "u8 \<Rightarrow> emb" where
  "emb_of_byte b = \<lparr>emb_colorCode = drop_bit 4 b AND 0x0F, emb_PI = (b AND 0x08 = 0x08), emb_LCSS = drop_bit 1 b AND 0x03\<rparr>"

lemma emb_decode_eq: "emb_decode data = map_option (\<lambda>_. emb_of_byte (emb_bytes data ! 0)) (qr1676_decode (emb_bytes data))"
  by (simp add: emb_decode_def emb_of_byte_def Let_def)

lemma table1676_bits:
  assumes "v < 2 ^ 7"
  shows "drop_bit 1 (table1676 v) = word15 v" "table1676 v < 2 ^ 16"
proof -
  show "drop_bit 1 (table1676 v) = word15 v"
    using bit_below [OF _ word15_less [OF assms]]
    by (intro bit_word_eqI) (fastforce simp: table1676_def bit_drop_bit_eq bit_xor_iff bit_push_bit_iff parity_word_bits simp del: push_bit_Suc)
  show "table1676 v < 2 ^ 16"
    using less_bits [OF word15_less [OF assms]]
    by (subst word_less_bits) (auto simp: table1676_def bit_xor_iff bit_push_bit_iff parity_word_bits simp del: push_bit_Suc)
qed

lemma code1676_two: "code1676 [a, b] = push_bit 7 (ucast a) + drop_bit 1 (ucast b)"
  by (simp add: code1676_def)

lemma join_16:
  fixes c :: u32
  assumes "c < 2 ^ 16"
  shows "bit (push_bit 7 (ucast (ucast (drop_bit 8 c) :: u8)) OR drop_bit 1 (ucast (ucast (c AND mask 8) :: u8) :: u32)) n = bit (drop_bit 1 c) n"
proof -
  have l: "bit (push_bit 7 (ucast (ucast (drop_bit 8 c) :: u8) :: u32)) n \<longleftrightarrow> 7 \<le> n \<and> n < 15 \<and> bit c (Suc n)"
    by (auto simp: bit_push_bit_iff bit_ucast_iff bit_drop_bit_eq simp del: drop_bit_Suc push_bit_Suc)
  have r: "bit (drop_bit 1 (ucast (ucast (c AND mask 8) :: u8) :: u32)) n \<longleftrightarrow> n < 7 \<and> bit c (Suc n)"
    by (auto simp: bit_drop_bit_eq bit_ucast_iff bit_and_iff bit_mask_iff simp del: drop_bit_Suc)
  have b: "bit c (Suc n) \<Longrightarrow> Suc n < 16" using bit_below [OF _ assms, of "Suc n"] by simp
  show ?thesis unfolding bit_or_iff l r using b by (auto simp: bit_drop_bit_eq simp del: drop_bit_Suc)
qed

lemma code1676_top: "drop_bit 8 (code1676 [a, b]) = ucast (drop_bit 1 a)"
proof -
  have "push_bit 7 (ucast a) + drop_bit 1 (ucast b) = push_bit 7 (ucast a) OR (drop_bit 1 (ucast b) :: u32)"
    by (rule disjunctive_add) (auto simp: bit_push_bit_iff bit_drop_bit_eq bit_ucast_iff dest!: u8_bit_bound simp del: drop_bit_Suc)
  moreover have "drop_bit 8 (push_bit 7 (ucast a) OR drop_bit 1 (ucast b)) = (ucast (drop_bit 1 a) :: u32)"
  proof (rule bit_word_eqI)
    fix n
    have "bit a (1 + n) \<Longrightarrow> n < 7" "\<not> bit b (9 + n)" using u8_bit_bound [of a "1 + n"] u8_bit_bound [of b "9 + n"] by auto
    then show "bit (drop_bit 8 (push_bit 7 (ucast a) OR drop_bit 1 (ucast b :: u32))) n = bit (ucast (drop_bit 1 a) :: u32) n"
      by (auto simp: bit_drop_bit_eq bit_or_iff bit_push_bit_iff bit_ucast_iff simp del: drop_bit_Suc)
  qed
  ultimately show ?thesis by (simp only: code1676_two)
qed

lemma code1676_join:
  assumes "c < 2 ^ 16"
  shows "code1676 [ucast (drop_bit 8 c), ucast (c AND 0xFF)] = drop_bit 1 c"
proof -
  have m: "(0xFF :: u32) = mask 8" by (simp add: mask_eq_exp_minus_1)
  have "push_bit 7 (ucast (ucast (drop_bit 8 c) :: u8)) + drop_bit 1 (ucast (ucast (c AND 0xFF) :: u8)) =
      push_bit 7 (ucast (ucast (drop_bit 8 c) :: u8)) OR drop_bit 1 (ucast (ucast (c AND 0xFF) :: u8) :: u32)"
    unfolding m by (rule disjunctive_add) (auto simp: bit_simps)
  also have "\<dots> = drop_bit 1 c" unfolding m by (rule bit_word_eqI) (rule join_16 [OF assms])
  finally show ?thesis by (simp only: code1676_two)
qed


lemma u8_mask_7: "mask 7 = (0x7F :: u8)" by (simp add: mask_eq_exp_minus_1)

lemma emb_fields_bits:
  assumes "emb_ok e"
  shows "emb_of_byte (emb_fields e) = e" "ucast (emb_value e) < (2 ^ 7 :: u32)"
proof -
  have c: "\<not> bit (emb_colorCode e) 4" "\<not> bit (emb_colorCode e) 5" "\<not> bit (emb_colorCode e) 6" "\<not> bit (emb_colorCode e) 7"
    using nibble_high [of "emb_colorCode e"] assms by (simp_all add: emb_ok_def)
  have l: "\<not> bit (emb_LCSS e) k" if "2 \<le> k" for k
    using word_less_bits [of 2 "emb_LCSS e"] assms that by (simp add: emb_ok_def)
  have "drop_bit 4 (emb_fields e) AND 0x0F = emb_colorCode e"
    using c by (intro u8_eqI) (simp_all add: emb_fields_def bit_simps)
  moreover have "(emb_fields e AND 0x08 = 0x08) = emb_PI e"
    unfolding mask_test using l [of 2] by (simp add: emb_fields_def bit_simps)
  moreover have "drop_bit 1 (emb_fields e) AND 0x03 = emb_LCSS e"
    using l by (intro u8_eqI) (simp_all add: emb_fields_def bit_simps del: push_bit_Suc)
  ultimately show "emb_of_byte (emb_fields e) = e" by (simp add: emb_of_byte_def)
  show "ucast (emb_value e) < (2 ^ 7 :: u32)"
    by (subst word_less_bits) (auto simp: emb_value_def bit_ucast_iff bit_and_iff bit_mask_iff simp flip: u8_mask_7)
qed

lemma emb_of_byte_eq: "emb_of_byte b = emb_of_byte b' \<longleftrightarrow> drop_bit 1 b = drop_bit 1 b'"
proof
  assume d: "drop_bit 1 b = drop_bit 1 b'"
  have h: "bit b k = bit b' k" if "0 < k" for k
  proof -
    have "bit b (1 + (k - 1)) = bit b' (1 + (k - 1))"
      using arg_cong [OF d, of "\<lambda>x. bit x (k - 1)"] unfolding bit_drop_bit_eq comp_apply .
    then show ?thesis using that by simp
  qed
  have "drop_bit 4 b AND 0x0F = drop_bit 4 b' AND 0x0F" by (rule u8_eqI) (simp_all add: bit_simps h)
  moreover have "drop_bit 1 b AND 0x03 = drop_bit 1 b' AND 0x03"
    by (rule u8_eqI) (simp_all add: bit_simps h del: drop_bit_Suc)
  ultimately show "emb_of_byte b = emb_of_byte b'"
    unfolding emb_of_byte_def mask_test using h by simp
next
  assume "emb_of_byte b = emb_of_byte b'"
  then have e: "drop_bit 4 b AND 0x0F = drop_bit 4 b' AND 0x0F" "bit b 3 = bit b' 3" "drop_bit 1 b AND 0x03 = drop_bit 1 b' AND 0x03"
    by (simp_all only: emb_of_byte_def mask_test emb.ext_inject)
  have b1: "bit (drop_bit 1 c AND 0x03) 0 = bit c 1" "bit (drop_bit 1 c AND 0x03) 1 = bit c 2" for c :: u8
    by (simp_all add: bit_simps numeral_2_eq_2)
  have b4: "bit (drop_bit 4 c AND 0x0F) 0 = bit c 4" "bit (drop_bit 4 c AND 0x0F) 1 = bit c 5"
    "bit (drop_bit 4 c AND 0x0F) 2 = bit c 6" "bit (drop_bit 4 c AND 0x0F) 3 = bit c 7" for c :: u8
    by (simp_all add: bit_simps)
  have "bit b 4 = bit b' 4" "bit b 5 = bit b' 5" "bit b 6 = bit b' 6" "bit b 7 = bit b' 7" "bit b 1 = bit b' 1" "bit b 2 = bit b' 2" "bit b 3 = bit b' 3"
    unfolding b1 [symmetric] b4 [symmetric] e by (rule refl)+
  moreover have "\<not> bit c 8" for c :: u8 using u8_bit_bound [of c 8] by blast
  ultimately show "drop_bit 1 b = drop_bit 1 b'"
    by (intro u8_eqI) (simp_all add: bit_drop_bit_eq eval_nat_numeral del: drop_bit_Suc)
qed

lemma drop_fields: "drop_bit 1 (emb_fields e) = emb_value e"
proof (rule bit_word_eqI)
  fix n assume "n < LENGTH(8)"
  have "bit (emb_fields e) (1 + n) \<Longrightarrow> n < 7" using u8_bit_bound [of "emb_fields e" "1 + n"] by simp
  then show "bit (drop_bit 1 (emb_fields e)) n = bit (emb_value e) n"
    unfolding emb_value_def u8_mask_7 [symmetric] bit_and_iff bit_mask_iff bit_drop_bit_eq comp_apply by auto
qed

lemma emb_sent:
  assumes "emb_ok e" "length data = 33"
  shows "code1676 (emb_bytes (emb_encode e data)) = word15 (ucast (emb_value e))"
    "drop_bit 1 (emb_bytes (emb_encode e data) ! 0) = emb_value e"
proof -
  let ?v = "emb_value e"
  note v = emb_fields_bits(2) [OF assms(1)]
  have "unat (ucast ?v :: u32) = unat ?v" using unat_u8_less [of ?v] by (simp add: unsigned_ucast_eq take_bit_nat_eq_self)
  then have "unat ?v < 128" using v by (simp add: word_less_nat_alt)
  then have "ENCODING_TABLE_1676 ! unat ?v = table1676 (ucast ?v)"
    using tabulates_nth [OF enc1676, of "unat ?v"] length_ENCODING_TABLE_1676 by (simp add: unsigned_ucast_eq)
  then have b: "qr1676_encode [emb_fields e, 0x00] = [ucast (drop_bit 8 (table1676 (ucast ?v))), ucast (table1676 (ucast ?v) AND 0xFF)]"
    unfolding qr1676_encode_def Let_def nth_Cons_0 emb_value_def [symmetric] by simp
  have e: "emb_bytes (emb_encode e data) = qr1676_encode [emb_fields e, 0x00]"
    unfolding emb_encode_def Let_def emb_bytes_put [OF assms(2)] emb_fields_def [symmetric] b by simp
  show "code1676 (emb_bytes (emb_encode e data)) = word15 (ucast ?v)"
    unfolding e b code1676_join [OF table1676_bits(2) [OF v]] by (rule table1676_bits(1) [OF v])
  have "drop_bit 1 (ucast (drop_bit 8 (table1676 (ucast ?v))) :: u8) = ucast (drop_bit 8 (drop_bit 1 (table1676 (ucast ?v))))"
  proof (rule bit_word_eqI)
    fix n
    have "bit (table1676 (ucast ?v)) (9 + n) \<Longrightarrow> n < 7"
      using bit_below [OF _ table1676_bits(2) [OF v], of "9 + n"] by simp
    then show "bit (drop_bit 1 (ucast (drop_bit 8 (table1676 (ucast ?v))) :: u8)) n =
        bit (ucast (drop_bit 8 (drop_bit 1 (table1676 (ucast ?v)))) :: u8) n"
      unfolding drop_bit_drop_bit bit_drop_bit_eq comp_apply bit_ucast_iff by auto
  qed
  also have "\<dots> = ?v" unfolding table1676_bits(1) [OF v] word15_data [OF v] by (rule ucast_back)
  finally show "drop_bit 1 (emb_bytes (emb_encode e data) ! 0) = emb_value e" unfolding e b by simp
qed


text \<open>
  Embedded signalling that arrives as it was sent is read back.
\<close>

theorem emb_roundtrip:
  assumes "emb_ok e" "length data = 33"
  shows "emb_decode (emb_encode e data) = Some e"
proof -
  let ?w = "word15 (ucast (emb_value e))"
  note v = emb_fields_bits(2) [OF assms(1)]
  have "qr1676_decode (emb_bytes (emb_encode e data)) = Some (ucast (drop_bit 7 (?w XOR DECODING_TABLE_1576 ! unat (divide qr_gen 8 7 ?w))))"
    unfolding qr1676_decode_def emb_sent(1) [OF assms] Let_def getSyndrome1576_divides [OF word15_less [OF v]] by simp
  moreover have "emb_of_byte (emb_bytes (emb_encode e data) ! 0) = emb_of_byte (emb_fields e)"
    unfolding emb_of_byte_eq drop_fields using emb_sent(2) [OF assms] .
  ultimately show ?thesis using emb_fields_bits(1) [OF assms(1)] by (simp add: emb_decode_eq)
qed

theorem emb_roundtrip_witness:
  "emb_decode (emb_encode \<lparr>emb_colorCode = 5, emb_PI = True, emb_LCSS = 3\<rparr> (replicate 33 0xA5)) =
     Some \<lparr>emb_colorCode = 5, emb_PI = True, emb_LCSS = 3\<rparr>"
  by (rule emb_roundtrip) (simp_all add: emb_ok_def)


lemma ucast_byte_inj: "(ucast (a :: u8) :: u32) = ucast b \<longleftrightarrow> a = b"
  by (metis ucast_back)

lemma xor_left_cancel_zero: "(a :: u32) XOR b = a \<longleftrightarrow> b = 0"
proof
  assume "a XOR b = a"
  then have "a XOR (a XOR b) = a XOR a" by simp
  then show "b = 0" by (simp add: xor.assoc [symmetric])
qed simp

text \<open>
  C32. The code behind it corrects two wrong bits, and the decoder is called, but \<open>decode\<close> reads its fields
  from the received bits: they are the sent ones only when no error met the seven data bits.
\<close>

theorem emb_correction_discarded:
  assumes "emb_ok e" "length data = 33" "x < 2 ^ 15" "weight x \<le> 2"
    and "code1676 (emb_bytes received) = code1676 (emb_bytes (emb_encode e data)) XOR x"
  shows "qr1676_decode (emb_bytes received) = qr1676_decode (emb_bytes (emb_encode e data)) \<and>
    (emb_decode received = Some e \<longleftrightarrow> drop_bit 8 x = 0)"
proof -
  let ?w = "word15 (ucast (emb_value e))" and ?T = "\<lambda>c. DECODING_TABLE_1576 ! unat (divide qr_gen 8 7 c)"
  note v = emb_fields_bits(2) [OF assms(1)]
  have c: "code1676 (emb_bytes received) = ?w XOR x" using assms(5) emb_sent(1) [OF assms(1,2)] by simp
  have x: "x \<in> patterns (8 + 7) 2" "(0 :: u32) \<in> patterns (8 + 7) 2" using assms(3,4) by (simp_all add: patterns_def)
  have mend: "(?w XOR x) XOR ?T (?w XOR x) = ?w" "?w XOR ?T ?w = ?w"
    using qr.corrects [OF divide_word15 [OF v] x(1)] qr.corrects [OF divide_word15 [OF v] x(2)] by simp_all
  have l: "?w XOR x < 2 ^ 15" using word15_less [OF v] assms(3) by (intro xor_less) simp_all
  have q: "qr1676_decode (emb_bytes received) = Some (ucast (drop_bit 7 ?w))"
    unfolding qr1676_decode_def c Let_def getSyndrome1576_divides [OF l] bind.bind_lunit mend ..
  have q': "qr1676_decode (emb_bytes (emb_encode e data)) = Some (ucast (drop_bit 7 ?w))"
    unfolding qr1676_decode_def emb_sent(1) [OF assms(1,2)] Let_def getSyndrome1576_divides [OF word15_less [OF v]] bind.bind_lunit mend ..
  have "drop_bit 8 (?w XOR x) = ucast (drop_bit 1 (emb_bytes received ! 0))"
    unfolding c [symmetric] emb_bytes_def code1676_top nth_Cons_0 ..
  then have "ucast (drop_bit 1 (emb_bytes received ! 0)) = ucast (emb_value e) XOR drop_bit 8 x"
    by (simp only: drop_bit_xor word15_data [OF v])
  moreover have "emb_decode received = Some (emb_of_byte (emb_bytes received ! 0))" by (simp add: emb_decode_eq q)
  then have "emb_decode received = Some e \<longleftrightarrow> drop_bit 1 (emb_bytes received ! 0) = emb_value e"
    using emb_of_byte_eq [of "emb_bytes received ! 0" "emb_fields e"] emb_fields_bits(1) [OF assms(1)] drop_fields [of e]
    by (simp only: option.inject)
  moreover have "drop_bit 1 (emb_bytes received ! 0) = emb_value e \<longleftrightarrow>
      (ucast (drop_bit 1 (emb_bytes received ! 0)) :: u32) = ucast (emb_value e)"
    by (simp only: ucast_byte_inj)
  moreover have "(a :: u32) XOR b = a \<longleftrightarrow> b = 0" for a b
    using xor_left_cancel_zero by blast
  ultimately show ?thesis unfolding q q' by (simp only: simp_thms)
qed


definition sample_emb :: emb where "sample_emb = \<lparr>emb_colorCode = 5, emb_PI = True, emb_LCSS = 3\<rparr>"

lemma sample_emb_sent: "emb_encode sample_emb (replicate 33 0xA5) = (replicate 33 0xA5)[13 := 0xA5, 14 := 0xF5, 18 := 0xAA, 19 := 0x35]"
  by (simp add: emb_encode_def qr1676_encode_def ENCODING_TABLE_1676_def sample_emb_def Let_def)

theorem emb_correction_discarded_witness:
  "qr1676_decode (emb_bytes ((emb_encode sample_emb (replicate 33 0xA5))[14 := 0xD5])) =
     qr1676_decode (emb_bytes (emb_encode sample_emb (replicate 33 0xA5))) \<and>
   emb_decode ((emb_encode sample_emb (replicate 33 0xA5))[14 := 0xD5]) \<noteq> Some sample_emb"
  using emb_correction_discarded [of sample_emb "replicate 33 0xA5" "0x100" "(emb_encode sample_emb (replicate 33 0xA5))[14 := 0xD5]"]
  unfolding sample_emb_sent
  by (simp add: emb_ok_def sample_emb_def weight_numeral_eq emb_bytes_def code1676_def)

end
