(* ===== verification/EmbeddedData.thy ===== *)
theory EmbeddedData
  imports EMB LinkControl
begin

text \<open>
  The link control that a voice call repeats inside its bursts, thirty-two bits at a time
  (\<^verbatim>\<open>src/src/common/dmr/data/EmbeddedData.cpp\<close>): 72 bits and a five-bit checksum in a matrix of
  eight rows of sixteen bits, seven of them Hamming words, the last one the column sums.
\<close>

section \<open>State\<close>

datatype lc_state = LCS_NONE | LCS_FIRST | LCS_SECOND | LCS_THIRD

record embedded_data =
  ed_valid :: bool
  ed_FLCO :: u8
  ed_state :: lc_state
  ed_data :: bits
  ed_raw :: bits

text \<open>The constructor allocates the two arrays without a value.\<close>

definition new_embedded_data :: "bits \<Rightarrow> bits \<Rightarrow> embedded_data" where
  "new_embedded_data data raw =
     \<lparr>ed_valid = False, ed_FLCO = FLCO_GROUP, ed_state = LCS_NONE, ed_data = data, ed_raw = raw\<rparr>"

definition ed_reset :: "embedded_data \<Rightarrow> embedded_data" where
  "ed_reset ed = ed\<lparr>ed_state := LCS_NONE, ed_valid := False\<rparr>"

section \<open>The matrix\<close>

text \<open>The index into the matrix goes down the columns; the number of the bit in \<open>m_raw\<close> counts up.\<close>

definition next_cell :: "nat \<Rightarrow> nat" where
  "next_cell b = (if b + 16 > 127 then b + 16 - 127 else b + 16)"

definition unpack_matrix :: "bits \<Rightarrow> bits" where
  "unpack_matrix raw = fst (foldl (\<lambda>(data, b) a. (data[b := raw ! a], next_cell b)) (replicate 128 False, 0) [0..<128])"

definition pack_matrix :: "bits \<Rightarrow> bits \<Rightarrow> bits" where
  "pack_matrix data raw = fst (foldl (\<lambda>(raw, b) a. (raw[a := data ! b], next_cell b)) (raw, 0) [0..<128])"

definition row_starts :: "nat list" where
  "row_starts = [0, 16, 32, 48, 64, 80, 96]"

text \<open>The cells of the payload, in the order of the seven loops, and those of the checksum, high bit first.\<close>

definition payload_cells :: "nat list" where
  "payload_cells = [0..<11] @ [16..<27] @ [32..<42] @ [48..<58] @ [64..<74] @ [80..<90] @ [96..<106]"

definition crc_cells :: "nat list" where
  "crc_cells = [42, 58, 74, 90, 106]"

definition column_odd :: "bits \<Rightarrow> nat \<Rightarrow> bool" where
  "column_odd data a = xors data (map (\<lambda>r. a + r) row_starts)"

fun check_rows :: "nat list \<Rightarrow> bits \<Rightarrow> bits option" where
  "check_rows [] data = Some data"
| "check_rows (a # as) data =
     (case decode16114 (drop a data) of
        (ok, row) \<Rightarrow> if \<not> ok then None else check_rows as (memcpy_at data a row))"

definition cell_crc :: "bits \<Rightarrow> u32" where
  "cell_crc data =
     ((((if data ! 42 then 16 else 0) + (if data ! 58 then 8 else 0)) + (if data ! 74 then 4 else 0)) +
       (if data ! 90 then 2 else 0)) + (if data ! 106 then 1 else 0)"

definition get_payload :: "bits \<Rightarrow> bits \<Rightarrow> bits" where
  "get_payload data out = foldl (\<lambda>out (b, a). out[b := data ! a]) out (zip [0..<72] payload_cells)"

definition put_payload :: "bits \<Rightarrow> bits \<Rightarrow> bits" where
  "put_payload out data = foldl (\<lambda>data (b, a). data[a := out ! b]) data (zip [0..<72] payload_cells)"

definition decodeEmbeddedData :: "embedded_data \<Rightarrow> embedded_data" where
  "decodeEmbeddedData ed =
     (case check_rows row_starts (unpack_matrix (ed_raw ed)) of
        None \<Rightarrow> ed
      | Some data \<Rightarrow>
          if \<exists>a \<in> {0..<16}. column_odd data a \<noteq> data ! (a + 112) then ed
          else
            let out = get_payload data (ed_data ed)
            in if \<not> checkFiveBit out (cell_crc data) then ed\<lparr>ed_data := out\<rparr>
               else ed\<lparr>ed_data := out, ed_valid := True, ed_FLCO := bitsToByteBE out AND 0x3F\<rparr>)"

definition encode_matrix :: "bits \<Rightarrow> bits" where
  "encode_matrix out =
     (let crc = encodeFiveBit out;
          data = replicate 128 False;
          data = data[106 := (crc AND 0x01 = 0x01), 90 := (crc AND 0x02 = 0x02), 74 := (crc AND 0x04 = 0x04),
                      58 := (crc AND 0x08 = 0x08), 42 := (crc AND 0x10 = 0x10)];
          data = put_payload out data;
          data = foldl (\<lambda>data a. memcpy_at data a (encode16114 (drop a data))) data row_starts
      in foldl (\<lambda>data a. data[a + 112 := column_odd data a]) data [0..<16])"

definition encodeEmbeddedData :: "embedded_data \<Rightarrow> embedded_data" where
  "encodeEmbeddedData ed = ed\<lparr>ed_raw := pack_matrix (encode_matrix (ed_data ed)) (ed_raw ed)\<rparr>"

section \<open>Operations\<close>

definition raw_block :: "bytes \<Rightarrow> bits" where
  "raw_block data = map (\<lambda>a. concat (map (\<lambda>k. byteToBitsBE (data ! k)) [14, 15, 16, 17, 18]) ! (a + 4)) [0..<32]"

definition ed_addData :: "embedded_data \<Rightarrow> bytes \<Rightarrow> u8 \<Rightarrow> bool \<times> embedded_data" where
  "ed_addData ed data lcss =
     (if lcss = 1 then (False, ed\<lparr>ed_raw := memcpy_at (ed_raw ed) 0 (raw_block data), ed_state := LCS_FIRST, ed_valid := False\<rparr>)
      else if lcss = 3 \<and> ed_state ed = LCS_FIRST
        then (False, ed\<lparr>ed_raw := memcpy_at (ed_raw ed) 32 (raw_block data), ed_state := LCS_SECOND\<rparr>)
      else if lcss = 3 \<and> ed_state ed = LCS_SECOND
        then (False, ed\<lparr>ed_raw := memcpy_at (ed_raw ed) 64 (raw_block data), ed_state := LCS_THIRD\<rparr>)
      else if lcss = 2 \<and> ed_state ed = LCS_THIRD then
        let ed = decodeEmbeddedData (ed\<lparr>ed_raw := memcpy_at (ed_raw ed) 96 (raw_block data), ed_state := LCS_NONE\<rparr>);
            ed = (if ed_valid ed then encodeEmbeddedData ed else ed)
        in (ed_valid ed, ed)
      else (False, ed))"

definition ed_getData :: "embedded_data \<Rightarrow> bytes \<Rightarrow> u8 \<Rightarrow> u8 \<times> bytes" where
  "ed_getData ed data n =
     (if 1 \<le> n \<and> n < 5 then
        let n = n - 1;
            bits = memcpy_at (replicate 40 False) 4 (take 32 (drop (unat n * 32) (ed_raw ed)));
            bytes = map (\<lambda>k. bitsToByteBE (drop k bits)) [0, 8, 16, 24, 32];
            data = data[14 := (data ! 14 AND 0xF0) OR (bytes ! 0 AND 0x0F), 15 := bytes ! 1, 16 := bytes ! 2, 17 := bytes ! 3,
                        18 := (data ! 18 AND 0x0F) OR (bytes ! 4 AND 0xF0)]
        in (if n = 0 then 1 else if n = 3 then 2 else 3, data)
      else (0, data[14 := data ! 14 AND 0xF0, 15 := 0x00, 16 := 0x00, 17 := 0x00, 18 := data ! 18 AND 0x0F]))"

text \<open>\<open>mem\<close> is the memory of the byte buffer inside \<open>LC::getData\<close>.\<close>

definition ed_setLC :: "embedded_data \<Rightarrow> bytes \<Rightarrow> lc \<Rightarrow> embedded_data" where
  "ed_setLC ed mem l =
     encodeEmbeddedData (ed\<lparr>ed_data := lc_getBits l mem (ed_data ed), ed_FLCO := lc_FLCO l, ed_valid := True\<rparr>)"

definition ed_getLC :: "embedded_data \<Rightarrow> lc option" where
  "ed_getLC ed =
     (if \<not> ed_valid ed then None
      else if ed_FLCO ed \<noteq> FLCO_GROUP \<and> ed_FLCO ed \<noteq> FLCO_PRIVATE then None
      else Some (lc_of_bits (ed_data ed)))"

definition ed_getRawData :: "embedded_data \<Rightarrow> bytes \<Rightarrow> bool \<times> bytes" where
  "ed_getRawData ed data =
     (if \<not> ed_valid ed then (False, data)
      else (True, foldl (\<lambda>data k. data[k := bitsToByteBE (drop (8 * k) (ed_data ed))]) data [0..<9]))"

section \<open>Packing the matrix\<close>

definition cell :: "nat \<Rightarrow> nat" where
  "cell a = 16 * (a mod 8) + a div 8"

lemma cell_0: "cell 0 = 0" by (simp add: cell_def)

lemma next_cell: "a < 127 \<Longrightarrow> next_cell (cell a) = cell (Suc a)"
proof -
  assume a: "a < 127"
  define q r where "q = a div 8" and "r = a mod 8"
  have qr: "a = 8 * q + r" "r < 8" "q \<le> 15" using a unfolding q_def r_def by (simp, simp, linarith)
  show ?thesis
  proof (cases "r = 7")
    case True
    then have "Suc a = 8 * Suc q" using qr by simp
    then show ?thesis using qr True by (simp add: cell_def next_cell_def)
  next
    case False
    then have "Suc r < 8" "Suc a = 8 * q + Suc r" using qr by simp_all
    then have "Suc a div 8 = q" "Suc a mod 8 = Suc r" "a div 8 = q" "a mod 8 = r" using qr by simp_all
    then show ?thesis using qr \<open>Suc r < 8\<close> by (simp add: cell_def next_cell_def)
  qed
qed

lemma cell_bound: "a < 128 \<Longrightarrow> cell a < 128"
proof -
  assume "a < 128"
  then have "a div 8 < 16" "a mod 8 < 8" by simp_all
  then show ?thesis unfolding cell_def by linarith
qed

lemma cell_inj: "a < 128 \<Longrightarrow> b < 128 \<Longrightarrow> cell a = cell b \<Longrightarrow> a = b"
proof -
  assume ab: "a < 128" "b < 128" "cell a = cell b"
  have "cell a mod 16 = a div 8" "cell a div 16 = a mod 8" "cell b mod 16 = b div 8" "cell b div 16 = b mod 8"
    using ab(1,2) by (simp_all add: cell_def)
  then have "a div 8 = b div 8" "a mod 8 = b mod 8" using ab(3) by simp_all
  then show ?thesis by (metis div_mult_mod_eq)
qed

lemma cell_of: "r < 8 \<Longrightarrow> k < 16 \<Longrightarrow> cell (8 * k + r) = 16 * r + k"
  by (simp add: cell_def)

lemma distinct_cells: "distinct (map cell [0..<128])"
  unfolding distinct_map by (auto intro!: inj_onI cell_inj)

lemma walk_cells:
  "n \<le> 128 \<Longrightarrow> foldl (\<lambda>(s, b) a. (f s b a, next_cell b)) (s, 0) [0..<n] =
     (foldl (\<lambda>s a. f s (cell a) a) s [0..<n], if n = 0 then 0 else next_cell (cell (n - 1)))"
proof (induction n)
  case (Suc n)
  have "(if n = 0 then 0 else next_cell (cell (n - 1))) = cell n" using Suc.prems next_cell [of "n - 1"] by (auto simp: cell_0)
  then show ?case using Suc by simp
qed simp

lemma unpack_matrix_nth: "a < 128 \<Longrightarrow> unpack_matrix raw ! cell a = raw ! a"
  unfolding unpack_matrix_def walk_cells [OF order_refl] fst_conv
  by (rule foldl_update_at [OF distinct_cells]) (simp_all add: cell_bound)

lemma length_unpack_matrix [simp]: "length (unpack_matrix raw) = 128"
  unfolding unpack_matrix_def walk_cells [OF order_refl] by simp

lemma pack_matrix_nth: "length raw = 128 \<Longrightarrow> a < 128 \<Longrightarrow> pack_matrix data raw ! a = data ! cell a"
  unfolding pack_matrix_def walk_cells [OF order_refl] fst_conv
  using foldl_update_at [of "\<lambda>a. a" "[0..<128]" a raw "\<lambda>a. data ! cell a"] by simp

lemma length_pack_matrix [simp]: "length (pack_matrix data raw) = length raw"
  unfolding pack_matrix_def walk_cells [OF order_refl] fst_conv
  using foldl_update_length [of "\<lambda>a. a" "\<lambda>a. data ! cell a" raw "[0..<128]"] by simp

section \<open>Rows\<close>

lemma xors_append: "\<forall>i \<in> set is. i < length x \<Longrightarrow> xors (x @ y) is = xors x is"
  by (rule xors_cong) (simp add: nth_append)

lemma rows16114_bounds: "\<forall>(is, p) \<in> set rows16114. (\<forall>i \<in> set is. i < 16) \<and> p < 16"
  by (simp add: rows16114_def)

lemma put_parity_append:
  assumes "\<forall>(is, p) \<in> set rows. (\<forall>i \<in> set is. i < length x) \<and> p < length x"
  shows "put_parity rows (x @ y) = put_parity rows x @ y"
  using assms
proof (induction rows arbitrary: x)
  case (Cons r rows)
  obtain js p where r: "r = (js, p)" by (cases r)
  have "(x @ y)[p := xors (x @ y) js] = x[p := xors x js] @ y"
    using Cons.prems xors_append [of js x y] r by (simp add: list_update_append)
  then show ?case using Cons.IH [of "x[p := xors x js]"] Cons.prems by (simp add: put_parity_def r)
qed (simp add: put_parity_def)

lemma mismatches_append:
  assumes "\<forall>(is, p) \<in> set rows. (\<forall>i \<in> set is. i < length x) \<and> p < length x"
  shows "mismatches rows (x @ y) = mismatches rows x"
  using assms xors_append [of _ x y] by (fastforce simp: mismatches_def nth_append intro!: map_cong)

lemma encode16114_append: "length x = 16 \<Longrightarrow> encode16114 (x @ y) = encode16114 x @ y"
  using rows16114_bounds by (simp add: encode16114_def put_parity_append)

lemma length_encode16114 [simp]: "length (encode16114 x) = length x"
  by (simp add: encode16114_def)

lemma decode16114_append:
  assumes "length x = 16" "decode16114 x = (ok, x')"
  shows "decode16114 (x @ y) = (ok, x' @ y)"
proof -
  have m: "mismatches rows16114 (x @ y) = mismatches rows16114 x"
    using rows16114_bounds assms(1) by (simp add: mismatches_append)
  have c: "i < 16" if "map_of cases16114 f = Some i" for f i
    using map_of_SomeD [OF that] by (auto simp: cases16114_def)
  show ?thesis
    using assms c unfolding decode16114_def correct_def m
    by (auto simp: list_update_append nth_append split: option.splits if_splits dest!: c)
qed

lemma memcpy_at_tail: "length pre = n \<Longrightarrow> length src = length post \<Longrightarrow> memcpy_at (pre @ post) n src = pre @ src"
  by (simp add: memcpy_at_def)

lemma emb_encode_rows:
  assumes "\<forall>x \<in> set xs. length x = 16"
  shows "foldl (\<lambda>data a. memcpy_at data a (encode16114 (drop a data))) (pre @ concat xs @ post)
      (map (\<lambda>i. length pre + 16 * i) [0..<length xs]) = pre @ concat (map encode16114 xs) @ post"
  using assms
proof (induction xs arbitrary: pre)
  case (Cons x xs)
  have l: "map (\<lambda>i. length pre + 16 * i) [0..<length (x # xs)] =
      length pre # map (\<lambda>i. length (pre @ encode16114 x) + 16 * i) [0..<length xs]"
    using Cons.prems by (simp add: upt_conv_Cons map_Suc_upt [symmetric] comp_def del: upt_Suc)
  have "memcpy_at (pre @ concat (x # xs) @ post) (length pre) (encode16114 (drop (length pre) (pre @ concat (x # xs) @ post))) =
      (pre @ encode16114 x) @ concat xs @ post"
    using Cons.prems by (simp add: encode16114_append memcpy_at_tail)
  then show ?case unfolding l using Cons.IH [of "pre @ encode16114 x"] Cons.prems by simp
qed simp

lemma check_rows_corrects:
  assumes "list_all2 (\<lambda>x y. length x = 16 \<and> length y = 16 \<and> decode16114 y = (True, x)) xs ys"
  shows "check_rows (map (\<lambda>i. length pre + 16 * i) [0..<length ys]) (pre @ concat ys @ post) = Some (pre @ concat xs @ post)"
  using assms
proof (induction xs ys arbitrary: pre rule: list_all2_induct)
  case (Cons x xs y ys)
  have l: "map (\<lambda>i. length pre + 16 * i) [0..<length (y # ys)] =
      length pre # map (\<lambda>i. length (pre @ x) + 16 * i) [0..<length ys]"
    using Cons.hyps by (simp add: upt_conv_Cons map_Suc_upt [symmetric] comp_def del: upt_Suc)
  have "decode16114 (drop (length pre) (pre @ concat (y # ys) @ post)) = (True, x @ concat ys @ post)"
    using Cons.hyps by (simp add: decode16114_append)
  moreover have "memcpy_at (pre @ concat (y # ys) @ post) (length pre) (x @ concat ys @ post) = (pre @ x) @ concat ys @ post"
    using Cons.hyps by (simp add: memcpy_at_tail)
  ultimately show ?case unfolding l using Cons.IH [of "pre @ x"] by simp
qed simp

lemma row_starts_seven: "row_starts = map ((*) 16) [0..<7]"
  by (simp add: row_starts_def upt_rec)

text \<open>A matrix taken apart into its rows.\<close>

definition matrix_rows :: "bits \<Rightarrow> bits list" where
  "matrix_rows data = map (\<lambda>r. take 16 (drop (16 * r) data)) [0..<7]"

lemma concat_blocks: "length data = 16 * n + k \<Longrightarrow> concat (map (\<lambda>r. take 16 (drop (16 * r) data)) [0..<n]) @ drop (16 * n) data = data"
proof (induction n arbitrary: k)
  case (Suc n)
  have "take 16 (drop (16 * n) data) @ drop (16 * Suc n) data = drop (16 * n) data"
    by (metis append_take_drop_id drop_drop add.commute mult_Suc_right)
  then show ?case using Suc.IH [of "16 + k"] Suc.prems by simp
qed simp

lemma matrix_rows: "length data = 128 \<Longrightarrow> data = [] @ concat (matrix_rows data) @ drop 112 data"
  using concat_blocks [of data 7 16] by (simp add: matrix_rows_def del: upt_Suc)

lemma length_matrix_rows [simp]: "length (matrix_rows data) = 7"
  by (simp add: matrix_rows_def)

lemma matrix_row_length: "length data = 128 \<Longrightarrow> x \<in> set (matrix_rows data) \<Longrightarrow> length x = 16"
  by (auto simp: matrix_rows_def)

lemma concat_row:
  assumes "\<forall>x \<in> set xs. length x = 16" "r < length xs" "k < 16"
  shows "(concat xs @ post) ! (16 * r + k) = xs ! r ! k"
  using assms
proof (induction xs arbitrary: r)
  case (Cons x xs)
  show ?case
  proof (cases r)
    case 0
    then show ?thesis using Cons.prems by (simp add: nth_append)
  next
    case (Suc r')
    then have "(concat xs @ post) ! (16 * r' + k) = xs ! r' ! k" using Cons by simp
    then show ?thesis using Suc Cons.prems by (simp add: nth_append)
  qed
qed simp

section \<open>The encoded matrix\<close>

definition plain_matrix :: "bits \<Rightarrow> bits" where
  "plain_matrix out =
     (let crc = encodeFiveBit out
      in put_payload out ((replicate 128 False)[106 := (crc AND 0x01 = 0x01), 90 := (crc AND 0x02 = 0x02), 74 := (crc AND 0x04 = 0x04),
                      58 := (crc AND 0x08 = 0x08), 42 := (crc AND 0x10 = 0x10)]))"

definition coded_rows :: "bits \<Rightarrow> bits list" where
  "coded_rows out = map encode16114 (matrix_rows (plain_matrix out))"

definition column_sums :: "bits \<Rightarrow> bits" where
  "column_sums data = map (column_odd data) [0..<16]"

lemma length_put_payload [simp]: "length (put_payload out data) = length data"
proof -
  have "length (foldl (\<lambda>data (b, a). data[a := out ! b]) data xs) = length data" for xs :: "(nat \<times> nat) list"
    by (induction xs arbitrary: data) auto
  then show ?thesis by (simp add: put_payload_def)
qed

lemma length_plain_matrix [simp]: "length (plain_matrix out) = 128"
  by (simp add: plain_matrix_def Let_def)

lemma coded_row_length: "x \<in> set (coded_rows out) \<Longrightarrow> length x = 16"
  using matrix_row_length [of "plain_matrix out"] by (auto simp: coded_rows_def)

lemma length_coded_rows [simp]: "length (coded_rows out) = 7" "length (concat (coded_rows out)) = 112"
proof -
  have "length (concat xs) = 16 * length xs" if "\<forall>x \<in> set xs. length x = 16" for xs :: "bits list"
    using that by (induction xs) simp_all
  from this [of "coded_rows out"] show "length (concat (coded_rows out)) = 112" using coded_row_length by (simp add: coded_rows_def)
qed (simp add: coded_rows_def)

lemma column_odd_front:
  assumes "length c = 112" "a < 16"
  shows "column_odd (c @ p) a = column_odd c a"
  using assms unfolding column_odd_def by (intro xors_append) (auto simp: row_starts_def)

lemma column_fold:
  assumes "length c = 112" "length p = 16" "n \<le> 16"
  shows "foldl (\<lambda>data a. data[a + 112 := column_odd data a]) (c @ p) [0..<n] = c @ map (column_odd c) [0..<n] @ drop n p"
  using assms(3)
proof (induction n)
  case (Suc n)
  have "drop n p = p ! n # drop (Suc n) p" using Suc.prems assms(2) by (simp add: Cons_nth_drop_Suc)
  moreover have "(c @ map (column_odd c) [0..<n] @ drop n p)[n + 112 := b] = c @ (map (column_odd c) [0..<n] @ drop n p)[n := b]" for b
    using assms(1) by (simp add: list_update_append)
  ultimately show ?case using Suc column_odd_front [OF assms(1), of n] by (simp add: list_update_append)
qed simp

lemma encode_matrix_eq: "encode_matrix out = concat (coded_rows out) @ column_sums (concat (coded_rows out))"
proof -
  let ?D = "plain_matrix out"
  have "foldl (\<lambda>data a. memcpy_at data a (encode16114 (drop a data))) ?D row_starts = concat (coded_rows out) @ drop 112 ?D"
    using emb_encode_rows [of "matrix_rows ?D" "[]" "drop 112 ?D"] matrix_row_length [of ?D] matrix_rows [of ?D, symmetric]
    unfolding row_starts_seven coded_rows_def by simp
  moreover have "encode_matrix out =
      foldl (\<lambda>data a. data[a + 112 := column_odd data a])
        (foldl (\<lambda>data a. memcpy_at data a (encode16114 (drop a data))) ?D row_starts) [0..<16]"
    by (simp add: encode_matrix_def plain_matrix_def Let_def)
  ultimately show ?thesis using column_fold [of "concat (coded_rows out)" "drop 112 ?D" 16] by (simp add: column_sums_def)
qed

lemma length_encode_matrix [simp]: "length (encode_matrix out) = 128"
  by (simp add: encode_matrix_eq column_sums_def)

lemma encode_matrix_columns: "a < 16 \<Longrightarrow> column_odd (encode_matrix out) a = encode_matrix out ! (a + 112)"
  by (simp add: encode_matrix_eq column_odd_front nth_append column_sums_def)

lemma encode_matrix_data:
  assumes "r < 7" "k < 11"
  shows "encode_matrix out ! (16 * r + k) = plain_matrix out ! (16 * r + k)"
proof -
  have "encode_matrix out ! (16 * r + k) = coded_rows out ! r ! k"
    unfolding encode_matrix_eq using assms coded_row_length by (intro concat_row) auto
  also have "\<dots> = matrix_rows (plain_matrix out) ! r ! k"
    using assms by (simp add: coded_rows_def encode16114_def h16114.put_parity_keeps)
  also have "\<dots> = plain_matrix out ! (16 * r + k)"
    using assms by (simp add: matrix_rows_def del: upt_Suc)
  finally show ?thesis .
qed

lemma payload_cells_set: "c \<in> set payload_cells \<longleftrightarrow>
   c < 11 \<or> 16 \<le> c \<and> c < 27 \<or> 32 \<le> c \<and> c < 42 \<or> 48 \<le> c \<and> c < 58 \<or> 64 \<le> c \<and> c < 74 \<or> 80 \<le> c \<and> c < 90 \<or>
   96 \<le> c \<and> c < 106"
  by (auto simp: payload_cells_def simp del: upt_Suc upt_rec_numeral)

lemma payload_cells_facts: "length payload_cells = 72" "distinct payload_cells" "\<forall>c \<in> set payload_cells. c div 16 < 7 \<and> c mod 16 < 11"
  "42 \<notin> set payload_cells" "58 \<notin> set payload_cells" "74 \<notin> set payload_cells" "90 \<notin> set payload_cells" "106 \<notin> set payload_cells"
proof -
  show "length payload_cells = 72" by (simp add: payload_cells_def del: upt_Suc upt_rec_numeral)
  show "distinct payload_cells" by (auto simp: payload_cells_def simp del: upt_Suc upt_rec_numeral)
  have "c div 16 < 7 \<and> c mod 16 < 11" if h: "r < 7" "16 * r \<le> c" "c < 16 * r + 11" for c r :: nat
  proof -
    obtain j where "c = 16 * r + j" using h(2) by (metis le_Suc_ex)
    then show ?thesis using h by simp
  qed
  moreover have "\<exists>r < 7. 16 * r \<le> c \<and> c < 16 * r + 11" if "c \<in> set payload_cells" for c
    using that unfolding payload_cells_set
  proof (elim disjE)
    assume "c < 11" then show ?thesis by (intro exI [of _ 0]) simp
  next
    assume "16 \<le> c \<and> c < 27" then show ?thesis by (intro exI [of _ 1]) simp
  next
    assume "32 \<le> c \<and> c < 42" then show ?thesis by (intro exI [of _ 2]) simp
  next
    assume "48 \<le> c \<and> c < 58" then show ?thesis by (intro exI [of _ 3]) simp
  next
    assume "64 \<le> c \<and> c < 74" then show ?thesis by (intro exI [of _ 4]) simp
  next
    assume "80 \<le> c \<and> c < 90" then show ?thesis by (intro exI [of _ 5]) simp
  next
    assume "96 \<le> c \<and> c < 106" then show ?thesis by (intro exI [of _ 6]) simp
  qed
  ultimately show "\<forall>c \<in> set payload_cells. c div 16 < 7 \<and> c mod 16 < 11" by blast
qed (simp_all add: payload_cells_set)

lemma zip_fold:
  assumes "length cs = n"
  shows "foldl (\<lambda>d (b, a). f d b a) d (zip [0..<n] cs) = foldl (\<lambda>d b. f d b (cs ! b)) d [0..<n]"
proof -
  have "zip [0..<n] cs = map (\<lambda>b. (b, cs ! b)) [0..<n]" using assms by (intro nth_equalityI) simp_all
  then show ?thesis by (simp add: foldl_map del: upt_Suc)
qed

lemma put_payload_eq: "put_payload out data = foldl (\<lambda>data b. data[payload_cells ! b := out ! b]) data [0..<72]"
  unfolding put_payload_def by (rule zip_fold) (rule payload_cells_facts)

lemma get_payload_eq: "get_payload data out = foldl (\<lambda>out b. out[b := data ! (payload_cells ! b)]) out [0..<72]"
  unfolding get_payload_def by (rule zip_fold) (rule payload_cells_facts)

lemma payload_positions: "map ((!) payload_cells) [0..<72] = payload_cells"
  using map_nth [of payload_cells] unfolding payload_cells_facts(1) .

lemma plain_matrix_payload: "b < 72 \<Longrightarrow> plain_matrix out ! (payload_cells ! b) = out ! b"
proof -
  assume b: "b < 72"
  have "payload_cells ! b \<in> set payload_cells" using b payload_cells_facts(1) by simp
  then have "payload_cells ! b < 128" unfolding payload_cells_set by linarith
  then show ?thesis
    using b payload_cells_facts(2) unfolding plain_matrix_def Let_def put_payload_eq
    by (intro foldl_update_at) (simp_all add: payload_positions del: upt_Suc)
qed

lemma get_payload_coded:
  assumes "length out' = 72" "length out = 72"
  shows "get_payload (encode_matrix out) out' = out"
proof (rule nth_equalityI)
  show "length (get_payload (encode_matrix out) out') = length out"
    using assms foldl_update_length [of "\<lambda>b. b"] by (simp add: get_payload_eq)
  fix b assume "b < length (get_payload (encode_matrix out) out')"
  then have b: "b < 72" using assms foldl_update_length [of "\<lambda>b. b"] by (simp add: get_payload_eq)
  let ?c = "payload_cells ! b"
  have "?c \<in> set payload_cells" using b payload_cells_facts(1) by simp
  then have "encode_matrix out ! (16 * (?c div 16) + ?c mod 16) = plain_matrix out ! (16 * (?c div 16) + ?c mod 16)"
    using payload_cells_facts(3) by (intro encode_matrix_data) auto
  then have "encode_matrix out ! ?c = out ! b" using plain_matrix_payload [OF b] by simp
  moreover have "get_payload (encode_matrix out) out' ! b = encode_matrix out ! ?c"
    using foldl_update_at [of "\<lambda>b. b" "[0..<72]" b out' "\<lambda>b. encode_matrix out ! (payload_cells ! b)"] b assms(1)
    unfolding get_payload_eq by simp
  ultimately show "get_payload (encode_matrix out) out' ! b = out ! b" by simp
qed

lemma split_low_bit: "2 * drop_bit 1 y + (if bit y 0 then 1 else 0) = (y :: u32)"
proof (cases "bit y 0")
  case True
  then have "y mod 2 = 1" by (simp add: bit_0 odd_iff_mod_2_eq_one)
  then show ?thesis using True mult_div_mod_eq [of 2 y] by (simp add: drop_bit_eq_div)
next
  case False
  then have "y mod 2 = 0" by (simp add: bit_0 even_iff_mod_2_eq_zero)
  then show ?thesis using False mult_div_mod_eq [of 2 y] by (simp add: drop_bit_eq_div)
qed

lemma five_bits:
  fixes x :: u32
  assumes "x < 32"
  shows "((((if bit x 4 then 16 else 0) + (if bit x 3 then 8 else 0)) + (if bit x 2 then 4 else 0)) +
     (if bit x 1 then 2 else 0)) + (if bit x 0 then 1 else 0) = x"
proof -
  have z: "drop_bit 5 x = 0" using assms less_bits [of x 5] by (intro bit_word_eqI) (simp add: bit_drop_bit_eq)
  have s: "drop_bit k x = 2 * drop_bit (k + 1) x + (if bit x k then 1 else 0)" for k
    using split_low_bit [of "drop_bit k x"] by (simp add: bit_drop_bit_eq drop_bit_drop_bit del: drop_bit_Suc)
  have d4: "drop_bit 4 x = (if bit x 4 then 1 else 0)" using s [of 4] z by simp
  have d3: "drop_bit 3 x = (if bit x 4 then 2 else 0) + (if bit x 3 then 1 else 0)" using s [of 3] d4 by simp
  have d2: "drop_bit 2 x = ((if bit x 4 then 4 else 0) + (if bit x 3 then 2 else 0)) + (if bit x 2 then 1 else 0)"
    using s [of 2] d3 by simp
  have d1: "drop_bit 1 x = (((if bit x 4 then 8 else 0) + (if bit x 3 then 4 else 0)) + (if bit x 2 then 2 else 0)) + (if bit x 1 then 1 else 0)"
    using s [of 1] d2 by (simp add: numeral_2_eq_2)
  have "2 * drop_bit 1 x =
      (((if bit x 4 then 16 else 0) + (if bit x 3 then 8 else 0)) + (if bit x 2 then 4 else 0)) + (if bit x 1 then 2 else 0)"
    unfolding d1 by (cases "bit x 4"; cases "bit x 3"; cases "bit x 2"; cases "bit x 1"; simp)
  then show ?thesis using split_low_bit [of x] by (simp only:)
qed

lemma five_bit_small: "encodeFiveBit out < 32"
proof -
  have "unat (x mod 31) < 31" for x :: u16 by (simp add: unat_mod)
  moreover have "unat (ucast y :: u32) = unat y" for y :: u16
  proof -
    have "unat y < 2 ^ 16" using unsigned_less [of y] by simp
    then show ?thesis by (simp add: unsigned_ucast_eq take_bit_nat_eq_self)
  qed
  ultimately have "unat (ucast (x mod 31) :: u32) < 32" for x :: u16 using order_less_trans [of "unat (x mod 31)" 31 32] by simp
  then show ?thesis unfolding encodeFiveBit_def word_less_nat_alt by simp
qed

lemma mask_test_32: "(x AND 0x01 = 0x01) = bit (x :: u32) 0" "(x AND 0x02 = 0x02) = bit x 1" "(x AND 0x04 = 0x04) = bit x 2"
  "(x AND 0x08 = 0x08) = bit x 3" "(x AND 0x10 = 0x10) = bit x 4"
proof -
  have "(x AND 2 ^ k = 2 ^ k) = bit x k" if "k < 32" for k
  proof
    assume "x AND 2 ^ k = 2 ^ k"
    from arg_cong [OF this, of "\<lambda>y. bit y k"] show "bit x k" using that by (simp add: bit_simps)
  next
    assume "bit x k"
    then show "x AND 2 ^ k = 2 ^ k" by (intro bit_word_eqI) (auto simp: bit_simps)
  qed
  from this [of 0] this [of 1] this [of 2] this [of 3] this [of 4]
  show "(x AND 0x01 = 0x01) = bit x 0" "(x AND 0x02 = 0x02) = bit x 1" "(x AND 0x04 = 0x04) = bit x 2"
    "(x AND 0x08 = 0x08) = bit x 3" "(x AND 0x10 = 0x10) = bit x 4" by simp_all
qed

lemma plain_matrix_crc: "plain_matrix out ! 42 = bit (encodeFiveBit out) 4" "plain_matrix out ! 58 = bit (encodeFiveBit out) 3"
  "plain_matrix out ! 74 = bit (encodeFiveBit out) 2" "plain_matrix out ! 90 = bit (encodeFiveBit out) 1"
  "plain_matrix out ! 106 = bit (encodeFiveBit out) 0"
proof -
  have o: "put_payload out data ! c = data ! c" if "c \<notin> set payload_cells" for c and data :: bits
    using that unfolding put_payload_eq by (intro foldl_update_other) (auto simp: payload_cells_facts(1) simp del: upt_Suc)
  show "plain_matrix out ! 42 = bit (encodeFiveBit out) 4" "plain_matrix out ! 58 = bit (encodeFiveBit out) 3"
    "plain_matrix out ! 74 = bit (encodeFiveBit out) 2" "plain_matrix out ! 90 = bit (encodeFiveBit out) 1"
    "plain_matrix out ! 106 = bit (encodeFiveBit out) 0"
    unfolding plain_matrix_def Let_def mask_test_32 by (simp_all add: o payload_cells_facts)
qed

lemma cell_crc_coded: "cell_crc (encode_matrix out) = encodeFiveBit out"
proof -
  have "encode_matrix out ! (16 * r + 10) = plain_matrix out ! (16 * r + 10)" if "r < 7" for r
    using that by (intro encode_matrix_data) simp_all
  from this [of 2] this [of 3] this [of 4] this [of 5] this [of 6]
  have "encode_matrix out ! 42 = bit (encodeFiveBit out) 4" "encode_matrix out ! 58 = bit (encodeFiveBit out) 3"
    "encode_matrix out ! 74 = bit (encodeFiveBit out) 2" "encode_matrix out ! 90 = bit (encodeFiveBit out) 1"
    "encode_matrix out ! 106 = bit (encodeFiveBit out) 0"
    by (simp_all add: plain_matrix_crc)
  then show ?thesis unfolding cell_crc_def using five_bits [OF five_bit_small] by simp
qed

lemma row_corrected:
  assumes "length x0 = 16" "length y = 16" "\<forall>j < 16. j \<noteq> k \<longrightarrow> y ! j = encode16114 x0 ! j"
  shows "decode16114 y = (True, encode16114 x0)"
proof (cases "k < 16 \<and> y ! k \<noteq> encode16114 x0 ! k")
  case True
  then have "y = (encode16114 x0)[k := \<not> encode16114 x0 ! k]"
    using assms by (intro nth_equalityI) (auto simp: nth_list_update)
  then show ?thesis
    using h16114.flip_corrected [OF assms(1), of k] h16114.flip_not_zero [OF h16114.clean_put_parity [OF assms(1)], of k] True
    by (simp add: decode16114_def encode16114_def)
next
  case False
  then have "y ! j = encode16114 x0 ! j" if "j < 16" for j using assms(3) that by (cases "j = k") auto
  then have "y = encode16114 x0" using assms(1,2) by (intro nth_equalityI) auto
  then show ?thesis
    using h16114.mismatches_clean [OF h16114.clean_put_parity [OF assms(1)]] by (simp add: decode16114_def encode16114_def)
qed

text \<open>What the matrix bears: one wrong cell in each of the seven protected rows, none in the column sums.\<close>

definition row_noise :: "bits \<Rightarrow> bits \<Rightarrow> bool" where
  "row_noise m m' \<longleftrightarrow> (\<forall>a < 16. m' ! (112 + a) = m ! (112 + a)) \<and>
     (\<forall>r < 7. \<exists>k. \<forall>j < 16. j \<noteq> k \<longrightarrow> m' ! (16 * r + j) = m ! (16 * r + j))"

lemma check_rows_noise:
  assumes "length m' = 128" "row_noise (encode_matrix out) m'"
  shows "check_rows row_starts m' = Some (encode_matrix out)"
proof -
  let ?m = "encode_matrix out" and ?p = "matrix_rows (plain_matrix out)"
  have x: "?m ! (16 * r + j) = encode16114 (?p ! r) ! j" if "r < 7" "j < 16" for r j
    using concat_row [of "coded_rows out" r j] coded_row_length that unfolding encode_matrix_eq by (simp add: coded_rows_def)
  have y: "m' ! (16 * r + j) = matrix_rows m' ! r ! j" if "r < 7" "j < 16" for r j
    using that assms(1) by (simp add: matrix_rows_def del: upt_Suc)
  have "list_all2 (\<lambda>x y. length x = 16 \<and> length y = 16 \<and> decode16114 y = (True, x)) (coded_rows out) (matrix_rows m')"
    unfolding list_all2_conv_all_nth
  proof (intro conjI allI impI)
    fix r assume "r < length (coded_rows out)"
    then have r: "r < 7" by simp
    then have l: "length (?p ! r) = 16" "length (matrix_rows m' ! r) = 16"
      using matrix_row_length [of "plain_matrix out"] matrix_row_length [OF assms(1)] by simp_all
    obtain k where "\<forall>j < 16. j \<noteq> k \<longrightarrow> m' ! (16 * r + j) = ?m ! (16 * r + j)"
      using assms(2) r by (auto simp: row_noise_def)
    then have "\<forall>j < 16. j \<noteq> k \<longrightarrow> matrix_rows m' ! r ! j = encode16114 (?p ! r) ! j" using x y r by simp
    from row_corrected [OF l this]
    show "decode16114 (matrix_rows m' ! r) = (True, coded_rows out ! r)" using r by (simp add: coded_rows_def)
    show "length (matrix_rows m' ! r) = 16" "length (coded_rows out ! r) = 16" using l r by (simp_all add: coded_rows_def)
  qed simp
  from check_rows_corrects [OF this, of "[]" "drop 112 m'"]
  have "check_rows row_starts m' = Some (concat (coded_rows out) @ drop 112 m')"
    unfolding row_starts_seven using matrix_rows [OF assms(1), symmetric] by simp
  moreover have "drop 112 m' = drop 112 ?m"
    using assms by (intro nth_equalityI) (auto simp: row_noise_def)
  ultimately show ?thesis by (simp add: encode_matrix_eq)
qed

lemma decode_corrects:
  assumes "length out = 72" "length (ed_data ed) = 72" "row_noise (encode_matrix out) (unpack_matrix (ed_raw ed))"
  shows "decodeEmbeddedData ed = ed\<lparr>ed_data := out, ed_valid := True, ed_FLCO := bitsToByteBE out AND 0x3F\<rparr>"
  using check_rows_noise [OF _ assms(3)] encode_matrix_columns [of _ out] get_payload_coded [OF assms(2,1)]
  by (simp add: decodeEmbeddedData_def cell_crc_coded checkFiveBit_def)

section \<open>Bursts\<close>

lemma raw_block_eq:
  "raw_block data = drop 4 (byteToBitsBE (data ! 14)) @ byteToBitsBE (data ! 15) @ byteToBitsBE (data ! 16) @
     byteToBitsBE (data ! 17) @ take 4 (byteToBitsBE (data ! 18))"
proof -
  have "map (\<lambda>a. xs ! (a + 4)) [0..<32] = take 32 (drop 4 xs)" if "length xs = 40" for xs :: bits
    using that by (intro nth_equalityI) (simp_all add: add.commute)
  moreover have "length (concat (map (\<lambda>k. byteToBitsBE (data ! k)) [14, 15, 16, 17, 18])) = 40" by simp
  ultimately show ?thesis unfolding raw_block_def by (simp add: take_append drop_append)
qed

lemma length_raw_block [simp]: "length (raw_block data) = 32"
  by (simp add: raw_block_def)

lemma byte_halves:
  "drop 4 (byteToBitsBE ((x AND 0xF0) OR (y AND 0x0F))) = drop 4 (byteToBitsBE y)"
  "take 4 (byteToBitsBE ((x AND 0x0F) OR (y AND 0xF0))) = take 4 (byteToBitsBE y)"
  by (simp_all add: byteToBitsBE_bits bit_simps)

lemma byte_of_slice: "k + 8 \<le> length xs \<Longrightarrow> byteToBitsBE (bitsToByteBE (drop k xs)) = take 8 (drop k xs)"
proof -
  assume k: "k + 8 \<le> length xs"
  have "bitsToByteBE (drop k xs) = bitsToByteBE (take 8 (drop k xs) @ drop 8 (drop k xs))" by (simp only: append_take_drop_id)
  also have "\<dots> = bitsToByteBE (take 8 (drop k xs))" using k by (intro bitsToByteBE_append) simp
  finally show ?thesis using k by simp
qed

lemma slices: "i + 32 \<le> length (xs :: bits) \<Longrightarrow>
   take 4 (drop i xs) @ take 8 (drop (i + 4) xs) @ take 8 (drop (i + 12) xs) @ take 8 (drop (i + 20) xs) @ take 4 (drop (i + 28) xs) =
   take 32 (drop i xs)"
  using take_add [of 28 4 "drop i xs"] take_add [of 20 8 "drop i xs"] take_add [of 12 8 "drop i xs"] take_add [of 4 8 "drop i xs"]
  by (simp add: add.commute)

lemma sent_block:
  assumes "length (ed_raw ed) = 128" "1 \<le> n" "n < 5" "length data = 33"
  shows "raw_block (snd (ed_getData ed data n)) = take 32 (drop (32 * unat (n - 1)) (ed_raw ed))"
proof -
  let ?blk = "take 32 (drop (unat (n - 1) * 32) (ed_raw ed))"
  let ?bits = "memcpy_at (replicate 40 False) 4 ?blk"
  have "unat (n - 1) < 4" using assms(2,3) by unat_arith
  then have l: "length ?blk = 32" using assms(1) by simp
  then have b: "length ?bits = 40" "take 32 (drop 4 ?bits) = ?blk" by (simp_all add: memcpy_at_def)
  have "raw_block (snd (ed_getData ed data n)) =
      drop 4 (byteToBitsBE (bitsToByteBE (drop 0 ?bits))) @ byteToBitsBE (bitsToByteBE (drop 8 ?bits)) @
      byteToBitsBE (bitsToByteBE (drop 16 ?bits)) @ byteToBitsBE (bitsToByteBE (drop 24 ?bits)) @
      take 4 (byteToBitsBE (bitsToByteBE (drop 32 ?bits)))"
    using assms(2-4) by (simp add: ed_getData_def Let_def raw_block_eq byte_halves)
  also have "\<dots> = take 4 (drop 4 ?bits) @ take 8 (drop 8 ?bits) @ take 8 (drop 16 ?bits) @ take 8 (drop 24 ?bits) @ take 4 (drop 32 ?bits)"
    using b(1) byte_of_slice [of 0 ?bits] byte_of_slice [of 8 ?bits] byte_of_slice [of 16 ?bits] byte_of_slice [of 24 ?bits]
      byte_of_slice [of 32 ?bits] by (simp add: drop_take)
  also have "\<dots> = ?blk" using slices [of 4 ?bits] b by simp
  finally show ?thesis by (simp add: mult.commute)
qed

lemma getData_lcss:
  "fst (ed_getData ed data 1) = 1" "fst (ed_getData ed data 2) = 3" "fst (ed_getData ed data 3) = 3" "fst (ed_getData ed data 4) = 2"
  by (simp_all add: ed_getData_def Let_def)

lemma four_blocks:
  assumes "length raw = 128" "length b1 = 32" "length b2 = 32" "length b3 = 32" "length b4 = 32"
  shows "memcpy_at (memcpy_at (memcpy_at (memcpy_at raw 0 b1) 32 b2) 64 b3) 96 b4 = b1 @ b2 @ b3 @ b4"
  using assms by (simp add: memcpy_at_def)

text \<open>On the air the eight rows take turns: every eighth bit belongs to the same row.\<close>

definition embedded_noise :: "bits \<Rightarrow> bits \<Rightarrow> bool" where
  "embedded_noise s t \<longleftrightarrow> (\<forall>a < 128. a mod 8 = 7 \<longrightarrow> t ! a = s ! a) \<and>
     (\<forall>r < 7. \<exists>k. \<forall>a < 128. a mod 8 = r \<and> a \<noteq> k \<longrightarrow> t ! a = s ! a)"

lemma row_noise_of:
  assumes "length raw = 128" "embedded_noise (pack_matrix m raw) t"
  shows "row_noise m (unpack_matrix t)"
proof -
  have c: "unpack_matrix t ! (16 * r + j) = t ! (8 * j + r)" "m ! (16 * r + j) = pack_matrix m raw ! (8 * j + r)"
    if "r < 8" "j < 16" for r j
    using that unpack_matrix_nth [of "8 * j + r" t] pack_matrix_nth [OF assms(1), of "8 * j + r" m] cell_of [of r j]
    by (simp_all add: add.commute)
  have "unpack_matrix t ! (112 + j) = m ! (112 + j)" if "j < 16" for j
    using c [of 7 j] that assms(2) by (simp add: embedded_noise_def)
  moreover have "\<exists>k. \<forall>j < 16. j \<noteq> k \<longrightarrow> unpack_matrix t ! (16 * r + j) = m ! (16 * r + j)" if r: "r < 7" for r
  proof -
    obtain k where k: "\<forall>a < 128. a mod 8 = r \<and> a \<noteq> k \<longrightarrow> t ! a = pack_matrix m raw ! a"
      using assms(2) r unfolding embedded_noise_def by blast
    have "unpack_matrix t ! (16 * r + j) = m ! (16 * r + j)" if "j < 16" "j \<noteq> k div 8" for j
    proof -
      have "(8 * j + r) mod 8 = r" "8 * j + r < 128" "(8 * j + r) div 8 = j" using r that by simp_all
      then have "8 * j + r \<noteq> k" using that(2) by metis
      then show ?thesis using k c [of r j] r that(1) \<open>(8 * j + r) mod 8 = r\<close> \<open>8 * j + r < 128\<close> by simp
    qed
    then show ?thesis by blast
  qed
  ultimately show ?thesis by (simp add: row_noise_def)
qed

section \<open>Link control in its bits\<close>

lemma lc_getBits_eq:
  assumes "length mem = 9" "length b = 72"
  shows "lc_getBits l mem b = bits_of (lc_getData l mem)"
proof -
  let ?d = "lc_getData l mem"
  have s: "foldl (\<lambda>b i. memcpy_at b (8 * i) (byteToBitsBE (?d ! i))) b [0..<n] = bits_of (take n ?d) @ drop (8 * n) b" if "n \<le> 9" for n
    using that
  proof (induction n)
    case (Suc n)
    have "take (Suc n) ?d = take n ?d @ [?d ! n]" using Suc.prems assms(1) by (simp add: take_Suc_conv_app_nth)
    moreover have "length (bits_of (take n ?d)) = 8 * n" using Suc.prems assms(1) by simp
    ultimately show ?case using Suc assms(2) by (simp add: memcpy_at_def)
  qed simp
  show ?thesis using s [of 9] assms by (simp add: lc_getBits_def Let_def del: upt_Suc)
qed

lemma lc_of_bits_of:
  assumes "length bs = 9"
  shows "lc_of_bits (bits_of bs) = lc_of_bytes bs" "bitsToByteBE (bits_of bs) = bs ! 0"
proof -
  have byte: "bitsToByteBE (drop (8 * k) (bits_of bs)) = bs ! k" if "k < 9" for k
  proof -
    have "drop (8 * k) (bits_of bs) = bits_of (drop k bs)" by (simp add: bits_of_drop)
    also have "drop k bs = bs ! k # drop (Suc k) bs" using that assms by (simp add: Cons_nth_drop_Suc)
    finally show ?thesis by simp
  qed
  have b: "bits_of bs ! 0 = bit (bs ! 0) 7" "bits_of bs ! 1 = bit (bs ! 0) 6" using assms by (simp_all add: bits_of_nth)
  show "lc_of_bits (bits_of bs) = lc_of_bytes bs"
    using byte [of 0] byte [of 1] byte [of 2] byte [of 3] byte [of 4] byte [of 5] byte [of 6] byte [of 7] byte [of 8] b
    by (simp add: lc_of_bits_def lc_of_bytes_def Let_def mask_test)
  show "bitsToByteBE (bits_of bs) = bs ! 0" using byte [of 0] by simp
qed

lemma lc_getData_append: "length mem = 9 \<Longrightarrow> lc_getData l (mem @ z) = lc_getData l mem @ z"
  by (simp add: lc_getData_def Let_def list_update_append nth_append)

lemma lc_plain_bits:
  assumes "lc_ok l" "length mem = 9" "length b = 72"
  shows "lc_of_bits (lc_getBits l mem b) = l" "bitsToByteBE (lc_getBits l mem b) AND 0x3F = lc_FLCO l"
proof -
  have l: "length (lc_getData l mem) = 9" using assms(2) by simp
  have "lc_of_bytes (lc_getData l mem) = l"
    using lc_of_getData [OF assms(1), of "mem @ replicate 3 0" _ "lc_getData l mem"] assms(2) l
    by (simp add: lc_getData_append)
  moreover have "lc_FLCO (lc_of_bytes d) = d ! 0 AND 0x3F" for d by (simp add: lc_of_bytes_def)
  ultimately show "lc_of_bits (lc_getBits l mem b) = l" "bitsToByteBE (lc_getBits l mem b) AND 0x3F = lc_FLCO l"
    unfolding lc_getBits_eq [OF assms(2,3)] lc_of_bits_of [OF l] by metis+
qed

section \<open>Four bursts carry a link control\<close>

lemma length_lc_getBits: "length mem = 9 \<Longrightarrow> length b = 72 \<Longrightarrow> length (lc_getBits l mem b) = 72"
  by (simp add: lc_getBits_eq)

lemma setLC_fields:
  "ed_data (ed_setLC ed mem l) = lc_getBits l mem (ed_data ed)"
  "ed_raw (ed_setLC ed mem l) = pack_matrix (encode_matrix (lc_getBits l mem (ed_data ed))) (ed_raw ed)"
  by (simp_all add: ed_setLC_def encodeEmbeddedData_def)

lemma blocks_of_raw:
  assumes "length raw = 128"
  shows "take 32 (drop 0 raw) @ take 32 (drop 32 raw) @ take 32 (drop 64 raw) @ take 32 (drop 96 raw) = raw"
proof -
  have "take 32 (drop 96 raw) = drop 96 raw" using assms by simp
  moreover have "take 32 (drop 64 raw) @ drop 96 raw = drop 64 raw" using append_take_drop_id [of 32 "drop 64 raw"] by simp
  moreover have "take 32 (drop 32 raw) @ drop 64 raw = drop 32 raw" using append_take_drop_id [of 32 "drop 32 raw"] by simp
  ultimately show ?thesis by simp
qed

lemma sent_blocks:
  assumes "length mem = 9" "length (ed_raw tx) = 128" "\<And>n. length (burst n) = 33"
  shows "concat (map (\<lambda>n. raw_block (snd (ed_getData (ed_setLC tx mem l) (burst n) n))) [1, 2, 3, 4]) = ed_raw (ed_setLC tx mem l)"
proof -
  have r: "length (ed_raw (ed_setLC tx mem l)) = 128" using assms(2) by (simp add: setLC_fields)
  have "(1 :: u8) \<le> n \<Longrightarrow> n < 5 \<Longrightarrow> raw_block (snd (ed_getData (ed_setLC tx mem l) (burst n) n)) =
      take 32 (drop (32 * unat (n - 1)) (ed_raw (ed_setLC tx mem l)))" for n
    by (rule sent_block [OF r]) (simp_all add: assms(3))
  from this [of 1] this [of 2] this [of 3] this [of 4] show ?thesis using blocks_of_raw [OF r] by simp
qed

lemma received_blocks:
  assumes "length (ed_raw rx) = 128" "length (ed_data rx) = 72" "length out = 72"
    and "row_noise (encode_matrix out) (unpack_matrix (concat (map (\<lambda>n. raw_block (received n)) [1, 2, 3, 4])))"
  shows "\<exists>ed. snd (ed_addData (snd (ed_addData (snd (ed_addData rx (received 1) 1)) (received 2) 3)) (received 3) 3)
      = ed \<and> ed_addData ed (received (4 :: u8)) 2 =
        (True, encodeEmbeddedData (ed\<lparr>ed_raw := concat (map (\<lambda>n. raw_block (received n)) [1, 2, 3, 4]), ed_state := LCS_NONE,
           ed_data := out, ed_valid := True, ed_FLCO := bitsToByteBE out AND 0x3F\<rparr>))"
proof -
  let ?t = "concat (map (\<lambda>n. raw_block (received n)) [1, 2, 3, 4])"
  let ?ed = "snd (ed_addData (snd (ed_addData (snd (ed_addData rx (received 1) 1)) (received 2) 3)) (received 3) 3)"
  have s: "ed_state ?ed = LCS_THIRD" "ed_data ?ed = ed_data rx"
    "ed_raw ?ed = memcpy_at (memcpy_at (memcpy_at (ed_raw rx) 0 (raw_block (received 1))) 32 (raw_block (received 2))) 64 (raw_block (received 3))"
    by (simp_all add: ed_addData_def)
  have "memcpy_at (ed_raw ?ed) 96 (raw_block (received 4)) = ?t"
    unfolding s(3) using four_blocks [OF assms(1)] by simp
  moreover have "decodeEmbeddedData (?ed\<lparr>ed_raw := ?t, ed_state := LCS_NONE\<rparr>) =
      ?ed\<lparr>ed_raw := ?t, ed_state := LCS_NONE, ed_data := out, ed_valid := True, ed_FLCO := bitsToByteBE out AND 0x3F\<rparr>"
    using decode_corrects [OF assms(3), of "?ed\<lparr>ed_raw := ?t, ed_state := LCS_NONE\<rparr>"] assms(2,4) s(2) by simp
  ultimately have "ed_addData ?ed (received 4) 2 =
      (True, encodeEmbeddedData (?ed\<lparr>ed_raw := ?t, ed_state := LCS_NONE, ed_data := out, ed_valid := True, ed_FLCO := bitsToByteBE out AND 0x3F\<rparr>))"
    using s(1) by (simp add: ed_addData_def [of ?ed] Let_def encodeEmbeddedData_def)
  then show ?thesis by blast
qed

text \<open>
  C12. A link control put into four bursts is read back from the four received ones, in whatever state the
  receiver was before, through up to one wrong bit in each of the seven protected rows.
\<close>

theorem embedded_lc_survives:
  assumes "lc_ok l" "lc_FLCO l \<in> {FLCO_GROUP, FLCO_PRIVATE}" "length mem = 9"
    and "length (ed_data tx) = 72" "length (ed_raw tx) = 128" "length (ed_data rx) = 72" "length (ed_raw rx) = 128"
    and "\<And>n. length (burst n) = 33"
    and "embedded_noise (concat (map (\<lambda>n. raw_block (snd (ed_getData (ed_setLC tx mem l) (burst n) n))) [1, 2, 3, 4]))
      (concat (map (\<lambda>n. raw_block (received n)) [1, 2, 3, 4]))"
  shows "case foldl (\<lambda>(_, ed) n. ed_addData ed (received n) (fst (ed_getData (ed_setLC tx mem l) (burst n) n))) (False, rx) [1, 2, 3, 4]
    of (complete, ed) \<Rightarrow> complete \<and> ed_getLC ed = Some l"
proof -
  let ?out = "lc_getBits l mem (ed_data tx)"
  have "row_noise (encode_matrix ?out) (unpack_matrix (concat (map (\<lambda>n. raw_block (received n)) [1, 2, 3, 4])))"
    using assms(9) unfolding sent_blocks [OF assms(3,5,8)] setLC_fields by (rule row_noise_of [OF assms(5)])
  from received_blocks [OF assms(7,6) length_lc_getBits [OF assms(3,4)] this]
  show ?thesis
    using lc_plain_bits [OF assms(1,3,4)] assms(2)
    by (auto simp: getData_lcss case_prod_beta ed_getLC_def encodeEmbeddedData_def)
qed

lemma embedded_noise_refl: "embedded_noise s s"
  by (simp add: embedded_noise_def)

theorem embedded_lc_survives_witness:
  "let ed = ed_setLC (new_embedded_data (replicate 72 False) (replicate 128 False)) (replicate 9 0) (new_lc FLCO_GROUP 1234567 91)
   in case foldl (\<lambda>(_, rx) n. ed_addData rx (snd (ed_getData ed (replicate 33 0xA5) n)) (fst (ed_getData ed (replicate 33 0xA5) n)))
         (False, new_embedded_data (replicate 72 True) (replicate 128 True)) [1, 2, 3, 4]
      of (complete, rx) \<Rightarrow> complete \<and> ed_getLC rx = Some (new_lc FLCO_GROUP 1234567 91)"
  unfolding Let_def
  by (rule embedded_lc_survives [OF _ _ _ _ _ _ _ _ embedded_noise_refl])
    (simp_all add: lc_ok_def new_lc_def CALL_PRIORITY_2_def FLCO_GROUP_def new_embedded_data_def)

end
