(* ===== verification/Spec2Isabelle.thy ===== *)
theory Spec2Isabelle
  imports Prelude ByteUtils Timer RingBuffer FrameRing CRC AffiliationLookup DMRAffiliation Lookups RTP SHA256 BaseNetwork
    FNEState FNENetwork FNELogin FNESafety Hamming BPTC RS129 LinkControl NetMessages FNETraffic TagDMR TagP25 TagNXDN FNEHandlers
    HostNetwork HostSession HostTraffic PolyCodes GolayTables Golay24128 AMBETables AMBEFEC Golay2087 SlotType QR1676 EMB EmbeddedData
begin

text \<open>
  Verification development of dvmhost: a digital voice modem host for DMR, P25 and NXDN repeaters
  (\<^verbatim>\<open>src/src/host\<close>), the fixed network equipment (FNE) that connects hosts
  (\<^verbatim>\<open>src/src/fne\<close>), and the code both share (\<^verbatim>\<open>src/src/common\<close>).

  THE PROGRAM. A host takes bursts from its modem, corrects and interprets them, queues what it
  transmits in ring buffers, grants voice channels to calls, and exchanges call data with an FNE over a
  datagram protocol.  The FNE keeps a table of peers (the hosts), lets them log in with a salted SHA-256 hash,
  sends them the radio and talkgroup lists, and repeats the call data of one peer to the others.  Modelled are the
  network protocol with both of its ends, the tables both programs decide with, the error correction of
  the voice and control bursts, and the queues between network and modem.

  HOW CODE BECOMES DEFINITIONS. A class is a record with the code's member names (a prefix where
  two classes use one name), a method a function on it that returns the new record; derived classes extend the
  record.  Integers are words of the code's width (\<open>u8\<close>, \<open>u16\<close>, \<open>u32\<close>, \<open>u64\<close>) and wrap; a
  buffer is a list of bytes, an array of \<open>bool\<close> a list of bits, an unordered map a partial function, and a
  loop over such a map takes the order of its walk as an argument.  What the outside decides (clock, random
  numbers, the result of a socket call, the datagram received, the JSON parser, what uninitialised memory holds)
  is an environment record, one for each step.  \<open>None\<close> in the result of an operation means that the
  code leaves its defined behaviour or does not come back: an access outside an array, a failed
  assertion, a loop without end, a lock that is never released; where the code returns a null
  pointer, \<open>None\<close> is that.  Logging is left out.

  THE THEORIES, with the files they model.
  \<^item> \<open>Prelude\<close>: types, rule collections, lemmas on lists and folds.  \<open>ByteUtils\<close>
    (\<^verbatim>\<open>common/Utils\<close>): bit and byte helpers, and \<open>bits_of\<close>, the bits of a buffer, which is the abstraction of
    the codes.  \<open>Timer\<close> (\<^verbatim>\<open>common/Timer\<close>, \<^verbatim>\<open>StopWatch\<close>).
  \<^item> Queues: \<open>RingBuffer\<close> (\<^verbatim>\<open>common/RingBuffer.h\<close>) with the locale \<open>fifo\<close>, the contract that
    \<open>FrameRing\<close> uses, the frame queues of \<^verbatim>\<open>host/dmr/Slot.cpp\<close>, \<^verbatim>\<open>host/p25/Control.cpp\<close>,
    \<^verbatim>\<open>host/nxdn/Control.cpp\<close> and \<^verbatim>\<open>common/network/BaseNetwork.cpp\<close>.  The slot queues refine bounded lists of frames.
  \<^item> Tables: \<open>AffiliationLookup\<close> and \<open>DMRAffiliation\<close> (channel grants; the locale \<open>grant_table\<close> is what an
    allocator promises), \<open>Lookups\<close> (radio and talkgroup tables, access control).
  \<^item> Checksums and codes (\<^verbatim>\<open>common/edac\<close>): \<open>CRC\<close> (locales \<open>byte_crc\<close>, \<open>bit_crc\<close>), \<open>Hamming\<close>
    (\<open>hamming_code\<close>, \<open>hamming_detecting\<close>), \<open>BPTC\<close>, \<open>RS129\<close>, \<open>SHA256\<close>; \<open>PolyCodes\<close> with the locale
    \<open>error_table\<close> for the codes that look a syndrome up, which are \<open>Golay24128\<close> (tables in \<open>GolayTables\<close>), \<open>Golay2087\<close> and
    \<open>QR1676\<close>; \<open>AMBEFEC\<close> (tables in \<open>AMBETables\<close>), the correction of the voice frames of all three modes.
  \<^item> DMR bursts (\<^verbatim>\<open>common/dmr\<close>): \<open>LinkControl\<close> (full and privacy link control), \<open>SlotType\<close>, \<open>EMB\<close> (embedded
    signalling, sync patterns), \<open>EmbeddedData\<close> (link control spread over four bursts).
  \<^item> Network (\<^verbatim>\<open>common/network\<close>): \<open>RTP\<close> (headers, datagrams, the receiver's checks), \<open>BaseNetwork\<close> and \<open>NetMessages\<close>
    (\<^verbatim>\<open>BaseNetwork.cpp\<close> and the messages of the three modes).
  \<^item> FNE (\<^verbatim>\<open>fne/network\<close>): \<open>FNEState\<close> and \<open>FNENetwork\<close> (\<^verbatim>\<open>FNENetwork.cpp\<close>: peers, handlers, clock), \<open>FNETraffic\<close>
    (what the traffic handlers share, with the locales \<open>repeater\<close> and \<open>parrot\<close>), \<open>TagDMR\<close>, \<open>TagP25\<close>, \<open>TagNXDN\<close> (the handlers in
    \<^verbatim>\<open>fne/network/fne\<close>).  \<open>FNELogin\<close> has the abstract login protocol and the refinement, \<open>FNESafety\<close> the
    properties of runs under the contract \<open>traffic_ok\<close>, \<open>FNEHandlers\<close> shows that the real handlers meet it.
  \<^item> Host (\<^verbatim>\<open>host/network/Network.cpp\<close>): \<open>HostNetwork\<close>; \<open>HostSession\<close> and \<open>HostTraffic\<close> run it against the FNE.

  WHAT THE LEMMAS SHOW. Queues: every history of additions and fetches gives the frames of lists.
  Allocation: channels are never shared, and never lost while a destination is granted a channel only when it has none.
  Codes: what is encoded is decoded again, through stated error patterns; table-driven routines equal
  bit-serial or polynomial references; the hash equals the standard's.  Network: what one end frames the
  other takes apart; a connected peer has logged in; a login and a voice frame are followed through both programs;
  repeated frames go exactly to the permitted peers; the traffic handlers leave the login alone.
  Errors: properties of kind error state where the code does something its callers
  cannot want, such as an index out of bounds, a lost channel, rules that are never applied, a correction that
  is discarded.

  BOUNDS AND TERMINATION. No operation runs on fuel.  The division loops of the Golay and QR decoders may not
  end for words wider than the code: they are partial functions in the option monad, and \<open>AMBEFEC\<close>,
  \<open>Golay2087\<close> and \<open>QR1676\<close> show that they return for every word the callers pass.  The loops of the host over
  the received lists count in 8 bits and would run on past the message: there the model stops with \<open>None\<close>, and \<open>HostNetwork\<close>
  shows that they end exactly below 256 entries.  All other loops are structural or have a measure.  A datagram holds 8192 bytes, hence the 8160 bytes of message in the
  properties; message lengths of the hash are below \<open>2 ^ 32\<close>.

  NOT MODELLED. The call state machines of the host (\<^verbatim>\<open>host/dmr/Slot.cpp\<close>, \<^verbatim>\<open>host/p25/Control.cpp\<close>,
  \<^verbatim>\<open>host/nxdn/Control.cpp\<close> and their packet handlers) beyond their queues, tables and codes, and the message
  classes only they use (CSBK, TSBK, short link control, packet data headers, NXDN channels, and the
  trellis, BCH and convolutional codes): each state machine shares mutable state with
  its packet handlers and needs all of those classes, so a partial model would leave its guards out.  The P25 voice messages
  (LDU1, LDU2), which re-code audio through \<^verbatim>\<open>p25/dfsi\<close>; the FNE's rebuilding of a rewritten P25 trunking block is an
  argument (\<open>env_tsdu\<close>), and no rewrite ever reaches it.  Modem and firmware (a submodule), sockets, threads, log, REST,
  setup, calibration, the monitor and remote programs, and the vendored YAML, JSON, asio and Reed-Solomon (63) libraries.
  Threads do not interleave inside an operation.  Two liberties: the byte that \<open>sprintf\<close> writes past the
  configuration message is left out, so that the login can be stated, and the wall clock in
  RTP headers is an argument.
\<close>

end
